(* ===== verification/Sk_Types.thy ===== *)
theory Sk_Types
  imports Sk_Prelude
begin

text \<open>
  The shared domain types of \<^verbatim>\<open>crates/sysknife-types/src/lib.rs\<close>: caller roles and their
  privilege order, risk levels, job states, the catalogue of action names, the IPC
  envelopes, and the bridge between the envelopes and their protobuf messages
  (\<^verbatim>\<open>crates/sysknife-proto\<close>), with the round trips of that bridge.

  The JSON printer and parser of the \<^verbatim>\<open>serde_json\<close> crate are the parameters \<open>to_string\<close>
  and \<open>from_str\<close> of the bridge. A protobuf enumeration travels as its \<^verbatim>\<open>i32\<close> code, an \<open>int\<close> here; the
  codes are those of \<^verbatim>\<open>proto/sysknife/v1\<close>.
\<close>

section \<open>Roles, risk levels, job states\<close>

datatype caller_role = Observer | Dev | Admin | Boot

text \<open>\<^verbatim>\<open>CallerRole\<close> derives \<^verbatim>\<open>Ord\<close>: the order of the variants is the privilege order.\<close>

fun role_rank :: "caller_role \<Rightarrow> nat" where
  "role_rank Observer = 0"
| "role_rank Dev = 1"
| "role_rank Admin = 2"
| "role_rank Boot = 3"

lemma role_rank_inject [simp]: "role_rank a = role_rank b \<longleftrightarrow> a = b"
  by (cases a; cases b) simp_all

instantiation caller_role :: linorder
begin

definition less_eq_caller_role :: "caller_role \<Rightarrow> caller_role \<Rightarrow> bool" where
  "a \<le> b \<longleftrightarrow> role_rank a \<le> role_rank b"

definition less_caller_role :: "caller_role \<Rightarrow> caller_role \<Rightarrow> bool" where
  "a < b \<longleftrightarrow> role_rank a < role_rank b"

instance
  by standard (auto simp: less_eq_caller_role_def less_caller_role_def)

end

lemmas role_order_defs = less_eq_caller_role_def less_caller_role_def

lemma Observer_least [simp]: "Observer \<le> r"
  by (simp add: less_eq_caller_role_def)

lemma Boot_greatest [simp]: "r \<le> Boot"
  by (cases r) (simp_all add: less_eq_caller_role_def)

fun role_as_str :: "caller_role \<Rightarrow> string" where
  "role_as_str Observer = ''observer''"
| "role_as_str Dev = ''dev''"
| "role_as_str Admin = ''admin''"
| "role_as_str Boot = ''boot''"

lemma role_as_str_inject [simp]: "role_as_str a = role_as_str b \<longleftrightarrow> a = b"
  by (cases a; cases b) simp_all

datatype risk_level = Low | Medium | High

datatype job_state = Queued | Running | Succeeded | Failed | Canceled | RolledBack | NeedsReboot

datatype failure_category =
    ValidationFailure | AuthorizationFailure | PolicyDenied | StaleApproval | ExecutionFailure
  | TransientInfrastructureFailure | Cancellation | StuckExecution | RebootRequired | RollbackFailure

section \<open>The catalogue of action names\<close>

definition KNOWN_ACTION_NAMES :: "string list" where
  "KNOWN_ACTION_NAMES = [
    ''GetSystemState'', ''CollectDiagnostics'', ''GetDeploymentHistory'', ''ListDeployments'',
    ''UpdateSystem'', ''CleanupDeployments'', ''RebootSystem'', ''RollbackDeployment'',
    ''GetKernelArguments'', ''PinDeployment'', ''UnpinDeployment'', ''RebaseSystem'',
    ''SetKernelArguments'', ''InstallFlatpak'', ''RemoveFlatpak'', ''UpdateFlatpak'',
    ''SearchFlatpakApps'', ''ListFlatpakRemotes'', ''ListInstalledFlatpaks'', ''AddFlatpakRemote'',
    ''RemoveFlatpakRemote'', ''GetFlatpakAppInfo'', ''ListToolboxes'', ''CreateToolbox'',
    ''RemoveToolbox'', ''GetLayeredPackages'', ''ResetLayeredPackageOverride'', ''GetPendingUpdates'',
    ''InstallPackages'', ''RemovePackages'', ''AddLayeredPackage'', ''RemoveLayeredPackage'',
    ''ReplaceLayeredPackage'', ''RemoveBasePackage'', ''ListServices'', ''ListTimers'',
    ''ReloadDaemon'', ''CreateScheduledJob'', ''StartService'', ''StopService'',
    ''RestartService'', ''ReloadService'', ''SetServiceEnabled'', ''MaskService'',
    ''UnmaskService'', ''GetServiceLogs'', ''GetServiceStatus'', ''GetServiceResourceLimits'',
    ''SetServiceResourceLimits'', ''GetFirewallState'', ''GetNetworkStatus'', ''GetListeningPorts'',
    ''GetNftablesRuleset'', ''GetFirewallBackendState'', ''ConfigureWifi'', ''SetDnsServers'',
    ''ConfigureFirewall'', ''GetDiskUsage'', ''ListProcesses'', ''SignalProcess'',
    ''GetMemoryInfo'', ''GetHostState'', ''GetJournalLog'', ''VacuumJournal'',
    ''GetLvmReport'', ''ExtendLogicalVolume'', ''CreateLogicalVolume'', ''CreateLvSnapshot'',
    ''GetSysctl'', ''SetSysctl'', ''GetMounts'', ''AddMount'',
    ''RemoveMount'', ''AddSwap'', ''RemoveSwap'', ''GetSudoGrants'',
    ''GrantSudoAccess'', ''RevokeSudoAccess'', ''GetLogrotateStatus'', ''ConfigureLogRotation'',
    ''RemoveLogRotation'', ''ConfigureRemoteSyslog'', ''RemoveRemoteSyslog'', ''GetPasswordAging'',
    ''SetPasswordAging'', ''SetPasswordPolicy'', ''SetAccountLockout'', ''GetAuditRules'',
    ''AddAuditRule'', ''RemoveAuditRule'', ''GetCertificates'', ''ObtainCertificate'',
    ''RenewCertificates'', ''GetDateTime'', ''SetHostname'', ''SetTimezone'',
    ''SetLocale'', ''SetNtp'', ''ListPackageRepositories'', ''AddPackageRepository'',
    ''RemovePackageRepository'', ''EnablePackageRepository'', ''DisablePackageRepository'', ''ListContainers'',
    ''CreateContainer'', ''StartContainer'', ''StopContainer'', ''RemoveContainer'',
    ''GetContainerInfo'', ''ListUsers'', ''ListGroups'', ''CreateUser'',
    ''DeleteUser'', ''AddUserToGroup'', ''RemoveUserFromGroup'', ''CreateGroup'',
    ''DeleteGroup'', ''LockUserAccount'', ''UnlockUserAccount'', ''GetAuthorizedKeys'',
    ''AddAuthorizedKey'', ''RemoveAuthorizedKey'', ''SetSshdOption'', ''ListJobHistory'',
    ''AptUpdate'', ''AptUpgrade'', ''AptInstall'', ''AptRemove'',
    ''AptPurge'', ''AptAutoremove'', ''AptHold'', ''AptUnhold'',
    ''AptSearch'', ''AptListInstalled'', ''AptShow'', ''AptListUpgradable'',
    ''AptHistoryList'', ''ConfigureUnattendedUpgrades'', ''GetAptPins'', ''SetAptPin'',
    ''RemoveAptPin'', ''AddPpa'', ''RemovePpa'', ''SnapInstall'',
    ''SnapRemove'', ''SnapRefresh'', ''SnapHold'', ''SnapUnhold'',
    ''SnapList'', ''SnapInfo'', ''SnapRevert'', ''SnapClassicInstall'',
    ''UfwEnable'', ''UfwDisable'', ''UfwAllow'', ''UfwDeny'',
    ''UfwReset'', ''UfwStatus'', ''DistroboxList'', ''DistroboxCreate'',
    ''DistroboxRemove'', ''NetplanGetConfig'', ''NetplanApply'', ''NetplanSet'',
    ''NetplanGenerate'', ''GrubGetKargs'', ''GrubSetKargs'', ''CheckPendingReboot'',
    ''ResolvectlStatus'', ''ResolvectlSetDns'', ''AppArmorStatus'', ''AppArmorEnforce'',
    ''AppArmorComplain'', ''CloudInitStatus'', ''UbuntuInstallFlatpak'', ''UbuntuRemoveFlatpak'',
    ''UbuntuUpdateFlatpak'', ''UbuntuListFlatpaks'', ''Fail2banStatus'', ''Fail2banBanIp'',
    ''Fail2banUnbanIp'', ''ConfigureFail2banJail'', ''UbuntuReleaseUpgrade'', ''ProStatus'',
    ''ProAttach'', ''ProDetach'', ''EnableProService'', ''DisableProService'',
    ''LivepatchStatus'', ''MultipassList'', ''UfwDeleteRule'', ''UfwLimit'']"

datatype unknown_action_name = UnknownActionName string

definition action_name_parse :: "string \<Rightarrow> unknown_action_name + string" where
  "action_name_parse name =
     (if List.member KNOWN_ACTION_NAMES name then Inr name else Inl (UnknownActionName name))"

lemma action_name_parse_Inr [simp]:
  "action_name_parse name = Inr n \<longleftrightarrow> n = name \<and> name \<in> set KNOWN_ACTION_NAMES"
  by (auto simp: action_name_parse_def)

section \<open>JSON values and envelopes\<close>

text \<open>\<^verbatim>\<open>serde_json::Value\<close>; a floating point number is represented by its bits.\<close>

datatype json =
    JNull | JBool bool | JInt int | JFloat nat | JStr string
  | JArr "json list" | JObj "(string \<times> json) list"

record request_envelope =
  req_action_name :: string
  req_request_id :: string
  req_params :: json
  req_caller_role :: caller_role
  req_request_hash :: string

record preview_envelope =
  pv_summary :: string
  pv_risk_level :: risk_level
  pv_current_state :: json
  pv_proposed_change :: json
  pv_expected_side_effects :: "string list"
  pv_reboot_required :: bool
  pv_rollback_available :: bool
  pv_warnings :: "string list"
  pv_request_hash :: string

record result_envelope =
  res_status :: job_state
  res_summary :: string
  res_warnings :: "string list"
  res_job_id :: "string option"
  res_needs_reboot :: bool
  res_rollback_ref :: "string option"
  res_transaction_id :: string

record transaction_record =
  tr_transaction_id :: string
  tr_request_id :: string
  tr_request_hash :: string
  tr_action_name :: string
  tr_risk_level :: risk_level
  tr_status :: job_state
  tr_approval_id :: "string option"
  tr_summary :: string
  tr_warnings :: "string list"

section \<open>The protobuf bridge\<close>

datatype bridge_error = InvalidJson string | InvalidEnum string int

subsection \<open>Enumerations\<close>

fun role_to_proto :: "caller_role \<Rightarrow> int" where
  "role_to_proto Observer = 1"
| "role_to_proto Dev = 2"
| "role_to_proto Admin = 3"
| "role_to_proto Boot = 4"

definition role_of_proto :: "int \<Rightarrow> bridge_error + caller_role" where
  "role_of_proto code =
     (if code = 1 then Inr Observer else if code = 2 then Inr Dev
      else if code = 3 then Inr Admin else if code = 4 then Inr Boot
      else Inl (InvalidEnum ''caller_role'' code))"

fun risk_to_proto :: "risk_level \<Rightarrow> int" where
  "risk_to_proto Low = 1"
| "risk_to_proto Medium = 2"
| "risk_to_proto High = 3"

definition risk_of_proto :: "int \<Rightarrow> bridge_error + risk_level" where
  "risk_of_proto code =
     (if code = 1 then Inr Low else if code = 2 then Inr Medium
      else if code = 3 then Inr High else Inl (InvalidEnum ''risk_level'' code))"

fun job_state_to_proto :: "job_state \<Rightarrow> int" where
  "job_state_to_proto Queued = 1"
| "job_state_to_proto Running = 2"
| "job_state_to_proto Succeeded = 3"
| "job_state_to_proto Failed = 4"
| "job_state_to_proto Canceled = 5"
| "job_state_to_proto RolledBack = 6"
| "job_state_to_proto NeedsReboot = 7"

definition job_state_of_proto :: "int \<Rightarrow> bridge_error + job_state" where
  "job_state_of_proto code =
     (if code = 1 then Inr Queued else if code = 2 then Inr Running
      else if code = 3 then Inr Succeeded else if code = 4 then Inr Failed
      else if code = 5 then Inr Canceled else if code = 6 then Inr RolledBack
      else if code = 7 then Inr NeedsReboot else Inl (InvalidEnum ''job_state'' code))"

fun failure_to_proto :: "failure_category \<Rightarrow> int" where
  "failure_to_proto ValidationFailure = 1"
| "failure_to_proto AuthorizationFailure = 2"
| "failure_to_proto PolicyDenied = 3"
| "failure_to_proto StaleApproval = 4"
| "failure_to_proto ExecutionFailure = 5"
| "failure_to_proto TransientInfrastructureFailure = 6"
| "failure_to_proto Cancellation = 7"
| "failure_to_proto StuckExecution = 8"
| "failure_to_proto RebootRequired = 9"
| "failure_to_proto RollbackFailure = 10"

definition failure_of_proto :: "int \<Rightarrow> bridge_error + failure_category" where
  "failure_of_proto code =
     (if code = 1 then Inr ValidationFailure else if code = 2 then Inr AuthorizationFailure
      else if code = 3 then Inr PolicyDenied else if code = 4 then Inr StaleApproval
      else if code = 5 then Inr ExecutionFailure
      else if code = 6 then Inr TransientInfrastructureFailure
      else if code = 7 then Inr Cancellation else if code = 8 then Inr StuckExecution
      else if code = 9 then Inr RebootRequired else if code = 10 then Inr RollbackFailure
      else Inl (InvalidEnum ''failure_category'' code))"

text \<open>
  The generated \<^verbatim>\<open>proto::X::try_from(i32)\<close> accepts the codes the \<^verbatim>\<open>.proto\<close> file declares,
  0 (unspecified) included; the bridge then refuses 0. Both failures give the same
  \<^verbatim>\<open>InvalidEnum\<close>, so the composition is \<open>role_of_proto\<close> (and its kin) on the raw code.
\<close>

subsection \<open>Messages\<close>

record proto_request =
  p_action_name :: string
  p_request_id :: string
  p_params_json :: string
  p_caller_role :: int
  p_request_hash :: string

record proto_preview =
  p_pv_summary :: string
  p_pv_risk_level :: int
  p_pv_current_state_json :: string
  p_pv_proposed_change_json :: string
  p_pv_expected_side_effects :: "string list"
  p_pv_reboot_required :: bool
  p_pv_rollback_available :: bool
  p_pv_warnings :: "string list"
  p_pv_request_hash :: string

record proto_result =
  p_res_status :: int
  p_res_summary :: string
  p_res_warnings :: "string list"
  p_res_job_id :: string
  p_res_needs_reboot :: bool
  p_res_rollback_ref :: string
  p_res_transaction_id :: string

record proto_transaction =
  p_tr_transaction_id :: string
  p_tr_request_id :: string
  p_tr_request_hash :: string
  p_tr_action_name :: string
  p_tr_risk_level :: int
  p_tr_status :: int
  p_tr_approval_id :: string
  p_tr_summary :: string
  p_tr_warnings :: "string list"

text \<open>\<^verbatim>\<open>Option<String>::unwrap_or_default\<close> and its inverse, which reads the empty string as absent.\<close>

definition unwrap_or_default :: "string option \<Rightarrow> string" where
  "unwrap_or_default v = (case v of None \<Rightarrow> [] | Some s \<Rightarrow> s)"

definition none_if_empty :: "string \<Rightarrow> string option" where
  "none_if_empty s = (if s = [] then None else Some s)"

definition drop_empty :: "string option \<Rightarrow> string option" where
  "drop_empty v = (if v = Some [] then None else v)"

lemma none_if_empty_unwrap [simp]: "none_if_empty (unwrap_or_default v) = drop_empty v"
  by (cases v) (auto simp: none_if_empty_def unwrap_or_default_def drop_empty_def)

lemma drop_empty_id [simp]: "v \<noteq> Some [] \<Longrightarrow> drop_empty v = v"
  by (simp add: drop_empty_def)

definition request_to_proto :: "(json \<Rightarrow> string) \<Rightarrow> request_envelope \<Rightarrow> proto_request" where
  "request_to_proto to_string v = \<lparr>
     p_action_name = req_action_name v,
     p_request_id = req_request_id v,
     p_params_json = to_string (req_params v),
     p_caller_role = role_to_proto (req_caller_role v),
     p_request_hash = req_request_hash v\<rparr>"

definition request_of_proto ::
    "(string \<Rightarrow> json option) \<Rightarrow> proto_request \<Rightarrow> bridge_error + request_envelope" where
  "request_of_proto from_str v =
     and_then (ok_or (InvalidJson ''params_json'') (from_str (p_params_json v))) (\<lambda>params.
     and_then (role_of_proto (p_caller_role v)) (\<lambda>role.
     Inr \<lparr>req_action_name = p_action_name v, req_request_id = p_request_id v,
          req_params = params, req_caller_role = role,
          req_request_hash = p_request_hash v\<rparr>))"

definition preview_to_proto :: "(json \<Rightarrow> string) \<Rightarrow> preview_envelope \<Rightarrow> proto_preview" where
  "preview_to_proto to_string v = \<lparr>
     p_pv_summary = pv_summary v,
     p_pv_risk_level = risk_to_proto (pv_risk_level v),
     p_pv_current_state_json = to_string (pv_current_state v),
     p_pv_proposed_change_json = to_string (pv_proposed_change v),
     p_pv_expected_side_effects = pv_expected_side_effects v,
     p_pv_reboot_required = pv_reboot_required v,
     p_pv_rollback_available = pv_rollback_available v,
     p_pv_warnings = pv_warnings v,
     p_pv_request_hash = pv_request_hash v\<rparr>"

definition preview_of_proto ::
    "(string \<Rightarrow> json option) \<Rightarrow> proto_preview \<Rightarrow> bridge_error + preview_envelope" where
  "preview_of_proto from_str v =
     and_then (ok_or (InvalidJson ''current_state_json'') (from_str (p_pv_current_state_json v)))
       (\<lambda>current.
     and_then (ok_or (InvalidJson ''proposed_change_json'') (from_str (p_pv_proposed_change_json v)))
       (\<lambda>proposed.
     and_then (risk_of_proto (p_pv_risk_level v)) (\<lambda>risk.
     Inr \<lparr>pv_summary = p_pv_summary v, pv_risk_level = risk, pv_current_state = current,
          pv_proposed_change = proposed,
          pv_expected_side_effects = p_pv_expected_side_effects v,
          pv_reboot_required = p_pv_reboot_required v,
          pv_rollback_available = p_pv_rollback_available v,
          pv_warnings = p_pv_warnings v, pv_request_hash = p_pv_request_hash v\<rparr>)))"

definition result_to_proto :: "result_envelope \<Rightarrow> proto_result" where
  "result_to_proto v = \<lparr>
     p_res_status = job_state_to_proto (res_status v),
     p_res_summary = res_summary v,
     p_res_warnings = res_warnings v,
     p_res_job_id = unwrap_or_default (res_job_id v),
     p_res_needs_reboot = res_needs_reboot v,
     p_res_rollback_ref = unwrap_or_default (res_rollback_ref v),
     p_res_transaction_id = res_transaction_id v\<rparr>"

definition result_of_proto :: "proto_result \<Rightarrow> bridge_error + result_envelope" where
  "result_of_proto v =
     and_then (job_state_of_proto (p_res_status v)) (\<lambda>status.
     Inr \<lparr>res_status = status, res_summary = p_res_summary v, res_warnings = p_res_warnings v,
          res_job_id = none_if_empty (p_res_job_id v),
          res_needs_reboot = p_res_needs_reboot v,
          res_rollback_ref = none_if_empty (p_res_rollback_ref v),
          res_transaction_id = p_res_transaction_id v\<rparr>)"

definition transaction_to_proto :: "transaction_record \<Rightarrow> proto_transaction" where
  "transaction_to_proto v = \<lparr>
     p_tr_transaction_id = tr_transaction_id v,
     p_tr_request_id = tr_request_id v,
     p_tr_request_hash = tr_request_hash v,
     p_tr_action_name = tr_action_name v,
     p_tr_risk_level = risk_to_proto (tr_risk_level v),
     p_tr_status = job_state_to_proto (tr_status v),
     p_tr_approval_id = unwrap_or_default (tr_approval_id v),
     p_tr_summary = tr_summary v,
     p_tr_warnings = tr_warnings v\<rparr>"

definition transaction_of_proto :: "proto_transaction \<Rightarrow> bridge_error + transaction_record" where
  "transaction_of_proto v =
     and_then (risk_of_proto (p_tr_risk_level v)) (\<lambda>risk.
     and_then (job_state_of_proto (p_tr_status v)) (\<lambda>status.
     Inr \<lparr>tr_transaction_id = p_tr_transaction_id v, tr_request_id = p_tr_request_id v,
          tr_request_hash = p_tr_request_hash v, tr_action_name = p_tr_action_name v,
          tr_risk_level = risk, tr_status = status,
          tr_approval_id = none_if_empty (p_tr_approval_id v),
          tr_summary = p_tr_summary v, tr_warnings = p_tr_warnings v\<rparr>))"

section \<open>The enumeration bridge as an interface\<close>

text \<open>
  Every enumeration crosses the wire the same way: an encoder into \<^verbatim>\<open>i32\<close> and a partial
  decoder that names its field in the error. The contract: decoding an encoded value gives
  it back, a decoded value encodes to the code it came from, and 0, the unspecified code of
  proto3, is refused.
\<close>

locale enum_bridge =
  fixes encode :: "'a \<Rightarrow> int"
    and decode :: "int \<Rightarrow> bridge_error + 'a"
    and field :: string
  assumes decode_encode: "decode (encode x) = Inr x"
    and encode_decode: "decode c = Inr x \<Longrightarrow> encode x = c"
    and decode_error: "decode c = Inl e \<Longrightarrow> e = InvalidEnum field c"
    and encode_pos: "0 < encode x"
begin

lemma encode_inject: "encode x = encode y \<longleftrightarrow> x = y"
  by (metis decode_encode sum.inject(2))

lemma decode_iff: "decode c = Inr x \<longleftrightarrow> encode x = c"
  using decode_encode encode_decode by blast

lemma decode_unspecified: "decode 0 = Inl (InvalidEnum field 0)"
proof (cases "decode 0")
  case (Inl e)
  then show ?thesis using decode_error by blast
next
  case (Inr x)
  then show ?thesis using encode_decode [of 0 x] encode_pos [of x] by simp
qed

end

interpretation role_bridge: enum_bridge role_to_proto role_of_proto "''caller_role''"
proof
  fix x :: caller_role
  show "role_of_proto (role_to_proto x) = Inr x" "0 < role_to_proto x"
    by (cases x; simp add: role_of_proto_def)+
qed (auto simp: role_of_proto_def split: if_splits)

interpretation risk_bridge: enum_bridge risk_to_proto risk_of_proto "''risk_level''"
proof
  fix x :: risk_level
  show "risk_of_proto (risk_to_proto x) = Inr x" "0 < risk_to_proto x"
    by (cases x; simp add: risk_of_proto_def)+
qed (auto simp: risk_of_proto_def split: if_splits)

interpretation job_bridge: enum_bridge job_state_to_proto job_state_of_proto "''job_state''"
proof
  fix x :: job_state
  show "job_state_of_proto (job_state_to_proto x) = Inr x" "0 < job_state_to_proto x"
    by (cases x; simp add: job_state_of_proto_def)+
qed (auto simp: job_state_of_proto_def split: if_splits)

interpretation failure_bridge: enum_bridge failure_to_proto failure_of_proto "''failure_category''"
proof
  fix x :: failure_category
  show "failure_of_proto (failure_to_proto x) = Inr x" "0 < failure_to_proto x"
    by (cases x; simp add: failure_of_proto_def)+
qed (auto simp: failure_of_proto_def split: if_splits)

lemmas bridge_roundtrips =
  role_bridge.decode_encode risk_bridge.decode_encode job_bridge.decode_encode

section \<open>Round trips of the messages\<close>

lemma request_roundtrip:
  assumes "from_str (to_string (req_params v)) = Some (req_params v)"
  shows "request_of_proto from_str (request_to_proto to_string v) = Inr v"
  using assms by (simp add: request_of_proto_def request_to_proto_def bridge_roundtrips)

lemma preview_roundtrip:
  assumes "from_str (to_string (pv_current_state v)) = Some (pv_current_state v)"
    and "from_str (to_string (pv_proposed_change v)) = Some (pv_proposed_change v)"
  shows "preview_of_proto from_str (preview_to_proto to_string v) = Inr v"
  using assms by (simp add: preview_of_proto_def preview_to_proto_def bridge_roundtrips)

lemma result_roundtrip:
  "result_of_proto (result_to_proto v) =
     Inr (v\<lparr>res_job_id := drop_empty (res_job_id v), res_rollback_ref := drop_empty (res_rollback_ref v)\<rparr>)"
  by (simp add: result_of_proto_def result_to_proto_def bridge_roundtrips)

lemma transaction_roundtrip:
  "transaction_of_proto (transaction_to_proto v) =
     Inr (v\<lparr>tr_approval_id := drop_empty (tr_approval_id v)\<rparr>)"
  by (simp add: transaction_of_proto_def transaction_to_proto_def bridge_roundtrips)

section \<open>Properties\<close>

text \<open>The wire bridge. Every enumeration survives the crossing to protobuf and back, every code that
  decodes is the code of the value it decodes to, and 0 (unspecified in proto3) is an error that names
  the field.\<close>

lemma enums_cross_wire:
  "role_of_proto (role_to_proto r) = Inr r \<and> risk_of_proto (risk_to_proto k) = Inr k
   \<and> job_state_of_proto (job_state_to_proto j) = Inr j \<and> failure_of_proto (failure_to_proto f) = Inr f
   \<and> (role_of_proto c = Inr r) = (role_to_proto r = c) \<and> (risk_of_proto c = Inr k) = (risk_to_proto k = c)
   \<and> (job_state_of_proto c = Inr j) = (job_state_to_proto j = c) \<and> (failure_of_proto c = Inr f) = (failure_to_proto f = c)
   \<and> role_of_proto 0 = Inl (InvalidEnum ''caller_role'' 0) \<and> risk_of_proto 0 = Inl (InvalidEnum ''risk_level'' 0)
   \<and> job_state_of_proto 0 = Inl (InvalidEnum ''job_state'' 0)
   \<and> failure_of_proto 0 = Inl (InvalidEnum ''failure_category'' 0)"
  using role_bridge.decode_encode risk_bridge.decode_encode job_bridge.decode_encode failure_bridge.decode_encode
    role_bridge.decode_iff risk_bridge.decode_iff job_bridge.decode_iff failure_bridge.decode_iff
    role_bridge.decode_unspecified risk_bridge.decode_unspecified job_bridge.decode_unspecified
    failure_bridge.decode_unspecified by simp

text \<open>C40: Messages cross the wire unchanged. With a JSON printer that the parser inverts on the values at
  hand, requests and previews come back as they were sent; results and transaction records come back
  with an empty optional string read as absent, and with nothing else changed.\<close>

theorem messages_cross_wire:
  assumes "\<forall>v \<in> {req_params q, pv_current_state p, pv_proposed_change p}. from_str (to_string v) = Some v"
  shows "request_of_proto from_str (request_to_proto to_string q) = Inr q
    \<and> preview_of_proto from_str (preview_to_proto to_string p) = Inr p
    \<and> result_of_proto (result_to_proto r) =
        Inr (r\<lparr>res_job_id := drop_empty (res_job_id r), res_rollback_ref := drop_empty (res_rollback_ref r)\<rparr>)
    \<and> transaction_of_proto (transaction_to_proto t) = Inr (t\<lparr>tr_approval_id := drop_empty (tr_approval_id t)\<rparr>)"
  using assms by (simp add: request_roundtrip preview_roundtrip result_roundtrip transaction_roundtrip)

theorem messages_cross_wire_witness:
  "transaction_of_proto (transaction_to_proto \<lparr>tr_transaction_id = ''t'', tr_request_id = ''r'',
      tr_request_hash = ''h'', tr_action_name = ''GetSystemStatus'', tr_risk_level = Low, tr_status = Queued,
      tr_approval_id = Some ''a'', tr_summary = ''s'', tr_warnings = []\<rparr>)
   = Inr \<lparr>tr_transaction_id = ''t'', tr_request_id = ''r'',
      tr_request_hash = ''h'', tr_action_name = ''GetSystemStatus'', tr_risk_level = Low, tr_status = Queued,
      tr_approval_id = Some ''a'', tr_summary = ''s'', tr_warnings = []\<rparr>"
proof -
  let ?q = "\<lparr>req_action_name = ''GetSystemStatus'', req_request_id = ''r'', req_params = JNull,
    req_caller_role = Observer, req_request_hash = ''h''\<rparr>"
  let ?p = "\<lparr>pv_summary = [], pv_risk_level = Low, pv_current_state = JNull, pv_proposed_change = JNull,
    pv_expected_side_effects = [], pv_reboot_required = False, pv_rollback_available = False,
    pv_warnings = [], pv_request_hash = ''h''\<rparr>"
  show ?thesis
    using messages_cross_wire [of ?q ?p "\<lambda>s. if s = ''null'' then Some JNull else None" "\<lambda>v. ''null''" _
        "\<lparr>tr_transaction_id = ''t'', tr_request_id = ''r'', tr_request_hash = ''h'',
          tr_action_name = ''GetSystemStatus'', tr_risk_level = Low, tr_status = Queued,
          tr_approval_id = Some ''a'', tr_summary = ''s'', tr_warnings = []\<rparr>"]
    by simp
qed

end
