(* ===== verification/Sk_Encoding.thy ===== *)
theory Sk_Encoding
  imports Sk_Types
begin

text \<open>
  The canonical byte encodings that the audit key signs
  (\<^verbatim>\<open>crates/sysknife-daemon/src/audit_chain.rs\<close>): field framing and escaping (\<^verbatim>\<open>push_field\<close>),
  the per-generation encodings of transaction rows and approval events, the checkpoint and
  receipt messages, and the domain tags. The lemmas show that the encodings are injective
  and that no message of one signing context is a message of another.
\<close>

section \<open>Constants\<close>

definition CURRENT_KEY_ID :: string where
  "CURRENT_KEY_ID = ''v1''"

definition RS :: char where "RS = CHR 0x1E"
definition US :: char where "US = CHR 0x1F"

definition ROW_DOMAIN :: string where
  "ROW_DOMAIN = ''sysknife-audit-row-v1'' @ [US]"

definition CHECKPOINT_DOMAIN :: string where
  "CHECKPOINT_DOMAIN = ''sysknife-checkpoint-v1'' @ [US]"

definition APPROVAL_DOMAIN :: string where
  "APPROVAL_DOMAIN = ''sysknife-approval-receipt-v1'' @ [US]"

definition EVENT_DOMAIN :: string where
  "EVENT_DOMAIN = ''sysknife-audit-event-v1'' @ [US]"

definition REQUEST_HASH_DOMAIN :: string where
  "REQUEST_HASH_DOMAIN = ''sysknife-request-hash-v1'' @ [US]"

definition CHAIN_VERSION_LEGACY :: nat where "CHAIN_VERSION_LEGACY = 1"
definition CHAIN_VERSION_V2 :: nat where "CHAIN_VERSION_V2 = 2"
definition CHAIN_VERSION_V3 :: nat where "CHAIN_VERSION_V3 = 3"
definition CHAIN_VERSION_V4 :: nat where "CHAIN_VERSION_V4 = 4"
definition CHAIN_VERSION_CURRENT :: nat where "CHAIN_VERSION_CURRENT = CHAIN_VERSION_V4"
definition EVENT_VERSION_LEGACY :: nat where "EVENT_VERSION_LEGACY = 1"
definition EVENT_VERSION_V2 :: nat where "EVENT_VERSION_V2 = 2"
definition EVENT_VERSION_CURRENT :: nat where "EVENT_VERSION_CURRENT = EVENT_VERSION_V2"

lemmas version_defs =
  CHAIN_VERSION_LEGACY_def CHAIN_VERSION_V2_def CHAIN_VERSION_V3_def CHAIN_VERSION_V4_def
  CHAIN_VERSION_CURRENT_def EVENT_VERSION_LEGACY_def EVENT_VERSION_V2_def EVENT_VERSION_CURRENT_def

lemmas domain_defs =
  ROW_DOMAIN_def CHECKPOINT_DOMAIN_def APPROVAL_DOMAIN_def EVENT_DOMAIN_def REQUEST_HASH_DOMAIN_def

section \<open>Field framing\<close>

definition escape_byte :: "char \<Rightarrow> string" where
  "escape_byte b =
     (if b = CHR 0x5C then [CHR 0x5C, CHR 0x5C]
      else if b = CHR 0x00 then [CHR 0x5C, CHR ''0'']
      else if b = RS then [CHR 0x5C, CHR ''1'', CHR ''E'']
      else if b = US then [CHR 0x5C, CHR ''1'', CHR ''F'']
      else [b])"

definition escape :: "string \<Rightarrow> string" where
  "escape v = concat (map escape_byte v)"

definition push_field :: "string \<Rightarrow> string \<Rightarrow> string \<Rightarrow> string" where
  "push_field buf tag v = buf @ tag @ [RS] @ escape v @ [US]"

text \<open>A run of \<^verbatim>\<open>push_field\<close> calls on one buffer.\<close>

fun push_fields :: "string \<Rightarrow> (string \<times> string) list \<Rightarrow> string" where
  "push_fields buf [] = buf"
| "push_fields buf ((tag, v) # fs) = push_fields (push_field buf tag v) fs"

section \<open>Transaction rows\<close>

datatype chain_identity =
    LegacyV1
  | V2 (v2_caller_role: string) (v2_event_tip: string)
  | V3 (v3_caller_role: string) (v3_event_tip: string) (v3_caller_principal: string)
  | V4 (v4_caller_role: string) (v4_event_tip: string) (v4_caller_principal: string)

fun chain_identity_version :: "chain_identity \<Rightarrow> nat" where
  "chain_identity_version LegacyV1 = CHAIN_VERSION_LEGACY"
| "chain_identity_version (V2 _ _) = CHAIN_VERSION_V2"
| "chain_identity_version (V3 _ _ _) = CHAIN_VERSION_V3"
| "chain_identity_version (V4 _ _ _) = CHAIN_VERSION_V4"

record chain_content =
  cc_seq :: nat
  cc_key_id :: string
  cc_transaction_id :: string
  cc_request_id :: string
  cc_request_hash :: string
  cc_action_name :: string
  cc_risk_level :: risk_level
  cc_summary :: string
  cc_approval_id :: "string option"
  cc_warnings_json :: string
  cc_created_at :: string
  cc_identity :: chain_identity

fun risk_level_str :: "risk_level \<Rightarrow> string" where
  "risk_level_str Low = ''low''"
| "risk_level_str Medium = ''medium''"
| "risk_level_str High = ''high''"

fun identity_fields :: "chain_identity \<Rightarrow> (string \<times> string) list" where
  "identity_fields LegacyV1 = []"
| "identity_fields (V2 caller_role event_tip) =
     [(''chain_version'', dec CHAIN_VERSION_V2), (''caller_role'', caller_role),
      (''event_tip'', event_tip)]"
| "identity_fields (V3 caller_role event_tip caller_principal) =
     [(''chain_version'', dec CHAIN_VERSION_V3), (''caller_role'', caller_role),
      (''event_tip'', event_tip), (''caller_principal'', caller_principal)]"
| "identity_fields (V4 caller_role event_tip caller_principal) =
     [(''chain_version'', dec CHAIN_VERSION_V4), (''caller_role'', caller_role),
      (''event_tip'', event_tip), (''caller_principal'', caller_principal)]"

definition base_fields :: "chain_content \<Rightarrow> (string \<times> string) list" where
  "base_fields c =
     [(''seq'', dec (cc_seq c)),
      (''key_id'', cc_key_id c),
      (''transaction_id'', cc_transaction_id c),
      (''request_id'', cc_request_id c),
      (''request_hash'', cc_request_hash c),
      (''action_name'', cc_action_name c),
      (''risk_level'', risk_level_str (cc_risk_level c)),
      (''summary'', cc_summary c),
      (''approval_id'', unwrap_or_default (cc_approval_id c)),
      (''warnings_json'', cc_warnings_json c),
      (''created_at'', cc_created_at c)]"

definition canonical_bytes :: "chain_content \<Rightarrow> string" where
  "canonical_bytes c =
     push_fields (push_fields [] (base_fields c)) (identity_fields (cc_identity c))"

definition chain_message :: "chain_content \<Rightarrow> string \<Rightarrow> string" where
  "chain_message c prev_chain_hash = ROW_DOMAIN @ canonical_bytes c @ prev_chain_hash"

section \<open>Approval events\<close>

datatype audit_event_kind =
    ApprovalGranted | ApprovalConsumed | ApprovalRevoked
  | StatusQueued | StatusRunning | StatusSucceeded | StatusFailed | StatusCanceled
  | StatusRolledBack | StatusNeedsReboot

fun kind_of_status :: "job_state \<Rightarrow> audit_event_kind" where
  "kind_of_status Queued = StatusQueued"
| "kind_of_status Running = StatusRunning"
| "kind_of_status Succeeded = StatusSucceeded"
| "kind_of_status Failed = StatusFailed"
| "kind_of_status Canceled = StatusCanceled"
| "kind_of_status RolledBack = StatusRolledBack"
| "kind_of_status NeedsReboot = StatusNeedsReboot"

definition ALL_KINDS :: "audit_event_kind list" where
  "ALL_KINDS = [ApprovalGranted, ApprovalConsumed, ApprovalRevoked, StatusQueued, StatusRunning,
     StatusSucceeded, StatusFailed, StatusCanceled, StatusRolledBack, StatusNeedsReboot]"

fun kind_as_str :: "audit_event_kind \<Rightarrow> string" where
  "kind_as_str ApprovalGranted = ''approval_granted''"
| "kind_as_str ApprovalConsumed = ''approval_consumed''"
| "kind_as_str ApprovalRevoked = ''approval_revoked''"
| "kind_as_str StatusQueued = ''status_queued''"
| "kind_as_str StatusRunning = ''status_running''"
| "kind_as_str StatusSucceeded = ''status_succeeded''"
| "kind_as_str StatusFailed = ''status_failed''"
| "kind_as_str StatusCanceled = ''status_canceled''"
| "kind_as_str StatusRolledBack = ''status_rolled_back''"
| "kind_as_str StatusNeedsReboot = ''status_needs_reboot''"

definition parse_event_kind :: "string \<Rightarrow> audit_event_kind option" where
  "parse_event_kind raw = find (\<lambda>k. kind_as_str k = raw) ALL_KINDS"

datatype event_identity = EvLegacyV1 | EvV2 (ev2_caller_principal: string)

fun event_identity_version :: "event_identity \<Rightarrow> nat" where
  "event_identity_version EvLegacyV1 = EVENT_VERSION_LEGACY"
| "event_identity_version (EvV2 _) = EVENT_VERSION_V2"

record event_content =
  ec_seq :: nat
  ec_key_id :: string
  ec_kind :: audit_event_kind
  ec_transaction_id :: string
  ec_receipt_digest :: string
  ec_created_at :: string
  ec_identity :: event_identity

fun event_identity_fields :: "event_identity \<Rightarrow> (string \<times> string) list" where
  "event_identity_fields EvLegacyV1 = []"
| "event_identity_fields (EvV2 caller_principal) =
     [(''event_version'', dec EVENT_VERSION_V2), (''caller_principal'', caller_principal)]"

definition event_base_fields :: "event_content \<Rightarrow> (string \<times> string) list" where
  "event_base_fields c =
     [(''seq'', dec (ec_seq c)),
      (''key_id'', ec_key_id c),
      (''kind'', kind_as_str (ec_kind c)),
      (''transaction_id'', ec_transaction_id c),
      (''receipt_digest'', ec_receipt_digest c),
      (''created_at'', ec_created_at c)]"

definition event_canonical_bytes :: "event_content \<Rightarrow> string" where
  "event_canonical_bytes c =
     push_fields (push_fields [] (event_base_fields c)) (event_identity_fields (ec_identity c))"

definition event_message :: "event_content \<Rightarrow> string \<Rightarrow> string" where
  "event_message c prev_chain_hash = EVENT_DOMAIN @ event_canonical_bytes c @ prev_chain_hash"

section \<open>Checkpoints and receipts\<close>

definition checkpoint_message :: "nat \<Rightarrow> string \<Rightarrow> string \<Rightarrow> string" where
  "checkpoint_message sq chain_tip created_at =
     push_fields CHECKPOINT_DOMAIN
       [(''seq'', dec sq), (''chain_tip'', chain_tip), (''created_at'', created_at)]"

definition approval_message :: "string \<Rightarrow> string \<Rightarrow> string" where
  "approval_message transaction_id request_hash =
     push_fields APPROVAL_DOMAIN [(''txid'', transaction_id), (''reqhash'', request_hash)]"

section \<open>Escaping is injective\<close>

lemma RS_neq_US [simp]: "RS \<noteq> US" "US \<noteq> RS"
  by (simp_all add: RS_def US_def)

lemma escape_Nil [simp]: "escape [] = []"
  by (simp add: escape_def)

lemma escape_Cons: "escape (b # v) = escape_byte b @ escape v"
  by (simp add: escape_def)

lemma escape_byte_nonempty [simp]: "escape_byte b \<noteq> []"
  by (simp add: escape_byte_def)

lemma escape_byte_no_sep: "US \<notin> set (escape_byte b)" "RS \<notin> set (escape_byte b)"
  by (auto simp: escape_byte_def RS_def US_def)

lemma escape_no_sep [simp]: "US \<notin> set (escape v)" "RS \<notin> set (escape v)"
  by (auto simp: escape_def escape_byte_no_sep)

text \<open>The escape table is prefix-free: a code word is never a proper prefix of another.\<close>

lemma escape_byte_prefix_free:
  "escape_byte a @ r = escape_byte b @ r' \<Longrightarrow> a = b \<and> r = r'"
  by (auto simp: escape_byte_def RS_def US_def split: if_splits)

lemma escape_inject [simp]: "escape v = escape v' \<longleftrightarrow> v = v'"
proof
  show "escape v = escape v' \<Longrightarrow> v = v'"
  proof (induction v arbitrary: v')
    case Nil
    then show ?case by (cases v') (auto simp: escape_Cons)
  next
    case (Cons b v)
    then obtain b' w where "v' = b' # w"
      by (cases v') (auto simp: escape_Cons)
    with Cons show ?case
      by (auto simp: escape_Cons dest: escape_byte_prefix_free)
  qed
qed simp

section \<open>Framing is injective\<close>

lemma push_field_append: "push_field buf t v = buf @ push_field [] t v"
  by (simp add: push_field_def)

lemma push_fields_append: "push_fields buf fs = buf @ push_fields [] fs"
proof (induction fs arbitrary: buf)
  case (Cons f fs)
  obtain t v where f: "f = (t, v)" by (cases f)
  have "push_fields buf (f # fs) = push_field buf t v @ push_fields [] fs"
    using Cons.IH [of "push_field buf t v"] by (simp add: f)
  also have "\<dots> = buf @ (push_field [] t v @ push_fields [] fs)"
    by (subst push_field_append) simp
  also have "push_field [] t v @ push_fields [] fs = push_fields [] (f # fs)"
    using Cons.IH [of "push_field [] t v"] by (simp add: f)
  finally show ?case .
qed simp

lemma push_fields_Cons:
  "push_fields [] ((t, v) # fs) @ r = t @ RS # escape v @ US # (push_fields [] fs @ r)"
  using push_fields_append [of "push_field [] t v" fs] by (simp add: push_field_def)

lemma push_fields_snoc_fields:
  "push_fields (push_fields buf fs) gs = push_fields buf (fs @ gs)"
proof (induction fs arbitrary: buf)
  case (Cons f fs)
  then show ?case by (cases f) simp
qed simp

text \<open>
  Two buffers with the same tags in the same order hold the same values, and whatever
  follows them is the same too.
\<close>

lemma push_fields_inject:
  assumes "map fst fs = map fst gs"
    and "push_fields [] fs @ r = push_fields [] gs @ r'"
  shows "fs = gs \<and> r = r'"
  using assms
proof (induction fs arbitrary: gs)
  case Nil
  then show ?case by simp
next
  case (Cons f fs)
  then obtain g gs' where g: "gs = g # gs'" by (cases gs) auto
  obtain t v where f: "f = (t, v)" by (cases f)
  from Cons.prems(1) obtain v' where g': "g = (t, v')"
    by (cases g) (auto simp: g f)
  from Cons.prems(2) have
    "escape v @ US # (push_fields [] fs @ r) = escape v' @ US # (push_fields [] gs' @ r')"
    by (simp add: f g g' push_fields_Cons del: push_fields.simps)
  then have "escape v = escape v'" and rest: "push_fields [] fs @ r = push_fields [] gs' @ r'"
    using append_sep_eq [OF escape_no_sep(1) escape_no_sep(1)] by blast+
  moreover have "fs = gs' \<and> r = r'"
    using Cons.prems(1) rest by (intro Cons.IH) (simp_all add: f g)
  ultimately show ?case by (simp add: f g g')
qed

text \<open>A tag occurs before the first \<open>RS\<close>, so text without \<open>RS\<close> never starts a field.\<close>

lemma push_fields_has_RS: "fs \<noteq> [] \<Longrightarrow> RS \<in> set (push_fields [] fs)"
proof (cases fs)
  case (Cons f gs)
  then show ?thesis
    using push_fields_Cons [of "fst f" "snd f" gs "[]"] by simp
qed simp

section \<open>Row messages are injective\<close>

text \<open>
  \<open>approval_id = None\<close> and \<open>Some ''\<close> are signed alike (\<^verbatim>\<open>unwrap_or("")\<close>); \<open>signed_content\<close>
  is a content up to that identification.
\<close>

definition signed_content :: "chain_content \<Rightarrow> chain_content" where
  "signed_content c = c\<lparr>cc_approval_id := Some (unwrap_or_default (cc_approval_id c))\<rparr>"

lemma risk_level_str_inject [simp]: "risk_level_str a = risk_level_str b \<longleftrightarrow> a = b"
  by (cases a; cases b) simp_all

lemma base_fields_inject:
  assumes "base_fields c = base_fields d" "cc_identity c = cc_identity d"
  shows "signed_content c = signed_content d"
  using assms by (cases c; cases d) (simp add: base_fields_def signed_content_def)

lemma dec_versions_distinct:
  "dec CHAIN_VERSION_V2 \<noteq> dec CHAIN_VERSION_V3" "dec CHAIN_VERSION_V2 \<noteq> dec CHAIN_VERSION_V4"
  "dec CHAIN_VERSION_V3 \<noteq> dec CHAIN_VERSION_V4"
  by (simp_all add: version_defs)

lemma identity_fields_tags:
  "identity_fields i \<noteq> [] \<Longrightarrow> hd (identity_fields i) = (''chain_version'', dec (chain_identity_version i))"
  by (cases i) simp_all

text \<open>
  The suffix of each generation starts with the signed \<open>chain_version\<close> field, so no
  generation can be read as another one; a legacy suffix is empty, and the hash that follows
  it contains no separator.
\<close>

lemma identity_suffix_inject:
  assumes eq: "push_fields [] (identity_fields i) @ p = push_fields [] (identity_fields j) @ q"
    and p: "RS \<notin> set p" and q: "RS \<notin> set q"
  shows "i = j \<and> p = q"
proof (cases "identity_fields i = [] \<or> identity_fields j = []")
  case True
  have "identity_fields i = [] \<longleftrightarrow> identity_fields j = []"
  proof (rule ccontr)
    assume "\<not> ?thesis"
    then have "RS \<in> set p \<or> RS \<in> set q"
      using True eq push_fields_has_RS [of "identity_fields i"] push_fields_has_RS [of "identity_fields j"]
      by (metis Un_iff append_Nil push_fields.simps(1) set_append)
    with p q show False by blast
  qed
  with True eq show ?thesis by (cases i; cases j) simp_all
next
  case False
  have version: "chain_identity_version i = chain_identity_version j"
  proof -
    from False obtain fs gs where
      "identity_fields i = (''chain_version'', dec (chain_identity_version i)) # fs"
      "identity_fields j = (''chain_version'', dec (chain_identity_version j)) # gs"
      by (metis identity_fields_tags list.exhaust_sel)
    with eq have "escape (dec (chain_identity_version i)) @ US # (push_fields [] fs @ p)
        = escape (dec (chain_identity_version j)) @ US # (push_fields [] gs @ q)"
      by (simp add: push_fields_Cons del: push_fields.simps)
    then have "escape (dec (chain_identity_version i)) = escape (dec (chain_identity_version j))"
      using append_sep_eq [of US] escape_no_sep(1) by blast
    then show ?thesis by simp
  qed
  then have "map fst (identity_fields i) = map fst (identity_fields j)"
    by (cases i; cases j) (simp_all add: version_defs)
  with eq have "identity_fields i = identity_fields j" "p = q"
    using push_fields_inject by blast+
  with version False show ?thesis
    by (cases i; cases j) (simp_all add: version_defs)
qed

lemma base_fields_tags: "map fst (base_fields c) = map fst (base_fields d)"
  by (simp add: base_fields_def)

lemma chain_message_inject:
  assumes eq: "chain_message c p = chain_message d q"
    and p: "RS \<notin> set p" and q: "RS \<notin> set q"
  shows "signed_content c = signed_content d \<and> p = q"
proof -
  let ?I = "\<lambda>c. push_fields [] (identity_fields (cc_identity c))"
  have "push_fields [] (base_fields c) @ (?I c @ p) = push_fields [] (base_fields d) @ (?I d @ q)"
    using eq push_fields_append [of "push_fields [] (base_fields c)"]
      push_fields_append [of "push_fields [] (base_fields d)"]
    by (simp add: chain_message_def canonical_bytes_def)
  then have "base_fields c = base_fields d" and "?I c @ p = ?I d @ q"
    using push_fields_inject [OF base_fields_tags] by blast+
  with identity_suffix_inject [OF _ p q] base_fields_inject show ?thesis by blast
qed

section \<open>Event messages are injective\<close>

lemma kind_as_str_inject [simp]: "kind_as_str a = kind_as_str b \<longleftrightarrow> a = b"
  by (cases a; cases b) simp_all

lemma parse_event_kind_as_str [simp]: "parse_event_kind (kind_as_str k) = Some k"
  by (cases k) (simp_all add: parse_event_kind_def ALL_KINDS_def)

lemma parse_event_kind_Some: "parse_event_kind raw = Some k \<longleftrightarrow> raw = kind_as_str k"
proof
  assume "parse_event_kind raw = Some k"
  then show "raw = kind_as_str k"
    unfolding parse_event_kind_def by (auto simp: find_Some_iff)
qed simp

lemma event_base_fields_tags: "map fst (event_base_fields c) = map fst (event_base_fields d)"
  by (simp add: event_base_fields_def)

lemma event_suffix_inject:
  assumes eq: "push_fields [] (event_identity_fields i) @ p = push_fields [] (event_identity_fields j) @ q"
    and p: "RS \<notin> set p" and q: "RS \<notin> set q"
  shows "i = j \<and> p = q"
proof (cases "map fst (event_identity_fields i) = map fst (event_identity_fields j)")
  case True
  with eq have "event_identity_fields i = event_identity_fields j" "p = q"
    using push_fields_inject by blast+
  then show ?thesis by (cases i; cases j) simp_all
next
  case False
  then have "(event_identity_fields i = [] \<and> event_identity_fields j \<noteq> [])
      \<or> (event_identity_fields i \<noteq> [] \<and> event_identity_fields j = [])"
    by (cases i; cases j) simp_all
  then have "RS \<in> set p \<or> RS \<in> set q"
    using eq push_fields_has_RS [of "event_identity_fields i"]
      push_fields_has_RS [of "event_identity_fields j"]
    by (metis Un_iff append_Nil push_fields.simps(1) set_append)
  with p q show ?thesis by blast
qed

lemma event_base_fields_inject:
  assumes "event_base_fields c = event_base_fields d" "ec_identity c = ec_identity d"
  shows "c = d"
  using assms by (cases c; cases d) (simp add: event_base_fields_def)

lemma event_message_inject:
  assumes eq: "event_message c p = event_message d q"
    and p: "RS \<notin> set p" and q: "RS \<notin> set q"
  shows "c = d \<and> p = q"
proof -
  let ?I = "\<lambda>c. push_fields [] (event_identity_fields (ec_identity c))"
  have "push_fields [] (event_base_fields c) @ (?I c @ p)
      = push_fields [] (event_base_fields d) @ (?I d @ q)"
    using eq push_fields_append [of "push_fields [] (event_base_fields c)"]
      push_fields_append [of "push_fields [] (event_base_fields d)"]
    by (simp add: event_message_def event_canonical_bytes_def)
  then have "event_base_fields c = event_base_fields d" and "?I c @ p = ?I d @ q"
    using push_fields_inject [OF event_base_fields_tags] by blast+
  with event_suffix_inject [OF _ p q] event_base_fields_inject show ?thesis by blast
qed

section \<open>Checkpoint and receipt messages are injective\<close>

lemma push_fields_inject_domain:
  assumes "map fst fs = map fst gs" "push_fields d fs = push_fields d gs"
  shows "fs = gs"
proof -
  have "push_fields [] fs @ [] = push_fields [] gs @ []"
    using assms(2) push_fields_append [of d fs] push_fields_append [of d gs] by simp
  with assms(1) show ?thesis
    using push_fields_inject by blast
qed

lemma checkpoint_message_inject:
  "checkpoint_message s t c = checkpoint_message s' t' c' \<longleftrightarrow> s = s' \<and> t = t' \<and> c = c'"
proof
  assume "checkpoint_message s t c = checkpoint_message s' t' c'"
  from push_fields_inject_domain [OF _ this [unfolded checkpoint_message_def]]
  show "s = s' \<and> t = t' \<and> c = c'" by simp
qed simp

lemma approval_message_inject:
  "approval_message t r = approval_message t' r' \<longleftrightarrow> t = t' \<and> r = r'"
proof
  assume "approval_message t r = approval_message t' r'"
  from push_fields_inject_domain [OF _ this [unfolded approval_message_def]]
  show "t = t' \<and> r = r'" by simp
qed simp

section \<open>Domain separation\<close>

lemma chain_message_domain: "\<exists>r. chain_message c p = ROW_DOMAIN @ r"
  by (simp add: chain_message_def)

lemma event_message_domain: "\<exists>r. event_message c p = EVENT_DOMAIN @ r"
  by (simp add: event_message_def)

lemma checkpoint_message_domain: "\<exists>r. checkpoint_message s t c = CHECKPOINT_DOMAIN @ r"
  unfolding checkpoint_message_def by (metis push_fields_append)

lemma approval_message_domain: "\<exists>r. approval_message t h = APPROVAL_DOMAIN @ r"
  unfolding approval_message_def by (metis push_fields_append)

lemma domains_separate:
  "ROW_DOMAIN @ r \<noteq> EVENT_DOMAIN @ r'" "ROW_DOMAIN @ r \<noteq> CHECKPOINT_DOMAIN @ r'"
  "ROW_DOMAIN @ r \<noteq> APPROVAL_DOMAIN @ r'" "EVENT_DOMAIN @ r \<noteq> CHECKPOINT_DOMAIN @ r'"
  "EVENT_DOMAIN @ r \<noteq> APPROVAL_DOMAIN @ r'" "CHECKPOINT_DOMAIN @ r \<noteq> APPROVAL_DOMAIN @ r'"
  by (simp_all add: domain_defs)

lemma messages_separate:
  "chain_message c p \<noteq> event_message e q"
  "chain_message c p \<noteq> checkpoint_message s t k"
  "chain_message c p \<noteq> approval_message i h"
  "event_message e q \<noteq> checkpoint_message s t k"
  "event_message e q \<noteq> approval_message i h"
  "checkpoint_message s t k \<noteq> approval_message i h"
proof -
  obtain a b d k' where
    "chain_message c p = ROW_DOMAIN @ a" "event_message e q = EVENT_DOMAIN @ b"
    "checkpoint_message s t k = CHECKPOINT_DOMAIN @ d" "approval_message i h = APPROVAL_DOMAIN @ k'"
    using chain_message_domain [of c p] event_message_domain [of e q]
      checkpoint_message_domain [of s t k] approval_message_domain [of i h] by blast
  then show
    "chain_message c p \<noteq> event_message e q" "chain_message c p \<noteq> checkpoint_message s t k"
    "chain_message c p \<noteq> approval_message i h" "event_message e q \<noteq> checkpoint_message s t k"
    "event_message e q \<noteq> approval_message i h" "checkpoint_message s t k \<noteq> approval_message i h"
    by (simp_all only: domains_separate not_False_eq_True)
qed

section \<open>Properties\<close>

lemma chain_message_signed_content: "chain_message c p = chain_message (signed_content c) p"
  by (simp add: chain_message_def canonical_bytes_def base_fields_def signed_content_def unwrap_or_default_def)

text \<open>What is signed determines the row. Two rows of the transaction chain have the same signed message
  exactly when they agree in every signed column and in the previous hash, whatever the generations of
  their encodings and whatever bytes (separators included) their fields hold; hashes are hexadecimal
  and hold no separator.\<close>

lemma row_message_determines_row:
  assumes "RS \<notin> set p" "RS \<notin> set q"
  shows "chain_message c p = chain_message d q \<longleftrightarrow> signed_content c = signed_content d \<and> p = q"
  using chain_message_inject [OF _ assms] chain_message_signed_content by metis

text \<open>Event messages determine the event: its number, kind, transaction, digest, time, and, in the newer
  encoding, the account that acted.\<close>

lemma event_message_determines_event:
  assumes "RS \<notin> set p" "RS \<notin> set q"
  shows "event_message c p = event_message d q \<longleftrightarrow> c = d \<and> p = q"
  using event_message_inject [OF _ assms] by metis

text \<open>Domain separation. A message signed for one purpose (a transaction row, an event, a checkpoint, an
  approval receipt) is never the message of another purpose, so no signature the daemon made can be
  replayed as one of another kind.\<close>

lemma domains_never_collide:
  "chain_message c p \<noteq> event_message e q \<and> chain_message c p \<noteq> checkpoint_message s t k
   \<and> chain_message c p \<noteq> approval_message i h \<and> event_message e q \<noteq> checkpoint_message s t k
   \<and> event_message e q \<noteq> approval_message i h \<and> checkpoint_message s t k \<noteq> approval_message i h"
  by (simp add: messages_separate)

end
