(* ===== verification/Sk_Audit_Chain.thy ===== *)
theory Sk_Audit_Chain
  imports Sk_Encoding
begin

text \<open>
  The signed hash chains of \<^verbatim>\<open>crates/sysknife-daemon/src/audit_chain.rs\<close>: the audit key, the
  rows of the two chained tables, the walk that checks a chain (\<^verbatim>\<open>walk_chain\<close>), and the
  verification of the transaction chain and of the approval-event chain.

  Ed25519, SHA-256, HMAC, HKDF and hexadecimal coding come from third-party crates. They are the
  fields of the parameter record \<open>crypto\<close>; \<open>sig_correct\<close>, \<open>hex_laws\<close> and \<open>unforgeable\<close> name
  what the proofs use of them. The diagnostic texts of an outcome are kept as the values they
  interpolate (\<open>verify_text\<close>).
\<close>

section \<open>Cryptographic parameters\<close>

record ('sk, 'vk) crypto =
  ed_sign :: "'sk \<Rightarrow> string \<Rightarrow> string"
  ed_public :: "'sk \<Rightarrow> 'vk"
  ed_verify_strict :: "'vk \<Rightarrow> string \<Rightarrow> string \<Rightarrow> bool"
  ed_vk_from_bytes :: "string \<Rightarrow> 'vk option"
  hex_encode :: "string \<Rightarrow> string"
  hex_decode :: "string \<Rightarrow> string option"
  sha256 :: "string \<Rightarrow> string"
  ed_seed :: "'sk \<Rightarrow> string"
  hkdf_sha256 :: "string \<Rightarrow> string \<Rightarrow> string"
  hmac_sha256 :: "string \<Rightarrow> string \<Rightarrow> string"

text \<open>A signature has 64 bytes and verifies for the message it was made for (RFC 8032).\<close>

definition sig_correct :: "('sk, 'vk) crypto \<Rightarrow> bool" where
  "sig_correct cr \<longleftrightarrow> (\<forall>sk m. length (ed_sign cr sk m) = 64
     \<and> ed_verify_strict cr (ed_public cr sk) m (ed_sign cr sk m))"

text \<open>Decoding inverts encoding, two digits encode a byte, and only hexadecimal digits decode.\<close>

definition hex_laws :: "('sk, 'vk) crypto \<Rightarrow> bool" where
  "hex_laws cr \<longleftrightarrow>
     (\<forall>b. hex_decode cr (hex_encode cr b) = Some b)
     \<and> (\<forall>b. length (hex_encode cr b) = 2 * length b)
     \<and> (\<forall>s b. hex_decode cr s = Some b \<longrightarrow> list_all is_ascii_hexdigit s)"

section \<open>The audit key\<close>

record 'sk audit_key =
  ak_key_id :: string
  ak_signing :: 'sk

definition chain_hash :: "('sk, 'vk) crypto \<Rightarrow> 'sk audit_key \<Rightarrow> chain_content \<Rightarrow> string \<Rightarrow> string" where
  "chain_hash cr key c prev = hex_encode cr (ed_sign cr (ak_signing key) (chain_message c prev))"

definition event_hash :: "('sk, 'vk) crypto \<Rightarrow> 'sk audit_key \<Rightarrow> event_content \<Rightarrow> string \<Rightarrow> string" where
  "event_hash cr key c prev = hex_encode cr (ed_sign cr (ak_signing key) (event_message c prev))"

definition verifying_key :: "('sk, 'vk) crypto \<Rightarrow> 'sk audit_key \<Rightarrow> 'vk" where
  "verifying_key cr key = ed_public cr (ak_signing key)"

definition approval_receipt ::
    "('sk, 'vk) crypto \<Rightarrow> 'sk audit_key \<Rightarrow> string \<Rightarrow> string \<Rightarrow> string" where
  "approval_receipt cr key transaction_id request_hash =
     hex_encode cr (ed_sign cr (ak_signing key) (approval_message transaction_id request_hash))"

definition approval_receipt_digest :: "('sk, 'vk) crypto \<Rightarrow> string \<Rightarrow> string" where
  "approval_receipt_digest cr receipt = hex_encode cr (sha256 cr receipt)"

definition approval_commitment ::
    "('sk, 'vk) crypto \<Rightarrow> 'sk audit_key \<Rightarrow> string \<Rightarrow> string \<Rightarrow> string" where
  "approval_commitment cr key transaction_id request_hash =
     approval_receipt_digest cr (approval_receipt cr key transaction_id request_hash)"

text \<open>The HMAC key of \<^verbatim>\<open>request_hash\<close> and the hash itself.\<close>

definition request_hash_key :: "('sk, 'vk) crypto \<Rightarrow> 'sk audit_key \<Rightarrow> string" where
  "request_hash_key cr key = hkdf_sha256 cr (ed_seed cr (ak_signing key)) REQUEST_HASH_DOMAIN"

definition keyed_request_hash ::
    "('sk, 'vk) crypto \<Rightarrow> string \<Rightarrow> string \<Rightarrow> string \<Rightarrow> string" where
  "keyed_request_hash cr k action_name canonical_params =
     hex_encode cr (hmac_sha256 cr k (action_name @ [CHR 0x00] @ canonical_params))"

section \<open>Outcomes\<close>

datatype verify_text =
    PrevChainHashIs string
  | ValidEd25519Signature
  | StoredSignature string
  | RowCarriesNonEmpty nat string
  | FieldIsNull string
  | FieldIsEmpty string
  | FieldIs string string
  | EventCarriesNonEmpty nat string
  | EventFieldIs string "string option"
  | KnownEventKind
  | KindIs string
  | UnknownChainVersion string nat nat nat nat
  | ForeignKeyId string nat string string
  | NotAllChecked verify_text nat nat
  | InvalidPublicKeyHex nat

datatype verify_outcome =
    Intact (rows_checked: nat)
  | Broken nat (first_broken_seq: nat) (first_broken_transaction_id: string) verify_text verify_text
  | CannotVerify verify_text

fun outcome_to_exit_code :: "verify_outcome \<Rightarrow> int" where
  "outcome_to_exit_code (Intact _) = 0"
| "outcome_to_exit_code (Broken _ _ _ _ _) = 1"
| "outcome_to_exit_code (CannotVerify _) = 2"

section \<open>Rows\<close>

record chain_row =
  cr_seq :: nat
  cr_key_id :: string
  cr_transaction_id :: string
  cr_request_id :: string
  cr_request_hash :: string
  cr_action_name :: string
  cr_risk_level :: risk_level
  cr_summary :: string
  cr_approval_id :: "string option"
  cr_warnings_json :: string
  cr_created_at :: string
  cr_prev_chain_hash :: string
  cr_chain_hash :: string
  cr_chain_version :: nat
  cr_caller_role :: "string option"
  cr_event_tip :: "string option"
  cr_caller_principal :: "string option"

record event_row =
  er_seq :: nat
  er_key_id :: string
  er_kind :: string
  er_transaction_id :: string
  er_receipt_digest :: string
  er_created_at :: string
  er_prev_chain_hash :: string
  er_chain_hash :: string
  er_chain_version :: nat
  er_caller_principal :: "string option"

datatype row_identity_error = UnknownVersion nat | MissingField string

text \<open>\<^verbatim>\<open>.as_deref().filter(|p| !p.is_empty())\<close>\<close>

definition non_empty :: "string option \<Rightarrow> string option" where
  "non_empty v = (case v of None \<Rightarrow> None | Some p \<Rightarrow> if p = [] then None else Some p)"

definition chain_row_identity :: "chain_row \<Rightarrow> row_identity_error + chain_identity" where
  "chain_row_identity row =
     (if cr_chain_version row = CHAIN_VERSION_LEGACY then Inr LegacyV1
      else if cr_chain_version row = CHAIN_VERSION_V2 then
        and_then (ok_or (MissingField ''caller_role'') (cr_caller_role row)) (\<lambda>role.
        and_then (ok_or (MissingField ''event_tip'') (cr_event_tip row)) (\<lambda>tip.
        Inr (V2 role tip)))
      else if cr_chain_version row = CHAIN_VERSION_V3 then
        and_then (ok_or (MissingField ''caller_role'') (cr_caller_role row)) (\<lambda>role.
        and_then (ok_or (MissingField ''event_tip'') (cr_event_tip row)) (\<lambda>tip.
        and_then (ok_or (MissingField ''caller_principal'') (non_empty (cr_caller_principal row))) (\<lambda>p.
        Inr (V3 role tip p))))
      else if cr_chain_version row = CHAIN_VERSION_V4 then
        and_then (ok_or (MissingField ''caller_role'') (cr_caller_role row)) (\<lambda>role.
        and_then (ok_or (MissingField ''event_tip'') (cr_event_tip row)) (\<lambda>tip.
        and_then (ok_or (MissingField ''caller_principal'') (non_empty (cr_caller_principal row))) (\<lambda>p.
        Inr (V4 role tip p))))
      else Inl (UnknownVersion (cr_chain_version row)))"

definition event_row_identity :: "event_row \<Rightarrow> row_identity_error + event_identity" where
  "event_row_identity row =
     (if er_chain_version row = EVENT_VERSION_LEGACY then Inr EvLegacyV1
      else if er_chain_version row = EVENT_VERSION_V2 then
        and_then (ok_or (MissingField ''caller_principal'') (non_empty (er_caller_principal row))) (\<lambda>p.
        Inr (EvV2 p))
      else Inl (UnknownVersion (er_chain_version row)))"

section \<open>The walk\<close>

text \<open>The trait \<^verbatim>\<open>ChainLink\<close>: the linkage columns every chained table shares.\<close>

record 'r chain_link =
  link_seq :: "'r \<Rightarrow> nat"
  link_transaction_id :: "'r \<Rightarrow> string"
  link_prev :: "'r \<Rightarrow> string"
  link_hash :: "'r \<Rightarrow> string"

definition chain_row_link :: "chain_row chain_link" where
  "chain_row_link = \<lparr>link_seq = cr_seq, link_transaction_id = cr_transaction_id,
     link_prev = cr_prev_chain_hash, link_hash = cr_chain_hash\<rparr>"

definition event_row_link :: "event_row chain_link" where
  "event_row_link = \<lparr>link_seq = er_seq, link_transaction_id = er_transaction_id,
     link_prev = er_prev_chain_hash, link_hash = er_chain_hash\<rparr>"

lemma link_simps [simp]:
  "link_seq chain_row_link = cr_seq" "link_transaction_id chain_row_link = cr_transaction_id"
  "link_prev chain_row_link = cr_prev_chain_hash" "link_hash chain_row_link = cr_chain_hash"
  "link_seq event_row_link = er_seq" "link_transaction_id event_row_link = er_transaction_id"
  "link_prev event_row_link = er_prev_chain_hash" "link_hash event_row_link = er_chain_hash"
  by (simp_all add: chain_row_link_def event_row_link_def)

datatype row_check = Verified | Unverifiable verify_text | BrokenRow verify_text verify_text

fun walk_loop ::
    "'r chain_link \<Rightarrow> ('r \<Rightarrow> row_check) \<Rightarrow> string \<Rightarrow> nat \<Rightarrow> verify_text option \<Rightarrow> nat \<Rightarrow> 'r list
     \<Rightarrow> verify_outcome" where
  "walk_loop L check last_hash checked first_unverifiable unverifiable [] =
     (case first_unverifiable of
        None \<Rightarrow> Intact checked
      | Some first \<Rightarrow> CannotVerify (NotAllChecked first unverifiable checked))"
| "walk_loop L check last_hash checked first_unverifiable unverifiable (row # rows) =
     (if link_prev L row \<noteq> last_hash
      then Broken checked (link_seq L row) (link_transaction_id L row)
             (PrevChainHashIs last_hash) (PrevChainHashIs (link_prev L row))
      else case check row of
        Verified \<Rightarrow>
          walk_loop L check (link_hash L row) (checked + 1) first_unverifiable unverifiable rows
      | Unverifiable reason \<Rightarrow>
          walk_loop L check (link_hash L row) checked
            (case first_unverifiable of None \<Rightarrow> Some reason | Some f \<Rightarrow> Some f)
            (unverifiable + 1) rows
      | BrokenRow expected actual \<Rightarrow>
          Broken checked (link_seq L row) (link_transaction_id L row) expected actual)"

definition walk_chain :: "'r chain_link \<Rightarrow> ('r \<Rightarrow> row_check) \<Rightarrow> 'r list \<Rightarrow> verify_outcome" where
  "walk_chain L check rows = walk_loop L check [] 0 None 0 rows"

section \<open>Checking one row\<close>

definition signature_ok :: "('sk, 'vk) crypto \<Rightarrow> 'vk \<Rightarrow> string \<Rightarrow> string \<Rightarrow> bool" where
  "signature_ok cr vk msg sig_hex =
     (case hex_decode cr sig_hex of
        None \<Rightarrow> False
      | Some bytes \<Rightarrow> length bytes = 64 \<and> ed_verify_strict cr vk msg bytes)"

definition parse_verifying_key :: "('sk, 'vk) crypto \<Rightarrow> string \<Rightarrow> 'vk option" where
  "parse_verifying_key cr hex_str =
     (case hex_decode cr (trim hex_str) of
        None \<Rightarrow> None
      | Some bytes \<Rightarrow> if length bytes = 32 then ed_vk_from_bytes cr bytes else None)"

definition failed_signature ::
    "string \<Rightarrow> nat \<Rightarrow> string \<Rightarrow> string option \<Rightarrow> string \<Rightarrow> row_check" where
  "failed_signature what sq key_id expect_key_id hash =
     (case expect_key_id of
        Some kid \<Rightarrow> if key_id \<noteq> kid then Unverifiable (ForeignKeyId what sq key_id kid)
          else BrokenRow ValidEd25519Signature (StoredSignature hash)
      | None \<Rightarrow> BrokenRow ValidEd25519Signature (StoredSignature hash))"

text \<open>The content a row was signed over, rebuilt from its columns.\<close>

definition chain_row_content :: "chain_row \<Rightarrow> chain_identity \<Rightarrow> chain_content" where
  "chain_row_content row identity = \<lparr>
     cc_seq = cr_seq row, cc_key_id = cr_key_id row, cc_transaction_id = cr_transaction_id row,
     cc_request_id = cr_request_id row, cc_request_hash = cr_request_hash row,
     cc_action_name = cr_action_name row, cc_risk_level = cr_risk_level row,
     cc_summary = cr_summary row, cc_approval_id = cr_approval_id row,
     cc_warnings_json = cr_warnings_json row, cc_created_at = cr_created_at row,
     cc_identity = identity\<rparr>"

definition check_chain_row ::
    "('sk, 'vk) crypto \<Rightarrow> 'vk \<Rightarrow> string option \<Rightarrow> chain_row \<Rightarrow> row_check" where
  "check_chain_row cr vk expect_key_id row =
     (case chain_row_identity row of
        Inl (UnknownVersion v) \<Rightarrow>
          Unverifiable (UnknownChainVersion ''row'' (cr_seq row) v
            CHAIN_VERSION_LEGACY CHAIN_VERSION_CURRENT)
      | Inl (MissingField field) \<Rightarrow>
          let stored = (if field = ''caller_role'' then cr_caller_role row
                        else if field = ''event_tip'' then cr_event_tip row
                        else if field = ''caller_principal'' then cr_caller_principal row
                        else None)
          in BrokenRow (RowCarriesNonEmpty (cr_chain_version row) field)
               (case stored of None \<Rightarrow> FieldIsNull field
                | Some other \<Rightarrow> if other = [] then FieldIsEmpty field else FieldIs field other)
      | Inr identity \<Rightarrow>
          if signature_ok cr vk (chain_message (chain_row_content row identity) (cr_prev_chain_hash row))
               (cr_chain_hash row)
          then Verified
          else failed_signature ''row'' (cr_seq row) (cr_key_id row) expect_key_id (cr_chain_hash row))"

definition event_row_content :: "event_row \<Rightarrow> audit_event_kind \<Rightarrow> event_identity \<Rightarrow> event_content" where
  "event_row_content row kind identity = \<lparr>
     ec_seq = er_seq row, ec_key_id = er_key_id row, ec_kind = kind,
     ec_transaction_id = er_transaction_id row, ec_receipt_digest = er_receipt_digest row,
     ec_created_at = er_created_at row, ec_identity = identity\<rparr>"

definition check_event_row ::
    "('sk, 'vk) crypto \<Rightarrow> 'vk \<Rightarrow> string option \<Rightarrow> event_row \<Rightarrow> row_check" where
  "check_event_row cr vk expect_key_id row =
     (case parse_event_kind (er_kind row) of
        None \<Rightarrow> BrokenRow KnownEventKind (KindIs (er_kind row))
      | Some kind \<Rightarrow>
          (case event_row_identity row of
             Inl (UnknownVersion v) \<Rightarrow>
               Unverifiable (UnknownChainVersion ''event'' (er_seq row) v
                 EVENT_VERSION_LEGACY EVENT_VERSION_CURRENT)
           | Inl (MissingField field) \<Rightarrow>
               BrokenRow (EventCarriesNonEmpty (er_chain_version row) field)
                 (EventFieldIs field (er_caller_principal row))
           | Inr identity \<Rightarrow>
               if signature_ok cr vk
                    (event_message (event_row_content row kind identity) (er_prev_chain_hash row))
                    (er_chain_hash row)
               then Verified
               else failed_signature ''event'' (er_seq row) (er_key_id row) expect_key_id
                      (er_chain_hash row)))"

section \<open>Verifying a chain\<close>

definition verify_rows ::
    "('sk, 'vk) crypto \<Rightarrow> 'vk \<Rightarrow> string option \<Rightarrow> chain_row list \<Rightarrow> verify_outcome" where
  "verify_rows cr vk expect_key_id rows =
     walk_chain chain_row_link (check_chain_row cr vk expect_key_id) rows"

definition verify_chain ::
    "('sk, 'vk) crypto \<Rightarrow> 'sk audit_key \<Rightarrow> chain_row list \<Rightarrow> verify_outcome" where
  "verify_chain cr key rows = verify_rows cr (verifying_key cr key) (Some (ak_key_id key)) rows"

definition verify_chain_with_pubkey ::
    "('sk, 'vk) crypto \<Rightarrow> string \<Rightarrow> chain_row list \<Rightarrow> verify_outcome" where
  "verify_chain_with_pubkey cr verifying_key_hex rows =
     (case parse_verifying_key cr verifying_key_hex of
        Some vk \<Rightarrow> verify_rows cr vk None rows
      | None \<Rightarrow> CannotVerify (InvalidPublicKeyHex (length verifying_key_hex)))"

definition verify_event_rows ::
    "('sk, 'vk) crypto \<Rightarrow> 'vk \<Rightarrow> string option \<Rightarrow> event_row list \<Rightarrow> verify_outcome" where
  "verify_event_rows cr vk expect_key_id rows =
     walk_chain event_row_link (check_event_row cr vk expect_key_id) rows"

definition verify_event_chain ::
    "('sk, 'vk) crypto \<Rightarrow> 'sk audit_key \<Rightarrow> event_row list \<Rightarrow> verify_outcome" where
  "verify_event_chain cr key rows =
     verify_event_rows cr (verifying_key cr key) (Some (ak_key_id key)) rows"

definition verify_event_chain_with_pubkey ::
    "('sk, 'vk) crypto \<Rightarrow> string \<Rightarrow> event_row list \<Rightarrow> verify_outcome" where
  "verify_event_chain_with_pubkey cr verifying_key_hex rows =
     (case parse_verifying_key cr verifying_key_hex of
        Some vk \<Rightarrow> verify_event_rows cr vk None rows
      | None \<Rightarrow> CannotVerify (InvalidPublicKeyHex (length verifying_key_hex)))"

text \<open>
  The idealised strong unforgeability of Ed25519 for one key: \<open>S\<close> holds the messages that were
  really signed, \<open>H\<close> the (hexadecimal) signatures presented. A presented signature that the
  public key accepts for a message is the (deterministic) signature of that message, which is
  one of \<open>S\<close>; and signatures of different messages of \<open>S\<close> differ.
\<close>

definition unforgeable :: "('sk, 'vk) crypto \<Rightarrow> 'sk \<Rightarrow> string set \<Rightarrow> string set \<Rightarrow> bool" where
  "unforgeable cr sk S H \<longleftrightarrow>
     (\<forall>m. \<forall>h \<in> H. signature_ok cr (ed_public cr sk) m h
        \<longrightarrow> m \<in> S \<and> hex_decode cr h = Some (ed_sign cr sk m))
     \<and> inj_on (ed_sign cr sk) S"

section \<open>What the walk decides\<close>

text \<open>\<open>linked\<close> says that each row points at the hash of the row before it.\<close>

fun linked :: "'r chain_link \<Rightarrow> string \<Rightarrow> 'r list \<Rightarrow> bool" where
  "linked L last_hash [] \<longleftrightarrow> True"
| "linked L last_hash (row # rows) \<longleftrightarrow> link_prev L row = last_hash \<and> linked L (link_hash L row) rows"

text \<open>Position \<open>i\<close> holds a provable break: a wrong link or a broken row.\<close>

definition prev_hash_at :: "'r chain_link \<Rightarrow> string \<Rightarrow> 'r list \<Rightarrow> nat \<Rightarrow> string" where
  "prev_hash_at L h rows i = (if i = 0 then h else link_hash L (rows ! (i - 1)))"

definition break_at :: "'r chain_link \<Rightarrow> ('r \<Rightarrow> row_check) \<Rightarrow> string \<Rightarrow> 'r list \<Rightarrow> nat \<Rightarrow> bool" where
  "break_at L check h rows i \<longleftrightarrow>
     link_prev L (rows ! i) \<noteq> prev_hash_at L h rows i \<or> (\<exists>e a. check (rows ! i) = BrokenRow e a)"

lemma break_at_Cons_Suc:
  "break_at L check h (row # rows) (Suc i) = break_at L check (link_hash L row) rows i"
  by (cases i) (simp_all add: break_at_def prev_hash_at_def)

lemma break_at_Cons_0:
  "break_at L check h (row # rows) 0 \<longleftrightarrow> link_prev L row \<noteq> h \<or> (\<exists>e a. check row = BrokenRow e a)"
  by (simp add: break_at_def prev_hash_at_def)

lemma linked_iff_nth:
  "linked L h rows \<longleftrightarrow> (\<forall>i < length rows. link_prev L (rows ! i) = prev_hash_at L h rows i)"
proof (induction rows arbitrary: h)
  case (Cons row rows)
  have "(\<forall>i < length (row # rows). link_prev L ((row # rows) ! i) = prev_hash_at L h (row # rows) i)
      \<longleftrightarrow> link_prev L row = h
        \<and> (\<forall>i < length rows. link_prev L (rows ! i) = prev_hash_at L (link_hash L row) rows i)"
    by (auto simp: All_less_Suc2 prev_hash_at_def nth_Cons' split: if_splits)
  with Cons.IH show ?case by simp
qed simp

lemma linked_append:
  "linked L h (xs @ ys) \<longleftrightarrow>
     linked L h xs \<and> linked L (if xs = [] then h else link_hash L (last xs)) ys"
  by (induction xs arbitrary: h) auto

lemma walk_loop_Intact:
  "walk_loop L check h n f u rows = Intact k \<longleftrightarrow>
     f = None \<and> linked L h rows \<and> (\<forall>r \<in> set rows. check r = Verified) \<and> k = n + length rows"
proof (induction rows arbitrary: h n f u)
  case Nil
  then show ?case by (auto split: option.splits)
next
  case (Cons row rows)
  then show ?case
    by (cases "check row") (auto split: option.splits)
qed

lemma walk_loop_Broken:
  "(\<exists>n' s t e a. walk_loop L check h n f u rows = Broken n' s t e a) \<longleftrightarrow>
     (\<exists>i < length rows. break_at L check h rows i)"
proof (induction rows arbitrary: h n f u)
  case Nil
  then show ?case by (auto split: option.splits)
next
  case (Cons row rows)
  have ex: "(\<exists>i < length (row # rows). break_at L check h (row # rows) i) \<longleftrightarrow>
      break_at L check h (row # rows) 0 \<or> (\<exists>i < length rows. break_at L check (link_hash L row) rows i)"
    by (auto simp: Ex_less_Suc2 break_at_Cons_Suc)
  show ?case
    unfolding ex break_at_Cons_0 using Cons.IH
    by (cases "check row") (auto split: option.splits)
qed

lemma walk_chain_Intact:
  "walk_chain L check rows = Intact k \<longleftrightarrow>
     linked L [] rows \<and> (\<forall>r \<in> set rows. check r = Verified) \<and> k = length rows"
  by (simp add: walk_chain_def walk_loop_Intact)

lemma walk_chain_Broken:
  "(\<exists>n s t e a. walk_chain L check rows = Broken n s t e a) \<longleftrightarrow>
     (\<exists>i < length rows. break_at L check [] rows i)"
  by (simp add: walk_chain_def walk_loop_Broken)

text \<open>
  A break is reported even when rows before it could not be checked; with no break, the
  outcome is \<open>Intact\<close> exactly when every row verified.
\<close>

lemma walk_chain_cases:
  assumes "\<forall>i < length rows. \<not> break_at L check [] rows i"
  shows "(\<forall>r \<in> set rows. check r = Verified) \<and> walk_chain L check rows = Intact (length rows)
    \<or> (\<exists>r \<in> set rows. \<exists>t. check r = Unverifiable t) \<and> (\<exists>t. walk_chain L check rows = CannotVerify t)"
proof -
  have linked: "linked L [] rows"
    using assms by (auto simp: linked_iff_nth break_at_def)
  have no_broken: "\<forall>r \<in> set rows. \<forall>e a. check r \<noteq> BrokenRow e a"
    using assms by (auto simp: in_set_conv_nth break_at_def)
  show ?thesis
  proof (cases "\<forall>r \<in> set rows. check r = Verified")
    case True
    with linked show ?thesis by (simp add: walk_chain_Intact)
  next
    case False
    then obtain r where r: "r \<in> set rows" "check r \<noteq> Verified" by blast
    with no_broken obtain t where t: "check r = Unverifiable t"
      by (cases "check r") auto
    have "\<not> (\<exists>n s t e a. walk_chain L check rows = Broken n s t e a)"
      using assms unfolding walk_chain_Broken by blast
    moreover have "\<nexists>k. walk_chain L check rows = Intact k"
      using False by (simp add: walk_chain_Intact)
    ultimately have "\<exists>t. walk_chain L check rows = CannotVerify t"
      by (cases "walk_chain L check rows") auto
    with r t show ?thesis by blast
  qed
qed

section \<open>Properties\<close>

text \<open>The verdict of the walk. The transaction chain is reported broken exactly when some row does not
  point at the hash of the row before it or is itself provably broken, even behind rows that could not
  be checked; it is reported intact exactly when it is linked and every row was checked and verified.
  A row that could not be checked is never counted as verified.\<close>

lemma chain_walk_verdict:
  "(\<exists>n s t e a. verify_chain cr key rows = Broken n s t e a) =
     (\<exists>i < length rows. break_at chain_row_link
        (check_chain_row cr (verifying_key cr key) (Some (ak_key_id key))) [] rows i)
   \<and> (verify_chain cr key rows = Intact n) =
     (linked chain_row_link [] rows
      \<and> list_all (\<lambda>r. check_chain_row cr (verifying_key cr key) (Some (ak_key_id key)) r = Verified) rows
      \<and> n = length rows)"
  unfolding verify_chain_def verify_rows_def walk_chain_Broken walk_chain_Intact list_all_iff by simp

end
