(* ===== verification/Sk_Tamper.thy ===== *)
theory Sk_Tamper
  imports Sk_Audit_Chain
begin

text \<open>
  Tamper evidence of the two signed chains. The argument is the same for the transaction
  chain and for the approval-event chain, so it is made once, in the locale \<open>signed_chain\<close>:
  a list of rows that the walk accepts under the daemon's public key is a prefix of the chain
  the daemon wrote. The locale is interpreted on the transaction rows (\<open>tx_chain\<close>) and on the
  event rows (\<open>ev_chain\<close>).
\<close>

section \<open>What a hash column can hold\<close>

lemma signature_ok_hex:
  assumes "hex_laws cr" "signature_ok cr vk m s"
  shows "RS \<notin> set s" and "s \<noteq> []"
proof -
  from assms(2) obtain b where b: "hex_decode cr s = Some b" "length b = 64"
    by (auto simp: signature_ok_def split: option.splits)
  with assms(1) have "list_all is_ascii_hexdigit s"
    by (auto simp: hex_laws_def)
  then show "RS \<notin> set s"
    by (auto simp: list_all_iff byte_class_defs RS_def)
  show "s \<noteq> []"
  proof
    assume "s = []"
    moreover have "length (hex_encode cr []) = 0"
      using assms(1) by (simp add: hex_laws_def)
    then have "hex_encode cr [] = []" by simp
    ultimately have "hex_decode cr s = Some []"
      using assms(1) unfolding hex_laws_def by metis
    with b show False by simp
  qed
qed

lemma hex_encode_no_RS:
  assumes "hex_laws cr"
  shows "RS \<notin> set (hex_encode cr b)"
proof -
  have "list_all is_ascii_hexdigit (hex_encode cr b)"
    using assms by (auto simp: hex_laws_def)
  then show ?thesis by (auto simp: list_all_iff byte_class_defs RS_def)
qed

lemma hex_encode_inject:
  assumes "hex_laws cr"
  shows "hex_encode cr a = hex_encode cr b \<longleftrightarrow> a = b"
  using assms unfolding hex_laws_def by (metis option.inject)

lemma hex_encode_nonempty:
  assumes "hex_laws cr" "b \<noteq> []"
  shows "hex_encode cr b \<noteq> []"
proof -
  have "length (hex_encode cr b) = 2 * length b"
    using assms(1) by (simp add: hex_laws_def)
  with assms(2) show ?thesis by force
qed

section \<open>Chains written by the daemon\<close>

text \<open>
  \<open>well_chained\<close> describes the rows as the daemon writes them: linked, and each hash is the
  signature of the row's own message.
\<close>

definition row_msg :: "('r \<Rightarrow> 'c option) \<Rightarrow> ('c \<Rightarrow> string \<Rightarrow> string) \<Rightarrow> 'r chain_link \<Rightarrow> 'r \<Rightarrow> string" where
  "row_msg content message L r = message (the (content r)) (link_prev L r)"

definition well_chained ::
    "('sk, 'vk) crypto \<Rightarrow> 'sk \<Rightarrow> ('r \<Rightarrow> 'c option) \<Rightarrow> ('c \<Rightarrow> string \<Rightarrow> string) \<Rightarrow> 'r chain_link
     \<Rightarrow> 'r list \<Rightarrow> bool" where
  "well_chained cr sk content message L rows \<longleftrightarrow>
     linked L [] rows \<and>
     list_all (\<lambda>r. content r \<noteq> None \<and>
       link_hash L r = hex_encode cr (ed_sign cr sk (row_msg content message L r)) \<and>
       ed_sign cr sk (row_msg content message L r) \<noteq> []) rows"

text \<open>The row of a chain is accepted by the public key.\<close>

definition row_accepted ::
    "('sk, 'vk) crypto \<Rightarrow> 'vk \<Rightarrow> ('r \<Rightarrow> 'c option) \<Rightarrow> ('c \<Rightarrow> string \<Rightarrow> string) \<Rightarrow> 'r chain_link
     \<Rightarrow> 'r \<Rightarrow> bool" where
  "row_accepted cr vk content message L r \<longleftrightarrow>
     content r \<noteq> None \<and> signature_ok cr vk (row_msg content message L r) (link_hash L r)"

text \<open>
  \<open>only_signed S msgs\<close>: of the messages of this kind, the daemon signed exactly those of
  \<open>msgs\<close>; \<open>S\<close> holds everything it signed, in any context.
\<close>

definition only_signed :: "('c \<Rightarrow> string \<Rightarrow> string) \<Rightarrow> string set \<Rightarrow> string set \<Rightarrow> bool" where
  "only_signed message S msgs \<longleftrightarrow>
     msgs \<subseteq> S \<and> (\<forall>c p. message c p \<in> S \<longrightarrow> message c p \<in> msgs)"

section \<open>The contract of a signed chain\<close>

text \<open>
  The provider promises that its messages are injective up to \<open>view\<close>, the part of a content
  that is signed, for hashes without a separator byte.
\<close>

locale signed_chain =
  fixes link :: "'r chain_link"
    and content :: "'r \<Rightarrow> 'c option"
    and message :: "'c \<Rightarrow> string \<Rightarrow> string"
    and view :: "'c \<Rightarrow> 'c"
  assumes message_inject:
    "message c p = message d q \<Longrightarrow> RS \<notin> set p \<Longrightarrow> RS \<notin> set q \<Longrightarrow> view c = view d \<and> p = q"
begin

lemma accepted_links_no_RS:
  assumes "hex_laws cr" "linked link [] rows" "list_all (row_accepted cr vk content message link) rows"
    and "i < length rows"
  shows "RS \<notin> set (link_prev link (rows ! i))"
proof (cases i)
  case 0
  with assms show ?thesis by (simp add: linked_iff_nth prev_hash_at_def)
next
  case (Suc j)
  then have prev: "link_prev link (rows ! i) = link_hash link (rows ! j)"
    using assms(2,4) by (simp add: linked_iff_nth prev_hash_at_def)
  have "signature_ok cr vk (row_msg content message link (rows ! j)) (link_hash link (rows ! j))"
    using assms(3,4) Suc by (simp add: list_all_length row_accepted_def)
  with assms(1) show ?thesis
    unfolding prev by (rule signature_ok_hex(1))
qed

lemma honest_links:
  assumes "hex_laws cr" "well_chained cr sk content message link hs" "i < length hs"
  shows "RS \<notin> set (link_prev link (hs ! i))"
    and "link_prev link (hs ! i) = [] \<longleftrightarrow> i = 0"
proof -
  have linked: "linked link [] hs"
    using assms(2) by (simp add: well_chained_def)
  have "RS \<notin> set (link_prev link (hs ! i)) \<and> (link_prev link (hs ! i) = [] \<longleftrightarrow> i = 0)"
  proof (cases i)
    case 0
    with assms(3) linked show ?thesis by (simp add: linked_iff_nth prev_hash_at_def)
  next
    case (Suc j)
    with assms(3) linked have prev: "link_prev link (hs ! i) = link_hash link (hs ! j)"
      by (simp add: linked_iff_nth prev_hash_at_def)
    have "link_hash link (hs ! j) = hex_encode cr (ed_sign cr sk (row_msg content message link (hs ! j)))
        \<and> ed_sign cr sk (row_msg content message link (hs ! j)) \<noteq> []"
      using assms(2,3) Suc by (simp add: well_chained_def list_all_length)
    with assms(1) Suc prev show ?thesis
      by (simp add: hex_encode_no_RS hex_encode_nonempty)
  qed
  then show "RS \<notin> set (link_prev link (hs ! i))"
    and "link_prev link (hs ! i) = [] \<longleftrightarrow> i = 0" by blast+
qed

lemma honest_hash:
  assumes "well_chained cr sk content message link hs" "i < length hs"
  shows "link_hash link (hs ! i) = hex_encode cr (ed_sign cr sk (row_msg content message link (hs ! i)))"
  using assms by (simp add: well_chained_def list_all_length)

lemma honest_prev_Suc:
  assumes "well_chained cr sk content message link hs" "Suc i < length hs"
  shows "link_prev link (hs ! Suc i) = link_hash link (hs ! i)"
  using assms by (simp add: well_chained_def linked_iff_nth prev_hash_at_def)

text \<open>No message occurs twice in a chain the daemon wrote.\<close>

lemma honest_msg_distinct:
  assumes hex: "hex_laws cr" and wc: "well_chained cr sk content message link hs"
    and inj: "inj_on (ed_sign cr sk) S"
    and sub: "row_msg content message link ` set hs \<subseteq> S"
    and "i < length hs" "j < length hs"
    and "row_msg content message link (hs ! i) = row_msg content message link (hs ! j)"
  shows "i = j"
  using assms(5-7)
proof (induction i arbitrary: j)
  case (0 j)
  then have "link_prev link (hs ! 0) = link_prev link (hs ! j)"
    using message_inject honest_links(1) [OF hex wc] unfolding row_msg_def by blast
  with 0 show ?case using honest_links(2) [OF hex wc] by metis
next
  case (Suc i j)
  have prev: "link_prev link (hs ! Suc i) = link_prev link (hs ! j)"
    using Suc.prems message_inject honest_links(1) [OF hex wc] unfolding row_msg_def by blast
  moreover have "link_prev link (hs ! Suc i) \<noteq> []"
    using honest_links(2) [OF hex wc Suc.prems(1)] by simp
  ultimately have "j \<noteq> 0"
    using honest_links(2) [OF hex wc Suc.prems(2)] by simp
  then obtain k where k: "j = Suc k" by (cases j) auto
  have "hex_encode cr (ed_sign cr sk (row_msg content message link (hs ! i)))
      = hex_encode cr (ed_sign cr sk (row_msg content message link (hs ! k)))"
    using prev Suc.prems k honest_prev_Suc [OF wc] honest_hash [OF wc] by simp
  then have "ed_sign cr sk (row_msg content message link (hs ! i))
      = ed_sign cr sk (row_msg content message link (hs ! k))"
    by (simp add: hex_encode_inject [OF hex])
  moreover have "row_msg content message link (hs ! i) \<in> S" "row_msg content message link (hs ! k) \<in> S"
    using sub Suc.prems k by auto
  ultimately have "row_msg content message link (hs ! i) = row_msg content message link (hs ! k)"
    using inj by (simp add: inj_on_eq_iff)
  with Suc.IH [of k] Suc.prems k show ?case by simp
qed

text \<open>Each accepted row is the row of the daemon's chain at the same position.\<close>

lemma accepted_row_position:
  assumes hex: "hex_laws cr" and wc: "well_chained cr sk content message link hs"
    and unf: "unforgeable cr sk S (link_hash link ` set rows)"
    and only: "only_signed message S (row_msg content message link ` set hs)"
    and linked: "linked link [] rows"
    and acc: "list_all (row_accepted cr (ed_public cr sk) content message link) rows"
    and "i < length rows"
  shows "i < length hs \<and> row_msg content message link (rows ! i) = row_msg content message link (hs ! i)"
  using assms(7)
proof (induction i)
  let ?msg = "row_msg content message link"
  have inS: "?msg (rows ! i) \<in> ?msg ` set hs" if "i < length rows" for i
  proof -
    have "signature_ok cr (ed_public cr sk) (?msg (rows ! i)) (link_hash link (rows ! i))"
      using acc that by (auto simp: list_all_length row_accepted_def)
    then have "?msg (rows ! i) \<in> S"
      using unf nth_mem [OF that] by (simp add: unforgeable_def)
    with only show ?thesis by (simp add: only_signed_def row_msg_def)
  qed
  have found: "\<exists>j < length hs. ?msg (rows ! i) = ?msg (hs ! j)
      \<and> link_prev link (rows ! i) = link_prev link (hs ! j)" if i: "i < length rows" for i
  proof -
    from inS [OF i] obtain j where j: "j < length hs" "?msg (rows ! i) = ?msg (hs ! j)"
      by (auto simp: in_set_conv_nth)
    then have "link_prev link (rows ! i) = link_prev link (hs ! j)"
      using message_inject accepted_links_no_RS [OF hex linked acc i] honest_links(1) [OF hex wc j(1)]
      unfolding row_msg_def by blast
    with j show ?thesis by blast
  qed
  {
    case 0
    with found obtain j where j: "j < length hs" "?msg (rows ! 0) = ?msg (hs ! j)"
      "link_prev link (rows ! 0) = link_prev link (hs ! j)" by blast
    moreover have "link_prev link (rows ! 0) = []"
      using linked 0 by (simp add: linked_iff_nth prev_hash_at_def)
    ultimately have "j = 0" using honest_links(2) [OF hex wc j(1)] by simp
    with j show ?case by simp
  next
    case (Suc i)
    then have IH: "i < length hs" "?msg (rows ! i) = ?msg (hs ! i)" by auto
    from found [OF Suc.prems] obtain j where j: "j < length hs" "?msg (rows ! Suc i) = ?msg (hs ! j)"
      "link_prev link (rows ! Suc i) = link_prev link (hs ! j)" by blast
    have prev: "link_prev link (rows ! Suc i) = link_hash link (rows ! i)"
      using linked Suc.prems by (simp add: linked_iff_nth prev_hash_at_def)
    have sig: "signature_ok cr (ed_public cr sk) (?msg (rows ! i)) (link_hash link (rows ! i))"
      using acc Suc.prems by (simp add: list_all_length row_accepted_def)
    then have "link_hash link (rows ! i) \<noteq> []"
      using signature_ok_hex(2) [OF hex] by blast
    then obtain k where k: "j = Suc k"
      using j prev honest_links(2) [OF hex wc j(1)] by (cases j) auto
    from sig have "hex_decode cr (link_hash link (rows ! i)) = Some (ed_sign cr sk (?msg (rows ! i)))"
      using unf nth_mem [OF Suc_lessD [OF Suc.prems]] by (simp add: unforgeable_def)
    moreover have "link_hash link (rows ! i) = hex_encode cr (ed_sign cr sk (?msg (hs ! k)))"
      using j prev k honest_prev_Suc [OF wc] honest_hash [OF wc] by simp
    ultimately have "ed_sign cr sk (?msg (hs ! k)) = ed_sign cr sk (?msg (hs ! i))"
      using hex IH by (simp add: hex_laws_def)
    moreover have "?msg (hs ! k) \<in> S" "?msg (hs ! i) \<in> S"
      using only j k IH by (auto simp: only_signed_def)
    ultimately have "?msg (hs ! k) = ?msg (hs ! i)"
      using unf unfolding unforgeable_def by (metis inj_onD)
    moreover have "inj_on (ed_sign cr sk) S" "?msg ` set hs \<subseteq> S"
      using unf only by (auto simp: unforgeable_def only_signed_def)
    ultimately have "k = i"
      using honest_msg_distinct [OF hex wc _ _ _ IH(1)] j(1) k by (metis Suc_lessD)
    with j k show ?case by simp
  }
qed

theorem accepted_is_prefix:
  assumes "hex_laws cr" "well_chained cr sk content message link hs" "unforgeable cr sk S (link_hash link ` set rows)"
    and "only_signed message S (row_msg content message link ` set hs)"
    and "linked link [] rows" "list_all (row_accepted cr (ed_public cr sk) content message link) rows"
  shows "length rows \<le> length hs
    \<and> map (\<lambda>r. map_option view (content r)) rows = map (\<lambda>r. map_option view (content r)) (take (length rows) hs)
    \<and> map (link_prev link) rows = map (link_prev link) (take (length rows) hs)"
proof -
  have pos: "i < length hs \<and> row_msg content message link (rows ! i) = row_msg content message link (hs ! i)"
    if "i < length rows" for i
    using accepted_row_position [OF assms that] .
  have len: "length rows \<le> length hs"
  proof (rule ccontr)
    assume "\<not> ?thesis"
    then have "length hs < length rows" by simp
    with pos show False by blast
  qed
  have same: "map_option view (content (rows ! i)) = map_option view (content (hs ! i))
      \<and> link_prev link (rows ! i) = link_prev link (hs ! i)" if i: "i < length rows" for i
  proof -
    have "content (rows ! i) \<noteq> None" "content (hs ! i) \<noteq> None"
      using assms(2,6) i pos [OF i] by (auto simp: list_all_length row_accepted_def well_chained_def)
    moreover have "view (the (content (rows ! i))) = view (the (content (hs ! i)))
        \<and> link_prev link (rows ! i) = link_prev link (hs ! i)"
      using pos [OF i] message_inject accepted_links_no_RS [OF assms(1,5,6) i]
        honest_links(1) [OF assms(1,2), of i] unfolding row_msg_def by blast
    ultimately show ?thesis by auto
  qed
  from len same show ?thesis
    by (auto intro!: nth_equalityI)
qed

end

section \<open>The two chains\<close>

definition tx_content :: "chain_row \<Rightarrow> chain_content option" where
  "tx_content row = (case chain_row_identity row of
     Inl _ \<Rightarrow> None | Inr identity \<Rightarrow> Some (chain_row_content row identity))"

definition ev_content :: "event_row \<Rightarrow> event_content option" where
  "ev_content row = (case parse_event_kind (er_kind row) of
     None \<Rightarrow> None
   | Some kind \<Rightarrow> (case event_row_identity row of
       Inl _ \<Rightarrow> None | Inr identity \<Rightarrow> Some (event_row_content row kind identity)))"

interpretation tx_chain: signed_chain chain_row_link tx_content chain_message signed_content
  by unfold_locales (rule chain_message_inject)

interpretation ev_chain: signed_chain event_row_link ev_content event_message "\<lambda>c. c"
  by unfold_locales (rule event_message_inject)

lemma check_chain_row_Verified:
  "check_chain_row cr vk k row = Verified \<longleftrightarrow>
     row_accepted cr vk tx_content chain_message chain_row_link row"
  by (auto simp: check_chain_row_def row_accepted_def tx_content_def row_msg_def failed_signature_def Let_def
      split: sum.splits row_identity_error.splits option.splits if_splits)

lemma check_event_row_Verified:
  "check_event_row cr vk k row = Verified \<longleftrightarrow>
     row_accepted cr vk ev_content event_message event_row_link row"
  by (auto simp: check_event_row_def row_accepted_def ev_content_def row_msg_def failed_signature_def
      split: sum.splits row_identity_error.splits option.splits if_splits)

abbreviation tx_well_chained :: "('sk, 'vk) crypto \<Rightarrow> 'sk \<Rightarrow> chain_row list \<Rightarrow> bool" where
  "tx_well_chained cr sk \<equiv> well_chained cr sk tx_content chain_message chain_row_link"

abbreviation ev_well_chained :: "('sk, 'vk) crypto \<Rightarrow> 'sk \<Rightarrow> event_row list \<Rightarrow> bool" where
  "ev_well_chained cr sk \<equiv> well_chained cr sk ev_content event_message event_row_link"

abbreviation tx_msg :: "chain_row \<Rightarrow> string" where
  "tx_msg \<equiv> row_msg tx_content chain_message chain_row_link"

abbreviation ev_msg :: "event_row \<Rightarrow> string" where
  "ev_msg \<equiv> row_msg ev_content event_message event_row_link"

text \<open>What the daemon wrote verifies, under any key-id expectation.\<close>

lemma well_chained_accepted:
  assumes "sig_correct cr" "hex_laws cr" "well_chained cr sk content message L rows"
  shows "list_all (row_accepted cr (ed_public cr sk) content message L) rows"
  using assms
  by (auto simp: well_chained_def list_all_iff row_accepted_def signature_ok_def sig_correct_def hex_laws_def)

lemma well_chained_verifies:
  assumes "sig_correct cr" "hex_laws cr" "tx_well_chained cr sk rows"
  shows "verify_rows cr (ed_public cr sk) k rows = Intact (length rows)"
  using well_chained_accepted [OF assms] assms(3)
  by (auto simp: verify_rows_def walk_chain_Intact check_chain_row_Verified well_chained_def list_all_iff)

lemma ev_well_chained_verifies:
  assumes "sig_correct cr" "hex_laws cr" "ev_well_chained cr sk rows"
  shows "verify_event_rows cr (ed_public cr sk) k rows = Intact (length rows)"
  using well_chained_accepted [OF assms] assms(3)
  by (auto simp: verify_event_rows_def walk_chain_Intact check_event_row_Verified well_chained_def list_all_iff)

lemma verify_rows_IntactD:
  assumes "verify_rows cr vk k rows = Intact n"
  shows "linked chain_row_link [] rows"
    "list_all (row_accepted cr vk tx_content chain_message chain_row_link) rows" "n = length rows"
  using assms by (auto simp: verify_rows_def walk_chain_Intact check_chain_row_Verified list_all_iff)

lemma verify_event_rows_IntactD:
  assumes "verify_event_rows cr vk k rows = Intact n"
  shows "linked event_row_link [] rows"
    "list_all (row_accepted cr vk ev_content event_message event_row_link) rows" "n = length rows"
  using assms by (auto simp: verify_event_rows_def walk_chain_Intact check_event_row_Verified list_all_iff)

end
