(* ===== verification/Sk_Auth.thy ===== *)
theory Sk_Auth
  imports Sk_Types "HOL-Library.Word"
begin

text \<open>
  \<^verbatim>\<open>crates/sysknife-daemon/src/auth.rs\<close>: the role of a caller from its groups, the principal
  that is signed into the audit chain and the reader that classifies a stored principal, the
  pairing of role and principal per transport, and the authentication of a vsock peer by the
  pre-shared token. The file system and the environment variable \<^verbatim>\<open>SYSKNIFE_TOKEN_ROLE\<close> are
  arguments.
\<close>

unbundle bit_operations_syntax

section \<open>Roles from groups\<close>

definition OBSERVER_GROUP :: string where "OBSERVER_GROUP = ''sysknife-observer''"
definition DEV_GROUP :: string where "DEV_GROUP = ''sysknife-dev''"
definition ADMIN_GROUP :: string where "ADMIN_GROUP = ''sysknife-admin''"
definition BOOT_GROUP :: string where "BOOT_GROUP = ''sysknife-boot''"
definition WHEEL_GROUP :: string where "WHEEL_GROUP = ''wheel''"

lemmas group_defs =
  OBSERVER_GROUP_def DEV_GROUP_def ADMIN_GROUP_def BOOT_GROUP_def WHEEL_GROUP_def

definition role_for_group :: "string \<Rightarrow> caller_role" where
  "role_for_group grp =
     (if grp = BOOT_GROUP then Boot
      else if grp = ADMIN_GROUP \<or> grp = WHEEL_GROUP then Admin
      else if grp = DEV_GROUP then Dev
      else if grp = OBSERVER_GROUP then Observer
      else Observer)"

definition higher_role :: "caller_role \<Rightarrow> caller_role \<Rightarrow> caller_role" where
  "higher_role current candidate = max current candidate"

definition highest_role_from_groups :: "string list \<Rightarrow> caller_role" where
  "highest_role_from_groups groups = foldl higher_role Observer (map role_for_group groups)"

fun group_for_role :: "caller_role \<Rightarrow> string" where
  "group_for_role Boot = BOOT_GROUP"
| "group_for_role Admin = ADMIN_GROUP"
| "group_for_role Dev = DEV_GROUP"
| "group_for_role Observer = OBSERVER_GROUP"

lemma foldl_higher_role_ge: "r \<le> foldl higher_role c rs \<longleftrightarrow> r \<le> c \<or> (\<exists>x \<in> set rs. r \<le> x)"
  by (induction rs arbitrary: c) (auto simp: higher_role_def le_max_iff_disj)

text \<open>The resolved role is the highest one any group grants: it meets a requirement exactly when
  the requirement is \<open>Observer\<close> or one of the groups grants it.\<close>

lemma highest_role_ge:
  "r \<le> highest_role_from_groups groups \<longleftrightarrow> r = Observer \<or> (\<exists>g \<in> set groups. r \<le> role_for_group g)"
proof -
  have "r \<le> Observer \<longleftrightarrow> r = Observer"
    by (cases r) (simp_all add: less_eq_caller_role_def)
  then show ?thesis
    by (simp add: highest_role_from_groups_def foldl_higher_role_ge)
qed

lemma role_for_group_for_role [simp]: "role_for_group (group_for_role r) = r"
  by (cases r) (simp_all add: role_for_group_def group_defs)

section \<open>Principals\<close>

datatype caller_principal = Uid "32 word" | VsockToken | Unattributed

fun principal_scheme :: "caller_principal \<Rightarrow> string" where
  "principal_scheme (Uid _) = ''uid''"
| "principal_scheme VsockToken = ''token''"
| "principal_scheme Unattributed = ''none''"

fun principal_value :: "caller_principal \<Rightarrow> string" where
  "principal_value (Uid uid) = dec (unat uid)"
| "principal_value VsockToken = ''vsock''"
| "principal_value Unattributed = ''unattributed''"

definition as_signed_str :: "caller_principal \<Rightarrow> string" where
  "as_signed_str p = principal_scheme p @ '':'' @ principal_value p"

datatype principal_claim = Account | AttributionFailed | Unrecognized

fun principal_claim_of :: "caller_principal \<Rightarrow> principal_claim" where
  "principal_claim_of (Uid _) = Account"
| "principal_claim_of VsockToken = Account"
| "principal_claim_of Unattributed = AttributionFailed"

definition principal_candidate :: "string \<Rightarrow> string \<Rightarrow> caller_principal option" where
  "principal_candidate scheme v =
     (if scheme = principal_scheme (Uid 0) then
        map_option (\<lambda>n. Uid (of_nat n)) (parse_uint (2 ^ 32 - 1) v)
      else if scheme = principal_scheme VsockToken then Some VsockToken
      else if scheme = principal_scheme Unattributed then Some Unattributed
      else None)"

definition from_signed :: "string \<Rightarrow> caller_principal option" where
  "from_signed stored =
     (case split_once stored '':'' of
        None \<Rightarrow> None
      | Some (scheme, v) \<Rightarrow>
          (case principal_candidate scheme v of
             None \<Rightarrow> None
           | Some candidate \<Rightarrow> if as_signed_str candidate = stored then Some candidate else None))"

definition classify :: "string \<Rightarrow> principal_claim" where
  "classify stored =
     (case from_signed stored of
        Some p \<Rightarrow> principal_claim_of p
      | None \<Rightarrow> Unrecognized)"

lemma as_signed_str_nonempty [simp]: "as_signed_str p \<noteq> []"
  by (simp add: as_signed_str_def)

lemma scheme_no_colon: "CHR '':'' \<notin> set (principal_scheme p)"
  by (cases p) simp_all

lemma from_signed_as_signed_str [simp]: "from_signed (as_signed_str p) = Some p"
proof -
  have split: "split_once (as_signed_str p) '':'' = Some (principal_scheme p, principal_value p)"
    using split_once_single [OF scheme_no_colon] by (simp add: as_signed_str_def)
  have "principal_candidate (principal_scheme p) (principal_value p) = Some p"
  proof (cases p)
    case (Uid u)
    have "unat u \<le> 2 ^ 32 - 1"
      using unsigned_less [of u, where ?'a = nat] by simp
    then show ?thesis
      by (simp add: Uid principal_candidate_def parse_uint_dec)
  qed (simp_all add: principal_candidate_def)
  with split show ?thesis by (simp add: from_signed_def)
qed

text \<open>A stored string is read back exactly when some principal renders to it.\<close>

lemma from_signed_iff: "from_signed s = Some p \<longleftrightarrow> s = as_signed_str p"
proof
  assume "from_signed s = Some p"
  then show "s = as_signed_str p"
    by (auto simp: from_signed_def split: option.splits prod.splits if_splits)
qed simp

lemma as_signed_str_inject [simp]: "as_signed_str p = as_signed_str q \<longleftrightarrow> p = q"
  by (metis from_signed_as_signed_str option.inject)

section \<open>Attribution of a connection\<close>

record caller_attribution =
  ca_role :: caller_role
  ca_principal :: caller_principal

definition from_peer_uid :: "32 word \<Rightarrow> caller_role \<Rightarrow> caller_attribution" where
  "from_peer_uid uid role = \<lparr>ca_role = role, ca_principal = Uid uid\<rparr>"

definition from_vsock_token :: "caller_role \<Rightarrow> caller_attribution" where
  "from_vsock_token role = \<lparr>ca_role = role, ca_principal = VsockToken\<rparr>"

definition unattributed :: caller_attribution where
  "unattributed = \<lparr>ca_role = Observer, ca_principal = Unattributed\<rparr>"

text \<open>The fields are private, so every attribution comes from one of the constructors.\<close>

inductive attribution :: "caller_attribution \<Rightarrow> bool" where
  peer: "attribution (from_peer_uid uid role)"
| vsock: "attribution (from_vsock_token role)"
| failed: "attribution unattributed"

lemma unattributed_is_observer:
  "attribution a \<Longrightarrow> ca_principal a = Unattributed \<Longrightarrow> ca_role a = Observer"
  by (induction rule: attribution.induct)
    (simp_all add: from_peer_uid_def from_vsock_token_def unattributed_def)

section \<open>The vsock token\<close>

definition token_role :: "string \<Rightarrow> caller_role" where
  "token_role raw =
     (let s = to_ascii_lowercase (trim raw) in
      if s = ''observer'' then Observer
      else if s = ''admin'' then Admin
      else if s = ''boot'' then Boot
      else if s = ''dev'' \<or> s = [] then Dev
      else Observer)"

datatype io_error_kind = IoNotFound | OtherIoError

record token_file =
  tf_mode :: "io_error_kind + 32 word"
  tf_contents :: "io_error_kind + string"

text \<open>\<^verbatim>\<open>mode & 0o077\<close>: the permission bits of group and other.\<close>

definition group_other_bits :: "32 word \<Rightarrow> 32 word" where
  "group_other_bits mode = mode AND 0x3F"

definition token_file_permissions_ok :: "token_file \<Rightarrow> io_error_kind + bool" where
  "token_file_permissions_ok f =
     and_then (tf_mode f) (\<lambda>mode. Inr (group_other_bits mode = 0))"

definition validate_token_against_file ::
    "string \<Rightarrow> string \<Rightarrow> token_file \<Rightarrow> caller_role option" where
  "validate_token_against_file env_role presented_token f =
     (if presented_token = [] then None
      else case token_file_permissions_ok f of
        Inl e \<Rightarrow> None
      | Inr False \<Rightarrow> None
      | Inr True \<Rightarrow>
          (case tf_contents f of
             Inl e \<Rightarrow> None
           | Inr contents \<Rightarrow>
               let stored = trim contents in
               if stored = [] then None
               else if length stored \<noteq> length presented_token then None
               else if stored \<noteq> presented_token then None
               else Some (token_role env_role)))"

lemma validate_token_Some:
  "validate_token_against_file env tok f = Some r \<longleftrightarrow>
     tok \<noteq> [] \<and> (\<exists>mode. tf_mode f = Inr mode \<and> group_other_bits mode = 0)
     \<and> (\<exists>contents. tf_contents f = Inr contents \<and> trim contents = tok) \<and> r = token_role env"
  by (auto simp: validate_token_against_file_def token_file_permissions_ok_def Let_def
      split: sum.splits bool.splits if_splits)

section \<open>Properties\<close>

text \<open>The role of a caller. The resolved role meets a requirement exactly when the requirement is
  \<^verbatim>\<open>Observer\<close> or one of the caller's groups grants at least it, so unknown groups give nothing and the order
  of the groups does not matter; each role's own group grants exactly that role.\<close>

lemma caller_role_is_highest_granted:
  "r \<le> highest_role_from_groups groups \<longleftrightarrow> r = Observer \<or> list_ex (\<lambda>g. r \<le> role_for_group g) groups"
  by (auto simp: highest_role_ge list_ex_iff)

text \<open>Principals are recorded unambiguously. The signed string of a principal reads back as that
  principal, different principals are signed differently, a string is read as a principal only if it is
  exactly what that principal is signed as, and every other string is reported as unrecognised.\<close>

lemma principal_string_roundtrip:
  "from_signed (as_signed_str p) = Some p \<and> (as_signed_str p = as_signed_str q) = (p = q)
   \<and> (from_signed s = Some p) = (s = as_signed_str p)
   \<and> (classify s = Unrecognized) = (\<forall>p. s \<noteq> as_signed_str p)"
proof -
  have "(classify s = Unrecognized) = (from_signed s = None)"
    by (auto simp: classify_def split: option.splits) (metis principal_claim.distinct principal_claim_of.elims)
  also have "\<dots> = (\<forall>p. s \<noteq> as_signed_str p)" by (metis from_signed_iff not_None_eq)
  finally show ?thesis by (simp add: from_signed_iff)
qed

text \<open>A token gives a role only when it is non-empty, the token file is closed to group and others, and
  the file holds exactly this token (up to surrounding white space); the role is the configured one.\<close>

lemma token_accepted_iff:
  "validate_token_against_file env tok f = Some r \<longleftrightarrow>
     tok \<noteq> [] \<and> (\<exists>mode. tf_mode f = Inr mode \<and> group_other_bits mode = 0)
     \<and> (\<exists>contents. tf_contents f = Inr contents \<and> trim contents = tok) \<and> r = token_role env"
  by (rule validate_token_Some)

end
