(* ===== verification/Sk_Audit_Report.thy ===== *)
theory Sk_Audit_Report
  imports Sk_Tamper Sk_Auth
begin

text \<open>
  The reports built on the chains in \<^verbatim>\<open>crates/sysknife-daemon/src/audit_chain.rs\<close>: the status
  cross-check, the binding of transaction rows to event tips, the attribution census, the
  combined verdict of \<^verbatim>\<open>sysknife audit verify\<close>, signed checkpoints, and the selection of rows
  for export.
\<close>

section \<open>Status cross-check\<close>

datatype status_outcome =
    Agrees nat
  | Disagrees string
  | StatusCannotVerify string

record status_evidence =
  se_transaction_id :: string
  se_status :: job_state
  se_newest_status_event :: "string option"
  se_approval_consumed :: bool
  se_predates_status_events :: bool

fun job_state_debug :: "job_state \<Rightarrow> string" where
  "job_state_debug Queued = ''Queued''"
| "job_state_debug Running = ''Running''"
| "job_state_debug Succeeded = ''Succeeded''"
| "job_state_debug Failed = ''Failed''"
| "job_state_debug Canceled = ''Canceled''"
| "job_state_debug RolledBack = ''RolledBack''"
| "job_state_debug NeedsReboot = ''NeedsReboot''"

text \<open>What the loop body does with one row: nothing, or a push onto one of the two vectors.\<close>

datatype status_judgement = RowAgrees | RowDisagrees string | RowUnproven string

definition judge_status :: "status_evidence \<Rightarrow> status_judgement" where
  "judge_status row =
     (let txid = se_transaction_id row; state = se_status row in
      case se_newest_status_event row of
        None \<Rightarrow>
          if state = Queued \<and> se_approval_consumed row then
            RowDisagrees (txid @ '': status is Queued but a chained approval_consumed event proves it left Queued'')
          else if state = Running \<or> state = Canceled then
            RowUnproven (txid @ '': status is '' @ job_state_debug state @
              '' and no status event was ever chained; historical writes cannot establish the execution outcome'')
          else if state \<noteq> Queued \<and> se_predates_status_events row then
            RowUnproven (txid @ '': status is '' @ job_state_debug state @
              '' on a row written before this store chained status events; nothing signed records its outcome'')
          else if state \<noteq> Queued then
            RowDisagrees (txid @ '': status is '' @ job_state_debug state @
              '' but no status event was ever chained; terminal outcomes require a signed status event'')
          else RowAgrees
      | Some newest \<Rightarrow>
          let expected = kind_as_str (kind_of_status state) in
          if newest \<noteq> expected then
            RowDisagrees (txid @ '': status column says '' @ job_state_debug state @ '' ('' @ expected @
              '') and the newest chained status event is '' @ newest)
          else RowAgrees)"

fun status_loop ::
    "string list \<Rightarrow> string list \<Rightarrow> nat \<Rightarrow> status_evidence list \<Rightarrow> status_outcome" where
  "status_loop disagreements unproven checked [] =
     (if disagreements \<noteq> [] then Disagrees (join_with ''; '' disagreements)
      else if unproven \<noteq> [] then StatusCannotVerify (join_with ''; '' unproven)
      else Agrees checked)"
| "status_loop disagreements unproven checked (row # rows) =
     (case judge_status row of
        RowAgrees \<Rightarrow> status_loop disagreements unproven (checked + 1) rows
      | RowDisagrees d \<Rightarrow> status_loop (disagreements @ [d]) unproven (checked + 1) rows
      | RowUnproven u \<Rightarrow> status_loop disagreements (unproven @ [u]) (checked + 1) rows)"

definition status_outcome :: "status_evidence list \<Rightarrow> status_outcome" where
  "status_outcome rows = status_loop [] [] 0 rows"

fun status_outcome_to_exit_code :: "status_outcome \<Rightarrow> int" where
  "status_outcome_to_exit_code (Agrees _) = 0"
| "status_outcome_to_exit_code (Disagrees _) = 1"
| "status_outcome_to_exit_code (StatusCannotVerify _) = 2"

lemma status_loop_Disagrees:
  "(\<exists>d. status_loop ds us n rows = Disagrees d) \<longleftrightarrow>
     ds \<noteq> [] \<or> (\<exists>r \<in> set rows. \<exists>d. judge_status r = RowDisagrees d)"
proof (induction rows arbitrary: ds us n)
  case (Cons r rows)
  then show ?case by (cases "judge_status r") auto
qed simp

lemma status_loop_Agrees:
  "status_loop ds us n rows = Agrees k \<longleftrightarrow>
     ds = [] \<and> us = [] \<and> (\<forall>r \<in> set rows. judge_status r = RowAgrees) \<and> k = n + length rows"
proof (induction rows arbitrary: ds us n)
  case (Cons r rows)
  then show ?case by (cases "judge_status r") auto
qed auto

lemma status_outcome_Agrees:
  "status_outcome rows = Agrees k \<longleftrightarrow> (\<forall>r \<in> set rows. judge_status r = RowAgrees) \<and> k = length rows"
  by (auto simp: status_outcome_def status_loop_Agrees)

lemma status_outcome_Disagrees:
  "(\<exists>d. status_outcome rows = Disagrees d) \<longleftrightarrow> (\<exists>r \<in> set rows. \<exists>d. judge_status r = RowDisagrees d)"
  by (simp add: status_outcome_def status_loop_Disagrees)

lemma kind_of_status_inject [simp]: "kind_of_status a = kind_of_status b \<longleftrightarrow> a = b"
  by (cases a; cases b) simp_all

lemma judge_status_Some:
  "se_newest_status_event r = Some newest \<Longrightarrow>
     judge_status r = RowAgrees \<longleftrightarrow> newest = kind_as_str (kind_of_status (se_status r))"
  by (auto simp: judge_status_def Let_def)

lemma judge_status_None:
  "se_newest_status_event r = None \<Longrightarrow>
     judge_status r = RowAgrees \<longleftrightarrow> se_status r = Queued \<and> \<not> se_approval_consumed r"
  by (cases "se_status r") (auto simp: judge_status_def Let_def)

section \<open>Binding to the event chain\<close>

datatype binding_outcome =
    Consistent nat
  | NotChecked
  | MissingEvent nat string

fun binding_loop :: "string list \<Rightarrow> nat \<Rightarrow> chain_row list \<Rightarrow> binding_outcome" where
  "binding_loop known n [] = Consistent n"
| "binding_loop known n (row # rows) =
     (case cr_event_tip row of
        None \<Rightarrow> binding_loop known n rows
      | Some tip \<Rightarrow>
          if tip = [] then binding_loop known n rows
          else if tip \<notin> set known then MissingEvent (cr_seq row) tip
          else binding_loop known (n + 1) rows)"

definition verify_event_binding :: "chain_row list \<Rightarrow> event_row list \<Rightarrow> binding_outcome" where
  "verify_event_binding tx_rows event_rows = binding_loop (map er_chain_hash event_rows) 0 tx_rows"

fun binding_outcome_to_exit_code :: "binding_outcome \<Rightarrow> int" where
  "binding_outcome_to_exit_code (Consistent _) = 0"
| "binding_outcome_to_exit_code NotChecked = 2"
| "binding_outcome_to_exit_code (MissingEvent _ _) = 1"

lemma binding_loop_Consistent:
  "(\<exists>k. binding_loop known n rows = Consistent k) \<longleftrightarrow>
     (\<forall>r \<in> set rows. \<forall>tip. cr_event_tip r = Some tip \<longrightarrow> tip = [] \<or> tip \<in> set known)"
  by (induction rows arbitrary: n) (auto split: option.splits)

lemma verify_event_binding_Consistent:
  "(\<exists>k. verify_event_binding tx ev = Consistent k) \<longleftrightarrow>
     (\<forall>r \<in> set tx. \<forall>tip. cr_event_tip r = Some tip \<longrightarrow> tip = [] \<or> tip \<in> er_chain_hash ` set ev)"
  by (simp add: verify_event_binding_def binding_loop_Consistent)

section \<open>Attribution census\<close>

datatype row_standing = NamesAccount | StandingFailed | NotRecorded | Unattested

definition standing :: "chain_row \<Rightarrow> row_standing" where
  "standing row =
     (let stored = non_empty (cr_caller_principal row); v = cr_chain_version row in
      if v = CHAIN_VERSION_LEGACY \<or> v = CHAIN_VERSION_V2 then
        (case stored of None \<Rightarrow> NotRecorded | Some _ \<Rightarrow> Unattested)
      else if v = CHAIN_VERSION_V3 \<or> v = CHAIN_VERSION_V4 then
        (case stored of
           None \<Rightarrow> NotRecorded
         | Some p \<Rightarrow> (case classify p of
             Account \<Rightarrow> NamesAccount
           | AttributionFailed \<Rightarrow> StandingFailed
           | Unrecognized \<Rightarrow> Unattested))
      else Unattested)"

record attribution_census =
  ac_named :: nat
  ac_attribution_failed :: nat
  ac_not_recorded :: nat
  ac_unattested :: nat
  ac_rows :: nat

fun census_loop :: "attribution_census \<Rightarrow> chain_row list \<Rightarrow> attribution_census" where
  "census_loop c [] = c"
| "census_loop c (row # rows) =
     census_loop (case standing row of
        NamesAccount \<Rightarrow> c\<lparr>ac_named := ac_named c + 1\<rparr>
      | StandingFailed \<Rightarrow> c\<lparr>ac_attribution_failed := ac_attribution_failed c + 1\<rparr>
      | NotRecorded \<Rightarrow> c\<lparr>ac_not_recorded := ac_not_recorded c + 1\<rparr>
      | Unattested \<Rightarrow> c\<lparr>ac_unattested := ac_unattested c + 1\<rparr>) rows"

definition census_of :: "chain_row list \<Rightarrow> attribution_census" where
  "census_of tx_rows = census_loop \<lparr>ac_named = 0, ac_attribution_failed = 0, ac_not_recorded = 0,
     ac_unattested = 0, ac_rows = length tx_rows\<rparr> tx_rows"

definition unnamed :: "attribution_census \<Rightarrow> nat" where
  "unnamed c = ac_rows c - ac_named c"

lemma census_loop_counts:
  "ac_named (census_loop c rows) = ac_named c + length (filter (\<lambda>r. standing r = NamesAccount) rows)"
  "ac_attribution_failed (census_loop c rows) =
     ac_attribution_failed c + length (filter (\<lambda>r. standing r = StandingFailed) rows)"
  "ac_not_recorded (census_loop c rows) =
     ac_not_recorded c + length (filter (\<lambda>r. standing r = NotRecorded) rows)"
  "ac_unattested (census_loop c rows) =
     ac_unattested c + length (filter (\<lambda>r. standing r = Unattested) rows)"
  "ac_rows (census_loop c rows) = ac_rows c"
  by (induction rows arbitrary: c) (auto split: row_standing.splits)

lemma standing_partition:
  "length (filter (\<lambda>r. standing r = NamesAccount) rows)
   + length (filter (\<lambda>r. standing r = StandingFailed) rows)
   + length (filter (\<lambda>r. standing r = NotRecorded) rows)
   + length (filter (\<lambda>r. standing r = Unattested) rows) = length rows"
proof (induction rows)
  case (Cons r rows)
  then show ?case by (cases "standing r") simp_all
qed simp

lemma standing_NamesAccount:
  "standing row = NamesAccount \<longleftrightarrow>
     (cr_chain_version row = CHAIN_VERSION_V3 \<or> cr_chain_version row = CHAIN_VERSION_V4)
     \<and> (\<exists>p. cr_caller_principal row = Some (as_signed_str p) \<and> principal_claim_of p = Account)"
proof -
  have claim: "classify s = Account \<longleftrightarrow> (\<exists>p. s = as_signed_str p \<and> principal_claim_of p = Account)" for s
    unfolding classify_def
    by (cases "from_signed s") (auto simp: from_signed_iff)
  show ?thesis
    by (auto simp: standing_def Let_def non_empty_def claim version_defs
        split: option.splits principal_claim.splits if_splits)
      (use claim in \<open>metis principal_claim.distinct\<close>)+
qed

section \<open>The combined verdict\<close>

record audit_verification =
  av_chain :: verify_outcome
  av_events :: verify_outcome
  av_binding :: binding_outcome
  av_attribution :: "attribution_census option"
  av_status :: "status_outcome option"

definition exit_code :: "audit_verification \<Rightarrow> int" where
  "exit_code av =
     (let codes = [outcome_to_exit_code (av_chain av), outcome_to_exit_code (av_events av),
                   binding_outcome_to_exit_code (av_binding av)]
                  @ (case av_status av of None \<Rightarrow> [] | Some s \<Rightarrow> [status_outcome_to_exit_code s])
      in if 1 \<in> set codes then 1 else if 2 \<in> set codes then 2 else 0)"

definition verify_all ::
    "('sk, 'vk) crypto \<Rightarrow> 'sk audit_key \<Rightarrow> chain_row list \<Rightarrow> event_row list \<Rightarrow> audit_verification" where
  "verify_all cr key tx_rows event_rows = \<lparr>
     av_chain = verify_chain cr key tx_rows,
     av_events = verify_event_chain cr key event_rows,
     av_binding = verify_event_binding tx_rows event_rows,
     av_attribution = Some (census_of tx_rows),
     av_status = None\<rparr>"

definition verify_all_with_pubkey ::
    "('sk, 'vk) crypto \<Rightarrow> string \<Rightarrow> chain_row list \<Rightarrow> event_row list \<Rightarrow> audit_verification" where
  "verify_all_with_pubkey cr verifying_key_hex tx_rows event_rows = \<lparr>
     av_chain = verify_chain_with_pubkey cr verifying_key_hex tx_rows,
     av_events = verify_event_chain_with_pubkey cr verifying_key_hex event_rows,
     av_binding = verify_event_binding tx_rows event_rows,
     av_attribution = Some (census_of tx_rows),
     av_status = None\<rparr>"

section \<open>Checkpoints\<close>

record checkpoint =
  cp_seq :: nat
  cp_chain_tip :: string
  cp_created_at :: string
  cp_signature :: string

definition sign_checkpoint ::
    "('sk, 'vk) crypto \<Rightarrow> 'sk audit_key \<Rightarrow> nat \<Rightarrow> string \<Rightarrow> string \<Rightarrow> checkpoint" where
  "sign_checkpoint cr key sq chain_tip created_at = \<lparr>
     cp_seq = sq, cp_chain_tip = chain_tip, cp_created_at = created_at,
     cp_signature = hex_encode cr (ed_sign cr (ak_signing key) (checkpoint_message sq chain_tip created_at))\<rparr>"

datatype checkpoint_outcome =
    CheckpointsConsistent nat
  | BadSignature nat
  | Truncated nat nat
  | TipMismatch nat string string
  | CheckpointCannotVerify nat

text \<open>\<^verbatim>\<open>slice::binary_search_by_key\<close> over the half-open range \<open>[lo, hi)\<close>.\<close>

function bsearch :: "('r \<Rightarrow> nat) \<Rightarrow> 'r list \<Rightarrow> nat \<Rightarrow> nat \<Rightarrow> nat \<Rightarrow> nat option" where
  "bsearch key rows k lo hi =
     (if lo < hi then
        let mid = lo + (hi - lo) div 2; v = key (rows ! mid) in
        if v = k then Some mid
        else if v < k then bsearch key rows k (mid + 1) hi
        else bsearch key rows k lo mid
      else None)"
  by pat_completeness auto
termination
  by (relation "measure (\<lambda>(key, rows, k, lo, hi). hi - lo)") auto

declare bsearch.simps [simp del]

definition binary_search_by_key :: "('r \<Rightarrow> nat) \<Rightarrow> 'r list \<Rightarrow> nat \<Rightarrow> nat option" where
  "binary_search_by_key key rows k = bsearch key rows k 0 (length rows)"

fun checkpoint_loop ::
    "('sk, 'vk) crypto \<Rightarrow> 'vk \<Rightarrow> chain_row list \<Rightarrow> nat \<Rightarrow> nat \<Rightarrow> checkpoint list \<Rightarrow> checkpoint_outcome" where
  "checkpoint_loop cr vk rows max_seq checked [] = CheckpointsConsistent checked"
| "checkpoint_loop cr vk rows max_seq checked (cp # cps) =
     (if \<not> signature_ok cr vk (checkpoint_message (cp_seq cp) (cp_chain_tip cp) (cp_created_at cp))
           (cp_signature cp)
      then BadSignature (cp_seq cp)
      else case binary_search_by_key cr_seq rows (cp_seq cp) of
        Some idx \<Rightarrow>
          if cr_chain_hash (rows ! idx) = cp_chain_tip cp
          then checkpoint_loop cr vk rows max_seq (checked + 1) cps
          else TipMismatch (cp_seq cp) (cp_chain_tip cp) (cr_chain_hash (rows ! idx))
      | None \<Rightarrow> Truncated (cp_seq cp) max_seq)"

definition verify_checkpoints ::
    "('sk, 'vk) crypto \<Rightarrow> string \<Rightarrow> chain_row list \<Rightarrow> checkpoint list \<Rightarrow> checkpoint_outcome" where
  "verify_checkpoints cr verifying_key_hex rows checkpoints =
     (case parse_verifying_key cr verifying_key_hex of
        None \<Rightarrow> CheckpointCannotVerify (length verifying_key_hex)
      | Some vk \<Rightarrow>
          checkpoint_loop cr vk rows
            (case last_opt rows of None \<Rightarrow> 0 | Some r \<Rightarrow> cr_seq r) 0 checkpoints)"

fun checkpoint_outcome_to_exit_code :: "checkpoint_outcome \<Rightarrow> int" where
  "checkpoint_outcome_to_exit_code (CheckpointsConsistent _) = 0"
| "checkpoint_outcome_to_exit_code (BadSignature _) = 1"
| "checkpoint_outcome_to_exit_code (Truncated _ _) = 1"
| "checkpoint_outcome_to_exit_code (TipMismatch _ _ _) = 1"
| "checkpoint_outcome_to_exit_code (CheckpointCannotVerify _) = 2"

lemma bsearch_sound:
  "bsearch key rows k lo hi = Some i \<Longrightarrow> hi \<le> length rows \<Longrightarrow> i < length rows \<and> key (rows ! i) = k"
proof (induction key rows k lo hi rule: bsearch.induct)
  case (1 key rows k lo hi)
  then show ?case
    by (subst (asm) (3) bsearch.simps) (auto simp: Let_def split: if_splits)
qed

lemma bsearch_complete:
  "sorted_wrt (<) (map key rows) \<Longrightarrow> lo \<le> i \<Longrightarrow> i < hi \<Longrightarrow> hi \<le> length rows
     \<Longrightarrow> bsearch key rows (key (rows ! i)) lo hi = Some i"
proof (induction key rows "key (rows ! i)" lo hi rule: bsearch.induct)
  case (1 key rows lo hi)
  let ?mid = "lo + (hi - lo) div 2"
  have mono: "a < b \<Longrightarrow> b < length rows \<Longrightarrow> key (rows ! a) < key (rows ! b)" for a b
    using "1.prems"(1) by (simp add: sorted_wrt_iff_nth_less)
  have lt: "lo < hi" using "1.prems" by simp
  have mid: "lo \<le> ?mid" "?mid < hi" using lt by auto
  consider "?mid = i" | "?mid < i" | "i < ?mid" by linarith
  then show ?case
  proof cases
    case 1
    then show ?thesis using lt by (simp add: bsearch.simps [of _ _ _ lo] Let_def)
  next
    case 2
    then have "key (rows ! ?mid) < key (rows ! i)" using mono "1.prems" by simp
    with 2 lt "1.prems" "1.hyps"(1) [OF lt refl refl] show ?thesis
      by (simp add: bsearch.simps [of _ _ _ lo hi] Let_def)
  next
    case 3
    then have "key (rows ! i) < key (rows ! ?mid)" using mono mid "1.prems" by simp
    with 3 lt mid "1.prems" "1.hyps"(2) [OF lt refl refl] show ?thesis
      by (simp add: bsearch.simps [of _ _ _ lo hi] Let_def)
  qed
qed

text \<open>On rows in strictly increasing \<open>seq\<close> order the binary search is the search by key.\<close>

lemma binary_search_by_key_iff:
  assumes "sorted_wrt (<) (map key rows)"
  shows "binary_search_by_key key rows k = Some i \<longleftrightarrow> i < length rows \<and> key (rows ! i) = k"
  using assms bsearch_sound [of key rows k 0 "length rows" i] bsearch_complete [of key rows 0 i "length rows"]
  unfolding binary_search_by_key_def by auto

lemma checkpoint_loop_Consistent:
  "checkpoint_loop cr vk rows m n cps = CheckpointsConsistent k \<Longrightarrow> cp \<in> set cps \<Longrightarrow>
     \<exists>i. binary_search_by_key cr_seq rows (cp_seq cp) = Some i \<and> cr_chain_hash (rows ! i) = cp_chain_tip cp"
proof (induction cps arbitrary: n)
  case (Cons c cps)
  then show ?case
    by (auto split: if_splits option.splits)
qed simp

section \<open>Export\<close>

datatype chain_export_error = InvalidSince string | InvalidCreatedAt nat string

text \<open>\<open>parse_rfc3339\<close> stands for the parser of the \<^verbatim>\<open>chrono\<close> crate; it yields an instant.\<close>

definition validate_export_since ::
    "(string \<Rightarrow> int option) \<Rightarrow> string \<Rightarrow> chain_export_error + unit" where
  "validate_export_since parse_rfc3339 since =
     (case parse_rfc3339 since of None \<Rightarrow> Inl (InvalidSince since) | Some _ \<Rightarrow> Inr ())"

fun export_items ::
    "(string \<Rightarrow> int option) \<Rightarrow> int option \<Rightarrow> chain_row list \<Rightarrow> (chain_export_error + chain_row) list" where
  "export_items parse_rfc3339 since [] = []"
| "export_items parse_rfc3339 since (row # rows) =
     (case since of
        None \<Rightarrow> Inr row # export_items parse_rfc3339 since rows
      | Some s \<Rightarrow>
          (case parse_rfc3339 (cr_created_at row) of
             None \<Rightarrow> Inl (InvalidCreatedAt (cr_seq row) (cr_created_at row))
                       # export_items parse_rfc3339 since rows
           | Some created_at \<Rightarrow>
               if created_at \<ge> s then Inr row # export_items parse_rfc3339 since rows
               else export_items parse_rfc3339 since rows))"

fun collect_results :: "('e + 'a) list \<Rightarrow> 'e + 'a list" where
  "collect_results [] = Inr []"
| "collect_results (r # rs) = and_then r (\<lambda>x. and_then (collect_results rs) (\<lambda>xs. Inr (x # xs)))"

definition select_chain_rows_for_export ::
    "(string \<Rightarrow> int option) \<Rightarrow> chain_row list \<Rightarrow> string option \<Rightarrow> nat option
     \<Rightarrow> chain_export_error + chain_row list" where
  "select_chain_rows_for_export parse_rfc3339 rows since limit =
     and_then (case since of
         None \<Rightarrow> Inr None
       | Some v \<Rightarrow> (case parse_rfc3339 v of None \<Rightarrow> Inl (InvalidSince v) | Some t \<Rightarrow> Inr (Some t)))
       (\<lambda>since.
         let items = export_items parse_rfc3339 since rows in
         collect_results (case limit of None \<Rightarrow> items | Some n \<Rightarrow> take n items))"

lemma collect_results_Inr: "collect_results rs = Inr xs \<longleftrightarrow> rs = map Inr xs"
  by (induction rs arbitrary: xs) (auto simp: Cons_eq_map_conv)

text \<open>The rows an export keeps, as a filter.\<close>

definition export_keeps :: "(string \<Rightarrow> int option) \<Rightarrow> int option \<Rightarrow> chain_row \<Rightarrow> bool" where
  "export_keeps p since row =
     (case since of None \<Rightarrow> True
      | Some s \<Rightarrow> (case p (cr_created_at row) of None \<Rightarrow> False | Some c \<Rightarrow> c \<ge> s))"

lemma export_items_filter:
  "take n (export_items p since rows) = map Inr xs \<Longrightarrow> xs = take n (filter (export_keeps p since) rows)"
proof (induction rows arbitrary: xs n)
  case (Cons row rows)
  show ?case
  proof (cases n)
    case (Suc m)
    show ?thesis
      using Cons.prems Cons.IH [of n xs] Cons.IH [of m "tl xs"] Suc
      by (cases since)
        (auto simp: export_keeps_def Cons_eq_map_conv split: option.splits if_splits)
  qed (use Cons.prems in simp)
qed simp

lemma select_chain_rows_for_export_eq:
  assumes "select_chain_rows_for_export p rows since limit = Inr xs"
  shows "xs = (let kept = filter (export_keeps p (Option.bind since p)) rows in
               case limit of None \<Rightarrow> kept | Some n \<Rightarrow> take n kept)"
proof -
  have items: "collect_results (case limit of None \<Rightarrow> export_items p (Option.bind since p) rows
      | Some n \<Rightarrow> take n (export_items p (Option.bind since p) rows)) = Inr xs"
    using assms by (auto simp: select_chain_rows_for_export_def split: option.splits)
  let ?it = "export_items p (Option.bind since p) rows"
  show ?thesis
  proof (cases limit)
    case None
    with items have it: "?it = map Inr xs" by (simp add: collect_results_Inr)
    have "take (length ?it + length rows) ?it = map Inr xs" by (simp add: it)
    from export_items_filter [OF this] have "xs = filter (export_keeps p (Option.bind since p)) rows"
      by (simp add: trans_le_add2)
    then show ?thesis by (simp add: None)
  next
    case (Some n)
    with items show ?thesis by (simp add: collect_results_Inr export_items_filter)
  qed
qed

section \<open>Properties\<close>

text \<open>The exit code of the report. It is 1 exactly when some part proves tampering, 2 exactly when no part
  does but some part could not be verified, and 0 exactly when every part is clean; a status check that
  was not made does not count.\<close>

lemma exit_code_cases:
  "(exit_code av = 1) = ((\<exists>n s t e a. av_chain av = Broken n s t e a) \<or> (\<exists>n s t e a. av_events av = Broken n s t e a)
      \<or> (\<exists>s t. av_binding av = MissingEvent s t) \<or> (\<exists>d. av_status av = Some (Disagrees d)))
   \<and> (exit_code av = 0) = ((\<exists>n. av_chain av = Intact n) \<and> (\<exists>n. av_events av = Intact n)
      \<and> (\<exists>n. av_binding av = Consistent n) \<and> (av_status av = None \<or> (\<exists>n. av_status av = Some (Agrees n))))
   \<and> exit_code av \<in> {0, 1, 2}"
  by (cases "av_chain av"; cases "av_events av"; cases "av_binding av"; cases "av_status av")
    (auto simp: exit_code_def Let_def split: status_outcome.splits,
     (metis status_outcome.exhaust status_outcome_to_exit_code.simps zero_neq_one zero_neq_numeral one_eq_numeral_iff semiring_norm)+)

text \<open>The attribution census counts every row once, under the standing its signed columns give it, and a
  row is counted as naming an account only when it carries a principal in a signed generation and that
  principal is an account.\<close>

lemma census_counts_each_row_once:
  "ac_named (census_of rows) + ac_attribution_failed (census_of rows) + ac_not_recorded (census_of rows)
     + ac_unattested (census_of rows) = length rows
   \<and> ac_rows (census_of rows) = length rows
   \<and> ac_named (census_of rows) = length (filter (\<lambda>r.
       (cr_chain_version r = CHAIN_VERSION_V3 \<or> cr_chain_version r = CHAIN_VERSION_V4)
       \<and> (\<exists>p. cr_caller_principal r = Some (as_signed_str p) \<and> principal_claim_of p = Account)) rows)
   \<and> unnamed (census_of rows) = length rows - ac_named (census_of rows)"
  using standing_partition [of rows]
  by (simp add: census_of_def census_loop_counts unnamed_def standing_NamesAccount)

text \<open>An export that succeeds holds, in order, exactly the rows created at or after the given instant, cut
  off at the limit.\<close>

lemma export_selects_rows:
  assumes "select_chain_rows_for_export p rows since limit = Inr xs"
  shows "xs = (let kept = filter (export_keeps p (Option.bind since p)) rows in
               case limit of None \<Rightarrow> kept | Some n \<Rightarrow> take n kept)"
  using assms by (rule select_chain_rows_for_export_eq)

end
