(* ===== verification/Sk_Jobs.thy ===== *)
theory Sk_Jobs
  imports Sk_Types
begin

text \<open>
  The job status table of \<^verbatim>\<open>crates/sysknife-daemon/src/jobs.rs\<close> and the graph of statuses it
  spans.
\<close>

fun allowed_transition :: "job_state \<Rightarrow> job_state \<Rightarrow> bool" where
  "allowed_transition Queued Running \<longleftrightarrow> True"
| "allowed_transition Queued Canceled \<longleftrightarrow> True"
| "allowed_transition Running Succeeded \<longleftrightarrow> True"
| "allowed_transition Running Failed \<longleftrightarrow> True"
| "allowed_transition Running Canceled \<longleftrightarrow> True"
| "allowed_transition Running RolledBack \<longleftrightarrow> True"
| "allowed_transition Running NeedsReboot \<longleftrightarrow> True"
| "allowed_transition _ _ \<longleftrightarrow> False"

fun is_terminal :: "job_state \<Rightarrow> bool" where
  "is_terminal Succeeded \<longleftrightarrow> True"
| "is_terminal Failed \<longleftrightarrow> True"
| "is_terminal Canceled \<longleftrightarrow> True"
| "is_terminal RolledBack \<longleftrightarrow> True"
| "is_terminal NeedsReboot \<longleftrightarrow> True"
| "is_terminal _ \<longleftrightarrow> False"

lemma all_job_state:
  "(\<forall>t. P t) \<longleftrightarrow> P Queued \<and> P Running \<and> P Succeeded \<and> P Failed \<and> P Canceled \<and> P RolledBack \<and> P NeedsReboot"
  using job_state.exhaust by metis

lemma terminal_iff_stuck: "is_terminal s \<longleftrightarrow> (\<forall>t. \<not> allowed_transition s t)"
  by (cases s) (simp_all add: all_job_state)

text \<open>The length of the longest run a job can still make.\<close>

fun job_rank :: "job_state \<Rightarrow> nat" where
  "job_rank Queued = 2"
| "job_rank Running = 1"
| "job_rank _ = 0"

lemma allowed_transition_rank: "allowed_transition s t \<Longrightarrow> job_rank t < job_rank s"
  by (cases s; cases t) simp_all

lemma allowed_transition_irrefl [simp]: "\<not> allowed_transition s s"
  by (cases s) simp_all

lemma no_transition_to_Queued [simp]: "\<not> allowed_transition s Queued"
  by (cases s) simp_all

lemma transitions_rank: "allowed_transition\<^sup>*\<^sup>* s t \<Longrightarrow> s = t \<or> job_rank t < job_rank s"
  by (induction rule: rtranclp_induct) (auto dest: allowed_transition_rank)

lemma transitions_from_terminal: "is_terminal s \<Longrightarrow> allowed_transition\<^sup>*\<^sup>* s t \<Longrightarrow> t = s"
  by (erule converse_rtranclpE) (auto simp: terminal_iff_stuck)

end
