(* ===== verification/Sk_Store.thy ===== *)
theory Sk_Store
  imports Sk_Audit_Report Sk_Jobs
begin

text \<open>
  The transaction store of \<^verbatim>\<open>crates/sysknife-daemon/src/transactions.rs\<close> on SQLite. The record
  \<open>db\<close> is the database (one list per table, in insertion order), the record \<open>store\<close> holds the
  key the store was opened with and the parameters that stand for SQLite's date functions and
  for \<^verbatim>\<open>serde_json\<close>. Every operation is one SQLite transaction and returns its result with the
  database it commits; an error leaves the database as it was (a transaction that is dropped
  is rolled back). \<open>update_status\<close> and \<open>approve_transaction\<close> read outside the transaction they
  commit, so each is the composition of two operations that other writers may come between.
\<close>

section \<open>State\<close>

record tx_row =
  tx_chain :: chain_row
  tx_status :: job_state

record approval_row =
  ap_transaction_id :: string
  ap_receipt_digest :: string
  ap_approved_at :: string
  ap_consumed_at :: "string option"

record db =
  db_transactions :: "tx_row list"
  db_previews :: "(string \<times> string) list"
  db_approvals :: "approval_row list"
  db_events :: "event_row list"

definition empty_db :: db where
  "empty_db = \<lparr>db_transactions = [], db_previews = [], db_approvals = [], db_events = []\<rparr>"

text \<open>The store, and what one operation reads of SQLite's clock: the values of its calls of
  \<^verbatim>\<open>strftime('%Y-%m-%dT%H:%M:%fZ', 'now')\<close>, \<^verbatim>\<open>datetime('now')\<close>, and \<^verbatim>\<open>julianday('now', ...)\<close> as
  an instant so many minutes or hours ago.\<close>

record ('sk, 'vk) store =
  st_crypto :: "('sk, 'vk) crypto"
  st_audit_key :: "'sk audit_key option"
  st_julianday :: "string \<Rightarrow> int option"
  st_warnings_to_json :: "string list \<Rightarrow> string"
  st_warnings_of_json :: "string \<Rightarrow> string list option"
  st_preview_to_json :: "preview_envelope \<Rightarrow> string"
  st_preview_of_json :: "string \<Rightarrow> preview_envelope option"
  st_job_state_of_json :: "string \<Rightarrow> job_state option"

record sql_clock =
  ck_text :: "nat \<Rightarrow> string"
  ck_datetime :: string
  ck_minutes_ago :: "nat \<Rightarrow> int"
  ck_hours_ago :: "nat \<Rightarrow> int"

record new_transaction =
  nt_request_id :: string
  nt_request_hash :: string
  nt_action_name :: string
  nt_risk_level :: risk_level
  nt_summary :: string
  nt_warnings :: "string list"
  nt_caller_role :: caller_role
  nt_caller_principal :: caller_principal

record recorded_previewed_transaction =
  rp_transaction :: transaction_record
  rp_preview :: preview_envelope

record inserted_transaction =
  it_record :: transaction_record
  it_seq :: nat
  it_chain_hash :: string

datatype store_error =
    StoreSqlite string
  | StoreJson string
  | DatabaseInvariant string
  | NotFound string
  | InvalidTransition job_state job_state
  | AuditChainMissing string
  | ConcurrentStatusChange string

type_synonym 'a committed = "(store_error + 'a) \<times> db"

definition APPROVAL_RECEIPT_TTL_MINUTES :: nat where
  "APPROVAL_RECEIPT_TTL_MINUTES = 15"

section \<open>Queries\<close>

abbreviation tx_id :: "tx_row \<Rightarrow> string" where
  "tx_id r \<equiv> cr_transaction_id (tx_chain r)"

abbreviation tx_seq :: "tx_row \<Rightarrow> nat" where
  "tx_seq r \<equiv> cr_seq (tx_chain r)"

text \<open>\<^verbatim>\<open>ORDER BY seq DESC LIMIT 1\<close>\<close>

definition newest_by :: "('r \<Rightarrow> nat) \<Rightarrow> 'r list \<Rightarrow> 'r option" where
  "newest_by sq rows = last_opt (sort_key sq rows)"

definition find_tx :: "string \<Rightarrow> db \<Rightarrow> tx_row option" where
  "find_tx txid db = find (\<lambda>r. tx_id r = txid) (db_transactions db)"

definition find_approval :: "string \<Rightarrow> db \<Rightarrow> approval_row option" where
  "find_approval txid db = find (\<lambda>a. ap_transaction_id a = txid) (db_approvals db)"

text \<open>The two conditions on \<^verbatim>\<open>julianday(created_at)\<close>; a timestamp SQLite cannot read is NULL,
  which satisfies neither.\<close>

definition within_ttl :: "('sk, 'vk) store \<Rightarrow> sql_clock \<Rightarrow> tx_row \<Rightarrow> bool" where
  "within_ttl st ck r =
     (case st_julianday st (cr_created_at (tx_chain r)) of
        None \<Rightarrow> False | Some t \<Rightarrow> t > ck_minutes_ago ck APPROVAL_RECEIPT_TTL_MINUTES)"

definition past_ttl :: "('sk, 'vk) store \<Rightarrow> sql_clock \<Rightarrow> tx_row \<Rightarrow> bool" where
  "past_ttl st ck r =
     (case st_julianday st (cr_created_at (tx_chain r)) of
        None \<Rightarrow> False | Some t \<Rightarrow> t \<le> ck_minutes_ago ck APPROVAL_RECEIPT_TTL_MINUTES)"

definition row_to_record :: "('sk, 'vk) store \<Rightarrow> tx_row \<Rightarrow> store_error + transaction_record" where
  "row_to_record st r =
     (let c = tx_chain r in
      and_then (ok_or (StoreJson ''warnings_json'') (st_warnings_of_json st (cr_warnings_json c))) (\<lambda>warnings.
      Inr \<lparr>tr_transaction_id = cr_transaction_id c, tr_request_id = cr_request_id c,
           tr_request_hash = cr_request_hash c, tr_action_name = cr_action_name c,
           tr_risk_level = cr_risk_level c, tr_status = tx_status r,
           tr_approval_id = cr_approval_id c, tr_summary = cr_summary c,
           tr_warnings = warnings\<rparr>))"

definition get :: "('sk, 'vk) store \<Rightarrow> string \<Rightarrow> db \<Rightarrow> store_error + transaction_record option" where
  "get st txid db =
     (case find_tx txid db of
        None \<Rightarrow> Inr None
      | Some r \<Rightarrow> and_then (row_to_record st r) (\<lambda>t. Inr (Some t)))"

definition get_preview :: "('sk, 'vk) store \<Rightarrow> string \<Rightarrow> db \<Rightarrow> store_error + preview_envelope option" where
  "get_preview st txid db =
     (case find (\<lambda>p. fst p = txid) (db_previews db) of
        None \<Rightarrow> Inr None
      | Some p \<Rightarrow> and_then (ok_or (StoreJson ''preview_json'') (st_preview_of_json st (snd p)))
                   (\<lambda>v. Inr (Some v)))"

definition fetch_chain_rows :: "db \<Rightarrow> chain_row list" where
  "fetch_chain_rows db = map tx_chain (sort_key tx_seq (db_transactions db))"

definition fetch_event_rows :: "db \<Rightarrow> event_row list" where
  "fetch_event_rows db = sort_key er_seq (db_events db)"

definition fetch_chain_row :: "string \<Rightarrow> db \<Rightarrow> chain_row option" where
  "fetch_chain_row txid db = map_option tx_chain (find_tx txid db)"

section \<open>Appending to the chains\<close>

definition next_seq_and_prev_hash :: "db \<Rightarrow> nat \<times> string" where
  "next_seq_and_prev_hash db =
     (case newest_by tx_seq (db_transactions db) of
        Some r \<Rightarrow> (tx_seq r + 1, cr_chain_hash (tx_chain r))
      | None \<Rightarrow> (1, []))"

definition event_chain_tip :: "db \<Rightarrow> string option" where
  "event_chain_tip db = map_option er_chain_hash (newest_by er_seq (db_events db))"

definition new_event ::
    "('sk, 'vk) crypto \<Rightarrow> 'sk audit_key \<Rightarrow> string \<Rightarrow> audit_event_kind \<Rightarrow> string \<Rightarrow> string
     \<Rightarrow> event_identity \<Rightarrow> nat \<Rightarrow> string \<Rightarrow> event_row" where
  "new_event cr key created_at kind txid digest identity sq prev =
     (let content = \<lparr>ec_seq = sq, ec_key_id = CURRENT_KEY_ID, ec_kind = kind, ec_transaction_id = txid,
            ec_receipt_digest = digest, ec_created_at = created_at, ec_identity = identity\<rparr>
      in \<lparr>er_seq = sq, er_key_id = CURRENT_KEY_ID, er_kind = kind_as_str kind, er_transaction_id = txid,
           er_receipt_digest = digest, er_created_at = created_at, er_prev_chain_hash = prev,
           er_chain_hash = event_hash cr key content prev,
           er_chain_version = event_identity_version identity,
           er_caller_principal = (case identity of EvV2 p \<Rightarrow> Some p | EvLegacyV1 \<Rightarrow> None)\<rparr>)"

definition append_event ::
    "('sk, 'vk) store \<Rightarrow> 'sk audit_key \<Rightarrow> string \<Rightarrow> audit_event_kind \<Rightarrow> string \<Rightarrow> string
     \<Rightarrow> event_identity \<Rightarrow> db \<Rightarrow> db" where
  "append_event st key created_at kind txid digest identity db =
     (let prev = unwrap_or_default (event_chain_tip db);
          sq = fold max (map er_seq (db_events db)) 0 + 1
      in db\<lparr>db_events := db_events db @
             [new_event (st_crypto st) key created_at kind txid digest identity sq prev]\<rparr>)"

definition insert_transaction ::
    "('sk, 'vk) store \<Rightarrow> 'sk audit_key \<Rightarrow> string \<Rightarrow> string \<Rightarrow> new_transaction \<Rightarrow> db
     \<Rightarrow> store_error + inserted_transaction \<times> db" where
  "insert_transaction st key created_at txid t db =
     (let approval_id = Some (approval_commitment (st_crypto st) key txid (nt_request_hash t));
          warnings_json = st_warnings_to_json st (nt_warnings t);
          (sq, prev) = next_seq_and_prev_hash db;
          event_tip = unwrap_or_default (event_chain_tip db);
          caller_role = role_as_str (nt_caller_role t);
          caller_principal = as_signed_str (nt_caller_principal t);
          identity = V4 caller_role event_tip caller_principal;
          content = \<lparr>cc_seq = sq, cc_key_id = CURRENT_KEY_ID, cc_transaction_id = txid,
            cc_request_id = nt_request_id t, cc_request_hash = nt_request_hash t,
            cc_action_name = nt_action_name t, cc_risk_level = nt_risk_level t,
            cc_summary = nt_summary t, cc_approval_id = approval_id,
            cc_warnings_json = warnings_json, cc_created_at = created_at, cc_identity = identity\<rparr>;
          hash = chain_hash (st_crypto st) key content prev;
          record = \<lparr>tr_transaction_id = txid, tr_request_id = nt_request_id t,
            tr_request_hash = nt_request_hash t, tr_action_name = nt_action_name t,
            tr_risk_level = nt_risk_level t, tr_status = Queued, tr_approval_id = approval_id,
            tr_summary = nt_summary t, tr_warnings = nt_warnings t\<rparr>;
          row = \<lparr>cr_seq = sq, cr_key_id = CURRENT_KEY_ID, cr_transaction_id = txid,
            cr_request_id = nt_request_id t, cr_request_hash = nt_request_hash t,
            cr_action_name = nt_action_name t, cr_risk_level = nt_risk_level t,
            cr_summary = nt_summary t, cr_approval_id = approval_id, cr_warnings_json = warnings_json,
            cr_created_at = created_at, cr_prev_chain_hash = prev, cr_chain_hash = hash,
            cr_chain_version = chain_identity_version identity, cr_caller_role = Some caller_role,
            cr_event_tip = Some event_tip, cr_caller_principal = Some caller_principal\<rparr>
      in if txid \<in> tx_id ` set (db_transactions db)
         then Inl (StoreSqlite ''UNIQUE constraint failed: transactions.transaction_id'')
         else Inr (\<lparr>it_record = record, it_seq = sq, it_chain_hash = hash\<rparr>,
                   db\<lparr>db_transactions := db_transactions db @ [\<lparr>tx_chain = row, tx_status = Queued\<rparr>]\<rparr>))"

definition insert_preview ::
    "('sk, 'vk) store \<Rightarrow> string \<Rightarrow> preview_envelope \<Rightarrow> db \<Rightarrow> store_error + db" where
  "insert_preview st txid preview db =
     (if txid \<in> fst ` set (db_previews db)
      then Inl (StoreSqlite ''UNIQUE constraint failed: transaction_previews.transaction_id'')
      else Inr (db\<lparr>db_previews := db_previews db @ [(txid, st_preview_to_json st preview)]\<rparr>))"

section \<open>Recording\<close>

text \<open>\<open>txid\<close> is the fresh UUID of the call.\<close>

definition record_with ::
    "('sk, 'vk) store \<Rightarrow> sql_clock \<Rightarrow> string \<Rightarrow> new_transaction
     \<Rightarrow> (inserted_transaction \<Rightarrow> db \<Rightarrow> store_error + db) \<Rightarrow> db \<Rightarrow> inserted_transaction committed" where
  "record_with st ck txid t in_tx db =
     (case st_audit_key st of
        None \<Rightarrow> (Inl (AuditChainMissing ''this TransactionStore was opened read-only; cannot record''), db)
      | Some key \<Rightarrow>
          (case insert_transaction st key (ck_text ck 0) txid t db of
             Inl e \<Rightarrow> (Inl e, db)
           | Inr (inserted, db') \<Rightarrow>
               (case in_tx inserted db' of
                  Inl e \<Rightarrow> (Inl e, db)
                | Inr db'' \<Rightarrow> (Inr inserted, db''))))"

definition record_tx ::
    "('sk, 'vk) store \<Rightarrow> sql_clock \<Rightarrow> string \<Rightarrow> new_transaction \<Rightarrow> db \<Rightarrow> transaction_record committed" where
  "record_tx st ck txid t db =
     (case record_with st ck txid t (\<lambda>_ d. Inr d) db of
        (Inl e, d) \<Rightarrow> (Inl e, d)
      | (Inr inserted, d) \<Rightarrow> (Inr (it_record inserted), d))"

definition record_previewed ::
    "('sk, 'vk) store \<Rightarrow> sql_clock \<Rightarrow> string \<Rightarrow> new_transaction \<Rightarrow> preview_envelope \<Rightarrow> db
     \<Rightarrow> recorded_previewed_transaction committed" where
  "record_previewed st ck txid t preview db =
     (case record_with st ck txid t
             (\<lambda>inserted d. insert_preview st (tr_transaction_id (it_record inserted)) preview d) db of
        (Inl e, d) \<Rightarrow> (Inl e, d)
      | (Inr inserted, d) \<Rightarrow> (Inr \<lparr>rp_transaction = it_record inserted, rp_preview = preview\<rparr>, d))"

section \<open>Status\<close>

text \<open>\<^verbatim>\<open>UPDATE transactions SET status = ... WHERE ...\<close>, with the number of rows affected.\<close>

definition update_status_where :: "(tx_row \<Rightarrow> bool) \<Rightarrow> job_state \<Rightarrow> db \<Rightarrow> nat \<times> db" where
  "update_status_where P s db =
     (length (filter P (db_transactions db)),
      db\<lparr>db_transactions := map (\<lambda>r. if P r then r\<lparr>tx_status := s\<rparr> else r) (db_transactions db)\<rparr>)"

text \<open>The read, which validates the transition and keeps the status it saw.\<close>

definition update_status_read :: "string \<Rightarrow> job_state \<Rightarrow> db \<Rightarrow> store_error + job_state" where
  "update_status_read txid new_status db =
     (case find_tx txid db of
        None \<Rightarrow> Inl (NotFound txid)
      | Some r \<Rightarrow>
          if allowed_transition (tx_status r) new_status then Inr (tx_status r)
          else Inl (InvalidTransition (tx_status r) new_status))"

text \<open>The compare-and-swap, with the status event in the same transaction.\<close>

definition update_status_commit ::
    "('sk, 'vk) store \<Rightarrow> sql_clock \<Rightarrow> string \<Rightarrow> job_state \<Rightarrow> job_state \<Rightarrow> db \<Rightarrow> unit committed" where
  "update_status_commit st ck txid new_status observed db =
     (let (rows_affected, db') = update_status_where (\<lambda>r. tx_id r = txid \<and> tx_status r = observed) new_status db
      in if rows_affected = 0 then (Inl (ConcurrentStatusChange txid), db)
         else case st_audit_key st of
           None \<Rightarrow> (Inl (AuditChainMissing
             ''update_status has no signing key, so the outcome could not be chained''), db)
         | Some key \<Rightarrow>
             (Inr (), append_event st key (ck_text ck 0) (kind_of_status new_status) txid [] EvLegacyV1 db'))"

definition update_status ::
    "('sk, 'vk) store \<Rightarrow> sql_clock \<Rightarrow> string \<Rightarrow> job_state \<Rightarrow> db \<Rightarrow> unit committed" where
  "update_status st ck txid new_status db =
     (case update_status_read txid new_status db of
        Inl e \<Rightarrow> (Inl e, db)
      | Inr observed \<Rightarrow> update_status_commit st ck txid new_status observed db)"

text \<open>\<^verbatim>\<open>LIKE 'status_%'\<close>: the underscore matches any character, and \<^verbatim>\<open>LIKE\<close> ignores ASCII case.\<close>

definition like_status :: "string \<Rightarrow> bool" where
  "like_status kind \<longleftrightarrow> length kind \<ge> 7 \<and> eq_ignore_ascii_case (take 6 kind) ''status''"

definition newest_status_event :: "string \<Rightarrow> db \<Rightarrow> string option" where
  "newest_status_event txid db =
     map_option er_kind (newest_by er_seq
       (filter (\<lambda>e. er_transaction_id e = txid \<and> like_status (er_kind e)) (db_events db)))"

definition approval_consumed_event :: "string \<Rightarrow> db \<Rightarrow> bool" where
  "approval_consumed_event txid db \<longleftrightarrow>
     (\<exists>e \<in> set (db_events db). er_transaction_id e = txid \<and> er_kind e = ''approval_consumed'')"

definition status_matches_chain :: "db \<Rightarrow> status_outcome" where
  "status_matches_chain db = status_outcome (map (\<lambda>r. \<lparr>
     se_transaction_id = tx_id r, se_status = tx_status r,
     se_newest_status_event = newest_status_event (tx_id r) db,
     se_approval_consumed = approval_consumed_event (tx_id r) db,
     se_predates_status_events = False\<rparr>) (db_transactions db))"

section \<open>Approvals\<close>

text \<open>The part of \<open>approve_transaction\<close> before its transaction: the receipt and its digest.\<close>

definition approve_read ::
    "('sk, 'vk) store \<Rightarrow> string \<Rightarrow> db \<Rightarrow> store_error + (string \<times> string) option" where
  "approve_read st txid db =
     (case st_audit_key st of
        None \<Rightarrow> Inl (AuditChainMissing ''this TransactionStore was opened read-only; cannot approve'')
      | Some key \<Rightarrow>
          and_then (get st txid db) (\<lambda>found.
          case found of
            None \<Rightarrow> Inr None
          | Some record \<Rightarrow>
              let receipt = approval_receipt (st_crypto st) key txid (tr_request_hash record);
                  digest = approval_receipt_digest (st_crypto st) receipt
              in (case tr_approval_id record of
                   None \<Rightarrow> Inl (DatabaseInvariant (''transaction '' @ txid @ '' has no signed approval commitment''))
                 | Some committed \<Rightarrow>
                     if digest \<noteq> committed
                     then Inl (DatabaseInvariant (''transaction '' @ txid @
                            '' approval commitment does not match its signed preview''))
                     else Inr (Some (receipt, digest)))))"

definition approve_commit ::
    "('sk, 'vk) store \<Rightarrow> 'sk audit_key \<Rightarrow> sql_clock \<Rightarrow> string \<Rightarrow> caller_principal \<Rightarrow> string \<Rightarrow> string \<Rightarrow> db
     \<Rightarrow> string option committed" where
  "approve_commit st key ck txid approver receipt digest db =
     (let selected = filter (\<lambda>r. tx_id r = txid \<and> tx_status r = Queued \<and> within_ttl st ck r
              \<and> (\<forall>a \<in> set (db_approvals db). ap_transaction_id a \<noteq> txid)) (db_transactions db)
      in if selected = [] then (Inr None, db)
         else (Inr (Some receipt),
               append_event st key (ck_text ck 0) ApprovalGranted txid digest (EvV2 (as_signed_str approver))
                 (db\<lparr>db_approvals := db_approvals db @ map (\<lambda>r. \<lparr>ap_transaction_id = tx_id r,
                    ap_receipt_digest = digest, ap_approved_at = ck_datetime ck, ap_consumed_at = None\<rparr>) selected\<rparr>)))"

definition approve_transaction ::
    "('sk, 'vk) store \<Rightarrow> sql_clock \<Rightarrow> string \<Rightarrow> caller_principal \<Rightarrow> db \<Rightarrow> string option committed" where
  "approve_transaction st ck txid approver db =
     (case st_audit_key st of
        None \<Rightarrow> (Inl (AuditChainMissing ''this TransactionStore was opened read-only; cannot approve''), db)
      | Some key \<Rightarrow>
          (case approve_read st txid db of
             Inl e \<Rightarrow> (Inl e, db)
           | Inr None \<Rightarrow> (Inr None, db)
           | Inr (Some (receipt, digest)) \<Rightarrow> approve_commit st key ck txid approver receipt digest db))"

definition revoke_unconsumed_approval_in_tx ::
    "('sk, 'vk) store \<Rightarrow> 'sk audit_key \<Rightarrow> string \<Rightarrow> string \<Rightarrow> string \<Rightarrow> db \<Rightarrow> bool \<times> db" where
  "revoke_unconsumed_approval_in_tx st key created_at txid revoker_signed db =
     (let unconsumed = (\<lambda>a. ap_transaction_id a = txid \<and> ap_consumed_at a = None) in
      case find unconsumed (db_approvals db) of
        None \<Rightarrow> (False, db)
      | Some a \<Rightarrow>
          (True, append_event st key created_at ApprovalRevoked txid (ap_receipt_digest a) (EvV2 revoker_signed)
                   (db\<lparr>db_approvals := filter (\<lambda>a. \<not> unconsumed a) (db_approvals db)\<rparr>)))"

definition revoke_unconsumed_approval ::
    "('sk, 'vk) store \<Rightarrow> sql_clock \<Rightarrow> string \<Rightarrow> caller_principal \<Rightarrow> db \<Rightarrow> bool committed" where
  "revoke_unconsumed_approval st ck txid revoker db =
     (case st_audit_key st of
        None \<Rightarrow> (Inl (AuditChainMissing ''this TransactionStore was opened read-only; cannot revoke''), db)
      | Some key \<Rightarrow>
          (let (revoked, db') = revoke_unconsumed_approval_in_tx st key (ck_text ck 0) txid (as_signed_str revoker) db
           in (Inr revoked, db')))"

definition consume_approvals :: "string \<Rightarrow> string \<Rightarrow> db \<Rightarrow> db" where
  "consume_approvals txid at db =
     db\<lparr>db_approvals := map (\<lambda>a. if ap_transaction_id a = txid \<and> ap_consumed_at a = None
          then a\<lparr>ap_consumed_at := Some at\<rparr> else a) (db_approvals db)\<rparr>"

definition claim_approved_for_execution ::
    "('sk, 'vk) store \<Rightarrow> sql_clock \<Rightarrow> string \<Rightarrow> string \<Rightarrow> caller_principal \<Rightarrow> db \<Rightarrow> bool committed" where
  "claim_approved_for_execution st ck txid digest executor db =
     (case st_audit_key st of
        None \<Rightarrow> (Inl (AuditChainMissing ''this TransactionStore was opened read-only; cannot claim''), db)
      | Some key \<Rightarrow>
          (let (rows_affected, db1) = update_status_where (\<lambda>r. tx_id r = txid \<and> tx_status r = Queued
                  \<and> within_ttl st ck r
                  \<and> (\<exists>a \<in> set (db_approvals db). ap_transaction_id a = txid
                       \<and> ap_receipt_digest a = digest \<and> ap_consumed_at a = None)) Running db
           in if rows_affected > 0 then
                (let db2 = consume_approvals txid (ck_datetime ck) db1;
                     db3 = append_event st key (ck_text ck 0) ApprovalConsumed txid digest
                             (EvV2 (as_signed_str executor)) db2;
                     db4 = append_event st key (ck_text ck 1) StatusRunning txid [] EvLegacyV1 db3
                 in (Inr True, db4))
              else (Inr False, db1)))"

section \<open>Cancellation\<close>

text \<open>What both cancellations do with one transaction.\<close>

definition cancel_one ::
    "('sk, 'vk) store \<Rightarrow> 'sk audit_key \<Rightarrow> string \<Rightarrow> string \<Rightarrow> string \<Rightarrow> string \<Rightarrow> db \<Rightarrow> nat \<times> db" where
  "cancel_one st key at0 at1 txid canceller_signed db =
     (let (rows_affected, db1) = update_status_where (\<lambda>r. tx_id r = txid \<and> tx_status r = Queued) Canceled db
      in if rows_affected > 0 then
           (let (_, db2) = revoke_unconsumed_approval_in_tx st key at0 txid canceller_signed db1
            in (rows_affected, append_event st key at1 StatusCanceled txid [] EvLegacyV1 db2))
         else (0, db1))"

fun cleanup_loop ::
    "('sk, 'vk) store \<Rightarrow> 'sk audit_key \<Rightarrow> sql_clock \<Rightarrow> nat \<Rightarrow> string list \<Rightarrow> nat \<Rightarrow> db \<Rightarrow> nat \<times> db" where
  "cleanup_loop st key ck i [] canceled db = (canceled, db)"
| "cleanup_loop st key ck i (txid # ids) canceled db =
     (let (n, db') = cancel_one st key (ck_text ck i) (ck_text ck (i + 1)) txid (as_signed_str Unattributed) db
      in cleanup_loop st key ck (i + 2) ids (canceled + n) db')"

definition cleanup_stale_queued :: "('sk, 'vk) store \<Rightarrow> sql_clock \<Rightarrow> db \<Rightarrow> nat committed" where
  "cleanup_stale_queued st ck db =
     (case st_audit_key st of
        None \<Rightarrow> (Inl (AuditChainMissing ''this TransactionStore was opened read-only; cannot clean up''), db)
      | Some key \<Rightarrow>
          (let stale_ids = map tx_id (filter (\<lambda>r. tx_status r = Queued \<and> past_ttl st ck r) (db_transactions db));
               (canceled, db') = cleanup_loop st key ck 0 stale_ids 0 db
           in (Inr canceled, db')))"

definition cancel_queued ::
    "('sk, 'vk) store \<Rightarrow> sql_clock \<Rightarrow> string \<Rightarrow> caller_principal \<Rightarrow> db \<Rightarrow> bool committed" where
  "cancel_queued st ck txid canceller db =
     (case st_audit_key st of
        None \<Rightarrow> (Inl (AuditChainMissing ''this TransactionStore was opened read-only; cannot cancel''), db)
      | Some key \<Rightarrow>
          (let (n, db') = cancel_one st key (ck_text ck 0) (ck_text ck 1) txid (as_signed_str canceller) db
           in (Inr (n > 0), db')))"

section \<open>Verification\<close>

definition verify_audit_chain :: "('sk, 'vk) store \<Rightarrow> 'sk audit_key \<Rightarrow> db \<Rightarrow> verify_outcome" where
  "verify_audit_chain st key db = verify_chain (st_crypto st) key (fetch_chain_rows db)"

definition store_verify_event_chain :: "('sk, 'vk) store \<Rightarrow> 'sk audit_key \<Rightarrow> db \<Rightarrow> verify_outcome" where
  "store_verify_event_chain st key db = verify_event_chain (st_crypto st) key (fetch_event_rows db)"

definition store_verify_event_binding :: "db \<Rightarrow> binding_outcome" where
  "store_verify_event_binding db = verify_event_binding (fetch_chain_rows db) (fetch_event_rows db)"

definition verify_audit_chain_with_pubkey :: "('sk, 'vk) store \<Rightarrow> string \<Rightarrow> db \<Rightarrow> verify_outcome" where
  "verify_audit_chain_with_pubkey st verifying_key_hex db =
     verify_chain_with_pubkey (st_crypto st) verifying_key_hex (fetch_chain_rows db)"

end
