(* ===== verification/Sk_Ledger.thy ===== *)
theory Sk_Ledger
  imports Sk_Store
begin

text \<open>
  The abstract specification of a transaction's life: a small machine on pairs of a job status
  and the state of the approval receipt, driven by the kinds of the chained events. The store
  refines it (see \<open>Sk_Store_Inv\<close>): replaying the events of a transaction gives the status column
  and the approval row it has in the tables.
\<close>

section \<open>The abstract machine\<close>

datatype approval_state = NoApproval | Approved | Spent

type_synonym ledger = "job_state \<times> approval_state"

text \<open>A receipt is granted while queued, spent once while queued, and never taken back after
  that; a status follows the transition table. With the flag \<open>b\<close> set, a job runs only on a spent
  receipt; the daemon's own calls keep that stronger machine.\<close>

fun status_of_kind :: "audit_event_kind \<Rightarrow> job_state option" where
  "status_of_kind StatusQueued = Some Queued"
| "status_of_kind StatusRunning = Some Running"
| "status_of_kind StatusSucceeded = Some Succeeded"
| "status_of_kind StatusFailed = Some Failed"
| "status_of_kind StatusCanceled = Some Canceled"
| "status_of_kind StatusRolledBack = Some RolledBack"
| "status_of_kind StatusNeedsReboot = Some NeedsReboot"
| "status_of_kind _ = None"

fun ledger_step :: "bool \<Rightarrow> ledger \<Rightarrow> audit_event_kind \<Rightarrow> ledger option" where
  "ledger_step b (s, a) ApprovalGranted = (if s = Queued \<and> a = NoApproval then Some (s, Approved) else None)"
| "ledger_step b (s, a) ApprovalRevoked = (if a = Approved then Some (s, NoApproval) else None)"
| "ledger_step b (s, a) ApprovalConsumed = (if s = Queued \<and> a = Approved then Some (s, Spent) else None)"
| "ledger_step b (s, a) k =
     (case status_of_kind k of
        Some t \<Rightarrow> if allowed_transition s t \<and> (b \<and> t = Running \<longrightarrow> a = Spent) then Some (t, a) else None
      | None \<Rightarrow> None)"

fun ledger_run :: "bool \<Rightarrow> ledger \<Rightarrow> audit_event_kind list \<Rightarrow> ledger option" where
  "ledger_run b l [] = Some l"
| "ledger_run b l (k # ks) = (case ledger_step b l k of None \<Rightarrow> None | Some l' \<Rightarrow> ledger_run b l' ks)"

definition replay :: "bool \<Rightarrow> audit_event_kind list \<Rightarrow> ledger option" where
  "replay b = ledger_run b (Queued, NoApproval)"

lemma ledger_run_append:
  "ledger_run b l (xs @ ys) = Option.bind (ledger_run b l xs) (\<lambda>l'. ledger_run b l' ys)"
  by (induction xs arbitrary: l) (auto split: option.splits)

lemma replay_append: "replay b (xs @ ys) = Option.bind (replay b xs) (\<lambda>l. ledger_run b l ys)"
  by (simp add: replay_def ledger_run_append)

lemma replay_Nil [simp]: "replay b [] = Some (Queued, NoApproval)"
  by (simp add: replay_def)

lemma status_of_kind_of_status [simp]: "status_of_kind (kind_of_status s) = Some s"
  by (cases s) simp_all

lemma ledger_step_status [simp]:
  "ledger_step b (s, a) (kind_of_status t) =
     (if allowed_transition s t \<and> (b \<and> t = Running \<longrightarrow> a = Spent) then Some (t, a) else None)"
  by (cases t) simp_all

lemma ledger_step_cases:
  assumes "ledger_step b (s, a) k = Some (s', a')"
  obtains (granted) "k = ApprovalGranted" "s = Queued" "a = NoApproval" "s' = s" "a' = Approved"
    | (revoked) "k = ApprovalRevoked" "a = Approved" "s' = s" "a' = NoApproval"
    | (consumed) "k = ApprovalConsumed" "s = Queued" "a = Approved" "s' = s" "a' = Spent"
    | (status) "k = kind_of_status s'" "allowed_transition s s'" "b \<and> s' = Running \<longrightarrow> a = Spent" "a' = a"
proof (cases "status_of_kind k")
  case None
  then consider "k = ApprovalGranted" | "k = ApprovalRevoked" | "k = ApprovalConsumed"
    by (cases k) simp_all
  then show thesis
    by cases (use assms in \<open>auto split: if_splits intro: granted revoked consumed\<close>)
next
  case (Some t)
  then have k: "k = kind_of_status t" by (cases k) auto
  with assms have t: "t = s'" "allowed_transition s s'" "b \<and> s' = Running \<longrightarrow> a = Spent" "a' = a"
    by (auto split: if_splits)
  with k show thesis by (intro status) simp_all
qed

section \<open>What a replay shows\<close>

text \<open>The newest status event names the status, and there is one exactly when the job left
  the queue.\<close>

definition last_status :: "audit_event_kind list \<Rightarrow> job_state option" where
  "last_status ks = last_opt (List.map_filter status_of_kind ks)"

lemma map_filter_append:
  "List.map_filter f (xs @ ys) = List.map_filter f xs @ List.map_filter f ys"
  by (induction xs) (auto simp: List.map_filter_simps split: option.splits)

lemma last_status_snoc:
  "last_status (ks @ [k]) = (case status_of_kind k of None \<Rightarrow> last_status ks | Some s \<Rightarrow> Some s)"
  by (auto simp: last_status_def map_filter_append List.map_filter_simps last_opt_append last_opt_def
      split: option.splits)

lemma replay_last_status:
  "replay b ks = Some (s, a) \<Longrightarrow>
     (if s = Queued then last_status ks = None else last_status ks = Some s)"
proof (induction ks arbitrary: s a rule: rev_induct)
  case Nil
  then show ?case by (simp add: last_status_def List.map_filter_simps last_opt_def)
next
  case (snoc k ks)
  then obtain s0 a0 where prev: "replay b ks = Some (s0, a0)" and step: "ledger_step b (s0, a0) k = Some (s, a)"
    by (auto simp: replay_append bind_eq_Some_conv split: option.splits)
  from step snoc.IH [OF prev] show ?case
    by (cases rule: ledger_step_cases) (auto simp: last_status_snoc split: if_splits)
qed

text \<open>The receipt is spent exactly once, and only a job that has been approved spends one.\<close>

lemma replay_counts:
  "replay b ks = Some (s, a) \<Longrightarrow>
     count_list ks ApprovalConsumed = (if a = Spent then 1 else 0)
     \<and> count_list ks ApprovalGranted = count_list ks ApprovalRevoked + (if a = NoApproval then 0 else 1)"
proof (induction ks arbitrary: s a rule: rev_induct)
  case (snoc k ks)
  then obtain s0 a0 where prev: "replay b ks = Some (s0, a0)" and step: "ledger_step b (s0, a0) k = Some (s, a)"
    by (auto simp: replay_append bind_eq_Some_conv split: option.splits)
  have "kind_of_status t \<noteq> ApprovalConsumed \<and> kind_of_status t \<noteq> ApprovalGranted
      \<and> kind_of_status t \<noteq> ApprovalRevoked" for t
    by (cases t) simp_all
  with step snoc.IH [OF prev] show ?case
    by (cases rule: ledger_step_cases) (auto split: if_splits)
qed (simp add: replay_def)

lemma replay_transitions: "replay b ks = Some (s, a) \<Longrightarrow> allowed_transition\<^sup>*\<^sup>* Queued s"
proof (induction ks arbitrary: s a rule: rev_induct)
  case (snoc k ks)
  then obtain s0 a0 where prev: "replay b ks = Some (s0, a0)" and step: "ledger_step b (s0, a0) k = Some (s, a)"
    by (auto simp: replay_append bind_eq_Some_conv split: option.splits)
  from step snoc.IH [OF prev] show ?case
    by (cases rule: ledger_step_cases) (auto intro: rtranclp.rtrancl_into_rtrancl)
qed (simp add: replay_def)

text \<open>On the stronger machine every job that was executed has spent a receipt.\<close>

lemma replay_executed:
  "replay True ks = Some (s, a) \<Longrightarrow> s \<noteq> Queued \<Longrightarrow> s \<noteq> Canceled \<Longrightarrow> a = Spent"
proof (induction ks arbitrary: s a rule: rev_induct)
  case (snoc k ks)
  then obtain s0 a0 where prev: "replay True ks = Some (s0, a0)" and step: "ledger_step True (s0, a0) k = Some (s, a)"
    by (auto simp: replay_append bind_eq_Some_conv split: option.splits)
  have "s0 = Running" if "allowed_transition s0 s" "s \<noteq> Running" "s \<noteq> Canceled"
    using that by (cases s0; cases s) simp_all
  with step snoc.prems snoc.IH [OF prev] show ?case
    by (cases rule: ledger_step_cases) auto
qed (simp add: replay_def)

lemma ledger_run_transitions: "ledger_run b (s, a) ks = Some (s', a') \<Longrightarrow> allowed_transition\<^sup>*\<^sup>* s s'"
proof (induction ks arbitrary: s a)
  case (Cons k ks)
  then obtain s1 a1 where step: "ledger_step b (s, a) k = Some (s1, a1)" and run: "ledger_run b (s1, a1) ks = Some (s', a')"
    by (auto split: option.splits)
  from step Cons.IH [OF run] show ?case
    by (cases rule: ledger_step_cases) (auto intro: converse_rtranclp_into_rtranclp)
qed simp

lemma ledger_run_Spent: "ledger_run b (s, Spent) ks = Some (s', a') \<Longrightarrow> a' = Spent \<and> ApprovalConsumed \<notin> set ks"
proof (induction ks arbitrary: s)
  case (Cons k ks)
  then obtain s1 a1 where step: "ledger_step b (s, Spent) k = Some (s1, a1)" and run: "ledger_run b (s1, a1) ks = Some (s', a')"
    by (auto split: option.splits)
  have "kind_of_status s1 \<noteq> ApprovalConsumed" by (cases s1) simp_all
  with step run Cons.IH show ?case
    by (cases rule: ledger_step_cases) auto
qed simp

section \<open>The abstraction of the tables\<close>

definition status_of :: "string \<Rightarrow> db \<Rightarrow> job_state option" where
  "status_of txid db = map_option tx_status (find_tx txid db)"

definition approval_of :: "string \<Rightarrow> db \<Rightarrow> approval_state" where
  "approval_of txid db =
     (case find_approval txid db of
        None \<Rightarrow> NoApproval
      | Some a \<Rightarrow> if ap_consumed_at a = None then Approved else Spent)"

definition kinds_of :: "string \<Rightarrow> db \<Rightarrow> audit_event_kind list" where
  "kinds_of txid db = List.map_filter (\<lambda>e. parse_event_kind (er_kind e))
     (filter (\<lambda>e. er_transaction_id e = txid) (db_events db))"

definition ledger_inv :: "bool \<Rightarrow> db \<Rightarrow> bool" where
  "ledger_inv b db \<longleftrightarrow>
     (\<forall>txid s. status_of txid db = Some s \<longrightarrow> replay b (kinds_of txid db) = Some (s, approval_of txid db)
        \<and> (s = Queued \<longrightarrow> approval_of txid db \<noteq> Spent))"

text \<open>Extending the events of one transaction while changing only its rows.\<close>

lemma ledger_inv_extend:
  assumes inv: "ledger_inv b db"
    and other: "\<And>id. id \<noteq> txid \<Longrightarrow> status_of id db' = status_of id db \<and> approval_of id db' = approval_of id db
      \<and> kinds_of id db' = kinds_of id db"
    and kinds: "kinds_of txid db' = kinds_of txid db @ ks"
    and run: "\<And>s'. status_of txid db' = Some s' \<Longrightarrow> \<exists>s. status_of txid db = Some s
      \<and> ledger_run b (s, approval_of txid db) ks = Some (s', approval_of txid db')
      \<and> (s' = Queued \<longrightarrow> approval_of txid db' \<noteq> Spent)"
  shows "ledger_inv b db'"
  unfolding ledger_inv_def
proof (intro allI impI)
  fix id s'
  assume s': "status_of id db' = Some s'"
  show "replay b (kinds_of id db') = Some (s', approval_of id db') \<and> (s' = Queued \<longrightarrow> approval_of id db' \<noteq> Spent)"
  proof (cases "id = txid")
    case True
    from run s' True obtain s where "status_of txid db = Some s"
      and r: "ledger_run b (s, approval_of txid db) ks = Some (s', approval_of txid db')"
        "s' = Queued \<longrightarrow> approval_of txid db' \<noteq> Spent" by blast
    with inv have "replay b (kinds_of txid db) = Some (s, approval_of txid db)"
      by (simp add: ledger_inv_def)
    with True r kinds show ?thesis by (simp add: replay_append)
  next
    case False
    with other s' inv show ?thesis by (simp add: ledger_inv_def)
  qed
qed

end
