(* ===== verification/Sk_Store_Inv.thy ===== *)
theory Sk_Store_Inv
  imports Sk_Ledger
begin

text \<open>
  The invariant of the store and its preservation, operation by operation: both chains are
  linked and signed, every transaction row is bound to the event chain, the tables have the
  keys the schema declares, every receipt digest is the signed commitment of its transaction,
  and the events of each transaction replay to its rows (\<open>ledger_inv\<close>).
\<close>

section \<open>Reading the tables back after an update\<close>

lemma find_map_eq: "(\<And>x. P (f x) = P x) \<Longrightarrow> find P (map f xs) = map_option f (find P xs)"
  by (induction xs) auto

lemma find_append: "find P (xs @ ys) = (case find P xs of None \<Rightarrow> find P ys | Some x \<Rightarrow> Some x)"
  by (induction xs) auto

lemma find_key_distinct:
  assumes "distinct (map f xs)" "x \<in> set xs"
  shows "find (\<lambda>y. f y = f x) xs = Some x"
  using assms by (induction xs) auto

lemma filter_key_distinct:
  assumes "distinct (map f xs)" "x \<in> set xs" "Q x"
  shows "filter (\<lambda>y. f y = f x \<and> Q y) xs = [x]"
proof -
  have "filter (\<lambda>y. f y = f x \<and> Q y) xs = filter Q (filter (\<lambda>y. f y = f x) xs)"
    by (simp add: conj_commute)
  with assms show ?thesis by (simp add: filter_eq_single_distinct)
qed

lemma append_event_tables [simp]:
  "db_transactions (append_event st key at k txid d i db) = db_transactions db"
  "db_previews (append_event st key at k txid d i db) = db_previews db"
  "db_approvals (append_event st key at k txid d i db) = db_approvals db"
  by (simp_all add: append_event_def Let_def)

lemma find_tx_append_event [frame_simps]:
  "find_tx u (append_event st key at k txid d i db) = find_tx u db"
  by (simp add: find_tx_def)

lemma status_of_append_event [frame_simps]:
  "status_of u (append_event st key at k txid d i db) = status_of u db"
  by (simp add: status_of_def find_tx_append_event)

lemma approval_of_append_event [frame_simps]:
  "approval_of u (append_event st key at k txid d i db) = approval_of u db"
  by (simp add: approval_of_def find_approval_def)

lemma kinds_of_append_event [frame_simps]:
  "kinds_of u (append_event st key at k txid d i db) =
     (if u = txid then kinds_of u db @ [k] else kinds_of u db)"
  by (simp add: kinds_of_def append_event_def new_event_def Let_def map_filter_append List.map_filter_simps)

lemma update_status_where_tables [simp]:
  "db_previews (snd (update_status_where P s db)) = db_previews db"
  "db_approvals (snd (update_status_where P s db)) = db_approvals db"
  "db_events (snd (update_status_where P s db)) = db_events db"
  "map tx_chain (db_transactions (snd (update_status_where P s db))) = map tx_chain (db_transactions db)"
  by (simp_all add: update_status_where_def comp_def if_distrib cong: if_cong)

lemma update_status_where_count:
  "fst (update_status_where P s db) > 0 \<longleftrightarrow> (\<exists>r \<in> set (db_transactions db). P r)"
  "fst (update_status_where P s db) = 0 \<longleftrightarrow> \<not> (\<exists>r \<in> set (db_transactions db). P r)"
  by (auto simp: update_status_where_def filter_empty_conv)

lemma update_status_where_none:
  "\<not> (\<exists>r \<in> set (db_transactions db). P r) \<Longrightarrow> snd (update_status_where P s db) = db"
  by (auto simp: update_status_where_def intro!: db.equality map_idI)

lemma find_tx_update_status_where:
  "find_tx u (snd (update_status_where P s db)) =
     map_option (\<lambda>r. if P r then r\<lparr>tx_status := s\<rparr> else r) (find_tx u db)"
  unfolding find_tx_def update_status_where_def by (simp add: find_map_eq)

lemma status_of_update_status_where [frame_simps]:
  "status_of u (snd (update_status_where P s db)) =
     map_option (\<lambda>r. if P r then s else tx_status r) (find_tx u db)"
  by (simp add: status_of_def find_tx_update_status_where option.map_comp comp_def if_distrib cong: if_cong)

lemma approval_of_update_status_where [frame_simps]:
  "approval_of u (snd (update_status_where P s db)) = approval_of u db"
  by (simp add: approval_of_def find_approval_def)

lemma kinds_of_update_status_where [frame_simps]:
  "kinds_of u (snd (update_status_where P s db)) = kinds_of u db"
  by (simp add: kinds_of_def)

lemma find_tx_Some:
  assumes "find_tx txid db = Some r"
  shows "r \<in> set (db_transactions db)" "tx_id r = txid"
  using assms by (auto simp: find_tx_def find_Some_iff)

lemma status_of_update_other:
  "(\<And>r. P r \<Longrightarrow> tx_id r = txid) \<Longrightarrow> u \<noteq> txid
     \<Longrightarrow> status_of u (snd (update_status_where P s db)) = status_of u db"
  by (cases "find_tx u db") (auto simp: status_of_def find_tx_update_status_where dest: find_tx_Some(2))

lemma find_tx_None: "find_tx txid db = None \<longleftrightarrow> (\<forall>r \<in> set (db_transactions db). tx_id r \<noteq> txid)"
  by (auto simp: find_tx_def find_None_iff)

lemma find_tx_distinct:
  "distinct (map tx_id (db_transactions db)) \<Longrightarrow> r \<in> set (db_transactions db)
     \<Longrightarrow> find_tx (tx_id r) db = Some r"
  unfolding find_tx_def by (rule find_key_distinct)

section \<open>The invariant\<close>

text \<open>Rows numbered from one without a gap.\<close>

definition numbered :: "('r \<Rightarrow> nat) \<Rightarrow> 'r list \<Rightarrow> bool" where
  "numbered sq rows \<longleftrightarrow> map sq rows = [1..<Suc (length rows)]"

lemma numbered_snoc: "numbered sq (rows @ [r]) \<longleftrightarrow> numbered sq rows \<and> sq r = Suc (length rows)"
  by (auto simp: numbered_def)

lemma numbered_Nil [simp]: "numbered sq []"
  by (simp add: numbered_def)

lemma numbered_sorted: "numbered sq rows \<Longrightarrow> sorted (map sq rows)"
  unfolding numbered_def by (metis sorted_upt)

text \<open>The two chains as the daemon writes them.\<close>

definition chain_inv :: "('sk, 'vk) store \<Rightarrow> 'sk audit_key \<Rightarrow> chain_row list \<Rightarrow> event_row list \<Rightarrow> bool" where
  "chain_inv st key txs evs \<longleftrightarrow>
     numbered cr_seq txs \<and> numbered er_seq evs
     \<and> tx_well_chained (st_crypto st) (ak_signing key) txs
     \<and> ev_well_chained (st_crypto st) (ak_signing key) evs
     \<and> (\<forall>r \<in> set txs. \<exists>tip. cr_event_tip r = Some tip \<and> (tip = [] \<or> tip \<in> er_chain_hash ` set evs))
     \<and> (\<forall>r \<in> set txs. cr_approval_id r =
          Some (approval_commitment (st_crypto st) key (cr_transaction_id r) (cr_request_hash r)))"

text \<open>Primary keys, references between the tables, and the digests that approvals carry.\<close>

definition digest_of :: "chain_row list \<Rightarrow> string \<Rightarrow> string \<Rightarrow> bool" where
  "digest_of txs txid d \<longleftrightarrow> (\<exists>r \<in> set txs. cr_transaction_id r = txid \<and> cr_approval_id r = Some d)"

definition approval_kinds :: "string set" where
  "approval_kinds = kind_as_str ` {ApprovalGranted, ApprovalConsumed, ApprovalRevoked}"

definition table_inv :: "chain_row list \<Rightarrow> approval_row list \<Rightarrow> event_row list \<Rightarrow> bool" where
  "table_inv txs aps evs \<longleftrightarrow>
     distinct (map cr_transaction_id txs) \<and> distinct (map ap_transaction_id aps)
     \<and> (\<forall>a \<in> set aps. digest_of txs (ap_transaction_id a) (ap_receipt_digest a))
     \<and> (\<forall>e \<in> set evs. er_transaction_id e \<in> cr_transaction_id ` set txs)
     \<and> (\<forall>e \<in> set evs. er_kind e \<in> approval_kinds \<longrightarrow> digest_of txs (er_transaction_id e) (er_receipt_digest e))"

definition store_inv :: "bool \<Rightarrow> ('sk, 'vk) store \<Rightarrow> 'sk audit_key \<Rightarrow> db \<Rightarrow> bool" where
  "store_inv b st key db \<longleftrightarrow>
     chain_inv st key (map tx_chain (db_transactions db)) (db_events db)
     \<and> table_inv (map tx_chain (db_transactions db)) (db_approvals db) (db_events db)
     \<and> ledger_inv b db"

text \<open>What is assumed of the cryptography: signatures are never empty.\<close>

definition sig_nonempty :: "('sk, 'vk) crypto \<Rightarrow> bool" where
  "sig_nonempty cr \<longleftrightarrow> (\<forall>sk m. ed_sign cr sk m \<noteq> [])"

lemma sig_correct_nonempty: "sig_correct cr \<Longrightarrow> sig_nonempty cr"
  unfolding sig_correct_def sig_nonempty_def by (metis list.size(3) zero_neq_numeral)

section \<open>The chains\<close>

lemma newest_by_seq:
  assumes "numbered sq rows"
  shows "newest_by sq rows = last_opt rows"
proof -
  have "sorted (map sq rows)" using assms by (rule numbered_sorted)
  then show ?thesis by (simp add: newest_by_def sort_key_id_if_sorted)
qed

lemma last_seq:
  "numbered sq rows \<Longrightarrow> last_opt rows = Some r \<Longrightarrow> sq r = length rows"
  by (cases rows rule: rev_cases) (auto simp: numbered_snoc)

lemma fold_max_seq: "numbered sq rows \<Longrightarrow> fold max (map sq rows) 0 = length rows"
  by (induction rows rule: rev_induct) (auto simp: numbered_snoc)

lemma well_chained_snoc:
  "well_chained cr sk content message L (rows @ [r]) \<longleftrightarrow>
     well_chained cr sk content message L rows
     \<and> link_prev L r = (case last_opt rows of None \<Rightarrow> [] | Some q \<Rightarrow> link_hash L q)
     \<and> content r \<noteq> None
     \<and> link_hash L r = hex_encode cr (ed_sign cr sk (row_msg content message L r))
     \<and> ed_sign cr sk (row_msg content message L r) \<noteq> []"
  by (cases rows rule: rev_cases) (auto simp: well_chained_def linked_append)

lemma well_chained_Nil [simp]: "well_chained cr sk content message L []"
  by (simp add: well_chained_def)

lemma event_chain_tip_eq:
  "numbered er_seq (db_events db) \<Longrightarrow>
     event_chain_tip db = map_option er_chain_hash (last_opt (db_events db))"
  by (simp add: event_chain_tip_def newest_by_seq)

lemma ev_content_new_event:
  assumes "i \<noteq> EvV2 []"
  shows "ev_content (new_event cr key at k txid d i sq prev) =
    Some \<lparr>ec_seq = sq, ec_key_id = CURRENT_KEY_ID, ec_kind = k, ec_transaction_id = txid,
          ec_receipt_digest = d, ec_created_at = at, ec_identity = i\<rparr>"
  using assms
  by (cases i) (auto simp: ev_content_def new_event_def Let_def event_row_identity_def event_row_content_def
      non_empty_def version_defs)

lemma chain_inv_append_event:
  assumes inv: "chain_inv st key txs (db_events db)" and sig: "sig_nonempty (st_crypto st)"
    and ident: "i \<noteq> EvV2 []"
  shows "chain_inv st key txs (db_events (append_event st key at k txid d i db))"
proof -
  let ?evs = "db_events db"
  let ?prev = "unwrap_or_default (event_chain_tip db)"
  let ?e = "new_event (st_crypto st) key at k txid d i (Suc (length ?evs)) ?prev"
  have seqs: "numbered er_seq ?evs"
    using inv by (simp add: chain_inv_def)
  have evs: "db_events (append_event st key at k txid d i db) = ?evs @ [?e]"
    using fold_max_seq [OF seqs] by (simp add: append_event_def Let_def)
  have prev: "er_prev_chain_hash ?e = (case last_opt ?evs of None \<Rightarrow> [] | Some q \<Rightarrow> er_chain_hash q)"
    by (simp add: new_event_def Let_def event_chain_tip_eq [OF seqs] unwrap_or_default_def split: option.splits)
  have hash: "er_chain_hash ?e = hex_encode (st_crypto st) (ed_sign (st_crypto st) (ak_signing key) (ev_msg ?e))"
    by (simp add: row_msg_def ev_content_new_event [OF ident])
      (simp add: new_event_def Let_def event_hash_def)
  have "ev_content ?e \<noteq> None" by (simp add: ev_content_new_event [OF ident])
  with inv sig prev hash have "ev_well_chained (st_crypto st) (ak_signing key) (?evs @ [?e])"
    by (simp add: well_chained_snoc chain_inv_def sig_nonempty_def split: option.splits)
  moreover have "er_seq ?e = Suc (length ?evs)" by (simp add: new_event_def Let_def)
  ultimately show ?thesis
    using inv unfolding evs chain_inv_def by (auto simp: numbered_snoc)
qed

text \<open>Inserting a transaction.\<close>

lemma next_seq_and_prev_hash_eq:
  assumes "numbered cr_seq (map tx_chain (db_transactions db))"
  shows "next_seq_and_prev_hash db = (Suc (length (db_transactions db)),
    case last_opt (map tx_chain (db_transactions db)) of None \<Rightarrow> [] | Some q \<Rightarrow> cr_chain_hash q)"
proof -
  have "numbered tx_seq (db_transactions db)"
    using assms by (simp add: numbered_def comp_def)
  then have "newest_by tx_seq (db_transactions db) = last_opt (db_transactions db)"
    and "\<And>r. last_opt (db_transactions db) = Some r \<Longrightarrow> tx_seq r = length (db_transactions db)"
    by (rule newest_by_seq, rule last_seq)
  then show ?thesis
    by (auto simp: next_seq_and_prev_hash_def last_opt_def last_map split: option.splits)
qed

lemma insert_transaction_Inr:
  assumes "insert_transaction st key at txid t db = Inr (inserted, db')"
  obtains row where
    "db' = db\<lparr>db_transactions := db_transactions db @ [\<lparr>tx_chain = row, tx_status = Queued\<rparr>]\<rparr>"
    "txid \<notin> tx_id ` set (db_transactions db)"
    "cr_transaction_id row = txid" "cr_event_tip row = Some (unwrap_or_default (event_chain_tip db))"
    "cr_seq row = fst (next_seq_and_prev_hash db)" "cr_prev_chain_hash row = snd (next_seq_and_prev_hash db)"
    "cr_approval_id row = Some (approval_commitment (st_crypto st) key txid (cr_request_hash row))"
    "tx_content row \<noteq> None"
    "cr_chain_hash row = hex_encode (st_crypto st) (ed_sign (st_crypto st) (ak_signing key) (tx_msg row))"
    "cr_caller_role row = Some (role_as_str (nt_caller_role t))"
    "cr_caller_principal row = Some (as_signed_str (nt_caller_principal t))"
    "cr_chain_version row = CHAIN_VERSION_CURRENT"
    "cr_request_hash row = nt_request_hash t" "cr_action_name row = nt_action_name t"
    "cr_created_at row = at"
    "row_to_record (st\<lparr>st_warnings_of_json := \<lambda>_. Some (nt_warnings t)\<rparr>)
       \<lparr>tx_chain = row, tx_status = Queued\<rparr> = Inr (it_record inserted)"
    "it_seq inserted = cr_seq row" "it_chain_hash inserted = cr_chain_hash row"
proof -
  obtain sq prev where np: "next_seq_and_prev_hash db = (sq, prev)" by fastforce
  show thesis
    using assms
    by (auto simp: insert_transaction_def Let_def np split: if_splits intro!: that)
      (auto simp: tx_content_def row_msg_def chain_row_identity_def chain_row_content_def chain_hash_def
        non_empty_def version_defs row_to_record_def CHAIN_VERSION_CURRENT_def)
qed

lemma chain_inv_insert_transaction:
  assumes inv: "chain_inv st key (map tx_chain (db_transactions db)) (db_events db)"
    and sig: "sig_nonempty (st_crypto st)"
    and ins: "insert_transaction st key at txid t db = Inr (inserted, db')"
  shows "chain_inv st key (map tx_chain (db_transactions db')) (db_events db')"
proof -
  let ?txs = "map tx_chain (db_transactions db)"
  from ins obtain row where row:
    "db' = db\<lparr>db_transactions := db_transactions db @ [\<lparr>tx_chain = row, tx_status = Queued\<rparr>]\<rparr>"
    "cr_transaction_id row = txid" "cr_event_tip row = Some (unwrap_or_default (event_chain_tip db))"
    "cr_seq row = fst (next_seq_and_prev_hash db)" "cr_prev_chain_hash row = snd (next_seq_and_prev_hash db)"
    "cr_approval_id row = Some (approval_commitment (st_crypto st) key txid (cr_request_hash row))"
    "tx_content row \<noteq> None"
    "cr_chain_hash row = hex_encode (st_crypto st) (ed_sign (st_crypto st) (ak_signing key) (tx_msg row))"
    by (rule insert_transaction_Inr)
  have seqs: "numbered cr_seq ?txs" "numbered er_seq (db_events db)"
    using inv by (simp_all add: chain_inv_def)
  have "tx_well_chained (st_crypto st) (ak_signing key) (?txs @ [row])"
    using inv sig row(5,7,8) next_seq_and_prev_hash_eq [OF seqs(1)]
    by (simp add: well_chained_snoc chain_inv_def sig_nonempty_def split: option.splits)
  moreover have "numbered cr_seq (?txs @ [row])"
    using seqs(1) row(4) next_seq_and_prev_hash_eq [OF seqs(1)] by (simp add: numbered_snoc)
  moreover have "\<exists>tip. cr_event_tip row = Some tip \<and> (tip = [] \<or> tip \<in> er_chain_hash ` set (db_events db))"
    using row(3) event_chain_tip_eq [OF seqs(2)]
    by (auto simp: unwrap_or_default_def dest: last_opt_Some split: option.splits)
  ultimately show ?thesis
    using inv row(1,2,6) by (auto simp: chain_inv_def)
qed

section \<open>The tables\<close>

lemma kind_as_str_approval: "kind_as_str k \<in> approval_kinds \<longleftrightarrow> k \<in> {ApprovalGranted, ApprovalConsumed, ApprovalRevoked}"
  by (cases k) (simp_all add: approval_kinds_def)

lemma kind_of_status_not_approval [simp]: "kind_as_str (kind_of_status s) \<notin> approval_kinds"
  by (cases s) (simp_all add: approval_kinds_def)

lemma table_inv_known:
  assumes "table_inv txs aps evs"
  shows "a \<in> set aps \<Longrightarrow> ap_transaction_id a \<in> cr_transaction_id ` set txs"
    and "e \<in> set evs \<Longrightarrow> er_transaction_id e \<in> cr_transaction_id ` set txs"
  using assms unfolding table_inv_def digest_of_def image_iff by metis+

lemma table_inv_append_event:
  assumes "table_inv txs aps (db_events db)" "txid \<in> cr_transaction_id ` set txs"
    and "kind_as_str k \<in> approval_kinds \<longrightarrow> digest_of txs txid d"
  shows "table_inv txs aps (db_events (append_event st key at k txid d i db))"
  using assms by (auto simp: table_inv_def append_event_def new_event_def Let_def)

lemma table_inv_filter_approvals:
  "table_inv txs aps evs \<Longrightarrow> table_inv txs (filter P aps) evs"
  by (auto simp: table_inv_def distinct_map_filter)

lemma table_inv_map_approvals:
  assumes "table_inv txs aps evs"
    and "\<And>a. ap_transaction_id (f a) = ap_transaction_id a" "\<And>a. ap_receipt_digest (f a) = ap_receipt_digest a"
  shows "table_inv txs (map f aps) evs"
  using assms by (auto simp: table_inv_def comp_def)

lemma table_inv_add_approval:
  assumes "table_inv txs aps evs" "digest_of txs (ap_transaction_id a) (ap_receipt_digest a)"
    and "ap_transaction_id a \<notin> ap_transaction_id ` set aps"
  shows "table_inv txs (aps @ [a]) evs"
  using assms by (auto simp: table_inv_def)

lemma store_inv_distinct:
  assumes "store_inv b st key db"
  shows "distinct (map tx_id (db_transactions db))" "distinct (map ap_transaction_id (db_approvals db))"
  using assms by (simp_all add: store_inv_def table_inv_def comp_def)

lemma store_inv_find_tx:
  "store_inv b st key db \<Longrightarrow> r \<in> set (db_transactions db) \<Longrightarrow> find_tx (tx_id r) db = Some r"
  by (rule find_tx_distinct [OF store_inv_distinct(1)])

lemma find_tx_known:
  "find_tx txid db = Some r \<Longrightarrow> txid \<in> cr_transaction_id ` set (map tx_chain (db_transactions db))"
  using find_tx_Some by fastforce

text \<open>The row of an approval, found by its primary key.\<close>

lemma find_approval_Some:
  assumes "find_approval txid db = Some a"
  shows "a \<in> set (db_approvals db)" "ap_transaction_id a = txid"
  using assms by (auto simp: find_approval_def find_Some_iff)

lemma find_approval_distinct:
  "distinct (map ap_transaction_id (db_approvals db)) \<Longrightarrow> a \<in> set (db_approvals db)
     \<Longrightarrow> find_approval (ap_transaction_id a) db = Some a"
  unfolding find_approval_def by (rule find_key_distinct)

lemma find_approval_None:
  "find_approval txid db = None \<longleftrightarrow> (\<forall>a \<in> set (db_approvals db). ap_transaction_id a \<noteq> txid)"
  by (auto simp: find_approval_def find_None_iff)

lemma approval_of_Approved:
  assumes "distinct (map ap_transaction_id (db_approvals db))"
  shows "approval_of txid db = Approved \<longleftrightarrow>
    (\<exists>a \<in> set (db_approvals db). ap_transaction_id a = txid \<and> ap_consumed_at a = None)"
proof
  assume "approval_of txid db = Approved"
  then show "\<exists>a \<in> set (db_approvals db). ap_transaction_id a = txid \<and> ap_consumed_at a = None"
    by (auto simp: approval_of_def dest: find_approval_Some split: option.splits if_splits)
next
  assume "\<exists>a \<in> set (db_approvals db). ap_transaction_id a = txid \<and> ap_consumed_at a = None"
  then show "approval_of txid db = Approved"
    using find_approval_distinct [OF assms] by (auto simp: approval_of_def)
qed

lemma approval_of_NoApproval:
  "approval_of txid db = NoApproval \<longleftrightarrow> (\<forall>a \<in> set (db_approvals db). ap_transaction_id a \<noteq> txid)"
  unfolding find_approval_None [symmetric] by (auto simp: approval_of_def split: option.splits if_splits)

section \<open>Each operation keeps the invariant\<close>

lemma store_inv_empty: "store_inv b st key empty_db"
  by (simp add: store_inv_def empty_db_def chain_inv_def table_inv_def ledger_inv_def status_of_def find_tx_def)

lemma status_of_Some: "status_of txid db = Some s \<longleftrightarrow> (\<exists>r. find_tx txid db = Some r \<and> tx_status r = s)"
  by (auto simp: status_of_def)

lemma store_inv_insert_transaction:
  assumes inv: "store_inv b st key db" and sig: "sig_nonempty (st_crypto st)"
    and ins: "insert_transaction st key at txid t db = Inr (inserted, db')"
  shows "store_inv b st key db'"
proof -
  from ins obtain row where db':
      "db' = db\<lparr>db_transactions := db_transactions db @ [\<lparr>tx_chain = row, tx_status = Queued\<rparr>]\<rparr>"
    and fresh: "txid \<notin> tx_id ` set (db_transactions db)" and row: "cr_transaction_id row = txid"
    by (rule insert_transaction_Inr)
  have tab: "table_inv (map tx_chain (db_transactions db)) (db_approvals db) (db_events db)"
    using inv by (simp add: store_inv_def)
  have new: "\<And>e. e \<in> set (db_events db) \<Longrightarrow> er_transaction_id e \<noteq> txid"
    "\<And>a. a \<in> set (db_approvals db) \<Longrightarrow> ap_transaction_id a \<noteq> txid"
    using table_inv_known [OF tab] fresh by (simp_all add: image_image) blast+
  have "table_inv (map tx_chain (db_transactions db')) (db_approvals db') (db_events db')"
    using tab fresh row by (auto simp: db' table_inv_def digest_of_def image_iff)
  moreover have "ledger_inv b db'"
  proof -
    have status: "status_of u db' = (if u = txid then Some Queued else status_of u db)" for u
    proof -
      have "find_tx txid db = None" using fresh by (auto simp: find_tx_None)
      then show ?thesis using row by (auto simp: db' status_of_def find_tx_def find_append split: option.splits)
    qed
    have same: "approval_of u db' = approval_of u db" "kinds_of u db' = kinds_of u db" for u
      by (simp_all add: db' approval_of_def find_approval_def kinds_of_def)
    have "approval_of txid db = NoApproval" "kinds_of txid db = []"
      using new by (auto simp: approval_of_NoApproval kinds_of_def List.map_filter_def filter_empty_conv)
    with inv status same show ?thesis by (simp add: store_inv_def ledger_inv_def)
  qed
  ultimately show ?thesis
    using chain_inv_insert_transaction [OF _ sig ins] inv by (simp add: store_inv_def)
qed

lemma store_inv_previews [simp]: "store_inv b st key (db\<lparr>db_previews := ps\<rparr>) = store_inv b st key db"
  by (simp add: store_inv_def ledger_inv_def status_of_def find_tx_def approval_of_def find_approval_def
      kinds_of_def)

lemma store_inv_record_with:
  assumes "store_inv b st key db" "sig_nonempty (st_crypto st)" "st_audit_key st = Some key"
    and "\<And>i d d'. in_tx i d = Inr d' \<Longrightarrow> store_inv b st key d \<Longrightarrow> store_inv b st key d'"
  shows "store_inv b st key (snd (record_with st ck txid t in_tx db))"
  using assms by (auto simp: record_with_def dest: store_inv_insert_transaction split: sum.splits prod.splits)

lemma store_inv_record_tx:
  assumes "store_inv b st key db" "sig_nonempty (st_crypto st)" "st_audit_key st = Some key"
  shows "store_inv b st key (snd (record_tx st ck txid t db))"
  using store_inv_record_with [OF assms, of "\<lambda>_ d. Inr d" ck txid t]
  by (auto simp: record_tx_def split: prod.splits sum.splits)

lemma store_inv_record_previewed:
  assumes "store_inv b st key db" "sig_nonempty (st_crypto st)" "st_audit_key st = Some key"
  shows "store_inv b st key (snd (record_previewed st ck txid t p db))"
proof -
  have "store_inv b st key (snd (record_with st ck txid t
      (\<lambda>i d. insert_preview st (tr_transaction_id (it_record i)) p d) db))"
    by (rule store_inv_record_with [OF assms]) (auto simp: insert_preview_def split: if_splits)
  then show ?thesis by (auto simp: record_previewed_def split: prod.splits sum.splits)
qed

text \<open>A transaction that changes the rows of one job and chains what it did: the frame of
  every remaining operation.\<close>

lemma store_invI:
  assumes inv: "store_inv b st key db"
    and chain: "chain_inv st key (map tx_chain (db_transactions db')) (db_events db')"
    and tab: "table_inv (map tx_chain (db_transactions db')) (db_approvals db') (db_events db')"
    and other: "\<And>u. u \<noteq> txid \<Longrightarrow> status_of u db' = status_of u db \<and> approval_of u db' = approval_of u db
      \<and> kinds_of u db' = kinds_of u db"
    and kinds: "kinds_of txid db' = kinds_of txid db @ ks"
    and known: "status_of txid db = Some s" and status: "status_of txid db' = Some s'"
    and run: "ledger_run b (s, approval_of txid db) ks = Some (s', approval_of txid db')"
    and unspent: "s' = Queued \<longrightarrow> approval_of txid db' \<noteq> Spent"
  shows "store_inv b st key db'"
proof -
  have "ledger_inv b db'"
  proof (rule ledger_inv_extend [of b db txid db' ks])
    fix t'
    assume "status_of txid db' = Some t'"
    with known status run unspent show "\<exists>s. status_of txid db = Some s
        \<and> ledger_run b (s, approval_of txid db) ks = Some (t', approval_of txid db')
        \<and> (t' = Queued \<longrightarrow> approval_of txid db' \<noteq> Spent)" by simp
  qed (use inv other kinds in \<open>simp_all add: store_inv_def\<close>)
  with chain tab show ?thesis by (simp add: store_inv_def)
qed

lemma store_inv_update_status_commit:
  assumes inv: "store_inv b st key db" and sig: "sig_nonempty (st_crypto st)"
    and key: "st_audit_key st = Some key" and allowed: "allowed_transition observed new" and strict: "b \<longrightarrow> new \<noteq> Running"
  shows "store_inv b st key (snd (update_status_commit st ck txid new observed db))"
proof (cases "\<exists>r \<in> set (db_transactions db). tx_id r = txid \<and> tx_status r = observed")
  case False
  with inv show ?thesis by (auto simp: update_status_commit_def case_prod_beta update_status_where_count Let_def)
next
  case True
  let ?P = "\<lambda>r. tx_id r = txid \<and> tx_status r = observed"
  let ?db1 = "snd (update_status_where ?P new db)"
  let ?db' = "append_event st key (ck_text ck 0) (kind_of_status new) txid [] EvLegacyV1 ?db1"
  from True obtain r where r: "find_tx txid db = Some r" "tx_status r = observed"
    using store_inv_find_tx [OF inv] by blast
  have "store_inv b st key ?db'"
  proof (rule store_invI [OF inv])
    show "chain_inv st key (map tx_chain (db_transactions ?db')) (db_events ?db')"
      using inv by (simp add: chain_inv_append_event sig store_inv_def)
    show "table_inv (map tx_chain (db_transactions ?db')) (db_approvals ?db') (db_events ?db')"
      using inv find_tx_known [OF r(1)] by (simp add: table_inv_append_event store_inv_def)
    show "status_of u ?db' = status_of u db \<and> approval_of u ?db' = approval_of u db \<and> kinds_of u ?db' = kinds_of u db"
      if "u \<noteq> txid" for u
      using that status_of_update_other [of ?P txid] by (simp add: frame_simps)
    show "ledger_run b (observed, approval_of txid db) [kind_of_status new] = Some (new, approval_of txid ?db')"
      using allowed strict by (auto simp: frame_simps)
    show "new = Queued \<longrightarrow> approval_of txid ?db' \<noteq> Spent"
      using allowed by auto
  qed (use r in \<open>simp_all add: frame_simps status_of_def find_tx_update_status_where find_tx_Some(2)\<close>)
  with True key show ?thesis
    by (simp add: update_status_commit_def case_prod_beta update_status_where_count Let_def)
qed

lemma store_inv_update_status:
  assumes "store_inv b st key db" "sig_nonempty (st_crypto st)" "st_audit_key st = Some key"
    "b \<longrightarrow> new \<noteq> Running"
  shows "store_inv b st key (snd (update_status st ck txid new db))"
  using assms store_inv_update_status_commit [OF assms(1-3) _ assms(4)]
  by (auto simp: update_status_def update_status_read_def split: option.splits if_splits)

text \<open>Approval: the digest that \<open>approve_read\<close> hands over is the signed commitment.\<close>

lemma digest_of_find_tx:
  "find_tx txid db = Some r \<Longrightarrow> cr_approval_id (tx_chain r) = Some d
     \<Longrightarrow> digest_of (map tx_chain (db_transactions db)) txid d"
  using find_tx_Some [of txid db r] by (auto simp: digest_of_def)

lemma approve_read_digest:
  assumes "approve_read st txid db = Inr (Some (receipt, digest))"
  shows "digest_of (map tx_chain (db_transactions db)) txid digest"
proof (cases "find_tx txid db")
  case None
  with assms show ?thesis by (simp add: approve_read_def get_def split: option.splits)
next
  case (Some r)
  with assms have "cr_approval_id (tx_chain r) = Some digest"
    by (cases "st_warnings_of_json st (cr_warnings_json (tx_chain r))"; cases "cr_approval_id (tx_chain r)")
      (simp_all add: approve_read_def get_def row_to_record_def Let_def
        split: option.splits if_splits)
  with Some show ?thesis by (rule digest_of_find_tx)
qed

lemma store_inv_approve_commit:
  assumes inv: "store_inv b st key db" and sig: "sig_nonempty (st_crypto st)"
    and digest: "digest_of (map tx_chain (db_transactions db)) txid digest"
  shows "store_inv b st key (snd (approve_commit st key ck txid approver receipt digest db))"
proof -
  let ?P = "\<lambda>r. tx_id r = txid \<and> tx_status r = Queued \<and> within_ttl st ck r
    \<and> (\<forall>a \<in> set (db_approvals db). ap_transaction_id a \<noteq> txid)"
  show ?thesis
  proof (cases "filter ?P (db_transactions db) = []")
    case True
    with inv show ?thesis by (simp add: approve_commit_def)
  next
    case False
    then obtain r where "r \<in> set (db_transactions db)" "?P r" by (auto simp: filter_empty_conv)
    then have r: "find_tx txid db = Some r" "tx_status r = Queued" "approval_of txid db = NoApproval"
      and sel: "filter ?P (db_transactions db) = [r]"
      using store_inv_find_tx [OF inv] store_inv_distinct(1) [OF inv]
      by (auto simp: approval_of_NoApproval intro!: filter_key_distinct)
    let ?a = "\<lparr>ap_transaction_id = tx_id r, ap_receipt_digest = digest, ap_approved_at = ck_datetime ck,
      ap_consumed_at = None\<rparr>"
    let ?db1 = "db\<lparr>db_approvals := db_approvals db @ [?a]\<rparr>"
    let ?db' = "append_event st key (ck_text ck 0) ApprovalGranted txid digest (EvV2 (as_signed_str approver)) ?db1"
    have appr: "approval_of u ?db1 = (if u = txid then Approved else approval_of u db)" for u
      using r(1,3) find_tx_Some(2) [OF r(1)]
      by (auto simp: approval_of_def find_approval_def find_append split: option.splits if_splits)
    have "store_inv b st key ?db'"
    proof (rule store_invI [OF inv])
      show "chain_inv st key (map tx_chain (db_transactions ?db')) (db_events ?db')"
        using inv by (simp add: chain_inv_append_event sig store_inv_def)
      have "table_inv (map tx_chain (db_transactions db)) (db_approvals db @ [?a]) (db_events db)"
        using inv digest r find_tx_Some(2) [OF r(1)]
        by (intro table_inv_add_approval) (auto simp: store_inv_def approval_of_NoApproval)
      then show "table_inv (map tx_chain (db_transactions ?db')) (db_approvals ?db') (db_events ?db')"
        using find_tx_known [OF r(1)] digest by (simp add: table_inv_append_event)
      show "status_of u ?db' = status_of u db \<and> approval_of u ?db' = approval_of u db \<and> kinds_of u ?db' = kinds_of u db"
        if "u \<noteq> txid" for u
        using that by (simp add: frame_simps appr) (simp add: status_of_def find_tx_def kinds_of_def)
      show "ledger_run b (Queued, approval_of txid db) [ApprovalGranted] = Some (Queued, approval_of txid ?db')"
        using r(3) by (simp add: frame_simps appr)
      show "kinds_of txid ?db' = kinds_of txid db @ [ApprovalGranted]"
        by (simp add: frame_simps) (simp add: kinds_of_def)
      show "status_of txid ?db' = Some Queued"
        using r by (simp add: frame_simps) (simp add: status_of_def find_tx_def)
    qed (use r in \<open>simp_all add: status_of_def frame_simps appr\<close>)
    with sel show ?thesis by (simp add: approve_commit_def Let_def)
  qed
qed

lemma store_inv_approve_transaction:
  assumes "store_inv b st key db" "sig_nonempty (st_crypto st)" "st_audit_key st = Some key"
  shows "store_inv b st key (snd (approve_transaction st ck txid approver db))"
  using assms store_inv_approve_commit [OF assms(1,2) approve_read_digest]
  by (auto simp: approve_transaction_def split: sum.splits option.splits)

text \<open>Revocation.\<close>

lemma unconsumed_row:
  assumes "distinct (map ap_transaction_id (db_approvals db))"
  shows "find (\<lambda>a. ap_transaction_id a = txid \<and> ap_consumed_at a = None) (db_approvals db) =
    (if approval_of txid db = Approved then find_approval txid db else None)"
proof (cases "approval_of txid db = Approved")
  case True
  then obtain a where a: "find_approval txid db = Some a" "ap_consumed_at a = None"
    by (auto simp: approval_of_def split: option.splits if_splits)
  have "find (\<lambda>a. ap_transaction_id a = txid \<and> ap_consumed_at a = None) xs = Some a"
    if "find (\<lambda>a. ap_transaction_id a = txid) xs = Some a" for xs
    using that a(2) by (induction xs) (auto split: if_splits)
  with a True show ?thesis by (simp add: find_approval_def)
next
  case False
  with approval_of_Approved [OF assms] show ?thesis by (auto simp: find_None_iff)
qed

lemma approval_of_delete:
  assumes "distinct (map ap_transaction_id (db_approvals db))" "approval_of txid db = Approved"
  shows "approval_of u (db\<lparr>db_approvals :=
      filter (\<lambda>a. \<not> (ap_transaction_id a = txid \<and> ap_consumed_at a = None)) (db_approvals db)\<rparr>) =
    (if u = txid then NoApproval else approval_of u db)"
proof (cases "u = txid")
  case True
  have "ap_consumed_at b = None" if "b \<in> set (db_approvals db)" "ap_transaction_id b = txid" for b
    using assms(2) find_approval_distinct [OF assms(1) that(1)] that(2)
    by (auto simp: approval_of_def split: if_splits)
  with True show ?thesis by (auto simp: approval_of_NoApproval)
next
  case False
  then have "find (\<lambda>a. ap_transaction_id a = u)
      (filter (\<lambda>a. \<not> (ap_transaction_id a = txid \<and> ap_consumed_at a = None)) xs) =
    find (\<lambda>a. ap_transaction_id a = u) xs" for xs :: "approval_row list"
    by (induction xs) auto
  with False show ?thesis by (simp add: approval_of_def find_approval_def)
qed

text \<open>The revocation inside another transaction: both chains and the tables are kept, and
  the receipt of \<open>txid\<close> is no longer usable.\<close>

lemma revoke_in_tx_effect:
  assumes chain: "chain_inv st key (map tx_chain (db_transactions db)) (db_events db)"
    and tab: "table_inv (map tx_chain (db_transactions db)) (db_approvals db) (db_events db)"
    and sig: "sig_nonempty (st_crypto st)" and p: "p \<noteq> []"
    and rev: "revoke_unconsumed_approval_in_tx st key at txid p db = (c, db')"
  shows "db_transactions db' = db_transactions db"
    "chain_inv st key (map tx_chain (db_transactions db')) (db_events db')"
    "table_inv (map tx_chain (db_transactions db')) (db_approvals db') (db_events db')"
    "c \<longleftrightarrow> approval_of txid db = Approved"
    "\<And>u. approval_of u db' = (if u = txid \<and> c then NoApproval else approval_of u db)"
    "\<And>u. kinds_of u db' = (if u = txid \<and> c then kinds_of u db @ [ApprovalRevoked] else kinds_of u db)"
proof -
  have d: "distinct (map ap_transaction_id (db_approvals db))"
    using tab by (simp add: table_inv_def)
  have "db_transactions db' = db_transactions db
    \<and> chain_inv st key (map tx_chain (db_transactions db')) (db_events db')
    \<and> table_inv (map tx_chain (db_transactions db')) (db_approvals db') (db_events db')
    \<and> (c \<longleftrightarrow> approval_of txid db = Approved)
    \<and> (\<forall>u. approval_of u db' = (if u = txid \<and> c then NoApproval else approval_of u db))
    \<and> (\<forall>u. kinds_of u db' = (if u = txid \<and> c then kinds_of u db @ [ApprovalRevoked] else kinds_of u db))"
  proof (cases "approval_of txid db = Approved")
    case False
    with rev chain tab show ?thesis
      by (simp add: revoke_unconsumed_approval_in_tx_def unconsumed_row [OF d] Let_def)
  next
    case True
    then obtain a where a: "find_approval txid db = Some a"
      by (auto simp: approval_of_def split: option.splits)
    note revoked = True find_approval_Some [OF a]
    let ?db1 = "db\<lparr>db_approvals := filter (\<lambda>a. \<not> (ap_transaction_id a = txid \<and> ap_consumed_at a = None))
              (db_approvals db)\<rparr>"
    have db': "c" "db' = append_event st key at ApprovalRevoked txid (ap_receipt_digest a) (EvV2 p) ?db1"
      using rev True a by (simp_all add: revoke_unconsumed_approval_in_tx_def unconsumed_row [OF d] Let_def)
    have dig: "digest_of (map tx_chain (db_transactions db)) txid (ap_receipt_digest a)"
      using tab revoked(2,3) by (auto simp: table_inv_def)
    have known: "txid \<in> cr_transaction_id ` set (map tx_chain (db_transactions db))"
      using table_inv_known(1) [OF tab revoked(2)] revoked(3) by simp
    have "table_inv (map tx_chain (db_transactions db)) (db_approvals ?db1) (db_events ?db1)"
      using table_inv_filter_approvals [OF tab] by simp
    then have "table_inv (map tx_chain (db_transactions db')) (db_approvals db') (db_events db')"
      using known dig by (simp add: db' table_inv_append_event)
    moreover have "chain_inv st key (map tx_chain (db_transactions db')) (db_events db')"
      using chain sig p by (simp add: db' chain_inv_append_event)
    moreover have "kinds_of u ?db1 = kinds_of u db" for u by (simp add: kinds_of_def)
    ultimately show ?thesis
      using db'(1) revoked(1) approval_of_delete [OF d revoked(1)]
      by (simp add: db'(2) frame_simps)
  qed
  then show "db_transactions db' = db_transactions db"
    "chain_inv st key (map tx_chain (db_transactions db')) (db_events db')"
    "table_inv (map tx_chain (db_transactions db')) (db_approvals db') (db_events db')"
    "c \<longleftrightarrow> approval_of txid db = Approved"
    "\<And>u. approval_of u db' = (if u = txid \<and> c then NoApproval else approval_of u db)"
    "\<And>u. kinds_of u db' = (if u = txid \<and> c then kinds_of u db @ [ApprovalRevoked] else kinds_of u db)"
    by blast+
qed

lemma store_inv_revoke_unconsumed_approval:
  assumes inv: "store_inv b st key db" and sig: "sig_nonempty (st_crypto st)" and key: "st_audit_key st = Some key"
  shows "store_inv b st key (snd (revoke_unconsumed_approval st ck txid revoker db))"
proof -
  obtain c db' where rev:
    "revoke_unconsumed_approval_in_tx st key (ck_text ck 0) txid (as_signed_str revoker) db = (c, db')"
    by fastforce
  have chain: "chain_inv st key (map tx_chain (db_transactions db)) (db_events db)"
    and tab: "table_inv (map tx_chain (db_transactions db)) (db_approvals db) (db_events db)"
    and led: "ledger_inv b db"
    using inv by (simp_all add: store_inv_def)
  note eff = revoke_in_tx_effect [OF chain tab sig as_signed_str_nonempty rev]
  have status: "status_of u db' = status_of u db" for u
    by (simp add: status_of_def find_tx_def eff(1))
  have "ledger_inv b db'"
    by (rule ledger_inv_extend [OF led, of txid _ "if c then [ApprovalRevoked] else []"])
      (use eff(4-6) status led in \<open>auto simp: ledger_inv_def\<close>)
  with eff(2,3) have "store_inv b st key db'" by (simp add: store_inv_def)
  with rev key show ?thesis by (simp add: revoke_unconsumed_approval_def)
qed

text \<open>Claiming a receipt.\<close>

lemma consume_approvals_tables [simp]:
  "db_transactions (consume_approvals txid at db) = db_transactions db"
  "db_events (consume_approvals txid at db) = db_events db"
  by (simp_all add: consume_approvals_def)

lemma status_of_consume_approvals [frame_simps]:
  "status_of u (consume_approvals txid at db) = status_of u db"
  by (simp add: status_of_def find_tx_def)

lemma approval_of_consume_approvals:
  "approval_of u (consume_approvals txid at db) =
     (if u = txid \<and> approval_of u db = Approved then Spent else approval_of u db)"
proof -
  have "find_approval u (consume_approvals txid at db) = map_option (\<lambda>a. if ap_transaction_id a = txid
      \<and> ap_consumed_at a = None then a\<lparr>ap_consumed_at := Some at\<rparr> else a) (find_approval u db)"
    unfolding find_approval_def consume_approvals_def by (simp add: find_map_eq)
  then show ?thesis
    by (cases "find_approval u db") (auto simp: approval_of_def dest: find_approval_Some(2))
qed

text \<open>A claim takes effect exactly when the transaction is queued and fresh and its receipt,
  with this digest, is not spent.\<close>

definition claimable :: "('sk, 'vk) store \<Rightarrow> sql_clock \<Rightarrow> string \<Rightarrow> string \<Rightarrow> db \<Rightarrow> bool" where
  "claimable st ck txid digest db \<longleftrightarrow>
     (\<exists>r \<in> set (db_transactions db). tx_id r = txid \<and> tx_status r = Queued \<and> within_ttl st ck r)
     \<and> (\<exists>a \<in> set (db_approvals db). ap_transaction_id a = txid \<and> ap_receipt_digest a = digest
          \<and> ap_consumed_at a = None)"

lemma claim_cases:
  assumes "st_audit_key st = Some key"
  shows "claim_approved_for_execution st ck txid digest executor db =
    (if claimable st ck txid digest db then
       (Inr True, append_event st key (ck_text ck 1) StatusRunning txid [] EvLegacyV1
         (append_event st key (ck_text ck 0) ApprovalConsumed txid digest (EvV2 (as_signed_str executor))
           (consume_approvals txid (ck_datetime ck)
             (snd (update_status_where (\<lambda>r. tx_id r = txid \<and> tx_status r = Queued \<and> within_ttl st ck r) Running db)))))
     else (Inr False, db))"
proof -
  let ?A = "\<exists>a \<in> set (db_approvals db). ap_transaction_id a = txid \<and> ap_receipt_digest a = digest
          \<and> ap_consumed_at a = None"
  let ?Q = "\<lambda>r. tx_id r = txid \<and> tx_status r = Queued \<and> within_ttl st ck r"
  have eq: "claim_approved_for_execution st ck txid digest executor db =
      (let (n, db1) = update_status_where (\<lambda>r. ?Q r \<and> ?A) Running db in
       if n > 0 then (Inr True, append_event st key (ck_text ck 1) StatusRunning txid [] EvLegacyV1
         (append_event st key (ck_text ck 0) ApprovalConsumed txid digest (EvV2 (as_signed_str executor))
           (consume_approvals txid (ck_datetime ck) db1)))
       else (Inr False, db1))"
    using assms by (simp add: claim_approved_for_execution_def Let_def case_prod_beta)
  show ?thesis
  proof (cases ?A)
    case True
    have "(\<lambda>r. ?Q r \<and> ?A) = ?Q" using True by auto
    with True show ?thesis
      using update_status_where_none [of db ?Q Running]
      by (auto simp: eq case_prod_beta update_status_where_count claimable_def)
  next
    case False
    then have "\<not> claimable st ck txid digest db" by (auto simp: claimable_def)
    moreover have "update_status_where (\<lambda>r. ?Q r \<and> ?A) Running db = (0, db)"
      using False update_status_where_none [of db "\<lambda>r. ?Q r \<and> ?A" Running]
      by (auto simp: update_status_where_count intro!: prod_eqI)
    ultimately show ?thesis by (simp add: eq)
  qed
qed

lemma store_inv_claim:
  assumes inv: "store_inv b st key db" and sig: "sig_nonempty (st_crypto st)" and key: "st_audit_key st = Some key"
  shows "store_inv b st key (snd (claim_approved_for_execution st ck txid digest executor db))"
proof (cases "claimable st ck txid digest db")
  case False
  with inv show ?thesis by (simp add: claim_cases [OF key])
next
  case True
  let ?Q = "\<lambda>r. tx_id r = txid \<and> tx_status r = Queued \<and> within_ttl st ck r"
  let ?db1 = "snd (update_status_where ?Q Running db)"
  let ?db2 = "consume_approvals txid (ck_datetime ck) ?db1"
  let ?db3 = "append_event st key (ck_text ck 0) ApprovalConsumed txid digest (EvV2 (as_signed_str executor)) ?db2"
  let ?db' = "append_event st key (ck_text ck 1) StatusRunning txid [] EvLegacyV1 ?db3"
  from True obtain r a where r: "find_tx txid db = Some r" "tx_status r = Queued" "within_ttl st ck r"
    and a: "a \<in> set (db_approvals db)" "ap_transaction_id a = txid" "ap_receipt_digest a = digest"
      "ap_consumed_at a = None"
    using store_inv_find_tx [OF inv] by (auto simp: claimable_def)
  have appr: "approval_of txid db = Approved"
    using a approval_of_Approved [OF store_inv_distinct(2) [OF inv]] by blast
  have tab: "table_inv (map tx_chain (db_transactions db)) (db_approvals db) (db_events db)"
    using inv by (simp add: store_inv_def)
  then have dig: "digest_of (map tx_chain (db_transactions db)) txid digest"
    using a by (auto simp: table_inv_def)
  have "store_inv b st key ?db'"
  proof (rule store_invI [OF inv])
    show "chain_inv st key (map tx_chain (db_transactions ?db')) (db_events ?db')"
      using inv by (simp add: chain_inv_append_event sig store_inv_def)
    have "table_inv (map tx_chain (db_transactions db)) (db_approvals ?db2) (db_events db)"
      using tab by (auto simp: consume_approvals_def intro!: table_inv_map_approvals)
    then show "table_inv (map tx_chain (db_transactions ?db')) (db_approvals ?db') (db_events ?db')"
      using find_tx_known [OF r(1)] dig by (simp add: table_inv_append_event kind_as_str_approval del: kind_as_str.simps)
    have s2: "status_of u ?db2 = status_of u ?db1" "kinds_of u ?db2 = kinds_of u ?db1" for u
      by (simp_all add: status_of_def find_tx_def kinds_of_def)
    show "status_of u ?db' = status_of u db \<and> approval_of u ?db' = approval_of u db \<and> kinds_of u ?db' = kinds_of u db"
      if "u \<noteq> txid" for u
      using that status_of_update_other [of ?Q txid]
      by (simp add: frame_simps s2 approval_of_consume_approvals)
    show "kinds_of txid ?db' = kinds_of txid db @ [ApprovalConsumed, StatusRunning]"
      by (simp add: frame_simps s2)
    show "status_of txid ?db' = Some Running"
      using r by (simp add: frame_simps s2 find_tx_Some(2))
    show "ledger_run b (Queued, approval_of txid db) [ApprovalConsumed, StatusRunning]
        = Some (Running, approval_of txid ?db')"
      using appr by (simp add: frame_simps approval_of_consume_approvals)
  qed (use r in \<open>simp_all add: status_of_def\<close>)
  with True show ?thesis by (simp add: claim_cases [OF key])
qed

text \<open>Cancelling.\<close>

lemma store_inv_cancel_one:
  assumes inv: "store_inv b st key db" and sig: "sig_nonempty (st_crypto st)" and p: "p \<noteq> []"
  shows "store_inv b st key (snd (cancel_one st key at0 at1 txid p db))"
proof -
  let ?P = "\<lambda>r. tx_id r = txid \<and> tx_status r = Queued"
  let ?db1 = "snd (update_status_where ?P Canceled db)"
  obtain c db2 where rev: "revoke_unconsumed_approval_in_tx st key at0 txid p ?db1 = (c, db2)" by fastforce
  let ?db' = "append_event st key at1 StatusCanceled txid [] EvLegacyV1 db2"
  show ?thesis
  proof (cases "\<exists>r \<in> set (db_transactions db). ?P r")
    case False
    with inv update_status_where_none [OF False] show ?thesis
      by (auto simp: cancel_one_def case_prod_beta update_status_where_count)
  next
    case True
    then obtain r where r: "find_tx txid db = Some r" "tx_status r = Queued"
      using store_inv_find_tx [OF inv] by blast
    have "chain_inv st key (map tx_chain (db_transactions ?db1)) (db_events ?db1)"
      "table_inv (map tx_chain (db_transactions ?db1)) (db_approvals ?db1) (db_events ?db1)"
      using inv by (simp_all add: store_inv_def)
    note eff = revoke_in_tx_effect [OF this sig p rev]
    have chains: "map tx_chain (db_transactions db2) = map tx_chain (db_transactions db)"
      by (simp add: eff(1))
    have status: "status_of u db2 = status_of u ?db1" for u
      by (simp add: status_of_def find_tx_def eff(1))
    have "store_inv b st key ?db'"
    proof (rule store_invI [OF inv])
      show "chain_inv st key (map tx_chain (db_transactions ?db')) (db_events ?db')"
        using eff(2) by (simp add: chain_inv_append_event sig)
      show "table_inv (map tx_chain (db_transactions ?db')) (db_approvals ?db') (db_events ?db')"
        using eff(3) find_tx_known [OF r(1)] by (simp add: table_inv_append_event chains kind_as_str_approval del: kind_as_str.simps)
      show "status_of u ?db' = status_of u db \<and> approval_of u ?db' = approval_of u db
          \<and> kinds_of u ?db' = kinds_of u db" if "u \<noteq> txid" for u
        using that status_of_update_other [of ?P txid] by (simp add: frame_simps status eff)
      show "kinds_of txid ?db' = kinds_of txid db @ (if c then [ApprovalRevoked, StatusCanceled] else [StatusCanceled])"
        by (simp add: frame_simps eff)
      show "status_of txid ?db' = Some Canceled"
        using r by (simp add: frame_simps status find_tx_Some(2))
      show "ledger_run b (Queued, approval_of txid db) (if c then [ApprovalRevoked, StatusCanceled] else [StatusCanceled])
          = Some (Canceled, approval_of txid ?db')"
        using eff(4) by (simp add: frame_simps eff(5))
    qed (use r in \<open>simp_all add: status_of_def\<close>)
    with True rev show ?thesis
      by (simp add: cancel_one_def case_prod_beta update_status_where_count Let_def)
  qed
qed

lemma store_inv_cleanup_loop:
  assumes "store_inv b st key db" "sig_nonempty (st_crypto st)"
  shows "store_inv b st key (snd (cleanup_loop st key ck i ids n db))"
  using assms(1)
proof (induction ids arbitrary: i n db)
  case (Cons txid ids)
  then show ?case
    using store_inv_cancel_one [OF _ assms(2) as_signed_str_nonempty] by (simp add: case_prod_beta)
qed simp

lemma store_inv_cleanup_stale_queued:
  assumes "store_inv b st key db" "sig_nonempty (st_crypto st)" "st_audit_key st = Some key"
  shows "store_inv b st key (snd (cleanup_stale_queued st ck db))"
  using store_inv_cleanup_loop [OF assms(1,2)] assms(3)
  by (simp add: cleanup_stale_queued_def case_prod_beta Let_def)

lemma store_inv_cancel_queued:
  assumes "store_inv b st key db" "sig_nonempty (st_crypto st)" "st_audit_key st = Some key"
  shows "store_inv b st key (snd (cancel_queued st ck txid canceller db))"
  using store_inv_cancel_one [OF assms(1,2) as_signed_str_nonempty] assms(3)
  by (simp add: cancel_queued_def case_prod_beta Let_def)

lemmas store_inv_operations =
  store_inv_record_tx store_inv_record_previewed store_inv_update_status store_inv_approve_transaction
  store_inv_revoke_unconsumed_approval store_inv_claim store_inv_cleanup_stale_queued
  store_inv_cancel_queued

end
