(* ===== verification/Sk_Store_Runs.thy ===== *)
theory Sk_Store_Runs
  imports Sk_Store_Inv
begin

text \<open>
  Runs of the store: every interleaving of the operations of several callers, with the two
  operations that read before their transaction split in two, and crashes. From any reachable
  state the whole audit report is clean, the log is append-only, statuses follow the transition
  table, and a receipt is spent at most once.
\<close>

section \<open>The log only grows\<close>

definition grows :: "db \<Rightarrow> db \<Rightarrow> bool" where
  "grows db db' \<longleftrightarrow>
     prefix (map tx_chain (db_transactions db)) (map tx_chain (db_transactions db'))
     \<and> prefix (db_events db) (db_events db')"

lemma grows_refl [simp]: "grows db db"
  by (simp add: grows_def)

lemma grows_trans [trans]: "grows a b \<Longrightarrow> grows b c \<Longrightarrow> grows a c"
  by (auto simp: grows_def intro: prefix_order.order_trans)

lemma grows_append_event [simp]: "grows db d \<Longrightarrow> grows db (append_event st key at k txid g i d)"
  by (auto simp: grows_def append_event_def Let_def)

lemma grows_update_status_where [simp]: "grows db d \<Longrightarrow> grows db (snd (update_status_where P s d))"
  by (simp add: grows_def)

lemma grows_approvals [simp]: "grows db d \<Longrightarrow> grows db (d\<lparr>db_approvals := aps\<rparr>)"
  by (simp add: grows_def)

lemma grows_consume_approvals [simp]: "grows db d \<Longrightarrow> grows db (consume_approvals txid at d)"
  by (simp add: grows_def)

lemma grows_insert_transaction:
  "insert_transaction st key at txid t db = Inr (inserted, db') \<Longrightarrow> grows db db'"
  by (erule insert_transaction_Inr) (simp add: grows_def)

lemma grows_record_with:
  assumes "\<And>i d d'. in_tx i d = Inr d' \<Longrightarrow> grows d d'"
  shows "grows db (snd (record_with st ck txid t in_tx db))"
  using grows_trans [OF grows_insert_transaction assms]
  by (auto simp: record_with_def split: option.splits sum.splits prod.splits)

lemma grows_record_tx: "grows db (snd (record_tx st ck txid t db))"
  using grows_record_with [of "\<lambda>_ d. Inr d" db st ck txid t]
  by (auto simp: record_tx_def split: prod.splits sum.splits)

lemma grows_record_previewed: "grows db (snd (record_previewed st ck txid t p db))"
proof -
  have "grows db (snd (record_with st ck txid t
      (\<lambda>i d. insert_preview st (tr_transaction_id (it_record i)) p d) db))"
    by (rule grows_record_with) (auto simp: insert_preview_def grows_def split: if_splits)
  then show ?thesis by (auto simp: record_previewed_def split: prod.splits sum.splits)
qed

lemma grows_update_status_commit: "grows db (snd (update_status_commit st ck txid new observed db))"
  by (auto simp: update_status_commit_def case_prod_beta Let_def split: option.splits)

lemma grows_approve_commit: "grows db (snd (approve_commit st key ck txid approver receipt digest db))"
  by (auto simp: approve_commit_def Let_def)

lemma grows_revoke_in_tx [simp]:
  "grows db d \<Longrightarrow> grows db (snd (revoke_unconsumed_approval_in_tx st key at txid p d))"
  by (auto simp: revoke_unconsumed_approval_in_tx_def Let_def split: option.splits)

lemma grows_revoke_unconsumed_approval: "grows db (snd (revoke_unconsumed_approval st ck txid revoker db))"
  by (auto simp: revoke_unconsumed_approval_def case_prod_beta split: option.splits)

lemma grows_claim: "grows db (snd (claim_approved_for_execution st ck txid digest executor db))"
  by (auto simp: claim_approved_for_execution_def case_prod_beta Let_def split: option.splits)

lemma grows_cancel_one: "grows db (snd (cancel_one st key at0 at1 txid p db))"
  by (auto simp: cancel_one_def case_prod_beta Let_def)

lemma grows_cleanup_loop: "grows db (snd (cleanup_loop st key ck i ids n db))"
proof (induction ids arbitrary: i n db)
  case (Cons txid ids)
  show ?case
    using grows_trans [OF grows_cancel_one Cons.IH] by (simp add: case_prod_beta)
qed simp

lemma grows_cleanup_stale_queued: "grows db (snd (cleanup_stale_queued st ck db))"
  using grows_cleanup_loop by (auto simp: cleanup_stale_queued_def case_prod_beta Let_def split: option.splits)

lemma grows_cancel_queued: "grows db (snd (cancel_queued st ck txid canceller db))"
  using grows_cancel_one by (auto simp: cancel_queued_def case_prod_beta Let_def split: option.splits)

lemma digest_of_grows:
  "grows db db' \<Longrightarrow> digest_of (map tx_chain (db_transactions db)) txid d
     \<Longrightarrow> digest_of (map tx_chain (db_transactions db')) txid d"
  unfolding grows_def digest_of_def by (meson set_mono_prefix subsetD)

section \<open>Runs\<close>

text \<open>A caller between its read and its transaction.\<close>

datatype pending =
    PendingStatus string job_state job_state
  | PendingApproval string caller_principal string string

record sys =
  sys_db :: db
  sys_pending :: "pending list"

text \<open>\<open>targets\<close> are the statuses that callers ask \<open>update_status\<close> for.\<close>

inductive store_step :: "('sk, 'vk) store \<Rightarrow> job_state set \<Rightarrow> sys \<Rightarrow> sys \<Rightarrow> bool"
  for st :: "('sk, 'vk) store" and targets :: "job_state set" where
  step_record:
    "store_step st targets s (s\<lparr>sys_db := snd (record_tx st ck txid t (sys_db s))\<rparr>)"
| step_record_previewed:
    "store_step st targets s (s\<lparr>sys_db := snd (record_previewed st ck txid t p (sys_db s))\<rparr>)"
| step_update_status_read:
    "new \<in> targets \<Longrightarrow> update_status_read txid new (sys_db s) = Inr observed \<Longrightarrow>
     store_step st targets s (s\<lparr>sys_pending := PendingStatus txid new observed # sys_pending s\<rparr>)"
| step_update_status_commit:
    "PendingStatus txid new observed \<in> set (sys_pending s) \<Longrightarrow>
     store_step st targets s (s\<lparr>
       sys_db := snd (update_status_commit st ck txid new observed (sys_db s)),
       sys_pending := remove1 (PendingStatus txid new observed) (sys_pending s)\<rparr>)"
| step_approve_read:
    "approve_read st txid (sys_db s) = Inr (Some (receipt, digest)) \<Longrightarrow>
     store_step st targets s (s\<lparr>sys_pending := PendingApproval txid approver receipt digest # sys_pending s\<rparr>)"
| step_approve_commit:
    "PendingApproval txid approver receipt digest \<in> set (sys_pending s) \<Longrightarrow> st_audit_key st = Some key \<Longrightarrow>
     store_step st targets s (s\<lparr>
       sys_db := snd (approve_commit st key ck txid approver receipt digest (sys_db s)),
       sys_pending := remove1 (PendingApproval txid approver receipt digest) (sys_pending s)\<rparr>)"
| step_revoke:
    "store_step st targets s (s\<lparr>sys_db := snd (revoke_unconsumed_approval st ck txid revoker (sys_db s))\<rparr>)"
| step_claim:
    "store_step st targets s (s\<lparr>sys_db := snd (claim_approved_for_execution st ck txid digest executor (sys_db s))\<rparr>)"
| step_cleanup:
    "store_step st targets s (s\<lparr>sys_db := snd (cleanup_stale_queued st ck (sys_db s))\<rparr>)"
| step_cancel:
    "store_step st targets s (s\<lparr>sys_db := snd (cancel_queued st ck txid canceller (sys_db s))\<rparr>)"
| step_crash:
    "store_step st targets s (s\<lparr>sys_pending := []\<rparr>)"

definition initial_sys :: sys where
  "initial_sys = \<lparr>sys_db = empty_db, sys_pending = []\<rparr>"

definition store_reach :: "('sk, 'vk) store \<Rightarrow> job_state set \<Rightarrow> sys \<Rightarrow> bool" where
  "store_reach st targets s \<longleftrightarrow> (store_step st targets)\<^sup>*\<^sup>* initial_sys s"

lemma store_step_grows: "store_step st targets s s' \<Longrightarrow> grows (sys_db s) (sys_db s')"
  by (induction rule: store_step.induct)
    (simp_all add: grows_record_tx grows_record_previewed grows_update_status_commit grows_approve_commit
      grows_revoke_unconsumed_approval grows_claim grows_cleanup_stale_queued grows_cancel_queued)

lemma store_steps_grow: "(store_step st targets)\<^sup>*\<^sup>* s s' \<Longrightarrow> grows (sys_db s) (sys_db s')"
  by (induction rule: rtranclp_induct) (auto dest: store_step_grows intro: grows_trans)

section \<open>The invariant of a run\<close>

text \<open>What a caller knows between its read and its transaction stays true.\<close>

fun pending_ok :: "job_state set \<Rightarrow> db \<Rightarrow> pending \<Rightarrow> bool" where
  "pending_ok targets db (PendingStatus txid new observed) \<longleftrightarrow> allowed_transition observed new \<and> new \<in> targets"
| "pending_ok targets db (PendingApproval txid approver receipt digest) \<longleftrightarrow>
     digest_of (map tx_chain (db_transactions db)) txid digest"

definition sys_inv :: "bool \<Rightarrow> ('sk, 'vk) store \<Rightarrow> 'sk audit_key \<Rightarrow> job_state set \<Rightarrow> sys \<Rightarrow> bool" where
  "sys_inv b st key targets s \<longleftrightarrow>
     store_inv b st key (sys_db s) \<and> list_all (pending_ok targets (sys_db s)) (sys_pending s)"

lemma pending_ok_grows: "grows db db' \<Longrightarrow> pending_ok targets db p \<Longrightarrow> pending_ok targets db' p"
  by (cases p) (auto intro: digest_of_grows)

lemma list_all_remove1: "list_all P xs \<Longrightarrow> list_all P (remove1 x xs)"
  unfolding list_all_iff using notin_set_remove1 by fast

lemma store_step_inv:
  assumes "store_step st targets s s'" "sys_inv b st key targets s" "sig_nonempty (st_crypto st)"
    "st_audit_key st = Some key" "b \<longrightarrow> Running \<notin> targets"
  shows "sys_inv b st key targets s'"
proof -
  have "store_inv b st key (sys_db s')"
    using assms
  proof (induction rule: store_step.induct)
    case (step_update_status_commit txid new observed s ck)
    then have "allowed_transition observed new" "new \<in> targets"
      by (auto simp: sys_inv_def list_all_iff)
    with step_update_status_commit show ?case
      by (auto simp: sys_inv_def intro!: store_inv_update_status_commit)
  next
    case (step_approve_commit txid approver receipt digest s key' ck)
    then have "digest_of (map tx_chain (db_transactions (sys_db s))) txid digest" "key' = key"
      by (auto simp: sys_inv_def list_all_iff)
    with step_approve_commit show ?case
      by (simp add: sys_inv_def store_inv_approve_commit)
  qed (simp_all add: sys_inv_def store_inv_operations)
  moreover have "list_all (pending_ok targets (sys_db s')) (sys_pending s')"
  proof -
    have "list_all (pending_ok targets (sys_db s)) (sys_pending s')"
      using assms(1,2)
      by (induction rule: store_step.induct)
        (auto simp: sys_inv_def update_status_read_def list_all_remove1 approve_read_digest
          split: option.splits if_splits)
    then show ?thesis
      using pending_ok_grows [OF store_step_grows [OF assms(1)]] by (auto simp: list_all_iff)
  qed
  ultimately show ?thesis by (simp add: sys_inv_def)
qed

lemma store_reach_inv:
  assumes "store_reach st targets s" "sig_nonempty (st_crypto st)" "st_audit_key st = Some key"
    "b \<longrightarrow> Running \<notin> targets"
  shows "sys_inv b st key targets s"
  using assms(1) unfolding store_reach_def
proof (induction rule: rtranclp_induct)
  case base
  show ?case by (simp add: sys_inv_def initial_sys_def store_inv_empty)
next
  case (step s s')
  then show ?case using store_step_inv [OF step(2,3) assms(2-4)] by simp
qed

lemmas store_reach_store_inv = store_reach_inv [unfolded sys_inv_def, THEN conjunct1]

end
