(* ===== verification/Sk_History.thy ===== *)
theory Sk_History
  imports Sk_Store_Runs
begin

text \<open>
  Listing the transactions (\<^verbatim>\<open>list_transactions\<close>, \<^verbatim>\<open>list_history\<close>), the schema versions
  (\<^verbatim>\<open>initialize\<close>), and \<^verbatim>\<open>reconcile_interrupted_running\<close>, the method that the trait \<^verbatim>\<open>AuditStore\<close> of
  \<^verbatim>\<open>crates/sysknife-daemon/src/store.rs\<close> provides for every backend. The last one is proved from the
  laws of the trait's operations, in the locale \<open>reconcilable\<close>, and the SQLite store is shown to
  have those laws.
\<close>

section \<open>Listing\<close>

datatype history_since = Hours nat | Cutoff int

record job_history_entry =
  jh_transaction_id :: string
  jh_action_name :: string
  jh_risk_level :: risk_level
  jh_status :: job_state
  jh_summary :: string
  jh_created_at :: string

text \<open>The filter and the limit; \<open>cutoff_rfc3339\<close> renders an instant, as \<^verbatim>\<open>chrono\<close> does. A comparison
  with a NULL \<^verbatim>\<open>julianday\<close> does not select the row.\<close>

definition build_history_filter ::
    "('sk, 'vk) store \<Rightarrow> (int \<Rightarrow> string) \<Rightarrow> sql_clock \<Rightarrow> nat \<Rightarrow> string option \<Rightarrow> string option
     \<Rightarrow> history_since option \<Rightarrow> store_error + (tx_row \<Rightarrow> bool) \<times> nat" where
  "build_history_filter st cutoff_rfc3339 ck limit status_filter action_filter since =
     and_then (case status_filter of
         None \<Rightarrow> Inr (\<lambda>_. True)
       | Some status \<Rightarrow>
           and_then (ok_or (StoreJson ''status'') (st_job_state_of_json st ([CHR 0x22] @ status @ [CHR 0x22])))
             (\<lambda>validated. Inr (\<lambda>r. tx_status r = validated)))
       (\<lambda>by_status.
         let by_action = (case action_filter of
                None \<Rightarrow> (\<lambda>_. True)
              | Some action \<Rightarrow> (\<lambda>r. cr_action_name (tx_chain r) = action));
             created = (\<lambda>r. st_julianday st (cr_created_at (tx_chain r)));
             by_since = (case since of
                None \<Rightarrow> (\<lambda>_. True)
              | Some (Hours hours) \<Rightarrow> (\<lambda>r. case created r of None \<Rightarrow> False | Some t \<Rightarrow> t > ck_hours_ago ck hours)
              | Some (Cutoff at) \<Rightarrow> (\<lambda>r. case (created r, st_julianday st (cutoff_rfc3339 at)) of
                  (Some t, Some c) \<Rightarrow> t \<ge> c | _ \<Rightarrow> False))
         in Inr (\<lambda>r. by_status r \<and> by_action r \<and> by_since r, min limit 100))"

text \<open>\<^verbatim>\<open>ORDER BY seq DESC LIMIT\<close>\<close>

definition select_history :: "(tx_row \<Rightarrow> bool) \<Rightarrow> nat \<Rightarrow> db \<Rightarrow> tx_row list" where
  "select_history P limit db = take limit (rev (sort_key tx_seq (filter P (db_transactions db))))"

definition list_transactions ::
    "('sk, 'vk) store \<Rightarrow> (int \<Rightarrow> string) \<Rightarrow> sql_clock \<Rightarrow> nat \<Rightarrow> string option \<Rightarrow> string option
     \<Rightarrow> history_since option \<Rightarrow> db \<Rightarrow> store_error + transaction_record list" where
  "list_transactions st cutoff_rfc3339 ck limit status_filter action_filter since db =
     and_then (build_history_filter st cutoff_rfc3339 ck limit status_filter action_filter since)
       (\<lambda>(P, n). collect_results (map (row_to_record st) (select_history P n db)))"

definition list_history ::
    "('sk, 'vk) store \<Rightarrow> (int \<Rightarrow> string) \<Rightarrow> sql_clock \<Rightarrow> nat \<Rightarrow> string option \<Rightarrow> string option
     \<Rightarrow> history_since option \<Rightarrow> db \<Rightarrow> store_error + job_history_entry list" where
  "list_history st cutoff_rfc3339 ck limit status_filter action_filter since db =
     and_then (build_history_filter st cutoff_rfc3339 ck limit status_filter action_filter since)
       (\<lambda>(P, n). Inr (map (\<lambda>r. \<lparr>jh_transaction_id = tx_id r, jh_action_name = cr_action_name (tx_chain r),
          jh_risk_level = cr_risk_level (tx_chain r), jh_status = tx_status r,
          jh_summary = cr_summary (tx_chain r), jh_created_at = cr_created_at (tx_chain r)\<rparr>)
          (select_history P n db)))"

lemma collect_results_map:
  "collect_results (map f xs) = Inr ys \<longleftrightarrow> length ys = length xs \<and> (\<forall>i < length xs. f (xs ! i) = Inr (ys ! i))"
  unfolding collect_results_Inr by (auto simp: list_eq_iff_nth_eq)

lemma row_to_record_Inr:
  "row_to_record st r = Inr t \<Longrightarrow> tr_transaction_id t = tx_id r \<and> tr_status t = tx_status r"
  by (auto simp: row_to_record_def Let_def)

lemma select_history_length: "length (select_history P n db) = min n (length (filter P (db_transactions db)))"
  by (simp add: select_history_def)

lemma select_history_set: "set (select_history P n db) \<subseteq> {r \<in> set (db_transactions db). P r}"
  using set_take_subset by (fastforce simp: select_history_def)

lemma build_history_filter_limit:
  "build_history_filter st rfc ck limit status action since = Inr (P, n) \<Longrightarrow> n = min limit 100"
  by (auto simp: build_history_filter_def Let_def)

text \<open>The two listings select the same rows.\<close>

lemma list_agree:
  assumes "list_transactions st rfc ck limit status action since db = Inr ts"
    and "list_history st rfc ck limit status action since db = Inr hs"
  shows "map tr_transaction_id ts = map jh_transaction_id hs \<and> map tr_status ts = map jh_status hs
    \<and> length ts \<le> 100"
proof -
  from assms obtain P n where f: "build_history_filter st rfc ck limit status action since = Inr (P, n)"
    and ts: "collect_results (map (row_to_record st) (select_history P n db)) = Inr ts"
    by (auto simp: list_transactions_def)
  have len: "length ts = length (select_history P n db)"
    and rows: "i < length ts \<Longrightarrow> row_to_record st (select_history P n db ! i) = Inr (ts ! i)" for i
    using ts by (auto simp: collect_results_map)
  have ids: "tr_transaction_id (ts ! i) = tx_id (select_history P n db ! i)
      \<and> tr_status (ts ! i) = tx_status (select_history P n db ! i)" if "i < length ts" for i
    using row_to_record_Inr [OF rows [OF that]] .
  have "length ts \<le> n" using len by (simp add: select_history_length)
  moreover have "n \<le> 100" using build_history_filter_limit [OF f] by simp
  ultimately show ?thesis
    using assms(2) len ids by (auto simp: list_history_def f intro!: nth_equalityI)
qed

section \<open>Schema versions\<close>

record sqlite_migration =
  mi_version :: nat
  mi_name :: string

definition SQLITE_MIGRATIONS :: "sqlite_migration list" where
  "SQLITE_MIGRATIONS = [
     \<lparr>mi_version = 1, mi_name = ''initial_audit_schema''\<rparr>,
     \<lparr>mi_version = 2, mi_name = ''caller_identity_and_approval_events''\<rparr>,
     \<lparr>mi_version = 3, mi_name = ''caller_principal''\<rparr>,
     \<lparr>mi_version = 4, mi_name = ''event_approver_identity''\<rparr>]"

text \<open>The rows of \<^verbatim>\<open>schema_migrations\<close> before and after.\<close>

definition initialize :: "sqlite_migration list \<Rightarrow> (store_error + unit) \<times> sqlite_migration list" where
  "initialize applied =
     (let current = fold max (map mi_version applied) 0;
          latest = (case last_opt SQLITE_MIGRATIONS of None \<Rightarrow> 0 | Some m \<Rightarrow> mi_version m)
      in if current > latest
         then (Inl (DatabaseInvariant (''sqlite schema version '' @ dec current @
                 '' is newer than this binary supports ('' @ dec latest @ '')'')), applied)
         else (Inr (), applied @ filter (\<lambda>m. mi_version m > current) SQLITE_MIGRATIONS))"

section \<open>Reconciling after a crash\<close>

text \<open>
  The provided method, over the two operations it calls: \<open>list_running\<close> is
  \<^verbatim>\<open>list_transactions(100, Some("running"), None, None)\<close> reduced to the ids, and \<open>set_failed i\<close> the
  \<open>i\<close>-th call of \<^verbatim>\<open>update_status(id, Failed)\<close>. The outer loop takes fuel; \<open>None\<close> is running out.
\<close>

fun reconcile_batch ::
    "(nat \<Rightarrow> string \<Rightarrow> 's \<Rightarrow> ('e + unit) \<times> 's) \<Rightarrow> nat \<Rightarrow> string list \<Rightarrow> 's \<Rightarrow> ('e + unit) \<times> 's" where
  "reconcile_batch set_failed i [] s = (Inr (), s)"
| "reconcile_batch set_failed i (txid # ids) s =
     (case set_failed i txid s of
        (Inl e, s') \<Rightarrow> (Inl e, s')
      | (Inr _, s') \<Rightarrow> reconcile_batch set_failed (i + 1) ids s')"

fun reconcile_interrupted_running ::
    "('s \<Rightarrow> 'e + string list) \<Rightarrow> (nat \<Rightarrow> string \<Rightarrow> 's \<Rightarrow> ('e + unit) \<times> 's) \<Rightarrow> nat \<Rightarrow> nat \<Rightarrow> 's
     \<Rightarrow> (('e + nat) \<times> 's) option" where
  "reconcile_interrupted_running list_running set_failed 0 total_n s = None"
| "reconcile_interrupted_running list_running set_failed (Suc fuel) total_n s =
     (case list_running s of
        Inl e \<Rightarrow> Some (Inl e, s)
      | Inr running \<Rightarrow>
          if running = [] then Some (Inr total_n, s)
          else (case reconcile_batch set_failed total_n running s of
                  (Inl e, s') \<Rightarrow> Some (Inl e, s')
                | (Inr _, s') \<Rightarrow>
                    if length running < 100 then Some (Inr (total_n + length running), s')
                    else reconcile_interrupted_running list_running set_failed fuel (total_n + length running) s'))"

text \<open>The laws of the trait that the method relies on: a page holds running transactions, is
  full unless it holds all of them, and failing one of them takes it off the list.\<close>

locale reconcilable =
  fixes list_running :: "'s \<Rightarrow> 'e + string list"
    and set_failed :: "nat \<Rightarrow> string \<Rightarrow> 's \<Rightarrow> ('e + unit) \<times> 's"
    and running :: "'s \<Rightarrow> string set"
    and inv :: "'s \<Rightarrow> bool"
  assumes running_finite: "inv s \<Longrightarrow> finite (running s)"
    and list_page: "inv s \<Longrightarrow> \<exists>ids. list_running s = Inr ids \<and> distinct ids \<and> set ids \<subseteq> running s
      \<and> length ids = min 100 (card (running s))"
    and fail_one: "inv s \<Longrightarrow> txid \<in> running s \<Longrightarrow> \<exists>s'. set_failed i txid s = (Inr (), s') \<and> inv s'
      \<and> running s' = running s - {txid}"
begin

lemma batch:
  "inv s \<Longrightarrow> distinct ids \<Longrightarrow> set ids \<subseteq> running s \<Longrightarrow>
     \<exists>s'. reconcile_batch set_failed i ids s = (Inr (), s') \<and> inv s' \<and> running s' = running s - set ids"
proof (induction ids arbitrary: i s)
  case (Cons txid ids)
  from fail_one [OF Cons.prems(1), of txid i] Cons.prems obtain s1 where
    s1: "set_failed i txid s = (Inr (), s1)" "inv s1" "running s1 = running s - {txid}" by auto
  have "distinct ids" "set ids \<subseteq> running s1" using Cons.prems s1(3) by auto
  from Cons.IH [OF s1(2) this, of "i + 1"] obtain s2 where
    "reconcile_batch set_failed (i + 1) ids s1 = (Inr (), s2)" "inv s2" "running s2 = running s1 - set ids"
    by blast
  moreover have "running s - {txid} - set ids = running s - set (txid # ids)" by auto
  ultimately show ?case using s1(1,3) by simp
qed simp

theorem reconcile_all:
  "inv s \<Longrightarrow> card (running s) < fuel \<Longrightarrow>
     \<exists>s'. reconcile_interrupted_running list_running set_failed fuel total_n s
        = Some (Inr (total_n + card (running s)), s') \<and> inv s' \<and> running s' = {}"
proof (induction fuel arbitrary: total_n s)
  case (Suc fuel)
  from list_page [OF Suc.prems(1)] obtain ids where
    ids: "list_running s = Inr ids" "distinct ids" "set ids \<subseteq> running s" "length ids = min 100 (card (running s))"
    by blast
  have fin: "finite (running s)" using running_finite [OF Suc.prems(1)] .
  show ?case
  proof (cases "ids = []")
    case True
    with ids(4) have "card (running s) = 0" by simp
    with fin have "running s = {}" by simp
    with True ids Suc.prems show ?thesis by simp
  next
    case False
    from batch [OF Suc.prems(1) ids(2,3)] obtain s1 where
      s1: "reconcile_batch set_failed total_n ids s = (Inr (), s1)" "inv s1" "running s1 = running s - set ids"
      by blast
    have card: "card (running s1) + length ids = card (running s)"
      using fin ids(2,3) s1(3) by (simp add: card_Diff_subset card_mono distinct_card flip: distinct_card)
    show ?thesis
    proof (cases "length ids < 100")
      case True
      with ids(4) have "length ids = card (running s)" by auto
      with card have "card (running s1) = 0" by simp
      then have "running s1 = {}" using fin s1(3) by simp
      with True False ids(1) s1 \<open>length ids = card (running s)\<close> show ?thesis by simp
    next
      case long: False
      have "card (running s1) < fuel" using card Suc.prems False by (cases ids) auto
      moreover have "total_n + length ids + card (running s1) = total_n + card (running s)" using card by simp
      ultimately obtain s2 where "reconcile_interrupted_running list_running set_failed fuel (total_n + length ids) s1
          = Some (Inr (total_n + card (running s)), s2)" "inv s2" "running s2 = {}"
        using Suc.IH [OF s1(2), of "total_n + length ids"] by auto
      with False long ids(1) s1(1) show ?thesis by simp
    qed
  qed
qed simp

end

section \<open>The SQLite store has the laws\<close>

definition list_running_ids ::
    "('sk, 'vk) store \<Rightarrow> (int \<Rightarrow> string) \<Rightarrow> sql_clock \<Rightarrow> db \<Rightarrow> store_error + string list" where
  "list_running_ids st rfc ck db =
     and_then (list_transactions st rfc ck 100 (Some ''running'') None None db)
       (\<lambda>ts. Inr (map tr_transaction_id ts))"

definition running_ids :: "db \<Rightarrow> string set" where
  "running_ids db = tx_id ` {r \<in> set (db_transactions db). tx_status r = Running}"

text \<open>The store has its key, \<^verbatim>\<open>serde_json\<close> reads what the daemon wrote, and the invariant holds.\<close>

definition reconcile_inv :: "bool \<Rightarrow> ('sk, 'vk) store \<Rightarrow> 'sk audit_key \<Rightarrow> db \<Rightarrow> bool" where
  "reconcile_inv b st key db \<longleftrightarrow>
     st_audit_key st = Some key \<and> sig_nonempty (st_crypto st) \<and> store_inv b st key db
     \<and> st_job_state_of_json st ([CHR 0x22] @ ''running'' @ [CHR 0x22]) = Some Running
     \<and> (\<forall>r \<in> set (db_transactions db). st_warnings_of_json st (cr_warnings_json (tx_chain r)) \<noteq> None)"

lemma collect_results_total:
  assumes "\<And>x. x \<in> set xs \<Longrightarrow> \<exists>y. f x = Inr y \<and> g y = h x"
  shows "\<exists>ys. collect_results (map f xs) = Inr ys \<and> map g ys = map h xs"
  using assms
proof (induction xs)
  case (Cons x xs)
  from Cons.prems [of x] obtain y where "f x = Inr y" "g y = h x" by auto
  moreover from Cons obtain ys where "collect_results (map f xs) = Inr ys" "map g ys = map h xs" by auto
  ultimately show ?case by (intro exI [of _ "y # ys"]) simp
qed simp

lemma list_running_page:
  assumes "reconcile_inv b st key db"
  shows "\<exists>ids. list_running_ids st rfc ck db = Inr ids \<and> distinct ids \<and> set ids \<subseteq> running_ids db
    \<and> length ids = min 100 (card (running_ids db))"
proof -
  let ?P = "\<lambda>r. tx_status r = Running"
  let ?sel = "select_history ?P 100 db"
  have d: "distinct (map tx_id (db_transactions db))"
    using assms store_inv_distinct(1) by (auto simp: reconcile_inv_def)
  have sub: "set ?sel \<subseteq> {r \<in> set (db_transactions db). ?P r}" by (rule select_history_set)
  have "\<exists>t. row_to_record st r = Inr t \<and> tr_transaction_id t = tx_id r" if "r \<in> set ?sel" for r
  proof -
    from that sub obtain w where "st_warnings_of_json st (cr_warnings_json (tx_chain r)) = Some w"
      using assms by (fastforce simp: reconcile_inv_def)
    then show ?thesis by (simp add: row_to_record_def Let_def)
  qed
  then obtain ts where ts: "collect_results (map (row_to_record st) ?sel) = Inr ts"
      "map tr_transaction_id ts = map tx_id ?sel"
    using collect_results_total [of ?sel "row_to_record st" tr_transaction_id tx_id] by blast
  have "list_running_ids st rfc ck db = Inr (map tx_id ?sel)"
    using assms ts by (simp add: list_running_ids_def list_transactions_def build_history_filter_def
        reconcile_inv_def Let_def)
  moreover have "distinct (map tx_id (rev (sort_key tx_seq (filter ?P (db_transactions db)))))"
    using distinct_map_filter [OF d] by (simp add: distinct_map rev_map)
  then have "distinct (map tx_id ?sel)"
    by (simp add: select_history_def distinct_take flip: take_map)
  moreover have "set (map tx_id ?sel) \<subseteq> running_ids db"
    using sub by (auto simp: running_ids_def)
  moreover have "card (running_ids db) = length (filter ?P (db_transactions db))"
    using distinct_card [OF distinct_map_filter [OF d, of ?P]]
    by (simp add: running_ids_def)
  ultimately show ?thesis by (simp add: select_history_length)
qed

lemma update_status_Failed:
  assumes inv: "reconcile_inv b st key db" and run: "txid \<in> running_ids db"
  shows "\<exists>db'. update_status st ck txid Failed db = (Inr (), db') \<and> reconcile_inv b st key db'
    \<and> running_ids db' = running_ids db - {txid}"
proof -
  have si: "store_inv b st key db" and key: "st_audit_key st = Some key"
    using inv by (simp_all add: reconcile_inv_def)
  from run obtain r where r: "r \<in> set (db_transactions db)" "tx_id r = txid" "tx_status r = Running"
    by (auto simp: running_ids_def)
  with store_inv_find_tx [OF si r(1)] have find: "find_tx txid db = Some r" by simp
  let ?P = "\<lambda>r. tx_id r = txid \<and> tx_status r = Running"
  let ?db' = "append_event st key (ck_text ck 0) StatusFailed txid [] EvLegacyV1
    (snd (update_status_where ?P Failed db))"
  have upd: "update_status st ck txid Failed db = (Inr (), ?db')"
    using find r key by (auto simp: update_status_def update_status_read_def update_status_commit_def
        case_prod_beta update_status_where_count Let_def)
  define f where "f = (\<lambda>r. if ?P r then r\<lparr>tx_status := Failed\<rparr> else r)"
  have rows: "db_transactions ?db' = map f (db_transactions db)"
    by (simp add: update_status_where_def f_def)
  have f: "tx_chain (f r) = tx_chain r" "tx_status (f r) = Running \<longleftrightarrow> tx_status r = Running \<and> tx_id r \<noteq> txid" for r
    by (auto simp: f_def)
  have "store_inv b st key ?db'"
    using store_inv_update_status [OF si _ key, of Failed ck txid] inv upd by (simp add: reconcile_inv_def)
  then have "reconcile_inv b st key ?db'"
    using inv unfolding reconcile_inv_def rows by (auto simp: f)
  moreover have "running_ids ?db' = running_ids db - {txid}"
  proof -
    have "{x \<in> set (db_transactions ?db'). tx_status x = Running} =
        f ` {x \<in> set (db_transactions db). tx_status x = Running \<and> tx_id x \<noteq> txid}"
      unfolding rows using f(2) by auto
    then have "running_ids ?db' = (\<lambda>x. tx_id (f x)) ` {x \<in> set (db_transactions db). tx_status x = Running \<and> tx_id x \<noteq> txid}"
      by (simp add: running_ids_def image_image)
    then show ?thesis by (auto simp: f(1) running_ids_def)
  qed
  ultimately show ?thesis using upd by blast
qed

interpretation sqlite: reconcilable "list_running_ids st rfc ck" "\<lambda>i txid. update_status st (clock i) txid Failed"
  running_ids "reconcile_inv b st key"
  for b st key rfc ck clock
proof (unfold_locales)
  show "finite (running_ids s)" for s by (simp add: running_ids_def)
qed (use list_running_page update_status_Failed in blast)+

end
