(* ===== verification/Sk_Witness.thy ===== *)
theory Sk_Witness
  imports Sk_Store
begin

text \<open>
  A concrete instance of the parameters, on which the theorems that carry hypotheses about the
  cryptography, the clock and \<^verbatim>\<open>serde_json\<close> are applied: hexadecimal as the \<^verbatim>\<open>hex\<close> crate writes and reads
  it, and a signature function that is deterministic, has 64-byte signatures, verifies what it
  signed, and tells the messages of a given list apart.
\<close>

section \<open>Hexadecimal\<close>

definition hex_digit :: "nat \<Rightarrow> char" where
  "hex_digit d = char_of (if d < 10 then 48 + d else 87 + d)"

definition hex_value :: "char \<Rightarrow> nat option" where
  "hex_value c =
     (let n = byte c in
      if 48 \<le> n \<and> n \<le> 57 then Some (n - 48)
      else if 97 \<le> n \<and> n \<le> 102 then Some (n - 87)
      else if 65 \<le> n \<and> n \<le> 70 then Some (n - 55)
      else None)"

fun hex_encode_ref :: "string \<Rightarrow> string" where
  "hex_encode_ref [] = []"
| "hex_encode_ref (c # s) = hex_digit (byte c div 16) # hex_digit (byte c mod 16) # hex_encode_ref s"

fun hex_decode_ref :: "string \<Rightarrow> string option" where
  "hex_decode_ref [] = Some []"
| "hex_decode_ref [c] = None"
| "hex_decode_ref (a # b # s) =
     (case (hex_value a, hex_value b, hex_decode_ref s) of
        (Some x, Some y, Some t) \<Rightarrow> Some (char_of (16 * x + y) # t)
      | _ \<Rightarrow> None)"

lemma hex_value_digit: "d < 16 \<Longrightarrow> hex_value (hex_digit d) = Some d"
  by (simp add: hex_value_def hex_digit_def byte_def Let_def)

lemma hex_value_hexdigit: "hex_value c = Some d \<Longrightarrow> is_ascii_hexdigit c"
  by (auto simp: hex_value_def Let_def byte_class_defs byte_def split: if_splits)

lemma hex_decode_encode: "hex_decode_ref (hex_encode_ref s) = Some s"
proof (induction s)
  case (Cons c s)
  have "(of_char c :: nat) < 256" by simp
  then have "byte c div 16 < 16" by (simp add: byte_def less_mult_imp_div_less)
  with Cons show ?case
    by (simp add: hex_value_digit) (simp add: byte_def)
qed simp

lemma hex_decode_digits: "hex_decode_ref s = Some t \<Longrightarrow> list_all is_ascii_hexdigit s"
  by (induction s arbitrary: t rule: hex_decode_ref.induct)
    (auto split: option.splits dest: hex_value_hexdigit)

lemma length_hex_encode: "length (hex_encode_ref s) = 2 * length s"
  by (induction s) auto

section \<open>Signatures\<close>

fun position_of :: "string list \<Rightarrow> nat \<Rightarrow> string \<Rightarrow> nat" where
  "position_of [] n m = 0"
| "position_of (x # xs) n m = (if x = m then n else position_of xs (n + 1) m)"

definition sign_ref :: "string list \<Rightarrow> string \<Rightarrow> string" where
  "sign_ref ms m = replicate 64 (char_of (position_of ms 1 m))"

definition crypto_ref :: "string list \<Rightarrow> (unit, unit) crypto" where
  "crypto_ref ms = \<lparr>
     ed_sign = \<lambda>_. sign_ref ms,
     ed_public = \<lambda>_. (),
     ed_verify_strict = \<lambda>_ m s. s = sign_ref ms m,
     ed_vk_from_bytes = \<lambda>_. Some (),
     hex_encode = hex_encode_ref,
     hex_decode = hex_decode_ref,
     sha256 = take 32,
     ed_seed = \<lambda>_. replicate 32 (CHR ''k''),
     hkdf_sha256 = \<lambda>seed info. take 32 (seed @ info),
     hmac_sha256 = \<lambda>key m. take 32 (key @ m)\<rparr>"

lemma crypto_ref_simps [simp]:
  "ed_sign (crypto_ref ms) = (\<lambda>_. sign_ref ms)" "ed_public (crypto_ref ms) = (\<lambda>_. ())"
  "ed_verify_strict (crypto_ref ms) = (\<lambda>_ m s. s = sign_ref ms m)"
  "hex_encode (crypto_ref ms) = hex_encode_ref" "hex_decode (crypto_ref ms) = hex_decode_ref"
  "sha256 (crypto_ref ms) = take 32" "ed_vk_from_bytes (crypto_ref ms) = (\<lambda>_. Some ())"
  by (simp_all add: crypto_ref_def)

lemma sig_correct_ref: "sig_correct (crypto_ref ms)"
  by (simp add: sig_correct_def sign_ref_def)

lemma hex_laws_ref: "hex_laws (crypto_ref ms)"
  by (simp add: hex_laws_def hex_decode_encode length_hex_encode hex_decode_digits)

lemma position_of_range: "position_of ms n m = 0 \<or> n \<le> position_of ms n m \<and> position_of ms n m < n + length ms"
proof (induction ms arbitrary: n)
  case (Cons x ms)
  from Cons [of "Suc n"] show ?case by auto
qed simp

lemma position_of_eq:
  "m \<in> set ms \<Longrightarrow> 0 < n \<Longrightarrow> position_of ms n m = position_of ms n m' \<Longrightarrow> m = m'"
proof (induction ms arbitrary: n)
  case (Cons x ms)
  show ?case
    using Cons.prems Cons.IH [of "Suc n"] position_of_range [of ms "Suc n" m] position_of_range [of ms "Suc n" m']
    by (auto split: if_splits)
qed simp

lemma sign_ref_eq:
  assumes "length ms < 256" "m \<in> set ms" "sign_ref ms m = sign_ref ms m'"
  shows "m = m'"
proof -
  have "position_of ms 1 k < 256" for k
    using position_of_range [of ms 1 k] assms(1) by auto
  moreover have "char_of (position_of ms 1 m) = (char_of (position_of ms 1 m') :: char)"
    using assms(3) by (simp add: sign_ref_def)
  ultimately have "position_of ms 1 m = position_of ms 1 m'"
    using of_char_of [of "position_of ms 1 m"] of_char_of [of "position_of ms 1 m'"] by (metis mod_less)
  with assms(2) show ?thesis using position_of_eq by force
qed

lemma unforgeable_ref:
  assumes "length ms < 256" "H \<subseteq> (\<lambda>m. hex_encode_ref (sign_ref ms m)) ` set ms"
  shows "unforgeable (crypto_ref ms) () (set ms) H"
  using assms sign_ref_eq [OF assms(1)]
  by (fastforce simp: unforgeable_def signature_ok_def hex_decode_encode inj_on_def)

section \<open>The store\<close>

definition store_ref :: "string list \<Rightarrow> (unit, unit) store" where
  "store_ref ms = \<lparr>
     st_crypto = crypto_ref ms,
     st_audit_key = Some \<lparr>ak_key_id = CURRENT_KEY_ID, ak_signing = ()\<rparr>,
     st_julianday = \<lambda>s. if s = [] then None else Some (int (length s)),
     st_warnings_to_json = join_with ''|'',
     st_warnings_of_json = \<lambda>s. Some (split_char (CHR ''|'') s),
     st_preview_to_json = pv_summary,
     st_preview_of_json = \<lambda>_. None,
     st_job_state_of_json = \<lambda>s. if s = [CHR 0x22] @ ''running'' @ [CHR 0x22] then Some Running else None\<rparr>"

definition clock_ref :: sql_clock where
  "clock_ref = \<lparr>ck_text = \<lambda>_. ''2026-01-01T00:00:00.000Z'', ck_datetime = ''2026-01-01 00:00:00'',
     ck_minutes_ago = \<lambda>m. - int m, ck_hours_ago = \<lambda>h. - int h * 60\<rparr>"

definition key_ref :: "unit audit_key" where
  "key_ref = \<lparr>ak_key_id = CURRENT_KEY_ID, ak_signing = ()\<rparr>"

definition tx_ref :: new_transaction where
  "tx_ref = \<lparr>nt_request_id = ''r'', nt_request_hash = ''h'', nt_action_name = ''GetSystemStatus'',
     nt_risk_level = Low, nt_summary = ''s'', nt_warnings = [], nt_caller_role = Admin,
     nt_caller_principal = Uid 1000\<rparr>"

lemma store_ref_simps [simp]:
  "st_crypto (store_ref ms) = crypto_ref ms" "st_audit_key (store_ref ms) = Some key_ref"
  by (simp_all add: store_ref_def key_ref_def)

end
