(* ===== verification/Sk_Guarantees.thy ===== *)
theory Sk_Guarantees
  imports Sk_History Sk_Witness
begin

text \<open>
  The guarantees of the audit log, for every database the daemon can reach: the report on it is
  clean, nothing in it can be changed without being noticed, statuses and receipts follow the
  ledger, and each operation does on every branch what it promises.
\<close>

section \<open>Facts shared by the guarantees\<close>

lemma fetch_rows_inv:
  assumes "store_inv b st key db"
  shows "fetch_chain_rows db = map tx_chain (db_transactions db)" "fetch_event_rows db = db_events db"
proof -
  have "numbered tx_seq (db_transactions db)" "numbered er_seq (db_events db)"
    using assms by (simp_all add: store_inv_def chain_inv_def numbered_def comp_def)
  then have "sorted (map tx_seq (db_transactions db))" "sorted (map er_seq (db_events db))"
    by (simp_all add: numbered_sorted)
  then show "fetch_chain_rows db = map tx_chain (db_transactions db)" "fetch_event_rows db = db_events db"
    by (simp_all add: fetch_chain_rows_def fetch_event_rows_def sort_key_id_if_sorted)
qed

lemma store_inv_well_chained:
  assumes "store_inv b st key db"
  shows "tx_well_chained (st_crypto st) (ak_signing key) (fetch_chain_rows db)"
    "ev_well_chained (st_crypto st) (ak_signing key) (fetch_event_rows db)"
  using assms by (simp_all add: fetch_rows_inv [OF assms] store_inv_def chain_inv_def)

lemma store_inv_verifies:
  assumes "store_inv b st key db" "sig_correct (st_crypto st)" "hex_laws (st_crypto st)"
  shows "verify_chain (st_crypto st) key (fetch_chain_rows db) = Intact (length (db_transactions db))"
    "verify_event_chain (st_crypto st) key (fetch_event_rows db) = Intact (length (db_events db))"
  using well_chained_verifies [OF assms(2,3) store_inv_well_chained(1) [OF assms(1)]]
    ev_well_chained_verifies [OF assms(2,3) store_inv_well_chained(2) [OF assms(1)]]
  by (simp_all add: verify_chain_def verify_event_chain_def verifying_key_def fetch_rows_inv [OF assms(1)])

lemma store_inv_binding:
  assumes "store_inv b st key db"
  shows "\<exists>k. store_verify_event_binding db = Consistent k"
  using assms unfolding store_verify_event_binding_def verify_event_binding_Consistent fetch_rows_inv [OF assms]
    store_inv_def chain_inv_def by (metis option.inject)

lemma store_inv_replay:
  assumes "store_inv b st key db" "r \<in> set (db_transactions db)"
  shows "replay b (kinds_of (tx_id r) db) = Some (tx_status r, approval_of (tx_id r) db)"
  using assms store_inv_find_tx [OF assms] by (simp add: store_inv_def ledger_inv_def status_of_def)

lemma store_inv_queued_unspent:
  assumes "store_inv b st key db" "r \<in> set (db_transactions db)" "tx_status r = Queued"
  shows "approval_of (tx_id r) db \<noteq> Spent"
  using assms store_inv_find_tx [OF assms(1,2)] by (auto simp: store_inv_def ledger_inv_def status_of_def)

text \<open>Reading the events of one transaction: their kinds, and the newest status among them.\<close>

lemma event_kind_parses:
  assumes "store_inv b st key db" "e \<in> set (db_events db)"
  shows "\<exists>k. parse_event_kind (er_kind e) = Some k"
  using assms by (auto simp: store_inv_def chain_inv_def well_chained_def list_all_iff ev_content_def
      split: option.splits)

lemma like_status_kind: "like_status (kind_as_str k) \<longleftrightarrow> status_of_kind k \<noteq> None"
  by (cases k) (simp_all add: like_status_def eq_ignore_ascii_case_def to_ascii_lowercase_def ascii_lower_def
      byte_class_defs)

lemma kind_of_status_of_kind: "status_of_kind k = Some s \<Longrightarrow> kind_as_str (kind_of_status s) = kind_as_str k"
  by (cases k) auto

lemma last_status_events:
  assumes "\<forall>e \<in> set evs. \<exists>k. parse_event_kind (er_kind e) = Some k"
  shows "map_option er_kind (last_opt (filter (\<lambda>e. like_status (er_kind e)) evs)) =
    map_option (\<lambda>s. kind_as_str (kind_of_status s))
      (last_status (List.map_filter (\<lambda>e. parse_event_kind (er_kind e)) evs))"
  using assms
proof (induction evs rule: rev_induct)
  case Nil
  show ?case by (simp add: last_status_def List.map_filter_simps)
next
  case (snoc e evs)
  then obtain k where k: "parse_event_kind (er_kind e) = Some k" "er_kind e = kind_as_str k"
    by (auto simp: parse_event_kind_Some)
  show ?case
  proof (cases "status_of_kind k")
    case None
    with snoc k show ?thesis
      by (simp add: map_filter_append List.map_filter_simps last_status_snoc like_status_kind)
  next
    case (Some s)
    with k kind_of_status_of_kind [OF Some] show ?thesis
      by (simp add: map_filter_append List.map_filter_simps last_status_snoc like_status_kind)
  qed
qed

lemma newest_status_event_inv:
  assumes inv: "store_inv b st key db"
  shows "newest_status_event txid db = map_option (\<lambda>s. kind_as_str (kind_of_status s)) (last_status (kinds_of txid db))"
proof -
  have "sorted (map er_seq (db_events db))"
    using inv numbered_sorted by (auto simp: store_inv_def chain_inv_def)
  then have "sorted (map er_seq (filter (\<lambda>e. er_transaction_id e = txid \<and> like_status (er_kind e)) (db_events db)))"
    by (rule sorted_filter)
  then have newest: "newest_status_event txid db = map_option er_kind
      (last_opt (filter (\<lambda>e. like_status (er_kind e)) (filter (\<lambda>e. er_transaction_id e = txid) (db_events db))))"
    by (simp add: newest_status_event_def newest_by_def sort_key_id_if_sorted conj_commute)
  show ?thesis
    unfolding newest kinds_of_def using event_kind_parses [OF inv] by (intro last_status_events) auto
qed

lemma kind_in_kinds_of:
  assumes "store_inv b st key db"
  shows "k \<in> set (kinds_of txid db) \<longleftrightarrow>
    (\<exists>e \<in> set (db_events db). er_transaction_id e = txid \<and> er_kind e = kind_as_str k)"
  by (force simp: kinds_of_def List.map_filter_def parse_event_kind_Some image_iff)

lemma approval_consumed_event_inv:
  assumes "store_inv b st key db"
  shows "approval_consumed_event txid db \<longleftrightarrow> ApprovalConsumed \<in> set (kinds_of txid db)"
  by (auto simp: approval_consumed_event_def kind_in_kinds_of [OF assms])

lemma Queued_not_consumed: "replay b ks = Some (Queued, a) \<Longrightarrow> a \<noteq> Spent \<Longrightarrow> ApprovalConsumed \<notin> set ks"
  using replay_counts [of b ks Queued a] by (simp add: count_list_0_iff)

lemma judge_status_inv:
  assumes inv: "store_inv b st key db" and r: "r \<in> set (db_transactions db)"
  shows "judge_status \<lparr>se_transaction_id = tx_id r, se_status = tx_status r,
     se_newest_status_event = newest_status_event (tx_id r) db,
     se_approval_consumed = approval_consumed_event (tx_id r) db,
     se_predates_status_events = False\<rparr> = RowAgrees"
proof -
  have rep: "replay b (kinds_of (tx_id r) db) = Some (tx_status r, approval_of (tx_id r) db)"
    by (rule store_inv_replay [OF assms])
  show ?thesis
  proof (cases "tx_status r = Queued")
    case True
    have "newest_status_event (tx_id r) db = None"
      using replay_last_status [OF rep] True by (simp add: newest_status_event_inv [OF inv])
    moreover have "\<not> approval_consumed_event (tx_id r) db"
      using Queued_not_consumed store_inv_queued_unspent [OF inv r True] rep True
      by (auto simp: approval_consumed_event_inv [OF inv])
    ultimately show ?thesis using True by (simp add: judge_status_None)
  next
    case False
    have "newest_status_event (tx_id r) db = Some (kind_as_str (kind_of_status (tx_status r)))"
      using replay_last_status [OF rep] False by (simp add: newest_status_event_inv [OF inv])
    then show ?thesis by (simp add: judge_status_Some)
  qed
qed

lemma status_matches_chain_inv:
  "store_inv b st key db \<Longrightarrow> status_matches_chain db = Agrees (length (db_transactions db))"
  using judge_status_inv unfolding status_matches_chain_def status_outcome_Agrees by auto

section \<open>The report on a reachable store\<close>

text \<open>C3: Soundness of the report. On every database the daemon can reach, by any interleaving of its
  operations and crashes, the full audit report is clean: both chains are intact, every transaction row
  is bound to the event chain, every status column agrees with the newest signed status event, and
  \<^verbatim>\<open>sysknife audit verify\<close> exits with 0.\<close>

theorem reachable_store_verifies:
  assumes "store_reach st targets s" "st_audit_key st = Some key"
    and "sig_correct (st_crypto st)" "hex_laws (st_crypto st)"
  shows "verify_audit_chain st key (sys_db s) = Intact (length (db_transactions (sys_db s)))
    \<and> store_verify_event_chain st key (sys_db s) = Intact (length (db_events (sys_db s)))
    \<and> (\<exists>k. store_verify_event_binding (sys_db s) = Consistent k)
    \<and> status_matches_chain (sys_db s) = Agrees (length (db_transactions (sys_db s)))
    \<and> exit_code ((verify_all (st_crypto st) key (fetch_chain_rows (sys_db s)) (fetch_event_rows (sys_db s)))
        \<lparr>av_status := Some (status_matches_chain (sys_db s))\<rparr>) = 0"
proof -
  have inv: "store_inv False st key (sys_db s)"
    by (rule store_reach_store_inv [OF assms(1) sig_correct_nonempty [OF assms(3)] assms(2)]) simp
  have a: "verify_audit_chain st key (sys_db s) = Intact (length (db_transactions (sys_db s)))"
    using store_inv_verifies(1) [OF inv assms(3,4)] by (simp add: verify_audit_chain_def)
  have e: "store_verify_event_chain st key (sys_db s) = Intact (length (db_events (sys_db s)))"
    using store_inv_verifies(2) [OF inv assms(3,4)] by (simp add: store_verify_event_chain_def)
  from store_inv_binding [OF inv] obtain k where k: "store_verify_event_binding (sys_db s) = Consistent k" by blast
  have m: "status_matches_chain (sys_db s) = Agrees (length (db_transactions (sys_db s)))"
    by (rule status_matches_chain_inv [OF inv])
  show ?thesis
    using a e k m
    by (simp add: exit_code_def verify_all_def verify_audit_chain_def store_verify_event_chain_def
        store_verify_event_binding_def Let_def)
qed

section \<open>Tamper evidence\<close>

text \<open>C1: Tamper evidence of the transaction chain. Whatever rows an attacker without the key presents,
  if verification with the daemon's public key finds them intact then they are, in every signed column
  and in order, a prefix of the rows the daemon stored: no row was altered, inserted, reordered or
  dropped from before the end.\<close>

theorem transaction_chain_tamper_evident:
  assumes "store_reach st targets s" "st_audit_key st = Some key"
    and "sig_nonempty (st_crypto st)" "hex_laws (st_crypto st)"
    and "unforgeable (st_crypto st) (ak_signing key) S (cr_chain_hash ` set rows)"
    and "only_signed chain_message S (tx_msg ` set (fetch_chain_rows (sys_db s)))"
    and "verify_chain (st_crypto st) key rows = Intact n"
  shows "n = length rows \<and> n \<le> length (fetch_chain_rows (sys_db s))
    \<and> map (\<lambda>r. map_option signed_content (tx_content r)) rows =
        map (\<lambda>r. map_option signed_content (tx_content r)) (take n (fetch_chain_rows (sys_db s)))
    \<and> map cr_prev_chain_hash rows = map cr_prev_chain_hash (take n (fetch_chain_rows (sys_db s)))"
proof -
  have inv: "store_inv False st key (sys_db s)"
    by (rule store_reach_store_inv [OF assms(1,3,2)]) simp
  have intact: "verify_rows (st_crypto st) (ed_public (st_crypto st) (ak_signing key)) (Some (ak_key_id key)) rows = Intact n"
    using assms(7) by (simp add: verify_chain_def verifying_key_def)
  note d = verify_rows_IntactD [OF intact]
  show ?thesis
    using tx_chain.accepted_is_prefix [OF assms(4) store_inv_well_chained(1) [OF inv] _ assms(6) d(1,2)]
      assms(5) d(3) by simp
qed

text \<open>C2: Tamper evidence of the approval-event chain, which records who granted, spent and revoked each
  receipt and every status change: rows that verify are a prefix of the events the daemon stored.\<close>

theorem event_chain_tamper_evident:
  assumes "store_reach st targets s" "st_audit_key st = Some key"
    and "sig_nonempty (st_crypto st)" "hex_laws (st_crypto st)"
    and "unforgeable (st_crypto st) (ak_signing key) S (er_chain_hash ` set rows)"
    and "only_signed event_message S (ev_msg ` set (fetch_event_rows (sys_db s)))"
    and "verify_event_chain (st_crypto st) key rows = Intact n"
  shows "n = length rows \<and> n \<le> length (fetch_event_rows (sys_db s))
    \<and> map ev_content rows = map ev_content (take n (fetch_event_rows (sys_db s)))
    \<and> map er_prev_chain_hash rows = map er_prev_chain_hash (take n (fetch_event_rows (sys_db s)))"
proof -
  have inv: "store_inv False st key (sys_db s)"
    by (rule store_reach_store_inv [OF assms(1,3,2)]) simp
  have intact: "verify_event_rows (st_crypto st) (ed_public (st_crypto st) (ak_signing key)) (Some (ak_key_id key)) rows = Intact n"
    using assms(7) by (simp add: verify_event_chain_def verifying_key_def)
  note d = verify_event_rows_IntactD [OF intact]
  show ?thesis
    using ev_chain.accepted_is_prefix [OF assms(4) store_inv_well_chained(2) [OF inv] _ assms(6) d(1,2)]
      assms(5) d(3) by (simp add: option.map_ident)
qed

text \<open>Rewriting the status column is noticed. The column is not signed; if an attacker sets the status
  of one transaction of a reachable store to anything else, the cross-check with the signed status
  events no longer agrees, so the report does not exit with 0.\<close>

lemma status_rewrite_noticed:
  assumes "store_reach st targets s" "st_audit_key st = Some key" "sig_nonempty (st_crypto st)"
    and "r \<in> set (db_transactions (sys_db s))" "forged \<noteq> tx_status r"
  shows "status_outcome_to_exit_code (status_matches_chain
    (snd (update_status_where (\<lambda>x. tx_id x = tx_id r) forged (sys_db s)))) \<noteq> 0"
proof -
  let ?db = "sys_db s"
  let ?f = "\<lambda>x. if tx_id x = tx_id r then x\<lparr>tx_status := forged\<rparr> else x"
  let ?db' = "snd (update_status_where (\<lambda>x. tx_id x = tx_id r) forged ?db)"
  have inv: "store_inv False st key ?db"
    by (rule store_reach_store_inv [OF assms(1,3,2)]) simp
  let ?ev = "\<lparr>se_transaction_id = tx_id r, se_status = forged,
     se_newest_status_event = newest_status_event (tx_id r) ?db',
     se_approval_consumed = approval_consumed_event (tx_id r) ?db', se_predates_status_events = False\<rparr>"
  have same: "newest_status_event t ?db' = newest_status_event t ?db"
    "approval_consumed_event t ?db' = approval_consumed_event t ?db" for t
    by (simp_all add: newest_status_event_def approval_consumed_event_def)
  have rep: "replay False (kinds_of (tx_id r) ?db) = Some (tx_status r, approval_of (tx_id r) ?db)"
    by (rule store_inv_replay [OF inv assms(4)])
  have "judge_status ?ev \<noteq> RowAgrees"
  proof (cases "tx_status r = Queued")
    case True
    then have "newest_status_event (tx_id r) ?db' = None"
      using replay_last_status [OF rep] by (simp add: same newest_status_event_inv [OF inv])
    with True assms(5) show ?thesis by (simp add: judge_status_None)
  next
    case False
    then have "newest_status_event (tx_id r) ?db' = Some (kind_as_str (kind_of_status (tx_status r)))"
      using replay_last_status [OF rep] by (simp add: same newest_status_event_inv [OF inv])
    moreover have "kind_as_str (kind_of_status a) = kind_as_str (kind_of_status c) \<Longrightarrow> a = c" for a c
      by (metis kind_of_status_inject option.inject parse_event_kind_as_str)
    ultimately show ?thesis using assms(5) by (auto simp: judge_status_Some)
  qed
  moreover have "?f r \<in> set (db_transactions ?db')"
    using assms(4) unfolding update_status_where_def by auto
  ultimately have "\<nexists>k. status_matches_chain ?db' = Agrees k"
    unfolding status_matches_chain_def status_outcome_Agrees by force
  then show ?thesis by (cases "status_matches_chain ?db'") auto
qed

section \<open>Growth and statuses\<close>

text \<open>The log is append-only. Along every run, the transaction rows (all columns that are chained) and
  the events that were stored stay as they are, and new ones only come after them.\<close>

lemma log_append_only:
  assumes "(store_step st targets)\<^sup>*\<^sup>* s s'"
  shows "prefix (map tx_chain (db_transactions (sys_db s))) (map tx_chain (db_transactions (sys_db s')))
    \<and> prefix (db_events (sys_db s)) (db_events (sys_db s'))"
  using store_steps_grow [OF assms] by (simp add: grows_def)

lemma ledger_grows:
  assumes reach: "store_reach st targets s" and steps: "(store_step st targets)\<^sup>*\<^sup>* s s'"
    and key: "st_audit_key st = Some key" and sig: "sig_nonempty (st_crypto st)"
    and known: "status_of txid (sys_db s) = Some a"
  obtains a' ks where "status_of txid (sys_db s') = Some a'" "kinds_of txid (sys_db s') = kinds_of txid (sys_db s) @ ks"
    "ledger_run False (a, approval_of txid (sys_db s)) ks = Some (a', approval_of txid (sys_db s'))"
proof -
  have reach': "store_reach st targets s'"
    using reach steps unfolding store_reach_def by (rule rtranclp_trans)
  have inv: "store_inv False st key (sys_db s)" "store_inv False st key (sys_db s')"
    using store_reach_store_inv [OF reach sig key, of False] store_reach_store_inv [OF reach' sig key, of False] by simp_all
  have g: "grows (sys_db s) (sys_db s')" by (rule store_steps_grow [OF steps])
  from g obtain es where es: "db_events (sys_db s') = db_events (sys_db s) @ es"
    by (auto simp: grows_def prefix_def)
  then obtain ks where ks: "kinds_of txid (sys_db s') = kinds_of txid (sys_db s) @ ks"
    by (simp add: kinds_of_def map_filter_append)
  have "txid \<in> set (map cr_transaction_id (map tx_chain (db_transactions (sys_db s))))"
    using known find_tx_known by (auto simp: status_of_def image_image)
  then have "txid \<in> set (map cr_transaction_id (map tx_chain (db_transactions (sys_db s'))))"
    using g set_mono_prefix unfolding grows_def by (metis (no_types, lifting) image_mono list.set_map subsetD)
  then have "find_tx txid (sys_db s') \<noteq> None" by (auto simp: find_tx_None)
  then obtain a' where a': "status_of txid (sys_db s') = Some a'" by (auto simp: status_of_def)
  have "replay False (kinds_of txid (sys_db s)) = Some (a, approval_of txid (sys_db s))"
    "replay False (kinds_of txid (sys_db s')) = Some (a', approval_of txid (sys_db s'))"
    using inv known a' by (simp_all add: store_inv_def ledger_inv_def)
  then have "ledger_run False (a, approval_of txid (sys_db s)) ks = Some (a', approval_of txid (sys_db s'))"
    by (simp add: ks replay_append)
  with that a' ks show thesis by blast
qed

text \<open>Statuses follow the transition table. Between any two moments of a run the status of a
  transaction has moved along the table (whatever callers raced), it never returns to \<^verbatim>\<open>Queued\<close>, and a
  terminal status never changes.\<close>

lemma status_follows_table:
  assumes "store_reach st targets s" "(store_step st targets)\<^sup>*\<^sup>* s s'"
    and "st_audit_key st = Some key" "sig_nonempty (st_crypto st)"
    and "status_of txid (sys_db s) = Some a"
  shows "\<exists>a'. status_of txid (sys_db s') = Some a' \<and> allowed_transition\<^sup>*\<^sup>* a a'
    \<and> (is_terminal a \<longrightarrow> a' = a) \<and> (a' = Queued \<longrightarrow> a = Queued)"
proof -
  from ledger_grows [OF assms] obtain a' ks where a': "status_of txid (sys_db s') = Some a'"
    and run: "ledger_run False (a, approval_of txid (sys_db s)) ks = Some (a', approval_of txid (sys_db s'))" .
  have tr: "allowed_transition\<^sup>*\<^sup>* a a'" by (rule ledger_run_transitions [OF run])
  moreover have "a' = Queued \<longrightarrow> a = Queued"
    using tr by (auto elim: rtranclp.cases)
  ultimately show ?thesis using a' transitions_from_terminal by auto
qed

section \<open>Receipts\<close>

text \<open>C25: Refinement of the ledger. In every reachable store, replaying the signed events of a transaction
  on the abstract machine succeeds and gives exactly its status column and the state of its approval row;
  every grant is matched by a revocation or an outstanding approval, and a receipt is consumed at most
  once.\<close>

theorem tables_refine_ledger:
  assumes "store_reach st targets s" "st_audit_key st = Some key" "sig_nonempty (st_crypto st)"
    and "r \<in> set (db_transactions (sys_db s))"
  shows "replay False (kinds_of (tx_id r) (sys_db s)) = Some (tx_status r, approval_of (tx_id r) (sys_db s))
    \<and> count_list (kinds_of (tx_id r) (sys_db s)) ApprovalConsumed =
        (if approval_of (tx_id r) (sys_db s) = Spent then 1 else 0)
    \<and> count_list (kinds_of (tx_id r) (sys_db s)) ApprovalGranted =
        count_list (kinds_of (tx_id r) (sys_db s)) ApprovalRevoked
        + (if approval_of (tx_id r) (sys_db s) = NoApproval then 0 else 1)"
proof -
  have inv: "store_inv False st key (sys_db s)"
    by (rule store_reach_store_inv [OF assms(1,3,2)]) simp
  have "replay False (kinds_of (tx_id r) (sys_db s)) = Some (tx_status r, approval_of (tx_id r) (sys_db s))"
    by (rule store_inv_replay [OF inv assms(4)])
  with replay_counts [OF this] show ?thesis by simp
qed

text \<open>C4: Nothing runs without approval. When no caller asks \<^verbatim>\<open>update_status\<close> for \<^verbatim>\<open>Running\<close> (the daemon's callers
  ask for terminal statuses only), every transaction that is running or has run has a spent receipt, and
  the chain holds a consume event for it whose digest is the commitment signed into its row.\<close>

theorem executed_only_with_approval:
  assumes "store_reach st targets s" "Running \<notin> targets"
    and "st_audit_key st = Some key" "sig_nonempty (st_crypto st)"
    and "r \<in> set (db_transactions (sys_db s))" "tx_status r \<noteq> Queued" "tx_status r \<noteq> Canceled"
  shows "approval_of (tx_id r) (sys_db s) = Spent
    \<and> (\<exists>e \<in> set (db_events (sys_db s)). er_transaction_id e = tx_id r \<and> er_kind e = ''approval_consumed''
        \<and> er_receipt_digest e = approval_commitment (st_crypto st) key (tx_id r) (cr_request_hash (tx_chain r)))"
proof -
  have inv: "store_inv True st key (sys_db s)"
    using store_reach_store_inv [OF assms(1,4,3), of True] assms(2) by simp
  have rep: "replay True (kinds_of (tx_id r) (sys_db s)) = Some (tx_status r, approval_of (tx_id r) (sys_db s))"
    by (rule store_inv_replay [OF inv assms(5)])
  then have spent: "approval_of (tx_id r) (sys_db s) = Spent"
    using replay_executed assms(6,7) by blast
  then have "ApprovalConsumed \<in> set (kinds_of (tx_id r) (sys_db s))"
    using replay_counts [OF rep] count_list_0_iff [of "kinds_of (tx_id r) (sys_db s)" ApprovalConsumed] by simp
  then obtain e where e: "e \<in> set (db_events (sys_db s))" "er_transaction_id e = tx_id r" "er_kind e = ''approval_consumed''"
    by (auto simp: kind_in_kinds_of [OF inv])
  then have "digest_of (map tx_chain (db_transactions (sys_db s))) (tx_id r) (er_receipt_digest e)"
    using inv unfolding store_inv_def table_inv_def approval_kinds_def by force
  then obtain q where q: "q \<in> set (db_transactions (sys_db s))" "tx_id q = tx_id r"
    "cr_approval_id (tx_chain q) = Some (er_receipt_digest e)"
    by (auto simp: digest_of_def)
  have "q = r"
    using store_inv_find_tx [OF inv q(1)] store_inv_find_tx [OF inv assms(5)] q(2) by (metis option.inject)
  with q(3) inv assms(5) have "er_receipt_digest e =
      approval_commitment (st_crypto st) key (tx_id r) (cr_request_hash (tx_chain r))"
    by (auto simp: store_inv_def chain_inv_def)
  with spent e show ?thesis by blast
qed

section \<open>Operations\<close>

lemma claimable_queued:
  assumes "store_inv b st key db" "claimable st ck txid digest db"
  shows "status_of txid db = Some Queued" "approval_of txid db = Approved"
proof -
  from assms(2) obtain r where "r \<in> set (db_transactions db)" "tx_id r = txid" "tx_status r = Queued"
    by (auto simp: claimable_def)
  with store_inv_find_tx [OF assms(1)] show "status_of txid db = Some Queued" by (auto simp: status_of_def)
  show "approval_of txid db = Approved"
    using assms(2) approval_of_Approved [OF store_inv_distinct(2) [OF assms(1)]] by (auto simp: claimable_def)
qed

lemma claim_effect:
  assumes inv: "store_inv b st key db" and key: "st_audit_key st = Some key"
    and claim: "claimable st ck txid digest db"
    and res: "claim_approved_for_execution st ck txid digest executor db = (res, db')"
  shows "status_of u db' = (if u = txid then Some Running else status_of u db)"
    "approval_of u db' = (if u = txid then Spent else approval_of u db)"
proof -
  let ?Q = "\<lambda>r. tx_id r = txid \<and> tx_status r = Queued \<and> within_ttl st ck r"
  from claim obtain r where "r \<in> set (db_transactions db)" and q: "?Q r"
    by (auto simp: claimable_def)
  then have r: "find_tx txid db = Some r" using store_inv_find_tx [OF inv] by auto
  have other: "u \<noteq> txid \<Longrightarrow> status_of u (snd (update_status_where ?Q Running db)) = status_of u db"
    by (rule status_of_update_other) auto
  show "status_of u db' = (if u = txid then Some Running else status_of u db)"
    using res r q other by (cases "u = txid") (auto simp: claim_cases [OF key] claim frame_simps)
  show "approval_of u db' = (if u = txid then Spent else approval_of u db)"
    using res claimable_queued(2) [OF inv claim]
    by (auto simp: claim_cases [OF key] claim frame_simps approval_of_consume_approvals)
qed

text \<open>C24: Claiming is single-use. A claim succeeds exactly when the transaction is queued and within its
  time limit and holds an unspent approval with this digest; a claim that fails changes nothing. A
  successful one moves this transaction, and no other, to \<^verbatim>\<open>Running\<close> with a spent receipt, after which every
  further claim for it, with any digest and at any time, is refused without effect.\<close>

theorem claim_single_use:
  assumes "store_reach st targets s" "st_audit_key st = Some key" "sig_nonempty (st_crypto st)"
    and "claim_approved_for_execution st ck txid digest executor (sys_db s) = (res, db')"
  shows "res = Inr (claimable st ck txid digest (sys_db s))
    \<and> (\<not> claimable st ck txid digest (sys_db s) \<longrightarrow> db' = sys_db s)
    \<and> (claimable st ck txid digest (sys_db s) \<longrightarrow>
        (\<forall>u. status_of u db' = (if u = txid then Some Running else status_of u (sys_db s))
           \<and> approval_of u db' = (if u = txid then Spent else approval_of u (sys_db s)))
        \<and> (\<forall>ck2 digest2 executor2.
             claim_approved_for_execution st ck2 txid digest2 executor2 db' = (Inr False, db')))"
proof -
  have inv: "store_inv False st key (sys_db s)"
    by (rule store_reach_store_inv [OF assms(1,3,2)]) simp
  have inv': "store_inv False st key db'"
    using store_inv_claim [OF inv assms(3,2)] assms(4) by (metis snd_conv)
  have "\<not> claimable st ck2 txid digest2 db'" if "claimable st ck txid digest (sys_db s)" for ck2 digest2
    using claim_effect(1) [OF inv assms(2) that assms(4), of txid] claimable_queued(1) [OF inv', of ck2 txid digest2]
    by auto
  with claim_effect [OF inv assms(2) _ assms(4)] assms(4) show ?thesis
    by (cases "claimable st ck txid digest (sys_db s)") (simp_all add: claim_cases [OF assms(2)])
qed

lemma approve_read_receipt:
  assumes "approve_read st txid db = Inr (Some (receipt, digest))"
  shows "digest = approval_receipt_digest (st_crypto st) receipt"
  using assms
  by (cases "find_tx txid db")
    (auto simp: approve_read_def get_def Let_def split: option.splits if_splits sum.splits)

text \<open>Approving and spending fit together. An approval hands out a receipt only for a queued, fresh
  transaction that has none; the digest of that receipt is the commitment signed into the row when it
  was recorded. While the transaction is fresh, a claim with that digest then succeeds, and a claim with
  any other digest is refused.\<close>

lemma approve_then_claim:
  assumes "store_reach st targets s" "st_audit_key st = Some key" "sig_nonempty (st_crypto st)"
    and "approve_transaction st ck txid approver (sys_db s) = (Inr (Some receipt), db')"
    and "find_tx txid (sys_db s) = Some r" "within_ttl st ck2 r"
  shows "tx_status r = Queued \<and> within_ttl st ck r \<and> approval_of txid (sys_db s) = NoApproval
    \<and> approval_of txid db' = Approved
    \<and> cr_approval_id (tx_chain r) = Some (approval_receipt_digest (st_crypto st) receipt)
    \<and> fst (claim_approved_for_execution st ck2 txid d executor db') =
        Inr (d = approval_receipt_digest (st_crypto st) receipt)"
proof -
  let ?db = "sys_db s"
  have inv: "store_inv False st key ?db"
    by (rule store_reach_store_inv [OF assms(1,3,2)]) simp
  have inv': "store_inv False st key db'"
    using store_inv_approve_transaction [OF inv assms(3,2), of ck txid approver] assms(4) by simp
  from assms(2,4) obtain digest where read: "approve_read st txid ?db = Inr (Some (receipt, digest))"
    and commit: "approve_commit st key ck txid approver receipt digest ?db = (Inr (Some receipt), db')"
    by (auto simp: approve_transaction_def approve_commit_def Let_def split: sum.splits option.splits if_splits)
  let ?P = "\<lambda>r. tx_id r = txid \<and> tx_status r = Queued \<and> within_ttl st ck r
    \<and> (\<forall>a \<in> set (db_approvals ?db). ap_transaction_id a \<noteq> txid)"
  from commit have "filter ?P (db_transactions ?db) \<noteq> []"
    by (auto simp: approve_commit_def Let_def split: if_splits)
  then obtain q where q: "q \<in> set (db_transactions ?db)" "?P q" by (auto simp: filter_empty_conv)
  with store_inv_find_tx [OF inv q(1)] assms(5) have "q = r" by simp
  have sel: "filter ?P (db_transactions ?db) = [r]"
    using q \<open>q = r\<close> store_inv_distinct(1) [OF inv] by (auto intro!: filter_key_distinct)
  have rid: "tx_id r = txid" using q \<open>q = r\<close> by simp
  have aps: "db_approvals db' = db_approvals ?db @ [\<lparr>ap_transaction_id = txid, ap_receipt_digest = digest,
      ap_approved_at = ck_datetime ck, ap_consumed_at = None\<rparr>]" "db_transactions db' = db_transactions ?db"
    using commit sel rid by (auto simp: approve_commit_def Let_def)
  have dig: "digest = approval_receipt_digest (st_crypto st) receipt"
    by (rule approve_read_receipt [OF read])
  have "digest_of (map tx_chain (db_transactions ?db)) txid digest"
    by (rule approve_read_digest [OF read])
  then obtain p where "p \<in> set (db_transactions ?db)" "tx_id p = txid" "cr_approval_id (tx_chain p) = Some digest"
    by (auto simp: digest_of_def)
  with store_inv_find_tx [OF inv, of p] assms(5) have com: "cr_approval_id (tx_chain r) = Some digest" by auto
  have no: "\<forall>a \<in> set (db_approvals ?db). ap_transaction_id a \<noteq> txid" using q by blast
  have appr: "approval_of txid db' = Approved"
    using approval_of_Approved [OF store_inv_distinct(2) [OF inv']] aps(1) by auto
  have "claimable st ck2 txid d db' \<longleftrightarrow> d = digest"
    using q \<open>q = r\<close> assms(6) no by (auto simp: claimable_def aps)
  with q \<open>q = r\<close> no dig com appr show ?thesis
    by (auto simp: claim_cases [OF assms(2)] approval_of_NoApproval)
qed

text \<open>Status updates on every branch. An unknown transaction and a transition outside the table are
  refused; an allowed one is written and chained. When the status changed after it was read, the
  compare-and-swap loses and writes nothing, neither to the table nor to the chain.\<close>

lemma update_status_branches:
  assumes "store_reach st targets s" "st_audit_key st = Some key" "sig_nonempty (st_crypto st)"
  shows "(case status_of txid (sys_db s) of
      None \<Rightarrow> update_status st ck txid new (sys_db s) = (Inl (NotFound txid), sys_db s)
    | Some cur \<Rightarrow>
        if allowed_transition cur new then
          \<exists>db'. update_status st ck txid new (sys_db s) = (Inr (), db')
            \<and> (\<forall>u. status_of u db' = (if u = txid then Some new else status_of u (sys_db s)))
            \<and> kinds_of txid db' = kinds_of txid (sys_db s) @ [kind_of_status new]
        else update_status st ck txid new (sys_db s) = (Inl (InvalidTransition cur new), sys_db s))
    \<and> (status_of txid (sys_db s) \<noteq> Some observed \<longrightarrow>
        update_status_commit st ck txid new observed (sys_db s) = (Inl (ConcurrentStatusChange txid), sys_db s))"
proof -
  let ?db = "sys_db s"
  have inv: "store_inv False st key ?db"
    by (rule store_reach_store_inv [OF assms(1,3,2)]) simp
  have lost: "update_status_commit st ck txid new ob ?db = (Inl (ConcurrentStatusChange txid), ?db)"
    if "status_of txid ?db \<noteq> Some ob" for ob
  proof -
    have "\<not> (\<exists>r \<in> set (db_transactions ?db). tx_id r = txid \<and> tx_status r = ob)"
      using that store_inv_find_tx [OF inv] by (auto simp: status_of_def)
    then show ?thesis by (simp add: update_status_commit_def case_prod_beta update_status_where_count)
  qed
  have branch: "case status_of txid ?db of
      None \<Rightarrow> update_status st ck txid new ?db = (Inl (NotFound txid), ?db)
    | Some cur \<Rightarrow>
        if allowed_transition cur new then
          \<exists>db'. update_status st ck txid new ?db = (Inr (), db')
            \<and> (\<forall>u. status_of u db' = (if u = txid then Some new else status_of u ?db))
            \<and> kinds_of txid db' = kinds_of txid ?db @ [kind_of_status new]
        else update_status st ck txid new ?db = (Inl (InvalidTransition cur new), ?db)"
  proof (cases "find_tx txid ?db")
    case None
    then show ?thesis by (simp add: status_of_def update_status_def update_status_read_def)
  next
    case (Some r)
    let ?P = "\<lambda>x. tx_id x = txid \<and> tx_status x = tx_status r"
    let ?db' = "append_event st key (ck_text ck 0) (kind_of_status new) txid [] EvLegacyV1
      (snd (update_status_where ?P new ?db))"
    have r: "r \<in> set (db_transactions ?db)" "tx_id r = txid" using find_tx_Some [OF Some] .
    have upd: "update_status st ck txid new ?db = (Inr (), ?db')" if "allowed_transition (tx_status r) new"
      using that Some r assms(2)
      by (auto simp: update_status_def update_status_read_def update_status_commit_def case_prod_beta
          update_status_where_count Let_def)
    have eff: "status_of u ?db' = (if u = txid then Some new else status_of u ?db)" for u
      using status_of_update_other [of ?P txid u new ?db] Some r(2) by (cases "u = txid") (simp_all add: frame_simps)
    have kinds: "kinds_of txid ?db' = kinds_of txid ?db @ [kind_of_status new]" by (simp add: frame_simps)
    show ?thesis
    proof (cases "allowed_transition (tx_status r) new")
      case True
      with upd eff kinds Some show ?thesis by (auto simp: status_of_def)
    next
      case False
      with Some show ?thesis by (simp add: status_of_def update_status_def update_status_read_def)
    qed
  qed
  from branch lost show ?thesis by blast
qed

lemma cancel_one_effect:
  assumes inv: "store_inv b st key db" and sig: "sig_nonempty (st_crypto st)" and p: "p \<noteq> []"
    and res: "cancel_one st key at0 at1 txid p db = (n, db')"
  shows "n = (if status_of txid db = Some Queued then 1 else 0)"
    "status_of u db' = (if u = txid \<and> status_of txid db = Some Queued then Some Canceled else status_of u db)"
    "approval_of u db' = (if u = txid \<and> status_of txid db = Some Queued then NoApproval else approval_of u db)"
proof -
  let ?P = "\<lambda>r. tx_id r = txid \<and> tx_status r = Queued"
  let ?db1 = "snd (update_status_where ?P Canceled db)"
  have q: "(\<exists>r \<in> set (db_transactions db). ?P r) \<longleftrightarrow> status_of txid db = Some Queued"
    using store_inv_find_tx [OF inv] find_tx_Some [of txid db] by (auto simp: status_of_def)
  obtain c db2 where rev: "revoke_unconsumed_approval_in_tx st key at0 txid p ?db1 = (c, db2)" by fastforce
  have "n = (if status_of txid db = Some Queued then 1 else 0)
    \<and> status_of u db' = (if u = txid \<and> status_of txid db = Some Queued then Some Canceled else status_of u db)
    \<and> approval_of u db' = (if u = txid \<and> status_of txid db = Some Queued then NoApproval else approval_of u db)"
  proof (cases "status_of txid db = Some Queued")
    case False
    with q have none: "\<not> (\<exists>r \<in> set (db_transactions db). ?P r)" by blast
    have "fst (update_status_where ?P Canceled db) = 0" "?db1 = db"
      using none update_status_where_none [OF none] by (auto simp: update_status_where_count)
    with res False show ?thesis by (simp add: cancel_one_def case_prod_beta)
  next
    case True
    then obtain r where r: "find_tx txid db = Some r" "tx_status r = Queued" by (auto simp: status_of_def)
    then have "filter ?P (db_transactions db) = [r]"
      using find_tx_Some [OF r(1)] store_inv_distinct(1) [OF inv] by (auto intro!: filter_key_distinct)
    then have one: "fst (update_status_where ?P Canceled db) = 1" by (simp add: update_status_where_def)
    have "chain_inv st key (map tx_chain (db_transactions ?db1)) (db_events ?db1)"
      "table_inv (map tx_chain (db_transactions ?db1)) (db_approvals ?db1) (db_events ?db1)"
      using inv by (simp_all add: store_inv_def)
    note eff = revoke_in_tx_effect [OF this sig p rev]
    have unspent: "approval_of txid db \<noteq> Spent"
      using store_inv_queued_unspent [OF inv] r find_tx_Some [OF r(1)] by auto
    have db': "n = 1" "db' = append_event st key at1 StatusCanceled txid [] EvLegacyV1 db2"
      using res one rev by (auto simp: cancel_one_def case_prod_beta Let_def)
    have "status_of u db2 = status_of u ?db1" by (simp add: status_of_def find_tx_def eff(1))
    moreover have "status_of u ?db1 = (if u = txid then Some Canceled else status_of u db)"
      using status_of_update_other [of ?P txid u Canceled db] r find_tx_Some(2) [OF r(1)]
      by (cases "u = txid") (simp_all add: frame_simps)
    moreover have "approval_of u db2 = (if u = txid then NoApproval else approval_of u db)"
      using eff(4,5) unspent by (cases "approval_of txid db") (auto simp: frame_simps)
    ultimately show ?thesis using True by (simp add: db' frame_simps)
  qed
  then show "n = (if status_of txid db = Some Queued then 1 else 0)"
    "status_of u db' = (if u = txid \<and> status_of txid db = Some Queued then Some Canceled else status_of u db)"
    "approval_of u db' = (if u = txid \<and> status_of txid db = Some Queued then NoApproval else approval_of u db)"
    by blast+
qed

lemma cleanup_loop_effect:
  assumes sig: "sig_nonempty (st_crypto st)"
  shows "store_inv b st key db \<Longrightarrow> distinct ids \<Longrightarrow> \<forall>t \<in> set ids. status_of t db = Some Queued \<Longrightarrow>
    cleanup_loop st key ck i ids n db = (m, db') \<Longrightarrow>
    m = n + length ids
    \<and> (\<forall>u. status_of u db' = (if u \<in> set ids then Some Canceled else status_of u db)
        \<and> approval_of u db' = (if u \<in> set ids then NoApproval else approval_of u db))"
proof (induction ids arbitrary: i n db)
  case (Cons txid ids)
  obtain k db1 where one: "cancel_one st key (ck_text ck i) (ck_text ck (i + 1)) txid (as_signed_str Unattributed) db = (k, db1)"
    by fastforce
  note eff = cancel_one_effect [OF Cons.prems(1) sig as_signed_str_nonempty one]
  have inv1: "store_inv b st key db1"
    using store_inv_cancel_one [OF Cons.prems(1) sig as_signed_str_nonempty, of "ck_text ck i" "ck_text ck (i + 1)" txid Unattributed]
      one by simp
  have "\<forall>t \<in> set ids. status_of t db1 = Some Queued"
    using Cons.prems(2,3) eff(2) by auto
  from Cons.IH [OF inv1 _ this, of "i + 2" "n + k"] Cons.prems(2,4) one eff Cons.prems(3) show ?case
    by auto
qed simp

text \<open>The stale sweep. It cancels exactly the queued transactions whose time limit has passed, each with
  its outstanding approval revoked, and leaves every other transaction (a running one in particular)
  as it was; the result is the number of transactions it cancelled.\<close>

lemma cleanup_cancels_exactly_stale:
  assumes "store_reach st targets s" "st_audit_key st = Some key" "sig_nonempty (st_crypto st)"
    and "cleanup_stale_queued st ck (sys_db s) = (res, db')"
  shows "res = Inr (length (filter (\<lambda>r. tx_status r = Queued \<and> past_ttl st ck r) (db_transactions (sys_db s))))
    \<and> (\<forall>r \<in> set (db_transactions (sys_db s)).
        if tx_status r = Queued \<and> past_ttl st ck r
        then status_of (tx_id r) db' = Some Canceled \<and> approval_of (tx_id r) db' = NoApproval
        else status_of (tx_id r) db' = Some (tx_status r)
             \<and> approval_of (tx_id r) db' = approval_of (tx_id r) (sys_db s))"
proof -
  let ?db = "sys_db s"
  let ?S = "\<lambda>r. tx_status r = Queued \<and> past_ttl st ck r"
  let ?ids = "map tx_id (filter ?S (db_transactions ?db))"
  have inv: "store_inv False st key ?db"
    by (rule store_reach_store_inv [OF assms(1,3,2)]) simp
  have d: "distinct (map tx_id (db_transactions ?db))" by (rule store_inv_distinct(1) [OF inv])
  obtain m where loop: "cleanup_loop st key ck 0 ?ids 0 ?db = (m, db')" and res: "res = Inr m"
    using assms(2,4) by (auto simp: cleanup_stale_queued_def Let_def split: prod.splits)
  have queued: "\<forall>t \<in> set ?ids. status_of t ?db = Some Queued"
    using store_inv_find_tx [OF inv] by (auto simp: status_of_def)
  from cleanup_loop_effect [OF assms(3) inv distinct_map_filter [OF d] queued loop]
  have eff: "m = length ?ids"
    "\<And>u. status_of u db' = (if u \<in> set ?ids then Some Canceled else status_of u ?db)"
    "\<And>u. approval_of u db' = (if u \<in> set ?ids then NoApproval else approval_of u ?db)" by simp_all
  have mem: "tx_id r \<in> set ?ids \<longleftrightarrow> ?S r" if "r \<in> set (db_transactions ?db)" for r
    using that d by (auto simp: distinct_map dest: inj_onD)
  show ?thesis
  proof -
    have "status_of (tx_id r) ?db = Some (tx_status r)" if "r \<in> set (db_transactions ?db)" for r
      using store_inv_find_tx [OF inv that] by (simp add: status_of_def)
    with res eff(1) show ?thesis by (simp add: eff(2,3) mem del: set_map set_filter)
  qed
qed

text \<open>A store opened without a key writes nothing. Every operation that changes the database refuses and
  leaves it as it was.\<close>

lemma read_only_store_refuses:
  assumes "st_audit_key st = None"
  shows "(\<exists>e. record_tx st ck txid t db = (Inl (AuditChainMissing e), db))
    \<and> (\<exists>e. record_previewed st ck txid t p db = (Inl (AuditChainMissing e), db))
    \<and> (\<exists>e. approve_transaction st ck txid who db = (Inl (AuditChainMissing e), db))
    \<and> (\<exists>e. revoke_unconsumed_approval st ck txid who db = (Inl (AuditChainMissing e), db))
    \<and> (\<exists>e. claim_approved_for_execution st ck txid digest who db = (Inl (AuditChainMissing e), db))
    \<and> (\<exists>e. cleanup_stale_queued st ck db = (Inl (AuditChainMissing e), db))
    \<and> (\<exists>e. cancel_queued st ck txid who db = (Inl (AuditChainMissing e), db))
    \<and> (\<exists>e. update_status st ck txid new db = (Inl e, db))"
  using assms
  by (simp add: record_tx_def record_previewed_def record_with_def approve_transaction_def
      revoke_unconsumed_approval_def claim_approved_for_execution_def cleanup_stale_queued_def cancel_queued_def
      update_status_def update_status_commit_def case_prod_beta Let_def split: sum.splits)

text \<open>C27: Recovery after a crash. With more fuel than there are running transactions the loop ends, reports
  how many there were, and leaves no transaction running, in a store that still satisfies the
  invariant.\<close>

theorem reconcile_terminates:
  assumes "store_reach st targets s" "st_audit_key st = Some key" "sig_nonempty (st_crypto st)"
    and "st_job_state_of_json st ([CHR 0x22] @ ''running'' @ [CHR 0x22]) = Some Running"
    and "\<forall>r \<in> set (db_transactions (sys_db s)). st_warnings_of_json st (cr_warnings_json (tx_chain r)) \<noteq> None"
    and "card (running_ids (sys_db s)) < fuel"
  shows "\<exists>db'. reconcile_interrupted_running (list_running_ids st rfc ck)
        (\<lambda>i txid. update_status st (clock i) txid Failed) fuel 0 (sys_db s)
      = Some (Inr (card (running_ids (sys_db s))), db')
    \<and> running_ids db' = {} \<and> store_inv False st key db'"
proof -
  have "reconcile_inv False st key (sys_db s)"
    using store_reach_store_inv [OF assms(1,3,2), of False] assms(2-5) by (simp add: reconcile_inv_def)
  from sqlite.reconcile_all [OF this assms(6), of rfc ck clock 0] show ?thesis
    by (auto simp: reconcile_inv_def)
qed

section \<open>Checkpoints\<close>

lemma numbered_nth: "numbered sq rows \<Longrightarrow> i < length rows \<Longrightarrow> sq (rows ! i) = Suc i"
proof -
  assume "numbered sq rows" "i < length rows"
  then have "map sq rows ! i = [1..<Suc (length rows)] ! i" by (simp add: numbered_def del: upt_Suc)
  with \<open>i < length rows\<close> show ?thesis by (simp del: upt_Suc)
qed

lemma verify_checkpoints_Consistent:
  assumes "verify_checkpoints cr vk rows cps = CheckpointsConsistent n" "cp \<in> set cps"
  shows "\<exists>i < length rows. cr_seq (rows ! i) = cp_seq cp \<and> cr_chain_hash (rows ! i) = cp_chain_tip cp"
proof -
  from assms obtain i where "binary_search_by_key cr_seq rows (cp_seq cp) = Some i"
    "cr_chain_hash (rows ! i) = cp_chain_tip cp"
    by (auto simp: verify_checkpoints_def split: option.splits dest: checkpoint_loop_Consistent)
  then show ?thesis
    using bsearch_sound [of cr_seq rows "cp_seq cp" 0 "length rows" i]
    by (auto simp: binary_search_by_key_def)
qed

text \<open>C26: Truncation is detected. Verification of the chain alone cannot notice that its tail was cut off;
  with the checkpoints it can: rows that verify and are consistent with the checkpoints hold, for every
  checkpoint, at least the rows up to its position, exactly as the daemon stored them.\<close>

theorem checkpoints_detect_truncation:
  assumes "store_reach st targets s" "st_audit_key st = Some key"
    and "sig_nonempty (st_crypto st)" "hex_laws (st_crypto st)"
    and "unforgeable (st_crypto st) (ak_signing key) S (cr_chain_hash ` set rows)"
    and "only_signed chain_message S (tx_msg ` set (fetch_chain_rows (sys_db s)))"
    and "verify_chain (st_crypto st) key rows = Intact n"
    and "verify_checkpoints (st_crypto st) vk rows cps = CheckpointsConsistent m"
    and "cp \<in> set cps"
  shows "cp_seq cp \<le> length rows
    \<and> map (\<lambda>r. map_option signed_content (tx_content r)) (take (cp_seq cp) rows) =
        map (\<lambda>r. map_option signed_content (tx_content r)) (take (cp_seq cp) (fetch_chain_rows (sys_db s)))"
proof -
  let ?hs = "fetch_chain_rows (sys_db s)"
  let ?v = "\<lambda>r. map_option signed_content (tx_content r)"
  have inv: "store_inv False st key (sys_db s)"
    by (rule store_reach_store_inv [OF assms(1,3,2)]) simp
  have intact: "verify_rows (st_crypto st) (ed_public (st_crypto st) (ak_signing key)) (Some (ak_key_id key)) rows = Intact n"
    using assms(7) by (simp add: verify_chain_def verifying_key_def)
  note d = verify_rows_IntactD [OF intact]
  have pre: "length rows \<le> length ?hs" "map ?v rows = map ?v (take (length rows) ?hs)"
    using tx_chain.accepted_is_prefix [OF assms(4) store_inv_well_chained(1) [OF inv] _ assms(6) d(1,2)] assms(5)
    by simp_all
  obtain i where i: "i < length rows" "cr_seq (rows ! i) = cp_seq cp"
    using verify_checkpoints_Consistent [OF assms(8,9)] by auto
  have numbered: "numbered cr_seq ?hs"
    using inv by (simp add: fetch_rows_inv [OF inv] store_inv_def chain_inv_def)
  have "?v (rows ! i) = ?v (?hs ! i)"
    using pre i(1) by (metis (no_types, lifting) nth_map nth_take length_take min.absorb2)
  moreover have "tx_content (rows ! i) \<noteq> None"
    using d(2) i(1) by (auto simp: list_all_length row_accepted_def)
  ultimately have "cr_seq (rows ! i) = cr_seq (?hs ! i)"
    by (auto simp: tx_content_def signed_content_def chain_row_content_def split: sum.splits)
  with i numbered_nth [OF numbered, of i] pre(1) have k: "cp_seq cp \<le> length rows" by simp
  have "take (cp_seq cp) (map ?v rows) = take (cp_seq cp) (map ?v (take (length rows) ?hs))"
    by (simp only: pre(2))
  with k show ?thesis by (simp add: take_map min.absorb1)
qed

end
