(* ===== verification/Sk_Guarantee_Witnesses.thy ===== *)
theory Sk_Guarantee_Witnesses
  imports Sk_Guarantees
begin

text \<open>
  The guarantees of \<open>Sk_Guarantees\<close> applied to concrete runs of the store on the parameters of
  \<open>Sk_Witness\<close>: one transaction is recorded, approved, and claimed.
\<close>

section \<open>A run\<close>

definition run1 :: "string list \<Rightarrow> sys" where
  "run1 ms = initial_sys\<lparr>sys_db := snd (record_tx (store_ref ms) clock_ref ''t1'' tx_ref empty_db)\<rparr>"

definition receipt_ref :: "string list \<Rightarrow> string" where
  "receipt_ref ms = approval_receipt (crypto_ref ms) key_ref ''t1'' ''h''"

definition digest_ref :: "string list \<Rightarrow> string" where
  "digest_ref ms = approval_receipt_digest (crypto_ref ms) (receipt_ref ms)"

definition run2 :: "string list \<Rightarrow> sys" where
  "run2 ms = (run1 ms)\<lparr>sys_db := snd (approve_commit (store_ref ms) key_ref clock_ref ''t1'' (Uid 1000)
     (receipt_ref ms) (digest_ref ms) (sys_db (run1 ms)))\<rparr>"

definition run3 :: "string list \<Rightarrow> sys" where
  "run3 ms = (run2 ms)\<lparr>sys_db := snd (claim_approved_for_execution (store_ref ms) clock_ref ''t1''
     (digest_ref ms) (Uid 1000) (sys_db (run2 ms)))\<rparr>"

lemma run1_reach: "store_reach (store_ref ms) targets (run1 ms)"
proof -
  have "store_step (store_ref ms) targets initial_sys
      (initial_sys\<lparr>sys_db := snd (record_tx (store_ref ms) clock_ref ''t1'' tx_ref (sys_db initial_sys))\<rparr>)"
    by (rule step_record)
  then show ?thesis by (simp add: store_reach_def run1_def initial_sys_def)
qed

text \<open>The databases of the run, with the signatures left as they are.\<close>

definition content1 :: "string list \<Rightarrow> chain_content" where
  "content1 ms = \<lparr>cc_seq = 1, cc_key_id = CURRENT_KEY_ID, cc_transaction_id = ''t1'', cc_request_id = ''r'',
     cc_request_hash = ''h'', cc_action_name = ''GetSystemStatus'', cc_risk_level = Low, cc_summary = ''s'',
     cc_approval_id = Some (digest_ref ms), cc_warnings_json = [],
     cc_created_at = ''2026-01-01T00:00:00.000Z'',
     cc_identity = V4 (role_as_str Admin) [] (as_signed_str (Uid 1000))\<rparr>"

definition row1 :: "string list \<Rightarrow> chain_row" where
  "row1 ms = \<lparr>cr_seq = 1, cr_key_id = CURRENT_KEY_ID, cr_transaction_id = ''t1'', cr_request_id = ''r'',
     cr_request_hash = ''h'', cr_action_name = ''GetSystemStatus'', cr_risk_level = Low, cr_summary = ''s'',
     cr_approval_id = Some (digest_ref ms), cr_warnings_json = [],
     cr_created_at = ''2026-01-01T00:00:00.000Z'', cr_prev_chain_hash = [],
     cr_chain_hash = chain_hash (crypto_ref ms) key_ref (content1 ms) [],
     cr_chain_version = CHAIN_VERSION_V4, cr_caller_role = Some (role_as_str Admin), cr_event_tip = Some [],
     cr_caller_principal = Some (as_signed_str (Uid 1000))\<rparr>"

lemma run1_db:
  "sys_db (run1 ms) = \<lparr>db_transactions = [\<lparr>tx_chain = row1 ms, tx_status = Queued\<rparr>], db_previews = [],
     db_approvals = [], db_events = []\<rparr>"
  by (simp add: run1_def record_tx_def record_with_def insert_transaction_def next_seq_and_prev_hash_def
      event_chain_tip_def newest_by_def empty_db_def unwrap_or_default_def tx_ref_def clock_ref_def store_ref_def
      Let_def row1_def content1_def digest_ref_def receipt_ref_def approval_commitment_def key_ref_def
      del: role_as_str.simps)

lemma run1_approve_read:
  "approve_read (store_ref ms) ''t1'' (sys_db (run1 ms)) = Inr (Some (receipt_ref ms, digest_ref ms))"
  by (simp add: approve_read_def get_def find_tx_def run1_db row1_def row_to_record_def Let_def store_ref_def
      digest_ref_def receipt_ref_def key_ref_def)

lemma fresh_ref: "within_ttl (store_ref ms) clock_ref \<lparr>tx_chain = row1 ms, tx_status = x\<rparr>"
  by (simp add: within_ttl_def store_ref_def clock_ref_def row1_def)

text \<open>The run is one of the store's.\<close>

lemma run2_reach: "store_reach (store_ref ms) targets (run2 ms)"
proof -
  let ?p = "PendingApproval ''t1'' (Uid 1000) (receipt_ref ms) (digest_ref ms)"
  have none: "sys_pending (run1 ms) = []" by (simp add: run1_def initial_sys_def)
  have "store_step (store_ref ms) targets (run1 ms) ((run1 ms)\<lparr>sys_pending := ?p # sys_pending (run1 ms)\<rparr>)"
    by (rule step_approve_read) (rule run1_approve_read)
  moreover have "store_step (store_ref ms) targets ((run1 ms)\<lparr>sys_pending := ?p # sys_pending (run1 ms)\<rparr>) (run2 ms)"
    using step_approve_commit [of "''t1''" "Uid 1000" "receipt_ref ms" "digest_ref ms"
        "(run1 ms)\<lparr>sys_pending := ?p # sys_pending (run1 ms)\<rparr>" "store_ref ms" key_ref targets clock_ref]
    by (simp add: none run2_def)
      (metis (no_types, lifting) none sys.surjective sys.update_convs(1) sys.update_convs(2))
  ultimately show ?thesis
    using run1_reach [of ms targets] unfolding store_reach_def by (meson rtranclp.rtrancl_into_rtrancl)
qed

lemma run3_reach: "store_reach (store_ref ms) targets (run3 ms)"
proof -
  have "store_step (store_ref ms) targets (run2 ms) (run3 ms)"
    unfolding run3_def by (rule step_claim)
  with run2_reach show ?thesis unfolding store_reach_def by (rule rtranclp.rtrancl_into_rtrancl)
qed

definition event1 :: "string list \<Rightarrow> event_row" where
  "event1 ms = new_event (crypto_ref ms) key_ref ''2026-01-01T00:00:00.000Z'' ApprovalGranted ''t1''
     (digest_ref ms) (EvV2 (as_signed_str (Uid 1000))) 1 []"

lemma run2_db:
  "sys_db (run2 ms) = \<lparr>db_transactions = [\<lparr>tx_chain = row1 ms, tx_status = Queued\<rparr>], db_previews = [],
     db_approvals = [\<lparr>ap_transaction_id = ''t1'', ap_receipt_digest = digest_ref ms,
       ap_approved_at = ''2026-01-01 00:00:00'', ap_consumed_at = None\<rparr>],
     db_events = [event1 ms]\<rparr>"
  using fresh_ref [of ms Queued]
  by (simp add: run2_def run1_db approve_commit_def append_event_def event_chain_tip_def newest_by_def
      unwrap_or_default_def event1_def Let_def) (simp add: row1_def clock_ref_def)

lemma claimable_run2: "claimable (store_ref ms) clock_ref ''t1'' (digest_ref ms) (sys_db (run2 ms))"
  using fresh_ref [of ms Queued] by (simp add: claimable_def run2_db) (simp add: row1_def)

lemma store_ref_key: "st_audit_key (store_ref ms) = Some key_ref"
  by simp

lemma run3_rows:
  "db_transactions (sys_db (run3 ms)) = [\<lparr>tx_chain = row1 ms, tx_status = Running\<rparr>]"
  using fresh_ref [of ms Queued]
  by (simp add: run3_def claim_cases [OF store_ref_key] claimable_run2)
    (simp add: run2_db update_status_where_def, simp add: row1_def)

lemma ref_nonempty: "sig_nonempty (crypto_ref ms)"
  by (rule sig_correct_nonempty [OF sig_correct_ref])

lemma ref_inv: "store_reach (store_ref ms) {} s \<Longrightarrow> store_inv False (store_ref ms) key_ref (sys_db s)"
  by (rule store_reach_store_inv) (simp_all add: ref_nonempty)

section \<open>Witnesses\<close>

theorem reachable_store_verifies_witness:
  "verify_audit_chain (store_ref []) key_ref (sys_db (run3 [])) = Intact 1"
  using reachable_store_verifies [OF run3_reach [of "[]" "{}"], of key_ref]
  by (simp add: sig_correct_ref hex_laws_ref run3_rows)

text \<open>The message of the row is not the one of its receipt, so listing it does not change the receipt.\<close>

definition tx_message1 :: string where
  "tx_message1 = chain_message (content1 []) []"

lemma digest_ref_same:
  assumes "m \<noteq> approval_message ''t1'' ''h''"
  shows "digest_ref [m] = digest_ref []"
  using assms by (simp add: digest_ref_def receipt_ref_def approval_receipt_def approval_receipt_digest_def sign_ref_def)

lemma tx_msg_row1: "tx_msg (row1 ms) = chain_message (content1 ms) []"
  by (simp add: row_msg_def tx_content_def chain_row_identity_def chain_row_content_def row1_def content1_def
      version_defs non_empty_def del: role_as_str.simps)

lemma tx_message1_row: "tx_msg (row1 [tx_message1]) = tx_message1"
proof -
  have "tx_message1 \<noteq> approval_message ''t1'' ''h''"
    using messages_separate by (auto simp: tx_message1_def)
  then show ?thesis
    unfolding tx_msg_row1 by (simp add: content1_def digest_ref_same tx_message1_def del: role_as_str.simps)
qed

theorem transaction_chain_tamper_evident_witness:
  "1 = length [row1 [tx_message1]] \<and> 1 \<le> length (fetch_chain_rows (sys_db (run1 [tx_message1])))"
proof -
  have rows: "fetch_chain_rows (sys_db (run1 [tx_message1])) = [row1 [tx_message1]]"
    by (simp add: fetch_chain_rows_def run1_db)
  have hash: "cr_chain_hash (row1 [tx_message1]) = hex_encode_ref (sign_ref [tx_message1] tx_message1)"
    using tx_message1_row unfolding tx_msg_row1 by (simp add: row1_def chain_hash_def)
  have intact: "verify_chain (crypto_ref [tx_message1]) key_ref [row1 [tx_message1]] = Intact 1"
    using store_inv_verifies(1) [OF ref_inv [OF run1_reach [of "[tx_message1]"]]]
    by (simp add: sig_correct_ref hex_laws_ref rows) (simp add: run1_db)
  show ?thesis
    using transaction_chain_tamper_evident [OF run1_reach [of "[tx_message1]" "{}"], of key_ref "{tx_message1}" "[row1 [tx_message1]]" 1]
      unforgeable_ref [of "[tx_message1]" "{cr_chain_hash (row1 [tx_message1])}"]
    by (simp add: ref_nonempty hex_laws_ref hash intact rows tx_message1_row only_signed_def key_ref_def)
qed

definition ev_message1 :: string where
  "ev_message1 = ev_msg (event1 [])"

lemma ev_msg_event1:
  "ev_msg (event1 ms) = event_message \<lparr>ec_seq = 1, ec_key_id = CURRENT_KEY_ID, ec_kind = ApprovalGranted,
     ec_transaction_id = ''t1'', ec_receipt_digest = digest_ref ms, ec_created_at = ''2026-01-01T00:00:00.000Z'',
     ec_identity = EvV2 (as_signed_str (Uid 1000))\<rparr> []"
  by (simp add: row_msg_def event1_def ev_content_new_event) (simp add: new_event_def)

lemma ev_message1_row: "ev_msg (event1 [ev_message1]) = ev_message1"
proof -
  have "ev_message1 \<noteq> approval_message ''t1'' ''h''"
    unfolding ev_message1_def ev_msg_event1 by (rule messages_separate)
  then have "digest_ref [ev_message1] = digest_ref []" by (rule digest_ref_same)
  then show ?thesis unfolding ev_msg_event1 by (simp add: ev_message1_def ev_msg_event1)
qed

theorem event_chain_tamper_evident_witness:
  "1 = length [event1 [ev_message1]] \<and> 1 \<le> length (fetch_event_rows (sys_db (run2 [ev_message1])))"
proof -
  have rows: "fetch_event_rows (sys_db (run2 [ev_message1])) = [event1 [ev_message1]]"
    by (simp add: fetch_event_rows_def run2_db)
  have "er_chain_hash (event1 ms) = hex_encode_ref (sign_ref ms (ev_msg (event1 ms)))" for ms
    unfolding ev_msg_event1 by (simp add: event1_def new_event_def event_hash_def)
  then have hash: "er_chain_hash (event1 [ev_message1]) = hex_encode_ref (sign_ref [ev_message1] ev_message1)"
    using ev_message1_row by simp
  have intact: "verify_event_chain (crypto_ref [ev_message1]) key_ref [event1 [ev_message1]] = Intact 1"
    using store_inv_verifies(2) [OF ref_inv [OF run2_reach [of "[ev_message1]"]]]
    by (simp add: sig_correct_ref hex_laws_ref rows) (simp add: run2_db)
  show ?thesis
    using event_chain_tamper_evident [OF run2_reach [of "[ev_message1]" "{}"], of key_ref "{ev_message1}" "[event1 [ev_message1]]" 1]
      unforgeable_ref [of "[ev_message1]" "{er_chain_hash (event1 [ev_message1])}"]
    by (simp add: ref_nonempty hex_laws_ref hash intact rows ev_message1_row only_signed_def key_ref_def)
qed

lemma run2_run3: "(store_step (store_ref ms) targets)\<^sup>*\<^sup>* (run2 ms) (run3 ms)"
  unfolding run3_def by (rule r_into_rtranclp) (rule step_claim)

theorem tables_refine_ledger_witness:
  "replay False (kinds_of ''t1'' (sys_db (run3 []))) = Some (Running, approval_of ''t1'' (sys_db (run3 [])))"
  using tables_refine_ledger [OF run3_reach [of "[]" "{}"] store_ref_key, of "\<lparr>tx_chain = row1 [], tx_status = Running\<rparr>"]
  by (simp add: ref_nonempty run3_rows) (simp add: row1_def)

theorem executed_only_with_approval_witness:
  "approval_of ''t1'' (sys_db (run3 [])) = Spent"
  using executed_only_with_approval [OF run3_reach [of "[]" "{Succeeded, Failed, RolledBack, NeedsReboot}"] _ store_ref_key,
      of "\<lparr>tx_chain = row1 [], tx_status = Running\<rparr>"]
  by (simp add: ref_nonempty run3_rows) (simp add: row1_def)

theorem claim_single_use_witness:
  "claim_approved_for_execution (store_ref []) clock_ref ''t1'' (digest_ref []) (Uid 1000) (sys_db (run3 []))
    = (Inr False, sys_db (run3 []))"
proof -
  let ?c = "claim_approved_for_execution (store_ref []) clock_ref ''t1'' (digest_ref []) (Uid 1000) (sys_db (run2 []))"
  have "?c = (fst ?c, sys_db (run3 []))"
    by (simp add: run3_def)
  from claim_single_use [OF run2_reach [of "[]" "{}"] store_ref_key _ this] show ?thesis
    by (simp add: ref_nonempty claimable_run2)
qed

definition late_clock :: sql_clock where
  "late_clock = clock_ref\<lparr>ck_minutes_ago := \<lambda>_. 1000\<rparr>"

theorem reconcile_terminates_witness:
  "\<exists>db'. reconcile_interrupted_running (list_running_ids (store_ref []) (\<lambda>_. []) clock_ref)
      (\<lambda>i txid. update_status (store_ref []) clock_ref txid Failed) 2 0 (sys_db (run3 []))
    = Some (Inr 1, db') \<and> running_ids db' = {}"
proof -
  have "running_ids (sys_db (run3 [])) = {''t1''}"
    by (simp add: running_ids_def run3_rows Collect_conv_if) (simp add: row1_def)
  then have card: "card (running_ids (sys_db (run3 []))) = 1" by simp
  then show ?thesis
    using reconcile_terminates [OF run3_reach [of "[]" "{}"] store_ref_key, of 2 "\<lambda>_. []" clock_ref "\<lambda>_. clock_ref"]
    by (auto simp: ref_nonempty store_ref_def)
qed

lemma vk_ref: "parse_verifying_key (crypto_ref ms) (hex_encode_ref (replicate 32 (CHR ''a''))) = Some ()"
proof -
  have "trim (hex_encode_ref (replicate 32 (CHR ''a''))) = hex_encode_ref (replicate 32 (CHR ''a''))" by code_simp
  then show ?thesis by (simp add: parse_verifying_key_def hex_decode_encode)
qed

theorem checkpoints_detect_truncation_witness:
  "cp_seq (sign_checkpoint (crypto_ref [tx_message1]) key_ref 1 (cr_chain_hash (row1 [tx_message1])) ''now'')
     \<le> length [row1 [tx_message1]]"
proof -
  let ?ms = "[tx_message1]"
  let ?cp = "sign_checkpoint (crypto_ref ?ms) key_ref 1 (cr_chain_hash (row1 ?ms)) ''now''"
  have rows: "fetch_chain_rows (sys_db (run1 ?ms)) = [row1 ?ms]"
    by (simp add: fetch_chain_rows_def run1_db)
  have hash: "cr_chain_hash (row1 ?ms) = hex_encode_ref (sign_ref ?ms tx_message1)"
    using tx_message1_row unfolding tx_msg_row1 by (simp add: row1_def chain_hash_def)
  have intact: "verify_chain (crypto_ref ?ms) key_ref [row1 ?ms] = Intact 1"
    using store_inv_verifies(1) [OF ref_inv [OF run1_reach [of ?ms]]]
    by (simp add: sig_correct_ref hex_laws_ref rows) (simp add: run1_db)
  have search: "binary_search_by_key cr_seq [row1 ?ms] 1 = Some 0"
    by (simp add: binary_search_by_key_iff) (simp add: row1_def)
  have "signature_ok (crypto_ref ?ms) () (checkpoint_message 1 (cr_chain_hash (row1 ?ms)) ''now'') (cp_signature ?cp)"
    by (simp add: sign_checkpoint_def signature_ok_def hex_decode_encode) (simp add: sign_ref_def)
  then have "verify_checkpoints (st_crypto (store_ref ?ms)) (hex_encode_ref (replicate 32 (CHR ''a''))) [row1 ?ms] [?cp]
      = CheckpointsConsistent 1"
    using search by (simp add: verify_checkpoints_def vk_ref) (simp add: sign_checkpoint_def)
  from checkpoints_detect_truncation [OF run1_reach [of ?ms "{}"] store_ref_key _ _ _ _ _ this, of "{tx_message1}" 1 ?cp]
  show ?thesis
    using unforgeable_ref [of ?ms "{cr_chain_hash (row1 ?ms)}"] intact
    by (simp add: ref_nonempty hex_laws_ref hash rows tx_message1_row only_signed_def key_ref_def sign_checkpoint_def)
qed

end
