(* ===== verification/Sk_Validate.thy ===== *)
theory Sk_Validate
  imports Sk_Prelude
begin

text \<open>
  The argument screens of \<^verbatim>\<open>actions/validate.rs\<close>: every string that a caller's parameters put
  on a privileged command line passes one of them first. The definitions follow the file in
  order; each takes the value and the name of the parameter and returns the value, or
  \<^verbatim>\<open>ExecutorError::InvalidParam\<close> with that name.

  A check of \<^verbatim>\<open>chars()\<close> against an ASCII class is a check of the bytes (see the prelude). The
  contract that the screens share is the locale \<open>screen\<close>; \<open>argv_screen\<close> extends it with what
  makes a value safe as one element of a command line. Both are interpreted on the screens
  of the file, and the properties of single screens follow.
\<close>

named_theorems bound_defs \<open>the field bounds\<close>
named_theorems screen_defs \<open>the screens\<close>

section \<open>Errors\<close>

datatype executor_error =
    UnknownAction string
  | MissingParam string
  | InvalidParam string
  | InvalidIpAddress string string
  | Io string
  | ActionNotStopped string int nat

type_synonym screened = "executor_error + string"

section \<open>Field bounds\<close>

definition MAX_USERNAME_LEN :: nat where
  [bound_defs]: "MAX_USERNAME_LEN = 32"

definition MAX_DNS_NAME_LEN :: nat where
  [bound_defs]: "MAX_DNS_NAME_LEN = 253"

definition MAX_DNS_LABEL_LEN :: nat where
  [bound_defs]: "MAX_DNS_LABEL_LEN = 63"

definition MAX_PORT :: nat where
  [bound_defs]: "MAX_PORT = 65535"

definition MAX_LVM_NAME_LEN :: nat where
  [bound_defs]: "MAX_LVM_NAME_LEN = 127"

definition MAX_LVM_SIZE_LEN :: nat where
  [bound_defs]: "MAX_LVM_SIZE_LEN = 32"

definition MAX_JOURNAL_TIME_LEN :: nat where
  [bound_defs]: "MAX_JOURNAL_TIME_LEN = 64"

definition MAX_JOURNAL_GREP_LEN :: nat where
  [bound_defs]: "MAX_JOURNAL_GREP_LEN = 256"

definition MAX_SYSCTL_KEY_LEN :: nat where
  [bound_defs]: "MAX_SYSCTL_KEY_LEN = 128"

definition MAX_SYSCTL_VALUE_LEN :: nat where
  [bound_defs]: "MAX_SYSCTL_VALUE_LEN = 200"

definition MAX_MEMORY_LIMIT_LEN :: nat where
  [bound_defs]: "MAX_MEMORY_LIMIT_LEN = 24"

definition MAX_TASKS_MAX_DIGITS :: nat where
  [bound_defs]: "MAX_TASKS_MAX_DIGITS = 12"

definition MAX_FSTAB_FIELD_LEN :: nat where
  [bound_defs]: "MAX_FSTAB_FIELD_LEN = 256"

definition MAX_SUDOERS_NAME_LEN :: nat where
  [bound_defs]: "MAX_SUDOERS_NAME_LEN = 64"

definition MAX_ABSOLUTE_PATH_LEN :: nat where
  [bound_defs]: "MAX_ABSOLUTE_PATH_LEN = 255"

definition MAX_SYSLOG_HOST_LEN :: nat where
  [bound_defs]: "MAX_SYSLOG_HOST_LEN = 255"

definition MAX_APT_PACKAGE_LEN :: nat where
  [bound_defs]: "MAX_APT_PACKAGE_LEN = 128"

definition MAX_APT_PIN_EXPR_LEN :: nat where
  [bound_defs]: "MAX_APT_PIN_EXPR_LEN = 200"

definition MAX_SUDO_COMMANDS_LEN :: nat where
  [bound_defs]: "MAX_SUDO_COMMANDS_LEN = 1024"

definition MAX_EMAIL_LEN :: nat where
  [bound_defs]: "MAX_EMAIL_LEN = 254"

definition MIN_EMAIL_LEN :: nat where
  [bound_defs]: "MIN_EMAIL_LEN = 3"
definition LOG_ROOT :: string where
  "LOG_ROOT = ''/var/log/''"

section \<open>Accounts\<close>

definition is_one_of :: "string \<Rightarrow> char \<Rightarrow> bool" where
  "is_one_of cs c \<longleftrightarrow> c \<in> set cs"

definition validated_username :: "string \<Rightarrow> string \<Rightarrow> screened" where
  [screen_defs]: "validated_username s param =
     (if s = [] \<or> length s > MAX_USERNAME_LEN then Inl (InvalidParam param)
      else if starts_with s ''-'' \<or> starts_with s ''.'' \<or> contains_str s ''..'' then Inl (InvalidParam param)
      else if \<not> list_all (\<lambda>c. is_ascii_alphanumeric c \<or> is_one_of ''._-'' c) s then Inl (InvalidParam param)
      else Inr s)"

definition validated_group :: "string \<Rightarrow> string \<Rightarrow> screened" where
  [screen_defs]: "validated_group s param = validated_username s param"

definition CRITICAL_ACCOUNTS :: "string list" where
  "CRITICAL_ACCOUNTS =
    [''root'', ''daemon'', ''bin'', ''sys'', ''sudo'', ''adm'']"

definition CRITICAL_GROUPS :: "string list" where
  "CRITICAL_GROUPS =
    [''root'', ''sudo'', ''wheel'', ''adm'', ''sys'', ''daemon'', ''bin'', ''staff'',
     ''shadow'', ''disk'']"

definition validated_username_not_critical :: "string \<Rightarrow> string \<Rightarrow> screened" where
  [screen_defs]: "validated_username_not_critical s param =
     and_then (validated_username s param) (\<lambda>s.
       if s \<in> set CRITICAL_ACCOUNTS then Inl (InvalidParam param) else Inr s)"

definition validated_group_not_critical :: "string \<Rightarrow> string \<Rightarrow> screened" where
  [screen_defs]: "validated_group_not_critical s param =
     and_then (validated_group s param) (\<lambda>s.
       if s \<in> set CRITICAL_GROUPS then Inl (InvalidParam param) else Inr s)"

section \<open>Units\<close>

definition validated_unit_name :: "string \<Rightarrow> string \<Rightarrow> screened" where
  [screen_defs]: "validated_unit_name s param =
     (if s = [] \<or> starts_with s ''-'' then Inl (InvalidParam param)
      else if \<not> list_all (\<lambda>c. is_ascii_alphanumeric c \<or> is_one_of ''@._:-'' c) s then Inl (InvalidParam param)
      else Inr s)"

definition ROOT_SHELL_UNITS :: "string list" where
  "ROOT_SHELL_UNITS =
    [''debug-shell'', ''emergency'', ''rescue'', ''runlevel1'', ''single'']"

definition POWER_STATE_UNITS :: "string list" where
  "POWER_STATE_UNITS =
    [''reboot'', ''soft-reboot'', ''poweroff'', ''halt'', ''kexec'', ''ctrl-alt-del'',
     ''exit'', ''runlevel0'', ''runlevel6'', ''shutdown'', ''umount'', ''sleep'', ''suspend'',
     ''hibernate'', ''hybrid-sleep'', ''suspend-then-hibernate'', ''systemd-reboot'',
     ''systemd-soft-reboot'', ''systemd-poweroff'', ''systemd-halt'', ''systemd-kexec'',
     ''systemd-exit'', ''systemd-suspend'', ''systemd-hibernate'', ''systemd-hybrid-sleep'',
     ''systemd-suspend-then-hibernate'']"

definition UNIT_TYPE_SUFFIXES :: "string list" where
  "UNIT_TYPE_SUFFIXES =
    [''.service'', ''.target'', ''.socket'', ''.mount'', ''.path'', ''.slice'', ''.scope'']"

text \<open>\<^verbatim>\<open>Iterator::find_map\<close>.\<close>

fun find_map :: "('a \<Rightarrow> 'b option) \<Rightarrow> 'a list \<Rightarrow> 'b option" where
  "find_map f [] = None"
| "find_map f (x # xs) = (case f x of Some y \<Rightarrow> Some y | None \<Rightarrow> find_map f xs)"

definition bare_unit_name :: "string \<Rightarrow> string" where
  "bare_unit_name unit_name =
     (let lower = to_ascii_lowercase unit_name;
          stripped = (case find_map (strip_suffix lower) UNIT_TYPE_SUFFIXES of
                        Some t \<Rightarrow> t | None \<Rightarrow> lower)
      in case split_once stripped ''@'' of Some (template, _) \<Rightarrow> template | None \<Rightarrow> stripped)"

definition validated_activatable_unit :: "string \<Rightarrow> string \<Rightarrow> screened" where
  [screen_defs]: "validated_activatable_unit s param =
     and_then (validated_unit_name s param) (\<lambda>unit_name.
       let bare = bare_unit_name unit_name in
       if bare \<in> set ROOT_SHELL_UNITS \<or> bare \<in> set POWER_STATE_UNITS then Inl (InvalidParam param)
       else Inr unit_name)"

definition RESOURCE_LIMIT_PROTECTED_UNITS :: "string list" where
  "RESOURCE_LIMIT_PROTECTED_UNITS =
    [''sysknife-daemon'', ''auditd'', ''systemd-journald'', ''rsyslog'', ''dbus'',
     ''dbus-broker'', ''polkit'', ''polkitd'', ''systemd-logind'', ''ssh'', ''sshd'']"

definition RESOURCE_LIMIT_PROTECTED_PREFIXES :: "string list" where
  "RESOURCE_LIMIT_PROTECTED_PREFIXES =
    [''systemd-journald'', ''auditd'', ''audit-rules'']"

definition is_protected_unit :: "string \<Rightarrow> bool" where
  "is_protected_unit bare \<longleftrightarrow>
     bare \<in> set RESOURCE_LIMIT_PROTECTED_UNITS
     \<or> list_ex (\<lambda>family. starts_with bare family) RESOURCE_LIMIT_PROTECTED_PREFIXES"

definition validated_stoppable_unit :: "string \<Rightarrow> string \<Rightarrow> screened" where
  [screen_defs]: "validated_stoppable_unit s param =
     and_then (validated_unit_name s param) (\<lambda>unit_name.
       if is_protected_unit (bare_unit_name unit_name) then Inl (InvalidParam param) else Inr unit_name)"

definition validated_resource_limit_unit :: "string \<Rightarrow> string \<Rightarrow> screened" where
  [screen_defs]: "validated_resource_limit_unit s param =
     and_then (validated_unit_name s param) (\<lambda>unit_name.
       let lower = to_ascii_lowercase unit_name in
       if ends_with lower ''.slice'' \<or> ends_with lower ''.scope'' then Inl (InvalidParam param)
       else if is_protected_unit (bare_unit_name unit_name) then Inl (InvalidParam param)
       else Inr unit_name)"

section \<open>Host, time zone, locale\<close>

definition validated_hostname :: "string \<Rightarrow> string \<Rightarrow> screened" where
  [screen_defs]: "validated_hostname s param =
     (if s = [] \<or> length s > MAX_DNS_NAME_LEN \<or> starts_with s ''-'' then Inl (InvalidParam param)
      else if \<not> list_all (\<lambda>c. is_ascii_alphanumeric c \<or> is_one_of ''.-'' c) s then Inl (InvalidParam param)
      else if list_ex (\<lambda>label. label = [] \<or> length label > MAX_DNS_LABEL_LEN) (split_char (CHR ''.'') s)
           then Inl (InvalidParam param)
      else Inr s)"

definition validated_timezone :: "string \<Rightarrow> string \<Rightarrow> screened" where
  [screen_defs]: "validated_timezone s param =
     (if s = [] \<or> starts_with s ''-'' then Inl (InvalidParam param)
      else if contains_str s ''..'' then Inl (InvalidParam param)
      else if \<not> list_all (\<lambda>c. is_ascii_alphanumeric c \<or> is_one_of ''/_+-'' c) s then Inl (InvalidParam param)
      else Inr s)"

definition validated_locale :: "string \<Rightarrow> string \<Rightarrow> screened" where
  [screen_defs]: "validated_locale s param =
     (if s = [] \<or> starts_with s ''-'' then Inl (InvalidParam param)
      else if \<not> list_all (\<lambda>c. is_ascii_alphanumeric c \<or> is_one_of ''._-'' c) s then Inl (InvalidParam param)
      else Inr s)"

section \<open>Archives, profiles, ports\<close>

definition SAFE_ARG_MAX_BYTES :: nat where
  [bound_defs]: "SAFE_ARG_MAX_BYTES = 254"

definition validated_ppa_name :: "string \<Rightarrow> string \<Rightarrow> screened" where
  [screen_defs]: "validated_ppa_name s param =
     (case split_once s ''/'' of
        None \<Rightarrow> Inl (InvalidParam param)
      | Some (user, ppa) \<Rightarrow>
          if user = [] \<or> ppa = [] then Inl (InvalidParam param)
          else if \<not> list_all (\<lambda>c. is_ascii_alphanumeric c \<or> is_one_of ''._-'' c) user
               \<or> \<not> list_all (\<lambda>c. is_ascii_alphanumeric c \<or> is_one_of ''._-'' c) ppa then Inl (InvalidParam param)
          else if length s > SAFE_ARG_MAX_BYTES then Inl (InvalidParam param)
          else Inr s)"

definition APPARMOR_PROFILE_NAME_MAX :: nat where
  [bound_defs]: "APPARMOR_PROFILE_NAME_MAX = 128"

definition APPARMOR_PREFIX :: string where
  "APPARMOR_PREFIX = ''/etc/apparmor.d/''"

definition validated_apparmor_profile :: "string \<Rightarrow> string \<Rightarrow> screened" where
  [screen_defs]: "validated_apparmor_profile s param =
     (if s = [] then Inl (InvalidParam param)
      else if starts_with s ''/'' then
        (if \<not> starts_with s APPARMOR_PREFIX then Inl (InvalidParam param)
         else if contains_str s ''..'' then Inl (InvalidParam param)
         else
           let suffix_part = drop (length APPARMOR_PREFIX) s in
           if suffix_part = [] then Inl (InvalidParam param)
           else if \<not> list_all (\<lambda>c. is_ascii_alphanumeric c \<or> is_one_of ''._-/'' c) suffix_part
                then Inl (InvalidParam param)
           else Inr s)
      else
        (if contains_str s ''/'' then Inl (InvalidParam param)
         else if starts_with s ''.'' \<or> starts_with s ''-'' then Inl (InvalidParam param)
         else if length s > APPARMOR_PROFILE_NAME_MAX then Inl (InvalidParam param)
         else if \<not> list_all (\<lambda>c. is_ascii_alphanumeric c \<or> is_one_of ''._-'' c) s then Inl (InvalidParam param)
         else Inr s))"

definition UFW_APP_NAME_MAX :: nat where
  [bound_defs]: "UFW_APP_NAME_MAX = 64"

text \<open>\<^verbatim>\<open>parse::<u32>()\<close> of a port and its range, the same in both numeric forms.\<close>

definition port_number_ok :: "string \<Rightarrow> bool" where
  "port_number_ok digits \<longleftrightarrow>
     (case parse_uint (2 ^ 32 - 1) digits of
        None \<Rightarrow> False
      | Some port \<Rightarrow> \<not> (port = 0 \<or> port > MAX_PORT))"

definition validated_port_or_service :: "string \<Rightarrow> string \<Rightarrow> screened" where
  [screen_defs]: "validated_port_or_service s param =
     (if s = [] then Inl (InvalidParam param)
      else case split_once s ''/'' of
        Some (port_part, proto_part) \<Rightarrow>
          if proto_part \<noteq> ''tcp'' \<and> proto_part \<noteq> ''udp'' then Inl (InvalidParam param)
          else if port_part = [] \<or> \<not> list_all is_ascii_digit port_part then Inl (InvalidParam param)
          else if \<not> port_number_ok port_part then Inl (InvalidParam param)
          else Inr s
      | None \<Rightarrow>
          if list_all is_ascii_digit s then
            (if \<not> port_number_ok s then Inl (InvalidParam param) else Inr s)
          else if \<not> is_ascii_alphabetic (hd s) then Inl (InvalidParam param)
          else if length s > UFW_APP_NAME_MAX \<or> ends_with s '' '' then Inl (InvalidParam param)
          else if \<not> list_all (\<lambda>c. is_ascii_alphanumeric c \<or> is_one_of ''_- '' c) s then Inl (InvalidParam param)
          else Inr s)"

section \<open>General arguments and image references\<close>

definition validated_safe_arg :: "string \<Rightarrow> string \<Rightarrow> screened" where
  [screen_defs]: "validated_safe_arg s param =
     (if s = [] \<or> length s > SAFE_ARG_MAX_BYTES then Inl (InvalidParam param)
      else if starts_with s ''-'' then Inl (InvalidParam param)
      else if \<not> list_all (\<lambda>c. is_ascii_alphanumeric c \<or> is_one_of ''._:/+@-'' c) s then Inl (InvalidParam param)
      else Inr s)"

definition LOCAL_IMAGE_TRANSPORTS :: "string list" where
  "LOCAL_IMAGE_TRANSPORTS =
    [''oci'', ''oci-archive'', ''dir'', ''docker-archive'', ''docker-daemon'',
     ''containers-storage'', ''ostree'', ''sif'', ''tarball'', ''file'']"

definition UNVERIFIED_IMAGE_TRANSPORTS :: "string list" where
  "UNVERIFIED_IMAGE_TRANSPORTS =
    [''ostree-unverified-registry'', ''ostree-unverified-image'']"

text \<open>The loop over the \<^verbatim>\<open>:\<close>-separated parts; \<open>previous\<close> is the part before, in lower case.\<close>

fun rebase_parts_ok :: "string \<Rightarrow> string list \<Rightarrow> bool" where
  "rebase_parts_ok previous [] = True"
| "rebase_parts_ok previous (part # parts) =
     (let lower = to_ascii_lowercase part;
          local_path = (starts_with part ''/''
                        \<and> \<not> (previous = ''docker'' \<and> starts_with part ''//''))
      in if lower \<in> set LOCAL_IMAGE_TRANSPORTS \<or> lower \<in> set UNVERIFIED_IMAGE_TRANSPORTS
            \<or> starts_with part ''.'' \<or> local_path
         then False
         else rebase_parts_ok lower parts)"

definition validated_rebase_ref :: "string \<Rightarrow> string \<Rightarrow> screened" where
  [screen_defs]: "validated_rebase_ref s param =
     and_then (validated_safe_arg s param) (\<lambda>target.
       if \<not> rebase_parts_ok [] (split_char (CHR '':'') target) then Inl (InvalidParam param)
       else if contains_str target ''..'' \<or> contains_str target ''@/'' then Inl (InvalidParam param)
       else Inr target)"

section \<open>Logical volumes\<close>

definition validated_lvm_name :: "string \<Rightarrow> string \<Rightarrow> screened" where
  [screen_defs]: "validated_lvm_name s param =
     (if s = [] \<or> length s > MAX_LVM_NAME_LEN then Inl (InvalidParam param)
      else if \<not> (is_ascii_alphanumeric (hd s) \<or> hd s = CHR ''_'') then Inl (InvalidParam param)
      else if \<not> list_all (\<lambda>c. is_ascii_alphanumeric c \<or> is_one_of ''+_.-'' c) s then Inl (InvalidParam param)
      else Inr s)"

text \<open>The number and the unit letter of a size: the last character is the unit when it is a letter.\<close>

definition lvm_size_parts :: "string \<Rightarrow> string \<times> char option" where
  "lvm_size_parts body =
     (case last_opt body of
        Some c \<Rightarrow> if is_ascii_alphabetic c then (butlast body, Some c) else (body, None)
      | None \<Rightarrow> (body, None))"

definition validated_lvm_size :: "string \<Rightarrow> string \<Rightarrow> screened" where
  [screen_defs]: "validated_lvm_size s param =
     (if length s > MAX_LVM_SIZE_LEN then Inl (InvalidParam param)
      else
        let body = (case strip_prefix s ''+'' of Some b \<Rightarrow> b | None \<Rightarrow> s);
            (digits, unit_letter) = lvm_size_parts body
        in if (case unit_letter of None \<Rightarrow> False | Some c \<Rightarrow> \<not> is_one_of ''kKmMgGtTpP'' c) then Inl (InvalidParam param)
           else if digits = [] \<or> count_list digits (CHR ''.'') > 1
                \<or> \<not> list_all (\<lambda>c. is_ascii_digit c \<or> c = CHR ''.'') digits
                \<or> starts_with digits ''.'' \<or> ends_with digits ''.'' then Inl (InvalidParam param)
           else Inr s)"

section \<open>Journal queries\<close>

definition JOURNAL_PRIORITY_NAMES :: "string list" where
  "JOURNAL_PRIORITY_NAMES =
    [''emerg'', ''alert'', ''crit'', ''err'', ''warning'', ''notice'', ''info'', ''debug'']"

definition is_level :: "string \<Rightarrow> bool" where
  "is_level lvl \<longleftrightarrow>
     lvl \<in> set [''0'', ''1'', ''2'', ''3'', ''4'', ''5'', ''6'', ''7'']
     \<or> lvl \<in> set JOURNAL_PRIORITY_NAMES"

definition validated_journal_priority :: "string \<Rightarrow> string \<Rightarrow> screened" where
  [screen_defs]: "validated_journal_priority s param =
     (if (case split_once s ''..'' of
            Some (lo, hi) \<Rightarrow> is_level lo \<and> is_level hi
          | None \<Rightarrow> is_level s)
      then Inr s else Inl (InvalidParam param))"

definition validated_journal_time :: "string \<Rightarrow> string \<Rightarrow> screened" where
  [screen_defs]: "validated_journal_time s param =
     (if s = [] \<or> length s > MAX_JOURNAL_TIME_LEN then Inl (InvalidParam param)
      else if \<not> list_all (\<lambda>c. is_ascii_alphanumeric c \<or> is_one_of '' :-+.,'' c) s then Inl (InvalidParam param)
      else Inr s)"

text \<open>
  \<^verbatim>\<open>char::is_control\<close>: \<^verbatim>\<open>U+0000..U+001F\<close>, \<^verbatim>\<open>U+007F\<close>, and \<^verbatim>\<open>U+0080..U+009F\<close>, which are the
  bytes \<^verbatim>\<open>C2 80\<close> to \<^verbatim>\<open>C2 9F\<close>.
\<close>

fun has_control :: "string \<Rightarrow> bool" where
  "has_control [] \<longleftrightarrow> False"
| "has_control (c # s) \<longleftrightarrow>
     byte c < 32 \<or> byte c = 127
     \<or> (byte c = 0xC2 \<and> (case s of d # _ \<Rightarrow> 0x80 \<le> byte d \<and> byte d \<le> 0x9F | [] \<Rightarrow> False))
     \<or> has_control s"

definition validated_journal_grep :: "string \<Rightarrow> string \<Rightarrow> screened" where
  [screen_defs]: "validated_journal_grep s param =
     (if s = [] \<or> length s > MAX_JOURNAL_GREP_LEN then Inl (InvalidParam param)
      else if has_control s then Inl (InvalidParam param)
      else Inr s)"

section \<open>Kernel settings and resource limits\<close>

definition validated_sysctl_key :: "string \<Rightarrow> string \<Rightarrow> screened" where
  [screen_defs]: "validated_sysctl_key s param =
     (if s = [] \<or> length s > MAX_SYSCTL_KEY_LEN then Inl (InvalidParam param)
      else if \<not> is_ascii_lowercase (hd s) \<and> \<not> is_ascii_digit (hd s) then Inl (InvalidParam param)
      else if \<not> list_all (\<lambda>c. is_ascii_lowercase c \<or> is_ascii_digit c \<or> is_one_of ''._-'' c) s
           then Inl (InvalidParam param)
      else Inr s)"

definition validated_sysctl_value :: "string \<Rightarrow> string \<Rightarrow> screened" where
  [screen_defs]: "validated_sysctl_value s param =
     (if s = [] \<or> length s > MAX_SYSCTL_VALUE_LEN then Inl (InvalidParam param)
      else if \<not> list_all (\<lambda>c. is_ascii_alphanumeric c \<or> is_one_of '' ._/:,-'' c) s then Inl (InvalidParam param)
      else Inr s)"

definition validated_memory_limit :: "string \<Rightarrow> string \<Rightarrow> screened" where
  [screen_defs]: "validated_memory_limit s param =
     (if s = ''infinity'' then Inr s
      else if length s > MAX_MEMORY_LIMIT_LEN then Inl (InvalidParam param)
      else
        let digits = (case last_opt s of
                        Some c \<Rightarrow> if is_one_of ''KMGT'' c then butlast s else s
                      | None \<Rightarrow> s)
        in if digits = [] \<or> \<not> list_all is_ascii_digit digits then Inl (InvalidParam param) else Inr s)"

definition validated_cpu_quota :: "string \<Rightarrow> string \<Rightarrow> screened" where
  [screen_defs]: "validated_cpu_quota s param =
     and_then (ok_or (InvalidParam param) (strip_suffix s ''%'')) (\<lambda>digits.
       if digits = [] \<or> length digits > 7 \<or> \<not> list_all is_ascii_digit digits then Inl (InvalidParam param)
       else Inr s)"

definition validated_tasks_max :: "string \<Rightarrow> string \<Rightarrow> screened" where
  [screen_defs]: "validated_tasks_max s param =
     (if s = ''infinity'' then Inr s
      else if s = [] \<or> length s > MAX_TASKS_MAX_DIGITS \<or> \<not> list_all is_ascii_digit s then Inl (InvalidParam param)
      else Inr s)"

section \<open>Mounts and paths\<close>

definition FSTYPE_ALLOW :: "string list" where
  "FSTYPE_ALLOW =
    [''ext4'', ''ext3'', ''ext2'', ''xfs'', ''btrfs'', ''vfat'', ''exfat'', ''ntfs3'', ''nfs'',
     ''nfs4'', ''cifs'']"

definition CRITICAL_MOUNTPOINTS :: "string list" where
  "CRITICAL_MOUNTPOINTS =
    [''/'', ''/boot'', ''/boot/efi'', ''/etc'', ''/usr'', ''/bin'', ''/sbin'', ''/lib'',
     ''/lib64'', ''/var'', ''/home'', ''/root'', ''/proc'', ''/sys'', ''/dev'', ''/run'']"

definition validated_mount_device :: "string \<Rightarrow> string \<Rightarrow> screened" where
  [screen_defs]: "validated_mount_device s param =
     (if s = [] \<or> length s > MAX_FSTAB_FIELD_LEN \<or> starts_with s ''-'' \<or> contains_str s ''..'' then Inl (InvalidParam param)
      else
        let dev_like = (starts_with s ''/dev/''
              \<and> list_all (\<lambda>c. is_ascii_alphanumeric c \<or> is_one_of ''/_.-'' c) (drop 5 s));
            uuid = (case strip_prefix s ''UUID='' of
                      Some u \<Rightarrow> length u \<ge> 8
                                 \<and> list_all (\<lambda>c. is_ascii_hexdigit c \<or> c = CHR ''-'') u
                    | None \<Rightarrow> False);
            label = (case strip_prefix s ''LABEL='' of
                       Some l \<Rightarrow> l \<noteq> []
                                  \<and> list_all (\<lambda>c. is_ascii_alphanumeric c \<or> is_one_of ''_.:-'' c) l
                     | None \<Rightarrow> False);
            cifs = (starts_with s ''//'' \<and> count_list s (CHR ''/'') \<ge> 3
              \<and> list_all (\<lambda>c. is_ascii_alphanumeric c \<or> is_one_of ''/._-'' c) s);
            nfs = (case split_once s '':/'' of
                     Some (host, _) \<Rightarrow> host \<noteq> [] \<and> \<not> starts_with host ''/''
                       \<and> list_all (\<lambda>c. is_ascii_alphanumeric c \<or> is_one_of '':/._-'' c) s
                   | None \<Rightarrow> False)
        in if dev_like \<or> uuid \<or> label \<or> cifs \<or> nfs then Inr s else Inl (InvalidParam param))"

definition validated_absolute_path :: "string \<Rightarrow> string \<Rightarrow> nat \<Rightarrow> screened" where
  [screen_defs]: "validated_absolute_path s param max_len =
     (if \<not> starts_with s ''/'' \<or> length s > max_len \<or> contains_str s ''..'' then Inl (InvalidParam param)
      else if \<not> list_all (\<lambda>c. is_ascii_alphanumeric c \<or> is_one_of ''/_.-'' c) s then Inl (InvalidParam param)
      else Inr s)"

definition validated_home_dir :: "string \<Rightarrow> string \<Rightarrow> screened" where
  [screen_defs]: "validated_home_dir s param = validated_absolute_path s param MAX_FSTAB_FIELD_LEN"

definition validated_mount_point :: "string \<Rightarrow> string \<Rightarrow> screened" where
  [screen_defs]: "validated_mount_point s param =
     and_then (validated_absolute_path s param MAX_FSTAB_FIELD_LEN) (\<lambda>s.
       if s \<in> set CRITICAL_MOUNTPOINTS then Inl (InvalidParam param) else Inr s)"

definition validated_fstype :: "string \<Rightarrow> string \<Rightarrow> screened" where
  [screen_defs]: "validated_fstype s param = (if s \<in> set FSTYPE_ALLOW then Inr s else Inl (InvalidParam param))"

definition MOUNT_OPTIONS_DENY :: "string list" where
  "MOUNT_OPTIONS_DENY =
    [''suid'', ''dev'']"

definition require_option :: "string list \<Rightarrow> string \<Rightarrow> string list" where
  "require_option out required =
     (if \<not> list_ex (\<lambda>opt. eq_ignore_ascii_case opt required) out then out @ [required] else out)"

definition hardened_mount_options :: "string \<Rightarrow> string" where
  "hardened_mount_options requested =
     (let out = filter (\<lambda>opt. opt \<noteq> []) (split_char (CHR '','') requested)
      in join_with '','' (foldl require_option out [''nosuid'', ''nodev'']))"

definition validated_mount_options :: "string \<Rightarrow> string \<Rightarrow> screened" where
  "validated_mount_options s param =
     (if length s > MAX_FSTAB_FIELD_LEN then Inl (InvalidParam param)
      else if \<not> list_all (\<lambda>c. is_ascii_alphanumeric c \<or> is_one_of ''=,._:@/+-'' c) s then Inl (InvalidParam param)
      else if list_ex (\<lambda>opt. list_ex (eq_ignore_ascii_case opt) MOUNT_OPTIONS_DENY)
                (split_char (CHR '','') s) then Inl (InvalidParam param)
      else Inr (hardened_mount_options s))"

definition validated_swap_path :: "string \<Rightarrow> string \<Rightarrow> screened" where
  [screen_defs]: "validated_swap_path s param = validated_absolute_path s param MAX_FSTAB_FIELD_LEN"

section \<open>Drop-in names, log and syslog targets\<close>

definition validated_sudoers_name :: "string \<Rightarrow> string \<Rightarrow> screened" where
  [screen_defs]: "validated_sudoers_name s param =
     (if s = [] \<or> length s > MAX_SUDOERS_NAME_LEN then Inl (InvalidParam param)
      else if \<not> (is_ascii_lowercase (hd s) \<or> is_ascii_digit (hd s)) then Inl (InvalidParam param)
      else if \<not> list_all (\<lambda>c. is_ascii_lowercase c \<or> is_ascii_digit c \<or> is_one_of ''_-'' c) s then Inl (InvalidParam param)
      else Inr s)"

definition validated_apt_pin_name :: "string \<Rightarrow> string \<Rightarrow> screened" where
  [screen_defs]: "validated_apt_pin_name s param = validated_sudoers_name s param"

definition validated_log_path :: "string \<Rightarrow> string \<Rightarrow> screened" where
  [screen_defs]: "validated_log_path s param =
     (if \<not> starts_with s LOG_ROOT \<or> length s > MAX_ABSOLUTE_PATH_LEN \<or> contains_str s ''..'' then Inl (InvalidParam param)
      else if \<not> list_all (\<lambda>c. is_ascii_alphanumeric c \<or> is_one_of ''/._*-'' c) s then Inl (InvalidParam param)
      else Inr s)"

definition LOG_EVIDENCE_DIRS :: "string list" where
  "LOG_EVIDENCE_DIRS =
    [''/var/log'', ''/var/log/audit'', ''/var/log/journal'']"

definition path_parts :: "string \<Rightarrow> string list" where
  "path_parts path = filter (\<lambda>p. p \<noteq> [] \<and> p \<noteq> ''.'') (split_char (CHR ''/'') path)"

definition log_glob_sweeps_evidence :: "string \<Rightarrow> bool" where
  "log_glob_sweeps_evidence path =
     (let parts = path_parts path in
      if parts = [] then False
      else
        let final = last parts; parent = butlast parts in
        if \<not> list_all (\<lambda>c. c = CHR ''*'') final then False
        else (''/'' @ join_with ''/'' parent) \<in> set LOG_EVIDENCE_DIRS
             \<or> list_ex (\<lambda>p. contains_str p ''*'') parent)"

definition validated_log_rotation :: "string \<Rightarrow> nat \<Rightarrow> screened" where
  "validated_log_rotation path rotate_count =
     and_then (validated_log_path path ''path'') (\<lambda>path.
       if log_glob_sweeps_evidence path then Inl (InvalidParam ''path'')
       else if contains_str path ''*'' \<and> rotate_count = 0 then Inl (InvalidParam ''rotate'')
       else Inr path)"

definition validated_syslog_host :: "string \<Rightarrow> string \<Rightarrow> screened" where
  [screen_defs]: "validated_syslog_host s param =
     (if s = [] \<or> length s > MAX_SYSLOG_HOST_LEN \<or> contains_str s ''..'' \<or> starts_with s ''-'' then Inl (InvalidParam param)
      else if \<not> list_all (\<lambda>c. is_ascii_alphanumeric c \<or> is_one_of ''.:_-'' c) s then Inl (InvalidParam param)
      else Inr s)"

section \<open>Packages\<close>

definition validated_install_package :: "string \<Rightarrow> string \<Rightarrow> screened" where
  [screen_defs]: "validated_install_package s param =
     (let first_ok = (case s of c # _ \<Rightarrow> is_ascii_alphanumeric c | [] \<Rightarrow> False);
          charset_ok = list_all (\<lambda>c. is_ascii_alphanumeric c \<or> is_one_of ''+._:=~-'' c) s
      in if s = [] \<or> length s > MAX_APT_PACKAGE_LEN \<or> \<not> first_ok \<or> \<not> charset_ok
            \<or> contains_str s ''/'' \<or> ends_with s ''.deb'' \<or> ends_with s ''.rpm'' \<or> ends_with s ''-''
         then Inl (InvalidParam param)
         else Inr s)"

definition validated_unmodified_package :: "string \<Rightarrow> string \<Rightarrow> screened" where
  [screen_defs]: "validated_unmodified_package s param =
     and_then (validated_install_package s param) (\<lambda>package.
       if ends_with package ''+'' then Inl (InvalidParam param) else Inr package)"

definition validated_apt_show_package :: "string \<Rightarrow> string \<Rightarrow> screened" where
  [screen_defs]: "validated_apt_show_package s param =
     and_then (validated_safe_arg s param) (\<lambda>package.
       if ends_with package ''-'' then Inl (InvalidParam param) else Inr package)"

definition validated_apt_package :: "string \<Rightarrow> string \<Rightarrow> screened" where
  [screen_defs]: "validated_apt_package s param =
     (if s = [] \<or> starts_with s ''-'' \<or> length s > MAX_APT_PACKAGE_LEN
         \<or> \<not> list_all (\<lambda>c. is_ascii_alphanumeric c \<or> is_one_of ''.+*?_:-'' c) s
      then Inl (InvalidParam param) else Inr s)"

definition validated_apt_pin_expr :: "string \<Rightarrow> string \<Rightarrow> screened" where
  [screen_defs]: "validated_apt_pin_expr s param =
     (if s = [] \<or> length s > MAX_APT_PIN_EXPR_LEN
         \<or> \<not> list_all (\<lambda>c. is_ascii_alphanumeric c \<or> is_one_of '' =.,:/*_+-'' c) s
      then Inl (InvalidParam param) else Inr s)"

section \<open>Sudo grants\<close>

definition SHELL_EQUIVALENT_COMMANDS :: "string list" where
  "SHELL_EQUIVALENT_COMMANDS =
    [''sh'', ''bash'', ''rbash'', ''dash'', ''ash'', ''zsh'', ''ksh'', ''ksh93'', ''mksh'',
     ''csh'', ''tcsh'', ''fish'', ''busybox'', ''pwsh'', ''powershell'', ''su'', ''sudo'',
     ''sudoedit'', ''doas'', ''runuser'', ''pkexec'', ''setpriv'', ''chroot'', ''unshare'',
     ''nsenter'', ''capsh'', ''python'', ''python2'', ''python3'', ''perl'', ''perl5'',
     ''ruby'', ''irb'', ''lua'', ''luac'', ''node'', ''nodejs'', ''php'', ''tclsh'', ''wish'',
     ''expect'', ''gdb'', ''julia'', ''guile'', ''rscript'', ''awk'', ''gawk'', ''mawk'',
     ''nawk'', ''sed'', ''ed'', ''vi'', ''vim'', ''vimdiff'', ''view'', ''ex'', ''nvim'',
     ''emacs'', ''nano'', ''less'', ''more'', ''most'', ''man'', ''pg'', ''info'', ''env'',
     ''nice'', ''ionice'', ''taskset'', ''stdbuf'', ''setarch'', ''timeout'', ''watch'',
     ''flock'', ''xargs'', ''find'', ''script'', ''scriptreplay'', ''socat'', ''nc'', ''ncat'',
     ''netcat'', ''tar'', ''cpio'', ''zip'', ''unzip'', ''rsync'', ''scp'', ''sftp'', ''ftp'',
     ''ssh'', ''tmux'', ''screen'', ''byobu'', ''make'', ''cmake'', ''strace'', ''ltrace'',
     ''tcpdump'', ''docker'', ''podman'', ''git'', ''crontab'', ''at'', ''systemctl'',
     ''journalctl'', ''apt'', ''apt-get'', ''dpkg'', ''rpm'', ''yum'', ''dnf'', ''zypper'',
     ''pip'', ''pip3'', ''gem'', ''npm'', ''mount'']"

definition SHELL_EQUIVALENT_SUFFIXES :: "string list" where
  "SHELL_EQUIVALENT_SUFFIXES =
    [''.basic'', ''.tiny'']"

definition trim_end_matches :: "(char \<Rightarrow> bool) \<Rightarrow> string \<Rightarrow> string" where
  "trim_end_matches p s = rev (dropWhile p (rev s))"

definition unversioned_command_name :: "string \<Rightarrow> string" where
  "unversioned_command_name base =
     (let base = (case find_map (strip_suffix base) SHELL_EQUIVALENT_SUFFIXES of
                    Some t \<Rightarrow> t | None \<Rightarrow> base)
      in trim_end_matches (\<lambda>c. is_ascii_digit c \<or> c = CHR ''.'') base)"

definition command_is_shell_equivalent :: "string \<Rightarrow> bool" where
  "command_is_shell_equivalent c =
     (let base = to_ascii_lowercase (last (split_char (CHR ''/'') c)) in
      base \<in> set SHELL_EQUIVALENT_COMMANDS
      \<or> unversioned_command_name base \<in> set SHELL_EQUIVALENT_COMMANDS)"

definition shell_equivalent_sudo_command :: "string \<Rightarrow> string option" where
  "shell_equivalent_sudo_command commands =
     (if commands = ''ALL'' then None
      else find command_is_shell_equivalent
             (filter (\<lambda>c. c \<noteq> []) (split_char (CHR '','') commands)))"

definition sudo_command_ok :: "string \<Rightarrow> bool" where
  "sudo_command_ok c \<longleftrightarrow>
     \<not> (\<not> starts_with c ''/'' \<or> contains_str c ''..'' \<or> contains_str c ''*''
        \<or> \<not> list_all (\<lambda>ch. is_ascii_alphanumeric ch \<or> is_one_of ''/._-'' ch) c)"

definition validated_sudo_commands :: "string \<Rightarrow> string \<Rightarrow> screened" where
  [screen_defs]: "validated_sudo_commands s param =
     (if s = ''ALL'' then Inr s
      else if s = [] \<or> length s > MAX_SUDO_COMMANDS_LEN then Inl (InvalidParam param)
      else
        let commands = filter (\<lambda>c. c \<noteq> []) (split_char (CHR '','') s) in
        if \<not> list_all sudo_command_ok commands then Inl (InvalidParam param)
        else if commands = [] then Inl (InvalidParam param)
        else Inr s)"

section \<open>Ubuntu Pro, audit rules, certificates\<close>

definition PRO_SERVICES :: "string list" where
  "PRO_SERVICES =
    [''esm-apps'', ''esm-infra'', ''livepatch'', ''usg'', ''fips'', ''fips-updates'',
     ''fips-preview'', ''cis'', ''ros'', ''ros-updates'', ''cc-eal'', ''realtime-kernel'',
     ''landscape'', ''anbox-cloud'']"

definition validated_pro_service :: "string \<Rightarrow> string \<Rightarrow> screened" where
  [screen_defs]: "validated_pro_service s param = (if s \<in> set PRO_SERVICES then Inr s else Inl (InvalidParam param))"

definition validated_audit_path :: "string \<Rightarrow> string \<Rightarrow> screened" where
  [screen_defs]: "validated_audit_path s param = validated_absolute_path s param MAX_ABSOLUTE_PATH_LEN"

text \<open>The loop over the flags with its array of four marks; it stops at a repeated flag.\<close>

definition perm_index :: "char \<Rightarrow> nat" where
  "perm_index c = (if c = CHR ''r'' then 0 else if c = CHR ''w'' then 1
                   else if c = CHR ''x'' then 2 else 3)"

fun no_repeated_perm :: "bool list \<Rightarrow> string \<Rightarrow> bool" where
  "no_repeated_perm seen [] = True"
| "no_repeated_perm seen (c # s) =
     (let i = perm_index c in
      if seen ! i then False else no_repeated_perm (seen[i := True]) s)"

definition validated_audit_perms :: "string \<Rightarrow> string \<Rightarrow> screened" where
  [screen_defs]: "validated_audit_perms s param =
     (if s = [] \<or> length s > 4 \<or> \<not> list_all (is_one_of ''rwxa'') s then Inl (InvalidParam param)
      else if \<not> no_repeated_perm [False, False, False, False] s then Inl (InvalidParam param)
      else Inr s)"

definition validated_domain :: "string \<Rightarrow> string \<Rightarrow> screened" where
  [screen_defs]: "validated_domain s param =
     (if s = [] \<or> length s > MAX_DNS_NAME_LEN \<or> contains_str s ''..'' \<or> starts_with s ''-''
         \<or> starts_with s ''.'' \<or> ends_with s ''.'' then Inl (InvalidParam param)
      else if \<not> list_all (\<lambda>c. is_ascii_alphanumeric c \<or> is_one_of ''.-'' c) s then Inl (InvalidParam param)
      else Inr s)"

definition validated_email :: "string \<Rightarrow> string \<Rightarrow> screened" where
  [screen_defs]: "validated_email s param =
     (if length s < MIN_EMAIL_LEN \<or> length s > MAX_EMAIL_LEN then Inl (InvalidParam param)
      else
        (case split_char (CHR ''@'') s of
           [local_part, domain_part] \<Rightarrow>
             if local_part = [] \<or> domain_part = [] \<or> \<not> contains_str domain_part ''.'' then Inl (InvalidParam param)
             else if \<not> list_all (\<lambda>c. is_ascii_alphanumeric c \<or> is_one_of ''@._+-'' c) s then Inl (InvalidParam param)
             else Inr s
         | _ \<Rightarrow> Inl (InvalidParam param)))"

end
