(* ===== verification/Sk_Screens.thy ===== *)
theory Sk_Screens
  imports Sk_Validate
begin

text \<open>
  What the argument screens of \<^verbatim>\<open>actions/validate.rs\<close> guarantee. The locale \<open>screen\<close> is the
  contract every screen keeps (the value comes back unchanged, or the error names the
  parameter), \<open>argv_screen\<close> the contract of those whose value stands alone on a command line;
  both are interpreted on the screens. The properties say what no accepted value can be: an
  option, a second shell word, a path outside its root, a denied unit under another spelling,
  a mount option that grants privilege, an interpreter under a versioned name.
\<close>

section \<open>Lists and strings\<close>

lemma split_join:
  assumes "ws \<noteq> []" "list_all (\<lambda>w. d \<notin> set w) ws"
  shows "split_char d (join_with [d] ws) = ws"
proof -
  have tail: "split_char d (w @ d # r) = w # split_char d r" if "d \<notin> set w" for w r
    using that by (induction w) auto
  have alone: "split_char d w = [w]" if "d \<notin> set w" for w
    using that by (induction w) auto
  show ?thesis
    using assms
  proof (induction ws rule: induct_list012)
    case (3 x y zs)
    then show ?case by (simp add: tail)
  qed (simp_all add: alone)
qed

lemma eq_ignore_ascii_case_refl [simp]: "eq_ignore_ascii_case s s"
  by (simp add: eq_ignore_ascii_case_def)

lemma and_then_Inr [simp]: "and_then r Inr = r"
  by (cases r) auto

lemma find_map_None: "find_map f xs = None \<longleftrightarrow> list_all (\<lambda>x. f x = None) xs"
  by (induction xs) (auto split: option.splits)

lemma find_map_Some: "find_map f xs = Some y \<Longrightarrow> \<exists>x \<in> set xs. f x = Some y"
  by (induction xs) (auto split: option.splits)

lemma strip_suffix_Some: "strip_suffix s p = Some t \<longleftrightarrow> s = t @ p"
proof
  assume "strip_suffix s p = Some t"
  then have "t = take (length s - length p) s" "drop (length s - length p) s = p"
    by (auto simp: strip_suffix_def ends_with_def split: if_splits)
  then show "s = t @ p" by (metis append_take_drop_id)
qed (simp add: strip_suffix_def ends_with_def)

lemma strip_suffix_None: "strip_suffix s p = None \<longleftrightarrow> \<not> (\<exists>t. s = t @ p)"
  by (metis not_None_eq strip_suffix_Some)

section \<open>The contract of a screen\<close>

locale screen =
  fixes v :: "string \<Rightarrow> string \<Rightarrow> screened"
  assumes uniform: "v s p = (if is_ok (v s []) then Inr s else Inl (InvalidParam p))"
begin

lemma accepted_unchanged: "v s p = Inr t \<Longrightarrow> t = s"
  by (subst (asm) uniform) (auto split: if_splits)

lemma rejected_names_param: "v s p = Inl e \<Longrightarrow> e = InvalidParam p"
  by (subst (asm) uniform) (auto split: if_splits)

lemma accepted_again: "v s p = Inr t \<Longrightarrow> v t q = Inr t"
  using accepted_unchanged [of s p t] uniform [of s p] uniform [of s q]
  by (auto split: if_splits)

end

text \<open>
  Bytes a shell or an argument splitter treats specially: white space and control bytes,
  everything outside ASCII, and the metacharacters.
\<close>

definition shell_special :: "char \<Rightarrow> bool" where
  "shell_special c \<longleftrightarrow> byte c \<le> 32 \<or> byte c \<ge> 127
     \<or> c \<in> set ''|&;<>()$`*?[]#!{}^'' \<or> c \<in> {CHR 0x22, CHR 0x27, CHR 0x5C}"

lemma shell_special_space: "shell_special (CHR '' '')"
  by (simp add: shell_special_def byte_def)

definition argv_safe :: "string \<Rightarrow> bool" where
  "argv_safe s \<longleftrightarrow> s \<noteq> [] \<and> hd s \<noteq> CHR ''-'' \<and> list_all (\<lambda>c. \<not> shell_special c) s"

locale argv_screen = screen +
  assumes argv: "v s p = Inr s \<Longrightarrow> argv_safe s"
begin

lemma accepted_argv_safe: "v s p = Inr t \<Longrightarrow> argv_safe t"
  using accepted_unchanged argv by blast

text \<open>A further refusal on top of a screen keeps the contract.\<close>

lemma narrow:
  "argv_screen (\<lambda>s p. and_then (v s p) (\<lambda>t. if bad t then Inl (InvalidParam p) else Inr t))"
proof
  fix s p
  show "and_then (v s p) (\<lambda>t. if bad t then Inl (InvalidParam p) else Inr t)
     = (if is_ok (and_then (v s []) (\<lambda>t. if bad t then Inl (InvalidParam []) else Inr t))
        then Inr s else Inl (InvalidParam p))"
    using uniform [of s p] uniform [of s "[]"]
    by (cases "v s []") (auto dest: accepted_unchanged)
next
  fix s p
  assume "and_then (v s p) (\<lambda>t. if bad t then Inl (InvalidParam p) else Inr t) = Inr s"
  then show "argv_safe s"
    using accepted_argv_safe by (auto split: if_splits)
qed

text \<open>An accepted value interpolated between words stays one word.\<close>

lemma accepted_one_word:
  assumes "v s p = Inr t" "list_all (\<lambda>w. CHR '' '' \<notin> set w) (before @ after)"
  shows "split_char (CHR '' '') (join_with '' '' (before @ [t] @ after)) = before @ [t] @ after"
proof (rule split_join)
  have "CHR '' '' \<notin> set t"
    using accepted_argv_safe [OF assms(1)]
    using shell_special_space by (auto simp: argv_safe_def list_all_iff)
  then show "list_all (\<lambda>w. CHR '' '' \<notin> set w) (before @ [t] @ after)"
    using assms(2) by simp
qed simp

end

section \<open>The contract on the screens\<close>

lemma special_not_alnum: "shell_special c \<Longrightarrow> \<not> is_ascii_alphanumeric c"
proof -
  have "\<not> list_ex is_ascii_alphanumeric (''|&;<>()$`*?[]#!{}^'' @ [CHR 0x22, CHR 0x27, CHR 0x5C])"
    by (simp add: byte_class_defs)
  moreover have "byte c \<le> 32 \<or> byte c \<ge> 127 \<Longrightarrow> \<not> is_ascii_alphanumeric c"
    by (auto simp: byte_class_defs byte_def)
  ultimately show "shell_special c \<Longrightarrow> \<not> is_ascii_alphanumeric c"
    unfolding shell_special_def list_ex_iff set_append by (metis UnCI empty_set insertE list.set(2) singletonD)
qed

lemma alnum_not_special: "is_ascii_alphanumeric c \<Longrightarrow> \<not> shell_special c"
  using special_not_alnum by blast

lemma argv_safeI:
  assumes "s \<noteq> []" "hd s \<noteq> CHR ''-''" "list_all P s" "\<And>c. P c \<Longrightarrow> \<not> shell_special c"
  shows "argv_safe s"
  using assms by (auto simp: argv_safe_def list_all_iff)

lemma charset_not_special:
  "list_all (\<lambda>c. \<not> shell_special c) cs \<Longrightarrow> is_ascii_alphanumeric c \<or> is_one_of cs c
     \<Longrightarrow> \<not> shell_special c"
  by (auto simp: is_one_of_def list_all_iff alnum_not_special)

lemma charset_inert:
  "list_all (\<lambda>c. is_ascii_alphanumeric c \<or> is_one_of cs c) s \<Longrightarrow> list_all (\<lambda>c. \<not> shell_special c) cs
     \<Longrightarrow> list_all (\<lambda>c. \<not> shell_special c) s"
  unfolding list_all_iff [where P = "\<lambda>c. is_ascii_alphanumeric c \<or> is_one_of cs c"]
    list_all_iff [of _ s] using charset_not_special [of cs] by blast

lemma argv_charset:
  assumes "list_all (\<lambda>c. is_ascii_alphanumeric c \<or> is_one_of cs c) s" "s \<noteq> []" "hd s \<noteq> CHR ''-''"
    "list_all (\<lambda>c. \<not> shell_special c) cs"
  shows "argv_safe s"
  using assms(2,3,1) by (rule argv_safeI) (rule charset_not_special [OF assms(4)])

lemma not_alnum_minus [simp]: "\<not> is_ascii_alphanumeric (CHR ''-'')"
  by (simp add: byte_class_defs)

lemmas special_eval = shell_special_def byte_def is_one_of_def

lemmas start_eval = starts_with_single contains_str_single

lemma narrowed:
  assumes "argv_screen v" "\<And>s p. w s p = and_then (v s p) (\<lambda>t. if bad t then Inl (InvalidParam p) else Inr t)"
  shows "argv_screen w"
proof -
  have "w = (\<lambda>s p. and_then (v s p) (\<lambda>t. if bad t then Inl (InvalidParam p) else Inr t))"
    by (intro ext assms(2))
  then show ?thesis
    using argv_screen.narrow [OF assms(1)] by simp
qed

interpretation username: argv_screen validated_username
proof
  show "validated_username s p = Inr s \<Longrightarrow> argv_safe s" for s p
    by (rule argv_charset [where cs = "''._-''"])
      (auto simp: validated_username_def start_eval special_eval split: if_splits)
qed (auto simp: validated_username_def)

interpretation unit_name: argv_screen validated_unit_name
proof
  show "validated_unit_name s p = Inr s \<Longrightarrow> argv_safe s" for s p
    by (rule argv_charset [where cs = "''@._:-''"])
      (auto simp: validated_unit_name_def start_eval special_eval split: if_splits)
qed (auto simp: validated_unit_name_def)

interpretation hostname: argv_screen validated_hostname
proof
  show "validated_hostname s p = Inr s \<Longrightarrow> argv_safe s" for s p
    by (rule argv_charset [where cs = "''.-''"])
      (auto simp: validated_hostname_def start_eval special_eval split: if_splits)
qed (auto simp: validated_hostname_def)

interpretation timezone: argv_screen validated_timezone
proof
  show "validated_timezone s p = Inr s \<Longrightarrow> argv_safe s" for s p
    by (rule argv_charset [where cs = "''/_+-''"])
      (auto simp: validated_timezone_def start_eval special_eval split: if_splits)
qed (auto simp: validated_timezone_def)

interpretation locale_name: argv_screen validated_locale
proof
  show "validated_locale s p = Inr s \<Longrightarrow> argv_safe s" for s p
    by (rule argv_charset [where cs = "''._-''"])
      (auto simp: validated_locale_def start_eval special_eval split: if_splits)
qed (auto simp: validated_locale_def)

interpretation safe_arg: argv_screen validated_safe_arg
proof
  show "validated_safe_arg s p = Inr s \<Longrightarrow> argv_safe s" for s p
    by (rule argv_charset [where cs = "''._:/+@-''"])
      (auto simp: validated_safe_arg_def start_eval special_eval split: if_splits)
qed (auto simp: validated_safe_arg_def)

interpretation lvm_name: argv_screen validated_lvm_name
proof
  show "validated_lvm_name s p = Inr s \<Longrightarrow> argv_safe s" for s p
    by (rule argv_charset [where cs = "''+_.-''"])
      (auto simp: validated_lvm_name_def start_eval special_eval split: if_splits)
qed (auto simp: validated_lvm_name_def)

interpretation syslog_host: argv_screen validated_syslog_host
proof
  show "validated_syslog_host s p = Inr s \<Longrightarrow> argv_safe s" for s p
    by (rule argv_charset [where cs = "''.:_-''"])
      (auto simp: validated_syslog_host_def start_eval special_eval split: if_splits)
qed (auto simp: validated_syslog_host_def)

interpretation dns_domain: argv_screen validated_domain
proof
  show "validated_domain s p = Inr s \<Longrightarrow> argv_safe s" for s p
    by (rule argv_charset [where cs = "''.-''"])
      (auto simp: validated_domain_def start_eval special_eval split: if_splits)
qed (auto simp: validated_domain_def)

interpretation account_group: argv_screen validated_group
  by (rule narrowed [OF username.argv_screen_axioms, where bad = "\<lambda>_. False"])
    (auto simp: validated_group_def Let_def intro!: arg_cong2 [where f = and_then])

interpretation account: argv_screen validated_username_not_critical
  by (rule narrowed [OF username.argv_screen_axioms, where bad = "\<lambda>s. s \<in> set CRITICAL_ACCOUNTS"])
    (auto simp: validated_username_not_critical_def Let_def intro!: arg_cong2 [where f = and_then])

interpretation group_name: argv_screen validated_group_not_critical
  by (rule narrowed [OF account_group.argv_screen_axioms, where bad = "\<lambda>s. s \<in> set CRITICAL_GROUPS"])
    (auto simp: validated_group_not_critical_def Let_def intro!: arg_cong2 [where f = and_then])

interpretation activatable: argv_screen validated_activatable_unit
  by (rule narrowed [OF unit_name.argv_screen_axioms, where bad = "\<lambda>u. bare_unit_name u \<in> set ROOT_SHELL_UNITS \<or> bare_unit_name u \<in> set POWER_STATE_UNITS"])
    (auto simp: validated_activatable_unit_def Let_def intro!: arg_cong2 [where f = and_then])

interpretation stoppable: argv_screen validated_stoppable_unit
  by (rule narrowed [OF unit_name.argv_screen_axioms, where bad = "\<lambda>u. is_protected_unit (bare_unit_name u)"])
    (auto simp: validated_stoppable_unit_def Let_def intro!: arg_cong2 [where f = and_then])

interpretation limited: argv_screen validated_resource_limit_unit
  by (rule narrowed [OF unit_name.argv_screen_axioms, where bad = "\<lambda>u. ends_with (to_ascii_lowercase u) ''.slice'' \<or> ends_with (to_ascii_lowercase u) ''.scope'' \<or> is_protected_unit (bare_unit_name u)"])
    (auto simp: validated_resource_limit_unit_def Let_def intro!: arg_cong2 [where f = and_then])

interpretation rebase_ref: argv_screen validated_rebase_ref
  by (rule narrowed [OF safe_arg.argv_screen_axioms, where bad = "\<lambda>t. \<not> rebase_parts_ok [] (split_char (CHR '':'') t) \<or> contains_str t ''..'' \<or> contains_str t ''@/''"])
    (auto simp: validated_rebase_ref_def Let_def intro!: arg_cong2 [where f = and_then])

interpretation apt_show: argv_screen validated_apt_show_package
  by (rule narrowed [OF safe_arg.argv_screen_axioms, where bad = "\<lambda>t. ends_with t ''-''"])
    (auto simp: validated_apt_show_package_def Let_def intro!: arg_cong2 [where f = and_then])


text \<open>Screens with a form of their own.\<close>

lemma list_all_hd: "list_all P s \<Longrightarrow> s \<noteq> [] \<Longrightarrow> P (hd s)"
  by (cases s) auto

lemma digits_argv:
  "s \<noteq> [] \<Longrightarrow> list_all is_ascii_digit s \<Longrightarrow> argv_safe s"
  by (rule argv_charset [where cs = "[]"])
    (auto simp: list_all_iff is_ascii_alphanumeric_def hd_in_set is_ascii_digit_def dest!: bspec [OF _ hd_in_set])

lemma argv_safe_append: "argv_safe s \<Longrightarrow> list_all (\<lambda>c. \<not> shell_special c) r \<Longrightarrow> argv_safe (s @ r)"
  by (auto simp: argv_safe_def)

lemma absolute_path_argv:
  assumes "validated_absolute_path s p n = Inr s"
  shows "argv_safe s"
  using assms
  by (intro argv_charset [where cs = "''/_.-''"])
    (auto simp: validated_absolute_path_def start_eval special_eval split: if_splits)

interpretation absolute_path: argv_screen "\<lambda>s p. validated_absolute_path s p n" for n
proof
  show "validated_absolute_path s p n = Inr s \<Longrightarrow> argv_safe s" for s p
    by (rule absolute_path_argv)
qed (auto simp: validated_absolute_path_def)

interpretation home_dir: argv_screen validated_home_dir
  unfolding validated_home_dir_def [abs_def] by (rule absolute_path.argv_screen_axioms)

interpretation swap_path: argv_screen validated_swap_path
  unfolding validated_swap_path_def [abs_def] by (rule absolute_path.argv_screen_axioms)

interpretation audit_path: argv_screen validated_audit_path
  unfolding validated_audit_path_def [abs_def] by (rule absolute_path.argv_screen_axioms)

interpretation mount_point: argv_screen validated_mount_point
  by (rule narrowed [OF absolute_path.argv_screen_axioms, where bad = "\<lambda>s. s \<in> set CRITICAL_MOUNTPOINTS"])
    (simp add: validated_mount_point_def)

lemma APPARMOR_charset: "list_all (\<lambda>c. \<not> shell_special c) ''._-/''"
  by code_simp

interpretation apparmor: argv_screen validated_apparmor_profile
proof
  show "argv_safe s" if ok: "validated_apparmor_profile s p = Inr s" for s p
  proof (cases "starts_with s ''/''")
    case True
    with ok have "list_all (\<lambda>c. is_ascii_alphanumeric c \<or> is_one_of ''._-/'' c) (drop (length APPARMOR_PREFIX) s)"
      "s = APPARMOR_PREFIX @ drop (length APPARMOR_PREFIX) s"
      by (auto simp: validated_apparmor_profile_def Let_def starts_with_def split: if_splits)
        (metis append_take_drop_id)
    moreover have "argv_safe APPARMOR_PREFIX" unfolding APPARMOR_PREFIX_def by code_simp
    ultimately show ?thesis
      using argv_safe_append [OF _ charset_inert] by (metis APPARMOR_charset)
  next
    case False
    with ok show ?thesis
      by (intro argv_charset [where cs = "''._-''"])
        (auto simp: validated_apparmor_profile_def start_eval special_eval split: if_splits)
  qed
qed (auto simp: validated_apparmor_profile_def Let_def)

interpretation install_package: argv_screen validated_install_package
proof
  show "validated_install_package s p = Inr s \<Longrightarrow> argv_safe s" for s p
    by (rule argv_charset [where cs = "''+._:=~-''"])
      (auto simp: validated_install_package_def Let_def special_eval split: if_splits list.splits)
qed (auto simp: validated_install_package_def Let_def)

interpretation unmodified_package: argv_screen validated_unmodified_package
  by (rule narrowed [OF install_package.argv_screen_axioms, where bad = "\<lambda>t. ends_with t ''+''"])
    (simp add: validated_unmodified_package_def)

interpretation fstype: argv_screen validated_fstype
proof
  have "list_all argv_safe FSTYPE_ALLOW" unfolding FSTYPE_ALLOW_def by code_simp
  then show "validated_fstype s p = Inr s \<Longrightarrow> argv_safe s" for s p
    by (auto simp: validated_fstype_def list_all_iff split: if_splits)
qed (auto simp: validated_fstype_def)

interpretation pro_service: argv_screen validated_pro_service
proof
  have "list_all argv_safe PRO_SERVICES" unfolding PRO_SERVICES_def by code_simp
  then show "validated_pro_service s p = Inr s \<Longrightarrow> argv_safe s" for s p
    by (auto simp: validated_pro_service_def list_all_iff split: if_splits)
qed (auto simp: validated_pro_service_def)

lemma lower_digit_charset:
  "list_all (\<lambda>c. is_ascii_lowercase c \<or> is_ascii_digit c \<or> is_one_of cs c) s
     \<Longrightarrow> list_all (\<lambda>c. is_ascii_alphanumeric c \<or> is_one_of cs c) s"
  by (auto simp: list_all_iff is_ascii_alphanumeric_def is_ascii_alphabetic_def)

lemma not_lower_digit_minus [simp]: "\<not> is_ascii_lowercase (CHR ''-'')" "\<not> is_ascii_digit (CHR ''-'')"
  by (simp_all add: byte_class_defs)

interpretation sysctl_key: argv_screen validated_sysctl_key
proof
  show "validated_sysctl_key s p = Inr s \<Longrightarrow> argv_safe s" for s p
    by (rule argv_charset [where cs = "''._-''"], rule lower_digit_charset)
      (auto simp: validated_sysctl_key_def special_eval split: if_splits)
qed (auto simp: validated_sysctl_key_def)

interpretation sudoers_name: argv_screen validated_sudoers_name
proof
  show "validated_sudoers_name s p = Inr s \<Longrightarrow> argv_safe s" for s p
    by (rule argv_charset [where cs = "''_-''"], rule lower_digit_charset)
      (auto simp: validated_sudoers_name_def special_eval split: if_splits)
qed (auto simp: validated_sudoers_name_def)

interpretation apt_pin_name: argv_screen validated_apt_pin_name
  unfolding validated_apt_pin_name_def [abs_def] by (rule sudoers_name.argv_screen_axioms)

interpretation audit_perms: argv_screen validated_audit_perms
proof
  show "validated_audit_perms s p = Inr s \<Longrightarrow> argv_safe s" for s p
    by (rule argv_safeI [where P = "is_one_of ''rwxa''"])
      (auto simp: validated_audit_perms_def special_eval split: if_splits dest!: list_all_hd)
qed (auto simp: validated_audit_perms_def)

interpretation tasks_max: argv_screen validated_tasks_max
proof
  have "argv_safe ''infinity''" by code_simp
  then show "validated_tasks_max s p = Inr s \<Longrightarrow> argv_safe s" for s p
    by (auto simp: validated_tasks_max_def digits_argv split: if_splits)
qed (auto simp: validated_tasks_max_def)

interpretation cpu_quota: argv_screen validated_cpu_quota
proof
  show "argv_safe s" if "validated_cpu_quota s p = Inr s" for s p
  proof -
    have "\<exists>d. s = d @ ''%'' \<and> d \<noteq> [] \<and> list_all is_ascii_digit d"
      using that by (auto simp: validated_cpu_quota_def strip_suffix_Some split: if_splits)
    moreover have "list_all (\<lambda>c. \<not> shell_special c) ''%''" by code_simp
    ultimately show ?thesis
      using argv_safe_append [OF digits_argv] by blast
  qed
qed (auto simp: validated_cpu_quota_def ok_or_def split: option.splits)

interpretation memory_limit: argv_screen validated_memory_limit
proof
  show "argv_safe s" if ok: "validated_memory_limit s p = Inr s" for s p
  proof (cases "s = ''infinity''")
    case True
    then show ?thesis by (simp only:) code_simp
  next
    case False
    show ?thesis
    proof (cases "s \<noteq> [] \<and> is_one_of ''KMGT'' (last s)")
      case True
      with ok False have "butlast s \<noteq> []" "list_all is_ascii_digit (butlast s)" "s = butlast s @ [last s]"
        by (auto simp: validated_memory_limit_def Let_def last_opt_def split: if_splits)
      moreover have "list_all (\<lambda>c. \<not> shell_special c) ''KMGT''" by code_simp
      ultimately show ?thesis
        using True argv_safe_append [OF digits_argv, of "butlast s" "[last s]"]
        by (auto simp: is_one_of_def)
    next
      case no: False
      with ok False have "s \<noteq> []" "list_all is_ascii_digit s"
        by (auto simp: validated_memory_limit_def Let_def last_opt_def split: if_splits)
      then show ?thesis by (rule digits_argv)
    qed
  qed
qed (auto simp: validated_memory_limit_def Let_def)

lemma size_digits_argv:
  assumes "d \<noteq> []" "list_all (\<lambda>c. is_ascii_digit c \<or> c = CHR ''.'') d"
  shows "argv_safe d"
proof (rule argv_charset [where cs = "''.''"])
  show "list_all (\<lambda>c. is_ascii_alphanumeric c \<or> is_one_of ''.'' c) d"
    using assms(2) by (auto simp: list_all_iff is_one_of_def is_ascii_alphanumeric_def)
  show "hd d \<noteq> CHR ''-''"
    using list_all_hd [OF assms(2,1)] by auto
  show "list_all (\<lambda>c. \<not> shell_special c) ''.''" by code_simp
qed (rule assms(1))

interpretation lvm_size: argv_screen validated_lvm_size
proof
  show "argv_safe s" if ok: "validated_lvm_size s p = Inr s" for s p
  proof -
    define body where "body = (case strip_prefix s ''+'' of Some b \<Rightarrow> b | None \<Rightarrow> s)"
    obtain d u where du: "lvm_size_parts body = (d, u)" by fastforce
    have d: "d \<noteq> []" "list_all (\<lambda>c. is_ascii_digit c \<or> c = CHR ''.'') d"
      and u: "\<And>c. u = Some c \<Longrightarrow> is_one_of ''kKmMgGtTpP'' c"
      using ok du by (auto simp: validated_lvm_size_def body_def Let_def split: if_splits)
    have "list_all (\<lambda>c. \<not> shell_special c) ''kKmMgGtTpP''" by code_simp
    then have "list_all (\<lambda>c. \<not> shell_special c) (case u of None \<Rightarrow> [] | Some c \<Rightarrow> [c])"
      using u by (auto simp: list_all_iff is_one_of_def split: option.splits)
    moreover have "body = d @ (case u of None \<Rightarrow> [] | Some c \<Rightarrow> [c])"
      using du by (auto simp: lvm_size_parts_def last_opt_def split: if_splits)
    ultimately have "argv_safe body"
      using argv_safe_append [OF size_digits_argv [OF d]] by simp
    moreover have "s = body \<or> s = CHR ''+'' # body"
      by (auto simp: body_def strip_prefix_def starts_with_iff split: option.splits)
    moreover have "\<not> shell_special (CHR ''+'')" by code_simp
    ultimately show ?thesis by (auto simp: argv_safe_def)
  qed
qed (auto simp: validated_lvm_size_def Let_def split: prod.splits)

lemma level_argv: "is_level l \<Longrightarrow> argv_safe l"
proof -
  have "list_all argv_safe ([''0'', ''1'', ''2'', ''3'', ''4'', ''5'', ''6'', ''7''] @ JOURNAL_PRIORITY_NAMES)"
    unfolding JOURNAL_PRIORITY_NAMES_def by code_simp
  then show "is_level l \<Longrightarrow> argv_safe l"
    unfolding is_level_def list_all_append list_all_iff [where P = argv_safe] by blast
qed

interpretation journal_priority: argv_screen validated_journal_priority
proof
  show "argv_safe s" if ok: "validated_journal_priority s p = Inr s" for s p
  proof (cases "split_once s ''..''")
    case None
    with ok show ?thesis by (auto simp: validated_journal_priority_def level_argv split: if_splits)
  next
    case (Some lh)
    then obtain lo hi where s: "s = lo @ ''..'' @ hi" "is_level lo" "is_level hi"
      using ok split_once_Some [of s "''..''"]
      by (cases lh) (auto simp: validated_journal_priority_def split: if_splits)
    have "\<not> shell_special (CHR ''.'')" by code_simp
    then show ?thesis
      using s level_argv [of lo] level_argv [of hi] by (auto simp: argv_safe_def)
  qed
qed (auto simp: validated_journal_priority_def)

lemma prefixed_argv:
  "strip_prefix s q = Some r \<Longrightarrow> argv_safe q \<Longrightarrow> list_all (\<lambda>c. \<not> shell_special c) r \<Longrightarrow> argv_safe s"
  by (auto simp: strip_prefix_def starts_with_iff argv_safe_append split: if_splits)

lemma hexdigit_alnum: "is_ascii_hexdigit c \<Longrightarrow> is_ascii_alphanumeric c"
  by (auto simp: byte_class_defs)

interpretation mount_device: argv_screen validated_mount_device
proof
  show "argv_safe s" if ok: "validated_mount_device s p = Inr s" for s p
  proof -
    have s: "s \<noteq> []" "hd s \<noteq> CHR ''-''"
      using ok by (auto simp: validated_mount_device_def start_eval split: if_splits)
    have safe: "argv_safe ''/dev/''" "argv_safe ''UUID=''" "argv_safe ''LABEL=''" by code_simp+
    have sets: "list_all (\<lambda>c. \<not> shell_special c) ''/_.-''" "list_all (\<lambda>c. \<not> shell_special c) ''-''"
      "list_all (\<lambda>c. \<not> shell_special c) ''_.:-''" "list_all (\<lambda>c. \<not> shell_special c) ''/._-''"
      "list_all (\<lambda>c. \<not> shell_special c) '':/._-''" by code_simp+
    consider
        (dev) "starts_with s ''/dev/''"
          "list_all (\<lambda>c. is_ascii_alphanumeric c \<or> is_one_of ''/_.-'' c) (drop 5 s)"
      | (uuid) u where "strip_prefix s ''UUID='' = Some u" "list_all (\<lambda>c. is_ascii_hexdigit c \<or> c = CHR ''-'') u"
      | (label) l where "strip_prefix s ''LABEL='' = Some l"
          "list_all (\<lambda>c. is_ascii_alphanumeric c \<or> is_one_of ''_.:-'' c) l"
      | (cifs) "list_all (\<lambda>c. is_ascii_alphanumeric c \<or> is_one_of ''/._-'' c) s"
      | (nfs) "list_all (\<lambda>c. is_ascii_alphanumeric c \<or> is_one_of '':/._-'' c) s"
      using ok
      by (auto simp: validated_mount_device_def Let_def split: if_splits option.splits)
    then show ?thesis
    proof cases
      case dev
      from dev(1) have "strip_prefix s ''/dev/'' = Some (drop 5 s)" by (simp add: strip_prefix_def eval_nat_numeral)
      then show ?thesis using prefixed_argv safe(1) charset_inert [OF dev(2) sets(1)] by blast
    next
      case uuid
      have "list_all (\<lambda>c. is_ascii_alphanumeric c \<or> is_one_of ''-'' c) u"
        using uuid(2) by (auto simp: list_all_iff is_one_of_def hexdigit_alnum)
      then show ?thesis using prefixed_argv uuid(1) safe(2) charset_inert sets(2) by blast
    next
      case label
      then show ?thesis using prefixed_argv safe(3) charset_inert sets(3) by blast
    qed (use argv_charset s sets in blast)+
  qed
qed (auto simp: validated_mount_device_def Let_def)

lemma set_split_char_cover: "c \<in> set s \<Longrightarrow> c \<noteq> d \<Longrightarrow> \<exists>w \<in> set (split_char d s). c \<in> set w"
proof (induction s)
  case (Cons e s)
  obtain w ws where "split_char d s = w # ws" by (cases "split_char d s") auto
  with Cons show ?case by auto
qed simp

lemma hd_split_char: "s \<noteq> [] \<Longrightarrow> hd s \<noteq> d \<Longrightarrow> \<exists>w \<in> set (split_char d s). w \<noteq> [] \<and> hd w = hd s"
  by (cases s) (auto split: list.splits)

lemma split_commands_argv:
  assumes "s \<noteq> []" "list_all sudo_command_ok (filter (\<lambda>c. c \<noteq> []) (split_char (CHR '','') s))"
  shows "argv_safe s"
proof (rule argv_charset [where cs = "'',/._-''"])
  have ok: "sudo_command_ok w" if "w \<in> set (split_char (CHR '','') s)" "w \<noteq> []" for w
    using assms(2) that by (auto simp: list_all_iff)
  have "is_ascii_alphanumeric c \<or> is_one_of '',/._-'' c" if "c \<in> set s" for c
  proof (cases "c = CHR '',''")
    case False
    with that obtain w where "w \<in> set (split_char (CHR '','') s)" "c \<in> set w"
      using set_split_char_cover by blast
    with ok [of w] show ?thesis
      by (cases w) (auto simp: sudo_command_ok_def is_one_of_def list_all_iff)
  qed (simp add: is_one_of_def)
  then show "list_all (\<lambda>c. is_ascii_alphanumeric c \<or> is_one_of '',/._-'' c) s"
    by (auto simp: list_all_iff)
  show "hd s \<noteq> CHR ''-''"
  proof
    assume "hd s = CHR ''-''"
    then obtain w where "w \<in> set (split_char (CHR '','') s)" "w \<noteq> []" "hd w = CHR ''-''"
      using hd_split_char [OF assms(1), of "CHR '',''"] by auto
    with ok show False by (auto simp: sudo_command_ok_def start_eval)
  qed
  show "list_all (\<lambda>c. \<not> shell_special c) '',/._-''" by code_simp
qed (rule assms(1))

interpretation sudo_commands: argv_screen validated_sudo_commands
proof
  have "argv_safe ''ALL''" by code_simp
  then show "validated_sudo_commands s p = Inr s \<Longrightarrow> argv_safe s" for s p
    by (auto simp: validated_sudo_commands_def Let_def split_commands_argv split: if_splits)
qed (auto simp: validated_sudo_commands_def Let_def)

text \<open>
  The screens whose accepted values may also hold a space, a wildcard or a leading dash.
\<close>

interpretation ppa_name: screen validated_ppa_name
  by unfold_locales (auto simp: validated_ppa_name_def split: option.splits)

interpretation port_or_service: screen validated_port_or_service
  by unfold_locales (auto simp: validated_port_or_service_def split: option.splits)

interpretation journal_time: screen validated_journal_time
  by unfold_locales (auto simp: validated_journal_time_def)

interpretation journal_grep: screen validated_journal_grep
  by unfold_locales (auto simp: validated_journal_grep_def)

interpretation sysctl_value: screen validated_sysctl_value
  by unfold_locales (auto simp: validated_sysctl_value_def)

interpretation log_path: screen validated_log_path
  by unfold_locales (auto simp: validated_log_path_def)

interpretation apt_package: screen validated_apt_package
  by unfold_locales (auto simp: validated_apt_package_def)

interpretation apt_pin_expr: screen validated_apt_pin_expr
  by unfold_locales (auto simp: validated_apt_pin_expr_def)

interpretation email: screen validated_email
  by unfold_locales (auto simp: validated_email_def split: list.splits)

end
