(* ===== verification/Sk_Screen_Guarantees.thy ===== *)
theory Sk_Screen_Guarantees
  imports Sk_Screens
begin

text \<open>
  The properties of the argument screens, each about what an accepted value can do on the
  privileged command line it is meant for.
\<close>

section \<open>Command-line arguments\<close>

definition argv_screens :: "(string \<Rightarrow> string \<Rightarrow> screened) list" where
  "argv_screens =
     [validated_username, validated_group, validated_username_not_critical,
      validated_group_not_critical, validated_unit_name, validated_activatable_unit,
      validated_stoppable_unit, validated_resource_limit_unit, validated_hostname,
      validated_timezone, validated_locale, validated_apparmor_profile, validated_safe_arg,
      validated_rebase_ref, validated_lvm_name, validated_lvm_size, validated_journal_priority,
      validated_sysctl_key, validated_memory_limit, validated_cpu_quota, validated_tasks_max,
      validated_mount_device, validated_home_dir, validated_mount_point, validated_fstype,
      validated_swap_path, validated_sudoers_name, validated_apt_pin_name, validated_syslog_host,
      validated_install_package, validated_unmodified_package, validated_apt_show_package,
      validated_sudo_commands, validated_pro_service, validated_audit_path, validated_audit_perms,
      validated_domain]"

lemmas argv_screen_axioms_all =
  username.argv_screen_axioms account_group.argv_screen_axioms account.argv_screen_axioms
  group_name.argv_screen_axioms unit_name.argv_screen_axioms activatable.argv_screen_axioms
  stoppable.argv_screen_axioms limited.argv_screen_axioms hostname.argv_screen_axioms
  timezone.argv_screen_axioms locale_name.argv_screen_axioms apparmor.argv_screen_axioms
  safe_arg.argv_screen_axioms rebase_ref.argv_screen_axioms lvm_name.argv_screen_axioms
  lvm_size.argv_screen_axioms journal_priority.argv_screen_axioms sysctl_key.argv_screen_axioms
  memory_limit.argv_screen_axioms cpu_quota.argv_screen_axioms tasks_max.argv_screen_axioms
  mount_device.argv_screen_axioms home_dir.argv_screen_axioms mount_point.argv_screen_axioms
  fstype.argv_screen_axioms swap_path.argv_screen_axioms sudoers_name.argv_screen_axioms
  apt_pin_name.argv_screen_axioms syslog_host.argv_screen_axioms install_package.argv_screen_axioms
  unmodified_package.argv_screen_axioms apt_show.argv_screen_axioms sudo_commands.argv_screen_axioms
  pro_service.argv_screen_axioms audit_path.argv_screen_axioms audit_perms.argv_screen_axioms
  dns_domain.argv_screen_axioms

lemma argv_screens_contract: "list_all argv_screen argv_screens"
  by (simp only: argv_screens_def list.pred_inject argv_screen_axioms_all simp_thms)



section \<open>Unit denylists\<close>

lemma unit_suffixes_shape:
  assumes "x \<in> set UNIT_TYPE_SUFFIXES"
  shows "\<exists>r. x = CHR ''.'' # r \<and> CHR ''@'' \<notin> set r \<and> CHR ''.'' \<notin> set r"
  using assms by (auto simp: UNIT_TYPE_SUFFIXES_def)

lemma no_dot_no_suffix:
  "CHR ''.'' \<notin> set bare \<Longrightarrow> find_map (strip_suffix bare) UNIT_TYPE_SUFFIXES = None"
  using unit_suffixes_shape by (fastforce simp: find_map_None list_all_iff strip_suffix_None)

lemma stripped_suffix:
  assumes bare: "CHR ''.'' \<notin> set bare" and x: "x \<in> set UNIT_TYPE_SUFFIXES"
  shows "find_map (strip_suffix (bare @ x)) UNIT_TYPE_SUFFIXES = Some bare"
proof -
  have unique: "t = bare" if eq: "bare @ x = t @ y" and y: "y \<in> set UNIT_TYPE_SUFFIXES" for t y
  proof -
    obtain p q where pq: "x = CHR ''.'' # p" "y = CHR ''.'' # q" "CHR ''.'' \<notin> set p" "CHR ''.'' \<notin> set q"
      using unit_suffixes_shape [OF x] unit_suffixes_shape [OF y] by blast
    have "rev p @ CHR ''.'' # rev bare = rev q @ CHR ''.'' # rev t"
      using eq pq by (metis append_Cons append_Nil append_assoc rev.simps(2) rev_append)
    then show ?thesis
      using append_sep_eq [of "CHR ''.''" "rev p" "rev q" "rev bare" "rev t"] pq by simp
  qed
  have "find_map (strip_suffix (bare @ x)) UNIT_TYPE_SUFFIXES \<noteq> None"
    using x by (auto simp: find_map_None list_all_iff strip_suffix_None)
  then obtain t where t: "find_map (strip_suffix (bare @ x)) UNIT_TYPE_SUFFIXES = Some t" by blast
  then obtain y where y: "y \<in> set UNIT_TYPE_SUFFIXES" "bare @ x = t @ y"
    using find_map_Some [OF t] by (auto simp: strip_suffix_Some)
  from unique [OF y(2,1)] t show ?thesis by simp
qed

lemma template_kept:
  assumes "find_map (strip_suffix (bare @ CHR ''@'' # inst)) UNIT_TYPE_SUFFIXES = Some t"
  shows "\<exists>r. t = bare @ CHR ''@'' # r"
proof -
  obtain x where x: "x \<in> set UNIT_TYPE_SUFFIXES" "bare @ CHR ''@'' # inst = t @ x"
    using find_map_Some [OF assms] by (auto simp: strip_suffix_Some)
  have "CHR ''@'' \<notin> set x" using unit_suffixes_shape [OF x(1)] by auto
  with x(2) show ?thesis
    by (auto simp: append_eq_append_conv2 Cons_eq_append_conv)
qed

text \<open>The ways to spell a unit: its name, with a type suffix, or an instance of it.\<close>

definition spelling_tail :: "string \<Rightarrow> bool" where
  "spelling_tail tail \<longleftrightarrow> tail = [] \<or> tail \<in> set UNIT_TYPE_SUFFIXES \<or> starts_with tail ''@''"

lemma bare_unit_name_spelling:
  assumes "to_ascii_lowercase s = bare @ tail" "spelling_tail tail"
    "CHR ''.'' \<notin> set bare" "CHR ''@'' \<notin> set bare"
  shows "bare_unit_name s = bare"
proof -
  have none: "split_once bare ''@'' = None"
    using assms(4) by (simp add: split_once_None contains_str_single)
  consider "tail = []" | "tail \<in> set UNIT_TYPE_SUFFIXES" | inst where "tail = CHR ''@'' # inst"
    using assms(2) by (auto simp: spelling_tail_def starts_with_iff)
  then show ?thesis
  proof cases
    case 3
    show ?thesis
    proof (cases "find_map (strip_suffix (bare @ tail)) UNIT_TYPE_SUFFIXES")
      case None
      with 3 assms show ?thesis
        by (simp add: bare_unit_name_def Let_def split_once_single)
    next
      case (Some t)
      with 3 template_kept [of bare inst t] obtain r where "t = bare @ CHR ''@'' # r" by auto
      with Some assms show ?thesis
        by (simp add: bare_unit_name_def Let_def split_once_single)
    qed
  qed (use assms none no_dot_no_suffix stripped_suffix in
      \<open>simp_all add: bare_unit_name_def Let_def\<close>)
qed

definition plain_unit :: "string \<Rightarrow> bool" where
  "plain_unit bare \<longleftrightarrow> CHR ''.'' \<notin> set bare \<and> CHR ''@'' \<notin> set bare"

lemma denied_units_plain:
  "list_all plain_unit (ROOT_SHELL_UNITS @ POWER_STATE_UNITS @ RESOURCE_LIMIT_PROTECTED_UNITS)"
  unfolding ROOT_SHELL_UNITS_def POWER_STATE_UNITS_def RESOURCE_LIMIT_PROTECTED_UNITS_def
  by (simp add: plain_unit_def)



section \<open>Mount options\<close>

abbreviation options_of :: "string \<Rightarrow> string list" where
  "options_of s \<equiv> filter (\<lambda>opt. opt \<noteq> []) (split_char (CHR '','') s)"

definition names_option :: "string \<Rightarrow> string list \<Rightarrow> bool" where
  "names_option name opts \<longleftrightarrow> list_ex (\<lambda>opt. eq_ignore_ascii_case opt name) opts"

lemma require_option_names: "names_option name (require_option opts name)"
  by (simp add: require_option_def names_option_def)

lemma require_option_adds:
  "names_option n (require_option opts name) \<longleftrightarrow>
     names_option n opts \<or> (\<not> names_option name opts \<and> eq_ignore_ascii_case name n)"
  by (auto simp: require_option_def names_option_def)

lemma require_option_id: "names_option name opts \<Longrightarrow> require_option opts name = opts"
  by (simp add: require_option_def names_option_def)

lemma require_option_prefix: "prefix opts (require_option opts name)"
  by (simp add: require_option_def)

definition hardened :: "string list \<Rightarrow> string list" where
  "hardened opts = require_option (require_option opts ''nosuid'') ''nodev''"

lemma hardened_mount_options_alt:
  "hardened_mount_options s = join_with '','' (hardened (options_of s))"
  by (simp add: hardened_mount_options_def hardened_def Let_def)

lemma hardened_options:
  assumes "list_all (\<lambda>opt. opt \<noteq> [] \<and> CHR '','' \<notin> set opt) opts"
  shows "split_char (CHR '','') (join_with '','' (hardened opts)) = hardened opts"
    and "filter (\<lambda>opt. opt \<noteq> []) (hardened opts) = hardened opts"
proof -
  have "names_option ''nodev'' (hardened opts)"
    by (simp add: hardened_def require_option_names)
  then have "hardened opts \<noteq> []" by (auto simp: names_option_def)
  moreover have "list_all (\<lambda>opt. opt \<noteq> [] \<and> CHR '','' \<notin> set opt) (hardened opts)"
    using assms by (simp add: hardened_def require_option_def)
  ultimately show "split_char (CHR '','') (join_with '','' (hardened opts)) = hardened opts"
    "filter (\<lambda>opt. opt \<noteq> []) (hardened opts) = hardened opts"
    by (auto simp: list_all_iff intro!: split_join)
qed

lemma options_clean: "list_all (\<lambda>opt. opt \<noteq> [] \<and> CHR '','' \<notin> set opt) (options_of s)"
  using set_split_char [of _ "CHR '',''" s] by (auto simp: list_all_iff)

lemma eq_option_nonempty: "eq_ignore_ascii_case opt name \<Longrightarrow> opt = [] \<longleftrightarrow> name = []"
  by (auto simp: eq_ignore_ascii_case_def to_ascii_lowercase_def)

lemma eq_option_consts:
  "\<not> eq_ignore_ascii_case ''nosuid'' ''suid''" "\<not> eq_ignore_ascii_case ''nodev'' ''suid''"
  "\<not> eq_ignore_ascii_case ''nosuid'' ''dev''" "\<not> eq_ignore_ascii_case ''nodev'' ''dev''"
  by (simp_all add: eq_ignore_ascii_case_def to_ascii_lowercase_def)

lemma not_list_all: "\<not> list_all P xs \<longleftrightarrow> list_ex (\<lambda>x. \<not> P x) xs"
  by (simp add: list_all_iff list_ex_iff)

text \<open>Mount options that pass the screen always carry \<^verbatim>\<open>nosuid\<close> and \<^verbatim>\<open>nodev\<close> and never
  \<^verbatim>\<open>suid\<close> or \<^verbatim>\<open>dev\<close>, in any mix of cases; the requested options stand first, in order, and
  hardening the result again changes nothing. A request that names \<^verbatim>\<open>suid\<close> or \<^verbatim>\<open>dev\<close>, is too
  long or holds another character is refused, and no other.\<close>

lemma mount_options_hardened:
  "case validated_mount_options s param of
      Inr t \<Rightarrow>
        names_option ''nosuid'' (split_char (CHR '','') t)
        \<and> names_option ''nodev'' (split_char (CHR '','') t)
        \<and> \<not> names_option ''suid'' (split_char (CHR '','') t)
        \<and> \<not> names_option ''dev'' (split_char (CHR '','') t)
        \<and> prefix (options_of s) (split_char (CHR '','') t)
        \<and> hardened_mount_options t = t
    | Inl e \<Rightarrow> e = InvalidParam param
        \<and> (names_option ''suid'' (options_of s) \<or> names_option ''dev'' (options_of s)
           \<or> length s > MAX_FSTAB_FIELD_LEN
           \<or> list_ex (\<lambda>c. \<not> (is_ascii_alphanumeric c \<or> is_one_of ''=,._:@/+-'' c)) s)"
proof -
  let ?h = "hardened (options_of s)"
  have split: "split_char (CHR '','') (hardened_mount_options s) = ?h" "filter (\<lambda>opt. opt \<noteq> []) ?h = ?h"
    using hardened_options [OF options_clean] by (simp_all add: hardened_mount_options_alt)
  have req: "names_option ''nosuid'' ?h" "names_option ''nodev'' ?h"
    by (simp_all add: hardened_def require_option_names require_option_adds)
  have deny: "\<not> names_option d ?h"
    if "\<not> names_option d (options_of s)" "d = ''suid'' \<or> d = ''dev''" for d
    using that eq_option_consts by (auto simp: hardened_def require_option_adds)
  have idem: "hardened ?h = ?h"
    unfolding hardened_def [of ?h] by (simp add: require_option_id req)
  have pre: "prefix (options_of s) ?h"
    unfolding hardened_def using require_option_prefix prefix_order.trans by blast
  have named: "list_ex (\<lambda>opt. list_ex (eq_ignore_ascii_case opt) MOUNT_OPTIONS_DENY) (split_char (CHR '','') s)
      \<longleftrightarrow> names_option ''suid'' (options_of s) \<or> names_option ''dev'' (options_of s)"
    by (auto simp: names_option_def MOUNT_OPTIONS_DENY_def list_ex_iff dest: eq_option_nonempty)
  have again: "hardened_mount_options (hardened_mount_options s) = hardened_mount_options s"
    using split idem by (simp add: hardened_mount_options_alt [of "hardened_mount_options s"])
      (simp add: hardened_mount_options_alt)
  show ?thesis
    unfolding validated_mount_options_def named not_list_all [symmetric]
    using req deny pre again split(1) by simp
qed

section \<open>Paths\<close>

lemma join_with_infix: "w \<in> set ws \<Longrightarrow> \<exists>a b. join_with sep ws = a @ w @ b"
proof (induction ws rule: induct_list012)
  case (3 x y zs)
  show ?case
  proof (cases "w = x")
    case True
    then have "join_with sep (x # y # zs) = [] @ w @ (sep @ join_with sep (y # zs))" by simp
    then show ?thesis by blast
  next
    case False
    with 3 obtain a b where "join_with sep (y # zs) = a @ w @ b" by auto
    then have "join_with sep (x # y # zs) = (x @ sep @ a) @ w @ b" by simp
    then show ?thesis by blast
  qed
qed (auto intro: exI [where x = "[]"])

lemma no_dotdot_part:
  assumes "\<not> contains_str s ''..''"
  shows "list_all (\<lambda>part. part \<noteq> ''..'') (split_char d s)"
  using assms join_with_infix [of "''..''" "split_char d s" "[d]"]
  by (auto simp: list_all_iff contains_str_iff join_split_char)

lemma split_char_sep: "d \<notin> set a \<Longrightarrow> split_char d (a @ d # r) = a # split_char d r"
  by (induction a) auto

lemma absolute_path_shape:
  "validated_absolute_path s p n = Inr t \<Longrightarrow> t = s \<and> starts_with s ''/'' \<and> \<not> contains_str s ''..''"
  by (simp add: validated_absolute_path_def split: if_splits)

lemma log_path_shape:
  assumes "validated_log_path s p = Inr t"
  shows "t = s \<and> starts_with s ''/'' \<and> \<not> contains_str s ''..'' \<and> (\<exists>r. s = ''/var/log/'' @ r)"
proof -
  have "t = s" "starts_with s LOG_ROOT" "\<not> contains_str s ''..''"
    using assms by (simp_all add: validated_log_path_def split: if_splits)
  moreover from this obtain r where "s = ''/var/log/'' @ r"
    by (auto simp only: starts_with_iff LOG_ROOT_def)
  ultimately show ?thesis by (simp add: starts_with_def)
qed

text \<open>Screened paths (home directories, mount points, swap files, audit watches, log files)
  start at the root and no component of them is \<^verbatim>\<open>..\<close>, so none climbs out of a directory it
  names; a log path lies under \<^verbatim>\<open>/var/log\<close>.\<close>

lemma screened_paths_stay_below:
  assumes "v \<in> set [validated_home_dir, validated_mount_point, validated_swap_path,
                      validated_audit_path, validated_log_path]"
    and "v s param = Inr t"
  shows "t = s \<and> starts_with t ''/'' \<and> list_all (\<lambda>part. part \<noteq> ''..'') (split_char (CHR ''/'') t)
    \<and> (validated_log_path s param = Inr t \<longrightarrow>
         take 3 (split_char (CHR ''/'') t) = [[], ''var'', ''log''])"
proof -
  have abs: "t = s \<and> starts_with s ''/'' \<and> \<not> contains_str s ''..''"
    using assms absolute_path_shape log_path_shape
    by (auto simp: validated_home_dir_def validated_mount_point_def validated_swap_path_def
        validated_audit_path_def split: if_splits)
  moreover have "take 3 (split_char (CHR ''/'') t) = [[], ''var'', ''log'']"
    if "validated_log_path s param = Inr t"
  proof -
    from log_path_shape [OF that] obtain r where "t = ''/var/log/'' @ r" by blast
    then show ?thesis by (simp add: eval_nat_numeral)
  qed
  ultimately show ?thesis using no_dotdot_part by blast
qed

text \<open>A screened user name is one component of the paths it is interpolated into, and not
  \<^verbatim>\<open>.\<close> or \<^verbatim>\<open>..\<close>: the key file of a user lies in that user's own directory under \<^verbatim>\<open>/home\<close>.\<close>

lemma username_stays_in_home:
  assumes "validated_username user param = Inr t"
  shows "path_parts (''/home/'' @ t @ ''/.ssh/authorized_keys'') =
           [''home'', t, ''.ssh'', ''authorized_keys''] \<and> t \<noteq> ''..''"
proof -
  have t: "CHR ''/'' \<notin> set t" "t \<noteq> []" "hd t \<noteq> CHR ''.''"
    using assms by (auto simp: validated_username_def list_all_iff is_one_of_def start_eval
        is_ascii_alphanumeric_def is_ascii_alphabetic_def is_ascii_digit_def is_ascii_lowercase_def
        is_ascii_uppercase_def split: if_splits)
  then show ?thesis
    by (auto simp: path_parts_def split_char_sep)
qed

section \<open>Log rotation\<close>

text \<open>
  What a rotation target names: \<^verbatim>\<open>*\<close> stands for any text within one component, every other
  character that the screen admits for itself.
\<close>

fun glob_match :: "string \<Rightarrow> string \<Rightarrow> bool" where
  "glob_match [] s \<longleftrightarrow> s = []"
| "glob_match (c # p) s \<longleftrightarrow>
     (if c = CHR ''*'' then list_ex (\<lambda>n. glob_match p (drop n s)) [0..<Suc (length s)]
      else (case s of [] \<Rightarrow> False | d # r \<Rightarrow> c = d \<and> glob_match p r))"

definition target_matches :: "string \<Rightarrow> string \<Rightarrow> bool" where
  "target_matches target file \<longleftrightarrow> list_all2 glob_match (path_parts target) (path_parts file)"

lemma glob_match_literal: "glob_match p s \<Longrightarrow> c \<in> set p \<Longrightarrow> c \<noteq> CHR ''*'' \<Longrightarrow> c \<in> set s"
proof (induction p arbitrary: s)
  case (Cons d p)
  show ?case
  proof (cases "d = CHR ''*''")
    case True
    with Cons.prems obtain n where "glob_match p (drop n s)" "c \<in> set p"
      by (auto simp: list_ex_iff simp del: upt_Suc)
    with Cons.IH Cons.prems(3) show ?thesis using in_set_dropD by metis
  next
    case False
    with Cons show ?thesis by (auto split: list.splits)
  qed
qed simp

lemma glob_match_plain: "CHR ''*'' \<notin> set p \<Longrightarrow> glob_match p s \<Longrightarrow> s = p"
  by (induction p arbitrary: s) (auto split: list.splits if_splits)

lemma plain_parts_match:
  "list_all2 glob_match ps qs \<Longrightarrow> list_all (\<lambda>p. CHR ''*'' \<notin> set p) ps \<Longrightarrow> qs = ps"
  by (induction rule: list_all2_induct) (auto dest: glob_match_plain)

lemma evidence_file_parts:
  assumes "d \<in> set LOG_EVIDENCE_DIRS" "f \<noteq> []" "f \<noteq> ''.''" "CHR ''/'' \<notin> set f"
  shows "\<exists>ds. path_parts (d @ ''/'' @ f) = ds @ [f] \<and> ''/'' @ join_with ''/'' ds = d"
proof -
  have "split_char (CHR ''/'') f = [f]"
    using split_join [of "[f]" "CHR ''/''"] assms(4) by simp
  with assms(1-3) show ?thesis
    by (auto simp: LOG_EVIDENCE_DIRS_def path_parts_def)
qed

text \<open>A log rotation that passes the screen never names all files of \<^verbatim>\<open>/var/log\<close>,
  \<^verbatim>\<open>/var/log/audit\<close> or \<^verbatim>\<open>/var/log/journal\<close>: of any two distinct one-letter file names in such
  a directory it leaves one alone, whichever way the pattern is spelled. A pattern with a
  wildcard always keeps at least one rotated file.\<close>

lemma log_rotation_spares_evidence:
  assumes "validated_log_rotation path n = Inr t" "d \<in> set LOG_EVIDENCE_DIRS"
    and "a \<noteq> b" "list_all (\<lambda>c. c \<noteq> CHR ''/'' \<and> c \<noteq> CHR ''.'' \<and> c \<noteq> CHR ''*'') [a, b]"
  shows "\<not> (target_matches t (d @ ''/'' @ [a]) \<and> target_matches t (d @ ''/'' @ [b]))
     \<and> (CHR ''*'' \<in> set t \<longrightarrow> 0 < n)"
proof -
  have t: "\<not> log_glob_sweeps_evidence t" "CHR ''*'' \<in> set t \<longrightarrow> 0 < n"
    using assms(1) by (auto simp: validated_log_rotation_def contains_str_single split: if_splits)
  have False if m: "target_matches t (d @ ''/'' @ [a])" "target_matches t (d @ ''/'' @ [b])"
  proof -
    obtain ds where a: "path_parts (d @ ''/'' @ [a]) = ds @ [[a]]" "''/'' @ join_with ''/'' ds = d"
      using evidence_file_parts [OF assms(2), of "[a]"] assms(4) by auto
    obtain ds' where b: "path_parts (d @ ''/'' @ [b]) = ds' @ [[b]]"
      using evidence_file_parts [OF assms(2), of "[b]"] assms(4) by auto
    obtain parent final where parts: "path_parts t = parent @ [final]"
      and pa: "list_all2 glob_match parent ds" "glob_match final [a]"
      using m(1) a(1) by (auto simp: target_matches_def list_all2_append2 list_all2_Cons2)
    have pb: "glob_match final [b]"
      using m(2) b parts by (auto simp: target_matches_def list_all2_append list_all2_append2 list_all2_Cons2)
    show False
    proof (cases "list_all (\<lambda>c. c = CHR ''*'') final")
      case True
      with t(1) parts have "''/'' @ join_with ''/'' parent \<notin> set LOG_EVIDENCE_DIRS"
        "list_all (\<lambda>p. CHR ''*'' \<notin> set p) parent"
        by (auto simp: log_glob_sweeps_evidence_def Let_def contains_str_single list_ex_iff list_all_iff)
      with plain_parts_match [OF pa(1)] a(2) assms(2) show False by simp
    next
      case False
      then obtain c where "c \<in> set final" "c \<noteq> CHR ''*''" by (auto simp: list_all_iff)
      with glob_match_literal [OF pa(2)] glob_match_literal [OF pb] assms(3) show False by auto
    qed
  qed
  with t(2) show ?thesis by blast
qed

section \<open>Ports\<close>

lemma digits_no_slash: "list_all is_ascii_digit ds \<Longrightarrow> CHR ''/'' \<notin> set ds"
  by (auto simp: list_all_iff is_ascii_digit_def)

lemma port_number_ok_digits:
  assumes "ds \<noteq> []" "list_all is_ascii_digit ds"
  shows "port_number_ok ds \<longleftrightarrow> 1 \<le> dec_value ds \<and> dec_value ds \<le> MAX_PORT"
proof -
  have "hd ds \<noteq> CHR ''+''"
    using list_all_hd [OF assms(2,1)] by (auto simp: is_ascii_digit_def)
  then have "(case ds of c # r \<Rightarrow> if c = CHR ''+'' then r else ds | [] \<Rightarrow> ds) = ds"
    by (auto split: list.splits)
  then show ?thesis
    using assms by (auto simp: port_number_ok_def parse_uint_def Let_def MAX_PORT_def)
qed

lemma split_once_slash_digits:
  "list_all is_ascii_digit ds \<Longrightarrow> split_once (ds @ ''/'' @ r) ''/'' = Some (ds, r)"
  by (simp add: split_once_single digits_no_slash)

text \<open>The documented grammar of a port or service: a number from 1 to 65535, alone or with a
  protocol, or the name of an application profile.\<close>

definition port_spec :: "string \<Rightarrow> bool" where
  "port_spec ds \<longleftrightarrow> ds \<noteq> [] \<and> list_all is_ascii_digit ds \<and> 1 \<le> dec_value ds \<and> dec_value ds \<le> 65535"

definition profile_spec :: "string \<Rightarrow> bool" where
  "profile_spec s \<longleftrightarrow> s \<noteq> [] \<and> is_ascii_alphabetic (hd s) \<and> length s \<le> 64 \<and> last s \<noteq> CHR '' ''
     \<and> list_all (\<lambda>c. is_ascii_alphanumeric c \<or> c \<in> set ''_- '') s"

definition port_or_service_spec :: "string \<Rightarrow> bool" where
  "port_or_service_spec s \<longleftrightarrow>
     port_spec s \<or> (\<exists>ds. port_spec ds \<and> (s = ds @ ''/tcp'' \<or> s = ds @ ''/udp'')) \<or> profile_spec s"

lemma profile_no_slash: "profile_spec s \<Longrightarrow> CHR ''/'' \<notin> set s"
  by (auto simp: profile_spec_def list_all_iff byte_class_defs)

lemma profile_not_digits: "profile_spec s \<Longrightarrow> \<not> list_all is_ascii_digit s"
  using list_all_hd [of is_ascii_digit s] by (auto simp: profile_spec_def byte_class_defs)

lemma port_with_protocol:
  "CHR ''/'' \<in> set s \<Longrightarrow> port_or_service_spec s \<longleftrightarrow>
     (\<exists>ds. port_spec ds \<and> (s = ds @ ''/tcp'' \<or> s = ds @ ''/udp''))"
  using profile_no_slash digits_no_slash by (auto simp: port_or_service_spec_def port_spec_def)

lemma port_without_protocol:
  "CHR ''/'' \<notin> set s \<Longrightarrow> port_or_service_spec s \<longleftrightarrow> port_spec s \<or> profile_spec s"
  by (auto simp: port_or_service_spec_def)

text \<open>\<^verbatim>\<open>validated_port_or_service\<close> accepts exactly the documented grammar: a decimal port from 1
  to 65535, such a port followed by \<^verbatim>\<open>/tcp\<close> or \<^verbatim>\<open>/udp\<close>, or a profile name; the value comes
  back unchanged, and anything else is refused by name.\<close>

lemma port_or_service_grammar:
  "validated_port_or_service s param =
     (if port_or_service_spec s then Inr s else Inl (InvalidParam param))"
proof (cases "split_once s ''/''")
  case None
  then have no: "CHR ''/'' \<notin> set s" by (simp add: split_once_None contains_str_single)
  show ?thesis
  proof (cases "s \<noteq> [] \<and> list_all is_ascii_digit s")
    case True
    then have "port_or_service_spec s \<longleftrightarrow> port_number_ok s"
      using profile_not_digits
      by (auto simp: port_without_protocol [OF no] port_spec_def port_number_ok_digits MAX_PORT_def)
    with True None show ?thesis by (simp add: validated_port_or_service_def)
  next
    case False
    then have "port_or_service_spec s \<longleftrightarrow> profile_spec s"
      by (auto simp: port_without_protocol [OF no] port_spec_def)
    with False None show ?thesis
      by (auto simp: validated_port_or_service_def profile_spec_def UFW_APP_NAME_MAX_def
          ends_with_single is_one_of_def)
  qed
next
  case (Some pp)
  then obtain ds r where s: "split_once s ''/'' = Some (ds, r)" by (cases pp) auto
  from split_once_Some [OF s] have eq: "s = ds @ ''/'' @ r" .
  have "port_or_service_spec s \<longleftrightarrow> port_spec ds \<and> (r = ''tcp'' \<or> r = ''udp'')"
  proof -
    have "CHR ''/'' \<in> set s" using eq by simp
    moreover have "ds' = ds \<and> r' = r" if "port_spec ds'" "s = ds' @ ''/'' @ r'" for ds' r'
      using split_once_slash_digits [of ds' r'] that s by (auto simp: port_spec_def)
    ultimately show ?thesis
      using eq by (auto simp: port_with_protocol)
  qed
  with s eq show ?thesis
    by (auto simp: validated_port_or_service_def port_spec_def port_number_ok_digits MAX_PORT_def)
qed

section \<open>Sudo grants\<close>

definition version_char :: "char \<Rightarrow> bool" where
  "version_char c \<longleftrightarrow> is_ascii_digit c \<or> c = CHR ''.''"

lemma unversioned_alt:
  "unversioned_command_name base = trim_end_matches version_char
     (case find_map (strip_suffix base) SHELL_EQUIVALENT_SUFFIXES of Some t \<Rightarrow> t | None \<Rightarrow> base)"
  by (simp add: unversioned_command_name_def version_char_def [abs_def])

lemma trim_end_matches_append:
  "list_all p ver \<Longrightarrow> trim_end_matches p (base @ ver) = trim_end_matches p base"
  by (induction ver arbitrary: base rule: rev_induct) (auto simp: trim_end_matches_def)

lemma strip_packaging_suffix:
  assumes "CHR ''.'' \<notin> set base" "list_all version_char ver" "x = [] \<or> x \<in> set SHELL_EQUIVALENT_SUFFIXES"
  shows "(case find_map (strip_suffix (base @ ver @ x)) SHELL_EQUIVALENT_SUFFIXES of
            Some t \<Rightarrow> t | None \<Rightarrow> base @ ver @ x) = base @ ver"
proof -
  have letter: "\<not> version_char (CHR ''c'')" "\<not> version_char (CHR ''y'')"
    by (simp_all add: version_char_def is_ascii_digit_def)
  have plain: "strip_suffix (base @ ver) y = None" if "y \<in> {''.basic'', ''.tiny''}" for y
  proof (rule ccontr)
    assume "strip_suffix (base @ ver) y \<noteq> None"
    then obtain t where t: "base @ ver = t @ y" by (auto simp: strip_suffix_None)
    show False
    proof (cases "ver = []")
      case True
      with t that assms(1) show False by auto
    next
      case False
      then have "version_char (last ver)" using assms(2) by (simp add: list_all_iff)
      moreover have "last ver = last y" using t False that by (metis insertE last_appendR list.distinct(1) singletonD)
      ultimately show False using that letter by auto
    qed
  qed
  have other: "strip_suffix (base @ ver @ ''.tiny'') ''.basic'' = None"
    by (simp add: strip_suffix_def ends_with_def)
  consider "x = []" | "x = ''.basic''" | "x = ''.tiny''"
    using assms(3) by (auto simp: SHELL_EQUIVALENT_SUFFIXES_def)
  then show ?thesis
  proof cases
    case 1
    then show ?thesis using plain by (simp add: SHELL_EQUIVALENT_SUFFIXES_def)
  next
    case 2
    have "strip_suffix (base @ ver @ ''.basic'') ''.basic'' = Some (base @ ver)"
      by (simp add: strip_suffix_Some)
    with 2 show ?thesis by (simp add: SHELL_EQUIVALENT_SUFFIXES_def)
  next
    case 3
    have "strip_suffix (base @ ver @ ''.tiny'') ''.tiny'' = Some (base @ ver)"
      by (simp add: strip_suffix_Some)
    with 3 other show ?thesis by (simp add: SHELL_EQUIVALENT_SUFFIXES_def)
  qed
qed

lemma shell_commands_plain:
  "list_all (\<lambda>c. c \<noteq> [] \<and> CHR ''.'' \<notin> set c \<and> CHR ''/'' \<notin> set c
     \<and> (\<not> version_char (last c) \<or> c \<in> set [''ksh93'', ''python2'', ''python3'', ''perl5'', ''pip3'']))
     SHELL_EQUIVALENT_COMMANDS"
  unfolding SHELL_EQUIVALENT_COMMANDS_def by code_simp

lemma shell_commands_trimmed:
  assumes "c \<in> set SHELL_EQUIVALENT_COMMANDS"
  shows "trim_end_matches version_char c \<in> set SHELL_EQUIVALENT_COMMANDS"
proof -
  have c: "c \<noteq> []" "\<not> version_char (last c) \<or> c \<in> set [''ksh93'', ''python2'', ''python3'', ''perl5'', ''pip3'']"
    using shell_commands_plain [unfolded list_all_iff, THEN bspec, OF assms] by blast+
  show ?thesis
  proof (cases "version_char (last c)")
    case True
    have "list_all (\<lambda>c. trim_end_matches version_char c \<in> set [''ksh'', ''python'', ''perl'', ''pip''])
        [''ksh93'', ''python2'', ''python3'', ''perl5'', ''pip3'']" by code_simp
    then have "trim_end_matches version_char c \<in> set [''ksh'', ''python'', ''perl'', ''pip'']"
      using True c(2) unfolding list_all_iff by blast
    moreover have "set [''ksh'', ''python'', ''perl'', ''pip''] \<subseteq> set SHELL_EQUIVALENT_COMMANDS"
      by (simp add: SHELL_EQUIVALENT_COMMANDS_def)
    ultimately show ?thesis by blast
  next
    case False
    then have "dropWhile version_char (rev c) = rev c"
      using c(1) by (cases c rule: rev_cases) auto
    with assms show ?thesis by (simp add: trim_end_matches_def)
  qed
qed

lemma ascii_lower_slash: "ascii_lower c = CHR ''/'' \<longleftrightarrow> c = CHR ''/''"
proof
  assume lower: "ascii_lower c = CHR ''/''"
  show "c = CHR ''/''"
  proof (cases "is_ascii_uppercase c")
    case True
    then have "of_char (ascii_lower c) = (of_char c + 32 :: nat)"
      by (simp add: ascii_lower_def is_ascii_uppercase_def of_char_of)
    with True lower show ?thesis by (simp add: is_ascii_uppercase_def)
  qed (use lower in \<open>simp add: ascii_lower_def\<close>)
qed (simp add: ascii_lower_def is_ascii_uppercase_def)

lemma split_char_append: "split_char d (a @ d # r) = split_char d a @ split_char d r"
  by (induction a) (auto split: list.splits)

lemma split_char_map:
  assumes "\<And>c. f c = d \<longleftrightarrow> c = d"
  shows "split_char d (map f s) = map (map f) (split_char d s)"
  using assms by (induction s) (auto split: list.splits)

lemma lower_basename:
  assumes "to_ascii_lowercase c = dir @ ''/'' @ base" "CHR ''/'' \<notin> set base"
  shows "to_ascii_lowercase (last (split_char (CHR ''/'') c)) = base"
proof -
  have "last (split_char (CHR ''/'') (dir @ ''/'' @ base)) = base"
    using split_join [of "[base]" "CHR ''/''"] assms(2) by (simp add: split_char_append)
  moreover have "split_char (CHR ''/'') (to_ascii_lowercase c) = map to_ascii_lowercase (split_char (CHR ''/'') c)"
    unfolding to_ascii_lowercase_def [abs_def] by (rule split_char_map) (rule ascii_lower_slash)
  ultimately show ?thesis
    using assms(1) by (metis last_map split_char_nonempty)
qed

lemma find_Some_mem: "find P xs = Some x \<Longrightarrow> x \<in> set xs"
  by (auto simp: find_Some_iff)

text \<open>A sudo command list that holds a shell, an interpreter or another program that runs
  arbitrary commands is recognised however it is spelled: in any directory, in any mix of
  cases, under a versioned name (\<^verbatim>\<open>python3.12\<close>) and with a packaging suffix (\<^verbatim>\<open>vim.basic\<close>).
  What is reported is an entry of the list.\<close>

lemma shell_equivalent_command_recognised:
  assumes "c \<in> set (options_of commands)"
    and "to_ascii_lowercase c = dir @ ''/'' @ base @ ver @ suf"
    and "base \<in> set SHELL_EQUIVALENT_COMMANDS" "list_all version_char ver"
    and "suf = [] \<or> suf \<in> set SHELL_EQUIVALENT_SUFFIXES"
  shows "\<exists>c'. shell_equivalent_sudo_command commands = Some c' \<and> c' \<in> set (options_of commands)"
proof -
  have base: "CHR ''.'' \<notin> set base" "CHR ''/'' \<notin> set base"
    using shell_commands_plain [unfolded list_all_iff, THEN bspec, OF assms(3)] by blast+
  have tail: "CHR ''/'' \<notin> set (base @ ver @ suf)"
    using base(2) assms(4,5)
    by (auto simp: list_all_iff version_char_def is_ascii_digit_def SHELL_EQUIVALENT_SUFFIXES_def)
  have "unversioned_command_name (base @ ver @ suf) \<in> set SHELL_EQUIVALENT_COMMANDS"
    using shell_commands_trimmed [OF assms(3)] strip_packaging_suffix [OF base(1) assms(4,5)]
      trim_end_matches_append [OF assms(4)]
    by (simp add: unversioned_alt)
  then have eqv: "command_is_shell_equivalent c"
    using lower_basename [OF assms(2) tail] by (simp add: command_is_shell_equivalent_def Let_def)
  have "commands \<noteq> ''ALL''"
  proof
    assume all: "commands = ''ALL''"
    with assms(1) have "c = ''ALL''" by simp
    then have "CHR ''/'' \<notin> set (to_ascii_lowercase c)"
      by (auto simp: to_ascii_lowercase_def dest: ascii_lower_slash [THEN iffD1, OF sym])
    with assms(2) show False by simp
  qed
  moreover have "find command_is_shell_equivalent (options_of commands) \<noteq> None"
    using eqv assms(1) by (auto simp: find_None_iff)
  ultimately show ?thesis
    using find_Some_mem [of command_is_shell_equivalent "options_of commands"]
    by (simp only: shell_equivalent_sudo_command_def if_False) blast
qed

section \<open>Rebase targets\<close>

lemma rebase_parts_ok_nth:
  assumes "rebase_parts_ok previous parts" "i < length parts"
  shows "to_ascii_lowercase (parts ! i) \<notin> set LOCAL_IMAGE_TRANSPORTS
    \<and> to_ascii_lowercase (parts ! i) \<notin> set UNVERIFIED_IMAGE_TRANSPORTS
    \<and> \<not> starts_with (parts ! i) ''.''
    \<and> (starts_with (parts ! i) ''/'' \<longrightarrow> starts_with (parts ! i) ''//''
         \<and> (if i = 0 then previous else to_ascii_lowercase (parts ! (i - 1))) = ''docker'')"
  using assms
proof (induction parts arbitrary: previous i)
  case (Cons part parts)
  show ?case
  proof (cases i)
    case 0
    with Cons.prems show ?thesis by (auto simp: Let_def split: if_splits)
  next
    case (Suc j)
    with Cons.prems have "rebase_parts_ok (to_ascii_lowercase part) parts" "j < length parts"
      by (auto simp: Let_def split: if_splits)
    from Cons.IH [OF this] Suc show ?thesis by (cases j) auto
  qed
qed simp

text \<open>An accepted rebase target names no image of this host and none that skips signature
  verification: no part between colons is such a transport in any mix of cases, none starts with
  a dot, one that starts with \<^verbatim>\<open>/\<close> starts with \<^verbatim>\<open>//\<close> right after \<^verbatim>\<open>docker\<close>, and the target
  holds neither \<^verbatim>\<open>..\<close> nor \<^verbatim>\<open>@/\<close>.\<close>

lemma rebase_target_is_remote:
  assumes "validated_rebase_ref s param = Inr t" "i < length (split_char (CHR '':'') t)"
  shows "t = s \<and> \<not> contains_str t ''..'' \<and> \<not> contains_str t ''@/''
    \<and> (let parts = split_char (CHR '':'') t; part = parts ! i in
       to_ascii_lowercase part \<notin> set (LOCAL_IMAGE_TRANSPORTS @ UNVERIFIED_IMAGE_TRANSPORTS)
       \<and> \<not> starts_with part ''.''
       \<and> (starts_with part ''/'' \<longrightarrow>
            starts_with part ''//'' \<and> 0 < i \<and> to_ascii_lowercase (parts ! (i - 1)) = ''docker''))"
proof -
  have "rebase_parts_ok [] (split_char (CHR '':'') t)" "\<not> contains_str t ''..''" "\<not> contains_str t ''@/''"
    "t = s"
    using assms(1) rebase_ref.accepted_unchanged [OF assms(1)]
    by (auto simp: validated_rebase_ref_def split: if_splits)
  with rebase_parts_ok_nth [OF this(1) assms(2)] show ?thesis
    by (auto simp: Let_def split: if_splits)
qed

end
