(* ===== verification/Sk_Params.thy ===== *)
theory Sk_Params
  imports Sk_Screens Sk_Types
begin

text \<open>
  Reading the parameters of a request (\<^verbatim>\<open>executor.rs\<close>): the accessors over the JSON value, the
  screens that live next to them, and the two screens of kernel arguments with their allowlist.
  An object is an association list with one entry per key, as \<^verbatim>\<open>serde_json::Map\<close> holds it.
\<close>

named_theorems param_defs \<open>the accessors of parameters\<close>

section \<open>JSON values\<close>

definition get_param :: "json \<Rightarrow> string \<Rightarrow> json option" where
  "get_param params key = (case params of JObj kvs \<Rightarrow> map_of kvs key | _ \<Rightarrow> None)"

definition as_str :: "json \<Rightarrow> string option" where
  "as_str v = (case v of JStr s \<Rightarrow> Some s | _ \<Rightarrow> None)"

definition as_bool :: "json \<Rightarrow> bool option" where
  "as_bool v = (case v of JBool b \<Rightarrow> Some b | _ \<Rightarrow> None)"

definition as_u64 :: "json \<Rightarrow> nat option" where
  "as_u64 v = (case v of JInt i \<Rightarrow> if 0 \<le> i \<and> i < 2 ^ 64 then Some (nat i) else None | _ \<Rightarrow> None)"

definition as_i64 :: "json \<Rightarrow> int option" where
  "as_i64 v = (case v of JInt i \<Rightarrow> if - (2 ^ 63) \<le> i \<and> i < 2 ^ 63 then Some i else None | _ \<Rightarrow> None)"

definition u32_max :: nat where
  "u32_max = 2 ^ 32 - 1"

text \<open>\<^verbatim>\<open>i64::to_string\<close>.\<close>

definition dec_int :: "int \<Rightarrow> string" where
  "dec_int i = (if i < 0 then CHR ''-'' # dec (nat (- i)) else dec (nat i))"

section \<open>Required and optional parameters\<close>

definition required :: "(json \<Rightarrow> 'a option) \<Rightarrow> json \<Rightarrow> string \<Rightarrow> executor_error + 'a" where
  [param_defs]: "required read params key =
     (case get_param params key of
        None \<Rightarrow> Inl (MissingParam key)
      | Some v \<Rightarrow> ok_or (InvalidParam key) (read v))"

definition optional :: "(json \<Rightarrow> 'a option) \<Rightarrow> json \<Rightarrow> string \<Rightarrow> executor_error + 'a option" where
  [param_defs]: "optional read params key =
     (case get_param params key of
        None \<Rightarrow> Inr None
      | Some JNull \<Rightarrow> Inr None
      | Some v \<Rightarrow> (case read v of Some x \<Rightarrow> Inr (Some x) | None \<Rightarrow> Inl (InvalidParam key)))"

definition require_str :: "json \<Rightarrow> string \<Rightarrow> executor_error + string" where
  [param_defs]: "require_str = required as_str"

definition optional_str :: "json \<Rightarrow> string \<Rightarrow> executor_error + string option" where
  [param_defs]: "optional_str = optional as_str"

text \<open>\<^verbatim>\<open>Option::map\<close> with a fallible function, then \<^verbatim>\<open>transpose\<close>.\<close>

definition transpose_map :: "('a \<Rightarrow> 'e + 'b) \<Rightarrow> 'a option \<Rightarrow> 'e + 'b option" where
  [param_defs]: "transpose_map f v =
     (case v of None \<Rightarrow> Inr None | Some x \<Rightarrow> and_then (f x) (\<lambda>y. Inr (Some y)))"

definition option_filter :: "('a \<Rightarrow> bool) \<Rightarrow> 'a option \<Rightarrow> 'a option" where
  [param_defs]: "option_filter p v = (case v of None \<Rightarrow> None | Some x \<Rightarrow> if p x then Some x else None)"

definition optional_validated ::
  "json \<Rightarrow> string \<Rightarrow> (string \<Rightarrow> string \<Rightarrow> screened) \<Rightarrow> executor_error + string option" where
  [param_defs]: "optional_validated params key validator =
     and_then (optional_str params key) (\<lambda>v.
       transpose_map (\<lambda>s. validator s key) (option_filter (\<lambda>s. s \<noteq> []) v))"

definition resolve_username :: "json \<Rightarrow> executor_error + string" where
  [param_defs]: "resolve_username params =
     (case (case get_param params ''username'' of None \<Rightarrow> get_param params ''user'' | v \<Rightarrow> v) of
        None \<Rightarrow> Inl (MissingParam ''username'')
      | Some v \<Rightarrow> ok_or (InvalidParam ''username'') (as_str v))"

definition validated_repo_id :: "json \<Rightarrow> executor_error + string" where
  [param_defs]: "validated_repo_id params =
     and_then (require_str params ''repo_id'') (\<lambda>repo_id.
       if repo_id \<noteq> [] \<and> list_all (\<lambda>c. is_ascii_alphanumeric c \<or> is_one_of ''-_'' c) repo_id
       then Inr repo_id else Inl (InvalidParam ''repo_id''))"

definition validated_no_newline :: "json \<Rightarrow> string \<Rightarrow> executor_error + string" where
  [param_defs]: "validated_no_newline params key =
     and_then (require_str params key) (\<lambda>val.
       if contains_str val [CHR 0x0A] \<or> contains_str val [CHR 0x0D]
       then Inl (InvalidParam key) else Inr val)"

definition PUBLIC_KEY_MAX_LEN :: nat where
  "PUBLIC_KEY_MAX_LEN = 8192"

definition ALLOWED_PREFIXES :: "string list" where
  "ALLOWED_PREFIXES =
     [''ssh-rsa'', ''ssh-ed25519'', ''ssh-ed25519-sk'', ''ecdsa-sha2-nistp256'',
      ''ecdsa-sha2-nistp384'', ''ecdsa-sha2-nistp521'', ''sk-ssh-ed25519'',
      ''sk-ecdsa-sha2-nistp256'']"

definition public_key_char_refused :: "char \<Rightarrow> bool" where
  "public_key_char_refused c \<longleftrightarrow>
     c \<in> {CHR 0x0A, CHR 0x0D, CHR 0x27, CHR ''|'', CHR '';'', CHR ''`'', CHR ''$'', CHR 0x5C, CHR ''&''}
     \<or> byte c \<ge> 128 \<or> byte c < 32 \<or> byte c = 127"

definition validated_public_key :: "string \<Rightarrow> screened" where
  "validated_public_key s =
     (if s = [] \<or> length s > PUBLIC_KEY_MAX_LEN then Inl (InvalidParam ''public_key'')
      else if \<not> list_ex (starts_with s) ALLOWED_PREFIXES then Inl (InvalidParam ''public_key'')
      else if list_ex public_key_char_refused s then Inl (InvalidParam ''public_key'')
      else Inr s)"

definition require_bool :: "json \<Rightarrow> string \<Rightarrow> executor_error + bool" where
  [param_defs]: "require_bool = required as_bool"

definition optional_bool :: "json \<Rightarrow> string \<Rightarrow> executor_error + bool option" where
  [param_defs]: "optional_bool = optional as_bool"

definition optional_u64 :: "json \<Rightarrow> string \<Rightarrow> executor_error + nat option" where
  [param_defs]: "optional_u64 = optional as_u64"

definition optional_i64 :: "json \<Rightarrow> string \<Rightarrow> executor_error + int option" where
  [param_defs]: "optional_i64 = optional as_i64"

definition require_i64 :: "json \<Rightarrow> string \<Rightarrow> executor_error + int" where
  [param_defs]: "require_i64 = required as_i64"

definition require_u32 :: "json \<Rightarrow> string \<Rightarrow> executor_error + nat" where
  [param_defs]: "require_u32 params key =
     (case get_param params key of
        None \<Rightarrow> Inl (MissingParam key)
      | Some v \<Rightarrow> and_then (ok_or (InvalidParam key) (as_u64 v)) (\<lambda>n.
          if n \<le> u32_max then Inr n else Inl (InvalidParam key)))"

definition require_positive_u32 :: "json \<Rightarrow> string \<Rightarrow> executor_error + nat" where
  [param_defs]: "require_positive_u32 params key =
     and_then (require_u32 params key) (\<lambda>n. if n = 0 then Inl (InvalidParam key) else Inr n)"

text \<open>\<^verbatim>\<open>collect::<Result<Vec<_>, _>>()\<close>: the first error, or all results.\<close>

fun collect_results :: "('e + 'a) list \<Rightarrow> 'e + 'a list" where
  "collect_results [] = Inr []"
| "collect_results (r # rs) =
     and_then r (\<lambda>x. and_then (collect_results rs) (\<lambda>xs. Inr (x # xs)))"

definition str_elements :: "string \<Rightarrow> json list \<Rightarrow> executor_error + string list" where
  "str_elements key arr = collect_results (map (\<lambda>v. ok_or (InvalidParam key) (as_str v)) arr)"

definition str_array_or_empty :: "json \<Rightarrow> string \<Rightarrow> executor_error + string list" where
  [param_defs]: "str_array_or_empty params key =
     (case get_param params key of
        None \<Rightarrow> Inr []
      | Some v \<Rightarrow> (case v of JNull \<Rightarrow> Inr [] | JArr arr \<Rightarrow> str_elements key arr
                      | _ \<Rightarrow> Inl (InvalidParam key)))"

definition optional_str_array :: "json \<Rightarrow> string \<Rightarrow> executor_error + string list option" where
  [param_defs]: "optional_str_array params key =
     (case get_param params key of
        None \<Rightarrow> Inr None
      | Some v \<Rightarrow> (case v of JNull \<Rightarrow> Inr None
                      | JArr arr \<Rightarrow> and_then (str_elements key arr) (\<lambda>xs. Inr (Some xs))
                      | _ \<Rightarrow> Inl (InvalidParam key)))"

section \<open>Kernel arguments\<close>

definition KARG_FLAGS :: "string list" where
  "KARG_FLAGS =
    [''quiet'', ''splash'', ''rhgb'', ''nomodeset'', ''nowatchdog'', ''threadirqs'']"

definition KARG_HARDENING_FLAGS :: "string list" where
  "KARG_HARDENING_FLAGS =
    [''nosmt'', ''slab_nomerge'']"

definition KARG_VALUE_KEYS :: "string list" where
  "KARG_VALUE_KEYS =
    [''console'', ''video'', ''loglevel'', ''hugepages'', ''hugepagesz'',
     ''default_hugepagesz'', ''nvme_core.default_ps_max_latency_us'', ''usbcore.autosuspend'',
     ''nvidia_drm.modeset'', ''nvidia_drm.fbdev'', ''i915.enable_psr'', ''amdgpu.dc'',
     ''acpi_backlight'', ''mem_sleep_default'', ''pcie_aspm'', ''transparent_hugepage'',
     ''zswap.enabled'', ''systemd.show_status'', ''plymouth.enable'']"

definition KARG_LIST_VALUES :: "(string \<times> string list) list" where
  "KARG_LIST_VALUES =
    [
     (''rd.driver.blacklist'', [''nouveau'', ''nvidia'', ''nvidia_drm'', ''nvidia_modeset'', ''radeon'', ''amdgpu'', ''i915''])]"

definition KARG_HARDENING_VALUES :: "(string \<times> string list) list" where
  "KARG_HARDENING_VALUES =
    [(''lockdown'', [''integrity'', ''confidentiality'']), (''module.sig_enforce'', [''1'']),
     (''intel_iommu'', [''on'']), (''amd_iommu'', [''force_isolation'']),
     (''init_on_alloc'', [''1'']), (''init_on_free'', [''1'']),
     (''page_alloc.shuffle'', [''1'']), (''randomize_kstack_offset'', [''on'']),
     (''mitigations'', [''auto'', ''auto,nosmt'']), (''pti'', [''on'']),
     (''vsyscall'', [''none'']), (''debugfs'', [''off''])]"

definition KARG_WEAKENING :: "string list" where
  "KARG_WEAKENING =
    [''selinux=0'', ''enforcing=0'', ''apparmor=0'', ''lockdown=none'', ''debugfs=on'',
     ''iommu=off'', ''intel_iommu=off'', ''nokaslr'', ''nopti'', ''nosmap'', ''nosmep'',
     ''nospectre_v1'', ''nospectre_v2'', ''nospec_store_bypass_disable'', ''nospectre_bhb'',
     ''single'', ''emergency'', ''rescue'', ''rd.break'', ''rd.shell'',
     ''systemd.debug_shell'', ''init=/bin/sh'', ''init=/bin/bash'', ''mitigations=off'',
     ''pti=off'', ''audit=0'', ''module.sig_enforce=0'', ''init_on_alloc=0'',
     ''init_on_free=0'', ''page_alloc.shuffle=0'', ''randomize_kstack_offset=off'',
     ''spectre_v2=off'', ''spec_store_bypass_disable=off'', ''mds=off'',
     ''tsx_async_abort=off'', ''mmio_stale_data=off'', ''retbleed=off'', ''srbds=off'',
     ''l1tf=off'', ''spectre_bhi=off'', ''gather_data_sampling=off'',
     ''reg_file_data_sampling=off'']"

definition dash_to_underscore :: "string \<Rightarrow> string" where
  "dash_to_underscore = map (\<lambda>c. if c = CHR ''-'' then CHR ''_'' else c)"

text \<open>
  \<^verbatim>\<open>to_lowercase\<close> is the ASCII one here: both callers have refused every byte outside ASCII.
\<close>

definition normalized_kernel_arg :: "string \<Rightarrow> string" where
  "normalized_kernel_arg arg =
     (let lower = to_ascii_lowercase arg in
      case split_once lower ''='' of
        Some (key, val) \<Rightarrow> dash_to_underscore key @ ''='' @ val
      | None \<Rightarrow> dash_to_underscore lower)"

definition validated_kernel_arg_token :: "string \<Rightarrow> string \<Rightarrow> executor_error + unit" where
  "validated_kernel_arg_token arg param =
     (if arg = [] \<or> length arg > SAFE_ARG_MAX_BYTES then Inl (InvalidParam param)
      else if starts_with arg ''-'' then Inl (InvalidParam param)
      else if \<not> list_all (\<lambda>c. is_ascii_alphanumeric c \<or> is_one_of ''._:/+@-=,'' c) arg
           then Inl (InvalidParam param)
      else Inr ())"

definition karg_addition_allowed :: "string \<Rightarrow> bool" where
  "karg_addition_allowed normal =
     (case split_once normal ''='' of
        None \<Rightarrow> normal \<in> set KARG_FLAGS \<or> normal \<in> set KARG_HARDENING_FLAGS
      | Some (key, val) \<Rightarrow>
          (val \<noteq> [] \<and> key \<in> set KARG_VALUE_KEYS)
          \<or> list_ex (\<lambda>(k, allowed). k = key \<and> list_all (\<lambda>v. v \<in> set allowed) (split_char (CHR '','') val))
               KARG_LIST_VALUES
          \<or> list_ex (\<lambda>(k, vals). k = key \<and> val \<in> set vals) KARG_HARDENING_VALUES)"

definition validated_safe_kernel_arg :: "string \<Rightarrow> string \<Rightarrow> executor_error + unit" where
  "validated_safe_kernel_arg arg param =
     and_then (validated_kernel_arg_token arg param) (\<lambda>_.
       if karg_addition_allowed (normalized_kernel_arg arg) then Inr () else Inl (InvalidParam param))"

definition karg_removal_allowed :: "string \<Rightarrow> bool" where
  "karg_removal_allowed normal =
     (let key = hd (split_char (CHR ''='') normal) in
      normal \<in> set KARG_WEAKENING \<or> key \<in> set KARG_FLAGS \<or> key \<in> set KARG_VALUE_KEYS
      \<or> list_ex (\<lambda>(k, _). k = key) KARG_LIST_VALUES)"

definition validated_safe_kernel_arg_removal :: "string \<Rightarrow> string \<Rightarrow> executor_error + unit" where
  "validated_safe_kernel_arg_removal arg param =
     and_then (validated_kernel_arg_token arg param) (\<lambda>_.
       if karg_removal_allowed (normalized_kernel_arg arg) then Inr () else Inl (InvalidParam param))"

definition validated_kill_signal :: "string \<Rightarrow> screened" where
  "validated_kill_signal s =
     (let normalized = to_ascii_uppercase (trim s);
          name = (case strip_prefix normalized ''SIG'' of Some r \<Rightarrow> r | None \<Rightarrow> normalized)
      in if name = ''TERM'' then Inr ''TERM''
         else if name = ''KILL'' then Inr ''KILL''
         else if name = ''HUP'' then Inr ''HUP''
         else if name = ''INT'' then Inr ''INT''
         else Inl (InvalidParam ''signal''))"

end
