(* ===== verification/Sk_Actions.thy ===== *)
theory Sk_Actions
  imports Sk_Params
begin

text \<open>
  The vocabulary of actions (\<^verbatim>\<open>actions/mod.rs\<close>): what an action does to the host, its
  specification with the metadata that policy and previews read, and the lock it needs.
\<close>

named_theorems action_defs \<open>the constructors of action specifications\<close>

datatype action_mechanism =
    Command string "string list"
  | FileScan string
  | FileWrite string string
  | FilePatch string string string
  | FileDelete string

record action_spec =
  as_action_name :: string
  as_mechanism :: action_mechanism
  as_risk_level :: risk_level
  as_reboot_required :: bool
  as_rollback_available :: bool

definition OBSERVER_MUTATING_ACTIONS :: "string list" where
  "OBSERVER_MUTATING_ACTIONS = [''AptUpdate'']"

definition DISPATCHER_INTERNAL_ACTIONS :: "string list" where
  "DISPATCHER_INTERNAL_ACTIONS = [''ListJobHistory'']"

definition command_mechanism :: "string \<Rightarrow> string list \<Rightarrow> action_mechanism" where
  [action_defs]: "command_mechanism program args = Command program args"

definition file_write_mechanism :: "string \<Rightarrow> string \<Rightarrow> action_mechanism" where
  [action_defs]: "file_write_mechanism path content = FileWrite path content"

definition file_patch_mechanism :: "string \<Rightarrow> string \<Rightarrow> string \<Rightarrow> action_mechanism" where
  [action_defs]: "file_patch_mechanism path needle replacement = FilePatch path needle replacement"

definition file_scan_mechanism :: "string \<Rightarrow> action_mechanism" where
  [action_defs]: "file_scan_mechanism path = FileScan path"

definition file_delete_mechanism :: "string \<Rightarrow> action_mechanism" where
  [action_defs]: "file_delete_mechanism path = FileDelete path"

text \<open>\<^verbatim>\<open>Result::expect\<close>; the catalogue only calls it on results that are \<^verbatim>\<open>Ok\<close>.\<close>

definition expect :: "'e + 'a \<Rightarrow> 'a" where
  "expect r = (case r of Inr x \<Rightarrow> x | Inl _ \<Rightarrow> undefined)"

lemma expect_Inr [simp]: "expect (Inr x) = x"
  by (simp add: expect_def)

section \<open>Locks\<close>

datatype exclusive_resource = System | Dpkg | Snap | RpmOstree | Flatpak

text \<open>
  The words of an argument: split at white space and shell operators. White space takes one to
  three bytes (\<open>ws_len\<close>).
\<close>

function split_words :: "string \<Rightarrow> string \<Rightarrow> string list" where
  "split_words word [] = [word]"
| "split_words word (c # s) =
     (if is_one_of ''&|;()'' c then word # split_words [] s
      else if ws_len (c # s) > 0 then word # split_words [] (drop (ws_len (c # s)) (c # s))
      else split_words (word @ [c]) s)"
  by pat_completeness auto
termination
  by (relation "measure (\<lambda>(word, s). length s)") auto

definition lock_of_tool :: "string \<Rightarrow> exclusive_resource option" where
  "lock_of_tool name =
     (if name \<in> set [''apt-get'', ''apt'', ''apt-mark'', ''aptitude'', ''dpkg'', ''dpkg-reconfigure'',
                     ''add-apt-repository'', ''do-release-upgrade'', ''unattended-upgrade'',
                     ''apt-pin-edit''] then Some Dpkg
      else if name \<in> set [''snap'', ''snap-install-hold''] then Some Snap
      else if name \<in> set [''rpm-ostree'', ''ostree''] then Some RpmOstree
      else if name = ''flatpak'' then Some Flatpak
      else None)"

definition lock_of_word :: "string \<Rightarrow> exclusive_resource option" where
  "lock_of_word token = lock_of_tool (last (split_char (CHR ''/'') token))"

definition exclusive_resource_of :: "action_spec \<Rightarrow> exclusive_resource option" where
  "exclusive_resource_of spec =
     (case as_mechanism spec of
        Command program args \<Rightarrow>
          find_map lock_of_word
            (filter (\<lambda>word. word \<noteq> []) (concat (map (split_words []) (program # args))))
      | _ \<Rightarrow> None)"

section \<open>The helper of privileged steps\<close>

definition ACTION_STEPS :: string where
  [action_defs]: "ACTION_STEPS = ''/usr/lib/sysknife/action-steps''"

end
