(* ===== verification/Sk_Actions_Host.thy ===== *)
theory Sk_Actions_Host
  imports Sk_Actions
begin

text \<open>
  The constructors of the host actions (\<^verbatim>\<open>crates/sysknife-daemon/src/actions\<close>): deployments and
  layering, Flatpak, containers, services, identity, processes, the journal, storage and mounts.
  One definition per constructor, in the order of the files, and the catalogue entry of each file.
\<close>

section \<open>\<^verbatim>\<open>actions/deployment.rs\<close>\<close>

definition get_system_state :: "action_spec" where
  [action_defs]: "get_system_state =
     \<lparr>as_action_name = ''GetSystemState'',
      as_mechanism = command_mechanism ''rpm-ostree'' [''status'', ''--json''],
      as_risk_level = Low, as_reboot_required = False, as_rollback_available = False\<rparr>"

definition collect_diagnostics :: "action_spec" where
  [action_defs]: "collect_diagnostics =
     \<lparr>as_action_name = ''CollectDiagnostics'',
      as_mechanism = command_mechanism ''journalctl'' [''-b'', ''-n'', ''500'', ''--no-pager''],
      as_risk_level = Low, as_reboot_required = False, as_rollback_available = False\<rparr>"

definition get_deployment_history :: "action_spec" where
  [action_defs]: "get_deployment_history =
     \<lparr>as_action_name = ''GetDeploymentHistory'',
      as_mechanism = command_mechanism ''rpm-ostree'' [''status'', ''--json''],
      as_risk_level = Low, as_reboot_required = False, as_rollback_available = False\<rparr>"

definition list_deployments :: "action_spec" where
  [action_defs]: "list_deployments =
     \<lparr>as_action_name = ''ListDeployments'',
      as_mechanism = command_mechanism ''rpm-ostree'' [''status'', ''--json''],
      as_risk_level = Low, as_reboot_required = False, as_rollback_available = False\<rparr>"

definition update_system :: "action_spec" where
  [action_defs]: "update_system =
     \<lparr>as_action_name = ''UpdateSystem'',
      as_mechanism = command_mechanism ''sudo'' [''rpm-ostree'', ''upgrade''],
      as_risk_level = High, as_reboot_required = True, as_rollback_available = True\<rparr>"

definition pin_deployment :: "nat \<Rightarrow> action_spec" where
  [action_defs]: "pin_deployment index =
     \<lparr>as_action_name = ''PinDeployment'',
      as_mechanism = Command ''sudo'' [''ostree'', ''admin'', ''pin'', dec index],
      as_risk_level = High, as_reboot_required = False, as_rollback_available = False\<rparr>"

definition unpin_deployment :: "nat \<Rightarrow> action_spec" where
  [action_defs]: "unpin_deployment index =
     \<lparr>as_action_name = ''UnpinDeployment'',
      as_mechanism = Command ''sudo'' [''ostree'', ''admin'', ''pin'', ''--unpin'', dec index],
      as_risk_level = High, as_reboot_required = False, as_rollback_available = False\<rparr>"

definition rebase_system :: "string \<Rightarrow> action_spec" where
  [action_defs]: "rebase_system target_ref =
     \<lparr>as_action_name = ''RebaseSystem'',
      as_mechanism = command_mechanism ''sudo'' [ACTION_STEPS, ''rpm-ostree'', ''rebase'',
        target_ref],
      as_risk_level = High, as_reboot_required = True, as_rollback_available = True\<rparr>"

definition cleanup_deployments :: "action_spec" where
  [action_defs]: "cleanup_deployments =
     \<lparr>as_action_name = ''CleanupDeployments'',
      as_mechanism = command_mechanism ''sudo'' [''rpm-ostree'', ''cleanup'', ''--rollback'',
        ''--pending''],
      as_risk_level = High, as_reboot_required = False, as_rollback_available = False\<rparr>"

definition reboot_system :: "action_spec" where
  [action_defs]: "reboot_system =
     \<lparr>as_action_name = ''RebootSystem'',
      as_mechanism = command_mechanism ''sudo'' [''systemctl'', ''reboot''],
      as_risk_level = High, as_reboot_required = True, as_rollback_available = False\<rparr>"

definition rollback_deployment :: "action_spec" where
  [action_defs]: "rollback_deployment =
     \<lparr>as_action_name = ''RollbackDeployment'',
      as_mechanism = command_mechanism ''sudo'' [''rpm-ostree'', ''rollback''],
      as_risk_level = High, as_reboot_required = True, as_rollback_available = False\<rparr>"

definition get_kernel_arguments :: "action_spec" where
  [action_defs]: "get_kernel_arguments =
     \<lparr>as_action_name = ''GetKernelArguments'',
      as_mechanism = command_mechanism ''rpm-ostree'' [''kargs''],
      as_risk_level = Low, as_reboot_required = False, as_rollback_available = False\<rparr>"

definition set_kernel_arguments :: "string list \<Rightarrow> string list \<Rightarrow> action_spec" where
  [action_defs]: "set_kernel_arguments args_to_add args_to_remove =
     \<lparr>as_action_name = ''SetKernelArguments'',
      as_mechanism = command_mechanism ''sudo''
        ([ACTION_STEPS, ''rpm-ostree'', ''kargs'']
         @ concat (map (\<lambda>a. [''append'', a]) args_to_add)
         @ concat (map (\<lambda>a. [''delete'', a]) args_to_remove)),
      as_risk_level = High, as_reboot_required = True, as_rollback_available = True\<rparr>"

definition deployment_specs :: "action_spec list" where
  "deployment_specs =
     [get_system_state, collect_diagnostics, get_deployment_history, list_deployments,
       update_system, pin_deployment 0, unpin_deployment 0,
       rebase_system ''fedora/41/x86_64/silverblue'', cleanup_deployments, reboot_system,
       rollback_deployment, get_kernel_arguments, set_kernel_arguments [] []]"

section \<open>\<^verbatim>\<open>actions/flatpak.rs\<close>\<close>

definition flatpak_as :: "string \<Rightarrow> string list \<Rightarrow> action_mechanism" where
  [action_defs]: "flatpak_as username args =
     Command ''sudo'' ([''/usr/lib/sysknife/action-steps'', ''flatpak'', username] @ args)"

definition install_flatpak :: "string \<Rightarrow> string \<Rightarrow> string \<Rightarrow> action_spec" where
  [action_defs]: "install_flatpak username app_id remote =
     \<lparr>as_action_name = ''InstallFlatpak'',
      as_mechanism = flatpak_as username [''install'', ''--user'', ''-y'', remote, app_id],
      as_risk_level = Medium, as_reboot_required = False, as_rollback_available = False\<rparr>"

definition remove_flatpak :: "string \<Rightarrow> string \<Rightarrow> action_spec" where
  [action_defs]: "remove_flatpak username app_id =
     \<lparr>as_action_name = ''RemoveFlatpak'',
      as_mechanism = flatpak_as username [''uninstall'', ''--user'', ''-y'', app_id],
      as_risk_level = Medium, as_reboot_required = False, as_rollback_available = False\<rparr>"

definition search_flatpak_apps :: "string \<Rightarrow> action_spec" where
  [action_defs]: "search_flatpak_apps search_term =
     \<lparr>as_action_name = ''SearchFlatpakApps'',
      as_mechanism = command_mechanism ''flatpak'' [''search'', search_term],
      as_risk_level = Low, as_reboot_required = False, as_rollback_available = False\<rparr>"

definition list_flatpak_remotes :: "string \<Rightarrow> action_spec" where
  [action_defs]: "list_flatpak_remotes username =
     \<lparr>as_action_name = ''ListFlatpakRemotes'',
      as_mechanism = flatpak_as username [''remotes'', ''--user'', ''--columns=name,url''],
      as_risk_level = Low, as_reboot_required = False, as_rollback_available = False\<rparr>"

definition add_flatpak_remote :: "string \<Rightarrow> string \<Rightarrow> string \<Rightarrow> action_spec" where
  [action_defs]: "add_flatpak_remote username remote url =
     \<lparr>as_action_name = ''AddFlatpakRemote'',
      as_mechanism = flatpak_as username [''remote-add'', ''--user'', ''--if-not-exists'', remote,
        url],
      as_risk_level = Medium, as_reboot_required = False, as_rollback_available = False\<rparr>"

definition remove_flatpak_remote :: "string \<Rightarrow> string \<Rightarrow> action_spec" where
  [action_defs]: "remove_flatpak_remote username remote =
     \<lparr>as_action_name = ''RemoveFlatpakRemote'',
      as_mechanism = flatpak_as username [''remote-delete'', ''--user'', remote],
      as_risk_level = Medium, as_reboot_required = False, as_rollback_available = False\<rparr>"

definition list_installed_flatpaks :: "string \<Rightarrow> action_spec" where
  [action_defs]: "list_installed_flatpaks username =
     \<lparr>as_action_name = ''ListInstalledFlatpaks'',
      as_mechanism = flatpak_as username [''list'', ''--user'', ''--app'',
        ''--columns=application,name,version,origin''],
      as_risk_level = Low, as_reboot_required = False, as_rollback_available = False\<rparr>"

definition update_flatpak :: "string \<Rightarrow> string option \<Rightarrow> action_spec" where
  [action_defs]: "update_flatpak username app_id =
     \<lparr>as_action_name = ''UpdateFlatpak'',
      as_mechanism = (case app_id of
          Some app \<Rightarrow> flatpak_as username [''update'', ''--user'', ''-y'', app]
        | None \<Rightarrow> flatpak_as username [''update'', ''--user'', ''-y'']),
      as_risk_level = Medium, as_reboot_required = False, as_rollback_available = False\<rparr>"

definition get_flatpak_app_info :: "string \<Rightarrow> string \<Rightarrow> action_spec" where
  [action_defs]: "get_flatpak_app_info username app_id =
     \<lparr>as_action_name = ''GetFlatpakAppInfo'',
      as_mechanism = flatpak_as username [''info'', ''--user'', app_id],
      as_risk_level = Low, as_reboot_required = False, as_rollback_available = False\<rparr>"

definition ubuntu_install_flatpak :: "string \<Rightarrow> string \<Rightarrow> string \<Rightarrow> action_spec" where
  [action_defs]: "ubuntu_install_flatpak username app_id remote =
     \<lparr>as_action_name = ''UbuntuInstallFlatpak'',
      as_mechanism = flatpak_as username [''install'', ''--user'', ''-y'', remote, app_id],
      as_risk_level = Medium, as_reboot_required = False, as_rollback_available = False\<rparr>"

definition ubuntu_remove_flatpak :: "string \<Rightarrow> string \<Rightarrow> action_spec" where
  [action_defs]: "ubuntu_remove_flatpak username app_id =
     \<lparr>as_action_name = ''UbuntuRemoveFlatpak'',
      as_mechanism = flatpak_as username [''uninstall'', ''--user'', ''-y'', app_id],
      as_risk_level = Medium, as_reboot_required = False, as_rollback_available = False\<rparr>"

definition ubuntu_update_flatpak :: "string \<Rightarrow> string option \<Rightarrow> action_spec" where
  [action_defs]: "ubuntu_update_flatpak username app_id =
     \<lparr>as_action_name = ''UbuntuUpdateFlatpak'',
      as_mechanism = (case app_id of
          Some app \<Rightarrow> flatpak_as username [''update'', ''--user'', ''-y'', app]
        | None \<Rightarrow> flatpak_as username [''update'', ''--user'', ''-y'']),
      as_risk_level = Medium, as_reboot_required = False, as_rollback_available = False\<rparr>"

definition ubuntu_list_flatpaks :: "string \<Rightarrow> action_spec" where
  [action_defs]: "ubuntu_list_flatpaks username =
     \<lparr>as_action_name = ''UbuntuListFlatpaks'',
      as_mechanism = flatpak_as username [''list'', ''--user'', ''--app'',
        ''--columns=application,name,version,origin''],
      as_risk_level = Low, as_reboot_required = False, as_rollback_available = False\<rparr>"

definition flatpak_specs :: "action_spec list" where
  "flatpak_specs =
     [install_flatpak ''testuser'' ''app-id'' ''flathub'', remove_flatpak ''testuser'' ''app-id'',
       search_flatpak_apps ''search-term'', list_flatpak_remotes ''testuser'',
       list_installed_flatpaks ''testuser'',
       add_flatpak_remote ''testuser'' ''remote'' ''https://example.invalid'',
       remove_flatpak_remote ''testuser'' ''remote'',
       get_flatpak_app_info ''testuser'' ''app-id'',
       update_flatpak ''testuser'' (Some ''com.example.App''),
       ubuntu_install_flatpak ''testuser'' ''app-id'' ''flathub'',
       ubuntu_remove_flatpak ''testuser'' ''app-id'',
       ubuntu_update_flatpak ''testuser'' (Some ''com.example.App''),
       ubuntu_list_flatpaks ''testuser'']"

section \<open>\<^verbatim>\<open>actions/containers.rs\<close>\<close>

definition podman_as :: "string \<Rightarrow> string list \<Rightarrow> action_mechanism" where
  [action_defs]: "podman_as username parameters =
     Command ''sudo'' ([''/usr/lib/sysknife/action-steps'', ''podman'', username] @ parameters)"

definition list_containers :: "string \<Rightarrow> action_spec" where
  [action_defs]: "list_containers username =
     \<lparr>as_action_name = ''ListContainers'',
      as_mechanism = podman_as username [''ps'', ''--all'', ''--format'', ''json''],
      as_risk_level = Low, as_reboot_required = False, as_rollback_available = False\<rparr>"

definition create_container :: "string \<Rightarrow> string \<Rightarrow> string \<Rightarrow> action_spec" where
  [action_defs]: "create_container username name image_ref =
     \<lparr>as_action_name = ''CreateContainer'',
      as_mechanism = podman_as username [''create'', ''--name'', name, image_ref],
      as_risk_level = Medium, as_reboot_required = False, as_rollback_available = False\<rparr>"

definition start_container :: "string \<Rightarrow> string \<Rightarrow> action_spec" where
  [action_defs]: "start_container username name =
     \<lparr>as_action_name = ''StartContainer'',
      as_mechanism = podman_as username [''start'', name],
      as_risk_level = Medium, as_reboot_required = False, as_rollback_available = False\<rparr>"

definition stop_container :: "string \<Rightarrow> string \<Rightarrow> action_spec" where
  [action_defs]: "stop_container username name =
     \<lparr>as_action_name = ''StopContainer'',
      as_mechanism = podman_as username [''stop'', name],
      as_risk_level = Medium, as_reboot_required = False, as_rollback_available = False\<rparr>"

definition remove_container :: "string \<Rightarrow> string \<Rightarrow> action_spec" where
  [action_defs]: "remove_container username name =
     \<lparr>as_action_name = ''RemoveContainer'',
      as_mechanism = podman_as username [''rm'', name],
      as_risk_level = Medium, as_reboot_required = False, as_rollback_available = False\<rparr>"

definition get_container_info :: "string \<Rightarrow> string \<Rightarrow> action_spec" where
  [action_defs]: "get_container_info username name =
     \<lparr>as_action_name = ''GetContainerInfo'',
      as_mechanism = podman_as username [''inspect'', name],
      as_risk_level = Low, as_reboot_required = False, as_rollback_available = False\<rparr>"

definition containers_specs :: "action_spec list" where
  "containers_specs =
     [list_containers ''testuser'',
       create_container ''testuser'' ''sysknife-dev'' ''registry.fedoraproject.org/fedora-toolbox:41'',
       start_container ''testuser'' ''sysknife-dev'',
       stop_container ''testuser'' ''sysknife-dev'',
       remove_container ''testuser'' ''sysknife-dev'',
       get_container_info ''testuser'' ''sysknife-dev'']"

section \<open>\<^verbatim>\<open>actions/layering.rs\<close>\<close>

definition install_packages :: "string list \<Rightarrow> action_spec" where
  [action_defs]: "install_packages packages =
     \<lparr>as_action_name = ''InstallPackages'',
      as_mechanism = command_mechanism ''sudo'' ([ACTION_STEPS, ''rpm-ostree'', ''install''] @ packages),
      as_risk_level = High, as_reboot_required = True, as_rollback_available = True\<rparr>"

definition remove_packages :: "string list \<Rightarrow> action_spec" where
  [action_defs]: "remove_packages packages =
     \<lparr>as_action_name = ''RemovePackages'',
      as_mechanism = command_mechanism ''sudo'' ([ACTION_STEPS, ''rpm-ostree'', ''uninstall''] @ packages),
      as_risk_level = High, as_reboot_required = True, as_rollback_available = True\<rparr>"

definition get_layered_packages :: "action_spec" where
  [action_defs]: "get_layered_packages =
     \<lparr>as_action_name = ''GetLayeredPackages'',
      as_mechanism = command_mechanism ''rpm-ostree'' [''status'', ''--json''],
      as_risk_level = Low, as_reboot_required = False, as_rollback_available = False\<rparr>"

definition add_layered_package :: "string \<Rightarrow> action_spec" where
  [action_defs]: "add_layered_package package =
     \<lparr>as_action_name = ''AddLayeredPackage'',
      as_mechanism = command_mechanism ''sudo'' [ACTION_STEPS, ''rpm-ostree'', ''install'',
        package],
      as_risk_level = High, as_reboot_required = True, as_rollback_available = True\<rparr>"

definition remove_layered_package :: "string \<Rightarrow> action_spec" where
  [action_defs]: "remove_layered_package package =
     \<lparr>as_action_name = ''RemoveLayeredPackage'',
      as_mechanism = command_mechanism ''sudo'' [ACTION_STEPS, ''rpm-ostree'', ''uninstall'',
        package],
      as_risk_level = High, as_reboot_required = True, as_rollback_available = True\<rparr>"

definition replace_layered_package :: "string \<Rightarrow> string \<Rightarrow> action_spec" where
  [action_defs]: "replace_layered_package old_pkg new_pkg =
     \<lparr>as_action_name = ''ReplaceLayeredPackage'',
      as_mechanism = command_mechanism ''sudo'' [ACTION_STEPS, ''rpm-ostree'', ''replace'',
        old_pkg, new_pkg],
      as_risk_level = High, as_reboot_required = True, as_rollback_available = True\<rparr>"

definition remove_base_package :: "string \<Rightarrow> action_spec" where
  [action_defs]: "remove_base_package package =
     \<lparr>as_action_name = ''RemoveBasePackage'',
      as_mechanism = command_mechanism ''sudo'' [ACTION_STEPS, ''rpm-ostree'',
        ''override-remove'', package],
      as_risk_level = High, as_reboot_required = True, as_rollback_available = True\<rparr>"

definition get_pending_updates :: "action_spec" where
  [action_defs]: "get_pending_updates =
     \<lparr>as_action_name = ''GetPendingUpdates'',
      as_mechanism = command_mechanism ''rpm-ostree'' [''upgrade'', ''--check''],
      as_risk_level = Low, as_reboot_required = False, as_rollback_available = False\<rparr>"

definition reset_layered_package_override :: "action_spec" where
  [action_defs]: "reset_layered_package_override =
     \<lparr>as_action_name = ''ResetLayeredPackageOverride'',
      as_mechanism = command_mechanism ''sudo'' [''rpm-ostree'', ''override'', ''reset'',
        ''--all''],
      as_risk_level = High, as_reboot_required = True, as_rollback_available = True\<rparr>"

definition layering_specs :: "action_spec list" where
  "layering_specs =
     [install_packages [''podman''], remove_packages [''podman''], get_layered_packages,
       add_layered_package ''podman'', remove_layered_package ''podman'',
       replace_layered_package ''vim'' ''neovim'', reset_layered_package_override,
       remove_base_package ''gedit'', get_pending_updates]"

section \<open>\<^verbatim>\<open>actions/package_repos.rs\<close>\<close>

definition repo_path :: "string \<Rightarrow> string" where
  [action_defs]: "repo_path repo_id = ''/etc/yum.repos.d/'' @ repo_id @ ''.repo''"

definition list_package_repositories :: action_spec where
  [action_defs]: "list_package_repositories =
     \<lparr>as_action_name = ''ListPackageRepositories'',
      as_mechanism = file_scan_mechanism ''/etc/yum.repos.d'',
      as_risk_level = Low, as_reboot_required = False, as_rollback_available = False\<rparr>"

definition add_package_repository :: "string \<Rightarrow> string \<Rightarrow> action_spec" where
  [action_defs]: "add_package_repository repo_id repo_url =
     \<lparr>as_action_name = ''AddPackageRepository'',
      as_mechanism = file_write_mechanism (repo_path repo_id)
        (''['' @ repo_id @ '']'' @ [CHR 0x0A] @ ''baseurl='' @ repo_url @ [CHR 0x0A]
         @ ''enabled=1'' @ [CHR 0x0A]),
      as_risk_level = High, as_reboot_required = False, as_rollback_available = False\<rparr>"

definition remove_package_repository :: "string \<Rightarrow> action_spec" where
  [action_defs]: "remove_package_repository repo_id =
     \<lparr>as_action_name = ''RemovePackageRepository'',
      as_mechanism = file_delete_mechanism (repo_path repo_id),
      as_risk_level = Medium, as_reboot_required = False, as_rollback_available = False\<rparr>"

definition enable_package_repository :: "string \<Rightarrow> action_spec" where
  [action_defs]: "enable_package_repository repo_id =
     \<lparr>as_action_name = ''EnablePackageRepository'',
      as_mechanism = file_patch_mechanism (repo_path repo_id) ''enabled=0'' ''enabled=1'',
      as_risk_level = Medium, as_reboot_required = False, as_rollback_available = False\<rparr>"

definition disable_package_repository :: "string \<Rightarrow> action_spec" where
  [action_defs]: "disable_package_repository repo_id =
     \<lparr>as_action_name = ''DisablePackageRepository'',
      as_mechanism = file_patch_mechanism (repo_path repo_id) ''enabled=1'' ''enabled=0'',
      as_risk_level = Medium, as_reboot_required = False, as_rollback_available = False\<rparr>"

definition package_repos_specs :: "action_spec list" where
  "package_repos_specs =
     [list_package_repositories,
       add_package_repository ''repo-id'' ''https://example.invalid/repo.repo'',
       remove_package_repository ''repo-id'', enable_package_repository ''repo-id'',
       disable_package_repository ''repo-id'']"

section \<open>\<^verbatim>\<open>actions/services.rs\<close>\<close>

definition SCHEDULED_JOB_HELPER :: string where
  [action_defs]: "SCHEDULED_JOB_HELPER = ''/usr/lib/sysknife/scheduled-job-edit''"

definition SCHEDULED_JOB_UNIT_DIR :: string where
  "SCHEDULED_JOB_UNIT_DIR = ''/etc/systemd/system''"

definition SCHEDULED_JOB_UNIT_PREFIX :: string where
  "SCHEDULED_JOB_UNIT_PREFIX = ''sysknife-''"

definition get_service_resource_limits :: "string \<Rightarrow> action_spec" where
  [action_defs]: "get_service_resource_limits unit_name =
     \<lparr>as_action_name = ''GetServiceResourceLimits'',
      as_mechanism = command_mechanism ''systemctl'' [''show'', unit_name,
        ''--property=MemoryMax,MemoryHigh,CPUQuotaPerSecUSec,TasksMax''],
      as_risk_level = Low, as_reboot_required = False, as_rollback_available = False\<rparr>"

definition set_service_resource_limits :: "string \<Rightarrow> string list \<Rightarrow> action_spec" where
  [action_defs]: "set_service_resource_limits unit_name assignments =
     \<lparr>as_action_name = ''SetServiceResourceLimits'',
      as_mechanism = command_mechanism ''sudo'' ([''systemctl'', ''set-property'', unit_name] @ assignments),
      as_risk_level = Medium, as_reboot_required = False, as_rollback_available = False\<rparr>"

definition scheduled_job_unit_paths :: "string \<Rightarrow> (string \<times> string) option" where
  "scheduled_job_unit_paths name =
     (if name = [] \<or> length name > 64
         \<or> \<not> (case name of c # _ \<Rightarrow> is_ascii_alphanumeric c | [] \<Rightarrow> False)
         \<or> \<not> list_all (\<lambda>c. is_ascii_alphanumeric c \<or> is_one_of ''_-'' c) name
      then None
      else
        let stem = SCHEDULED_JOB_UNIT_PREFIX @ name in
        Some (SCHEDULED_JOB_UNIT_DIR @ ''/'' @ stem @ ''.service'',
              SCHEDULED_JOB_UNIT_DIR @ ''/'' @ stem @ ''.timer''))"

definition create_scheduled_job :: "string \<Rightarrow> string \<Rightarrow> string \<Rightarrow> action_spec" where
  [action_defs]: "create_scheduled_job name command schedule =
     \<lparr>as_action_name = ''CreateScheduledJob'',
      as_mechanism = command_mechanism ''sudo'' [SCHEDULED_JOB_HELPER, ''--name'', name,
        ''--command'', command, ''--schedule'', schedule],
      as_risk_level = High, as_reboot_required = False, as_rollback_available = False\<rparr>"

definition list_services :: "action_spec" where
  [action_defs]: "list_services =
     \<lparr>as_action_name = ''ListServices'',
      as_mechanism = command_mechanism ''systemctl'' [''list-units'', ''--type=service'',
        ''--all'', ''--no-legend'', ''--no-pager''],
      as_risk_level = Low, as_reboot_required = False, as_rollback_available = False\<rparr>"

definition start_service :: "string \<Rightarrow> action_spec" where
  [action_defs]: "start_service unit_name =
     \<lparr>as_action_name = ''StartService'',
      as_mechanism = command_mechanism ''sudo'' [ACTION_STEPS, ''unit'', ''start'', unit_name],
      as_risk_level = Medium, as_reboot_required = False, as_rollback_available = False\<rparr>"

definition stop_service :: "string \<Rightarrow> action_spec" where
  [action_defs]: "stop_service unit_name =
     \<lparr>as_action_name = ''StopService'',
      as_mechanism = command_mechanism ''sudo'' [ACTION_STEPS, ''unit'', ''stop'', unit_name],
      as_risk_level = Medium, as_reboot_required = False, as_rollback_available = False\<rparr>"

definition restart_service :: "string \<Rightarrow> action_spec" where
  [action_defs]: "restart_service unit_name =
     \<lparr>as_action_name = ''RestartService'',
      as_mechanism = command_mechanism ''sudo'' [ACTION_STEPS, ''unit'', ''restart'', unit_name],
      as_risk_level = Medium, as_reboot_required = False, as_rollback_available = False\<rparr>"

definition set_service_enabled :: "string \<Rightarrow> bool \<Rightarrow> action_spec" where
  [action_defs]: "set_service_enabled unit_name enabled =
     (let verb = (if enabled then ''enable'' else ''disable'') in
      \<lparr>as_action_name = ''SetServiceEnabled'',
       as_mechanism = command_mechanism ''sudo'' [ACTION_STEPS, ''unit'', verb, unit_name],
       as_risk_level = Medium, as_reboot_required = False, as_rollback_available = False\<rparr>)"

definition mask_service :: "string \<Rightarrow> action_spec" where
  [action_defs]: "mask_service unit_name =
     \<lparr>as_action_name = ''MaskService'',
      as_mechanism = command_mechanism ''sudo'' [ACTION_STEPS, ''unit'', ''mask'', unit_name],
      as_risk_level = High, as_reboot_required = False, as_rollback_available = False\<rparr>"

definition unmask_service :: "string \<Rightarrow> action_spec" where
  [action_defs]: "unmask_service unit_name =
     \<lparr>as_action_name = ''UnmaskService'',
      as_mechanism = command_mechanism ''sudo'' [ACTION_STEPS, ''unit'', ''unmask'', unit_name],
      as_risk_level = Medium, as_reboot_required = False, as_rollback_available = False\<rparr>"

definition get_service_status :: "string \<Rightarrow> action_spec" where
  [action_defs]: "get_service_status unit_name =
     \<lparr>as_action_name = ''GetServiceStatus'',
      as_mechanism = command_mechanism ''systemctl'' [''status'', unit_name, ''--no-pager''],
      as_risk_level = Low, as_reboot_required = False, as_rollback_available = False\<rparr>"

definition reload_service :: "string \<Rightarrow> action_spec" where
  [action_defs]: "reload_service unit_name =
     \<lparr>as_action_name = ''ReloadService'',
      as_mechanism = command_mechanism ''sudo'' [ACTION_STEPS, ''unit'', ''reload'', unit_name],
      as_risk_level = Medium, as_reboot_required = False, as_rollback_available = False\<rparr>"

definition list_timers :: "action_spec" where
  [action_defs]: "list_timers =
     \<lparr>as_action_name = ''ListTimers'',
      as_mechanism = command_mechanism ''systemctl'' [''list-timers'', ''--all'', ''--no-legend'',
        ''--no-pager''],
      as_risk_level = Low, as_reboot_required = False, as_rollback_available = False\<rparr>"

definition reload_daemon :: "action_spec" where
  [action_defs]: "reload_daemon =
     \<lparr>as_action_name = ''ReloadDaemon'',
      as_mechanism = command_mechanism ''sudo'' [''systemctl'', ''daemon-reload''],
      as_risk_level = Medium, as_reboot_required = False, as_rollback_available = False\<rparr>"

definition get_service_logs :: "string \<Rightarrow> action_spec" where
  [action_defs]: "get_service_logs unit_name =
     \<lparr>as_action_name = ''GetServiceLogs'',
      as_mechanism = command_mechanism ''journalctl'' [''-u'', unit_name, ''-n'', ''200'',
        ''--no-pager''],
      as_risk_level = Low, as_reboot_required = False, as_rollback_available = False\<rparr>"

definition services_specs :: "action_spec list" where
  "services_specs =
     [list_services, start_service ''NetworkManager.service'',
       stop_service ''NetworkManager.service'', restart_service ''NetworkManager.service'',
       set_service_enabled ''sshd.service'' True, mask_service ''cups.service'',
       unmask_service ''cups.service'', get_service_logs ''NetworkManager.service'',
       get_service_status ''nginx.service'', reload_service ''nginx.service'', list_timers,
       reload_daemon, create_scheduled_job ''example'' ''/usr/bin/true'' ''*-*-* 02:00:00'',
       get_service_resource_limits ''nginx.service'',
       set_service_resource_limits ''nginx.service'' [''MemoryMax=500M'', ''CPUQuota=50%'']]"

section \<open>\<^verbatim>\<open>actions/toolbox.rs\<close>\<close>

definition toolbox_as :: "string \<Rightarrow> string list \<Rightarrow> action_mechanism" where
  [action_defs]: "toolbox_as username parameters =
     Command ''sudo'' ([''/usr/lib/sysknife/action-steps'', ''toolbox'', username] @ parameters)"

definition list_toolboxes :: "string \<Rightarrow> action_spec" where
  [action_defs]: "list_toolboxes username =
     \<lparr>as_action_name = ''ListToolboxes'',
      as_mechanism = toolbox_as username [''list''],
      as_risk_level = Low, as_reboot_required = False, as_rollback_available = False\<rparr>"

definition create_toolbox :: "string \<Rightarrow> string \<Rightarrow> string option \<Rightarrow> string option \<Rightarrow> action_spec" where
  [action_defs]: "create_toolbox username name release image_ref =
     (let args = [''create'', ''--container'', name]
            @ (case release of Some r \<Rightarrow> [''--release'', r] | None \<Rightarrow> [])
            @ (case image_ref of Some i \<Rightarrow> [''--image'', i] | None \<Rightarrow> [])
      in \<lparr>as_action_name = ''CreateToolbox'',
          as_mechanism = toolbox_as username args,
          as_risk_level = Medium, as_reboot_required = False, as_rollback_available = False\<rparr>)"

definition remove_toolbox :: "string \<Rightarrow> string \<Rightarrow> action_spec" where
  [action_defs]: "remove_toolbox username name =
     \<lparr>as_action_name = ''RemoveToolbox'',
      as_mechanism = toolbox_as username [''rm'', name],
      as_risk_level = Medium, as_reboot_required = False, as_rollback_available = False\<rparr>"

definition toolbox_specs :: "action_spec list" where
  "toolbox_specs =
     [list_toolboxes ''testuser'',
       create_toolbox ''testuser'' ''sysknife-dev'' (Some ''41'') None,
       remove_toolbox ''testuser'' ''sysknife-dev'']"

section \<open>\<^verbatim>\<open>actions/identity.rs\<close>\<close>

definition get_datetime :: "action_spec" where
  [action_defs]: "get_datetime =
     \<lparr>as_action_name = ''GetDateTime'',
      as_mechanism = command_mechanism ''timedatectl'' [],
      as_risk_level = Low, as_reboot_required = False, as_rollback_available = False\<rparr>"

definition set_hostname :: "string \<Rightarrow> action_spec" where
  [action_defs]: "set_hostname hostname =
     \<lparr>as_action_name = ''SetHostname'',
      as_mechanism = command_mechanism ''sudo'' [''hostnamectl'', ''set-hostname'', hostname],
      as_risk_level = Medium, as_reboot_required = False, as_rollback_available = False\<rparr>"

definition set_timezone :: "string \<Rightarrow> action_spec" where
  [action_defs]: "set_timezone timezone =
     \<lparr>as_action_name = ''SetTimezone'',
      as_mechanism = command_mechanism ''sudo'' [''timedatectl'', ''set-timezone'', timezone],
      as_risk_level = Medium, as_reboot_required = False, as_rollback_available = False\<rparr>"

definition set_locale :: "string \<Rightarrow> action_spec" where
  [action_defs]: "set_locale locale =
     \<lparr>as_action_name = ''SetLocale'',
      as_mechanism = command_mechanism ''sudo'' [''localectl'', ''set-locale'', locale],
      as_risk_level = Medium, as_reboot_required = False, as_rollback_available = False\<rparr>"

definition set_ntp :: "bool \<Rightarrow> action_spec" where
  [action_defs]: "set_ntp enabled =
     \<lparr>as_action_name = ''SetNtp'',
      as_mechanism = command_mechanism ''sudo'' [''timedatectl'', ''set-ntp'',
        (if enabled then ''true'' else ''false'')],
      as_risk_level = Medium, as_reboot_required = False, as_rollback_available = False\<rparr>"

definition identity_specs :: "action_spec list" where
  "identity_specs =
     [get_datetime, set_hostname ''sysknife-lab'', set_timezone ''America/Mexico_City'',
       set_locale ''en_US.UTF-8'', set_ntp True]"

section \<open>\<^verbatim>\<open>actions/filesystem.rs\<close>\<close>

definition disk_usage_spec :: "action_spec" where
  [action_defs]: "disk_usage_spec =
     \<lparr>as_action_name = ''GetDiskUsage'',
      as_mechanism = command_mechanism ''df'' [''-h'',
        ''--output=source,fstype,size,used,avail,pcent,target'', ''--exclude-type=composefs'',
        ''--exclude-type=tmpfs'', ''--exclude-type=devtmpfs'', ''--exclude-type=efivarfs''],
      as_risk_level = Low, as_reboot_required = False, as_rollback_available = False\<rparr>"

definition filesystem_specs :: "action_spec list" where
  "filesystem_specs =
     [disk_usage_spec]"

section \<open>\<^verbatim>\<open>actions/processes.rs\<close>\<close>

definition list_processes_spec :: "action_spec" where
  [action_defs]: "list_processes_spec =
     \<lparr>as_action_name = ''ListProcesses'',
      as_mechanism = command_mechanism ''ps'' [''aux'', ''--sort=-%mem''],
      as_risk_level = Low, as_reboot_required = False, as_rollback_available = False\<rparr>"

definition signal_process :: "nat \<Rightarrow> string \<Rightarrow> action_spec" where
  [action_defs]: "signal_process pid signal =
     \<lparr>as_action_name = ''SignalProcess'',
      as_mechanism = command_mechanism ''sudo''
        [''/usr/lib/sysknife/action-steps'', ''signal'', signal, dec pid],
      as_risk_level = High, as_reboot_required = False, as_rollback_available = False\<rparr>"

definition processes_specs :: "action_spec list" where
  "processes_specs =
     [list_processes_spec, signal_process 1234 ''TERM'']"

section \<open>\<^verbatim>\<open>actions/journald.rs\<close>\<close>

record journal_query =
  jq_lines :: nat
  jq_unit :: "string option"
  jq_priority :: "string option"
  jq_boot :: bool
  jq_kernel :: bool
  jq_since :: "string option"
  jq_until :: "string option"
  jq_grep :: "string option"

definition attached :: "string \<Rightarrow> string option \<Rightarrow> string list" where
  [action_defs]: "attached flag v = (case v of Some x \<Rightarrow> [flag @ x] | None \<Rightarrow> [])"

definition get_journal_log :: "journal_query \<Rightarrow> action_spec" where
  [action_defs]: "get_journal_log q =
     (let args = [''--output=json'', ''--no-pager'', ''--lines='' @ dec (jq_lines q)]
            @ attached ''--unit='' (jq_unit q)
            @ attached ''--priority='' (jq_priority q)
            @ (if jq_boot q then [''--boot''] else [])
            @ (if jq_kernel q then [''--dmesg''] else [])
            @ attached ''--since='' (jq_since q)
            @ attached ''--until='' (jq_until q)
            @ attached ''--grep='' (jq_grep q)
      in \<lparr>as_action_name = ''GetJournalLog'',
          as_mechanism = command_mechanism ''journalctl'' args,
          as_risk_level = Low, as_reboot_required = False, as_rollback_available = False\<rparr>)"

definition vacuum_journal :: "string \<Rightarrow> action_spec" where
  [action_defs]: "vacuum_journal vacuum_flag =
     \<lparr>as_action_name = ''VacuumJournal'',
      as_mechanism = command_mechanism ''journalctl'' [vacuum_flag],
      as_risk_level = High, as_reboot_required = False, as_rollback_available = False\<rparr>"

definition vacuum_journal_by_size :: "nat \<Rightarrow> action_spec" where
  [action_defs]: "vacuum_journal_by_size megabytes = vacuum_journal (''--vacuum-size='' @ dec megabytes @ ''M'')"

definition vacuum_journal_by_time :: "nat \<Rightarrow> action_spec" where
  [action_defs]: "vacuum_journal_by_time days = vacuum_journal (''--vacuum-time='' @ dec days @ ''d'')"

definition journald_specs :: "action_spec list" where
  "journald_specs =
     [get_journal_log \<lparr>jq_lines = 100, jq_unit = Some ''ssh.service'', jq_priority = Some ''err'',
        jq_boot = True, jq_kernel = False, jq_since = None, jq_until = None, jq_grep = None\<rparr>,
      vacuum_journal_by_size 500]"

section \<open>\<^verbatim>\<open>actions/lvm.rs\<close>\<close>

definition get_lvm_report :: "action_spec" where
  [action_defs]: "get_lvm_report =
     \<lparr>as_action_name = ''GetLvmReport'',
      as_mechanism = command_mechanism ''lvs'' [''--reportformat'', ''json'', ''--units'', ''b'',
        ''-o'', ''lv_name,vg_name,lv_size,lv_attr,origin,data_percent''],
      as_risk_level = Low, as_reboot_required = False, as_rollback_available = False\<rparr>"

definition extend_logical_volume :: "string \<Rightarrow> string \<Rightarrow> string \<Rightarrow> action_spec" where
  [action_defs]: "extend_logical_volume vg lv vol_size =
     \<lparr>as_action_name = ''ExtendLogicalVolume'',
      as_mechanism = command_mechanism ''sudo'' [''/usr/lib/sysknife/action-steps'',
        ''lv-extend'', vg, lv, vol_size],
      as_risk_level = High, as_reboot_required = False, as_rollback_available = False\<rparr>"

definition create_logical_volume :: "string \<Rightarrow> string \<Rightarrow> string \<Rightarrow> action_spec" where
  [action_defs]: "create_logical_volume vg name vol_size =
     \<lparr>as_action_name = ''CreateLogicalVolume'',
      as_mechanism = command_mechanism ''sudo'' [''/usr/lib/sysknife/action-steps'',
        ''lv-create'', vg, name, vol_size],
      as_risk_level = Medium, as_reboot_required = False, as_rollback_available = False\<rparr>"

definition create_lv_snapshot :: "string \<Rightarrow> string \<Rightarrow> string \<Rightarrow> string \<Rightarrow> action_spec" where
  [action_defs]: "create_lv_snapshot vg origin snapshot vol_size =
     \<lparr>as_action_name = ''CreateLvSnapshot'',
      as_mechanism = command_mechanism ''sudo'' [''/usr/lib/sysknife/action-steps'',
        ''lv-snapshot'', vg, origin, snapshot, vol_size],
      as_risk_level = Medium, as_reboot_required = False, as_rollback_available = False\<rparr>"

definition lvm_specs :: "action_spec list" where
  "lvm_specs =
     [get_lvm_report, extend_logical_volume ''ubuntu-vg'' ''ubuntu-lv'' ''+10G'',
       create_logical_volume ''ubuntu-vg'' ''data'' ''20G'',
       create_lv_snapshot ''ubuntu-vg'' ''ubuntu-lv'' ''ubuntu-lv-snap'' ''5G'']"

section \<open>\<^verbatim>\<open>actions/sysctl.rs\<close>\<close>

definition get_sysctl :: "string option \<Rightarrow> action_spec" where
  [action_defs]: "get_sysctl key =
     (let args = (case key of Some k \<Rightarrow> [''--'', k] | None \<Rightarrow> [''-a'']) in
      \<lparr>as_action_name = ''GetSysctl'',
       as_mechanism = command_mechanism ''sysctl'' args,
       as_risk_level = Low, as_reboot_required = False, as_rollback_available = False\<rparr>)"

definition set_sysctl :: "string \<Rightarrow> string \<Rightarrow> action_spec" where
  [action_defs]: "set_sysctl key val =
     \<lparr>as_action_name = ''SetSysctl'',
      as_mechanism = command_mechanism ''sudo'' [''/usr/lib/sysknife/sysctl-edit'', ''--key'',
        key, ''--value'', val],
      as_risk_level = High, as_reboot_required = False, as_rollback_available = False\<rparr>"

definition sysctl_specs :: "action_spec list" where
  "sysctl_specs =
     [get_sysctl (Some ''net.ipv4.ip_forward''), set_sysctl ''net.ipv4.ip_forward'' ''1'']"

section \<open>\<^verbatim>\<open>actions/mounts.rs\<close>\<close>

definition MOUNT_HELPER :: string where
  [action_defs]: "MOUNT_HELPER = ''/usr/lib/sysknife/mount-edit''"

definition get_mounts :: "action_spec" where
  [action_defs]: "get_mounts =
     \<lparr>as_action_name = ''GetMounts'',
      as_mechanism = command_mechanism ''findmnt'' [''--json''],
      as_risk_level = Low, as_reboot_required = False, as_rollback_available = False\<rparr>"

definition add_mount :: "string \<Rightarrow> string \<Rightarrow> string \<Rightarrow> string option \<Rightarrow> action_spec" where
  [action_defs]: "add_mount device mountpoint fstype options =
     (let args = [MOUNT_HELPER, ''--op'', ''mount'', ''--device'', device, ''--mountpoint'', mountpoint,
                  ''--fstype'', fstype]
            @ (case options of Some opts \<Rightarrow> [''--options'', opts] | None \<Rightarrow> [])
      in \<lparr>as_action_name = ''AddMount'',
          as_mechanism = command_mechanism ''sudo'' args,
          as_risk_level = High, as_reboot_required = False, as_rollback_available = False\<rparr>)"

definition remove_mount :: "string \<Rightarrow> action_spec" where
  [action_defs]: "remove_mount mountpoint =
     \<lparr>as_action_name = ''RemoveMount'',
      as_mechanism = command_mechanism ''sudo'' [MOUNT_HELPER, ''--op'', ''unmount'',
        ''--mountpoint'', mountpoint],
      as_risk_level = High, as_reboot_required = False, as_rollback_available = False\<rparr>"

definition add_swap :: "string \<Rightarrow> nat \<Rightarrow> action_spec" where
  [action_defs]: "add_swap file size_mb =
     \<lparr>as_action_name = ''AddSwap'',
      as_mechanism = command_mechanism ''sudo''
        [MOUNT_HELPER, ''--op'', ''addswap'', ''--file'', file, ''--size-mb'', dec size_mb],
      as_risk_level = High, as_reboot_required = False, as_rollback_available = False\<rparr>"

definition remove_swap :: "string \<Rightarrow> action_spec" where
  [action_defs]: "remove_swap file =
     \<lparr>as_action_name = ''RemoveSwap'',
      as_mechanism = command_mechanism ''sudo'' [MOUNT_HELPER, ''--op'', ''rmswap'', ''--file'',
        file],
      as_risk_level = High, as_reboot_required = False, as_rollback_available = False\<rparr>"

definition mounts_specs :: "action_spec list" where
  "mounts_specs =
     [get_mounts, add_mount ''/dev/sdb1'' ''/mnt/data'' ''ext4'' (Some ''defaults''),
       remove_mount ''/mnt/data'', add_swap ''/swapfile'' 2048, remove_swap ''/swapfile'']"

end
