(* ===== verification/Sk_Ip.thy ===== *)
theory Sk_Ip
  imports Sk_Screens
begin

text \<open>
  \<^verbatim>\<open>std::net::IpAddr\<close> as the actions use it: \<^verbatim>\<open>from_str\<close> and \<^verbatim>\<open>to_string\<close>. The parser follows the
  recursive descent of the standard library: a step either consumes a prefix of the input or
  fails and consumes nothing. The lemmas show that both an accepted text and a printed address
  consist of hexadecimal digits, dots and colons only.
\<close>

datatype ip_addr = V4 nat nat nat nat | V6 "nat list"

type_synonym 'a reader = "string \<Rightarrow> ('a \<times> string) option"

section \<open>Parsing\<close>

definition hex_digit_value :: "char \<Rightarrow> nat" where
  "hex_digit_value c =
     (if is_ascii_digit c then byte c - 48
      else if is_ascii_lowercase c then byte c - 87 else byte c - 55)"

definition read_number :: "bool \<Rightarrow> nat \<Rightarrow> nat \<Rightarrow> bool \<Rightarrow> nat reader" where
  "read_number hex max_digits bound allow_zero_prefix s =
     (let is_digit = (if hex then is_ascii_hexdigit else is_ascii_digit);
          ds = takeWhile is_digit s;
          n = foldl (\<lambda>a c. (if hex then 16 else 10) * a + hex_digit_value c) 0 ds
      in if ds = [] \<or> length ds > max_digits \<or> n > bound
            \<or> (\<not> allow_zero_prefix \<and> hd ds = CHR ''0'' \<and> length ds > 1)
         then None else Some (n, dropWhile is_digit s))"

definition read_given_char :: "char \<Rightarrow> unit reader" where
  "read_given_char c s = (case s of d # r \<Rightarrow> if d = c then Some ((), r) else None | [] \<Rightarrow> None)"

definition read_separator :: "char \<Rightarrow> nat \<Rightarrow> 'a reader \<Rightarrow> 'a reader" where
  "read_separator sep index inner s =
     (if index > 0 then (case read_given_char sep s of Some (_, r) \<Rightarrow> inner r | None \<Rightarrow> None)
      else inner s)"

definition read_octet :: "nat \<Rightarrow> nat reader" where
  "read_octet i = read_separator (CHR ''.'') i (read_number False 3 255 False)"

definition read_ipv4_addr :: "(nat \<times> nat \<times> nat \<times> nat) reader" where
  "read_ipv4_addr s =
     (case read_octet 0 s of None \<Rightarrow> None | Some (a, s1) \<Rightarrow>
      (case read_octet 1 s1 of None \<Rightarrow> None | Some (b, s2) \<Rightarrow>
       (case read_octet 2 s2 of None \<Rightarrow> None | Some (c, s3) \<Rightarrow>
        (case read_octet 3 s3 of None \<Rightarrow> None | Some (d, s4) \<Rightarrow> Some ((a, b, c, d), s4)))))"

text \<open>
  \<^verbatim>\<open>read_groups\<close>: up to \<open>limit\<close> groups, from group \<open>i\<close> on, with an embedded IPv4 address where two
  groups are left; the groups read, whether the last two are IPv4, and the rest of the input.
\<close>

fun read_groups :: "nat \<Rightarrow> nat \<Rightarrow> string \<Rightarrow> nat list \<times> bool \<times> string" where
  "read_groups i 0 s = ([], False, s)"
| "read_groups i (Suc left) s =
     (case (if left > 0 then read_separator (CHR '':'') i read_ipv4_addr s else None) of
        Some ((a, b, c, d), r) \<Rightarrow> ([256 * a + b, 256 * c + d], True, r)
      | None \<Rightarrow>
          (case read_separator (CHR '':'') i (read_number True 4 65535 True) s of
             None \<Rightarrow> ([], False, s)
           | Some (g, r) \<Rightarrow> (case read_groups (Suc i) left r of (gs, v4, r') \<Rightarrow> (g # gs, v4, r'))))"

definition read_ipv6_addr :: "nat list reader" where
  "read_ipv6_addr s =
     (case read_groups 0 8 s of (head, head_ipv4, r) \<Rightarrow>
        if length head = 8 then Some (head, r)
        else if head_ipv4 then None
        else (case read_given_char (CHR '':'') r of None \<Rightarrow> None | Some (_, r1) \<Rightarrow>
              (case read_given_char (CHR '':'') r1 of None \<Rightarrow> None | Some (_, r2) \<Rightarrow>
               (case read_groups 0 (8 - (length head + 1)) r2 of (tail, _, r3) \<Rightarrow>
                  Some (head @ replicate (8 - length head - length tail) 0 @ tail, r3)))))"

definition ip_from_str :: "string \<Rightarrow> ip_addr option" where
  "ip_from_str s =
     (case (case read_ipv4_addr s of
              Some ((a, b, c, d), r) \<Rightarrow> Some (V4 a b c d, r)
            | None \<Rightarrow> map_option (\<lambda>(gs, r). (V6 gs, r)) (read_ipv6_addr s)) of
        Some (addr, r) \<Rightarrow> if r = [] then Some addr else None
      | None \<Rightarrow> None)"

section \<open>Printing\<close>

definition hex_char :: "nat \<Rightarrow> char" where
  "hex_char d = (if d < 10 then char_of (48 + d) else char_of (87 + d))"

fun lower_hex :: "nat \<Rightarrow> string" where
  "lower_hex n = (if n < 16 then [hex_char n] else lower_hex (n div 16) @ [hex_char (n mod 16)])"

declare lower_hex.simps [simp del]

definition ipv4_to_string :: "nat \<Rightarrow> nat \<Rightarrow> nat \<Rightarrow> nat \<Rightarrow> string" where
  "ipv4_to_string a b c d = join_with ''.'' [dec a, dec b, dec c, dec d]"

text \<open>The longest run of zero groups, the first of equal length: its start and its length.\<close>

fun longest_zeros :: "nat \<Rightarrow> nat \<times> nat \<Rightarrow> nat \<times> nat \<Rightarrow> nat list \<Rightarrow> nat \<times> nat" where
  "longest_zeros i longest current [] = longest"
| "longest_zeros i longest current (g # gs) =
     (if g = 0 then
        let current' = (if snd current = 0 then i else fst current, snd current + 1)
        in longest_zeros (i + 1) (if snd current' > snd longest then current' else longest) current' gs
      else longest_zeros (i + 1) longest (0, 0) gs)"

definition fmt_subslice :: "nat list \<Rightarrow> string" where
  "fmt_subslice gs = join_with '':'' (map lower_hex gs)"

definition ipv6_to_string :: "nat list \<Rightarrow> string" where
  "ipv6_to_string gs =
     (if take 6 gs = [0, 0, 0, 0, 0, 0xFFFF] \<and> length gs = 8
      then ''::ffff:'' @ ipv4_to_string (gs ! 6 div 256) (gs ! 6 mod 256) (gs ! 7 div 256) (gs ! 7 mod 256)
      else (case longest_zeros 0 (0, 0) (0, 0) gs of (start, len) \<Rightarrow>
              if len > 1 then fmt_subslice (take start gs) @ ''::'' @ fmt_subslice (drop (start + len) gs)
              else fmt_subslice gs))"

fun ip_to_string :: "ip_addr \<Rightarrow> string" where
  "ip_to_string (V4 a b c d) = ipv4_to_string a b c d"
| "ip_to_string (V6 gs) = ipv6_to_string gs"

section \<open>The characters of an address\<close>

definition ip_char :: "char \<Rightarrow> bool" where
  "ip_char c \<longleftrightarrow> is_ascii_hexdigit c \<or> c = CHR ''.'' \<or> c = CHR '':''"

text \<open>A reader consumes a prefix of address characters.\<close>

definition consumed :: "string \<Rightarrow> string \<Rightarrow> bool" where
  "consumed s r \<longleftrightarrow> (\<exists>u. s = u @ r \<and> list_all ip_char u)"

lemma consumedI: "s = u @ r \<Longrightarrow> list_all ip_char u \<Longrightarrow> consumed s r"
  by (auto simp: consumed_def)

lemma consumed_refl [simp]: "consumed s s"
  by (rule consumedI [of _ "[]"]) simp_all

lemma consumed_Cons [simp]: "ip_char c \<Longrightarrow> consumed s r \<Longrightarrow> consumed (c # s) r"
  unfolding consumed_def by (metis append_Cons list.pred_inject(2))

lemma consumed_trans [trans]: "consumed s r \<Longrightarrow> consumed r t \<Longrightarrow> consumed s t"
  unfolding consumed_def by (metis append.assoc list_all_append)

definition reads_ip :: "'a reader \<Rightarrow> bool" where
  "reads_ip p \<longleftrightarrow> (\<forall>s x r. p s = Some (x, r) \<longrightarrow> consumed s r)"

lemma digit_hexdigit: "is_ascii_digit c \<Longrightarrow> is_ascii_hexdigit c"
  by (simp add: is_ascii_hexdigit_def)

lemma read_number_reads: "reads_ip (read_number hex max_digits bound z)"
  unfolding reads_ip_def
proof (intro allI impI)
  fix s x r
  assume "read_number hex max_digits bound z s = Some (x, r)"
  then have "s = takeWhile (if hex then is_ascii_hexdigit else is_ascii_digit) s @ r"
    by (auto simp: read_number_def Let_def split: if_splits)
  moreover have "list_all ip_char (takeWhile (if hex then is_ascii_hexdigit else is_ascii_digit) s)"
    by (auto simp: list_all_iff ip_char_def digit_hexdigit dest: set_takeWhileD)
  ultimately show "consumed s r" by (rule consumedI)
qed

lemma read_given_char_reads: "ip_char c \<Longrightarrow> reads_ip (read_given_char c)"
  by (auto simp: reads_ip_def read_given_char_def split: list.splits if_splits)

lemma read_separator_reads:
  assumes "ip_char sep" "reads_ip p"
  shows "reads_ip (read_separator sep i p)"
  unfolding reads_ip_def
proof (intro allI impI)
  fix s x r
  assume r: "read_separator sep i p s = Some (x, r)"
  show "consumed s r"
  proof (cases "i > 0")
    case True
    with r obtain s' where "s = sep # s'" "p s' = Some (x, r)"
      by (auto simp: read_separator_def read_given_char_def split: list.splits if_splits)
    with assms show ?thesis unfolding reads_ip_def by (metis consumed_Cons)
  next
    case False
    with r assms(2) show ?thesis by (simp add: read_separator_def reads_ip_def)
  qed
qed

lemma ip_separators [simp]: "ip_char (CHR ''.'')" "ip_char (CHR '':'')"
  by (simp_all add: ip_char_def)

lemma read_octet_reads: "reads_ip (read_octet i)"
  unfolding read_octet_def by (rule read_separator_reads [OF ip_separators(1) read_number_reads])

lemma reads_ipD: "reads_ip p \<Longrightarrow> p s = Some (x, r) \<Longrightarrow> consumed s r"
  by (simp add: reads_ip_def)

lemma read_ipv4_reads: "reads_ip read_ipv4_addr"
  unfolding reads_ip_def
proof (intro allI impI)
  fix s x r
  assume "read_ipv4_addr s = Some (x, r)"
  then obtain a s1 b s2 c s3 d where
    "read_octet 0 s = Some (a, s1)" "read_octet 1 s1 = Some (b, s2)"
    "read_octet 2 s2 = Some (c, s3)" "read_octet 3 s3 = Some (d, r)"
    by (auto simp: read_ipv4_addr_def split: option.splits prod.splits)
  then have "consumed s s1" "consumed s1 s2" "consumed s2 s3" "consumed s3 r"
    by (auto dest: reads_ipD [OF read_octet_reads])
  then show "consumed s r" by (metis consumed_trans)
qed

lemma read_groups_reads:
  "read_groups i n s = (gs, v4, r) \<Longrightarrow> consumed s r"
proof (induction i n s arbitrary: gs v4 r rule: read_groups.induct)
  case (2 i left s)
  let ?v4 = "if left > 0 then read_separator (CHR '':'') i read_ipv4_addr s else None"
  have sep: "reads_ip (read_separator (CHR '':'') i read_ipv4_addr)"
    "reads_ip (read_separator (CHR '':'') i (read_number True 4 65535 True))"
    by (simp_all add: read_separator_reads read_ipv4_reads read_number_reads)
  show ?case
  proof (cases ?v4)
    case (Some p)
    with "2.prems" have "read_separator (CHR '':'') i read_ipv4_addr s = Some (fst p, r)"
      by (cases p) (auto split: if_splits prod.splits)
    then show ?thesis by (rule reads_ipD [OF sep(1)])
  next
    case None
    show ?thesis
    proof (cases "read_separator (CHR '':'') i (read_number True 4 65535 True) s")
      case none: None
      with None "2.prems" show ?thesis by simp
    next
      case (Some gr)
      obtain g r1 where gr: "gr = (g, r1)" by fastforce
      obtain gs' v4' r' where rec: "read_groups (Suc i) left r1 = (gs', v4', r')" by (metis prod_cases3)
      have "consumed r1 r'"
        using "2.IH" [OF None Some [unfolded gr] refl rec] .
      moreover have "r = r'" using "2.prems" None Some gr rec by simp
      ultimately show ?thesis
        using consumed_trans reads_ipD [OF sep(2) Some [unfolded gr]] by blast
    qed
  qed
qed simp

lemma read_ipv6_reads: "reads_ip read_ipv6_addr"
  unfolding reads_ip_def
proof (intro allI impI)
  fix s x r
  assume parse: "read_ipv6_addr s = Some (x, r)"
  obtain head v4 r0 where g: "read_groups 0 8 s = (head, v4, r0)" by (metis prod_cases3)
  have c: "reads_ip (read_given_char (CHR '':''))" by (simp add: read_given_char_reads)
  show "consumed s r"
  proof (cases "length head = 8")
    case True
    with parse g read_groups_reads [OF g] show ?thesis by (simp add: read_ipv6_addr_def)
  next
    case False
    with parse g obtain r1 r2 tail v where
      1: "read_given_char (CHR '':'') r0 = Some ((), r1)" and
      2: "read_given_char (CHR '':'') r1 = Some ((), r2)" and
      3: "read_groups 0 (8 - (length head + 1)) r2 = (tail, v, r)"
      by (auto simp: read_ipv6_addr_def split: if_splits option.splits prod.splits)
    show ?thesis
      using read_groups_reads [OF g] reads_ipD [OF c 1] reads_ipD [OF c 2] read_groups_reads [OF 3]
      by (metis consumed_trans)
  qed
qed

lemma ip_char_not_special: "ip_char c \<Longrightarrow> \<not> shell_special c \<and> c \<noteq> CHR ''-''"
proof -
  have "is_ascii_hexdigit c \<Longrightarrow> is_ascii_alphanumeric c" by (auto simp: byte_class_defs)
  moreover have "\<not> shell_special (CHR ''.'')" "\<not> shell_special (CHR '':'')" by code_simp+
  ultimately show "ip_char c \<Longrightarrow> \<not> shell_special c \<and> c \<noteq> CHR ''-''"
    using alnum_not_special not_alnum_minus by (auto simp: ip_char_def)
qed

lemma ip_chars_argv: "s \<noteq> [] \<Longrightarrow> list_all ip_char s \<Longrightarrow> argv_safe s"
  using ip_char_not_special list_all_hd [of ip_char s] by (simp add: argv_safe_def list_all_iff)

lemma read_number_Nil: "read_number hex max_digits bound z [] = None"
  by (simp add: read_number_def Let_def)

lemma read_groups_Nil: "read_groups 0 n [] = ([], False, [])"
  by (cases n) (simp_all add: read_ipv4_addr_def read_octet_def read_separator_def read_number_Nil)

lemma ip_from_str_argv:
  assumes "ip_from_str s = Some ip"
  shows "argv_safe s"
proof (rule ip_chars_argv)
  have "consumed s []"
  proof (cases "read_ipv4_addr s")
    case (Some v)
    with assms obtain x where "read_ipv4_addr s = Some (x, [])"
      by (cases v) (auto simp: ip_from_str_def split: if_splits)
    then show ?thesis by (rule reads_ipD [OF read_ipv4_reads])
  next
    case None
    with assms obtain x where "read_ipv6_addr s = Some (x, [])"
      by (cases "read_ipv6_addr s") (auto simp: ip_from_str_def split: if_splits)
    then show ?thesis by (rule reads_ipD [OF read_ipv6_reads])
  qed
  then show "list_all ip_char s" by (simp add: consumed_def)
  have "ip_from_str [] = None"
    using read_groups_Nil [of 8]
    by (simp add: ip_from_str_def read_ipv4_addr_def read_octet_def read_separator_def
        read_number_Nil read_ipv6_addr_def read_given_char_def)
  with assms show "s \<noteq> []" by auto
qed

lemma lower_hex_chars: "list_all ip_char (lower_hex n)"
proof (induction n rule: lower_hex.induct)
  case (1 n)
  have digit: "ip_char (hex_char d)" if "d < 16" for d
    using that by (auto simp: hex_char_def ip_char_def byte_class_defs of_char_of)
  show ?case
    using 1 digit [of n] digit [of "n mod 16"] by (subst lower_hex.simps) simp
qed

lemma lower_hex_nonempty: "lower_hex n \<noteq> []"
  by (subst lower_hex.simps) simp

lemma dec_chars: "list_all ip_char (dec n)"
  using dec_digits by (auto simp: list_all_iff ip_char_def digit_hexdigit)

lemma join_chars:
  "list_all ip_char sep \<Longrightarrow> list_all (list_all ip_char) ws \<Longrightarrow> list_all ip_char (join_with sep ws)"
  by (induction ws rule: induct_list012) simp_all

lemma fmt_subslice_chars: "list_all ip_char (fmt_subslice gs)"
  unfolding fmt_subslice_def by (rule join_chars) (simp_all add: list_all_iff lower_hex_chars [unfolded list_all_iff])

lemma fmt_subslice_nonempty: "gs \<noteq> [] \<Longrightarrow> fmt_subslice gs \<noteq> []"
  by (cases gs rule: remdups_adj.cases) (auto simp: fmt_subslice_def lower_hex_nonempty)

lemma ipv4_chars: "list_all ip_char (ipv4_to_string a b c d)"
  unfolding ipv4_to_string_def by (rule join_chars) (simp_all add: dec_chars)

lemma fmt_no_zeros_nonempty:
  "longest_zeros 0 (0, 0) (0, 0) gs = (start, len) \<Longrightarrow> gs \<noteq> []
     \<Longrightarrow> ipv6_to_string gs \<noteq> []"
  by (auto simp: ipv6_to_string_def fmt_subslice_nonempty)

lemma ip_to_string_argv:
  assumes "\<And>gs. ip = V6 gs \<Longrightarrow> gs \<noteq> []"
  shows "argv_safe (ip_to_string ip)"
proof (rule ip_chars_argv)
  show "list_all ip_char (ip_to_string ip)"
  proof (cases ip)
    case (V6 gs)
    have "list_all ip_char ''::ffff:''" "list_all ip_char ''::''" by code_simp+
    with V6 show ?thesis
      by (auto simp: ipv6_to_string_def ipv4_chars fmt_subslice_chars split: prod.splits)
  qed (simp add: ipv4_chars)
  show "ip_to_string ip \<noteq> []"
  proof (cases ip)
    case (V6 gs)
    with assms show ?thesis
      by (cases "longest_zeros 0 (0, 0) (0, 0) gs") (auto dest: fmt_no_zeros_nonempty)
  qed (simp add: ipv4_to_string_def)
qed

lemma read_groups_length: "read_groups i n s = (gs, v4, r) \<Longrightarrow> length gs \<le> n"
  by (induction i n s arbitrary: gs v4 r rule: read_groups.induct)
    (fastforce split: option.splits prod.splits if_splits)+

lemma parsed_groups: "ip_from_str s = Some (V6 gs) \<Longrightarrow> gs \<noteq> []"
proof -
  assume parse: "ip_from_str s = Some (V6 gs)"
  then obtain r where v6: "read_ipv6_addr s = Some (gs, r)"
    by (auto simp: ip_from_str_def split: option.splits prod.splits if_splits)
  obtain head v4 r0 where g: "read_groups 0 8 s = (head, v4, r0)" by (metis prod_cases3)
  show "gs \<noteq> []"
  proof (cases "length head = 8")
    case True
    with v6 g show ?thesis by (auto simp: read_ipv6_addr_def)
  next
    case False
    with v6 g obtain tail w r2 r3 where
      "read_groups 0 (8 - (length head + 1)) r2 = (tail, w, r3)"
      "gs = head @ replicate (8 - length head - length tail) 0 @ tail"
      by (auto simp: read_ipv6_addr_def split: if_splits option.splits prod.splits)
    with read_groups_length [of 0 _ r2 tail w r3] read_groups_length [OF g] False show ?thesis
      by (cases head) auto
  qed
qed

lemma parsed_ip_argv: "ip_from_str s = Some ip \<Longrightarrow> argv_safe (ip_to_string ip)"
  using parsed_groups by (auto intro: ip_to_string_argv)

end
