(* ===== verification/Sk_Actions_Admin.thy ===== *)
theory Sk_Actions_Admin
  imports Sk_Actions Sk_Ip
begin

text \<open>
  The constructors of the administration actions (\<^verbatim>\<open>crates/sysknife-daemon/src/actions\<close>): sudo
  grants, logging, accounts, network, packages, firewalls and certificates. One definition per
  constructor, in the order of the files, and the catalogue entry of each file.
\<close>

section \<open>\<^verbatim>\<open>actions/sudoers.rs\<close>\<close>

definition SUDOERS_HELPER :: string where
  [action_defs]: "SUDOERS_HELPER = ''/usr/lib/sysknife/sudoers-edit''"

definition get_sudo_grants :: "action_spec" where
  [action_defs]: "get_sudo_grants =
     \<lparr>as_action_name = ''GetSudoGrants'',
      as_mechanism = command_mechanism SUDOERS_HELPER [''--op'', ''list''],
      as_risk_level = Low, as_reboot_required = False, as_rollback_available = False\<rparr>"

definition grant_sudo_access ::
  "string \<Rightarrow> string \<Rightarrow> string \<Rightarrow> string option \<Rightarrow> bool \<Rightarrow> action_spec" where
  [action_defs]: "grant_sudo_access name user commands runas nopasswd =
     (let args = [SUDOERS_HELPER, ''--op'', ''grant'', ''--name'', name, ''--user'', user,
                  ''--commands'', commands]
            @ (case runas of Some r \<Rightarrow> [''--runas'', r] | None \<Rightarrow> [])
            @ (if nopasswd then [''--nopasswd''] else [])
      in \<lparr>as_action_name = ''GrantSudoAccess'',
          as_mechanism = command_mechanism ''sudo'' args,
          as_risk_level = High, as_reboot_required = False, as_rollback_available = False\<rparr>)"

definition revoke_sudo_access :: "string \<Rightarrow> action_spec" where
  [action_defs]: "revoke_sudo_access name =
     \<lparr>as_action_name = ''RevokeSudoAccess'',
      as_mechanism = command_mechanism ''sudo'' [SUDOERS_HELPER, ''--op'', ''revoke'', ''--name'',
        name],
      as_risk_level = High, as_reboot_required = False, as_rollback_available = False\<rparr>"

definition sudoers_specs :: "action_spec list" where
  "sudoers_specs =
     [get_sudo_grants,
       grant_sudo_access ''deploy-restart'' ''deploy'' ''/usr/bin/systemctl'' None False,
       revoke_sudo_access ''deploy-restart'']"

section \<open>\<^verbatim>\<open>actions/apt_preferences.rs\<close>\<close>

definition APT_PIN_HELPER :: string where
  [action_defs]: "APT_PIN_HELPER = ''/usr/lib/sysknife/apt-pin-edit''"

definition get_apt_pins :: "string option \<Rightarrow> action_spec" where
  [action_defs]: "get_apt_pins package =
     (let args = [''policy''] @ (case package of Some pkg \<Rightarrow> [pkg] | None \<Rightarrow> []) in
      \<lparr>as_action_name = ''GetAptPins'',
       as_mechanism = command_mechanism ''apt-cache'' args,
       as_risk_level = Low, as_reboot_required = False, as_rollback_available = False\<rparr>)"

definition set_apt_pin :: "string \<Rightarrow> string \<Rightarrow> string \<Rightarrow> int \<Rightarrow> action_spec" where
  [action_defs]: "set_apt_pin name package pin priority =
     \<lparr>as_action_name = ''SetAptPin'',
      as_mechanism = command_mechanism ''sudo''
        [APT_PIN_HELPER, ''--op'', ''set'', ''--name'', name, ''--package'', package, ''--pin'', pin,
         ''--priority'', dec_int priority],
      as_risk_level = Medium, as_reboot_required = False, as_rollback_available = False\<rparr>"

definition remove_apt_pin :: "string \<Rightarrow> action_spec" where
  [action_defs]: "remove_apt_pin name =
     \<lparr>as_action_name = ''RemoveAptPin'',
      as_mechanism = command_mechanism ''sudo'' [APT_PIN_HELPER, ''--op'', ''remove'', ''--name'',
        name],
      as_risk_level = Medium, as_reboot_required = False, as_rollback_available = False\<rparr>"

definition apt_preferences_specs :: "action_spec list" where
  "apt_preferences_specs =
     [get_apt_pins None, set_apt_pin ''hold-nginx'' ''nginx'' ''version 1.24.*'' 990,
       remove_apt_pin ''hold-nginx'']"

section \<open>\<^verbatim>\<open>actions/logging.rs\<close>\<close>

definition LOG_HELPER :: string where
  [action_defs]: "LOG_HELPER = ''/usr/lib/sysknife/log-edit''"

definition get_logrotate_status :: "string option \<Rightarrow> action_spec" where
  [action_defs]: "get_logrotate_status config =
     (let conf = (case config of Some c \<Rightarrow> c | None \<Rightarrow> ''/etc/logrotate.conf'') in
      \<lparr>as_action_name = ''GetLogrotateStatus'',
       as_mechanism = command_mechanism ''logrotate'' [''-d'', conf],
       as_risk_level = Low, as_reboot_required = False, as_rollback_available = False\<rparr>)"

definition configure_log_rotation :: "string \<Rightarrow> string \<Rightarrow> string \<Rightarrow> nat \<Rightarrow> bool \<Rightarrow> action_spec" where
  [action_defs]: "configure_log_rotation name path frequency rotate_count compress =
     (let args = [LOG_HELPER, ''--op'', ''logrotate'', ''--name'', name, ''--path'', path,
                  ''--frequency'', frequency, ''--rotate'', dec rotate_count]
            @ (if compress then [''--compress''] else [])
      in \<lparr>as_action_name = ''ConfigureLogRotation'',
          as_mechanism = command_mechanism ''sudo'' args,
          as_risk_level = Medium, as_reboot_required = False, as_rollback_available = False\<rparr>)"

definition remove_log_rotation :: "string \<Rightarrow> action_spec" where
  [action_defs]: "remove_log_rotation name =
     \<lparr>as_action_name = ''RemoveLogRotation'',
      as_mechanism = command_mechanism ''sudo'' [LOG_HELPER, ''--op'', ''rm-logrotate'',
        ''--name'', name],
      as_risk_level = Medium, as_reboot_required = False, as_rollback_available = False\<rparr>"

definition configure_remote_syslog :: "string \<Rightarrow> nat \<Rightarrow> string \<Rightarrow> action_spec" where
  [action_defs]: "configure_remote_syslog host port protocol =
     \<lparr>as_action_name = ''ConfigureRemoteSyslog'',
      as_mechanism = command_mechanism ''sudo''
        [LOG_HELPER, ''--op'', ''rsyslog-forward'', ''--host'', host, ''--port'', dec port,
         ''--protocol'', protocol],
      as_risk_level = High, as_reboot_required = False, as_rollback_available = False\<rparr>"

definition remove_remote_syslog :: "action_spec" where
  [action_defs]: "remove_remote_syslog =
     \<lparr>as_action_name = ''RemoveRemoteSyslog'',
      as_mechanism = command_mechanism ''sudo'' [LOG_HELPER, ''--op'', ''rm-forward''],
      as_risk_level = High, as_reboot_required = False, as_rollback_available = False\<rparr>"

definition logging_specs :: "action_spec list" where
  "logging_specs =
     [get_logrotate_status None,
       configure_log_rotation ''nginx'' ''/var/log/nginx/*.log'' ''daily'' 14 True,
       remove_log_rotation ''nginx'', configure_remote_syslog ''logs.example.com'' 514 ''tcp'',
       remove_remote_syslog]"

section \<open>\<^verbatim>\<open>actions/pam.rs\<close>\<close>

definition PAM_HELPER :: string where
  [action_defs]: "PAM_HELPER = ''/usr/lib/sysknife/pam-edit''"

definition get_password_aging :: "string \<Rightarrow> action_spec" where
  [action_defs]: "get_password_aging user =
     \<lparr>as_action_name = ''GetPasswordAging'',
      as_mechanism = command_mechanism ''chage'' [''-l'', user],
      as_risk_level = Low, as_reboot_required = False, as_rollback_available = False\<rparr>"

definition set_password_aging :: "string \<Rightarrow> string list \<Rightarrow> action_spec" where
  [action_defs]: "set_password_aging user flags =
     \<lparr>as_action_name = ''SetPasswordAging'',
      as_mechanism = command_mechanism ''sudo''
        ([''/usr/lib/sysknife/action-steps'', ''password-aging'', user] @ flags),
      as_risk_level = High, as_reboot_required = False, as_rollback_available = False\<rparr>"

definition set_password_policy :: "string list \<Rightarrow> action_spec" where
  [action_defs]: "set_password_policy extra =
     \<lparr>as_action_name = ''SetPasswordPolicy'',
      as_mechanism = command_mechanism ''sudo'' ([PAM_HELPER, ''--op'', ''pwquality''] @ extra),
      as_risk_level = High, as_reboot_required = False, as_rollback_available = False\<rparr>"

definition set_account_lockout :: "string list \<Rightarrow> action_spec" where
  [action_defs]: "set_account_lockout extra =
     \<lparr>as_action_name = ''SetAccountLockout'',
      as_mechanism = command_mechanism ''sudo'' ([PAM_HELPER, ''--op'', ''faillock''] @ extra),
      as_risk_level = High, as_reboot_required = False, as_rollback_available = False\<rparr>"

definition pam_specs :: "action_spec list" where
  "pam_specs =
     [get_password_aging ''alice'', set_password_aging ''alice'' [''-M'', ''90''],
       set_password_policy [''--minlen'', ''12''], set_account_lockout [''--deny'', ''5'']]"

section \<open>\<^verbatim>\<open>actions/system_info.rs\<close>\<close>

definition get_memory_info_spec :: "action_spec" where
  [action_defs]: "get_memory_info_spec =
     \<lparr>as_action_name = ''GetMemoryInfo'',
      as_mechanism = command_mechanism ''free'' [''-h''],
      as_risk_level = Low, as_reboot_required = False, as_rollback_available = False\<rparr>"

definition get_host_state :: "action_spec" where
  [action_defs]: "get_host_state =
     \<lparr>as_action_name = ''GetHostState'',
      as_mechanism = command_mechanism ''hostnamectl'' [''status''],
      as_risk_level = Low, as_reboot_required = False, as_rollback_available = False\<rparr>"

definition system_info_specs :: "action_spec list" where
  "system_info_specs =
     [get_memory_info_spec, get_host_state]"

section \<open>\<^verbatim>\<open>actions/network.rs\<close>\<close>

definition configure_wifi :: "string \<Rightarrow> string option \<Rightarrow> action_spec" where
  [action_defs]: "configure_wifi ssid password =
     (let args = [''nmcli'', ''device'', ''wifi'', ''connect'', ssid]
            @ (case password of Some pw \<Rightarrow> [''password'', pw] | None \<Rightarrow> [])
      in \<lparr>as_action_name = ''ConfigureWifi'',
          as_mechanism = Command ''sudo'' args,
          as_risk_level = High, as_reboot_required = False, as_rollback_available = False\<rparr>)"

definition set_dns_servers :: "string \<Rightarrow> string list \<Rightarrow> action_spec" where
  [action_defs]: "set_dns_servers interface servers =
     \<lparr>as_action_name = ''SetDnsServers'',
      as_mechanism = command_mechanism ''sudo'' ([''resolvectl'', ''dns'', interface] @ servers),
      as_risk_level = High, as_reboot_required = False, as_rollback_available = False\<rparr>"

definition configure_firewall :: "string \<Rightarrow> string \<Rightarrow> bool \<Rightarrow> action_spec" where
  [action_defs]: "configure_firewall zone service enabled =
     (let verb = (if enabled then ''add-service'' else ''remove-service'') in
      \<lparr>as_action_name = ''ConfigureFirewall'',
       as_mechanism = command_mechanism ''sudo''
         [''/usr/lib/sysknife/action-steps'', ''firewall'', zone, service, verb],
       as_risk_level = High, as_reboot_required = False, as_rollback_available = False\<rparr>)"

definition get_firewall_state :: "action_spec" where
  [action_defs]: "get_firewall_state =
     \<lparr>as_action_name = ''GetFirewallState'',
      as_mechanism = command_mechanism ''firewall-cmd'' [''--list-all''],
      as_risk_level = Low, as_reboot_required = False, as_rollback_available = False\<rparr>"

definition get_network_status :: "action_spec" where
  [action_defs]: "get_network_status =
     \<lparr>as_action_name = ''GetNetworkStatus'',
      as_mechanism = command_mechanism ''ip'' [''-brief'', ''addr''],
      as_risk_level = Low, as_reboot_required = False, as_rollback_available = False\<rparr>"

definition get_nftables_ruleset :: "action_spec" where
  [action_defs]: "get_nftables_ruleset =
     \<lparr>as_action_name = ''GetNftablesRuleset'',
      as_mechanism = command_mechanism ''sudo'' [''nft'', ''list'', ''ruleset''],
      as_risk_level = Low, as_reboot_required = False, as_rollback_available = False\<rparr>"

definition get_firewall_backend_state :: "action_spec" where
  [action_defs]: "get_firewall_backend_state =
     \<lparr>as_action_name = ''GetFirewallBackendState'',
      as_mechanism = command_mechanism ''/usr/lib/sysknife/firewall-state'' [],
      as_risk_level = Low, as_reboot_required = False, as_rollback_available = False\<rparr>"

definition get_listening_ports :: "action_spec" where
  [action_defs]: "get_listening_ports =
     \<lparr>as_action_name = ''GetListeningPorts'',
      as_mechanism = command_mechanism ''ss'' [''-tulpnH''],
      as_risk_level = Low, as_reboot_required = False, as_rollback_available = False\<rparr>"

definition network_specs :: "action_spec list" where
  "network_specs =
     [configure_wifi ''CafeHotspot'' None, set_dns_servers ''wlp1s0'' [''1.1.1.1'', ''8.8.8.8''],
       configure_firewall ''public'' ''ssh'' True, get_firewall_state, get_network_status,
       get_listening_ports, get_nftables_ruleset, get_firewall_backend_state]"

section \<open>\<^verbatim>\<open>actions/users.rs\<close>\<close>

definition list_users :: "action_spec" where
  [action_defs]: "list_users =
     \<lparr>as_action_name = ''ListUsers'',
      as_mechanism = command_mechanism ''getent'' [''passwd''],
      as_risk_level = Low, as_reboot_required = False, as_rollback_available = False\<rparr>"

definition list_groups :: "action_spec" where
  [action_defs]: "list_groups =
     \<lparr>as_action_name = ''ListGroups'',
      as_mechanism = command_mechanism ''getent'' [''group''],
      as_risk_level = Low, as_reboot_required = False, as_rollback_available = False\<rparr>"

definition create_user :: "string \<Rightarrow> string option \<Rightarrow> string option \<Rightarrow> action_spec" where
  [action_defs]: "create_user username shell home =
     (let args = [''/usr/lib/sysknife/action-steps'', ''user-create'', username]
            @ (case home of Some h \<Rightarrow> [''--home-dir'', h] | None \<Rightarrow> [])
            @ (case shell of Some sh \<Rightarrow> [''--shell'', sh] | None \<Rightarrow> [])
      in \<lparr>as_action_name = ''CreateUser'',
          as_mechanism = Command ''sudo'' args,
          as_risk_level = High, as_reboot_required = False, as_rollback_available = False\<rparr>)"

definition delete_user :: "string \<Rightarrow> action_spec" where
  [action_defs]: "delete_user username =
     \<lparr>as_action_name = ''DeleteUser'',
      as_mechanism = command_mechanism ''sudo'' [''/usr/lib/sysknife/action-steps'',
        ''user-delete'', username],
      as_risk_level = High, as_reboot_required = False, as_rollback_available = False\<rparr>"

definition add_user_to_group :: "string \<Rightarrow> string \<Rightarrow> action_spec" where
  [action_defs]: "add_user_to_group username group_name =
     \<lparr>as_action_name = ''AddUserToGroup'',
      as_mechanism = command_mechanism ''sudo'' [''/usr/lib/sysknife/action-steps'',
        ''group-add'', username, group_name],
      as_risk_level = High, as_reboot_required = False, as_rollback_available = False\<rparr>"

definition remove_user_from_group :: "string \<Rightarrow> string \<Rightarrow> action_spec" where
  [action_defs]: "remove_user_from_group username group_name =
     \<lparr>as_action_name = ''RemoveUserFromGroup'',
      as_mechanism = command_mechanism ''sudo'' [''/usr/lib/sysknife/action-steps'',
        ''group-remove'', username, group_name],
      as_risk_level = High, as_reboot_required = False, as_rollback_available = False\<rparr>"

definition create_group :: "string \<Rightarrow> bool \<Rightarrow> action_spec" where
  [action_defs]: "create_group group_name system =
     (let args = [''/usr/lib/sysknife/action-steps'', ''group-create'']
            @ (if system then [''--system''] else []) @ [group_name]
      in \<lparr>as_action_name = ''CreateGroup'',
          as_mechanism = Command ''sudo'' args,
          as_risk_level = Medium, as_reboot_required = False, as_rollback_available = False\<rparr>)"

definition delete_group :: "string \<Rightarrow> action_spec" where
  [action_defs]: "delete_group group_name =
     \<lparr>as_action_name = ''DeleteGroup'',
      as_mechanism = command_mechanism ''sudo'' [''/usr/lib/sysknife/action-steps'',
        ''group-delete'', group_name],
      as_risk_level = High, as_reboot_required = False, as_rollback_available = False\<rparr>"

definition lock_user_account :: "string \<Rightarrow> action_spec" where
  [action_defs]: "lock_user_account username =
     \<lparr>as_action_name = ''LockUserAccount'',
      as_mechanism = command_mechanism ''sudo'' [''/usr/lib/sysknife/action-steps'',
        ''user-lock'', username],
      as_risk_level = High, as_reboot_required = False, as_rollback_available = False\<rparr>"

definition unlock_user_account :: "string \<Rightarrow> action_spec" where
  [action_defs]: "unlock_user_account username =
     \<lparr>as_action_name = ''UnlockUserAccount'',
      as_mechanism = command_mechanism ''sudo'' [''/usr/lib/sysknife/action-steps'',
        ''user-unlock'', username],
      as_risk_level = High, as_reboot_required = False, as_rollback_available = False\<rparr>"

definition users_specs :: "action_spec list" where
  "users_specs =
     [list_users, list_groups, create_user ''alice'' (Some ''/bin/bash'') (Some ''/home/alice''),
       delete_user ''alice'', add_user_to_group ''alice'' ''wheel'',
       remove_user_from_group ''alice'' ''wheel'', create_group ''developers'' False,
       delete_group ''developers'', lock_user_account ''alice'', unlock_user_account ''alice'']"

section \<open>\<^verbatim>\<open>actions/ssh.rs\<close>\<close>

definition SSHD_OPTION_HELPER :: string where
  [action_defs]: "SSHD_OPTION_HELPER = ''/usr/lib/sysknife/sshd-option-edit''"

definition set_sshd_option :: "string \<Rightarrow> string \<Rightarrow> action_spec" where
  [action_defs]: "set_sshd_option option val =
     \<lparr>as_action_name = ''SetSshdOption'',
      as_mechanism = command_mechanism ''sudo'' [SSHD_OPTION_HELPER, ''--option'', option,
        ''--value'', val],
      as_risk_level = High, as_reboot_required = False, as_rollback_available = False\<rparr>"

definition get_authorized_keys :: "string \<Rightarrow> action_spec" where
  [action_defs]: "get_authorized_keys username =
     \<lparr>as_action_name = ''GetAuthorizedKeys'',
      as_mechanism = command_mechanism ''cat'' [''/home/'' @ username @ ''/.ssh/authorized_keys''],
      as_risk_level = Low, as_reboot_required = False, as_rollback_available = False\<rparr>"

definition keys_edit_as_user :: "string \<Rightarrow> string \<Rightarrow> string \<Rightarrow> string \<Rightarrow> action_spec" where
  [action_defs]: "keys_edit_as_user action_name username operation public_key =
     \<lparr>as_action_name = action_name,
      as_mechanism = command_mechanism ''sudo''
        [''/usr/lib/sysknife/action-steps'', operation, username, public_key],
      as_risk_level = High, as_reboot_required = False, as_rollback_available = False\<rparr>"

definition add_authorized_key :: "string \<Rightarrow> string \<Rightarrow> action_spec" where
  [action_defs]: "add_authorized_key username public_key =
     keys_edit_as_user ''AddAuthorizedKey'' username ''ssh-add'' public_key"

definition remove_authorized_key :: "string \<Rightarrow> string \<Rightarrow> action_spec" where
  [action_defs]: "remove_authorized_key username public_key =
     keys_edit_as_user ''RemoveAuthorizedKey'' username ''ssh-remove'' public_key"

definition ssh_specs :: "action_spec list" where
  "ssh_specs =
     [get_authorized_keys ''alice'', add_authorized_key ''alice'' ''ssh-ed25519 AAAA...'',
       remove_authorized_key ''alice'' ''ssh-ed25519 AAAA...'',
       set_sshd_option ''PermitRootLogin'' ''prohibit-password'']"

section \<open>\<^verbatim>\<open>actions/apt.rs\<close>\<close>

definition UNATTENDED_UPGRADES_HELPER :: string where
  [action_defs]: "UNATTENDED_UPGRADES_HELPER = ''/usr/lib/sysknife/unattended-upgrades-edit''"

definition configure_unattended_upgrades :: "bool \<Rightarrow> action_spec" where
  [action_defs]: "configure_unattended_upgrades enabled =
     (let flag = (if enabled then ''--enable'' else ''--disable'') in
      \<lparr>as_action_name = ''ConfigureUnattendedUpgrades'',
       as_mechanism = command_mechanism ''sudo'' [UNATTENDED_UPGRADES_HELPER, flag],
       as_risk_level = High, as_reboot_required = False, as_rollback_available = False\<rparr>)"

definition apt_update :: "action_spec" where
  [action_defs]: "apt_update =
     \<lparr>as_action_name = ''AptUpdate'',
      as_mechanism = command_mechanism ''sudo'' [ACTION_STEPS, ''apt'', ''update''],
      as_risk_level = Low, as_reboot_required = False, as_rollback_available = False\<rparr>"

definition apt_upgrade :: "action_spec" where
  [action_defs]: "apt_upgrade =
     \<lparr>as_action_name = ''AptUpgrade'',
      as_mechanism = command_mechanism ''sudo'' [ACTION_STEPS, ''apt'', ''dist-upgrade''],
      as_risk_level = High, as_reboot_required = False, as_rollback_available = False\<rparr>"

definition apt_install :: "string \<Rightarrow> action_spec" where
  [action_defs]: "apt_install package =
     \<lparr>as_action_name = ''AptInstall'',
      as_mechanism = command_mechanism ''sudo'' [ACTION_STEPS, ''apt'', ''install'', package],
      as_risk_level = Medium, as_reboot_required = False, as_rollback_available = False\<rparr>"

definition apt_remove :: "string \<Rightarrow> action_spec" where
  [action_defs]: "apt_remove package =
     \<lparr>as_action_name = ''AptRemove'',
      as_mechanism = command_mechanism ''sudo'' [ACTION_STEPS, ''apt'', ''remove'', package],
      as_risk_level = Medium, as_reboot_required = False, as_rollback_available = False\<rparr>"

definition apt_purge :: "string \<Rightarrow> action_spec" where
  [action_defs]: "apt_purge package =
     \<lparr>as_action_name = ''AptPurge'',
      as_mechanism = command_mechanism ''sudo'' [ACTION_STEPS, ''apt'', ''purge'', package],
      as_risk_level = Medium, as_reboot_required = False, as_rollback_available = False\<rparr>"

definition apt_autoremove :: "action_spec" where
  [action_defs]: "apt_autoremove =
     \<lparr>as_action_name = ''AptAutoremove'',
      as_mechanism = command_mechanism ''sudo'' [ACTION_STEPS, ''apt'', ''autoremove''],
      as_risk_level = Medium, as_reboot_required = False, as_rollback_available = False\<rparr>"

definition apt_hold :: "string \<Rightarrow> action_spec" where
  [action_defs]: "apt_hold package =
     \<lparr>as_action_name = ''AptHold'',
      as_mechanism = command_mechanism ''sudo'' [ACTION_STEPS, ''apt'', ''hold'', package],
      as_risk_level = Medium, as_reboot_required = False, as_rollback_available = False\<rparr>"

definition apt_unhold :: "string \<Rightarrow> action_spec" where
  [action_defs]: "apt_unhold package =
     \<lparr>as_action_name = ''AptUnhold'',
      as_mechanism = command_mechanism ''sudo'' [ACTION_STEPS, ''apt'', ''unhold'', package],
      as_risk_level = Medium, as_reboot_required = False, as_rollback_available = False\<rparr>"

definition apt_search :: "string \<Rightarrow> action_spec" where
  [action_defs]: "apt_search search_term =
     \<lparr>as_action_name = ''AptSearch'',
      as_mechanism = command_mechanism ''apt-cache'' [''search'', search_term],
      as_risk_level = Low, as_reboot_required = False, as_rollback_available = False\<rparr>"

definition apt_list_installed :: "action_spec" where
  [action_defs]: "apt_list_installed =
     \<lparr>as_action_name = ''AptListInstalled'',
      as_mechanism = command_mechanism ''dpkg'' [''-l''],
      as_risk_level = Low, as_reboot_required = False, as_rollback_available = False\<rparr>"

definition apt_show :: "string \<Rightarrow> action_spec" where
  [action_defs]: "apt_show package =
     \<lparr>as_action_name = ''AptShow'',
      as_mechanism = command_mechanism ''apt-cache'' [''show'', package],
      as_risk_level = Low, as_reboot_required = False, as_rollback_available = False\<rparr>"

definition apt_list_upgradable :: "action_spec" where
  [action_defs]: "apt_list_upgradable =
     \<lparr>as_action_name = ''AptListUpgradable'',
      as_mechanism = command_mechanism ''bash'' [''-c'', ''apt list --upgradable 2>/dev/null''],
      as_risk_level = Low, as_reboot_required = False, as_rollback_available = False\<rparr>"

definition apt_history_list :: action_spec where
  [action_defs]: "apt_history_list =
     \<lparr>as_action_name = ''AptHistoryList'',
      as_mechanism = command_mechanism ''bash''
        [''-c'', ''grep -A 4 '' @ [CHR 0x27] @ ''^Start-Date'' @ [CHR 0x27]
                 @ '' /var/log/apt/history.log | tail -n 80''],
      as_risk_level = Low, as_reboot_required = False, as_rollback_available = False\<rparr>"

definition apt_specs :: "action_spec list" where
  "apt_specs =
     [apt_update, apt_upgrade, apt_install ''curl'', apt_remove ''curl'', apt_purge ''curl'',
       apt_autoremove, apt_hold ''curl'', apt_unhold ''curl'', apt_search ''curl'',
       apt_list_installed, apt_show ''curl'', apt_list_upgradable, apt_history_list,
       configure_unattended_upgrades True]"

section \<open>\<^verbatim>\<open>actions/ppa.rs\<close>\<close>

definition ADD_APT_REPOSITORY :: string where
  [action_defs]: "ADD_APT_REPOSITORY = ''add-apt-repository''"

definition YES_FLAG :: string where
  [action_defs]: "YES_FLAG = ''-y''"

definition REMOVE_FLAG :: string where
  [action_defs]: "REMOVE_FLAG = ''--remove''"

definition PPA_FLAG :: string where
  [action_defs]: "PPA_FLAG = ''--ppa''"

definition ppa_arg :: "string \<Rightarrow> string" where
  [action_defs]: "ppa_arg name = ''ppa:'' @ name"

definition add_ppa :: "string \<Rightarrow> action_spec" where
  [action_defs]: "add_ppa name =
     \<lparr>as_action_name = ''AddPpa'',
      as_mechanism = command_mechanism ''sudo'' [ADD_APT_REPOSITORY, YES_FLAG, PPA_FLAG,
        ppa_arg name],
      as_risk_level = High, as_reboot_required = False, as_rollback_available = False\<rparr>"

definition remove_ppa :: "string \<Rightarrow> action_spec" where
  [action_defs]: "remove_ppa name =
     \<lparr>as_action_name = ''RemovePpa'',
      as_mechanism = command_mechanism ''sudo'' [ADD_APT_REPOSITORY, YES_FLAG, REMOVE_FLAG,
        PPA_FLAG, ppa_arg name],
      as_risk_level = Medium, as_reboot_required = False, as_rollback_available = False\<rparr>"

definition ppa_specs :: "action_spec list" where
  "ppa_specs =
     [add_ppa ''deadsnakes/ppa'', remove_ppa ''deadsnakes/ppa'']"

section \<open>\<^verbatim>\<open>actions/snap.rs\<close>\<close>

datatype snap_install_error = InvalidArg string string

definition safe_snap_arg_is_valid :: "string \<Rightarrow> bool" where
  "safe_snap_arg_is_valid s =
     (if s = [] \<or> length s > 254 \<or> starts_with s ''-'' then False
      else list_all (\<lambda>c. is_ascii_alphanumeric c \<or> is_one_of ''._:/+@-'' c) s)"

definition snap_install :: "string \<Rightarrow> string option \<Rightarrow> bool \<Rightarrow> snap_install_error + action_spec" where
  "snap_install name channel auto_update =
     (if \<not> safe_snap_arg_is_valid name then Inl (InvalidArg ''name'' name)
      else if (case channel of Some ch \<Rightarrow> \<not> safe_snap_arg_is_valid ch | None \<Rightarrow> False)
           then Inl (InvalidArg ''channel'' (case channel of Some ch \<Rightarrow> ch | None \<Rightarrow> []))
      else if auto_update then
        Inr \<lparr>as_action_name = ''SnapInstall'',
             as_mechanism = command_mechanism ''sudo''
               ([''snap'', ''install'']
                @ (case channel of Some ch \<Rightarrow> [''--channel='' @ ch] | None \<Rightarrow> []) @ [name]),
             as_risk_level = Medium, as_reboot_required = False, as_rollback_available = False\<rparr>
      else
        let channel_arg = (case channel of Some ch \<Rightarrow> ch | None \<Rightarrow> ''stable'') in
        Inr \<lparr>as_action_name = ''SnapInstall'',
             as_mechanism = command_mechanism ''sudo''
               [''/usr/lib/sysknife/action-steps'', ''snap-install-hold'', name, channel_arg],
             as_risk_level = Medium, as_reboot_required = False, as_rollback_available = False\<rparr>)"

definition snap_remove :: "string \<Rightarrow> action_spec" where
  [action_defs]: "snap_remove name =
     \<lparr>as_action_name = ''SnapRemove'',
      as_mechanism = command_mechanism ''sudo'' [''snap'', ''remove'', name],
      as_risk_level = Medium, as_reboot_required = False, as_rollback_available = False\<rparr>"

definition snap_refresh :: "string option \<Rightarrow> action_spec" where
  [action_defs]: "snap_refresh name =
     (case name of
        Some n \<Rightarrow>
          \<lparr>as_action_name = ''SnapRefresh'',
           as_mechanism = command_mechanism ''sudo'' [''snap'', ''refresh'', n],
           as_risk_level = Medium, as_reboot_required = False, as_rollback_available = False\<rparr>
      | None \<Rightarrow>
          \<lparr>as_action_name = ''SnapRefresh'',
           as_mechanism = command_mechanism ''sudo'' [''snap'', ''refresh''],
           as_risk_level = Medium, as_reboot_required = False, as_rollback_available = False\<rparr>)"

definition snap_hold :: "string \<Rightarrow> action_spec" where
  [action_defs]: "snap_hold name =
     \<lparr>as_action_name = ''SnapHold'',
      as_mechanism = command_mechanism ''sudo'' [''snap'', ''refresh'', ''--hold'', name],
      as_risk_level = Medium, as_reboot_required = False, as_rollback_available = False\<rparr>"

definition snap_unhold :: "string \<Rightarrow> action_spec" where
  [action_defs]: "snap_unhold name =
     \<lparr>as_action_name = ''SnapUnhold'',
      as_mechanism = command_mechanism ''sudo'' [''snap'', ''refresh'', ''--unhold'', name],
      as_risk_level = Medium, as_reboot_required = False, as_rollback_available = False\<rparr>"

definition snap_list :: "action_spec" where
  [action_defs]: "snap_list =
     \<lparr>as_action_name = ''SnapList'',
      as_mechanism = command_mechanism ''snap'' [''list''],
      as_risk_level = Low, as_reboot_required = False, as_rollback_available = False\<rparr>"

definition snap_info :: "string \<Rightarrow> action_spec" where
  [action_defs]: "snap_info name =
     \<lparr>as_action_name = ''SnapInfo'',
      as_mechanism = command_mechanism ''snap'' [''info'', name],
      as_risk_level = Low, as_reboot_required = False, as_rollback_available = False\<rparr>"

definition snap_revert :: "string \<Rightarrow> action_spec" where
  [action_defs]: "snap_revert name =
     \<lparr>as_action_name = ''SnapRevert'',
      as_mechanism = command_mechanism ''sudo'' [''snap'', ''revert'', name],
      as_risk_level = Medium, as_reboot_required = False, as_rollback_available = False\<rparr>"

definition snap_classic_install :: "string \<Rightarrow> action_spec" where
  [action_defs]: "snap_classic_install name =
     \<lparr>as_action_name = ''SnapClassicInstall'',
      as_mechanism = command_mechanism ''sudo'' [''snap'', ''install'', ''--classic'', name],
      as_risk_level = Medium, as_reboot_required = False, as_rollback_available = False\<rparr>"

definition snap_specs :: "action_spec list" where
  "snap_specs =
     [expect (snap_install ''firefox'' None False), snap_remove ''firefox'',
       snap_refresh (Some ''firefox''), snap_hold ''firefox'', snap_unhold ''firefox'', snap_list,
       snap_info ''firefox'', snap_revert ''firefox'', snap_classic_install ''code'']"

section \<open>\<^verbatim>\<open>actions/grub.rs\<close>\<close>

definition GRUB_KARGS_HELPER :: string where
  [action_defs]: "GRUB_KARGS_HELPER = ''/usr/lib/sysknife/grub-kargs-edit''"

datatype kargs_error = BothEmpty

definition grub_get_kargs :: "action_spec" where
  [action_defs]: "grub_get_kargs =
     \<lparr>as_action_name = ''GrubGetKargs'',
      as_mechanism = command_mechanism ''grep'' [''-E'', ''^GRUB_CMDLINE_LINUX'',
        ''/etc/default/grub''],
      as_risk_level = Low, as_reboot_required = False, as_rollback_available = False\<rparr>"

definition grub_set_kargs :: "string list \<Rightarrow> string list \<Rightarrow> kargs_error + action_spec" where
  "grub_set_kargs to_append to_delete =
     (if to_append = [] \<and> to_delete = [] then Inl BothEmpty
      else
        let append_csv = join_with '','' to_append; delete_csv = join_with '','' to_delete in
        Inr \<lparr>as_action_name = ''GrubSetKargs'',
             as_mechanism = command_mechanism ''sudo''
               [GRUB_KARGS_HELPER, ''--append'', append_csv, ''--delete'', delete_csv],
             as_risk_level = High, as_reboot_required = True, as_rollback_available = False\<rparr>)"

definition grub_specs :: "action_spec list" where
  "grub_specs =
     [grub_get_kargs, expect (grub_set_kargs [''quiet''] [''splash''])]"

section \<open>\<^verbatim>\<open>actions/reboot.rs\<close>\<close>

definition REBOOT_REQUIRED_FILE :: string where
  [action_defs]: "REBOOT_REQUIRED_FILE = ''/var/run/reboot-required''"

definition REBOOT_REQUIRED_PKGS_FILE :: string where
  [action_defs]: "REBOOT_REQUIRED_PKGS_FILE = ''/var/run/reboot-required.pkgs''"

definition check_pending_reboot :: action_spec where
  [action_defs]: "check_pending_reboot =
     (let script = ''if test -f '' @ REBOOT_REQUIRED_FILE @ ''; then cat '' @ REBOOT_REQUIRED_FILE
            @ ''; cat '' @ REBOOT_REQUIRED_PKGS_FILE @ '' 2>/dev/null; true; else echo ''
            @ [CHR 0x27] @ ''No reboot required.'' @ [CHR 0x27] @ ''; fi''
      in \<lparr>as_action_name = ''CheckPendingReboot'',
          as_mechanism = command_mechanism ''bash'' [''-c'', script],
          as_risk_level = Low, as_reboot_required = False, as_rollback_available = False\<rparr>)"

definition reboot_specs :: "action_spec list" where
  "reboot_specs =
     [check_pending_reboot]"

section \<open>\<^verbatim>\<open>actions/ufw.rs\<close>\<close>

definition ufw_enable :: "action_spec" where
  [action_defs]: "ufw_enable =
     \<lparr>as_action_name = ''UfwEnable'',
      as_mechanism = command_mechanism ''sudo'' [''ufw'', ''--force'', ''enable''],
      as_risk_level = High, as_reboot_required = False, as_rollback_available = False\<rparr>"

definition ufw_disable :: "action_spec" where
  [action_defs]: "ufw_disable =
     \<lparr>as_action_name = ''UfwDisable'',
      as_mechanism = command_mechanism ''sudo'' [''ufw'', ''disable''],
      as_risk_level = High, as_reboot_required = False, as_rollback_available = False\<rparr>"

definition ufw_allow :: "string \<Rightarrow> action_spec" where
  [action_defs]: "ufw_allow port_or_service =
     \<lparr>as_action_name = ''UfwAllow'',
      as_mechanism = command_mechanism ''sudo'' [''ufw'', ''allow'', port_or_service],
      as_risk_level = High, as_reboot_required = False, as_rollback_available = False\<rparr>"

definition ufw_deny :: "string \<Rightarrow> action_spec" where
  [action_defs]: "ufw_deny port_or_service =
     \<lparr>as_action_name = ''UfwDeny'',
      as_mechanism = command_mechanism ''sudo'' [''ufw'', ''deny'', port_or_service],
      as_risk_level = High, as_reboot_required = False, as_rollback_available = False\<rparr>"

definition ufw_reset :: "action_spec" where
  [action_defs]: "ufw_reset =
     \<lparr>as_action_name = ''UfwReset'',
      as_mechanism = command_mechanism ''sudo'' [''ufw'', ''--force'', ''reset''],
      as_risk_level = High, as_reboot_required = False, as_rollback_available = False\<rparr>"

definition ufw_status_with_numbered :: "bool \<Rightarrow> action_spec" where
  [action_defs]: "ufw_status_with_numbered numbered =
     \<lparr>as_action_name = ''UfwStatus'',
      as_mechanism = command_mechanism ''sudo''
        [''ufw'', ''status'', if numbered then ''numbered'' else ''verbose''],
      as_risk_level = Low, as_reboot_required = False, as_rollback_available = False\<rparr>"

definition ufw_status :: action_spec where
  [action_defs]: "ufw_status = ufw_status_with_numbered False"

definition ufw_delete_rule :: "nat \<Rightarrow> string + action_spec" where
  "ufw_delete_rule rule_number =
     (if rule_number = 0 then Inl ''rule_number must be a positive integer (>= 1)''
      else Inr \<lparr>as_action_name = ''UfwDeleteRule'',
                as_mechanism = command_mechanism ''sudo''
                  [''ufw'', ''--force'', ''delete'', dec rule_number],
                as_risk_level = High, as_reboot_required = False, as_rollback_available = False\<rparr>)"

definition ufw_limit :: "string \<Rightarrow> action_spec" where
  [action_defs]: "ufw_limit target =
     \<lparr>as_action_name = ''UfwLimit'',
      as_mechanism = command_mechanism ''sudo'' [''ufw'', ''limit'', target],
      as_risk_level = High, as_reboot_required = False, as_rollback_available = False\<rparr>"

definition ufw_specs :: "action_spec list" where
  "ufw_specs =
     [ufw_enable, ufw_disable, ufw_allow ''22'', ufw_deny ''23'', ufw_reset, ufw_status,
       expect (ufw_delete_rule 1), ufw_limit ''22'']"

section \<open>\<^verbatim>\<open>actions/distrobox.rs\<close>\<close>

definition distrobox_list :: "action_spec" where
  [action_defs]: "distrobox_list =
     \<lparr>as_action_name = ''DistroboxList'',
      as_mechanism = command_mechanism ''distrobox'' [''list''],
      as_risk_level = Low, as_reboot_required = False, as_rollback_available = False\<rparr>"

definition distrobox_create :: "string \<Rightarrow> string \<Rightarrow> action_spec" where
  [action_defs]: "distrobox_create name image_ref =
     \<lparr>as_action_name = ''DistroboxCreate'',
      as_mechanism = command_mechanism ''distrobox'' [''create'', ''--yes'', ''--name'', name,
        ''--image'', image_ref],
      as_risk_level = Medium, as_reboot_required = False, as_rollback_available = False\<rparr>"

definition distrobox_remove :: "string \<Rightarrow> action_spec" where
  [action_defs]: "distrobox_remove name =
     \<lparr>as_action_name = ''DistroboxRemove'',
      as_mechanism = command_mechanism ''distrobox'' [''rm'', ''--force'', name],
      as_risk_level = Medium, as_reboot_required = False, as_rollback_available = False\<rparr>"

definition distrobox_specs :: "action_spec list" where
  "distrobox_specs =
     [distrobox_list, distrobox_create ''dev'' ''ubuntu:24.04'', distrobox_remove ''dev'']"

section \<open>\<^verbatim>\<open>actions/netplan.rs\<close>\<close>

definition netplan_get_config :: "action_spec" where
  [action_defs]: "netplan_get_config =
     \<lparr>as_action_name = ''NetplanGetConfig'',
      as_mechanism = command_mechanism ''find'' [''/etc/netplan'', ''-maxdepth'', ''1'',
        ''-name'', ''*.yaml'', ''-print'', ''-exec'', ''cat'', ''{}'', ''+''],
      as_risk_level = Low, as_reboot_required = False, as_rollback_available = False\<rparr>"

definition netplan_set :: "string \<Rightarrow> string \<Rightarrow> action_spec" where
  [action_defs]: "netplan_set key val =
     (let kv = key @ ''='' @ val in
      \<lparr>as_action_name = ''NetplanSet'',
       as_mechanism = command_mechanism ''sudo'' [''netplan'', ''set'', kv],
       as_risk_level = High, as_reboot_required = False, as_rollback_available = False\<rparr>)"

definition netplan_generate :: "action_spec" where
  [action_defs]: "netplan_generate =
     \<lparr>as_action_name = ''NetplanGenerate'',
      as_mechanism = command_mechanism ''sudo'' [''netplan'', ''generate''],
      as_risk_level = Medium, as_reboot_required = False, as_rollback_available = False\<rparr>"

definition netplan_apply :: "action_spec" where
  [action_defs]: "netplan_apply =
     \<lparr>as_action_name = ''NetplanApply'',
      as_mechanism = command_mechanism ''sudo'' [''netplan'', ''apply''],
      as_risk_level = High, as_reboot_required = False, as_rollback_available = False\<rparr>"

definition netplan_specs :: "action_spec list" where
  "netplan_specs =
     [netplan_get_config, netplan_apply, netplan_set ''ethernets.eth0.dhcp4'' ''true'',
       netplan_generate]"

section \<open>\<^verbatim>\<open>actions/ubuntu_pro.rs\<close>\<close>

definition pro_status :: "action_spec" where
  [action_defs]: "pro_status =
     \<lparr>as_action_name = ''ProStatus'',
      as_mechanism = command_mechanism ''pro'' [''status'', ''--all''],
      as_risk_level = Low, as_reboot_required = False, as_rollback_available = False\<rparr>"

definition pro_attach :: "string \<Rightarrow> action_spec" where
  [action_defs]: "pro_attach token =
     \<lparr>as_action_name = ''ProAttach'',
      as_mechanism = command_mechanism ''sudo'' [''pro'', ''attach'', token],
      as_risk_level = High, as_reboot_required = False, as_rollback_available = False\<rparr>"

definition pro_detach :: "action_spec" where
  [action_defs]: "pro_detach =
     \<lparr>as_action_name = ''ProDetach'',
      as_mechanism = command_mechanism ''sudo'' [''pro'', ''detach'', ''--assume-yes''],
      as_risk_level = High, as_reboot_required = False, as_rollback_available = False\<rparr>"

definition enable_pro_service :: "string \<Rightarrow> action_spec" where
  [action_defs]: "enable_pro_service service =
     \<lparr>as_action_name = ''EnableProService'',
      as_mechanism = command_mechanism ''sudo'' [''pro'', ''enable'', service, ''--assume-yes''],
      as_risk_level = High, as_reboot_required = False, as_rollback_available = False\<rparr>"

definition disable_pro_service :: "string \<Rightarrow> action_spec" where
  [action_defs]: "disable_pro_service service =
     \<lparr>as_action_name = ''DisableProService'',
      as_mechanism = command_mechanism ''sudo'' [''pro'', ''disable'', service, ''--assume-yes''],
      as_risk_level = High, as_reboot_required = False, as_rollback_available = False\<rparr>"

definition ubuntu_pro_specs :: "action_spec list" where
  "ubuntu_pro_specs =
     [pro_status, pro_attach ''<REDACTED>'', pro_detach, enable_pro_service ''esm-apps'',
       disable_pro_service ''esm-apps'']"

section \<open>\<^verbatim>\<open>actions/livepatch.rs\<close>\<close>

definition livepatch_status :: "action_spec" where
  [action_defs]: "livepatch_status =
     \<lparr>as_action_name = ''LivepatchStatus'',
      as_mechanism = command_mechanism ''sudo'' [''canonical-livepatch'', ''status'',
        ''--verbose''],
      as_risk_level = Low, as_reboot_required = False, as_rollback_available = False\<rparr>"

definition livepatch_specs :: "action_spec list" where
  "livepatch_specs =
     [livepatch_status]"

section \<open>\<^verbatim>\<open>actions/multipass.rs\<close>\<close>

definition multipass_list :: "action_spec" where
  [action_defs]: "multipass_list =
     \<lparr>as_action_name = ''MultipassList'',
      as_mechanism = command_mechanism ''multipass'' [''list''],
      as_risk_level = Low, as_reboot_required = False, as_rollback_available = False\<rparr>"

definition multipass_specs :: "action_spec list" where
  "multipass_specs =
     [multipass_list]"

section \<open>\<^verbatim>\<open>actions/release_upgrade.rs\<close>\<close>

definition ubuntu_release_upgrade :: "action_spec" where
  [action_defs]: "ubuntu_release_upgrade =
     \<lparr>as_action_name = ''UbuntuReleaseUpgrade'',
      as_mechanism = command_mechanism ''sudo'' [''do-release-upgrade'', ''-f'',
        ''DistUpgradeViewNonInteractive''],
      as_risk_level = High, as_reboot_required = True, as_rollback_available = False\<rparr>"

definition release_upgrade_specs :: "action_spec list" where
  "release_upgrade_specs =
     [ubuntu_release_upgrade]"

section \<open>\<^verbatim>\<open>actions/resolvectl.rs\<close>\<close>

definition resolvectl_status :: "action_spec" where
  [action_defs]: "resolvectl_status =
     \<lparr>as_action_name = ''ResolvectlStatus'',
      as_mechanism = command_mechanism ''resolvectl'' [''status''],
      as_risk_level = Low, as_reboot_required = False, as_rollback_available = False\<rparr>"

definition resolvectl_set_dns :: "string \<Rightarrow> ip_addr list \<Rightarrow> action_spec" where
  [action_defs]: "resolvectl_set_dns interface servers =
     (let args = [''dns'', interface] @ map ip_to_string servers in
      \<lparr>as_action_name = ''ResolvectlSetDns'',
       as_mechanism = Command ''sudo'' ([''resolvectl''] @ args),
       as_risk_level = High, as_reboot_required = False, as_rollback_available = False\<rparr>)"

definition resolvectl_specs :: "action_spec list" where
  "resolvectl_specs =
     [resolvectl_status, resolvectl_set_dns ''eth0'' (map (\<lambda>s. the (ip_from_str s)) [''1.1.1.1'', ''8.8.8.8''])]"

section \<open>\<^verbatim>\<open>actions/apparmor.rs\<close>\<close>

definition apparmor_status :: "action_spec" where
  [action_defs]: "apparmor_status =
     \<lparr>as_action_name = ''AppArmorStatus'',
      as_mechanism = command_mechanism ''sudo'' [''aa-status''],
      as_risk_level = Low, as_reboot_required = False, as_rollback_available = False\<rparr>"

definition apparmor_enforce :: "string \<Rightarrow> action_spec" where
  [action_defs]: "apparmor_enforce profile_path =
     \<lparr>as_action_name = ''AppArmorEnforce'',
      as_mechanism = command_mechanism ''sudo'' [''aa-enforce'', ''--'', profile_path],
      as_risk_level = High, as_reboot_required = False, as_rollback_available = False\<rparr>"

definition apparmor_complain :: "string \<Rightarrow> action_spec" where
  [action_defs]: "apparmor_complain profile_path =
     \<lparr>as_action_name = ''AppArmorComplain'',
      as_mechanism = command_mechanism ''sudo'' [''aa-complain'', ''--'', profile_path],
      as_risk_level = High, as_reboot_required = False, as_rollback_available = False\<rparr>"

definition apparmor_specs :: "action_spec list" where
  "apparmor_specs =
     [apparmor_status, apparmor_enforce ''/etc/apparmor.d/usr.bin.firefox'',
       apparmor_complain ''/etc/apparmor.d/usr.bin.firefox'']"

section \<open>\<^verbatim>\<open>actions/cloudinit.rs\<close>\<close>

definition cloud_init_status :: "action_spec" where
  [action_defs]: "cloud_init_status =
     \<lparr>as_action_name = ''CloudInitStatus'',
      as_mechanism = command_mechanism ''cloud-init'' [''status'', ''--long''],
      as_risk_level = Low, as_reboot_required = False, as_rollback_available = False\<rparr>"

definition cloudinit_specs :: "action_spec list" where
  "cloudinit_specs =
     [cloud_init_status]"

section \<open>\<^verbatim>\<open>actions/fail2ban.rs\<close>\<close>

datatype fail2ban_error = InvalidIpAddr string | InvalidJail string

definition JAIL_HELPER :: string where
  [action_defs]: "JAIL_HELPER = ''/usr/lib/sysknife/fail2ban-jail-edit''"

definition BAN_HELPER :: string where
  [action_defs]: "BAN_HELPER = ''/usr/lib/sysknife/fail2ban-ban''"

definition jail_is_valid :: "string \<Rightarrow> bool" where
  "jail_is_valid jail =
     (if jail = [] \<or> length jail > 64 then False
      else if starts_with jail ''-'' then False
      else list_all (\<lambda>c. is_ascii_alphanumeric c \<or> is_one_of ''_-.'' c) jail)"

definition fail2ban_status :: "string option \<Rightarrow> fail2ban_error + action_spec" where
  "fail2ban_status jail =
     and_then (case jail of
         Some j \<Rightarrow> if \<not> jail_is_valid j then Inl (InvalidJail j)
                    else Inr [''fail2ban-client'', ''status'', j]
       | None \<Rightarrow> Inr [''fail2ban-client'', ''status'']) (\<lambda>args.
     Inr \<lparr>as_action_name = ''Fail2banStatus'',
          as_mechanism = command_mechanism ''sudo'' args,
          as_risk_level = Low, as_reboot_required = False, as_rollback_available = False\<rparr>)"

definition fail2ban_ban_ip :: "string \<Rightarrow> string \<Rightarrow> fail2ban_error + action_spec" where
  "fail2ban_ban_ip jail ip =
     (if \<not> jail_is_valid jail then Inl (InvalidJail jail)
      else and_then (ok_or (InvalidIpAddr ip) (ip_from_str ip)) (\<lambda>_.
        Inr \<lparr>as_action_name = ''Fail2banBanIp'',
             as_mechanism = command_mechanism ''sudo''
               [BAN_HELPER, ''--op'', ''ban'', ''--jail'', jail, ''--ip'', ip],
             as_risk_level = High, as_reboot_required = False, as_rollback_available = False\<rparr>))"

definition fail2ban_unban_ip :: "string \<Rightarrow> string \<Rightarrow> fail2ban_error + action_spec" where
  "fail2ban_unban_ip jail ip =
     (if \<not> jail_is_valid jail then Inl (InvalidJail jail)
      else and_then (ok_or (InvalidIpAddr ip) (ip_from_str ip)) (\<lambda>_.
        Inr \<lparr>as_action_name = ''Fail2banUnbanIp'',
             as_mechanism = command_mechanism ''sudo''
               [BAN_HELPER, ''--op'', ''unban'', ''--jail'', jail, ''--ip'', ip],
             as_risk_level = Medium, as_reboot_required = False, as_rollback_available = False\<rparr>))"

definition configure_fail2ban_jail :: "string \<Rightarrow> string list \<Rightarrow> fail2ban_error + action_spec" where
  "configure_fail2ban_jail name extra =
     (if \<not> jail_is_valid name then Inl (InvalidJail name)
      else Inr \<lparr>as_action_name = ''ConfigureFail2banJail'',
                as_mechanism = command_mechanism ''sudo'' ([JAIL_HELPER, ''--name'', name] @ extra),
                as_risk_level = High, as_reboot_required = False, as_rollback_available = False\<rparr>)"

definition fail2ban_specs :: "action_spec list" where
  "fail2ban_specs =
     [expect (fail2ban_status None), expect (fail2ban_ban_ip ''sshd'' ''192.0.2.1''),
       expect (fail2ban_unban_ip ''sshd'' ''192.0.2.1''),
       expect (configure_fail2ban_jail ''sshd'' [''--maxretry'', ''3''])]"

section \<open>\<^verbatim>\<open>actions/auditd.rs\<close>\<close>

definition AUDIT_HELPER :: string where
  [action_defs]: "AUDIT_HELPER = ''/usr/lib/sysknife/audit-edit''"

definition get_audit_rules :: "action_spec" where
  [action_defs]: "get_audit_rules =
     \<lparr>as_action_name = ''GetAuditRules'',
      as_mechanism = command_mechanism ''auditctl'' [''-l''],
      as_risk_level = Low, as_reboot_required = False, as_rollback_available = False\<rparr>"

definition add_audit_rule :: "string \<Rightarrow> string \<Rightarrow> string \<Rightarrow> action_spec" where
  [action_defs]: "add_audit_rule path perms key =
     \<lparr>as_action_name = ''AddAuditRule'',
      as_mechanism = command_mechanism ''sudo'' [AUDIT_HELPER, ''--op'', ''add'', ''--path'',
        path, ''--perms'', perms, ''--key'', key],
      as_risk_level = Medium, as_reboot_required = False, as_rollback_available = False\<rparr>"

definition remove_audit_rule :: "string \<Rightarrow> action_spec" where
  [action_defs]: "remove_audit_rule key =
     \<lparr>as_action_name = ''RemoveAuditRule'',
      as_mechanism = command_mechanism ''sudo'' [AUDIT_HELPER, ''--op'', ''remove'', ''--key'',
        key],
      as_risk_level = High, as_reboot_required = False, as_rollback_available = False\<rparr>"

definition auditd_specs :: "action_spec list" where
  "auditd_specs =
     [get_audit_rules, add_audit_rule ''/etc/passwd'' ''wa'' ''passwd-watch'',
       remove_audit_rule ''passwd-watch'']"

section \<open>\<^verbatim>\<open>actions/certbot.rs\<close>\<close>

definition get_certificates :: "action_spec" where
  [action_defs]: "get_certificates =
     \<lparr>as_action_name = ''GetCertificates'',
      as_mechanism = command_mechanism ''certbot'' [''certificates''],
      as_risk_level = Low, as_reboot_required = False, as_rollback_available = False\<rparr>"

definition obtain_certificate :: "string list \<Rightarrow> string \<Rightarrow> string \<Rightarrow> action_spec" where
  [action_defs]: "obtain_certificate domains email challenge =
     (let args = [''certbot'', ''certonly'', ''--non-interactive'', ''--agree-tos'', ''--'' @ challenge,
                  ''-m'', email]
            @ concat (map (\<lambda>d. [''-d'', d]) domains)
      in \<lparr>as_action_name = ''ObtainCertificate'',
          as_mechanism = command_mechanism ''sudo'' args,
          as_risk_level = High, as_reboot_required = False, as_rollback_available = False\<rparr>)"

definition renew_certificates :: "action_spec" where
  [action_defs]: "renew_certificates =
     \<lparr>as_action_name = ''RenewCertificates'',
      as_mechanism = command_mechanism ''sudo'' [''certbot'', ''renew''],
      as_risk_level = Medium, as_reboot_required = False, as_rollback_available = False\<rparr>"

definition certbot_specs :: "action_spec list" where
  "certbot_specs =
     [get_certificates, obtain_certificate [''example.com''] ''admin@example.com'' ''standalone'',
       renew_certificates]"

end
