(* ===== verification/Sk_Build.thy ===== *)
theory Sk_Build
  imports Sk_Actions_Host Sk_Actions_Admin
begin

text \<open>
  From a request to an action (\<^verbatim>\<open>build_action_spec\<close> in \<^verbatim>\<open>executor.rs\<close>): the parameters each action
  accepts, and one builder per action that reads and screens the parameters in the order of the
  code. The arms of the match are grouped in one table per section of the source; the tables are
  keyed by the action name, so looking a name up is the match.
\<close>

named_theorems build_defs \<open>the tables of builders and their steps\<close>

type_synonym builder = "json \<Rightarrow> executor_error + action_spec"

section \<open>Bounds\<close>

definition MAX_SCHEDULED_COMMAND_LEN :: nat where
  [bound_defs]: "MAX_SCHEDULED_COMMAND_LEN = 512"

definition MAX_SCHEDULE_EXPR_LEN :: nat where
  [bound_defs]: "MAX_SCHEDULE_EXPR_LEN = 128"

definition MAX_JOURNAL_LINES :: nat where
  [bound_defs]: "MAX_JOURNAL_LINES = 10000"

definition MAX_SWAP_SIZE_MB :: nat where
  [bound_defs]: "MAX_SWAP_SIZE_MB = 1048576"

definition MAX_PASSWORD_AGE_DAYS :: nat where
  [bound_defs]: "MAX_PASSWORD_AGE_DAYS = 99999"

definition MAX_PASSWORD_MINLEN :: nat where
  [bound_defs]: "MAX_PASSWORD_MINLEN = 128"

definition MAX_LOCKOUT_WINDOW_SECS :: nat where
  [bound_defs]: "MAX_LOCKOUT_WINDOW_SECS = 604800"

definition MAX_FAIL2BAN_WINDOW_SECS :: nat where
  [bound_defs]: "MAX_FAIL2BAN_WINDOW_SECS = 2592000"

section \<open>Accepted parameters\<close>

definition ACTION_PARAMS :: "(string list \<times> string list) list" where
  "ACTION_PARAMS =
    [([''GetSystemState'', ''CollectDiagnostics'', ''GetDeploymentHistory'', ''ListDeployments'',
      ''UpdateSystem'', ''CleanupDeployments'', ''RebootSystem'', ''RollbackDeployment'',
      ''GetKernelArguments'', ''GetLayeredPackages'', ''ResetLayeredPackageOverride'',
      ''GetPendingUpdates'', ''ListPackageRepositories'', ''ListServices'', ''ListTimers'',
      ''ReloadDaemon'', ''GetDateTime'', ''GetDiskUsage'', ''ListProcesses'', ''GetLvmReport'',
      ''GetMounts'', ''GetSudoGrants'', ''RemoveRemoteSyslog'', ''GetMemoryInfo'',
      ''GetHostState'', ''GetFirewallState'', ''GetNetworkStatus'', ''GetListeningPorts'',
      ''GetNftablesRuleset'', ''GetFirewallBackendState'', ''ListUsers'', ''ListGroups'',
      ''AptUpdate'', ''AptUpgrade'', ''AptAutoremove'', ''AptListInstalled'',
      ''AptListUpgradable'', ''AptHistoryList'', ''SnapList'', ''GrubGetKargs'',
      ''CheckPendingReboot'', ''UfwEnable'', ''UfwDisable'', ''UfwReset'', ''DistroboxList'',
      ''NetplanGetConfig'', ''NetplanApply'', ''NetplanGenerate'', ''ProStatus'', ''ProDetach'',
      ''LivepatchStatus'', ''MultipassList'', ''UbuntuReleaseUpgrade'', ''ResolvectlStatus'',
      ''AppArmorStatus'', ''CloudInitStatus'', ''GetAuditRules'', ''GetCertificates'',
      ''RenewCertificates''], []),
      ([''PinDeployment'', ''UnpinDeployment''], [''index'']),
      ([''RebaseSystem''], [''target_ref'']),
      ([''SetKernelArguments''], [''add'', ''remove'']),
      ([''ListFlatpakRemotes'', ''ListInstalledFlatpaks'', ''ListContainers'', ''ListToolboxes'',
      ''DeleteUser'', ''LockUserAccount'', ''UnlockUserAccount'', ''GetAuthorizedKeys'',
      ''UbuntuListFlatpaks''], [''user'', ''username'']),
      ([''InstallFlatpak'', ''UbuntuInstallFlatpak''], [''app_id'', ''remote'', ''user'',
      ''username'']),
      ([''RemoveFlatpak'', ''GetFlatpakAppInfo'', ''UpdateFlatpak'', ''UbuntuRemoveFlatpak'',
      ''UbuntuUpdateFlatpak''], [''app_id'', ''user'', ''username'']),
      ([''SearchFlatpakApps'', ''AptSearch''], [''term'']),
      ([''AddFlatpakRemote''], [''remote'', ''url'', ''user'', ''username'']),
      ([''RemoveFlatpakRemote''], [''remote'', ''user'', ''username'']),
      ([''CreateContainer''], [''image'', ''name'', ''user'', ''username'']),
      ([''StartContainer'', ''StopContainer'', ''RemoveContainer'', ''GetContainerInfo'',
      ''RemoveToolbox''], [''name'', ''user'', ''username'']),
      ([''InstallPackages'', ''RemovePackages''], [''packages'']),
      ([''AddLayeredPackage'', ''RemoveLayeredPackage'', ''RemoveBasePackage'', ''GetAptPins'',
      ''AptInstall'', ''AptRemove'', ''AptPurge'', ''AptHold'', ''AptUnhold'', ''AptShow''],
      [''package'']),
      ([''ReplaceLayeredPackage''], [''new'', ''old'']),
      ([''AddPackageRepository''], [''repo_id'', ''repo_url'']),
      ([''RemovePackageRepository'', ''EnablePackageRepository'', ''DisablePackageRepository''],
      [''repo_id'']),
      ([''StartService'', ''StopService'', ''RestartService'', ''MaskService'', ''UnmaskService'',
      ''GetServiceLogs'', ''GetServiceStatus'', ''ReloadService'', ''GetServiceResourceLimits''],
      [''unit'']),
      ([''SetServiceEnabled''], [''enabled'', ''unit'']),
      ([''CreateScheduledJob''], [''command'', ''name'', ''schedule'']),
      ([''SetServiceResourceLimits''], [''cpu_quota'', ''memory_high'', ''memory_max'',
      ''tasks_max'', ''unit'']),
      ([''CreateToolbox''], [''image'', ''name'', ''release'', ''user'', ''username'']),
      ([''SetHostname''], [''hostname'']),
      ([''SetTimezone''], [''timezone'']),
      ([''SetLocale''], [''locale'']),
      ([''SetNtp'', ''ConfigureUnattendedUpgrades''], [''enabled'']),
      ([''SignalProcess''], [''pid'', ''signal'']),
      ([''GetJournalLog''], [''boot'', ''grep'', ''kernel'', ''lines'', ''priority'', ''since'',
      ''unit'', ''until'']),
      ([''VacuumJournal''], [''retain_days'', ''size_mb'']),
      ([''ExtendLogicalVolume''], [''lv'', ''size'', ''vg'']),
      ([''CreateLogicalVolume''], [''name'', ''size'', ''vg'']),
      ([''CreateLvSnapshot''], [''origin'', ''size'', ''snapshot'', ''vg'']),
      ([''GetSysctl'', ''RemoveAuditRule''], [''key'']),
      ([''SetSysctl'', ''NetplanSet''], [''key'', ''value'']),
      ([''AddMount''], [''device'', ''fstype'', ''mountpoint'', ''options'']),
      ([''RemoveMount''], [''mountpoint'']),
      ([''AddSwap''], [''file'', ''size_mb'']),
      ([''RemoveSwap''], [''file'']),
      ([''GrantSudoAccess''], [''commands'', ''name'', ''nopasswd'', ''runas'', ''user'']),
      ([''RevokeSudoAccess'', ''RemoveAptPin'', ''RemoveLogRotation'', ''AddPpa'', ''RemovePpa'',
      ''SnapRemove'', ''SnapRefresh'', ''SnapHold'', ''SnapUnhold'', ''SnapInfo'', ''SnapRevert'',
      ''SnapClassicInstall'', ''DistroboxRemove''], [''name'']),
      ([''SetAptPin''], [''name'', ''package'', ''pin'', ''priority'']),
      ([''GetLogrotateStatus''], [''config'']),
      ([''ConfigureLogRotation''], [''compress'', ''frequency'', ''name'', ''path'', ''rotate'']),
      ([''ConfigureRemoteSyslog''], [''host'', ''port'', ''protocol'']),
      ([''GetPasswordAging''], [''user'']),
      ([''SetPasswordAging''], [''max_days'', ''min_days'', ''user'', ''warn_days'']),
      ([''SetPasswordPolicy''], [''dcredit'', ''lcredit'', ''minlen'', ''ocredit'', ''ucredit'']),
      ([''SetAccountLockout''], [''deny'', ''fail_interval'', ''unlock_time'']),
      ([''ConfigureWifi''], [''password'', ''ssid'']),
      ([''SetDnsServers'', ''ResolvectlSetDns''], [''interface'', ''servers'']),
      ([''ConfigureFirewall''], [''enabled'', ''service'', ''zone'']),
      ([''CreateUser''], [''home'', ''shell'', ''user'', ''username'']),
      ([''AddUserToGroup'', ''RemoveUserFromGroup''], [''group'', ''user'', ''username'']),
      ([''CreateGroup''], [''group'', ''system'']),
      ([''DeleteGroup''], [''group'']),
      ([''AddAuthorizedKey'', ''RemoveAuthorizedKey''], [''public_key'', ''user'', ''username'']),
      ([''SetSshdOption''], [''option'', ''value'']),
      ([''SnapInstall''], [''auto_update'', ''channel'', ''name'']),
      ([''GrubSetKargs''], [''append'', ''delete'']),
      ([''UfwAllow'', ''UfwDeny''], [''port_or_service'']),
      ([''UfwStatus''], [''numbered'']),
      ([''DistroboxCreate''], [''image'', ''name'']),
      ([''UfwDeleteRule''], [''rule_number'']),
      ([''UfwLimit''], [''target'']),
      ([''ProAttach''], [''token'']),
      ([''EnableProService'', ''DisableProService''], [''service'']),
      ([''AppArmorEnforce'', ''AppArmorComplain''], [''profile_path'']),
      ([''Fail2banStatus''], [''jail'']),
      ([''Fail2banBanIp'', ''Fail2banUnbanIp''], [''ip'', ''jail'']),
      ([''ConfigureFail2banJail''], [''bantime'', ''enabled'', ''findtime'', ''maxretry'',
      ''name'']),
      ([''AddAuditRule''], [''key'', ''path'', ''perms'']),
      ([''ObtainCertificate''], [''challenge'', ''domain'', ''domains'', ''email'']),
      ([''ListJobHistory''], [''limit'', ''status_filter'', ''action_filter'', ''since_hours'',
      ''since''])]"

definition allowed_action_params :: "string \<Rightarrow> string list option" where
  "allowed_action_params action_name =
     map_option snd (find (\<lambda>(names, _). action_name \<in> set names) ACTION_PARAMS)"

definition validate_action_params :: "string \<Rightarrow> json \<Rightarrow> executor_error + unit" where
  "validate_action_params action_name params =
     and_then (ok_or (UnknownAction action_name) (allowed_action_params action_name)) (\<lambda>allowed.
       case params of
         JObj kvs \<Rightarrow> if list_ex (\<lambda>key. key \<notin> set allowed) (map fst kvs)
                      then Inl (InvalidParam ''unknown parameter'') else Inr ()
       | _ \<Rightarrow> Inl (InvalidParam ''params''))"

section \<open>Steps the builders share\<close>

definition str_arg :: "json \<Rightarrow> string \<Rightarrow> (string \<Rightarrow> string \<Rightarrow> screened) \<Rightarrow> screened" where
  [build_defs]: "str_arg params key validator =
     and_then (require_str params key) (\<lambda>s. validator s key)"

definition user_arg :: "json \<Rightarrow> (string \<Rightarrow> string \<Rightarrow> screened) \<Rightarrow> screened" where
  [build_defs]: "user_arg params validator =
     and_then (resolve_username params) (\<lambda>s. validator s ''username'')"

definition list_arg ::
  "json \<Rightarrow> string \<Rightarrow> (string \<Rightarrow> string \<Rightarrow> screened) \<Rightarrow> executor_error + string list" where
  [build_defs]: "list_arg params key validator =
     and_then (str_array_or_empty params key) (\<lambda>xs. collect_results (map (\<lambda>x. validator x key) xs))"

text \<open>A loop that runs a check on every element and stops at the first error.\<close>

fun check_each :: "('a \<Rightarrow> 'e + unit) \<Rightarrow> 'a list \<Rightarrow> 'e + unit" where
  "check_each f [] = Inr ()"
| "check_each f (x # xs) = and_then (f x) (\<lambda>_. check_each f xs)"

text \<open>An optional number that becomes a flag and its value when it is present.\<close>

definition opt_u64_flag ::
  "json \<Rightarrow> string \<Rightarrow> string \<Rightarrow> nat \<Rightarrow> nat \<Rightarrow> executor_error + string list" where
  [build_defs]: "opt_u64_flag params key flag low high =
     and_then (optional_u64 params key) (\<lambda>v. case v of
         None \<Rightarrow> Inr []
       | Some n \<Rightarrow> if \<not> (low \<le> n \<and> n \<le> high) then Inl (InvalidParam key) else Inr [flag, dec n])"

definition opt_i64_flag ::
  "json \<Rightarrow> string \<Rightarrow> string \<Rightarrow> int \<Rightarrow> int \<Rightarrow> executor_error + string list" where
  [build_defs]: "opt_i64_flag params key flag low high =
     and_then (optional_i64 params key) (\<lambda>v. case v of
         None \<Rightarrow> Inr []
       | Some n \<Rightarrow> if \<not> (low \<le> n \<and> n \<le> high) then Inl (InvalidParam key)
                    else Inr [flag, dec_int n])"

text \<open>Flags collected one after the other.\<close>

fun collect_flags :: "(executor_error + string list) list \<Rightarrow> executor_error + string list" where
  "collect_flags [] = Inr []"
| "collect_flags (r # rs) =
     and_then r (\<lambda>flags. and_then (collect_flags rs) (\<lambda>more. Inr (flags @ more)))"

section \<open>Deployments, Flatpak, containers, layering\<close>

definition deployment_builders :: "(string \<times> builder) list" where
  "deployment_builders =
    [(''GetSystemState'', \<lambda>params. Inr get_system_state),
     (''CollectDiagnostics'', \<lambda>params. Inr collect_diagnostics),
     (''GetDeploymentHistory'', \<lambda>params. Inr get_deployment_history),
     (''ListDeployments'', \<lambda>params. Inr list_deployments),
     (''UpdateSystem'', \<lambda>params. Inr update_system),
     (''CleanupDeployments'', \<lambda>params. Inr cleanup_deployments),
     (''RebootSystem'', \<lambda>params. Inr reboot_system),
     (''RollbackDeployment'', \<lambda>params. Inr rollback_deployment),
     (''GetKernelArguments'', \<lambda>params. Inr get_kernel_arguments),
     (''PinDeployment'', \<lambda>params.
        and_then (require_u32 params ''index'') (\<lambda>index. Inr (pin_deployment index))),
     (''UnpinDeployment'', \<lambda>params.
        and_then (require_u32 params ''index'') (\<lambda>index. Inr (unpin_deployment index))),
     (''RebaseSystem'', \<lambda>params.
        and_then (str_arg params ''target_ref'' validated_rebase_ref) (\<lambda>target_ref.
        Inr (rebase_system target_ref))),
     (''SetKernelArguments'', \<lambda>params.
        and_then (str_array_or_empty params ''add'') (\<lambda>to_add.
        and_then (str_array_or_empty params ''remove'') (\<lambda>to_remove.
        and_then (check_each (\<lambda>arg. validated_safe_kernel_arg arg ''add'') to_add) (\<lambda>_.
        and_then (check_each (\<lambda>arg. validated_safe_kernel_arg_removal arg ''remove'') to_remove) (\<lambda>_.
        Inr (set_kernel_arguments to_add to_remove))))))]"

definition flatpak_builders :: "(string \<times> builder) list" where
  "flatpak_builders =
    [(''ListFlatpakRemotes'', \<lambda>params.
        and_then (user_arg params validated_username) (\<lambda>username. Inr (list_flatpak_remotes username))),
     (''InstallFlatpak'', \<lambda>params.
        and_then (user_arg params validated_username) (\<lambda>username.
        and_then (str_arg params ''app_id'' validated_safe_arg) (\<lambda>app_id.
        and_then (optional_str params ''remote'') (\<lambda>remote.
        and_then (validated_safe_arg (case remote of Some r \<Rightarrow> r | None \<Rightarrow> ''flathub'') ''remote'') (\<lambda>remote.
        Inr (install_flatpak username app_id remote)))))),
     (''RemoveFlatpak'', \<lambda>params.
        and_then (user_arg params validated_username) (\<lambda>username.
        and_then (str_arg params ''app_id'' validated_safe_arg) (\<lambda>app_id.
        Inr (remove_flatpak username app_id)))),
     (''SearchFlatpakApps'', \<lambda>params.
        and_then (str_arg params ''term'' validated_safe_arg) (\<lambda>search_term.
        Inr (search_flatpak_apps search_term))),
     (''AddFlatpakRemote'', \<lambda>params.
        and_then (user_arg params validated_username) (\<lambda>username.
        and_then (str_arg params ''remote'' validated_safe_arg) (\<lambda>remote.
        and_then (str_arg params ''url'' validated_safe_arg) (\<lambda>url.
        Inr (add_flatpak_remote username remote url))))),
     (''RemoveFlatpakRemote'', \<lambda>params.
        and_then (user_arg params validated_username) (\<lambda>username.
        and_then (str_arg params ''remote'' validated_safe_arg) (\<lambda>remote.
        Inr (remove_flatpak_remote username remote)))),
     (''GetFlatpakAppInfo'', \<lambda>params.
        and_then (user_arg params validated_username) (\<lambda>username.
        and_then (str_arg params ''app_id'' validated_safe_arg) (\<lambda>app_id.
        Inr (get_flatpak_app_info username app_id)))),
     (''ListInstalledFlatpaks'', \<lambda>params.
        and_then (user_arg params validated_username) (\<lambda>username. Inr (list_installed_flatpaks username))),
     (''UpdateFlatpak'', \<lambda>params.
        and_then (user_arg params validated_username) (\<lambda>username.
        and_then (optional_validated params ''app_id'' validated_safe_arg) (\<lambda>app_id.
        Inr (update_flatpak username app_id))))]"

definition containers_builders :: "(string \<times> builder) list" where
  "containers_builders =
    [(''ListContainers'', \<lambda>params.
        and_then (user_arg params validated_username) (\<lambda>username. Inr (list_containers username))),
     (''CreateContainer'', \<lambda>params.
        and_then (user_arg params validated_username) (\<lambda>username.
        and_then (str_arg params ''name'' validated_safe_arg) (\<lambda>name.
        and_then (str_arg params ''image'' validated_safe_arg) (\<lambda>image_ref.
        Inr (create_container username name image_ref))))),
     (''StartContainer'', \<lambda>params.
        and_then (user_arg params validated_username) (\<lambda>username.
        and_then (str_arg params ''name'' validated_safe_arg) (\<lambda>name.
        Inr (start_container username name)))),
     (''StopContainer'', \<lambda>params.
        and_then (user_arg params validated_username) (\<lambda>username.
        and_then (str_arg params ''name'' validated_safe_arg) (\<lambda>name.
        Inr (stop_container username name)))),
     (''RemoveContainer'', \<lambda>params.
        and_then (user_arg params validated_username) (\<lambda>username.
        and_then (str_arg params ''name'' validated_safe_arg) (\<lambda>name.
        Inr (remove_container username name)))),
     (''GetContainerInfo'', \<lambda>params.
        and_then (user_arg params validated_username) (\<lambda>username.
        and_then (str_arg params ''name'' validated_safe_arg) (\<lambda>name.
        Inr (get_container_info username name))))]"

definition layering_builders :: "(string \<times> builder) list" where
  "layering_builders =
    [(''GetLayeredPackages'', \<lambda>params. Inr get_layered_packages),
     (''ResetLayeredPackageOverride'', \<lambda>params. Inr reset_layered_package_override),
     (''InstallPackages'', \<lambda>params.
        and_then (list_arg params ''packages'' validated_install_package) (\<lambda>packages.
        Inr (install_packages packages))),
     (''RemovePackages'', \<lambda>params.
        and_then (list_arg params ''packages'' validated_install_package) (\<lambda>packages.
        Inr (remove_packages packages))),
     (''AddLayeredPackage'', \<lambda>params.
        and_then (str_arg params ''package'' validated_install_package) (\<lambda>package.
        Inr (add_layered_package package))),
     (''RemoveLayeredPackage'', \<lambda>params.
        and_then (str_arg params ''package'' validated_install_package) (\<lambda>package.
        Inr (remove_layered_package package))),
     (''ReplaceLayeredPackage'', \<lambda>params.
        and_then (str_arg params ''old'' validated_install_package) (\<lambda>old_pkg.
        and_then (str_arg params ''new'' validated_install_package) (\<lambda>new_pkg.
        Inr (replace_layered_package old_pkg new_pkg)))),
     (''RemoveBasePackage'', \<lambda>params.
        and_then (str_arg params ''package'' validated_install_package) (\<lambda>package.
        Inr (remove_base_package package))),
     (''GetPendingUpdates'', \<lambda>params. Inr get_pending_updates)]"

definition package_repos_builders :: "(string \<times> builder) list" where
  "package_repos_builders =
    [(''ListPackageRepositories'', \<lambda>params. Inr list_package_repositories),
     (''AddPackageRepository'', \<lambda>params.
        and_then (validated_repo_id params) (\<lambda>repo_id.
        and_then (validated_no_newline params ''repo_url'') (\<lambda>repo_url.
        Inr (add_package_repository repo_id repo_url)))),
     (''RemovePackageRepository'', \<lambda>params.
        and_then (validated_repo_id params) (\<lambda>repo_id. Inr (remove_package_repository repo_id))),
     (''EnablePackageRepository'', \<lambda>params.
        and_then (validated_repo_id params) (\<lambda>repo_id. Inr (enable_package_repository repo_id))),
     (''DisablePackageRepository'', \<lambda>params.
        and_then (validated_repo_id params) (\<lambda>repo_id. Inr (disable_package_repository repo_id)))]"

section \<open>Services, toolboxes, identity, processes, journal, storage\<close>

definition limit_assignment ::
  "json \<Rightarrow> string \<Rightarrow> (string \<Rightarrow> string \<Rightarrow> screened) \<Rightarrow> string \<Rightarrow> executor_error + string list" where
  [build_defs]: "limit_assignment params key validator property =
     and_then (optional_validated params key validator) (\<lambda>v.
       Inr (case v of Some x \<Rightarrow> [property @ x] | None \<Rightarrow> []))"

definition services_builders :: "(string \<times> builder) list" where
  "services_builders =
    [(''ListServices'', \<lambda>params. Inr list_services),
     (''StartService'', \<lambda>params.
        and_then (str_arg params ''unit'' validated_activatable_unit) (\<lambda>unit_name.
        Inr (start_service unit_name))),
     (''StopService'', \<lambda>params.
        and_then (str_arg params ''unit'' validated_stoppable_unit) (\<lambda>unit_name.
        Inr (stop_service unit_name))),
     (''RestartService'', \<lambda>params.
        and_then (str_arg params ''unit'' validated_activatable_unit) (\<lambda>unit_name.
        and_then (validated_stoppable_unit unit_name ''unit'') (\<lambda>unit_name.
        Inr (restart_service unit_name)))),
     (''SetServiceEnabled'', \<lambda>params.
        and_then (require_bool params ''enabled'') (\<lambda>enabled.
        and_then (if enabled then str_arg params ''unit'' validated_activatable_unit
                  else str_arg params ''unit'' validated_unit_name) (\<lambda>unit_name.
        Inr (set_service_enabled unit_name enabled)))),
     (''MaskService'', \<lambda>params.
        and_then (str_arg params ''unit'' validated_unit_name) (\<lambda>unit_name.
        Inr (mask_service unit_name))),
     (''UnmaskService'', \<lambda>params.
        and_then (str_arg params ''unit'' validated_activatable_unit) (\<lambda>unit_name.
        Inr (unmask_service unit_name))),
     (''GetServiceLogs'', \<lambda>params.
        and_then (str_arg params ''unit'' validated_unit_name) (\<lambda>unit_name.
        Inr (get_service_logs unit_name))),
     (''GetServiceStatus'', \<lambda>params.
        and_then (str_arg params ''unit'' validated_unit_name) (\<lambda>unit_name.
        Inr (get_service_status unit_name))),
     (''ReloadService'', \<lambda>params.
        and_then (str_arg params ''unit'' validated_unit_name) (\<lambda>unit_name.
        Inr (reload_service unit_name))),
     (''ListTimers'', \<lambda>params. Inr list_timers),
     (''ReloadDaemon'', \<lambda>params. Inr reload_daemon),
     (''CreateScheduledJob'', \<lambda>params.
        and_then (require_str params ''name'') (\<lambda>name.
        if scheduled_job_unit_paths name = None then Inl (InvalidParam ''name'') else
        and_then (require_str params ''command'') (\<lambda>command.
        if command = [] \<or> length command > MAX_SCHEDULED_COMMAND_LEN \<or> has_control command
        then Inl (InvalidParam ''command'') else
        and_then (require_str params ''schedule'') (\<lambda>schedule.
        if schedule = [] \<or> length schedule > MAX_SCHEDULE_EXPR_LEN
           \<or> \<not> list_all (\<lambda>c. is_ascii_alphanumeric c \<or> is_one_of '' :,*/.~+-'' c) schedule
        then Inl (InvalidParam ''schedule'') else
        Inr (create_scheduled_job name command schedule))))),
     (''GetServiceResourceLimits'', \<lambda>params.
        and_then (str_arg params ''unit'' validated_unit_name) (\<lambda>unit_name.
        Inr (get_service_resource_limits unit_name))),
     (''SetServiceResourceLimits'', \<lambda>params.
        and_then (str_arg params ''unit'' validated_resource_limit_unit) (\<lambda>unit_name.
        and_then (collect_flags
            [limit_assignment params ''memory_max'' validated_memory_limit ''MemoryMax='',
             limit_assignment params ''memory_high'' validated_memory_limit ''MemoryHigh='',
             limit_assignment params ''cpu_quota'' validated_cpu_quota ''CPUQuota='',
             limit_assignment params ''tasks_max'' validated_tasks_max ''TasksMax='']) (\<lambda>assignments.
        if assignments = [] then Inl (MissingParam ''memory_max'')
        else Inr (set_service_resource_limits unit_name assignments))))]"

definition toolbox_builders :: "(string \<times> builder) list" where
  "toolbox_builders =
    [(''ListToolboxes'', \<lambda>params.
        and_then (user_arg params validated_username) (\<lambda>username. Inr (list_toolboxes username))),
     (''CreateToolbox'', \<lambda>params.
        and_then (user_arg params validated_username) (\<lambda>username.
        and_then (str_arg params ''name'' validated_safe_arg) (\<lambda>name.
        and_then (and_then (optional_str params ''image'')
                    (transpose_map (\<lambda>img. validated_safe_arg img ''image''))) (\<lambda>image_ref.
        and_then (and_then (optional_str params ''release'')
                    (transpose_map (\<lambda>r. validated_safe_arg r ''release''))) (\<lambda>release.
        Inr (create_toolbox username name release image_ref)))))),
     (''RemoveToolbox'', \<lambda>params.
        and_then (user_arg params validated_username) (\<lambda>username.
        and_then (str_arg params ''name'' validated_safe_arg) (\<lambda>name.
        Inr (remove_toolbox username name))))]"

definition identity_builders :: "(string \<times> builder) list" where
  "identity_builders =
    [(''GetDateTime'', \<lambda>params. Inr get_datetime),
     (''SetHostname'', \<lambda>params.
        and_then (str_arg params ''hostname'' validated_hostname) (\<lambda>hostname. Inr (set_hostname hostname))),
     (''SetTimezone'', \<lambda>params.
        and_then (str_arg params ''timezone'' validated_timezone) (\<lambda>timezone. Inr (set_timezone timezone))),
     (''SetLocale'', \<lambda>params.
        and_then (str_arg params ''locale'' validated_locale) (\<lambda>loc. Inr (set_locale loc))),
     (''SetNtp'', \<lambda>params.
        and_then (require_bool params ''enabled'') (\<lambda>enabled. Inr (set_ntp enabled)))]"

definition filesystem_builders :: "(string \<times> builder) list" where
  "filesystem_builders = [(''GetDiskUsage'', \<lambda>params. Inr disk_usage_spec)]"

text \<open>The pid may be a number or a numeric string.\<close>

definition pid_param :: "json \<Rightarrow> nat option" where
  [build_defs]: "pid_param params =
     (case get_param params ''pid'' of
        None \<Rightarrow> None
      | Some v \<Rightarrow> (case as_u64 v of
                     Some n \<Rightarrow> Some n
                   | None \<Rightarrow> (case as_str v of Some s \<Rightarrow> parse_uint (2 ^ 64 - 1) (trim s) | None \<Rightarrow> None)))"

definition processes_builders :: "(string \<times> builder) list" where
  "processes_builders =
    [(''ListProcesses'', \<lambda>params. Inr list_processes_spec),
     (''SignalProcess'', \<lambda>params.
        and_then (ok_or (MissingParam ''pid'') (pid_param params)) (\<lambda>pid.
        if pid < 2 \<or> pid > u32_max then Inl (InvalidParam ''pid'') else
        and_then (optional_str params ''signal'') (\<lambda>sig.
        and_then (validated_kill_signal (case sig of Some s \<Rightarrow> s | None \<Rightarrow> ''TERM'')) (\<lambda>signal.
        Inr (signal_process pid signal)))))]"

definition clamp :: "nat \<Rightarrow> nat \<Rightarrow> nat \<Rightarrow> nat" where
  "clamp low high n = (if n < low then low else if n > high then high else n)"

definition journald_builders :: "(string \<times> builder) list" where
  "journald_builders =
    [(''GetJournalLog'', \<lambda>params.
        and_then (optional_validated params ''unit'' validated_unit_name) (\<lambda>unit_name.
        and_then (optional_validated params ''priority'' validated_journal_priority) (\<lambda>priority.
        and_then (optional_validated params ''since'' validated_journal_time) (\<lambda>since.
        and_then (optional_validated params ''until'' validated_journal_time) (\<lambda>until.
        and_then (optional_validated params ''grep'' validated_journal_grep) (\<lambda>grep.
        and_then (optional_u64 params ''lines'') (\<lambda>line_count.
        and_then (optional_bool params ''boot'') (\<lambda>boot.
        and_then (optional_bool params ''kernel'') (\<lambda>kernel.
        Inr (get_journal_log
          \<lparr>jq_lines = clamp 1 MAX_JOURNAL_LINES (case line_count of Some n \<Rightarrow> n | None \<Rightarrow> 100),
           jq_unit = unit_name, jq_priority = priority, jq_boot = (boot = Some True),
           jq_kernel = (kernel = Some True), jq_since = since, jq_until = until, jq_grep = grep\<rparr>)))))))))),
     (''VacuumJournal'', \<lambda>params.
        and_then (optional_u64 params ''size_mb'') (\<lambda>size_mb.
        and_then (optional_u64 params ''retain_days'') (\<lambda>retain_days.
        case (size_mb, retain_days) of
          (Some mb, None) \<Rightarrow> if 1 \<le> mb \<and> mb \<le> u32_max then Inr (vacuum_journal_by_size mb)
                             else Inl (InvalidParam ''size_mb'')
        | (None, Some days) \<Rightarrow> if 1 \<le> days \<and> days \<le> u32_max then Inr (vacuum_journal_by_time days)
                               else Inl (InvalidParam ''size_mb'')
        | (None, None) \<Rightarrow> Inl (MissingParam ''size_mb'')
        | (Some _, Some _) \<Rightarrow> Inl (InvalidParam ''size_mb''))))]"

definition lvm_builders :: "(string \<times> builder) list" where
  "lvm_builders =
    [(''GetLvmReport'', \<lambda>params. Inr get_lvm_report),
     (''ExtendLogicalVolume'', \<lambda>params.
        and_then (str_arg params ''vg'' validated_lvm_name) (\<lambda>vg.
        and_then (str_arg params ''lv'' validated_lvm_name) (\<lambda>lv.
        and_then (str_arg params ''size'' validated_lvm_size) (\<lambda>vol_size.
        Inr (extend_logical_volume vg lv vol_size))))),
     (''CreateLogicalVolume'', \<lambda>params.
        and_then (str_arg params ''vg'' validated_lvm_name) (\<lambda>vg.
        and_then (str_arg params ''name'' validated_lvm_name) (\<lambda>name.
        and_then (str_arg params ''size'' validated_lvm_size) (\<lambda>vol_size.
        Inr (create_logical_volume vg name vol_size))))),
     (''CreateLvSnapshot'', \<lambda>params.
        and_then (str_arg params ''vg'' validated_lvm_name) (\<lambda>vg.
        and_then (str_arg params ''origin'' validated_lvm_name) (\<lambda>origin.
        and_then (str_arg params ''snapshot'' validated_lvm_name) (\<lambda>snapshot.
        and_then (str_arg params ''size'' validated_lvm_size) (\<lambda>vol_size.
        Inr (create_lv_snapshot vg origin snapshot vol_size))))))]"

definition sysctl_builders :: "(string \<times> builder) list" where
  "sysctl_builders =
    [(''GetSysctl'', \<lambda>params.
        and_then (optional_validated params ''key'' validated_sysctl_key) (\<lambda>key. Inr (get_sysctl key))),
     (''SetSysctl'', \<lambda>params.
        and_then (str_arg params ''key'' validated_sysctl_key) (\<lambda>key.
        and_then (str_arg params ''value'' validated_sysctl_value) (\<lambda>val.
        Inr (set_sysctl key val))))]"

definition mounts_builders :: "(string \<times> builder) list" where
  "mounts_builders =
    [(''GetMounts'', \<lambda>params. Inr get_mounts),
     (''AddMount'', \<lambda>params.
        and_then (str_arg params ''device'' validated_mount_device) (\<lambda>device.
        and_then (str_arg params ''mountpoint'' validated_mount_point) (\<lambda>mountpoint.
        and_then (str_arg params ''fstype'' validated_fstype) (\<lambda>fstype.
        and_then (optional_validated params ''options'' validated_mount_options) (\<lambda>options.
        Inr (add_mount device mountpoint fstype options)))))),
     (''RemoveMount'', \<lambda>params.
        and_then (str_arg params ''mountpoint'' validated_mount_point) (\<lambda>mountpoint.
        Inr (remove_mount mountpoint))),
     (''AddSwap'', \<lambda>params.
        and_then (str_arg params ''file'' validated_swap_path) (\<lambda>file.
        and_then (require_u32 params ''size_mb'') (\<lambda>size_mb.
        if \<not> (1 \<le> size_mb \<and> size_mb \<le> MAX_SWAP_SIZE_MB) then Inl (InvalidParam ''size_mb'')
        else Inr (add_swap file size_mb)))),
     (''RemoveSwap'', \<lambda>params.
        and_then (str_arg params ''file'' validated_swap_path) (\<lambda>file. Inr (remove_swap file)))]"

section \<open>Grants, pins, logs, password policy\<close>

definition sudoers_builders :: "(string \<times> builder) list" where
  "sudoers_builders =
    [(''GetSudoGrants'', \<lambda>params. Inr get_sudo_grants),
     (''GrantSudoAccess'', \<lambda>params.
        and_then (str_arg params ''name'' validated_sudoers_name) (\<lambda>name.
        and_then (str_arg params ''user'' validated_username) (\<lambda>user.
        and_then (str_arg params ''commands'' validated_sudo_commands) (\<lambda>commands.
        and_then (optional_str params ''runas'') (\<lambda>runas.
        and_then (transpose_map (\<lambda>u. if u = ''ALL'' then Inr ''ALL'' else validated_username u ''runas'')
                    (option_filter (\<lambda>s. s \<noteq> []) runas)) (\<lambda>runas.
        and_then (optional_bool params ''nopasswd'') (\<lambda>np.
        let nopasswd = (np = Some True) in
        if (commands = ''ALL'' \<or> shell_equivalent_sudo_command commands \<noteq> None) \<and> nopasswd
        then Inl (InvalidParam ''commands'')
        else Inr (grant_sudo_access name user commands runas nopasswd)))))))),
     (''RevokeSudoAccess'', \<lambda>params.
        and_then (str_arg params ''name'' validated_sudoers_name) (\<lambda>name.
        Inr (revoke_sudo_access name)))]"

definition apt_preferences_builders :: "(string \<times> builder) list" where
  "apt_preferences_builders =
    [(''GetAptPins'', \<lambda>params.
        and_then (optional_validated params ''package'' validated_apt_package) (\<lambda>package.
        Inr (get_apt_pins package))),
     (''SetAptPin'', \<lambda>params.
        and_then (str_arg params ''name'' validated_apt_pin_name) (\<lambda>name.
        and_then (str_arg params ''package'' validated_apt_package) (\<lambda>package.
        and_then (str_arg params ''pin'' validated_apt_pin_expr) (\<lambda>pin.
        and_then (require_i64 params ''priority'') (\<lambda>priority.
        if \<not> (-1 \<le> priority \<and> priority \<le> 1000) then Inl (InvalidParam ''priority'')
        else Inr (set_apt_pin name package pin priority)))))),
     (''RemoveAptPin'', \<lambda>params.
        and_then (str_arg params ''name'' validated_apt_pin_name) (\<lambda>name. Inr (remove_apt_pin name)))]"

definition logging_builders :: "(string \<times> builder) list" where
  "logging_builders =
    [(''GetLogrotateStatus'', \<lambda>params.
        and_then (optional_validated params ''config'' validated_log_path) (\<lambda>config.
        Inr (get_logrotate_status config))),
     (''ConfigureLogRotation'', \<lambda>params.
        and_then (str_arg params ''name'' validated_sudoers_name) (\<lambda>name.
        and_then (require_str params ''frequency'') (\<lambda>frequency.
        if frequency \<notin> set [''daily'', ''weekly'', ''monthly''] then Inl (InvalidParam ''frequency'') else
        and_then (require_u32 params ''rotate'') (\<lambda>rotate_count.
        if rotate_count > 1000 then Inl (InvalidParam ''rotate'') else
        and_then (require_str params ''path'') (\<lambda>path.
        and_then (validated_log_rotation path rotate_count) (\<lambda>path.
        and_then (optional_bool params ''compress'') (\<lambda>compress.
        Inr (configure_log_rotation name path frequency rotate_count (compress = Some True))))))))),
     (''RemoveLogRotation'', \<lambda>params.
        and_then (str_arg params ''name'' validated_sudoers_name) (\<lambda>name.
        Inr (remove_log_rotation name))),
     (''ConfigureRemoteSyslog'', \<lambda>params.
        and_then (str_arg params ''host'' validated_syslog_host) (\<lambda>host.
        and_then (require_u32 params ''port'') (\<lambda>port.
        if \<not> (1 \<le> port \<and> port \<le> MAX_PORT) then Inl (InvalidParam ''port'') else
        and_then (require_str params ''protocol'') (\<lambda>protocol.
        if protocol \<notin> set [''tcp'', ''udp''] then Inl (InvalidParam ''protocol'')
        else Inr (configure_remote_syslog host port protocol))))),
     (''RemoveRemoteSyslog'', \<lambda>params. Inr remove_remote_syslog)]"

definition pam_builders :: "(string \<times> builder) list" where
  "pam_builders =
    [(''GetPasswordAging'', \<lambda>params.
        and_then (str_arg params ''user'' validated_username) (\<lambda>user. Inr (get_password_aging user))),
     (''SetPasswordAging'', \<lambda>params.
        and_then (str_arg params ''user'' validated_username) (\<lambda>user.
        and_then (collect_flags
            [opt_u64_flag params ''max_days'' ''-M'' 0 MAX_PASSWORD_AGE_DAYS,
             opt_u64_flag params ''min_days'' ''-m'' 0 MAX_PASSWORD_AGE_DAYS,
             opt_u64_flag params ''warn_days'' ''-W'' 0 MAX_PASSWORD_AGE_DAYS]) (\<lambda>flags.
        if flags = [] then Inl (MissingParam ''max_days'') else Inr (set_password_aging user flags)))),
     (''SetPasswordPolicy'', \<lambda>params.
        and_then (collect_flags
            [opt_u64_flag params ''minlen'' ''--minlen'' 1 MAX_PASSWORD_MINLEN,
             opt_i64_flag params ''dcredit'' ''--dcredit'' (-64) 64,
             opt_i64_flag params ''ucredit'' ''--ucredit'' (-64) 64,
             opt_i64_flag params ''lcredit'' ''--lcredit'' (-64) 64,
             opt_i64_flag params ''ocredit'' ''--ocredit'' (-64) 64]) (\<lambda>extra.
        if extra = [] then Inl (MissingParam ''minlen'') else Inr (set_password_policy extra))),
     (''SetAccountLockout'', \<lambda>params.
        and_then (collect_flags
            [opt_u64_flag params ''deny'' ''--deny'' 1 1000,
             opt_u64_flag params ''unlock_time'' ''--unlock-time'' 0 MAX_LOCKOUT_WINDOW_SECS,
             opt_u64_flag params ''fail_interval'' ''--fail-interval'' 0 MAX_LOCKOUT_WINDOW_SECS]) (\<lambda>extra.
        if extra = [] then Inl (MissingParam ''deny'') else Inr (set_account_lockout extra)))]"

section \<open>System information, network, accounts, SSH\<close>

definition system_info_builders :: "(string \<times> builder) list" where
  "system_info_builders =
    [(''GetMemoryInfo'', \<lambda>params. Inr get_memory_info_spec),
     (''GetHostState'', \<lambda>params. Inr get_host_state)]"

definition network_builders :: "(string \<times> builder) list" where
  "network_builders =
    [(''GetFirewallState'', \<lambda>params. Inr get_firewall_state),
     (''GetNetworkStatus'', \<lambda>params. Inr get_network_status),
     (''GetListeningPorts'', \<lambda>params. Inr get_listening_ports),
     (''GetNftablesRuleset'', \<lambda>params. Inr get_nftables_ruleset),
     (''GetFirewallBackendState'', \<lambda>params. Inr get_firewall_backend_state),
     (''ConfigureWifi'', \<lambda>params.
        and_then (str_arg params ''ssid'' validated_safe_arg) (\<lambda>ssid.
        and_then (optional_validated params ''password'' validated_safe_arg) (\<lambda>password.
        Inr (configure_wifi ssid password)))),
     (''SetDnsServers'', \<lambda>params.
        and_then (str_arg params ''interface'' validated_safe_arg) (\<lambda>interface.
        and_then (list_arg params ''servers'' validated_safe_arg) (\<lambda>servers.
        Inr (set_dns_servers interface servers)))),
     (''ConfigureFirewall'', \<lambda>params.
        and_then (str_arg params ''zone'' validated_safe_arg) (\<lambda>zone.
        and_then (str_arg params ''service'' validated_safe_arg) (\<lambda>service.
        and_then (require_bool params ''enabled'') (\<lambda>enabled.
        Inr (configure_firewall zone service enabled)))))]"

definition users_builders :: "(string \<times> builder) list" where
  "users_builders =
    [(''ListUsers'', \<lambda>params. Inr list_users),
     (''ListGroups'', \<lambda>params. Inr list_groups),
     (''CreateUser'', \<lambda>params.
        and_then (user_arg params validated_username) (\<lambda>username.
        and_then (and_then (optional_str params ''shell'')
                    (transpose_map (\<lambda>s. validated_safe_arg s ''shell''))) (\<lambda>shell.
        and_then (and_then (optional_str params ''home'')
                    (transpose_map (\<lambda>h. validated_home_dir h ''home''))) (\<lambda>home.
        Inr (create_user username shell home))))),
     (''DeleteUser'', \<lambda>params.
        and_then (user_arg params validated_username_not_critical) (\<lambda>username. Inr (delete_user username))),
     (''AddUserToGroup'', \<lambda>params.
        and_then (user_arg params validated_username) (\<lambda>username.
        and_then (str_arg params ''group'' validated_group) (\<lambda>group_name.
        Inr (add_user_to_group username group_name)))),
     (''RemoveUserFromGroup'', \<lambda>params.
        and_then (user_arg params validated_username) (\<lambda>username.
        and_then (str_arg params ''group'' validated_group) (\<lambda>group_name.
        Inr (remove_user_from_group username group_name)))),
     (''CreateGroup'', \<lambda>params.
        and_then (str_arg params ''group'' validated_group) (\<lambda>group_name.
        and_then (optional_bool params ''system'') (\<lambda>system.
        Inr (create_group group_name (system = Some True))))),
     (''DeleteGroup'', \<lambda>params.
        and_then (str_arg params ''group'' validated_group_not_critical) (\<lambda>group_name.
        Inr (delete_group group_name))),
     (''LockUserAccount'', \<lambda>params.
        and_then (user_arg params validated_username_not_critical) (\<lambda>username.
        Inr (lock_user_account username))),
     (''UnlockUserAccount'', \<lambda>params.
        and_then (user_arg params validated_username_not_critical) (\<lambda>username.
        Inr (unlock_user_account username)))]"

definition sshd_allowed_values :: "string \<Rightarrow> string list option" where
  [build_defs]: "sshd_allowed_values opt =
     (if opt = ''PermitRootLogin''
      then Some [''yes'', ''no'', ''prohibit-password'', ''forced-commands-only'']
      else if opt \<in> set [''PasswordAuthentication'', ''PubkeyAuthentication'', ''X11Forwarding'',
                          ''PermitEmptyPasswords'']
      then Some [''yes'', ''no'']
      else None)"

definition ssh_builders :: "(string \<times> builder) list" where
  "ssh_builders =
    [(''GetAuthorizedKeys'', \<lambda>params.
        and_then (user_arg params validated_username) (\<lambda>username. Inr (get_authorized_keys username))),
     (''AddAuthorizedKey'', \<lambda>params.
        and_then (user_arg params validated_username) (\<lambda>username.
        and_then (and_then (require_str params ''public_key'') validated_public_key) (\<lambda>public_key.
        Inr (add_authorized_key username public_key)))),
     (''RemoveAuthorizedKey'', \<lambda>params.
        and_then (user_arg params validated_username) (\<lambda>username.
        and_then (and_then (require_str params ''public_key'') validated_public_key) (\<lambda>public_key.
        Inr (remove_authorized_key username public_key)))),
     (''SetSshdOption'', \<lambda>params.
        and_then (require_str params ''option'') (\<lambda>opt.
        and_then (require_str params ''value'') (\<lambda>val.
        and_then (ok_or (InvalidParam ''option'') (sshd_allowed_values opt)) (\<lambda>allowed_values.
        if val \<notin> set allowed_values then Inl (InvalidParam ''value'')
        else Inr (set_sshd_option opt val)))))]"

section \<open>Packages\<close>

definition apt_builders :: "(string \<times> builder) list" where
  "apt_builders =
    [(''AptUpdate'', \<lambda>params. Inr apt_update),
     (''AptUpgrade'', \<lambda>params. Inr apt_upgrade),
     (''AptInstall'', \<lambda>params.
        and_then (str_arg params ''package'' validated_install_package) (\<lambda>package. Inr (apt_install package))),
     (''AptRemove'', \<lambda>params.
        and_then (str_arg params ''package'' validated_unmodified_package) (\<lambda>package. Inr (apt_remove package))),
     (''AptPurge'', \<lambda>params.
        and_then (str_arg params ''package'' validated_unmodified_package) (\<lambda>package. Inr (apt_purge package))),
     (''AptAutoremove'', \<lambda>params. Inr apt_autoremove),
     (''AptHold'', \<lambda>params.
        and_then (str_arg params ''package'' validated_unmodified_package) (\<lambda>package. Inr (apt_hold package))),
     (''AptUnhold'', \<lambda>params.
        and_then (str_arg params ''package'' validated_unmodified_package) (\<lambda>package. Inr (apt_unhold package))),
     (''AptSearch'', \<lambda>params.
        and_then (str_arg params ''term'' validated_safe_arg) (\<lambda>search_term. Inr (apt_search search_term))),
     (''AptListInstalled'', \<lambda>params. Inr apt_list_installed),
     (''AptShow'', \<lambda>params.
        and_then (str_arg params ''package'' validated_apt_show_package) (\<lambda>package. Inr (apt_show package))),
     (''AptListUpgradable'', \<lambda>params. Inr apt_list_upgradable),
     (''AptHistoryList'', \<lambda>params. Inr apt_history_list),
     (''ConfigureUnattendedUpgrades'', \<lambda>params.
        and_then (require_bool params ''enabled'') (\<lambda>enabled. Inr (configure_unattended_upgrades enabled)))]"

definition ppa_builders :: "(string \<times> builder) list" where
  "ppa_builders =
    [(''AddPpa'', \<lambda>params.
        and_then (str_arg params ''name'' validated_ppa_name) (\<lambda>name. Inr (add_ppa name))),
     (''RemovePpa'', \<lambda>params.
        and_then (str_arg params ''name'' validated_ppa_name) (\<lambda>name. Inr (remove_ppa name)))]"

definition snap_error :: "snap_install_error \<Rightarrow> executor_error" where
  [build_defs]: "snap_error e = (case e of InvalidArg param _ \<Rightarrow> InvalidParam param)"

definition map_err :: "('e \<Rightarrow> 'f) \<Rightarrow> 'e + 'a \<Rightarrow> 'f + 'a" where
  [build_defs]: "map_err f r = (case r of Inl e \<Rightarrow> Inl (f e) | Inr x \<Rightarrow> Inr x)"

definition snap_builders :: "(string \<times> builder) list" where
  "snap_builders =
    [(''SnapInstall'', \<lambda>params.
        and_then (str_arg params ''name'' validated_safe_arg) (\<lambda>name.
        and_then (optional_validated params ''channel'' validated_safe_arg) (\<lambda>channel.
        and_then (optional_bool params ''auto_update'') (\<lambda>auto_update.
        map_err snap_error (snap_install name channel (auto_update = Some True)))))),
     (''SnapRemove'', \<lambda>params.
        and_then (str_arg params ''name'' validated_safe_arg) (\<lambda>name. Inr (snap_remove name))),
     (''SnapRefresh'', \<lambda>params.
        and_then (optional_validated params ''name'' validated_safe_arg) (\<lambda>name. Inr (snap_refresh name))),
     (''SnapHold'', \<lambda>params.
        and_then (str_arg params ''name'' validated_safe_arg) (\<lambda>name. Inr (snap_hold name))),
     (''SnapUnhold'', \<lambda>params.
        and_then (str_arg params ''name'' validated_safe_arg) (\<lambda>name. Inr (snap_unhold name))),
     (''SnapList'', \<lambda>params. Inr snap_list),
     (''SnapInfo'', \<lambda>params.
        and_then (str_arg params ''name'' validated_safe_arg) (\<lambda>name. Inr (snap_info name))),
     (''SnapRevert'', \<lambda>params.
        and_then (str_arg params ''name'' validated_safe_arg) (\<lambda>name. Inr (snap_revert name))),
     (''SnapClassicInstall'', \<lambda>params.
        and_then (str_arg params ''name'' validated_safe_arg) (\<lambda>name. Inr (snap_classic_install name)))]"

definition grub_builders :: "(string \<times> builder) list" where
  "grub_builders =
    [(''GrubGetKargs'', \<lambda>params. Inr grub_get_kargs),
     (''GrubSetKargs'', \<lambda>params.
        and_then (str_array_or_empty params ''append'') (\<lambda>to_append.
        and_then (str_array_or_empty params ''delete'') (\<lambda>to_delete.
        and_then (check_each (\<lambda>a. and_then (validated_safe_arg a ''append'') (\<lambda>_.
                                   validated_safe_kernel_arg a ''append'')) to_append) (\<lambda>_.
        and_then (check_each (\<lambda>d. and_then (validated_safe_arg d ''delete'') (\<lambda>_.
                                   validated_safe_kernel_arg_removal d ''delete'')) to_delete) (\<lambda>_.
        map_err (\<lambda>_. MissingParam ''append or delete'') (grub_set_kargs to_append to_delete))))))]"

section \<open>Reboot, firewall, boxes, netplan, Ubuntu Pro, resolver, AppArmor\<close>

definition reboot_builders :: "(string \<times> builder) list" where
  "reboot_builders = [(''CheckPendingReboot'', \<lambda>params. Inr check_pending_reboot)]"

definition ufw_builders :: "(string \<times> builder) list" where
  "ufw_builders =
    [(''UfwEnable'', \<lambda>params. Inr ufw_enable),
     (''UfwDisable'', \<lambda>params. Inr ufw_disable),
     (''UfwAllow'', \<lambda>params.
        and_then (str_arg params ''port_or_service'' validated_port_or_service) (\<lambda>port_or_service.
        Inr (ufw_allow port_or_service))),
     (''UfwDeny'', \<lambda>params.
        and_then (str_arg params ''port_or_service'' validated_port_or_service) (\<lambda>port_or_service.
        Inr (ufw_deny port_or_service))),
     (''UfwReset'', \<lambda>params. Inr ufw_reset),
     (''UfwStatus'', \<lambda>params.
        and_then (case get_param params ''numbered'' of
                    None \<Rightarrow> Inr False
                  | Some v \<Rightarrow> ok_or (InvalidParam ''numbered'') (as_bool v)) (\<lambda>numbered.
        Inr (ufw_status_with_numbered numbered)))]"

definition distrobox_builders :: "(string \<times> builder) list" where
  "distrobox_builders =
    [(''DistroboxList'', \<lambda>params. Inr distrobox_list),
     (''DistroboxCreate'', \<lambda>params.
        and_then (str_arg params ''name'' validated_safe_arg) (\<lambda>name.
        and_then (str_arg params ''image'' validated_safe_arg) (\<lambda>image_ref.
        Inr (distrobox_create name image_ref)))),
     (''DistroboxRemove'', \<lambda>params.
        and_then (str_arg params ''name'' validated_safe_arg) (\<lambda>name. Inr (distrobox_remove name)))]"

definition netplan_builders :: "(string \<times> builder) list" where
  "netplan_builders =
    [(''NetplanGetConfig'', \<lambda>params. Inr netplan_get_config),
     (''NetplanApply'', \<lambda>params. Inr netplan_apply),
     (''NetplanSet'', \<lambda>params.
        and_then (str_arg params ''key'' validated_safe_arg) (\<lambda>key.
        and_then (str_arg params ''value'' validated_safe_arg) (\<lambda>val.
        Inr (netplan_set key val)))),
     (''NetplanGenerate'', \<lambda>params. Inr netplan_generate)]"

definition ufw_tier3_builders :: "(string \<times> builder) list" where
  "ufw_tier3_builders =
    [(''UfwDeleteRule'', \<lambda>params.
        and_then (require_positive_u32 params ''rule_number'') (\<lambda>rule_number.
        map_err (\<lambda>_. InvalidParam ''rule_number'') (ufw_delete_rule rule_number))),
     (''UfwLimit'', \<lambda>params.
        and_then (str_arg params ''target'' validated_port_or_service) (\<lambda>target.
        Inr (ufw_limit target)))]"

definition ubuntu_pro_builders :: "(string \<times> builder) list" where
  "ubuntu_pro_builders =
    [(''ProStatus'', \<lambda>params. Inr pro_status),
     (''ProAttach'', \<lambda>params.
        and_then (str_arg params ''token'' validated_safe_arg) (\<lambda>token. Inr (pro_attach token))),
     (''ProDetach'', \<lambda>params. Inr pro_detach),
     (''EnableProService'', \<lambda>params.
        and_then (str_arg params ''service'' validated_pro_service) (\<lambda>service. Inr (enable_pro_service service))),
     (''DisableProService'', \<lambda>params.
        and_then (str_arg params ''service'' validated_pro_service) (\<lambda>service. Inr (disable_pro_service service)))]"

definition livepatch_builders :: "(string \<times> builder) list" where
  "livepatch_builders = [(''LivepatchStatus'', \<lambda>params. Inr livepatch_status)]"

definition multipass_builders :: "(string \<times> builder) list" where
  "multipass_builders = [(''MultipassList'', \<lambda>params. Inr multipass_list)]"

definition release_upgrade_builders :: "(string \<times> builder) list" where
  "release_upgrade_builders = [(''UbuntuReleaseUpgrade'', \<lambda>params. Inr ubuntu_release_upgrade)]"

definition parse_server :: "string \<Rightarrow> executor_error + ip_addr" where
  [build_defs]: "parse_server s = ok_or (InvalidIpAddress ''servers'' s) (ip_from_str s)"

definition resolvectl_builders :: "(string \<times> builder) list" where
  "resolvectl_builders =
    [(''ResolvectlStatus'', \<lambda>params. Inr resolvectl_status),
     (''ResolvectlSetDns'', \<lambda>params.
        and_then (str_arg params ''interface'' validated_safe_arg) (\<lambda>interface.
        and_then (str_array_or_empty params ''servers'') (\<lambda>raw_servers.
        if raw_servers = [] then Inl (MissingParam ''servers'') else
        and_then (collect_results (map parse_server raw_servers)) (\<lambda>parsed_servers.
        Inr (resolvectl_set_dns interface parsed_servers)))))]"

definition apparmor_builders :: "(string \<times> builder) list" where
  "apparmor_builders =
    [(''AppArmorStatus'', \<lambda>params. Inr apparmor_status),
     (''AppArmorEnforce'', \<lambda>params.
        and_then (str_arg params ''profile_path'' validated_apparmor_profile) (\<lambda>profile_path.
        Inr (apparmor_enforce profile_path))),
     (''AppArmorComplain'', \<lambda>params.
        and_then (str_arg params ''profile_path'' validated_apparmor_profile) (\<lambda>profile_path.
        Inr (apparmor_complain profile_path)))]"

definition cloudinit_builders :: "(string \<times> builder) list" where
  "cloudinit_builders = [(''CloudInitStatus'', \<lambda>params. Inr cloud_init_status)]"

definition ubuntu_flatpak_builders :: "(string \<times> builder) list" where
  "ubuntu_flatpak_builders =
    [(''UbuntuInstallFlatpak'', \<lambda>params.
        and_then (user_arg params validated_username) (\<lambda>username.
        and_then (str_arg params ''app_id'' validated_safe_arg) (\<lambda>app_id.
        and_then (str_arg params ''remote'' validated_safe_arg) (\<lambda>remote.
        Inr (ubuntu_install_flatpak username app_id remote))))),
     (''UbuntuRemoveFlatpak'', \<lambda>params.
        and_then (user_arg params validated_username) (\<lambda>username.
        and_then (str_arg params ''app_id'' validated_safe_arg) (\<lambda>app_id.
        Inr (ubuntu_remove_flatpak username app_id)))),
     (''UbuntuUpdateFlatpak'', \<lambda>params.
        and_then (user_arg params validated_username) (\<lambda>username.
        and_then (optional_validated params ''app_id'' validated_safe_arg) (\<lambda>app_id.
        Inr (ubuntu_update_flatpak username app_id)))),
     (''UbuntuListFlatpaks'', \<lambda>params.
        and_then (user_arg params validated_username) (\<lambda>username. Inr (ubuntu_list_flatpaks username)))]"

section \<open>fail2ban, auditd, certificates\<close>

definition ban_error :: "fail2ban_error \<Rightarrow> executor_error" where
  [build_defs]: "ban_error e =
     (case e of InvalidIpAddr v \<Rightarrow> InvalidIpAddress ''ip'' v | InvalidJail _ \<Rightarrow> InvalidParam ''jail'')"

definition opt_bool_flag :: "json \<Rightarrow> string \<Rightarrow> string \<Rightarrow> executor_error + string list" where
  [build_defs]: "opt_bool_flag params key flag =
     and_then (optional_bool params key) (\<lambda>v. Inr (case v of
         None \<Rightarrow> [] | Some b \<Rightarrow> [flag, if b then ''true'' else ''false'']))"

definition fail2ban_builders :: "(string \<times> builder) list" where
  "fail2ban_builders =
    [(''Fail2banStatus'', \<lambda>params.
        and_then (optional_validated params ''jail'' validated_safe_arg) (\<lambda>jail.
        map_err (\<lambda>_. InvalidParam ''jail'') (fail2ban_status jail))),
     (''Fail2banBanIp'', \<lambda>params.
        and_then (str_arg params ''jail'' validated_safe_arg) (\<lambda>jail.
        and_then (require_str params ''ip'') (\<lambda>ip.
        map_err ban_error (fail2ban_ban_ip jail ip)))),
     (''Fail2banUnbanIp'', \<lambda>params.
        and_then (str_arg params ''jail'' validated_safe_arg) (\<lambda>jail.
        and_then (require_str params ''ip'') (\<lambda>ip.
        map_err ban_error (fail2ban_unban_ip jail ip)))),
     (''ConfigureFail2banJail'', \<lambda>params.
        and_then (str_arg params ''name'' validated_sudoers_name) (\<lambda>name.
        and_then (collect_flags
            [opt_bool_flag params ''enabled'' ''--enabled'',
             opt_u64_flag params ''maxretry'' ''--maxretry'' 1 100,
             opt_u64_flag params ''bantime'' ''--bantime'' 0 MAX_FAIL2BAN_WINDOW_SECS,
             opt_u64_flag params ''findtime'' ''--findtime'' 0 MAX_FAIL2BAN_WINDOW_SECS]) (\<lambda>extra.
        if extra = [] then Inl (MissingParam ''maxretry'')
        else map_err (\<lambda>_. InvalidParam ''name'') (configure_fail2ban_jail name extra))))]"

definition auditd_builders :: "(string \<times> builder) list" where
  "auditd_builders =
    [(''GetAuditRules'', \<lambda>params. Inr get_audit_rules),
     (''AddAuditRule'', \<lambda>params.
        and_then (str_arg params ''path'' validated_audit_path) (\<lambda>path.
        and_then (str_arg params ''perms'' validated_audit_perms) (\<lambda>perms.
        and_then (str_arg params ''key'' validated_sudoers_name) (\<lambda>key.
        Inr (add_audit_rule path perms key))))),
     (''RemoveAuditRule'', \<lambda>params.
        and_then (str_arg params ''key'' validated_sudoers_name) (\<lambda>key. Inr (remove_audit_rule key)))]"

definition certbot_builders :: "(string \<times> builder) list" where
  "certbot_builders =
    [(''GetCertificates'', \<lambda>params. Inr get_certificates),
     (''ObtainCertificate'', \<lambda>params.
        and_then (optional_str params ''domain'') (\<lambda>dom.
        and_then (optional_str_array params ''domains'') (\<lambda>arr.
        and_then (case arr of
                    Some xs \<Rightarrow> collect_results (map (\<lambda>s. validated_domain s ''domains'') xs)
                  | None \<Rightarrow> (case dom of
                      Some d \<Rightarrow> and_then (validated_domain d ''domain'') (\<lambda>d. Inr [d])
                    | None \<Rightarrow> Inr [])) (\<lambda>domains.
        if domains = [] then Inl (MissingParam ''domains'') else
        and_then (str_arg params ''email'' validated_email) (\<lambda>email.
        and_then (optional_str params ''challenge'') (\<lambda>ch.
        let challenge = (case ch of Some c \<Rightarrow> c | None \<Rightarrow> ''standalone'') in
        if challenge \<notin> set [''standalone'', ''nginx'', ''apache''] then Inl (InvalidParam ''challenge'')
        else Inr (obtain_certificate domains email challenge))))))),
     (''RenewCertificates'', \<lambda>params. Inr renew_certificates)]"

section \<open>The whole match\<close>

definition action_builders :: "(string \<times> builder) list" where
  "action_builders = concat
     [deployment_builders, flatpak_builders, containers_builders, layering_builders,
      package_repos_builders, services_builders, toolbox_builders, identity_builders,
      filesystem_builders, processes_builders, journald_builders, lvm_builders, sysctl_builders,
      mounts_builders, sudoers_builders, apt_preferences_builders, logging_builders, pam_builders,
      system_info_builders, network_builders, users_builders, ssh_builders, apt_builders,
      ppa_builders, snap_builders, grub_builders, reboot_builders, ufw_builders, distrobox_builders,
      netplan_builders, ufw_tier3_builders, ubuntu_pro_builders, livepatch_builders,
      multipass_builders, release_upgrade_builders, resolvectl_builders, apparmor_builders, cloudinit_builders,
      ubuntu_flatpak_builders, fail2ban_builders, auditd_builders, certbot_builders]"

definition build_action_spec :: "string \<Rightarrow> builder" where
  "build_action_spec action_name params =
     and_then (validate_action_params action_name params) (\<lambda>_.
       case map_of action_builders action_name of
         Some build \<Rightarrow> build params
       | None \<Rightarrow> Inl (UnknownAction action_name))"

section \<open>The catalogue\<close>

definition catalogue :: "(string \<times> action_spec list) list" where
  "catalogue =
    [(''Deployment (atomic host)'', deployment_specs),
     (''Package layering (rpm-ostree)'', layering_specs),
     (''Filesystem'', filesystem_specs),
     (''Flatpak'', flatpak_specs),
     (''Toolbox'', toolbox_specs),
     (''Services'', services_specs),
     (''Processes'', processes_specs),
     (''Journald'', journald_specs),
     (''Storage '' @ [CHR 0xE2, CHR 0x80, CHR 0x94] @ '' LVM'', lvm_specs),
     (''Kernel parameters '' @ [CHR 0xE2, CHR 0x80, CHR 0x94] @ '' sysctl'', sysctl_specs),
     (''Mounts & swap'', mounts_specs),
     (''Log management'', logging_specs),
     (''PAM password policy'', pam_specs),
     (''auditd'', auditd_specs),
     (''certbot / ACME'', certbot_specs),
     (''Scoped sudoers.d'', sudoers_specs),
     (''Network'', network_specs),
     (''resolvectl'', resolvectl_specs),
     (''Identity / time / locale'', identity_specs),
     (''Users & groups'', users_specs),
     (''SSH keys'', ssh_specs),
     (''Package repositories'', package_repos_specs),
     (''System info'', system_info_specs),
     (''Containers'', containers_specs),
     (''Reboot'', reboot_specs),
     (''AppArmor'', apparmor_specs),
     (''cloud-init'', cloudinit_specs),
     (''fail2ban'', fail2ban_specs),
     (''apt'', apt_specs),
     (''apt preferences / pinning'', apt_preferences_specs),
     (''PPA'', ppa_specs),
     (''snap'', snap_specs),
     (''ufw'', ufw_specs),
     (''netplan'', netplan_specs),
     (''distrobox'', distrobox_specs),
     (''GRUB'', grub_specs),
     (''Ubuntu release upgrade'', release_upgrade_specs),
     (''Ubuntu Pro'', ubuntu_pro_specs),
     (''Livepatch'', livepatch_specs),
     (''Multipass'', multipass_specs)]"

definition all_specs :: "action_spec list" where
  "all_specs = concat (map snd catalogue)"

record spec_meta =
  sm_risk_level :: risk_level
  sm_reboot_required :: bool
  sm_rollback_available :: bool

definition meta_of :: "action_spec \<Rightarrow> spec_meta" where
  "meta_of s = \<lparr>sm_risk_level = as_risk_level s, sm_reboot_required = as_reboot_required s,
                sm_rollback_available = as_rollback_available s\<rparr>"

text \<open>Collecting into a map: a later entry of the same name would replace an earlier one.\<close>

definition spec_meta_for :: "string \<Rightarrow> spec_meta option" where
  "spec_meta_for action_name =
     map_of (rev (map (\<lambda>s. (as_action_name s, meta_of s)) all_specs)) action_name"

section \<open>Automatic rollback\<close>

definition rollback_spec_for :: "string \<Rightarrow> action_spec option" where
  "rollback_spec_for action_name =
     (if action_name \<in> set [''UpdateSystem'', ''InstallPackages'', ''RemovePackages'', ''RebaseSystem'',
           ''SetKernelArguments'', ''AddLayeredPackage'', ''RemoveLayeredPackage'',
           ''ReplaceLayeredPackage'', ''ResetLayeredPackageOverride'', ''RemoveBasePackage'']
      then Some \<lparr>as_action_name = ''RollbackDeployment'',
                 as_mechanism = Command ''rpm-ostree'' [''rollback''],
                 as_risk_level = High, as_reboot_required = True, as_rollback_available = False\<rparr>
      else None)"

end
