(* ===== verification/Sk_Catalogue.thy ===== *)
theory Sk_Catalogue
  imports Sk_Build Sk_Screens
begin

text \<open>
  The executor and the catalogue agree. \<^verbatim>\<open>build_action_spec\<close> makes the specification that runs;
  policy and previews read the risk, reboot and rollback columns of \<^verbatim>\<open>SPEC_META\<close>, which is
  collected from the representative entries of each module. The locale \<open>action_family\<close> is the
  contract of one section of the match with the module it calls; it is interpreted on every
  section, and the laws of the whole match follow from those of the sections.
\<close>

section \<open>What a fallible builder yields\<close>

named_theorems yield_rules \<open>weakest preconditions of the steps of a builder\<close>

definition yields :: "('a \<Rightarrow> bool) \<Rightarrow> 'e + 'a \<Rightarrow> bool" where
  "yields Q r \<longleftrightarrow> (case r of Inr x \<Rightarrow> Q x | Inl _ \<Rightarrow> True)"

lemma yields_Inr [yield_rules]: "Q x \<Longrightarrow> yields Q (Inr x)"
  by (simp add: yields_def)

lemma yields_Inl [yield_rules]: "yields Q (Inl e)"
  by (simp add: yields_def)

lemma yields_and_then [yield_rules]:
  "(\<And>x. r = Inr x \<Longrightarrow> yields Q (f x)) \<Longrightarrow> yields Q (and_then r f)"
  by (cases r) (simp_all add: yields_def)

lemma yields_if [yield_rules]:
  "(b \<Longrightarrow> yields Q r) \<Longrightarrow> (\<not> b \<Longrightarrow> yields Q r') \<Longrightarrow> yields Q (if b then r else r')"
  by simp

lemma yields_map_err [yield_rules]: "yields Q r \<Longrightarrow> yields Q (map_err f r)"
  by (cases r) (simp_all add: yields_def map_err_def)

lemma yields_let [yield_rules]: "(\<And>x. x = v \<Longrightarrow> yields Q (f x)) \<Longrightarrow> yields Q (Let v f)"
  by (simp add: Let_def)

lemma yields_option [yield_rules]:
  "(v = None \<Longrightarrow> yields Q r) \<Longrightarrow> (\<And>x. v = Some x \<Longrightarrow> yields Q (f x)) \<Longrightarrow>
   yields Q (case v of None \<Rightarrow> r | Some x \<Rightarrow> f x)"
  by (cases v) simp_all

lemma yields_prod [yield_rules]:
  "(\<And>x y. v = (x, y) \<Longrightarrow> yields Q (f x y)) \<Longrightarrow> yields Q (case v of (x, y) \<Rightarrow> f x y)"
  by (cases v) simp

lemma yieldsD: "yields Q r \<Longrightarrow> r = Inr x \<Longrightarrow> Q x"
  by (simp add: yields_def)

section \<open>The contract of a section of the match\<close>

definition described :: "action_spec list \<Rightarrow> string \<Rightarrow> action_spec \<Rightarrow> bool" where
  "described specs n spec \<longleftrightarrow> as_action_name spec = n
     \<and> list_ex (\<lambda>t. as_action_name t = n \<and> meta_of t = meta_of spec) specs"

locale action_family =
  fixes builders :: "(string \<times> builder) list" and specs :: "action_spec list"
  assumes entries: "list_all (\<lambda>(n, build). \<forall>params. yields (described specs n) (build params)) builders"
begin

lemma built_described:
  assumes "(n, build) \<in> set builders" "build params = Inr spec"
  shows "as_action_name spec = n"
    and "\<exists>t \<in> set specs. as_action_name t = n \<and> meta_of t = meta_of spec"
proof -
  have "yields (described specs n) (build params)"
    using entries assms(1) by (auto simp: list_all_iff)
  then have "described specs n spec" using assms(2) by (rule yieldsD)
  then show "as_action_name spec = n"
    and "\<exists>t \<in> set specs. as_action_name t = n \<and> meta_of t = meta_of spec"
    by (auto simp: described_def list_ex_iff)
qed

end

lemma catalogue_step [simp]:
  "described (t # ts) n spec \<longleftrightarrow> as_action_name spec = n
     \<and> (as_action_name t = n \<and> meta_of t = meta_of spec \<or> described ts n spec)"
  by (auto simp: described_def)

lemma meta_of_eval [simp]:
  "meta_of \<lparr>as_action_name = n, as_mechanism = m, as_risk_level = r, as_reboot_required = b,
            as_rollback_available = a\<rparr>
   = \<lparr>sm_risk_level = r, sm_reboot_required = b, sm_rollback_available = a\<rparr>"
  by (simp add: meta_of_def)

lemmas entry_rules = list.pred_inject prod.case fail2ban_status_def fail2ban_ban_ip_def
  fail2ban_unban_ip_def configure_fail2ban_jail_def snap_install_def grub_set_kargs_def
  ufw_delete_rule_def

lemma described_Nil [simp]: "\<not> described [] n spec"
  by (simp add: described_def)

text \<open>The entries of the catalogue that go through a fallible constructor.\<close>

lemma snap_install_entry [simp]:
  "as_action_name (expect (snap_install ''firefox'' None False)) = ''SnapInstall''"
  "meta_of (expect (snap_install ''firefox'' None False)) =
     \<lparr>sm_risk_level = Medium, sm_reboot_required = False, sm_rollback_available = False\<rparr>"
  by code_simp+

lemma grub_set_kargs_entry [simp]:
  "as_action_name (expect (grub_set_kargs [''quiet''] [''splash''])) = ''GrubSetKargs''"
  "meta_of (expect (grub_set_kargs [''quiet''] [''splash''])) =
     \<lparr>sm_risk_level = High, sm_reboot_required = True, sm_rollback_available = False\<rparr>"
  by code_simp+

lemma ufw_delete_rule_entry [simp]:
  "as_action_name (expect (ufw_delete_rule (Suc 0))) = ''UfwDeleteRule''"
  "meta_of (expect (ufw_delete_rule (Suc 0))) =
     \<lparr>sm_risk_level = High, sm_reboot_required = False, sm_rollback_available = False\<rparr>"
  by code_simp+

lemma fail2ban_status_entry [simp]:
  "as_action_name (expect (fail2ban_status None)) = ''Fail2banStatus''"
  "meta_of (expect (fail2ban_status None)) =
     \<lparr>sm_risk_level = Low, sm_reboot_required = False, sm_rollback_available = False\<rparr>"
  by code_simp+

lemma fail2ban_ban_ip_entry [simp]:
  "as_action_name (expect (fail2ban_ban_ip ''sshd'' ''192.0.2.1'')) = ''Fail2banBanIp''"
  "meta_of (expect (fail2ban_ban_ip ''sshd'' ''192.0.2.1'')) =
     \<lparr>sm_risk_level = High, sm_reboot_required = False, sm_rollback_available = False\<rparr>"
  by code_simp+

lemma fail2ban_unban_ip_entry [simp]:
  "as_action_name (expect (fail2ban_unban_ip ''sshd'' ''192.0.2.1'')) = ''Fail2banUnbanIp''"
  "meta_of (expect (fail2ban_unban_ip ''sshd'' ''192.0.2.1'')) =
     \<lparr>sm_risk_level = Medium, sm_reboot_required = False, sm_rollback_available = False\<rparr>"
  by code_simp+

lemma configure_fail2ban_jail_entry [simp]:
  "as_action_name (expect (configure_fail2ban_jail ''sshd'' [''--maxretry'', ''3''])) = ''ConfigureFail2banJail''"
  "meta_of (expect (configure_fail2ban_jail ''sshd'' [''--maxretry'', ''3''])) =
     \<lparr>sm_risk_level = High, sm_reboot_required = False, sm_rollback_available = False\<rparr>"
  by code_simp+

section \<open>Every section keeps it\<close>

interpretation deployment_family: action_family deployment_builders deployment_specs
  by unfold_locales
    (simp only: deployment_builders_def entry_rules, intro conjI TrueI allI yield_rules; simp add: deployment_specs_def action_defs split: option.splits)

interpretation flatpak_family: action_family flatpak_builders flatpak_specs
  by unfold_locales
    (simp only: flatpak_builders_def entry_rules, intro conjI TrueI allI yield_rules; simp add: flatpak_specs_def action_defs split: option.splits)

interpretation containers_family: action_family containers_builders containers_specs
  by unfold_locales
    (simp only: containers_builders_def entry_rules, intro conjI TrueI allI yield_rules; simp add: containers_specs_def action_defs split: option.splits)

interpretation layering_family: action_family layering_builders layering_specs
  by unfold_locales
    (simp only: layering_builders_def entry_rules, intro conjI TrueI allI yield_rules; simp add: layering_specs_def action_defs split: option.splits)

interpretation package_repos_family: action_family package_repos_builders package_repos_specs
  by unfold_locales
    (simp only: package_repos_builders_def entry_rules, intro conjI TrueI allI yield_rules; simp add: package_repos_specs_def action_defs split: option.splits)

interpretation services_family: action_family services_builders services_specs
  by unfold_locales
    (simp only: services_builders_def entry_rules, intro conjI TrueI allI yield_rules; simp add: services_specs_def action_defs split: option.splits)

interpretation toolbox_family: action_family toolbox_builders toolbox_specs
  by unfold_locales
    (simp only: toolbox_builders_def entry_rules, intro conjI TrueI allI yield_rules; simp add: toolbox_specs_def action_defs split: option.splits)

interpretation identity_family: action_family identity_builders identity_specs
  by unfold_locales
    (simp only: identity_builders_def entry_rules, intro conjI TrueI allI yield_rules; simp add: identity_specs_def action_defs split: option.splits)

interpretation filesystem_family: action_family filesystem_builders filesystem_specs
  by unfold_locales
    (simp only: filesystem_builders_def entry_rules, intro conjI TrueI allI yield_rules; simp add: filesystem_specs_def action_defs split: option.splits)

interpretation processes_family: action_family processes_builders processes_specs
  by unfold_locales
    (simp only: processes_builders_def entry_rules, intro conjI TrueI allI yield_rules; simp add: processes_specs_def action_defs split: option.splits)

interpretation journald_family: action_family journald_builders journald_specs
  by unfold_locales
    (simp only: journald_builders_def entry_rules, intro conjI TrueI allI yield_rules; simp add: journald_specs_def action_defs split: option.splits)

interpretation lvm_family: action_family lvm_builders lvm_specs
  by unfold_locales
    (simp only: lvm_builders_def entry_rules, intro conjI TrueI allI yield_rules; simp add: lvm_specs_def action_defs split: option.splits)

interpretation sysctl_family: action_family sysctl_builders sysctl_specs
  by unfold_locales
    (simp only: sysctl_builders_def entry_rules, intro conjI TrueI allI yield_rules; simp add: sysctl_specs_def action_defs split: option.splits)

interpretation mounts_family: action_family mounts_builders mounts_specs
  by unfold_locales
    (simp only: mounts_builders_def entry_rules, intro conjI TrueI allI yield_rules; simp add: mounts_specs_def action_defs split: option.splits)

interpretation sudoers_family: action_family sudoers_builders sudoers_specs
  by unfold_locales
    (simp only: sudoers_builders_def entry_rules, intro conjI TrueI allI yield_rules; simp add: sudoers_specs_def action_defs split: option.splits)

interpretation apt_preferences_family: action_family apt_preferences_builders apt_preferences_specs
  by unfold_locales
    (simp only: apt_preferences_builders_def entry_rules, intro conjI TrueI allI yield_rules; simp add: apt_preferences_specs_def action_defs split: option.splits)

interpretation logging_family: action_family logging_builders logging_specs
  by unfold_locales
    (simp only: logging_builders_def entry_rules, intro conjI TrueI allI yield_rules; simp add: logging_specs_def action_defs split: option.splits)

interpretation pam_family: action_family pam_builders pam_specs
  by unfold_locales
    (simp only: pam_builders_def entry_rules, intro conjI TrueI allI yield_rules; simp add: pam_specs_def action_defs split: option.splits)

interpretation system_info_family: action_family system_info_builders system_info_specs
  by unfold_locales
    (simp only: system_info_builders_def entry_rules, intro conjI TrueI allI yield_rules; simp add: system_info_specs_def action_defs split: option.splits)

interpretation network_family: action_family network_builders network_specs
  by unfold_locales
    (simp only: network_builders_def entry_rules, intro conjI TrueI allI yield_rules; simp add: network_specs_def action_defs split: option.splits)

interpretation users_family: action_family users_builders users_specs
  by unfold_locales
    (simp only: users_builders_def entry_rules, intro conjI TrueI allI yield_rules; simp add: users_specs_def action_defs split: option.splits)

interpretation ssh_family: action_family ssh_builders ssh_specs
  by unfold_locales
    (simp only: ssh_builders_def entry_rules, intro conjI TrueI allI yield_rules; simp add: ssh_specs_def action_defs split: option.splits)

interpretation apt_family: action_family apt_builders apt_specs
  by unfold_locales
    (simp only: apt_builders_def entry_rules, intro conjI TrueI allI yield_rules; simp add: apt_specs_def action_defs split: option.splits)

interpretation ppa_family: action_family ppa_builders ppa_specs
  by unfold_locales
    (simp only: ppa_builders_def entry_rules, intro conjI TrueI allI yield_rules; simp add: ppa_specs_def action_defs split: option.splits)

interpretation snap_family: action_family snap_builders snap_specs
  by unfold_locales
    (simp only: snap_builders_def entry_rules, intro conjI TrueI allI yield_rules; simp add: snap_specs_def action_defs split: option.splits)

interpretation grub_family: action_family grub_builders grub_specs
  by unfold_locales
    (simp only: grub_builders_def entry_rules, intro conjI TrueI allI yield_rules; simp add: grub_specs_def action_defs split: option.splits)

interpretation reboot_family: action_family reboot_builders reboot_specs
  by unfold_locales
    (simp only: reboot_builders_def entry_rules, intro conjI TrueI allI yield_rules; simp add: reboot_specs_def action_defs split: option.splits)

interpretation ufw_family: action_family ufw_builders ufw_specs
  by unfold_locales
    (simp only: ufw_builders_def entry_rules, intro conjI TrueI allI yield_rules; simp add: ufw_specs_def action_defs split: option.splits)

interpretation distrobox_family: action_family distrobox_builders distrobox_specs
  by unfold_locales
    (simp only: distrobox_builders_def entry_rules, intro conjI TrueI allI yield_rules; simp add: distrobox_specs_def action_defs split: option.splits)

interpretation netplan_family: action_family netplan_builders netplan_specs
  by unfold_locales
    (simp only: netplan_builders_def entry_rules, intro conjI TrueI allI yield_rules; simp add: netplan_specs_def action_defs split: option.splits)

interpretation ufw_tier3_family: action_family ufw_tier3_builders ufw_specs
  by unfold_locales
    (simp only: ufw_tier3_builders_def entry_rules, intro conjI TrueI allI yield_rules; simp add: ufw_specs_def action_defs split: option.splits)

interpretation ubuntu_pro_family: action_family ubuntu_pro_builders ubuntu_pro_specs
  by unfold_locales
    (simp only: ubuntu_pro_builders_def entry_rules, intro conjI TrueI allI yield_rules; simp add: ubuntu_pro_specs_def action_defs split: option.splits)

interpretation livepatch_family: action_family livepatch_builders livepatch_specs
  by unfold_locales
    (simp only: livepatch_builders_def entry_rules, intro conjI TrueI allI yield_rules; simp add: livepatch_specs_def action_defs split: option.splits)

interpretation multipass_family: action_family multipass_builders multipass_specs
  by unfold_locales
    (simp only: multipass_builders_def entry_rules, intro conjI TrueI allI yield_rules; simp add: multipass_specs_def action_defs split: option.splits)

interpretation release_upgrade_family: action_family release_upgrade_builders release_upgrade_specs
  by unfold_locales
    (simp only: release_upgrade_builders_def entry_rules, intro conjI TrueI allI yield_rules; simp add: release_upgrade_specs_def action_defs split: option.splits)

interpretation resolvectl_family: action_family resolvectl_builders resolvectl_specs
  by unfold_locales
    (simp only: resolvectl_builders_def entry_rules, intro conjI TrueI allI yield_rules; simp add: resolvectl_specs_def action_defs split: option.splits)

interpretation apparmor_family: action_family apparmor_builders apparmor_specs
  by unfold_locales
    (simp only: apparmor_builders_def entry_rules, intro conjI TrueI allI yield_rules; simp add: apparmor_specs_def action_defs split: option.splits)

interpretation cloudinit_family: action_family cloudinit_builders cloudinit_specs
  by unfold_locales
    (simp only: cloudinit_builders_def entry_rules, intro conjI TrueI allI yield_rules; simp add: cloudinit_specs_def action_defs split: option.splits)

interpretation ubuntu_flatpak_family: action_family ubuntu_flatpak_builders flatpak_specs
  by unfold_locales
    (simp only: ubuntu_flatpak_builders_def entry_rules, intro conjI TrueI allI yield_rules; simp add: flatpak_specs_def action_defs split: option.splits)

interpretation fail2ban_family: action_family fail2ban_builders fail2ban_specs
  by unfold_locales
    (simp only: fail2ban_builders_def entry_rules, intro conjI TrueI allI yield_rules; simp add: fail2ban_specs_def action_defs split: option.splits)

interpretation auditd_family: action_family auditd_builders auditd_specs
  by unfold_locales
    (simp only: auditd_builders_def entry_rules, intro conjI TrueI allI yield_rules; simp add: auditd_specs_def action_defs split: option.splits)

interpretation certbot_family: action_family certbot_builders certbot_specs
  by unfold_locales
    (simp only: certbot_builders_def entry_rules, intro conjI TrueI allI yield_rules; simp add: certbot_specs_def action_defs split: option.splits)

section \<open>The whole match\<close>

lemma family_Nil: "action_family [] specs"
  by unfold_locales simp

lemma family_append: "action_family bs specs \<Longrightarrow> action_family bs' specs \<Longrightarrow> action_family (bs @ bs') specs"
  by (auto simp: action_family_def)

lemma family_weaken:
  assumes "action_family bs specs" "set specs \<subseteq> set specs'"
  shows "action_family bs specs'"
proof
  have "described specs n spec \<Longrightarrow> described specs' n spec" for n spec
    using assms(2) by (auto simp: described_def list_ex_iff)
  then have "yields (described specs n) r \<Longrightarrow> yields (described specs' n) r" for n and r :: "executor_error + action_spec"
    by (auto simp: yields_def split: sum.splits)
  then show "list_all (\<lambda>(n, build). \<forall>params. yields (described specs' n) (build params)) bs"
    using assms(1) by (auto simp: action_family_def list_all_iff)
qed

lemma catalogued: "specs \<in> set (map snd catalogue) \<Longrightarrow> set specs \<subseteq> set all_specs"
  by (auto simp: all_specs_def)

lemma family_catalogued:
  "action_family bs specs \<Longrightarrow> specs \<in> set (map snd catalogue) \<Longrightarrow> action_family bs all_specs"
  by (rule family_weaken [OF _ catalogued])

interpretation match: action_family action_builders all_specs
  unfolding action_builders_def concat.simps
  by (intro family_append family_Nil;
      rule family_catalogued, unfold_locales, simp add: catalogue_def)

text \<open>
  The names of the catalogue are pairwise distinct, decided on a numeric key of each name.
\<close>

fun name_key :: "string \<Rightarrow> nat" where
  "name_key [] = 0"
| "name_key (c # s) = byte c + 128 * name_key s"

lemma byte_letters:
  "byte CHR ''2'' = 50" "byte CHR ''A'' = 65" "byte CHR ''B'' = 66"
  "byte CHR ''C'' = 67" "byte CHR ''D'' = 68" "byte CHR ''E'' = 69"
  "byte CHR ''F'' = 70" "byte CHR ''G'' = 71" "byte CHR ''H'' = 72"
  "byte CHR ''I'' = 73" "byte CHR ''J'' = 74" "byte CHR ''K'' = 75"
  "byte CHR ''L'' = 76" "byte CHR ''M'' = 77" "byte CHR ''N'' = 78"
  "byte CHR ''O'' = 79" "byte CHR ''P'' = 80" "byte CHR ''R'' = 82"
  "byte CHR ''S'' = 83" "byte CHR ''T'' = 84" "byte CHR ''U'' = 85"
  "byte CHR ''V'' = 86" "byte CHR ''W'' = 87" "byte CHR ''a'' = 97"
  "byte CHR ''b'' = 98" "byte CHR ''c'' = 99" "byte CHR ''d'' = 100"
  "byte CHR ''e'' = 101" "byte CHR ''f'' = 102" "byte CHR ''g'' = 103"
  "byte CHR ''h'' = 104" "byte CHR ''i'' = 105" "byte CHR ''k'' = 107"
  "byte CHR ''l'' = 108" "byte CHR ''m'' = 109" "byte CHR ''n'' = 110"
  "byte CHR ''o'' = 111" "byte CHR ''p'' = 112" "byte CHR ''r'' = 114"
  "byte CHR ''s'' = 115" "byte CHR ''t'' = 116" "byte CHR ''u'' = 117"
  "byte CHR ''v'' = 118" "byte CHR ''w'' = 119" "byte CHR ''x'' = 120"
  "byte CHR ''y'' = 121" "byte CHR ''z'' = 122"
  by (simp_all add: byte_def)

lemmas catalogue_entries = all_specs_def catalogue_def action_defs
  deployment_specs_def flatpak_specs_def containers_specs_def layering_specs_def package_repos_specs_def
  services_specs_def toolbox_specs_def identity_specs_def filesystem_specs_def processes_specs_def
  journald_specs_def lvm_specs_def sysctl_specs_def mounts_specs_def sudoers_specs_def
  apt_preferences_specs_def logging_specs_def pam_specs_def system_info_specs_def network_specs_def
  users_specs_def ssh_specs_def apt_specs_def ppa_specs_def snap_specs_def
  grub_specs_def reboot_specs_def ufw_specs_def distrobox_specs_def netplan_specs_def
  ubuntu_pro_specs_def livepatch_specs_def multipass_specs_def release_upgrade_specs_def
  resolvectl_specs_def apparmor_specs_def cloudinit_specs_def fail2ban_specs_def
  auditd_specs_def certbot_specs_def

lemma all_specs_names_distinct: "distinct (map as_action_name all_specs)"
proof -
  have "distinct (map name_key (map as_action_name all_specs))"
    by (simp add: catalogue_entries byte_letters)
  then show ?thesis by (rule distinct_map [THEN iffD1, THEN conjunct1])
qed

lemma history_not_catalogued: "list_all (\<lambda>t. as_action_name t \<noteq> ''ListJobHistory'') all_specs"
  by (simp add: catalogue_entries)

lemma spec_meta_for_entry:
  assumes "t \<in> set all_specs"
  shows "spec_meta_for (as_action_name t) = Some (meta_of t)"
proof -
  let ?es = "map (\<lambda>s. (as_action_name s, meta_of s)) all_specs"
  have names: "map fst ?es = map as_action_name all_specs" by simp
  have "distinct (map fst (rev ?es))"
    unfolding rev_map [symmetric] names using all_specs_names_distinct by simp
  moreover have "(as_action_name t, meta_of t) \<in> set (rev ?es)" using assms by force
  ultimately show ?thesis by (simp add: spec_meta_for_def map_of_is_SomeI)
qed

lemma rollback_flags:
  "list_all (\<lambda>t. sm_rollback_available (meta_of t) \<longleftrightarrow> rollback_spec_for (as_action_name t) \<noteq> None) all_specs"
  by (simp add: catalogue_entries rollback_spec_for_def)

text \<open>The names of the match are distinct too, so each section answers for its own names.\<close>

lemmas builder_tables = action_builders_def concat.simps append.simps
  deployment_builders_def flatpak_builders_def containers_builders_def layering_builders_def
  package_repos_builders_def services_builders_def toolbox_builders_def identity_builders_def
  filesystem_builders_def processes_builders_def journald_builders_def lvm_builders_def
  sysctl_builders_def mounts_builders_def sudoers_builders_def apt_preferences_builders_def
  logging_builders_def pam_builders_def system_info_builders_def network_builders_def
  users_builders_def ssh_builders_def apt_builders_def ppa_builders_def
  snap_builders_def grub_builders_def reboot_builders_def ufw_builders_def
  distrobox_builders_def netplan_builders_def ufw_tier3_builders_def ubuntu_pro_builders_def
  livepatch_builders_def multipass_builders_def release_upgrade_builders_def resolvectl_builders_def
  apparmor_builders_def cloudinit_builders_def ubuntu_flatpak_builders_def fail2ban_builders_def
  auditd_builders_def certbot_builders_def

lemma action_names_distinct: "distinct (map fst action_builders)"
proof -
  have "distinct (map name_key (map fst action_builders))"
    unfolding builder_tables list.map fst_conv by (simp add: byte_letters)
  then show ?thesis by (rule distinct_map [THEN iffD1, THEN conjunct1])
qed

lemma build_in_section:
  assumes "build_action_spec n params = Inr spec" "set bs \<subseteq> set action_builders"
    and "map_of bs n = Some build"
  shows "build params = Inr spec"
proof -
  have "(n, build) \<in> set action_builders" using map_of_SomeD [OF assms(3)] assms(2) by blast
  then have "map_of action_builders n = Some build" using action_names_distinct by simp
  then show ?thesis using assms(1) by (auto simp: build_action_spec_def)
qed

lemma build_satisfies:
  assumes "build_action_spec n params = Inr spec" "set bs \<subseteq> set action_builders"
    and "case map_of bs n of Some build \<Rightarrow> yields Q (build params) | None \<Rightarrow> False"
  shows "Q spec"
  using build_in_section [OF assms(1,2)] assms(3) by (auto simp: yields_def split: option.splits)

lemma build_action_spec_entry:
  assumes "build_action_spec n params = Inr spec"
  shows "\<exists>build. (n, build) \<in> set action_builders \<and> build params = Inr spec"
  using assms map_of_SomeD [of action_builders n]
  by (cases "validate_action_params n params")
     (auto simp: build_action_spec_def split: option.splits)

text \<open>C28: The specification that is executed is the one that was priced: whatever the parameters, a
  successful build carries the name it was asked for, and its risk, reboot and rollback columns are
  those that policy and previews look up by name. The rollback column is set exactly for the
  actions that have an automatic rollback.\<close>

theorem built_action_as_catalogued:
  assumes "build_action_spec n params = Inr spec"
  shows "as_action_name spec = n \<and> spec_meta_for n = Some (meta_of spec)
    \<and> (as_rollback_available spec \<longleftrightarrow> rollback_spec_for n \<noteq> None)"
proof -
  obtain build where "(n, build) \<in> set action_builders" "build params = Inr spec"
    using build_action_spec_entry [OF assms] by blast
  note built = match.built_described [OF this]
  then obtain t where t: "t \<in> set all_specs" "as_action_name t = n" "meta_of t = meta_of spec"
    by blast
  have "sm_rollback_available (meta_of spec) \<longleftrightarrow> rollback_spec_for n \<noteq> None"
    using rollback_flags t by (auto simp: list_all_iff)
  then have "as_rollback_available spec \<longleftrightarrow> rollback_spec_for n \<noteq> None"
    by (simp add: meta_of_def)
  with built(1) spec_meta_for_entry [OF t(1)] t show ?thesis by simp
qed

lemma build_UpdateSystem: "build_action_spec ''UpdateSystem'' (JObj []) = Inr update_system"
  by (simp add: build_action_spec_def validate_action_params_def allowed_action_params_def
      ACTION_PARAMS_def action_builders_def deployment_builders_def)

theorem built_action_as_catalogued_witness:
  "build_action_spec ''UpdateSystem'' (JObj []) = Inr update_system
   \<and> spec_meta_for ''UpdateSystem'' =
       Some \<lparr>sm_risk_level = High, sm_reboot_required = True, sm_rollback_available = True\<rparr>
   \<and> rollback_spec_for ''UpdateSystem'' \<noteq> None"
  using build_UpdateSystem built_action_as_catalogued [OF build_UpdateSystem]
  by (simp add: action_defs)

end
