(* ===== verification/Sk_Kernel_Args.thy ===== *)
theory Sk_Kernel_Args
  imports Sk_Params
begin

text \<open>
  What the two screens of kernel arguments guarantee for the next boot: an argument is one token
  of the boot line, an addition sets none of the switches that can weaken it, a removal drops none of its
  protections, and the spelling (letter case, \<^verbatim>\<open>-\<close> for \<^verbatim>\<open>_\<close> in the key) makes no difference. Switches,
  protections and values are written down here from the documentation of the kernel and of systemd.
\<close>

section \<open>The boot line\<close>

text \<open>The name of a switch as the kernel and systemd compare it, with hyphen and underscore alike, and its value; letter
  case is read away, which only makes more spellings the same.\<close>

definition boot_key :: "string \<Rightarrow> string" where
  "boot_key arg = map (\<lambda>c. if c = CHR ''-'' then CHR ''_'' else c)
     (to_ascii_lowercase (takeWhile (\<lambda>c. c \<noteq> CHR ''='') arg))"

definition boot_value :: "string \<Rightarrow> string option" where
  "boot_value arg = (case dropWhile (\<lambda>c. c \<noteq> CHR ''='') arg of
     [] \<Rightarrow> None | _ # v \<Rightarrow> Some (to_ascii_lowercase v))"

text \<open>Switches that can weaken the next boot or take it over, from \<^verbatim>\<open>kernel-parameters.txt\<close>,
  \<^verbatim>\<open>kernel-command-line(7)\<close> and \<^verbatim>\<open>dracut.cmdline(7)\<close>, written down apart from the program's lists.\<close>

definition WEAKENING_SWITCHES :: "string list" where
  "WEAKENING_SWITCHES =
     [''nopku'', ''nopti'', ''nokaslr'', ''nosmap'', ''nosmep'', ''noexec'', ''noexec32'', ''clearcpuid'',
      ''nospectre_v1'', ''nospectre_v2'', ''nospectre_bhb'', ''nospec_store_bypass_disable'',
      ''spectre_v2'', ''spectre_v2_user'', ''spectre_bhi'', ''spec_store_bypass_disable'', ''spec_rstack_overflow'',
      ''mds'', ''tsx'', ''tsx_async_abort'', ''mmio_stale_data'', ''retbleed'', ''srbds'', ''l1tf'', ''l1d_flush'',
      ''gather_data_sampling'', ''reg_file_data_sampling'', ''kvm_intel.vmentry_l1d_flush'',
      ''iommu'', ''iommu.strict'', ''iommu.passthrough'', ''efi'', ''kgdboc'', ''kgdbwait'',
      ''selinux'', ''enforcing'', ''apparmor'', ''security'', ''lsm'', ''audit'', ''ima_appraise'', ''ima_policy'', ''evm'',
      ''module_blacklist'', ''modprobe.blacklist'', ''initcall_blacklist'',
      ''init'', ''rdinit'', ''root'', ''resume'', ''resume_offset'', ''single'', ''s'', ''1'', ''emergency'', ''rescue'',
      ''rd.break'', ''rd.shell'', ''systemd.unit'', ''rd.systemd.unit'', ''systemd.wants'', ''systemd.mask'',
      ''systemd.run'', ''systemd.setenv'', ''systemd.debug_shell'', ''rd.systemd.debug_shell'', ''systemd.crash_shell'']"

text \<open>Protections and the values that turn them on; what must not leave the boot line; and the values that turn a
  protection off, whose removal is welcome.\<close>

definition PROTECTION_VALUES :: "(string \<times> string list) list" where
  "PROTECTION_VALUES =
     [(''lockdown'', [''integrity'', ''confidentiality'']), (''module.sig_enforce'', [''1'']), (''intel_iommu'', [''on'']),
      (''amd_iommu'', [''force_isolation'']), (''init_on_alloc'', [''1'']), (''init_on_free'', [''1'']),
      (''page_alloc.shuffle'', [''1'']), (''randomize_kstack_offset'', [''on'']),
      (''mitigations'', [''auto'', ''auto,nosmt'']), (''pti'', [''on'']), (''vsyscall'', [''none'']), (''debugfs'', [''off''])]"

definition PROTECTIONS :: "string list" where
  "PROTECTIONS =
     [''lockdown'', ''module.sig_enforce'', ''intel_iommu'', ''amd_iommu'', ''iommu'', ''iommu.strict'', ''iommu.passthrough'',
      ''init_on_alloc'', ''init_on_free'', ''page_alloc.shuffle'', ''randomize_kstack_offset'', ''slab_nomerge'', ''nosmt'',
      ''mitigations'', ''pti'', ''vsyscall'', ''debugfs'', ''selinux'', ''enforcing'', ''apparmor'', ''security'', ''lsm'',
      ''audit'', ''ima_appraise'', ''ima_policy'', ''evm'', ''fips'', ''page_poison'', ''spectre_v2'', ''spectre_v2_user'',
      ''spectre_bhi'', ''spec_store_bypass_disable'', ''spec_rstack_overflow'', ''mds'', ''tsx'', ''tsx_async_abort'',
      ''mmio_stale_data'', ''retbleed'', ''srbds'', ''l1tf'', ''gather_data_sampling'', ''reg_file_data_sampling'']"

definition OFF_VALUES :: "(string \<times> string) list" where
  "OFF_VALUES =
     [(''selinux'', ''0''), (''enforcing'', ''0''), (''apparmor'', ''0''), (''audit'', ''0''), (''lockdown'', ''none''),
      (''debugfs'', ''on''), (''iommu'', ''off''), (''intel_iommu'', ''off''), (''mitigations'', ''off''), (''pti'', ''off''),
      (''module.sig_enforce'', ''0''), (''init_on_alloc'', ''0''), (''init_on_free'', ''0''), (''page_alloc.shuffle'', ''0''),
      (''randomize_kstack_offset'', ''off''), (''spectre_v2'', ''off''), (''spec_store_bypass_disable'', ''off''),
      (''mds'', ''off''), (''tsx_async_abort'', ''off''), (''mmio_stale_data'', ''off''), (''retbleed'', ''off''),
      (''srbds'', ''off''), (''l1tf'', ''off''), (''spectre_bhi'', ''off''), (''gather_data_sampling'', ''off''),
      (''reg_file_data_sampling'', ''off'')]"

section \<open>The normal form\<close>

text \<open>A normal form from its key and its value.\<close>

definition normal_form :: "string \<Rightarrow> string option \<Rightarrow> string" where
  "normal_form key v = key @ (case v of None \<Rightarrow> [] | Some w \<Rightarrow> ''='' @ w)"

lemma lower_equals: "ascii_lower c = CHR ''='' \<longleftrightarrow> c = CHR ''=''"
proof (cases "is_ascii_uppercase c")
  case True
  then have range: "65 \<le> (of_char c :: nat)" "(of_char c :: nat) \<le> 90" by (simp_all add: is_ascii_uppercase_def)
  have "of_char (ascii_lower c) = (of_char c :: nat) + 32"
    using True range by (simp add: ascii_lower_def)
  with range have "of_char (ascii_lower c) \<noteq> (61 :: nat)" "of_char c \<noteq> (61 :: nat)" by linarith+
  moreover have "of_char (CHR ''='') = (61 :: nat)" by simp
  ultimately show ?thesis by metis
next
  case False
  then show ?thesis by (simp add: ascii_lower_id)
qed

lemma split_once_while:
  "split_once s [d] = (case dropWhile (\<lambda>c. c \<noteq> d) s of [] \<Rightarrow> None | _ # v \<Rightarrow> Some (takeWhile (\<lambda>c. c \<noteq> d) s, v))"
proof (induction s)
  case (Cons c s)
  then show ?case
    by (cases "c = d"; cases "dropWhile (\<lambda>c. c \<noteq> d) s") (simp_all add: starts_with_def del: dropWhile_eq_Nil_conv)
qed simp

lemma lower_while:
  "takeWhile (\<lambda>c. c \<noteq> CHR ''='') (to_ascii_lowercase s) = to_ascii_lowercase (takeWhile (\<lambda>c. c \<noteq> CHR ''='') s)"
  "dropWhile (\<lambda>c. c \<noteq> CHR ''='') (to_ascii_lowercase s) = to_ascii_lowercase (dropWhile (\<lambda>c. c \<noteq> CHR ''='') s)"
  by (simp_all add: to_ascii_lowercase_def takeWhile_map dropWhile_map comp_def lower_equals)

lemma normal_of_arg: "normalized_kernel_arg arg = normal_form (boot_key arg) (boot_value arg)"
proof (cases "dropWhile (\<lambda>c. c \<noteq> CHR ''='') arg")
  case Nil
  then have "takeWhile (\<lambda>c. c \<noteq> CHR ''='') arg = arg" by (metis append_Nil2 takeWhile_dropWhile_id)
  then show ?thesis using Nil
    by (simp add: normalized_kernel_arg_def split_once_while lower_while boot_key_def boot_value_def normal_form_def
        dash_to_underscore_def del: dropWhile_eq_Nil_conv takeWhile_eq_all_conv)
      (simp add: to_ascii_lowercase_def dash_to_underscore_def comp_def)
next
  case (Cons c v)
  then show ?thesis
    by (simp add: normalized_kernel_arg_def split_once_while lower_while boot_key_def boot_value_def normal_form_def
        dash_to_underscore_def)
      (simp add: to_ascii_lowercase_def dash_to_underscore_def takeWhile_map comp_def lower_equals)
qed

lemma boot_key_no_value: "CHR ''='' \<notin> set (boot_key arg)"
proof -
  have "ascii_lower c \<noteq> CHR ''=''" if "c \<in> set (takeWhile (\<lambda>c. c \<noteq> CHR ''='') arg)" for c
    unfolding lower_equals using that by (auto dest: set_takeWhileD)
  then have "CHR ''='' \<notin> set (to_ascii_lowercase (takeWhile (\<lambda>c. c \<noteq> CHR ''='') arg))"
    by (fastforce simp: to_ascii_lowercase_def)
  then show ?thesis by (auto simp: boot_key_def split: if_splits)
qed

lemma split_normal_form:
  assumes "CHR ''='' \<notin> set key"
  shows "split_once (normal_form key v) ''='' = map_option (\<lambda>w. (key, w)) v"
    and "hd (split_char (CHR ''='') (normal_form key v)) = key"
proof -
  have fst: "hd (split_char d (key @ d # w)) = key" "split_char d key = [key]" if "d \<notin> set key" for d w
    using that by (induction key) (auto split: list.splits)
  have "split_once key ''='' = None"
    using assms by (simp add: split_once_None contains_str_single)
  then show "split_once (normal_form key v) ''='' = map_option (\<lambda>w. (key, w)) v"
    using assms split_once_single [of "CHR ''=''" key] by (cases v) (simp_all add: normal_form_def)
  show "hd (split_char (CHR ''='') (normal_form key v)) = key"
    using fst assms by (cases v) (simp_all add: normal_form_def)
qed

section \<open>The two screens\<close>

lemma token_one_word:
  assumes "validated_kernel_arg_token arg param = Inr ()"
  shows "argv_safe arg"
  using assms
  by (intro argv_charset [where cs = "''._:/+@-=,''"])
    (auto simp: validated_kernel_arg_token_def start_eval special_eval split: if_splits)

lemma token_no_break:
  assumes "validated_kernel_arg_token arg param = Inr ()"
  shows "set arg \<inter> {CHR '' '', CHR 0x09, CHR 0x0A, CHR 0x0B, CHR 0x0C, CHR 0x0D, CHR 0x22, CHR 0x27} = {}"
proof -
  have "list_all (\<lambda>c. \<not> (is_ascii_alphanumeric c \<or> is_one_of ''._:/+@-=,'' c))
      [CHR '' '', CHR 0x09, CHR 0x0A, CHR 0x0B, CHR 0x0C, CHR 0x0D, CHR 0x22, CHR 0x27]" by code_simp
  then show ?thesis
    using assms by (auto simp: validated_kernel_arg_token_def list_all_iff split: if_splits)
qed

text \<open>The keys that can be added at all.\<close>

definition added_keys :: "string list" where
  "added_keys = KARG_FLAGS @ KARG_HARDENING_FLAGS @ KARG_VALUE_KEYS @ map fst KARG_LIST_VALUES @ map fst KARG_HARDENING_VALUES"

lemma addition_key:
  assumes "karg_addition_allowed (normal_form key v)" "CHR ''='' \<notin> set key"
  shows "key \<in> set added_keys"
proof (cases v)
  case None
  then have "normal_form key v = key" by (simp add: normal_form_def)
  then show ?thesis
    using assms split_normal_form(1) [of key None] None by (auto simp: karg_addition_allowed_def added_keys_def)
next
  case (Some w)
  then show ?thesis
    using assms by (force simp: karg_addition_allowed_def split_normal_form added_keys_def list_ex_iff)
qed

lemma weakening_not_added: "list_all (\<lambda>k. k \<notin> set added_keys) WEAKENING_SWITCHES"
  by code_simp

lemma protections_not_ordinary:
  "list_all (\<lambda>(k, vals). k \<notin> set KARG_FLAGS \<and> k \<notin> set KARG_HARDENING_FLAGS \<and> k \<notin> set KARG_VALUE_KEYS
     \<and> list_all (\<lambda>(k', _). k' \<noteq> k) KARG_LIST_VALUES
     \<and> list_all (\<lambda>(k', vals'). k' = k \<longrightarrow> list_all (\<lambda>v. v \<in> set vals) vals') KARG_HARDENING_VALUES) PROTECTION_VALUES"
  by code_simp

lemma addition_value:
  assumes "karg_addition_allowed (normal_form key v)" "CHR ''='' \<notin> set key" "(key, vals) \<in> set PROTECTION_VALUES"
  shows "\<exists>w. v = Some w \<and> w \<in> set vals"
proof -
  have key: "key \<notin> set KARG_FLAGS" "key \<notin> set KARG_HARDENING_FLAGS" "key \<notin> set KARG_VALUE_KEYS"
    "\<And>k vs. (k, vs) \<in> set KARG_LIST_VALUES \<Longrightarrow> k \<noteq> key"
    "\<And>vs w. (key, vs) \<in> set KARG_HARDENING_VALUES \<Longrightarrow> w \<in> set vs \<Longrightarrow> w \<in> set vals"
    using protections_not_ordinary assms(3) unfolding list_all_iff by blast+
  show ?thesis
  proof (cases v)
    case None
    then show ?thesis
      using assms(1,2) key(1,2) split_normal_form(1) [of key None]
      by (simp add: karg_addition_allowed_def) (simp add: normal_form_def)
  next
    case (Some w)
    then show ?thesis
      using assms(1,2) key(3-5) by (auto simp: karg_addition_allowed_def split_normal_form list_ex_iff)
  qed
qed

lemma removal_ordinary:
  "list_all (\<lambda>k. k \<notin> set PROTECTIONS) (KARG_FLAGS @ KARG_VALUE_KEYS @ map fst KARG_LIST_VALUES)"
  by code_simp

lemma weakening_off:
  "list_all (\<lambda>normal. hd (split_char (CHR ''='') normal) \<in> set PROTECTIONS \<longrightarrow>
     list_ex (\<lambda>(k, off). normal = normal_form k (Some off)) OFF_VALUES) KARG_WEAKENING"
  by code_simp

lemma off_keys: "list_all (\<lambda>(k, _). CHR ''='' \<notin> set k) OFF_VALUES"
  by code_simp

lemma removal_value:
  assumes "karg_removal_allowed (normal_form key v)" "CHR ''='' \<notin> set key" "key \<in> set PROTECTIONS"
  shows "\<exists>off. v = Some off \<and> (key, off) \<in> set OFF_VALUES"
proof -
  have "normal_form key v \<in> set KARG_WEAKENING"
    using assms removal_ordinary
    by (force simp: karg_removal_allowed_def Let_def split_normal_form list_all_iff list_ex_iff)
  then obtain k off where off: "(k, off) \<in> set OFF_VALUES" "normal_form key v = normal_form k (Some off)"
    using weakening_off assms(2,3) by (fastforce simp: list_all_iff list_ex_iff split_normal_form)
  then have "CHR ''='' \<notin> set k" using off_keys by (auto simp: list_all_iff)
  with off(2) assms(2) have "map_option (\<lambda>w. (key, w)) v = Some (k, off)"
    using split_normal_form(1) [of key v] split_normal_form(1) [of k "Some off"] by simp
  then show ?thesis using off(1) by auto
qed



end
