(* ===== verification/Sk_Argv.thy ===== *)
theory Sk_Argv
  imports Sk_Catalogue Sk_Screen_Guarantees Sk_Kernel_Args
begin

text \<open>
  The commands the executor can run. Whatever the parameters of a request, the program is one of a
  fixed list, what runs under \<^verbatim>\<open>sudo\<close> is one of a fixed list, and every word that could be read as
  an option was written by the daemon: a value of the caller stands alone and does not begin with
  a dash, is attached to an option of the daemon, or is the value of one. The files the executor
  writes itself lie in \<^verbatim>\<open>/etc/yum.repos.d\<close>.
\<close>

section \<open>Command lines of the daemon\<close>

definition plain :: "string \<Rightarrow> bool" where
  "plain a \<longleftrightarrow> \<not> starts_with a ''-''"

definition PROGRAMS :: "string list" where
  "PROGRAMS = [''/usr/lib/sysknife/firewall-state'', ''/usr/lib/sysknife/sudoers-edit'',
     ''apt-cache'', ''auditctl'', ''bash'', ''cat'', ''certbot'', ''chage'', ''cloud-init'',
     ''df'', ''distrobox'', ''dpkg'', ''find'', ''findmnt'', ''firewall-cmd'', ''flatpak'',
     ''free'', ''getent'', ''grep'', ''hostnamectl'', ''ip'', ''journalctl'', ''logrotate'',
     ''lvs'', ''multipass'', ''pro'', ''ps'', ''resolvectl'', ''rpm-ostree'', ''snap'',
     ''ss'', ''sudo'', ''sysctl'', ''systemctl'', ''timedatectl'']"

definition SUDO_TARGETS :: "string list" where
  "SUDO_TARGETS = [''/usr/lib/sysknife/action-steps'', ''/usr/lib/sysknife/apt-pin-edit'',
     ''/usr/lib/sysknife/audit-edit'', ''/usr/lib/sysknife/fail2ban-ban'',
     ''/usr/lib/sysknife/fail2ban-jail-edit'', ''/usr/lib/sysknife/grub-kargs-edit'',
     ''/usr/lib/sysknife/log-edit'', ''/usr/lib/sysknife/mount-edit'',
     ''/usr/lib/sysknife/pam-edit'', ''/usr/lib/sysknife/scheduled-job-edit'',
     ''/usr/lib/sysknife/sshd-option-edit'', ''/usr/lib/sysknife/sudoers-edit'',
     ''/usr/lib/sysknife/sysctl-edit'', ''/usr/lib/sysknife/unattended-upgrades-edit'',
     ''aa-complain'', ''aa-enforce'', ''aa-status'', ''add-apt-repository'',
     ''canonical-livepatch'', ''certbot'', ''do-release-upgrade'', ''fail2ban-client'',
     ''hostnamectl'', ''localectl'', ''netplan'', ''nft'', ''nmcli'', ''ostree'', ''pro'',
     ''resolvectl'', ''rpm-ostree'', ''snap'', ''systemctl'', ''timedatectl'', ''ufw'']"

definition OWN_OPTIONS :: "string list" where
  "OWN_OPTIONS = [''--'', ''--agree-tos'', ''--all'', ''--apache'', ''--app'', ''--assume-yes'',
     ''--bantime'', ''--boot'', ''--check'', ''--classic'',
     ''--columns=application,name,version,origin'', ''--columns=name,url'', ''--commands'',
     ''--compress'', ''--container'', ''--deny'', ''--device'', ''--disable'', ''--dmesg'',
     ''--enable'', ''--enabled'', ''--exclude-type=composefs'', ''--exclude-type=devtmpfs'',
     ''--exclude-type=efivarfs'', ''--exclude-type=tmpfs'', ''--fail-interval'', ''--file'',
     ''--findtime'', ''--force'', ''--format'', ''--frequency'', ''--fstype'', ''--hold'',
     ''--home-dir'', ''--host'', ''--if-not-exists'', ''--image'', ''--ip'', ''--jail'',
     ''--json'', ''--key'', ''--list-all'', ''--long'', ''--maxretry'', ''--minlen'',
     ''--mountpoint'', ''--name'', ''--nginx'', ''--no-legend'', ''--no-pager'',
     ''--non-interactive'', ''--nopasswd'', ''--op'', ''--option'', ''--output=json'',
     ''--output=source,fstype,size,used,avail,pcent,target'', ''--package'', ''--path'',
     ''--pending'', ''--perms'', ''--port'', ''--ppa'',
     ''--property=MemoryMax,MemoryHigh,CPUQuotaPerSecUSec,TasksMax'', ''--protocol'',
     ''--release'', ''--remove'', ''--reportformat'', ''--rollback'', ''--rotate'',
     ''--runas'', ''--shell'', ''--size-mb'', ''--sort=-%mem'', ''--standalone'',
     ''--system'', ''--type=service'', ''--unhold'', ''--units'', ''--unlock-time'',
     ''--unpin'', ''--user'', ''--verbose'', ''--yes'', ''-E'', ''-M'', ''-W'', ''-a'',
     ''-b'', ''-brief'', ''-c'', ''-d'', ''-exec'', ''-f'', ''-h'', ''-l'', ''-maxdepth'',
     ''-n'', ''-name'', ''-o'', ''-print'', ''-tulpnH'', ''-u'', ''-y'']"

text \<open>Options whose value is the rest of the word, and options whose value is the next word.\<close>

definition ATTACHED_OPTIONS :: "string list" where
  "ATTACHED_OPTIONS = [''--channel='', ''--grep='', ''--lines='', ''--priority='', ''--since='', ''--unit='',
     ''--until='', ''--vacuum-size='', ''--vacuum-time='']"

definition VALUE_OPTIONS :: "string list" where
  "VALUE_OPTIONS = [''--append'', ''--delete'', ''--command'', ''--schedule'', ''--options'', ''--pin'',
     ''--priority'', ''--value'', ''-m'', ''--dcredit'', ''--lcredit'', ''--ocredit'',
     ''--ucredit'']"

inductive our_argv :: "string list \<Rightarrow> bool" where
  no_word: "our_argv []"
| plain_word: "plain a \<Longrightarrow> our_argv as \<Longrightarrow> our_argv (a # as)"
| own_option: "a \<in> set OWN_OPTIONS \<Longrightarrow> our_argv as \<Longrightarrow> our_argv (a # as)"
| attached_value: "p \<in> set ATTACHED_OPTIONS \<Longrightarrow> our_argv as \<Longrightarrow> our_argv ((p @ x) # as)"
| option_value: "a \<in> set VALUE_OPTIONS \<Longrightarrow> our_argv as \<Longrightarrow> our_argv (a # x # as)"

definition command_ours :: "string \<Rightarrow> string list \<Rightarrow> bool" where
  "command_ours program args \<longleftrightarrow> program \<in> set PROGRAMS
     \<and> (program = ''sudo'' \<longrightarrow> args \<noteq> [] \<and> hd args \<in> set SUDO_TARGETS) \<and> our_argv args"

definition repo_file :: "string \<Rightarrow> string \<Rightarrow> bool" where
  "repo_file repo_id path \<longleftrightarrow>
     split_char (CHR ''/'') path = [[], ''etc'', ''yum.repos.d'', repo_id @ ''.repo'']"

definition mechanism_ours :: "action_mechanism \<Rightarrow> bool" where
  "mechanism_ours m = (case m of
       Command program args \<Rightarrow> command_ours program args
     | FileScan path \<Rightarrow> path = ''/etc/yum.repos.d''
     | FileWrite path content \<Rightarrow> \<exists>repo_id url. repo_file repo_id path
         \<and> split_char (CHR 0x0A) content
             = [''['' @ repo_id @ '']'', ''baseurl='' @ url, ''enabled=1'', []]
     | FilePatch path needle replacement \<Rightarrow> (\<exists>repo_id. repo_file repo_id path)
         \<and> {needle, replacement} = {''enabled=0'', ''enabled=1''}
     | FileDelete path \<Rightarrow> \<exists>repo_id. repo_file repo_id path)"

section \<open>Words\<close>

lemma plain_eval [simp]: "plain (c # s) \<longleftrightarrow> c \<noteq> CHR ''-''" "plain []"
  by (simp_all add: plain_def starts_with_def)

lemma plain_append [simp]: "a \<noteq> [] \<Longrightarrow> plain (a @ b) \<longleftrightarrow> plain a"
  by (cases a) auto

lemma argv_safe_plain: "argv_safe s \<Longrightarrow> plain s"
  by (cases s) (auto simp: argv_safe_def)

lemma plain_dec [simp]: "plain (dec n)"
  by (rule argv_safe_plain, rule digits_argv) (auto simp: list_all_iff dec_digits)

lemma our_argv_append: "our_argv as \<Longrightarrow> our_argv bs \<Longrightarrow> our_argv (as @ bs)"
  by (induction rule: our_argv.induct) (auto intro: our_argv.intros)

lemma our_argv_plain: "list_all plain as \<Longrightarrow> our_argv as"
  by (induction as) (auto intro: our_argv.intros)

lemma our_argv_pairs:
  "(\<And>a. a \<in> set as \<Longrightarrow> our_argv (f a)) \<Longrightarrow> our_argv (concat (map f as))"
  by (induction as) (auto intro: our_argv.intros our_argv_append)

lemma our_words [simp]:
  "our_argv []"
  "plain a \<Longrightarrow> our_argv as \<Longrightarrow> our_argv (a # as)"
  "our_argv as \<Longrightarrow> our_argv bs \<Longrightarrow> our_argv (as @ bs)"
  by (auto intro: our_argv.intros our_argv_append)

text \<open>
  The words of the tables, one rule for each, so that a literal command line is checked without
  comparing its words with the whole table.
\<close>

lemma program_words:
  "''/usr/lib/sysknife/firewall-state'' \<in> set PROGRAMS"
  "''/usr/lib/sysknife/sudoers-edit'' \<in> set PROGRAMS"
  "''apt-cache'' \<in> set PROGRAMS"
  "''auditctl'' \<in> set PROGRAMS"
  "''bash'' \<in> set PROGRAMS"
  "''cat'' \<in> set PROGRAMS"
  "''certbot'' \<in> set PROGRAMS"
  "''chage'' \<in> set PROGRAMS"
  "''cloud-init'' \<in> set PROGRAMS"
  "''df'' \<in> set PROGRAMS"
  "''distrobox'' \<in> set PROGRAMS"
  "''dpkg'' \<in> set PROGRAMS"
  "''find'' \<in> set PROGRAMS"
  "''findmnt'' \<in> set PROGRAMS"
  "''firewall-cmd'' \<in> set PROGRAMS"
  "''flatpak'' \<in> set PROGRAMS"
  "''free'' \<in> set PROGRAMS"
  "''getent'' \<in> set PROGRAMS"
  "''grep'' \<in> set PROGRAMS"
  "''hostnamectl'' \<in> set PROGRAMS"
  "''ip'' \<in> set PROGRAMS"
  "''journalctl'' \<in> set PROGRAMS"
  "''logrotate'' \<in> set PROGRAMS"
  "''lvs'' \<in> set PROGRAMS"
  "''multipass'' \<in> set PROGRAMS"
  "''pro'' \<in> set PROGRAMS"
  "''ps'' \<in> set PROGRAMS"
  "''resolvectl'' \<in> set PROGRAMS"
  "''rpm-ostree'' \<in> set PROGRAMS"
  "''snap'' \<in> set PROGRAMS"
  "''ss'' \<in> set PROGRAMS"
  "''sudo'' \<in> set PROGRAMS"
  "''sysctl'' \<in> set PROGRAMS"
  "''systemctl'' \<in> set PROGRAMS"
  "''timedatectl'' \<in> set PROGRAMS"
  unfolding PROGRAMS_def by ((rule list.set_intros(1) | rule list.set_intros(2))+)

lemma sudo_words:
  "''/usr/lib/sysknife/action-steps'' \<in> set SUDO_TARGETS"
  "''/usr/lib/sysknife/apt-pin-edit'' \<in> set SUDO_TARGETS"
  "''/usr/lib/sysknife/audit-edit'' \<in> set SUDO_TARGETS"
  "''/usr/lib/sysknife/fail2ban-ban'' \<in> set SUDO_TARGETS"
  "''/usr/lib/sysknife/fail2ban-jail-edit'' \<in> set SUDO_TARGETS"
  "''/usr/lib/sysknife/grub-kargs-edit'' \<in> set SUDO_TARGETS"
  "''/usr/lib/sysknife/log-edit'' \<in> set SUDO_TARGETS"
  "''/usr/lib/sysknife/mount-edit'' \<in> set SUDO_TARGETS"
  "''/usr/lib/sysknife/pam-edit'' \<in> set SUDO_TARGETS"
  "''/usr/lib/sysknife/scheduled-job-edit'' \<in> set SUDO_TARGETS"
  "''/usr/lib/sysknife/sshd-option-edit'' \<in> set SUDO_TARGETS"
  "''/usr/lib/sysknife/sudoers-edit'' \<in> set SUDO_TARGETS"
  "''/usr/lib/sysknife/sysctl-edit'' \<in> set SUDO_TARGETS"
  "''/usr/lib/sysknife/unattended-upgrades-edit'' \<in> set SUDO_TARGETS"
  "''aa-complain'' \<in> set SUDO_TARGETS"
  "''aa-enforce'' \<in> set SUDO_TARGETS"
  "''aa-status'' \<in> set SUDO_TARGETS"
  "''add-apt-repository'' \<in> set SUDO_TARGETS"
  "''canonical-livepatch'' \<in> set SUDO_TARGETS"
  "''certbot'' \<in> set SUDO_TARGETS"
  "''do-release-upgrade'' \<in> set SUDO_TARGETS"
  "''fail2ban-client'' \<in> set SUDO_TARGETS"
  "''hostnamectl'' \<in> set SUDO_TARGETS"
  "''localectl'' \<in> set SUDO_TARGETS"
  "''netplan'' \<in> set SUDO_TARGETS"
  "''nft'' \<in> set SUDO_TARGETS"
  "''nmcli'' \<in> set SUDO_TARGETS"
  "''ostree'' \<in> set SUDO_TARGETS"
  "''pro'' \<in> set SUDO_TARGETS"
  "''resolvectl'' \<in> set SUDO_TARGETS"
  "''rpm-ostree'' \<in> set SUDO_TARGETS"
  "''snap'' \<in> set SUDO_TARGETS"
  "''systemctl'' \<in> set SUDO_TARGETS"
  "''timedatectl'' \<in> set SUDO_TARGETS"
  "''ufw'' \<in> set SUDO_TARGETS"
  unfolding SUDO_TARGETS_def by ((rule list.set_intros(1) | rule list.set_intros(2))+)

lemma own_words:
  "''--'' \<in> set OWN_OPTIONS"
  "''--agree-tos'' \<in> set OWN_OPTIONS"
  "''--all'' \<in> set OWN_OPTIONS"
  "''--apache'' \<in> set OWN_OPTIONS"
  "''--app'' \<in> set OWN_OPTIONS"
  "''--assume-yes'' \<in> set OWN_OPTIONS"
  "''--bantime'' \<in> set OWN_OPTIONS"
  "''--boot'' \<in> set OWN_OPTIONS"
  "''--check'' \<in> set OWN_OPTIONS"
  "''--classic'' \<in> set OWN_OPTIONS"
  "''--columns=application,name,version,origin'' \<in> set OWN_OPTIONS"
  "''--columns=name,url'' \<in> set OWN_OPTIONS"
  "''--commands'' \<in> set OWN_OPTIONS"
  "''--compress'' \<in> set OWN_OPTIONS"
  "''--container'' \<in> set OWN_OPTIONS"
  "''--deny'' \<in> set OWN_OPTIONS"
  "''--device'' \<in> set OWN_OPTIONS"
  "''--disable'' \<in> set OWN_OPTIONS"
  "''--dmesg'' \<in> set OWN_OPTIONS"
  "''--enable'' \<in> set OWN_OPTIONS"
  "''--enabled'' \<in> set OWN_OPTIONS"
  "''--exclude-type=composefs'' \<in> set OWN_OPTIONS"
  "''--exclude-type=devtmpfs'' \<in> set OWN_OPTIONS"
  "''--exclude-type=efivarfs'' \<in> set OWN_OPTIONS"
  "''--exclude-type=tmpfs'' \<in> set OWN_OPTIONS"
  "''--fail-interval'' \<in> set OWN_OPTIONS"
  "''--file'' \<in> set OWN_OPTIONS"
  "''--findtime'' \<in> set OWN_OPTIONS"
  "''--force'' \<in> set OWN_OPTIONS"
  "''--format'' \<in> set OWN_OPTIONS"
  "''--frequency'' \<in> set OWN_OPTIONS"
  "''--fstype'' \<in> set OWN_OPTIONS"
  "''--hold'' \<in> set OWN_OPTIONS"
  "''--home-dir'' \<in> set OWN_OPTIONS"
  "''--host'' \<in> set OWN_OPTIONS"
  "''--if-not-exists'' \<in> set OWN_OPTIONS"
  "''--image'' \<in> set OWN_OPTIONS"
  "''--ip'' \<in> set OWN_OPTIONS"
  "''--jail'' \<in> set OWN_OPTIONS"
  "''--json'' \<in> set OWN_OPTIONS"
  "''--key'' \<in> set OWN_OPTIONS"
  "''--list-all'' \<in> set OWN_OPTIONS"
  "''--long'' \<in> set OWN_OPTIONS"
  "''--maxretry'' \<in> set OWN_OPTIONS"
  "''--minlen'' \<in> set OWN_OPTIONS"
  "''--mountpoint'' \<in> set OWN_OPTIONS"
  "''--name'' \<in> set OWN_OPTIONS"
  "''--nginx'' \<in> set OWN_OPTIONS"
  "''--no-legend'' \<in> set OWN_OPTIONS"
  "''--no-pager'' \<in> set OWN_OPTIONS"
  "''--non-interactive'' \<in> set OWN_OPTIONS"
  "''--nopasswd'' \<in> set OWN_OPTIONS"
  "''--op'' \<in> set OWN_OPTIONS"
  "''--option'' \<in> set OWN_OPTIONS"
  "''--output=json'' \<in> set OWN_OPTIONS"
  "''--output=source,fstype,size,used,avail,pcent,target'' \<in> set OWN_OPTIONS"
  "''--package'' \<in> set OWN_OPTIONS"
  "''--path'' \<in> set OWN_OPTIONS"
  "''--pending'' \<in> set OWN_OPTIONS"
  "''--perms'' \<in> set OWN_OPTIONS"
  "''--port'' \<in> set OWN_OPTIONS"
  "''--ppa'' \<in> set OWN_OPTIONS"
  "''--property=MemoryMax,MemoryHigh,CPUQuotaPerSecUSec,TasksMax'' \<in> set OWN_OPTIONS"
  "''--protocol'' \<in> set OWN_OPTIONS"
  "''--release'' \<in> set OWN_OPTIONS"
  "''--remove'' \<in> set OWN_OPTIONS"
  "''--reportformat'' \<in> set OWN_OPTIONS"
  "''--rollback'' \<in> set OWN_OPTIONS"
  "''--rotate'' \<in> set OWN_OPTIONS"
  "''--runas'' \<in> set OWN_OPTIONS"
  "''--shell'' \<in> set OWN_OPTIONS"
  "''--size-mb'' \<in> set OWN_OPTIONS"
  "''--sort=-%mem'' \<in> set OWN_OPTIONS"
  "''--standalone'' \<in> set OWN_OPTIONS"
  "''--system'' \<in> set OWN_OPTIONS"
  "''--type=service'' \<in> set OWN_OPTIONS"
  "''--unhold'' \<in> set OWN_OPTIONS"
  "''--units'' \<in> set OWN_OPTIONS"
  "''--unlock-time'' \<in> set OWN_OPTIONS"
  "''--unpin'' \<in> set OWN_OPTIONS"
  "''--user'' \<in> set OWN_OPTIONS"
  "''--verbose'' \<in> set OWN_OPTIONS"
  "''--yes'' \<in> set OWN_OPTIONS"
  "''-E'' \<in> set OWN_OPTIONS"
  "''-M'' \<in> set OWN_OPTIONS"
  "''-W'' \<in> set OWN_OPTIONS"
  "''-a'' \<in> set OWN_OPTIONS"
  "''-b'' \<in> set OWN_OPTIONS"
  "''-brief'' \<in> set OWN_OPTIONS"
  "''-c'' \<in> set OWN_OPTIONS"
  "''-d'' \<in> set OWN_OPTIONS"
  "''-exec'' \<in> set OWN_OPTIONS"
  "''-f'' \<in> set OWN_OPTIONS"
  "''-h'' \<in> set OWN_OPTIONS"
  "''-l'' \<in> set OWN_OPTIONS"
  "''-maxdepth'' \<in> set OWN_OPTIONS"
  "''-n'' \<in> set OWN_OPTIONS"
  "''-name'' \<in> set OWN_OPTIONS"
  "''-o'' \<in> set OWN_OPTIONS"
  "''-print'' \<in> set OWN_OPTIONS"
  "''-tulpnH'' \<in> set OWN_OPTIONS"
  "''-u'' \<in> set OWN_OPTIONS"
  "''-y'' \<in> set OWN_OPTIONS"
  unfolding OWN_OPTIONS_def by ((rule list.set_intros(1) | rule list.set_intros(2))+)

lemma attached_words:
  "''--channel='' \<in> set ATTACHED_OPTIONS"
  "''--grep='' \<in> set ATTACHED_OPTIONS"
  "''--lines='' \<in> set ATTACHED_OPTIONS"
  "''--priority='' \<in> set ATTACHED_OPTIONS"
  "''--since='' \<in> set ATTACHED_OPTIONS"
  "''--unit='' \<in> set ATTACHED_OPTIONS"
  "''--until='' \<in> set ATTACHED_OPTIONS"
  "''--vacuum-size='' \<in> set ATTACHED_OPTIONS"
  "''--vacuum-time='' \<in> set ATTACHED_OPTIONS"
  unfolding ATTACHED_OPTIONS_def by ((rule list.set_intros(1) | rule list.set_intros(2))+)

lemma value_words:
  "''--append'' \<in> set VALUE_OPTIONS"
  "''--delete'' \<in> set VALUE_OPTIONS"
  "''--command'' \<in> set VALUE_OPTIONS"
  "''--schedule'' \<in> set VALUE_OPTIONS"
  "''--options'' \<in> set VALUE_OPTIONS"
  "''--pin'' \<in> set VALUE_OPTIONS"
  "''--priority'' \<in> set VALUE_OPTIONS"
  "''--value'' \<in> set VALUE_OPTIONS"
  "''-m'' \<in> set VALUE_OPTIONS"
  "''--dcredit'' \<in> set VALUE_OPTIONS"
  "''--lcredit'' \<in> set VALUE_OPTIONS"
  "''--ocredit'' \<in> set VALUE_OPTIONS"
  "''--ucredit'' \<in> set VALUE_OPTIONS"
  unfolding VALUE_OPTIONS_def by ((rule list.set_intros(1) | rule list.set_intros(2))+)

lemmas own_steps = own_words [THEN own_option]

lemmas value_steps = value_words [THEN option_value]

lemmas attached_steps = attached_words [THEN attached_value, simplified]

section \<open>Values that passed a screen\<close>

definition screened_by :: "(string \<Rightarrow> string \<Rightarrow> screened) \<Rightarrow> string \<Rightarrow> bool" where
  "screened_by v x \<longleftrightarrow> (\<exists>s p. v s p = Inr x)"

lemma screened_byI: "v s p = Inr x \<Longrightarrow> screened_by v x"
  by (auto simp: screened_by_def)

lemma argv_screen_plain: "argv_screen v \<Longrightarrow> screened_by v x \<Longrightarrow> plain x"
  by (auto simp: screened_by_def intro: argv_safe_plain argv_screen.accepted_argv_safe)

lemmas screened_plain = argv_screen_axioms_all [THEN argv_screen_plain]

lemma port_or_service_plain: "screened_by validated_port_or_service x \<Longrightarrow> plain x"
  by (cases x) (auto simp: screened_by_def validated_port_or_service_def plain_def start_eval Let_def
      is_ascii_alphabetic_def is_ascii_lowercase_def is_ascii_uppercase_def split: if_splits option.splits)

lemma log_path_plain: "screened_by validated_log_path x \<Longrightarrow> plain x"
  by (cases x) (auto simp: screened_by_def validated_log_path_def LOG_ROOT_def starts_with_def
      split: if_splits)

lemma apt_package_plain: "screened_by validated_apt_package x \<Longrightarrow> plain x"
  by (cases x) (auto simp: screened_by_def validated_apt_package_def plain_def start_eval Let_def
      split: if_splits)

lemma log_rotation_plain: "validated_log_rotation path n = Inr x \<Longrightarrow> plain x"
  by (rule log_path_plain)
    (auto simp: validated_log_rotation_def screened_by_def split: sum.splits if_splits)

lemma public_key_plain: "validated_public_key s = Inr x \<Longrightarrow> plain x"
  by (cases x) (auto simp: validated_public_key_def ALLOWED_PREFIXES_def starts_with_def split: if_splits)

lemma kill_signal_plain: "validated_kill_signal s = Inr x \<Longrightarrow> plain x"
proof -
  assume "validated_kill_signal s = Inr x"
  then have "x \<in> {''TERM'', ''KILL'', ''HUP'', ''INT''}"
    unfolding validated_kill_signal_def Let_def by (simp split: if_split_asm)
  then show ?thesis by auto
qed

lemmas plain_rules [simp] = screened_plain port_or_service_plain log_path_plain apt_package_plain
  log_rotation_plain public_key_plain kill_signal_plain

lemma token_plain: "validated_kernel_arg_token a p = Inr () \<Longrightarrow> plain a"
  by (rule argv_safe_plain) (rule token_one_word)

lemma yields_iff: "yields Q r \<longleftrightarrow> (\<forall>x. r = Inr x \<longrightarrow> Q x)"
  by (cases r) (simp_all add: yields_def)

lemma job_name_plain [simp]: "scheduled_job_unit_paths x \<noteq> None \<Longrightarrow> plain x"
  by (cases x) (auto simp: scheduled_job_unit_paths_def is_ascii_alphanumeric_def is_ascii_alphabetic_def
      is_ascii_lowercase_def is_ascii_uppercase_def is_ascii_digit_def split: if_splits)

lemma plain_joined [simp]: "plain a \<Longrightarrow> c \<noteq> CHR ''-'' \<Longrightarrow> plain (a @ c # b)"
  by (cases a) auto

section \<open>Weakest preconditions of the parameter readers\<close>

named_theorems reader_rules \<open>what the parameter readers of a builder yield\<close>

lemma yields_str_arg [reader_rules]:
  "(\<And>x. screened_by v x \<Longrightarrow> yields Q (f x)) \<Longrightarrow> yields Q (and_then (str_arg params key v) f)"
  by (rule yields_and_then)
    (auto simp: str_arg_def split: sum.splits intro: screened_byI)

lemma yields_user_arg [reader_rules]:
  "(\<And>x. screened_by v x \<Longrightarrow> yields Q (f x)) \<Longrightarrow> yields Q (and_then (user_arg params v) f)"
  by (rule yields_and_then)
    (auto simp: user_arg_def split: sum.splits intro: screened_byI)

lemma collect_results_screened:
  "collect_results (map (\<lambda>x. v x key) xs) = Inr ys \<Longrightarrow> list_all (screened_by v) ys"
  by (induction xs arbitrary: ys)
    (auto simp: split: sum.splits intro: screened_byI)

lemma yields_list_arg [reader_rules]:
  "(\<And>xs. list_all (screened_by v) xs \<Longrightarrow> yields Q (f xs)) \<Longrightarrow> yields Q (and_then (list_arg params key v) f)"
  by (rule yields_and_then)
    (auto simp: list_arg_def split: sum.splits dest: collect_results_screened)

lemma yields_transpose:
  assumes "yields Q (f None)" "\<And>s x. g s = Inr x \<Longrightarrow> yields Q (f (Some x))"
  shows "yields Q (and_then (transpose_map g o') f)"
  using assms by (cases o') (auto simp: transpose_map_def yields_iff)

lemma yields_optional_validated [reader_rules]:
  assumes "yields Q (f None)" "\<And>x. screened_by v x \<Longrightarrow> yields Q (f (Some x))"
  shows "yields Q (and_then (optional_validated params key v) f)"
  using assms yields_transpose [of Q f "\<lambda>s. v s key"]
  by (fastforce simp: optional_validated_def yields_iff intro: screened_byI)

lemma yields_optional_screened [reader_rules]:
  assumes "yields Q (f None)" "\<And>x. screened_by v x \<Longrightarrow> yields Q (f (Some x))"
  shows "yields Q (and_then (and_then (optional_str params key) (transpose_map (\<lambda>s. v s key'))) f)"
  using assms yields_transpose [of Q f "\<lambda>s. v s key'"]
  by (fastforce simp: yields_iff intro: screened_byI)

lemma yields_runas [reader_rules]:
  assumes "yields Q (f None)" "\<And>x. plain x \<Longrightarrow> yields Q (f (Some x))"
  shows "yields Q (and_then (transpose_map
           (\<lambda>u. if u = ''ALL'' then Inr ''ALL'' else validated_username u ''runas'') v) f)"
proof (rule yields_transpose [of Q f, OF assms(1)])
  fix s x
  assume "(if s = ''ALL'' then Inr ''ALL'' else validated_username s ''runas'') = Inr x"
  then have "plain x"
    by (cases "s = ''ALL''") (auto dest: screened_byI)
  then show "yields Q (f (Some x))" by (rule assms(2))
qed

lemma yields_public_key [reader_rules]:
  "(\<And>x. plain x \<Longrightarrow> yields Q (f x)) \<Longrightarrow>
   yields Q (and_then (and_then (require_str params key) validated_public_key) f)"
  by (rule yields_and_then) (auto dest: public_key_plain)

lemma yields_sshd_option [reader_rules]:
  assumes "\<And>vs. plain opt \<Longrightarrow> yields Q (f vs)"
  shows "yields Q (and_then (ok_or e (sshd_allowed_values opt)) f)"
  by (rule yields_and_then, rule assms)
    (auto simp: ok_or_def sshd_allowed_values_def split: if_splits option.splits)

lemma yields_domains [reader_rules]:
  assumes "\<And>ds. list_all plain ds \<Longrightarrow> yields Q (f ds)"
  shows "yields Q (and_then (case arr of
             Some xs \<Rightarrow> collect_results (map (\<lambda>s. validated_domain s key) xs)
           | None \<Rightarrow> (case single of Some d \<Rightarrow> and_then (validated_domain d key') (\<lambda>d. Inr [d])
                                 | None \<Rightarrow> Inr [])) f)"
  by (rule yields_and_then, rule assms)
    (auto simp: list_all_iff dest!: collect_results_screened screened_byI split: option.splits)

lemma domain_words [simp]: "list_all plain ds \<Longrightarrow> our_argv (concat (map (\<lambda>d. [''-d'', d]) ds))"
  by (rule our_argv_pairs) (simp add: list_all_iff own_steps)

lemma yields_safe_arg [reader_rules]:
  "(\<And>x. screened_by validated_safe_arg x \<Longrightarrow> yields Q (f x)) \<Longrightarrow> yields Q (and_then (validated_safe_arg s key) f)"
  by (rule yields_and_then) (auto intro: screened_byI)

lemma yields_unit_arg [reader_rules]:
  assumes "\<And>x. plain x \<Longrightarrow> yields Q (f x)"
  shows "yields Q (and_then (if b then str_arg params key validated_activatable_unit
                             else str_arg params key' validated_unit_name) f)"
  by (cases b) (auto intro!: assms yields_str_arg)

lemma yields_stoppable [reader_rules]:
  "(\<And>x. screened_by validated_stoppable_unit x \<Longrightarrow> yields Q (f x)) \<Longrightarrow>
   yields Q (and_then (validated_stoppable_unit s key) f)"
  by (rule yields_and_then) (auto intro: screened_byI)

lemma yields_collect_flags [reader_rules]:
  assumes "list_all (yields our_argv) rs" "\<And>flags. our_argv flags \<Longrightarrow> yields Q (f flags)"
  shows "yields Q (and_then (collect_flags rs) f)"
proof (rule yields_and_then)
  fix flags assume "collect_flags rs = Inr flags"
  then have "our_argv flags"
    using assms(1) by (induction rs arbitrary: flags)
      (auto simp: yields_iff)
  then show "yields Q (f flags)" by (rule assms(2))
qed

lemma flag_words [simp]:
  assumes "\<And>x. plain x \<Longrightarrow> our_argv [flag, x]"
  shows "yields our_argv (opt_u64_flag params key flag low high)"
    and "(\<And>x. our_argv [flag, x]) \<Longrightarrow> yields our_argv (opt_i64_flag params key flag low' high')"
    and "yields our_argv (opt_bool_flag params key flag)"
  unfolding opt_u64_flag_def opt_i64_flag_def opt_bool_flag_def
  by (intro yield_rules; simp add: assms split: option.split)+

lemma limit_words [simp]:
  "plain property \<Longrightarrow> property \<noteq> [] \<Longrightarrow> yields our_argv (limit_assignment params key v property)"
  unfolding limit_assignment_def by (intro yield_rules) (simp split: option.split)

lemma repo_path_file: "CHR ''/'' \<notin> set repo_id \<Longrightarrow> repo_file repo_id (repo_path repo_id)"
  using split_join [of "[[], ''etc'', ''yum.repos.d'', repo_id @ ''.repo'']" "CHR ''/''"]
  by (simp add: repo_file_def repo_path_def)

lemma yields_repo_id [reader_rules]:
  assumes "\<And>x. CHR ''/'' \<notin> set x \<Longrightarrow> CHR 0x0A \<notin> set x \<Longrightarrow> yields Q (f x)"
  shows "yields Q (and_then (validated_repo_id params) f)"
  by (rule yields_and_then, rule assms)
    (auto simp: validated_repo_id_def list_all_iff is_ascii_alphanumeric_def is_ascii_alphabetic_def
      is_ascii_lowercase_def is_ascii_uppercase_def is_ascii_digit_def is_one_of_def split: if_splits)

lemma yields_no_newline [reader_rules]:
  assumes "\<And>x. CHR 0x0A \<notin> set x \<Longrightarrow> yields Q (f x)"
  shows "yields Q (and_then (validated_no_newline params key) f)"
  by (rule yields_and_then, rule assms)
    (auto simp: validated_no_newline_def contains_str_single split: if_splits)

lemma repo_mechanisms:
  assumes "CHR ''/'' \<notin> set repo_id" "CHR 0x0A \<notin> set repo_id"
  shows "CHR 0x0A \<notin> set url \<Longrightarrow> mechanism_ours (as_mechanism (add_package_repository repo_id url))"
    and "mechanism_ours (as_mechanism (remove_package_repository repo_id))"
    and "mechanism_ours (as_mechanism (enable_package_repository repo_id))"
    and "mechanism_ours (as_mechanism (disable_package_repository repo_id))"
proof -
  note path = repo_path_file [OF assms(1)]
  show "mechanism_ours (as_mechanism (add_package_repository repo_id url))" if "CHR 0x0A \<notin> set url"
    using path that assms(2)
      split_join [of "[''['' @ repo_id @ '']'', ''baseurl='' @ url, ''enabled=1'', []]" "CHR 0x0A"]
    by (auto simp: mechanism_ours_def add_package_repository_def file_write_mechanism_def)
  show "mechanism_ours (as_mechanism (remove_package_repository repo_id))"
    and "mechanism_ours (as_mechanism (enable_package_repository repo_id))"
    and "mechanism_ours (as_mechanism (disable_package_repository repo_id))"
    using path by (auto simp: mechanism_ours_def remove_package_repository_def enable_package_repository_def
        disable_package_repository_def file_delete_mechanism_def file_patch_mechanism_def)
qed

lemma check_each_all: "check_each f xs = Inr () \<longleftrightarrow> list_all (\<lambda>x. f x = Inr ()) xs"
  by (induction xs) (auto simp: split: sum.splits)

lemma screened_list_plain [simp]:
  "list_all (screened_by validated_install_package) xs \<Longrightarrow> our_argv xs"
  "list_all (screened_by validated_safe_arg) xs \<Longrightarrow> our_argv xs"
  by (rule our_argv_plain, auto simp: list_all_iff)+

lemma kernel_words [simp]:
  "check_each (\<lambda>a. validated_safe_kernel_arg a p) xs = Inr () \<Longrightarrow> our_argv (concat (map (\<lambda>a. [''append'', a]) xs))"
  "check_each (\<lambda>a. validated_safe_kernel_arg_removal a q) ys = Inr () \<Longrightarrow> our_argv (concat (map (\<lambda>a. [''delete'', a]) ys))"
  by (rule our_argv_pairs, auto simp: check_each_all list_all_iff validated_safe_kernel_arg_def
      validated_safe_kernel_arg_removal_def token_plain split: sum.splits)+

lemma server_words [simp]:
  "collect_results (map parse_server xs) = Inr ips \<Longrightarrow> our_argv (map ip_to_string ips)"
proof (induction xs arbitrary: ips)
  case (Cons x xs)
  then show ?case
    using parsed_ip_argv [THEN argv_safe_plain]
    by (auto simp: parse_server_def ok_or_def split: sum.splits option.splits)
qed simp

lemma ip_word [simp]: "ok_or e (ip_from_str ip) = Inr a \<Longrightarrow> plain ip"
  using ip_from_str_argv [THEN argv_safe_plain] by (auto simp: ok_or_def split: option.splits)

lemmas argv_simps = mechanism_ours_def command_ours_def program_words sudo_words own_steps value_steps
  attached_steps action_defs Let_def

section \<open>Every builder\<close>

definition built_ours :: "(string \<times> builder) list \<Rightarrow> bool" where
  "built_ours builders \<longleftrightarrow>
     list_all (\<lambda>(n, build). \<forall>params. yields (\<lambda>spec. mechanism_ours (as_mechanism spec)) (build params)) builders"

lemma deployment_ours: "built_ours deployment_builders"
  unfolding built_ours_def deployment_builders_def entry_rules
  by (rule conjI allI TrueI | rule reader_rules | rule yield_rules | (simp add: argv_simps; fail))+

lemma flatpak_ours: "built_ours flatpak_builders"
  unfolding built_ours_def flatpak_builders_def entry_rules
  by (rule conjI allI TrueI | rule reader_rules | rule yield_rules | (simp add: argv_simps; fail))+

lemma containers_ours: "built_ours containers_builders"
  unfolding built_ours_def containers_builders_def entry_rules
  by (rule conjI allI TrueI | rule reader_rules | rule yield_rules | (simp add: argv_simps; fail))+

lemma layering_ours: "built_ours layering_builders"
  unfolding built_ours_def layering_builders_def entry_rules
  by (rule conjI allI TrueI | rule reader_rules | rule yield_rules | (simp add: argv_simps; fail))+

lemma package_repos_ours: "built_ours package_repos_builders"
  unfolding built_ours_def package_repos_builders_def entry_rules
  by (rule conjI allI TrueI | rule reader_rules | rule yield_rules | (rule repo_mechanisms; assumption) | (simp add: argv_simps; fail))+

lemma services_ours: "built_ours services_builders"
  unfolding built_ours_def services_builders_def entry_rules
  by (rule conjI allI TrueI | rule reader_rules | rule yield_rules | (simp add: argv_simps; fail))+

lemma toolbox_ours: "built_ours toolbox_builders"
  unfolding built_ours_def toolbox_builders_def entry_rules
  by (rule conjI allI TrueI | rule reader_rules | rule yield_rules | (simp add: argv_simps; fail))+

lemma identity_ours: "built_ours identity_builders"
  unfolding built_ours_def identity_builders_def entry_rules
  by (rule conjI allI TrueI | rule reader_rules | rule yield_rules | (simp add: argv_simps; fail))+

lemma filesystem_ours: "built_ours filesystem_builders"
  unfolding built_ours_def filesystem_builders_def entry_rules
  by (rule conjI allI TrueI | rule reader_rules | rule yield_rules | (simp add: argv_simps; fail))+

lemma processes_ours: "built_ours processes_builders"
  unfolding built_ours_def processes_builders_def entry_rules
  by (rule conjI allI TrueI | rule reader_rules | rule yield_rules | (simp add: argv_simps; fail))+

lemma journald_ours: "built_ours journald_builders"
  unfolding built_ours_def journald_builders_def entry_rules
  by (rule conjI allI TrueI | rule reader_rules | rule yield_rules | (simp add: argv_simps; fail))+

lemma lvm_ours: "built_ours lvm_builders"
  unfolding built_ours_def lvm_builders_def entry_rules
  by (rule conjI allI TrueI | rule reader_rules | rule yield_rules | (simp add: argv_simps; fail))+

lemma sysctl_ours: "built_ours sysctl_builders"
  unfolding built_ours_def sysctl_builders_def entry_rules
  by (rule conjI allI TrueI | rule reader_rules | rule yield_rules | (simp add: argv_simps; fail))+

lemma mounts_ours: "built_ours mounts_builders"
  unfolding built_ours_def mounts_builders_def entry_rules
  by (rule conjI allI TrueI | rule reader_rules | rule yield_rules | (simp add: argv_simps; fail))+

lemma sudoers_ours: "built_ours sudoers_builders"
  unfolding built_ours_def sudoers_builders_def entry_rules
  by (rule conjI allI TrueI | rule reader_rules | rule yield_rules | (simp add: argv_simps; fail))+

lemma apt_preferences_ours: "built_ours apt_preferences_builders"
  unfolding built_ours_def apt_preferences_builders_def entry_rules
  by (rule conjI allI TrueI | rule reader_rules | rule yield_rules | (simp add: argv_simps; fail))+

lemma logging_ours: "built_ours logging_builders"
  unfolding built_ours_def logging_builders_def entry_rules
  by (rule conjI allI TrueI | rule reader_rules | rule yield_rules | (auto simp: argv_simps; fail) | (simp add: argv_simps; fail))+

lemma pam_ours: "built_ours pam_builders"
  unfolding built_ours_def pam_builders_def entry_rules
  by (rule conjI allI TrueI | rule reader_rules | rule yield_rules | (simp add: argv_simps; fail))+

lemma system_info_ours: "built_ours system_info_builders"
  unfolding built_ours_def system_info_builders_def entry_rules
  by (rule conjI allI TrueI | rule reader_rules | rule yield_rules | (simp add: argv_simps; fail))+

lemma network_ours: "built_ours network_builders"
  unfolding built_ours_def network_builders_def entry_rules
  by (rule conjI allI TrueI | rule reader_rules | rule yield_rules | (simp add: argv_simps; fail))+

lemma users_ours: "built_ours users_builders"
  unfolding built_ours_def users_builders_def entry_rules
  by (rule conjI allI TrueI | rule reader_rules | rule yield_rules | (simp add: argv_simps; fail))+

lemma ssh_ours: "built_ours ssh_builders"
  unfolding built_ours_def ssh_builders_def entry_rules
  by (rule conjI allI TrueI | rule reader_rules | rule yield_rules | (simp add: argv_simps; fail))+

lemma apt_ours: "built_ours apt_builders"
  unfolding built_ours_def apt_builders_def entry_rules
  by (rule conjI allI TrueI | rule reader_rules | rule yield_rules | (simp add: argv_simps; fail))+

lemma ppa_ours: "built_ours ppa_builders"
  unfolding built_ours_def ppa_builders_def entry_rules
  by (rule conjI allI TrueI | rule reader_rules | rule yield_rules | (simp add: argv_simps; fail))+

lemma snap_ours: "built_ours snap_builders"
  unfolding built_ours_def snap_builders_def entry_rules
  by (rule conjI allI TrueI | rule reader_rules | rule yield_rules | (simp add: argv_simps; fail))+

lemma grub_ours: "built_ours grub_builders"
  unfolding built_ours_def grub_builders_def entry_rules
  by (rule conjI allI TrueI | rule reader_rules | rule yield_rules | (simp add: argv_simps; fail))+

lemma reboot_ours: "built_ours reboot_builders"
  unfolding built_ours_def reboot_builders_def entry_rules
  by (rule conjI allI TrueI | rule reader_rules | rule yield_rules | (simp add: argv_simps; fail))+

lemma ufw_ours: "built_ours ufw_builders"
  unfolding built_ours_def ufw_builders_def entry_rules
  by (rule conjI allI TrueI | rule reader_rules | rule yield_rules | (simp add: argv_simps; fail))+

lemma distrobox_ours: "built_ours distrobox_builders"
  unfolding built_ours_def distrobox_builders_def entry_rules
  by (rule conjI allI TrueI | rule reader_rules | rule yield_rules | (simp add: argv_simps; fail))+

lemma netplan_ours: "built_ours netplan_builders"
  unfolding built_ours_def netplan_builders_def entry_rules
  by (rule conjI allI TrueI | rule reader_rules | rule yield_rules | (simp add: argv_simps; fail))+

lemma ufw_tier3_ours: "built_ours ufw_tier3_builders"
  unfolding built_ours_def ufw_tier3_builders_def entry_rules
  by (rule conjI allI TrueI | rule reader_rules | rule yield_rules | (simp add: argv_simps; fail))+

lemma ubuntu_pro_ours: "built_ours ubuntu_pro_builders"
  unfolding built_ours_def ubuntu_pro_builders_def entry_rules
  by (rule conjI allI TrueI | rule reader_rules | rule yield_rules | (simp add: argv_simps; fail))+

lemma livepatch_ours: "built_ours livepatch_builders"
  unfolding built_ours_def livepatch_builders_def entry_rules
  by (rule conjI allI TrueI | rule reader_rules | rule yield_rules | (simp add: argv_simps; fail))+

lemma multipass_ours: "built_ours multipass_builders"
  unfolding built_ours_def multipass_builders_def entry_rules
  by (rule conjI allI TrueI | rule reader_rules | rule yield_rules | (simp add: argv_simps; fail))+

lemma release_upgrade_ours: "built_ours release_upgrade_builders"
  unfolding built_ours_def release_upgrade_builders_def entry_rules
  by (rule conjI allI TrueI | rule reader_rules | rule yield_rules | (simp add: argv_simps; fail))+

lemma resolvectl_ours: "built_ours resolvectl_builders"
  unfolding built_ours_def resolvectl_builders_def entry_rules
  by (rule conjI allI TrueI | rule reader_rules | rule yield_rules | (simp add: argv_simps; fail))+

lemma apparmor_ours: "built_ours apparmor_builders"
  unfolding built_ours_def apparmor_builders_def entry_rules
  by (rule conjI allI TrueI | rule reader_rules | rule yield_rules | (simp add: argv_simps; fail))+

lemma cloudinit_ours: "built_ours cloudinit_builders"
  unfolding built_ours_def cloudinit_builders_def entry_rules
  by (rule conjI allI TrueI | rule reader_rules | rule yield_rules | (simp add: argv_simps; fail))+

lemma ubuntu_flatpak_ours: "built_ours ubuntu_flatpak_builders"
  unfolding built_ours_def ubuntu_flatpak_builders_def entry_rules
  by (rule conjI allI TrueI | rule reader_rules | rule yield_rules | (simp add: argv_simps; fail))+

lemma fail2ban_ours: "built_ours fail2ban_builders"
  unfolding built_ours_def fail2ban_builders_def entry_rules
  by (rule conjI allI TrueI | rule reader_rules | rule yield_rules | (auto simp: argv_simps split: if_splits; fail) | (simp add: argv_simps; fail))+

lemma auditd_ours: "built_ours auditd_builders"
  unfolding built_ours_def auditd_builders_def entry_rules
  by (rule conjI allI TrueI | rule reader_rules | rule yield_rules | (simp add: argv_simps; fail))+

lemma certbot_ours: "built_ours certbot_builders"
  unfolding built_ours_def certbot_builders_def entry_rules
  by (rule conjI allI TrueI | rule reader_rules | rule yield_rules | (auto simp: argv_simps; fail) | (simp add: argv_simps; fail))+

lemma built_ours_append: "built_ours bs \<Longrightarrow> built_ours bs' \<Longrightarrow> built_ours (bs @ bs')"
  by (simp add: built_ours_def)

lemma built_ours_Nil: "built_ours []"
  by (simp add: built_ours_def)

lemma action_builders_ours: "built_ours action_builders"
  unfolding action_builders_def concat.simps
  by (intro built_ours_append built_ours_Nil deployment_ours flatpak_ours containers_ours layering_ours package_repos_ours 
      services_ours toolbox_ours identity_ours filesystem_ours processes_ours journald_ours 
      lvm_ours sysctl_ours mounts_ours sudoers_ours apt_preferences_ours logging_ours 
      pam_ours system_info_ours network_ours users_ours ssh_ours apt_ours ppa_ours 
      snap_ours grub_ours reboot_ours ufw_ours distrobox_ours netplan_ours ufw_tier3_ours 
      ubuntu_pro_ours livepatch_ours multipass_ours release_upgrade_ours resolvectl_ours 
      apparmor_ours cloudinit_ours ubuntu_flatpak_ours fail2ban_ours auditd_ours 
      certbot_ours)

lemma rollback_ours: "rollback_spec_for n = Some spec \<Longrightarrow> mechanism_ours (as_mechanism spec)"
  by (auto simp: rollback_spec_for_def argv_simps split: if_splits)

text \<open>C29: Whatever the request, what runs is the daemon's own command: the program and the target of
  \<^verbatim>\<open>sudo\<close> come from fixed lists, every word in option position is an option the daemon wrote, so
  no value of the caller is read as one, and a file that is written, patched or deleted is a
  repository file directly in \<^verbatim>\<open>/etc/yum.repos.d\<close> whose lines are the daemon's. The same holds of
  the automatic rollback.\<close>

theorem executed_command_is_ours:
  assumes "build_action_spec n params = Inr spec \<or> rollback_spec_for n = Some spec"
  shows "mechanism_ours (as_mechanism spec)"
  using assms
proof
  assume "build_action_spec n params = Inr spec"
  then obtain build where b: "(n, build) \<in> set action_builders" "build params = Inr spec"
    using build_action_spec_entry by blast
  then have "yields (\<lambda>spec. mechanism_ours (as_mechanism spec)) (build params)"
    using action_builders_ours b(1) unfolding built_ours_def list_all_iff by blast
  then show ?thesis using b(2) by (simp add: yields_iff)
qed (rule rollback_ours)

theorem executed_command_is_ours_witness:
  "build_action_spec ''UpdateSystem'' (JObj []) = Inr update_system
   \<and> mechanism_ours (Command ''sudo'' [''rpm-ostree'', ''upgrade''])"
  using build_UpdateSystem executed_command_is_ours [OF disjI1, OF build_UpdateSystem]
  by (simp add: action_defs)

end
