(* ===== verification/Sk_Limits.thy ===== *)
theory Sk_Limits
  imports Sk_Argv
begin

text \<open>
  Limits that hold of every specification \<^verbatim>\<open>build_action_spec\<close> returns: numbers stay in the range
  the code checks, grants stay scoped, and an action of a package manager takes the lock of that
  manager whatever its parameters.
\<close>

section \<open>Numbers\<close>

lemma kill_signal_listed:
  assumes "validated_kill_signal s = Inr x"
  shows "x \<in> {''TERM'', ''KILL'', ''HUP'', ''INT''}"
  using assms unfolding validated_kill_signal_def Let_def by (simp split: if_split_asm)

lemma require_u32_bound: "require_u32 params key = Inr n \<Longrightarrow> n < 2 ^ 32"
  by (auto simp: require_u32_def u32_max_def split: option.splits if_splits)

lemma sections_in_match:
  "set deployment_builders \<subseteq> set action_builders" "set processes_builders \<subseteq> set action_builders"
  "set journald_builders \<subseteq> set action_builders" "set mounts_builders \<subseteq> set action_builders"
  "set logging_builders \<subseteq> set action_builders" "set apt_preferences_builders \<subseteq> set action_builders"
  "set ufw_tier3_builders \<subseteq> set action_builders" "set sudoers_builders \<subseteq> set action_builders"
  "set grub_builders \<subseteq> set action_builders" "set users_builders \<subseteq> set action_builders"
  by (simp_all add: action_builders_def subset_iff)

lemma SignalProcess_bounds:
  assumes "build_action_spec ''SignalProcess'' params = Inr spec"
  shows "\<exists>pid sig. spec = signal_process pid sig \<and> 2 \<le> pid \<and> pid < 2 ^ 32
           \<and> sig \<in> {''TERM'', ''KILL'', ''HUP'', ''INT''}"
  by (rule build_satisfies [OF assms sections_in_match(2)],
      simp add: processes_builders_def, intro yield_rules, simp, intro exI conjI, rule refl)
    (auto simp: u32_max_def dest: kill_signal_listed)

lemma GetJournalLog_bounds:
  assumes "build_action_spec ''GetJournalLog'' params = Inr spec"
  shows "\<exists>q. spec = get_journal_log q \<and> 1 \<le> jq_lines q \<and> jq_lines q \<le> 10000"
  by (rule build_satisfies [OF assms sections_in_match(3)],
      simp add: journald_builders_def, intro yield_rules exI conjI)
    (auto simp: clamp_def MAX_JOURNAL_LINES_def)

lemma VacuumJournal_bounds:
  assumes "build_action_spec ''VacuumJournal'' params = Inr spec"
  shows "\<exists>k. spec \<in> {vacuum_journal_by_size k, vacuum_journal_by_time k} \<and> 1 \<le> k \<and> k < 2 ^ 32"
  by (rule build_satisfies [OF assms sections_in_match(3)],
      simp add: journald_builders_def, intro yield_rules)
    (auto simp: u32_max_def)

lemma AddSwap_bounds:
  assumes "build_action_spec ''AddSwap'' params = Inr spec"
  shows "\<exists>file mb. spec = add_swap file mb \<and> 1 \<le> mb \<and> mb \<le> 1048576"
  by (rule build_satisfies [OF assms sections_in_match(4)],
      simp add: mounts_builders_def, intro yield_rules)
    (auto simp: MAX_SWAP_SIZE_MB_def)

lemma ConfigureRemoteSyslog_bounds:
  assumes "build_action_spec ''ConfigureRemoteSyslog'' params = Inr spec"
  shows "\<exists>host port protocol. spec = configure_remote_syslog host port protocol
           \<and> 1 \<le> port \<and> port \<le> 65535 \<and> protocol \<in> {''tcp'', ''udp''}"
  by (rule build_satisfies [OF assms sections_in_match(5)],
      simp add: logging_builders_def, intro yield_rules)
    (auto simp: MAX_PORT_def)

lemma SetAptPin_bounds:
  assumes "build_action_spec ''SetAptPin'' params = Inr spec"
  shows "\<exists>name package pin priority. spec = set_apt_pin name package pin priority
           \<and> -1 \<le> priority \<and> priority \<le> 1000"
  by (rule build_satisfies [OF assms sections_in_match(6)],
      simp add: apt_preferences_builders_def, intro yield_rules) auto

lemma PinDeployment_bounds:
  assumes "build_action_spec ''PinDeployment'' params = Inr spec"
  shows "\<exists>index. spec = pin_deployment index \<and> index < 2 ^ 32"
  by (rule build_satisfies [OF assms sections_in_match(1)],
      simp add: deployment_builders_def, intro yield_rules exI conjI, rule refl)
    (drule require_u32_bound, simp)

text \<open>C31: Numbers a caller chooses stay in the range the code means: a signal goes to a process
  number from 2 up that fits 32 bits (never to init or a whole process group) and is one of four;
  a log query returns 1 to 10000 lines; a vacuum keeps at least one unit; swap files, ports, pin
  priorities and deployment indices stay within their limits.\<close>

theorem numbers_stay_in_range:
  assumes "build_action_spec n params = Inr spec"
  shows "(n = ''SignalProcess'' \<longrightarrow> (\<exists>pid sig. spec = signal_process pid sig \<and> 2 \<le> pid \<and> pid < 2 ^ 32
            \<and> sig \<in> {''TERM'', ''KILL'', ''HUP'', ''INT''}))
    \<and> (n = ''GetJournalLog'' \<longrightarrow> (\<exists>q. spec = get_journal_log q \<and> 1 \<le> jq_lines q \<and> jq_lines q \<le> 10000))
    \<and> (n = ''VacuumJournal'' \<longrightarrow> (\<exists>k. spec \<in> {vacuum_journal_by_size k, vacuum_journal_by_time k}
            \<and> 1 \<le> k \<and> k < 2 ^ 32))
    \<and> (n = ''AddSwap'' \<longrightarrow> (\<exists>file mb. spec = add_swap file mb \<and> 1 \<le> mb \<and> mb \<le> 1048576))
    \<and> (n = ''ConfigureRemoteSyslog'' \<longrightarrow> (\<exists>host port protocol.
            spec = configure_remote_syslog host port protocol \<and> 1 \<le> port \<and> port \<le> 65535
            \<and> protocol \<in> {''tcp'', ''udp''}))
    \<and> (n = ''SetAptPin'' \<longrightarrow> (\<exists>name package pin priority.
            spec = set_apt_pin name package pin priority \<and> -1 \<le> priority \<and> priority \<le> 1000))
    \<and> (n = ''PinDeployment'' \<longrightarrow> (\<exists>index. spec = pin_deployment index \<and> index < 2 ^ 32))"
  by (intro conjI impI, insert assms)
    (hypsubst, erule SignalProcess_bounds GetJournalLog_bounds VacuumJournal_bounds AddSwap_bounds
      ConfigureRemoteSyslog_bounds SetAptPin_bounds PinDeployment_bounds)+

lemma build_known:
  assumes "set bs \<subseteq> set action_builders" "map_of bs n = Some build" "validate_action_params n params = Inr ()"
  shows "build_action_spec n params = build params"
proof -
  have "(n, build) \<in> set action_builders" using map_of_SomeD [OF assms(2)] assms(1) by blast
  then have "map_of action_builders n = Some build" using action_names_distinct by simp
  with assms(3) show ?thesis by (simp add: build_action_spec_def)
qed

lemma build_signal:
  "build_action_spec ''SignalProcess'' (JObj [(''pid'', JInt 4711), (''signal'', JStr ''sigkill'')])
     = Inr (signal_process 4711 ''KILL'')"
proof -
  let ?ps = "JObj [(''pid'', JInt 4711), (''signal'', JStr ''sigkill'')]"
  have "validate_action_params ''SignalProcess'' ?ps = Inr ()" by code_simp
  moreover have "pid_param ?ps = Some 4711"
    by (simp add: pid_param_def get_param_def as_u64_def)
  moreover have "validated_kill_signal ''sigkill'' = Inr ''KILL''"
    "optional_str ?ps ''signal'' = Inr (Some ''sigkill'')"
    by code_simp+
  ultimately show ?thesis
    by (simp add: build_known [OF sections_in_match(2)] processes_builders_def ok_or_def u32_max_def)
qed

theorem numbers_stay_in_range_witness:
  "\<exists>pid sig. signal_process 4711 ''KILL'' = signal_process pid sig \<and> 2 \<le> pid \<and> pid < 2 ^ 32
     \<and> sig \<in> {''TERM'', ''KILL'', ''HUP'', ''INT''}"
  using numbers_stay_in_range [OF build_signal] by blast

section \<open>Grants\<close>

text \<open>Programs that give a shell or run what they are told, by name; an entry of a sudo grant runs one of them when
  the last part of its path has such a name, in any letter case, with a version or a packaging suffix after it.\<close>

definition SHELLS :: "string list" where
  "SHELLS =
     [''sh'', ''bash'', ''rbash'', ''dash'', ''ash'', ''zsh'', ''ksh'', ''mksh'', ''csh'', ''tcsh'', ''fish'', ''busybox'', ''pwsh'',
      ''su'', ''sudo'', ''sudoedit'', ''doas'', ''runuser'', ''pkexec'', ''setpriv'', ''chroot'', ''unshare'', ''nsenter'', ''capsh'',
      ''python'', ''perl'', ''ruby'', ''irb'', ''lua'', ''node'', ''php'', ''tclsh'', ''expect'', ''gdb'', ''awk'', ''gawk'', ''mawk'',
      ''sed'', ''ed'', ''vi'', ''vim'', ''nvim'', ''emacs'', ''nano'', ''less'', ''more'', ''man'', ''env'', ''nice'', ''timeout'',
      ''watch'', ''flock'', ''xargs'', ''find'', ''script'', ''socat'', ''nc'', ''tar'', ''cpio'', ''zip'', ''rsync'', ''scp'', ''sftp'',
      ''ssh'', ''tmux'', ''screen'', ''make'', ''strace'', ''ltrace'', ''tcpdump'', ''docker'', ''podman'', ''git'', ''crontab'', ''at'',
      ''systemctl'', ''journalctl'', ''apt'', ''apt-get'', ''dpkg'', ''rpm'', ''yum'', ''dnf'', ''pip'', ''gem'', ''npm'', ''mount'']"

definition runs_shell :: "string \<Rightarrow> bool" where
  "runs_shell c \<longleftrightarrow> (\<exists>dir ver suffix. \<exists>name \<in> set SHELLS. to_ascii_lowercase c = dir @ ''/'' @ name @ ver @ suffix
     \<and> list_all (\<lambda>x. is_ascii_digit x \<or> x = CHR ''.'') ver \<and> (suffix = [] \<or> suffix \<in> set [''.basic'', ''.tiny'']))"

definition granted_entries :: "string \<Rightarrow> string list" where
  "granted_entries commands = filter (\<lambda>c. c \<noteq> []) (split_char (CHR '','') commands)"

lemma shells_listed: "set SHELLS \<subseteq> set SHELL_EQUIVALENT_COMMANDS"
proof -
  have "list_all (\<lambda>c. c \<in> set SHELL_EQUIVALENT_COMMANDS) SHELLS" by code_simp
  then show ?thesis by (auto simp: list_all_iff)
qed

lemma no_shell_granted:
  assumes "shell_equivalent_sudo_command commands = None" "c \<in> set (granted_entries commands)"
  shows "\<not> runs_shell c"
proof
  assume "runs_shell c"
  then obtain dir ver suffix name where shell: "name \<in> set SHELLS" "to_ascii_lowercase c = dir @ ''/'' @ name @ ver @ suffix"
    "list_all (\<lambda>x. is_ascii_digit x \<or> x = CHR ''.'') ver" "suffix = [] \<or> suffix \<in> set [''.basic'', ''.tiny'']"
    unfolding runs_shell_def by blast
  have "name \<in> set SHELL_EQUIVALENT_COMMANDS" using shell(1) shells_listed by blast
  moreover have "list_all version_char ver" using shell(3) by (simp add: version_char_def [abs_def])
  moreover have "suffix = [] \<or> suffix \<in> set SHELL_EQUIVALENT_SUFFIXES"
    using shell(4) by (simp only: SHELL_EQUIVALENT_SUFFIXES_def)
  moreover have "c \<in> set (options_of commands)" using assms(2) by (simp only: granted_entries_def)
  ultimately have "\<exists>c'. shell_equivalent_sudo_command commands = Some c' \<and> c' \<in> set (options_of commands)"
    using shell_equivalent_command_recognised [OF _ shell(2)] by blast
  with assms(1) show False by simp
qed

lemma sudo_entries_absolute:
  assumes "screened_by validated_sudo_commands commands" "commands \<noteq> ''ALL''"
  shows "granted_entries commands \<noteq> [] \<and> (\<forall>c \<in> set (granted_entries commands).
    hd c = CHR ''/'' \<and> CHR ''*'' \<notin> set c \<and> \<not> contains_str c ''..'')"
proof -
  have ok: "granted_entries commands \<noteq> []" "list_all sudo_command_ok (granted_entries commands)"
    using assms by (auto simp: screened_by_def validated_sudo_commands_def granted_entries_def Let_def split: if_splits)
  moreover have "hd c = CHR ''/'' \<and> CHR ''*'' \<notin> set c \<and> \<not> contains_str c ''..''" if "sudo_command_ok c" for c
    using that by (cases c) (auto simp: sudo_command_ok_def starts_with_def contains_str_single)
  ultimately show ?thesis by (auto simp: list_all_iff)
qed

lemma GrantSudoAccess_scoped:
  assumes "build_action_spec ''GrantSudoAccess'' params = Inr spec"
  shows "\<exists>name user commands runas nopasswd. spec = grant_sudo_access name user commands runas nopasswd
           \<and> (commands \<noteq> ''ALL'' \<longrightarrow> granted_entries commands \<noteq> [] \<and> (\<forall>c \<in> set (granted_entries commands).
                hd c = CHR ''/'' \<and> CHR ''*'' \<notin> set c \<and> \<not> contains_str c ''..''))
           \<and> (nopasswd \<longrightarrow> commands \<noteq> ''ALL'' \<and> (\<forall>c \<in> set (granted_entries commands). \<not> runs_shell c))"
proof -
  have "\<exists>name user commands runas nopasswd. spec = grant_sudo_access name user commands runas nopasswd
      \<and> screened_by validated_sudo_commands commands
      \<and> (nopasswd \<longrightarrow> commands \<noteq> ''ALL'' \<and> shell_equivalent_sudo_command commands = None)"
    by (rule build_satisfies [OF assms sections_in_match(8)], simp add: sudoers_builders_def,
        (rule yields_str_arg)+, intro yield_rules, intro exI conjI, rule refl)
      (assumption, clarify, drule sym, simp)
  then obtain name user commands runas nopasswd where grant:
    "spec = grant_sudo_access name user commands runas nopasswd" "screened_by validated_sudo_commands commands"
    "nopasswd \<longrightarrow> commands \<noteq> ''ALL'' \<and> shell_equivalent_sudo_command commands = None" by blast
  show ?thesis
    by (intro exI conjI impI, rule grant(1), rule sudo_entries_absolute [OF grant(2), THEN conjunct1], assumption,
        rule sudo_entries_absolute [OF grant(2), THEN conjunct2], assumption)
      (use grant(3) no_shell_granted in blast)+
qed

lemma kernel_args_screened:
  assumes "build_action_spec ''SetKernelArguments'' params = Inr spec"
  shows "\<exists>added removed. spec = set_kernel_arguments added removed
           \<and> list_all (\<lambda>a. validated_safe_kernel_arg a ''add'' = Inr ()) added
           \<and> list_all (\<lambda>a. validated_safe_kernel_arg_removal a ''remove'' = Inr ()) removed"
  by (rule build_satisfies [OF assms sections_in_match(1)],
      simp add: deployment_builders_def, intro yield_rules exI conjI, rule refl)
    (simp_all add: check_each_all)

lemma map_err_eq_Inr: "map_err f r = Inr x \<longleftrightarrow> r = Inr x"
  by (simp add: map_err_def split: sum.splits)

lemma safe_arg_no_comma: "validated_safe_arg a p = Inr x \<Longrightarrow> CHR '','' \<notin> set a"
proof
  assume "validated_safe_arg a p = Inr x" "CHR '','' \<in> set a"
  moreover have "\<not> (is_ascii_alphanumeric (CHR '','') \<or> is_one_of ''._:/+@-'' (CHR '',''))" by code_simp
  ultimately show False by (auto simp: validated_safe_arg_def list_all_iff split: if_splits)
qed

lemma comma_list_read_back:
  "list_all (\<lambda>a. CHR '','' \<notin> set a) xs \<Longrightarrow> xs \<noteq> [] \<Longrightarrow> split_char (CHR '','') (join_with '','' xs) = xs"
  by (rule split_join)

lemma grub_args_screened:
  assumes "build_action_spec ''GrubSetKargs'' params = Inr spec"
  shows "\<exists>added removed. grub_set_kargs added removed = Inr spec
           \<and> list_all (\<lambda>a. validated_safe_kernel_arg a ''append'' = Inr ()) added
           \<and> list_all (\<lambda>a. validated_safe_kernel_arg_removal a ''delete'' = Inr ()) removed
           \<and> (added \<noteq> [] \<longrightarrow> split_char (CHR '','') (join_with '','' added) = added)
           \<and> (removed \<noteq> [] \<longrightarrow> split_char (CHR '','') (join_with '','' removed) = removed)"
proof -
  obtain added removed where g: "grub_set_kargs added removed = Inr spec"
    "list_all (\<lambda>a. (\<exists>x. validated_safe_arg a ''append'' = Inr x) \<and> validated_safe_kernel_arg a ''append'' = Inr ()) added"
    "list_all (\<lambda>a. (\<exists>x. validated_safe_arg a ''delete'' = Inr x) \<and> validated_safe_kernel_arg_removal a ''delete'' = Inr ()) removed"
    using build_in_section [OF assms sections_in_match(9)]
    by (auto simp: grub_builders_def check_each_all list_all_iff map_err_eq_Inr)
  then have "list_all (\<lambda>a. CHR '','' \<notin> set a) added" "list_all (\<lambda>a. CHR '','' \<notin> set a) removed"
    using safe_arg_no_comma by (fastforce elim: list.pred_mono_strong)+
  then have "added \<noteq> [] \<longrightarrow> split_char (CHR '','') (join_with '','' added) = added"
    "removed \<noteq> [] \<longrightarrow> split_char (CHR '','') (join_with '','' removed) = removed"
    using comma_list_read_back by blast+
  moreover have "list_all (\<lambda>a. validated_safe_kernel_arg a ''append'' = Inr ()) added"
    "list_all (\<lambda>a. validated_safe_kernel_arg_removal a ''delete'' = Inr ()) removed"
    using g(2,3) by (simp_all add: list_all_iff)
  ultimately show ?thesis using g(1) by blast
qed

text \<open>The accounts that a system depends on.\<close>

definition SYSTEM_ACCOUNTS :: "string list" where
  "SYSTEM_ACCOUNTS = [''root'', ''daemon'', ''bin'', ''sys'', ''sudo'', ''adm'']"

lemma critical_accounts_kept:
  assumes "build_action_spec n params = Inr spec"
    and "(n, constr) \<in> {(''DeleteUser'', delete_user), (''LockUserAccount'', lock_user_account),
                       (''UnlockUserAccount'', unlock_user_account)}"
  shows "\<exists>user. spec = constr user \<and> user \<notin> set SYSTEM_ACCOUNTS"
proof -
  have critical: "user \<notin> set SYSTEM_ACCOUNTS" if "validated_username_not_critical s p = Inr user" for s p user
    using that by (auto simp: validated_username_not_critical_def CRITICAL_ACCOUNTS_def SYSTEM_ACCOUNTS_def split: if_splits)
  show ?thesis
    using build_in_section [OF assms(1) sections_in_match(10)] assms(2)
    by (auto simp: users_builders_def user_arg_def) (blast dest: critical)+
qed


lemma build_delete_user:
  "build_action_spec ''DeleteUser'' (JObj [(''username'', JStr ''alice'')]) = Inr (delete_user ''alice'')"
proof -
  let ?ps = "JObj [(''username'', JStr ''alice'')]"
  have "validate_action_params ''DeleteUser'' ?ps = Inr ()"
    "user_arg ?ps validated_username_not_critical = Inr ''alice''" by code_simp+
  then show ?thesis
    by (simp add: build_known [OF sections_in_match(10)] users_builders_def)
qed


section \<open>Locks\<close>

definition word_lock :: "string \<Rightarrow> exclusive_resource option" where
  "word_lock w = find_map lock_of_word (filter (\<lambda>t. t \<noteq> []) (split_words [] w))"

lemma find_map_append: "find_map f (xs @ ys) = (case find_map f xs of Some r \<Rightarrow> Some r | None \<Rightarrow> find_map f ys)"
  by (induction xs) (auto split: option.splits)

lemma find_map_words:
  "find_map lock_of_word (filter (\<lambda>t. t \<noteq> []) (concat (map (split_words []) ws))) = find_map word_lock ws"
  by (induction ws) (auto simp: find_map_append word_lock_def split: option.splits)

lemma lock_of_command:
  "as_mechanism spec = Command program args \<Longrightarrow>
   exclusive_resource_of spec = find_map word_lock (program # args)"
  using find_map_words [of "program # args"] by (simp add: exclusive_resource_of_def)

lemma lock_words:
  "word_lock ''sudo'' = None" "word_lock ''bash'' = None" "word_lock ''-c'' = None"
  "word_lock ''/usr/lib/sysknife/action-steps'' = None"
  "word_lock ''rpm-ostree'' = Some RpmOstree" "word_lock ''ostree'' = Some RpmOstree"
  "word_lock ''flatpak'' = Some Flatpak"
  "word_lock ''snap'' = Some Snap" "word_lock ''snap-install-hold'' = Some Snap"
  "word_lock ''apt'' = Some Dpkg" "word_lock ''dpkg'' = Some Dpkg"
  "word_lock ''add-apt-repository'' = Some Dpkg" "word_lock ''do-release-upgrade'' = Some Dpkg"
  "word_lock ''/usr/lib/sysknife/apt-pin-edit'' = Some Dpkg"
  "word_lock ''apt list --upgradable 2>/dev/null'' = Some Dpkg"
  by code_simp+

definition locked :: "(string \<times> builder) list \<Rightarrow> string list \<Rightarrow> exclusive_resource \<Rightarrow> bool" where
  "locked bs names r \<longleftrightarrow> list_all (\<lambda>(n, build). n \<in> set names \<longrightarrow>
     (\<forall>params. yields (\<lambda>spec. exclusive_resource_of spec = Some r) (build params))) bs"

lemma locked_spec:
  assumes "locked bs names r" "set bs \<subseteq> set action_builders" "n \<in> set names" "n \<in> set (map fst bs)"
    and "build_action_spec n params = Inr spec"
  shows "exclusive_resource_of spec = Some r"
proof -
  obtain build where b: "map_of bs n = Some build"
    using assms(4) by (metis map_of_eq_None_iff not_Some_eq set_map)
  then have "yields (\<lambda>spec. exclusive_resource_of spec = Some r) (build params)"
    using assms(1,3) map_of_SomeD [OF b] by (auto simp: locked_def list_all_iff)
  with build_in_section [OF assms(5,2) b] show ?thesis by (simp add: yields_def)
qed

definition OSTREE_ACTIONS :: "string list" where
  "OSTREE_ACTIONS =
     [''GetSystemState'', ''GetDeploymentHistory'', ''ListDeployments'', ''UpdateSystem'',
      ''CleanupDeployments'', ''RollbackDeployment'', ''GetKernelArguments'', ''PinDeployment'',
      ''UnpinDeployment'', ''RebaseSystem'', ''SetKernelArguments'']"

definition APT_ACTIONS :: "string list" where
  "APT_ACTIONS =
     [''AptUpdate'', ''AptUpgrade'', ''AptInstall'', ''AptRemove'', ''AptPurge'', ''AptAutoremove'',
      ''AptHold'', ''AptUnhold'', ''AptListInstalled'', ''AptListUpgradable'']"

lemmas lock_simps = lock_of_command lock_words action_defs Let_def

lemma deployment_locked: "locked deployment_builders OSTREE_ACTIONS RpmOstree"
  unfolding locked_def deployment_builders_def entry_rules
  by (rule conjI allI impI TrueI | rule yield_rules | (simp add: lock_simps OSTREE_ACTIONS_def; fail))+

lemma layering_locked: "locked layering_builders names RpmOstree"
  unfolding locked_def layering_builders_def entry_rules
  by (rule conjI allI impI TrueI | rule yield_rules | (simp add: lock_simps; fail))+

lemma flatpak_locked: "locked flatpak_builders names Flatpak"
  unfolding locked_def flatpak_builders_def entry_rules
  by (rule conjI allI impI TrueI | rule yield_rules | (simp add: lock_simps split: option.split; fail))+

lemma ubuntu_flatpak_locked: "locked ubuntu_flatpak_builders names Flatpak"
  unfolding locked_def ubuntu_flatpak_builders_def entry_rules
  by (rule conjI allI impI TrueI | rule yield_rules | (simp add: lock_simps split: option.split; fail))+

lemma apt_locked: "locked apt_builders APT_ACTIONS Dpkg"
  unfolding locked_def apt_builders_def entry_rules
  by (rule conjI allI impI TrueI | rule yield_rules | (simp add: lock_simps APT_ACTIONS_def; fail))+

lemma ppa_locked: "locked ppa_builders names Dpkg"
  unfolding locked_def ppa_builders_def entry_rules
  by (rule conjI allI impI TrueI | rule yield_rules | (simp add: lock_simps; fail))+

lemma release_upgrade_locked: "locked release_upgrade_builders names Dpkg"
  unfolding locked_def release_upgrade_builders_def entry_rules
  by (rule conjI allI impI TrueI | rule yield_rules | (simp add: lock_simps; fail))+

lemma snap_locked: "locked snap_builders names Snap"
  unfolding locked_def snap_builders_def entry_rules
  by (rule conjI allI impI TrueI | rule yield_rules | (simp add: lock_simps split: option.split; fail))+

text \<open>Actions on the same package database never run side by side by way of their parameters:
  whatever the caller passes, an action that changes or reads the ostree deployment, the dpkg
  database, snaps or Flatpaks takes the lock of that manager.\<close>

lemma package_actions_take_lock:
  assumes "build_action_spec n params = Inr spec"
  shows "(n \<in> set (OSTREE_ACTIONS @ map fst layering_builders) \<longrightarrow> exclusive_resource_of spec = Some RpmOstree)
    \<and> (n \<in> set (APT_ACTIONS @ map fst (ppa_builders @ release_upgrade_builders)) \<longrightarrow>
         exclusive_resource_of spec = Some Dpkg)
    \<and> (n \<in> set (map fst snap_builders) \<longrightarrow> exclusive_resource_of spec = Some Snap)
    \<and> (n \<in> set (map fst (flatpak_builders @ ubuntu_flatpak_builders)) \<longrightarrow>
         exclusive_resource_of spec = Some Flatpak)"
proof -
  have sub: "set deployment_builders \<subseteq> set action_builders" "set layering_builders \<subseteq> set action_builders"
    "set flatpak_builders \<subseteq> set action_builders" "set ubuntu_flatpak_builders \<subseteq> set action_builders"
    "set apt_builders \<subseteq> set action_builders" "set ppa_builders \<subseteq> set action_builders"
    "set release_upgrade_builders \<subseteq> set action_builders" "set snap_builders \<subseteq> set action_builders"
    by (simp_all add: action_builders_def subset_iff)
  have names: "set OSTREE_ACTIONS \<subseteq> set (map fst deployment_builders)"
    "set APT_ACTIONS \<subseteq> set (map fst apt_builders)"
    by (simp_all add: OSTREE_ACTIONS_def APT_ACTIONS_def deployment_builders_def apt_builders_def)
  show ?thesis
    using locked_spec [OF deployment_locked sub(1) _ _ assms] locked_spec [OF layering_locked [of "[n]"] sub(2) _ _ assms]
      locked_spec [OF flatpak_locked [of "[n]"] sub(3) _ _ assms] locked_spec [OF ubuntu_flatpak_locked [of "[n]"] sub(4) _ _ assms]
      locked_spec [OF apt_locked sub(5) _ _ assms] locked_spec [OF ppa_locked [of "[n]"] sub(6) _ _ assms]
      locked_spec [OF release_upgrade_locked [of "[n]"] sub(7) _ _ assms] locked_spec [OF snap_locked [of "[n]"] sub(8) _ _ assms]
      names
    by (simp add: subset_iff)
qed

end
