(* ===== verification/Sk_Policy.thy ===== *)
theory Sk_Policy
  imports Sk_Catalogue
begin

text \<open>
  The authorization policy (\<^verbatim>\<open>crates/sysknife-daemon/src/policy.rs\<close>): the minimum role of an action,
  derived from the risk of its specification, and the operator's overrides, which may only raise
  it. The overrides are read from a hash map, so they come in an arbitrary order.
\<close>

section \<open>The baseline\<close>

fun role_for_risk_level :: "risk_level \<Rightarrow> caller_role" where
  "role_for_risk_level Low = Observer"
| "role_for_risk_level Medium = Dev"
| "role_for_risk_level High = Admin"

definition role_exception :: "string \<Rightarrow> caller_role option" where
  "role_exception action_name = (if action_name = ''ListJobHistory'' then Some Observer else None)"

definition min_role_for_action :: "string \<Rightarrow> caller_role option" where
  "min_role_for_action action_name =
     (case role_exception action_name of
        Some role \<Rightarrow> Some role
      | None \<Rightarrow> map_option (\<lambda>meta. role_for_risk_level (sm_risk_level meta)) (spec_meta_for action_name))"

definition baseline_action_allowed :: "caller_role \<Rightarrow> string \<Rightarrow> bool" where
  "baseline_action_allowed caller action_name =
     (case min_role_for_action action_name of Some min_role \<Rightarrow> caller \<ge> min_role | None \<Rightarrow> False)"

section \<open>Overrides\<close>

record policy_table =
  pt_overrides :: "string \<Rightarrow> caller_role option"

datatype policy_validation_error =
    PolicyUnknownAction string
  | InvalidRiskLevel string string
  | CannotLower string caller_role caller_role

definition empty_policy :: policy_table where
  "empty_policy = \<lparr>pt_overrides = Map.empty\<rparr>"

definition parse_risk_level :: "string \<Rightarrow> risk_level option" where
  "parse_risk_level s =
     (let lower = to_ascii_lowercase (trim s) in
      if lower = ''low'' then Some Low
      else if lower = ''medium'' then Some Medium
      else if lower = ''high'' then Some High
      else None)"

definition validated_override :: "string \<Rightarrow> string \<Rightarrow> policy_validation_error + caller_role" where
  "validated_override action level_str =
     and_then (ok_or (PolicyUnknownAction action) (min_role_for_action action)) (\<lambda>baseline.
     and_then (ok_or (InvalidRiskLevel action level_str) (parse_risk_level level_str)) (\<lambda>level.
       let attempted = role_for_risk_level level in
       if attempted < baseline then Inl (CannotLower action baseline attempted) else Inr attempted))"

fun override_loop ::
  "(string \<times> string) list \<Rightarrow> (string \<Rightarrow> caller_role option) \<Rightarrow> policy_validation_error + policy_table" where
  "override_loop [] overrides = Inr \<lparr>pt_overrides = overrides\<rparr>"
| "override_loop ((action, level_str) # raw) overrides =
     and_then (validated_override action level_str) (\<lambda>attempted.
       override_loop raw (overrides(action \<mapsto> attempted)))"

definition from_overrides :: "(string \<times> string) list \<Rightarrow> policy_validation_error + policy_table" where
  "from_overrides raw = override_loop raw Map.empty"

definition policy_min_role :: "policy_table \<Rightarrow> string \<Rightarrow> caller_role option" where
  "policy_min_role policy action_name =
     (case min_role_for_action action_name of
        None \<Rightarrow> None
      | Some baseline \<Rightarrow> Some (case pt_overrides policy action_name of Some r \<Rightarrow> r | None \<Rightarrow> baseline))"

definition action_allowed :: "policy_table \<Rightarrow> caller_role \<Rightarrow> string \<Rightarrow> bool" where
  "action_allowed policy caller action_name =
     (case policy_min_role policy action_name of Some min_role \<Rightarrow> caller \<ge> min_role | None \<Rightarrow> False)"

section \<open>Overrides only raise\<close>

definition only_raises :: "policy_table \<Rightarrow> bool" where
  "only_raises policy \<longleftrightarrow> (\<forall>action role baseline. pt_overrides policy action = Some role \<longrightarrow>
     min_role_for_action action = Some baseline \<longrightarrow> baseline \<le> role)"

definition raised :: "(string \<times> string) list \<Rightarrow> (string \<times> caller_role) list" where
  "raised raw = rev (map (\<lambda>(a, l). (a, projr (validated_override a l))) raw)"

lemma override_loop_ok: "is_ok (override_loop raw overrides) \<longleftrightarrow> list_all (\<lambda>(a, l). is_ok (validated_override a l)) raw"
proof (induction raw arbitrary: overrides)
  case (Cons e raw)
  then show ?case by (cases e; cases "validated_override (fst e) (snd e)") auto
qed simp

lemma override_loop_map: "override_loop raw overrides = Inr policy \<Longrightarrow> pt_overrides policy = overrides ++ map_of (raised raw)"
proof (induction raw arbitrary: overrides)
  case (Cons e raw)
  obtain a l where e: "e = (a, l)" by (cases e)
  with Cons.prems obtain r where r: "validated_override a l = Inr r"
    "override_loop raw (overrides(a \<mapsto> r)) = Inr policy" by auto
  have "raised (e # raw) = raised raw @ [(a, r)]" by (simp add: raised_def e r(1))
  moreover have "overrides(a \<mapsto> r) = overrides ++ [a \<mapsto> r]" by simp
  ultimately show ?case using Cons.IH [OF r(2)] by (simp add: map_add_assoc del: map_add_upd)
qed (auto simp: raised_def)

lemma from_overrides_spec:
  assumes "from_overrides raw = Inr policy"
  shows "list_all (\<lambda>(a, l). is_ok (validated_override a l)) raw" "pt_overrides policy = map_of (raised raw)"
  using assms override_loop_ok [of raw Map.empty] override_loop_map [of raw Map.empty policy]
  by (simp_all add: from_overrides_def)

lemma raised_entry:
  assumes "list_all (\<lambda>(a, l). is_ok (validated_override a l)) raw" "(action, level) \<in> set raw"
  shows "\<exists>role. validated_override action level = Inr role \<and> (action, role) \<in> set (raised raw)"
proof -
  have "is_ok (validated_override action level)" using assms by (auto simp: list_all_iff)
  then obtain role where "validated_override action level = Inr role"
    by (cases "validated_override action level") auto
  then show ?thesis using assms(2) by (force simp: raised_def)
qed

lemma from_overrides_only_raises:
  assumes "from_overrides raw = Inr policy"
  shows "only_raises policy"
  unfolding only_raises_def
proof (intro allI impI)
  fix action role baseline
  assume a: "pt_overrides policy action = Some role" "min_role_for_action action = Some baseline"
  note spec = from_overrides_spec [OF assms]
  obtain l where l: "(action, l) \<in> set raw" "role = projr (validated_override action l)"
    using a(1) spec(2) by (auto simp: raised_def dest!: map_of_SomeD)
  then have "validated_override action l = Inr role"
    using raised_entry [OF spec(1) l(1)] by auto
  with a(2) show "baseline \<le> role"
    by (auto simp: validated_override_def Let_def split: if_splits)
qed

lemma allowed_within_baseline:
  assumes "only_raises policy" "action_allowed policy caller action"
  shows "baseline_action_allowed caller action"
  using assms
  by (fastforce simp: only_raises_def action_allowed_def policy_min_role_def baseline_action_allowed_def
      split: option.splits)

text \<open>C32: The operator's overrides only raise roles. They are accepted exactly when every entry names a
  known action and a risk whose role is no lower than the baseline, in whatever order the entries
  come; then a caller that the policy allows is allowed by the baseline, every override is in
  force, and actions without one keep the role of their risk. Unknown actions are never allowed.\<close>

theorem policy_overrides_only_raise:
  assumes "distinct (map fst raw)"
  shows "(is_ok (from_overrides raw) \<longleftrightarrow> (\<forall>(action, level) \<in> set raw. \<exists>baseline risk.
            min_role_for_action action = Some baseline \<and> parse_risk_level level = Some risk
            \<and> baseline \<le> role_for_risk_level risk))
    \<and> (\<forall>policy. from_overrides raw = Inr policy \<longrightarrow>
         (\<forall>caller action. action_allowed policy caller action \<longrightarrow> baseline_action_allowed caller action)
         \<and> (\<forall>action level risk. (action, level) \<in> set raw \<longrightarrow> parse_risk_level level = Some risk \<longrightarrow>
              policy_min_role policy action = Some (role_for_risk_level risk))
         \<and> (\<forall>action. action \<notin> fst ` set raw \<longrightarrow> policy_min_role policy action = min_role_for_action action)
         \<and> (\<forall>caller action. min_role_for_action action = None \<longrightarrow> \<not> action_allowed policy caller action))"
proof (intro conjI allI impI)
  have ok_iff: "is_ok (validated_override a l) \<longleftrightarrow> (\<exists>baseline risk. min_role_for_action a = Some baseline
      \<and> parse_risk_level l = Some risk \<and> baseline \<le> role_for_risk_level risk)" for a l
    by (auto simp: validated_override_def ok_or_def is_ok_def Let_def split: option.splits)
  have "is_ok (from_overrides raw) \<longleftrightarrow> list_all (\<lambda>(a, l). is_ok (validated_override a l)) raw"
    unfolding from_overrides_def by (rule override_loop_ok)
  then show "is_ok (from_overrides raw) \<longleftrightarrow> (\<forall>(action, level) \<in> set raw. \<exists>baseline risk.
      min_role_for_action action = Some baseline \<and> parse_risk_level level = Some risk
      \<and> baseline \<le> role_for_risk_level risk)"
    by (simp add: list_all_iff ok_iff)
next
  fix policy assume p: "from_overrides raw = Inr policy"
  note raises = from_overrides_only_raises [OF p]
  note spec = from_overrides_spec [OF p]
  show "baseline_action_allowed caller action" if "action_allowed policy caller action" for caller action
    using allowed_within_baseline [OF raises that] .
  show "policy_min_role policy action = Some (role_for_risk_level risk)"
    if mem: "(action, level) \<in> set raw" and lvl: "parse_risk_level level = Some risk" for action level risk
  proof -
    obtain role where v: "validated_override action level = Inr role" "(action, role) \<in> set (raised raw)"
      using raised_entry [OF spec(1) mem] by blast
    then have role: "role = role_for_risk_level risk" "min_role_for_action action \<noteq> None"
      using lvl by (auto simp: validated_override_def Let_def split: if_splits)
    have "distinct (map fst (raised raw))"
      using assms by (simp add: raised_def rev_map [symmetric] comp_def case_prod_unfold)
    with v(2) have "pt_overrides policy action = Some role" unfolding spec(2) by (rule map_of_is_SomeI [rotated])
    with role show ?thesis by (auto simp: policy_min_role_def)
  qed
  show "policy_min_role policy action = min_role_for_action action"
    if "action \<notin> fst ` set raw" for action
  proof -
    have "pt_overrides policy action = None"
      unfolding spec(2) map_of_eq_None_iff using that by (force simp: raised_def)
    then show ?thesis by (simp add: policy_min_role_def split: option.split)
  qed
  show "\<not> action_allowed policy caller action" if "min_role_for_action action = None" for caller action
    using that by (simp add: action_allowed_def policy_min_role_def)
qed

theorem policy_overrides_only_raise_witness:
  "is_ok (from_overrides [(''ListJobHistory'', '' HIGH '')])"
proof -
  have "min_role_for_action ''ListJobHistory'' = Some Observer" "parse_risk_level '' HIGH '' = Some High"
    by (simp add: min_role_for_action_def role_exception_def) code_simp
  then show ?thesis
    using policy_overrides_only_raise [of "[(''ListJobHistory'', '' HIGH '')]", THEN conjunct1]
    by (simp add: less_eq_caller_role_def)
qed

text \<open>The role an action needs is the role of the risk of what is executed.\<close>

lemma executed_role_is_risk_role:
  assumes "build_action_spec n params = Inr spec"
  shows "min_role_for_action n = Some (role_for_risk_level (as_risk_level spec))
    \<or> n = ''ListJobHistory''"
proof -
  obtain build where "(n, build) \<in> set action_builders" "build params = Inr spec"
    using build_action_spec_entry [OF assms] by blast
  note built = match.built_described [OF this]
  then obtain t where "t \<in> set all_specs" "as_action_name t = n" "meta_of t = meta_of spec" by blast
  with spec_meta_for_entry [of t] show ?thesis
    by (auto simp: min_role_for_action_def role_exception_def meta_of_def)
qed

end
