(* ===== verification/Sk_Distro.thy ===== *)
theory Sk_Distro
  imports Sk_Prelude
begin

text \<open>
  Which distribution the daemon runs on (\<^verbatim>\<open>crates/sysknife-core/src/distro.rs\<close>) and which actions
  belong to which family (\<^verbatim>\<open>action_family.rs\<close>). The text of \<^verbatim>\<open>/etc/os-release\<close> is a parameter of
  \<^verbatim>\<open>detect\<close>; version numbers are naturals that the parser keeps below \<open>2\<^sup>3\<^sup>2\<close>.
\<close>

named_theorems family_lists \<open>the lists of family-specific actions\<close>

section \<open>Constants and types\<close>

definition MAX_OS_RELEASE_BYTES :: nat where
  "MAX_OS_RELEASE_BYTES = 10 * 1024"

definition OLDEST_ELIGIBLE_FEDORA_ATOMIC :: nat where
  "OLDEST_ELIGIBLE_FEDORA_ATOMIC = 41"

definition OLDEST_SUPPORTED_UBUNTU_MAJOR :: nat where
  "OLDEST_SUPPORTED_UBUNTU_MAJOR = 20"

definition OLDEST_SUPPORTED_DEBIAN :: nat where
  "OLDEST_SUPPORTED_DEBIAN = 12"

datatype parse_error =
    FileTooLarge
  | OsEmpty
  | InvalidLine string
  | MismatchedQuotes string
  | InvalidByte string

datatype detect_error = DetectIo string | DetectParse parse_error

record os_release =
  os_id :: string
  os_id_like :: "string list"
  os_version_id :: "string option"
  os_codename :: "string option"
  os_variant_id :: "string option"
  os_pretty_name :: "string option"

datatype distro_id =
    Fedora nat
  | FedoraSilverblue nat
  | Ubuntu nat nat
  | UbuntuCore nat nat
  | Debian "nat option"
  | OtherDistro string "string option" "string list"

datatype distro_family = FamilyFedora | FamilyDebian | FamilyOther

definition two_digits :: "nat \<Rightarrow> string" where
  "two_digits n = (if n < 10 then CHR ''0'' # dec n else dec n)"

fun distro_to_string :: "distro_id \<Rightarrow> string" where
  "distro_to_string (Fedora version) = ''Fedora '' @ dec version"
| "distro_to_string (FedoraSilverblue version) = ''FedoraSilverblue '' @ dec version"
| "distro_to_string (Ubuntu major minor) = ''Ubuntu '' @ dec major @ ''.'' @ two_digits minor"
| "distro_to_string (UbuntuCore major minor) = ''UbuntuCore '' @ dec major @ ''.'' @ two_digits minor"
| "distro_to_string (Debian (Some v)) = ''Debian '' @ dec v"
| "distro_to_string (Debian None) = ''Debian (unknown version)''"
| "distro_to_string (OtherDistro name (Some v) _) = name @ '' '' @ v"
| "distro_to_string (OtherDistro name None _) = name"

fun distro_family_of :: "distro_id \<Rightarrow> distro_family" where
  "distro_family_of (Fedora _) = FamilyFedora"
| "distro_family_of (FedoraSilverblue _) = FamilyFedora"
| "distro_family_of (Ubuntu _ _) = FamilyDebian"
| "distro_family_of (UbuntuCore _ _) = FamilyDebian"
| "distro_family_of (Debian _) = FamilyDebian"
| "distro_family_of (OtherDistro name _ id_like) =
     (if contains_str name ''fedora'' then FamilyFedora
      else if list_ex (\<lambda>p. p = ''debian'' \<or> p = ''ubuntu'') id_like then FamilyDebian
      else if list_ex (\<lambda>p. p = ''fedora'' \<or> p = ''rhel'') id_like then FamilyFedora
      else FamilyOther)"

fun is_supported :: "distro_id \<Rightarrow> bool" where
  "is_supported (Fedora _) = False"
| "is_supported (FedoraSilverblue version) \<longleftrightarrow> version \<ge> OLDEST_ELIGIBLE_FEDORA_ATOMIC"
| "is_supported (Ubuntu major _) \<longleftrightarrow> major \<ge> OLDEST_SUPPORTED_UBUNTU_MAJOR"
| "is_supported (Debian version) =
     (case version of Some v \<Rightarrow> v \<ge> OLDEST_SUPPORTED_DEBIAN | None \<Rightarrow> False)"
| "is_supported (UbuntuCore _ _) = False"
| "is_supported (OtherDistro _ _ _) = False"

section \<open>The parser of \<^verbatim>\<open>os-release\<close>\<close>

text \<open>\<^verbatim>\<open>str::lines\<close>: a line ends at a line feed, which takes a carriage return before it along; the
  text after the last line feed is a line when it is not empty.\<close>

definition strip_cr :: "string \<Rightarrow> string" where
  "strip_cr line = (if ends_with line [CHR 0x0D] then butlast line else line)"

definition lines_of :: "string \<Rightarrow> string list" where
  "lines_of s = (let pieces = split_char (CHR 0x0A) s in
     map strip_cr (butlast pieces) @ (if last pieces = [] then [] else [last pieces]))"

definition is_valid_key :: "string \<Rightarrow> bool" where
  "is_valid_key key =
     (case key of
        [] \<Rightarrow> False
      | first # rest \<Rightarrow> is_ascii_uppercase first
          \<and> list_all (\<lambda>c. is_ascii_uppercase c \<or> is_ascii_digit c \<or> c = CHR ''_'') rest)"

definition strip_quotes :: "string \<Rightarrow> string \<Rightarrow> parse_error + string" where
  "strip_quotes key raw =
     (if raw = [] then Inr []
      else if hd raw = CHR 0x22 \<or> hd raw = CHR 0x27 then
        (if last raw \<noteq> hd raw \<or> length raw < 2 then Inl (MismatchedQuotes key)
         else Inr (butlast (tl raw)))
      else Inr raw)"

definition is_ascii_whitespace :: "char \<Rightarrow> bool" where
  "is_ascii_whitespace c \<longleftrightarrow> byte c \<in> {9, 10, 12, 13, 32}"

fun split_where :: "(char \<Rightarrow> bool) \<Rightarrow> string \<Rightarrow> string list" where
  "split_where sep [] = [[]]"
| "split_where sep (c # s) =
     (if sep c then [] # split_where sep s
      else case split_where sep s of [] \<Rightarrow> [[c]] | w # ws \<Rightarrow> (c # w) # ws)"

definition raw_split_whitespace :: "string \<Rightarrow> string list" where
  "raw_split_whitespace s = filter (\<lambda>t. t \<noteq> []) (split_where is_ascii_whitespace s)"

definition refused_byte :: "char \<Rightarrow> bool" where
  "refused_byte c \<longleftrightarrow> (byte c < 32 \<or> byte c = 127) \<and> c \<noteq> CHR 0x09"

text \<open>The variables of the loop.\<close>

record os_fields =
  of_id :: "string option"
  of_id_like :: "string list"
  of_version_id :: "string option"
  of_codename :: "string option"
  of_variant_id :: "string option"
  of_pretty_name :: "string option"
  of_found_any :: bool

definition no_fields :: os_fields where
  "no_fields = \<lparr>of_id = None, of_id_like = [], of_version_id = None, of_codename = None,
                of_variant_id = None, of_pretty_name = None, of_found_any = False\<rparr>"

definition set_field :: "string \<Rightarrow> string \<Rightarrow> os_fields \<Rightarrow> os_fields" where
  "set_field key val f =
     (let f = f\<lparr>of_found_any := True\<rparr> in
      if key = ''ID'' then f\<lparr>of_id := Some val\<rparr>
      else if key = ''ID_LIKE'' then f\<lparr>of_id_like := raw_split_whitespace val\<rparr>
      else if key = ''VERSION_ID'' then f\<lparr>of_version_id := Some val\<rparr>
      else if key = ''VERSION_CODENAME'' then f\<lparr>of_codename := Some val\<rparr>
      else if key = ''VARIANT_ID'' then f\<lparr>of_variant_id := Some val\<rparr>
      else if key = ''PRETTY_NAME'' then f\<lparr>of_pretty_name := Some val\<rparr>
      else f)"

definition parse_line :: "string \<Rightarrow> os_fields \<Rightarrow> parse_error + os_fields" where
  "parse_line line f =
     (if line = [] \<or> starts_with line ''#'' then Inr f
      else and_then (ok_or (InvalidLine line) (split_once line ''='')) (\<lambda>(key, raw_value).
        if \<not> is_valid_key key then Inl (InvalidLine line)
        else if raw_value = [] then Inl (InvalidLine line)
        else and_then (strip_quotes key raw_value) (\<lambda>val.
          if list_ex refused_byte val then Inl (InvalidByte key)
          else Inr (set_field key val f))))"

fun parse_lines :: "string list \<Rightarrow> os_fields \<Rightarrow> parse_error + os_fields" where
  "parse_lines [] f = Inr f"
| "parse_lines (line # ls) f = and_then (parse_line line f) (parse_lines ls)"

definition parse_os_release :: "string \<Rightarrow> parse_error + os_release" where
  "parse_os_release contents =
     (if length contents > MAX_OS_RELEASE_BYTES then Inl FileTooLarge
      else and_then (parse_lines (lines_of contents) no_fields) (\<lambda>f.
        if \<not> of_found_any f then Inl OsEmpty
        else and_then (ok_or OsEmpty (of_id f)) (\<lambda>i.
          Inr \<lparr>os_id = i, os_id_like = of_id_like f, os_version_id = of_version_id f,
               os_codename = of_codename f, os_variant_id = of_variant_id f,
               os_pretty_name = of_pretty_name f\<rparr>)))"

section \<open>Detection\<close>

definition parse_u32 :: "string \<Rightarrow> nat option" where
  "parse_u32 s = parse_uint (2 ^ 32 - 1) s"

definition other_distro :: "os_release \<Rightarrow> distro_id" where
  "other_distro release = OtherDistro (os_id release) (os_version_id release) (os_id_like release)"

definition detect_fedora :: "os_release \<Rightarrow> distro_id" where
  "detect_fedora release =
     (let is_immutable = os_variant_id release \<in> {Some ''silverblue'', Some ''kinoite'', Some ''sericea''}
      in case Option.bind (os_version_id release) parse_u32 of
           Some v \<Rightarrow> if is_immutable then FedoraSilverblue v else Fedora v
         | None \<Rightarrow> other_distro release)"

definition parse_ubuntu_version :: "string \<Rightarrow> (nat \<times> nat) option" where
  "parse_ubuntu_version v =
     (case split_once v ''.'' of
        None \<Rightarrow> None
      | Some (a, b) \<Rightarrow>
          Option.bind (parse_u32 a) (\<lambda>major. Option.bind (parse_u32 b) (\<lambda>minor. Some (major, minor))))"

definition detect_ubuntu :: "os_release \<Rightarrow> distro_id" where
  "detect_ubuntu release =
     (let is_core = (os_variant_id release = Some ''core'')
      in case Option.bind (os_version_id release) parse_ubuntu_version of
           Some (major, minor) \<Rightarrow> if is_core then UbuntuCore major minor else Ubuntu major minor
         | None \<Rightarrow> other_distro release)"

definition detect_debian :: "os_release \<Rightarrow> distro_id" where
  "detect_debian release = Debian (Option.bind (os_version_id release) parse_u32)"

definition detect_distro :: "os_release \<Rightarrow> distro_id" where
  "detect_distro release =
     (if os_id release = ''fedora'' then detect_fedora release
      else if os_id release = ''ubuntu'' then detect_ubuntu release
      else if os_id release = ''debian'' then detect_debian release
      else other_distro release)"

definition detect :: "string + string \<Rightarrow> detect_error + distro_id" where
  "detect read_os_release =
     (case read_os_release of
        Inl e \<Rightarrow> Inl (DetectIo e)
      | Inr contents \<Rightarrow> (case parse_os_release contents of
            Inl e \<Rightarrow> Inl (DetectParse e)
          | Inr release \<Rightarrow> Inr (detect_distro release)))"

section \<open>Actions of one family\<close>

definition FEDORA_ONLY_ACTIONS :: "string list" where
  [family_lists]: "FEDORA_ONLY_ACTIONS =
     [''GetSystemState'', ''AddLayeredPackage'', ''RemoveLayeredPackage'',
      ''ReplaceLayeredPackage'', ''RemoveBasePackage'', ''ResetLayeredPackageOverride'',
      ''GetLayeredPackages'', ''GetDeploymentHistory'', ''ListDeployments'',
      ''CleanupDeployments'', ''RollbackDeployment'', ''PinDeployment'', ''UnpinDeployment'',
      ''RebaseSystem'', ''GetKernelArguments'', ''SetKernelArguments'', ''UpdateSystem'',
      ''InstallPackages'', ''RemovePackages'', ''GetPendingUpdates'',
      ''ListPackageRepositories'', ''AddPackageRepository'', ''RemovePackageRepository'',
      ''EnablePackageRepository'', ''DisablePackageRepository'']"

definition NON_CANONICAL_ON_DEBIAN :: "string list" where
  [family_lists]: "NON_CANONICAL_ON_DEBIAN =
     [''GetFirewallState'', ''ConfigureFirewall'', ''ListToolboxes'', ''CreateToolbox'',
      ''RemoveToolbox'']"

definition DEBIAN_ONLY_ACTIONS :: "string list" where
  [family_lists]: "DEBIAN_ONLY_ACTIONS =
     [''AptUpdate'', ''AptUpgrade'', ''AptInstall'', ''AptRemove'', ''AptPurge'',
      ''AptAutoremove'', ''AptHold'', ''AptUnhold'', ''AptSearch'', ''AptListInstalled'',
      ''AptShow'', ''AptListUpgradable'', ''AptHistoryList'', ''ConfigureUnattendedUpgrades'',
      ''GetAptPins'', ''SetAptPin'', ''RemoveAptPin'', ''GrubGetKargs'', ''GrubSetKargs'']"

definition UBUNTU_ONLY_ACTIONS :: "string list" where
  [family_lists]: "UBUNTU_ONLY_ACTIONS =
     [''AddPpa'', ''RemovePpa'', ''CheckPendingReboot'', ''UbuntuReleaseUpgrade'',
      ''ProStatus'', ''ProAttach'', ''ProDetach'', ''EnableProService'', ''DisableProService'',
      ''LivepatchStatus'']"

definition NON_CANONICAL_ON_DEBIAN_HOST :: "string list" where
  [family_lists]: "NON_CANONICAL_ON_DEBIAN_HOST =
     [''SnapInstall'', ''SnapRemove'', ''SnapRefresh'', ''SnapHold'', ''SnapUnhold'',
      ''SnapList'', ''SnapInfo'', ''SnapRevert'', ''SnapClassicInstall'', ''NetplanGetConfig'',
      ''NetplanApply'', ''NetplanSet'', ''NetplanGenerate'', ''MultipassList'']"

definition NON_CANONICAL_ON_FEDORA :: "string list" where
  [family_lists]: "NON_CANONICAL_ON_FEDORA =
     [''GetHostState'', ''SnapInstall'', ''SnapRemove'', ''SnapRefresh'', ''SnapHold'',
      ''SnapUnhold'', ''SnapList'', ''SnapInfo'', ''SnapRevert'', ''SnapClassicInstall'',
      ''UfwEnable'', ''UfwDisable'', ''UfwAllow'', ''UfwDeny'', ''UfwReset'', ''UfwStatus'',
      ''DistroboxList'', ''DistroboxCreate'', ''DistroboxRemove'', ''NetplanGetConfig'',
      ''NetplanApply'', ''NetplanSet'', ''NetplanGenerate'', ''AppArmorStatus'',
      ''AppArmorEnforce'', ''AppArmorComplain'', ''CloudInitStatus'', ''UbuntuInstallFlatpak'',
      ''UbuntuRemoveFlatpak'', ''UbuntuUpdateFlatpak'', ''UbuntuListFlatpaks'',
      ''Fail2banStatus'', ''Fail2banBanIp'', ''Fail2banUnbanIp'', ''ConfigureFail2banJail'',
      ''MultipassList'', ''UfwDeleteRule'', ''UfwLimit'']"

definition action_requires_distro :: "string \<Rightarrow> bool" where
  "action_requires_distro action =
     list_ex (\<lambda>names. action \<in> set names) [FEDORA_ONLY_ACTIONS, DEBIAN_ONLY_ACTIONS, UBUNTU_ONLY_ACTIONS]"

definition action_requires_supported_host :: "string \<Rightarrow> bool" where
  "action_requires_supported_host action \<longleftrightarrow> action_requires_distro action
     \<or> list_ex (\<lambda>names. action \<in> set names)
         [NON_CANONICAL_ON_DEBIAN, NON_CANONICAL_ON_DEBIAN_HOST, NON_CANONICAL_ON_FEDORA]"

definition action_matches_distro :: "string \<Rightarrow> distro_id \<Rightarrow> bool" where
  "action_matches_distro action distro =
     (if action \<in> set UBUNTU_ONLY_ACTIONS then (case distro of Ubuntu _ _ \<Rightarrow> True | _ \<Rightarrow> False)
      else if action \<in> set DEBIAN_ONLY_ACTIONS then distro_family_of distro = FamilyDebian
      else if action \<in> set FEDORA_ONLY_ACTIONS then distro_family_of distro = FamilyFedora
      else True)"

section \<open>Writing \<^verbatim>\<open>os-release\<close> back\<close>

text \<open>The grammar of the file, as its manual gives it: blank lines, comments, and assignments whose
  value is quoted. The meaning of a file is the last value of each key.\<close>

datatype os_line = Blank | Comment string | Assign string bool string

fun render_line :: "os_line \<Rightarrow> string" where
  "render_line Blank = []"
| "render_line (Comment c) = CHR ''#'' # c"
| "render_line (Assign key double val) =
     (let q = (if double then CHR 0x22 else CHR 0x27) in key @ CHR ''='' # q # val @ [q])"

definition render_file :: "os_line list \<Rightarrow> string" where
  "render_file ls = concat (map (\<lambda>l. render_line l @ [CHR 0x0A]) ls)"

fun os_line_ok :: "os_line \<Rightarrow> bool" where
  "os_line_ok Blank \<longleftrightarrow> True"
| "os_line_ok (Comment c) \<longleftrightarrow> CHR 0x0A \<notin> set c"
| "os_line_ok (Assign key _ val) \<longleftrightarrow> is_valid_key key \<and> \<not> list_ex refused_byte val"

definition last_value :: "os_line list \<Rightarrow> string \<Rightarrow> string option" where
  "last_value ls key =
     last_opt (concat (map (\<lambda>l. case l of Assign k _ v \<Rightarrow> if k = key then [v] else [] | _ \<Rightarrow> []) ls))"


lemma split_char_line: "d \<notin> set w \<Longrightarrow> split_char d (w @ d # s) = w # split_char d s"
  by (induction w) auto

lemma lines_of_line:
  assumes "CHR 0x0A \<notin> set w"
  shows "lines_of (w @ CHR 0x0A # s) = strip_cr w # lines_of s"
  by (simp add: lines_of_def split_char_line [OF assms] Let_def)

lemma valid_key_bytes:
  assumes "is_valid_key key"
  shows "key \<noteq> []" "CHR ''='' \<notin> set key" "CHR 0x0A \<notin> set key" "hd key \<noteq> CHR ''#''"
proof -
  obtain c r where key: "key = c # r" using assms by (cases key) (auto simp: is_valid_key_def)
  have ok: "is_ascii_uppercase x \<or> is_ascii_digit x \<or> x = CHR ''_''" if "x \<in> set key" for x
    using assms that by (auto simp: key is_valid_key_def list_all_iff)
  from ok [of "CHR ''=''"] ok [of "CHR 0x0A"] ok [of "CHR ''#''"]
  show "key \<noteq> []" "CHR ''='' \<notin> set key" "CHR 0x0A \<notin> set key" "hd key \<noteq> CHR ''#''"
    by (auto simp: key byte_class_defs)
qed

lemma render_line_one: "os_line_ok l \<Longrightarrow> CHR 0x0A \<notin> set (render_line l)"
  by (cases l) (auto simp: valid_key_bytes list_ex_iff refused_byte_def byte_def Let_def)

lemma lines_of_render:
  "list_all os_line_ok ls \<Longrightarrow> lines_of (render_file ls) = map (\<lambda>l. strip_cr (render_line l)) ls"
proof (induction ls)
  case Nil
  show ?case by (simp add: render_file_def lines_of_def)
next
  case (Cons l ls)
  then show ?case by (simp add: render_file_def lines_of_line render_line_one)
qed

fun assign_line :: "os_fields \<Rightarrow> os_line \<Rightarrow> os_fields" where
  "assign_line f (Assign key _ val) = set_field key val f"
| "assign_line f _ = f"

lemma parse_rendered_line:
  assumes "os_line_ok l"
  shows "parse_line (strip_cr (render_line l)) f = Inr (assign_line f l)"
proof (cases l)
  case Blank
  then show ?thesis by (simp add: strip_cr_def ends_with_single parse_line_def)
next
  case (Comment c)
  then show ?thesis
    by (cases "c = []") (auto simp: strip_cr_def ends_with_single parse_line_def starts_with_single)
next
  case (Assign key double val)
  let ?q = "if double then CHR 0x22 else CHR 0x27"
  have line: "strip_cr (render_line l) = key @ CHR ''='' # ?q # val @ [?q]"
    by (simp add: Assign strip_cr_def ends_with_single Let_def)
  have key: "is_valid_key key" "\<not> list_ex refused_byte val" using assms Assign by auto
  note bytes = valid_key_bytes [OF key(1)]
  have "split_once (key @ CHR ''='' # ?q # val @ [?q]) ''='' = Some (key, ?q # val @ [?q])"
    by (rule split_once_single) (rule bytes)
  moreover have "strip_quotes key (?q # val @ [?q]) = Inr val"
    by (simp add: strip_quotes_def)
  ultimately show ?thesis
    unfolding line using key bytes by (simp add: parse_line_def starts_with_single ok_or_def Assign)
qed

lemma parse_rendered:
  "list_all os_line_ok ls \<Longrightarrow>
   parse_lines (map (\<lambda>l. strip_cr (render_line l)) ls) f = Inr (foldl assign_line f ls)"
  by (induction ls arbitrary: f) (simp_all add: parse_rendered_line)

lemma last_value_snoc:
  "last_value (ls @ [l]) key =
     (case l of Assign k _ v \<Rightarrow> if k = key then Some v else last_value ls key | _ \<Rightarrow> last_value ls key)"
  by (simp add: last_value_def last_opt_append last_opt_def split: os_line.splits option.splits)

lemma assigned_fields:
  "of_id (foldl assign_line no_fields ls) = last_value ls ''ID''"
  "of_id_like (foldl assign_line no_fields ls) =
     (case last_value ls ''ID_LIKE'' of None \<Rightarrow> [] | Some v \<Rightarrow> raw_split_whitespace v)"
  "of_version_id (foldl assign_line no_fields ls) = last_value ls ''VERSION_ID''"
  "of_codename (foldl assign_line no_fields ls) = last_value ls ''VERSION_CODENAME''"
  "of_variant_id (foldl assign_line no_fields ls) = last_value ls ''VARIANT_ID''"
  "of_pretty_name (foldl assign_line no_fields ls) = last_value ls ''PRETTY_NAME''"
proof (induction ls rule: rev_induct)
  case Nil
  show "of_id (foldl assign_line no_fields []) = last_value [] ''ID''"
    "of_id_like (foldl assign_line no_fields []) =
       (case last_value [] ''ID_LIKE'' of None \<Rightarrow> [] | Some v \<Rightarrow> raw_split_whitespace v)"
    "of_version_id (foldl assign_line no_fields []) = last_value [] ''VERSION_ID''"
    "of_codename (foldl assign_line no_fields []) = last_value [] ''VERSION_CODENAME''"
    "of_variant_id (foldl assign_line no_fields []) = last_value [] ''VARIANT_ID''"
    "of_pretty_name (foldl assign_line no_fields []) = last_value [] ''PRETTY_NAME''"
    by (simp_all add: no_fields_def last_value_def)
next
  case (snoc l ls)
  note eqs = snoc.IH last_value_snoc set_field_def Let_def
  show "of_id (foldl assign_line no_fields (ls @ [l])) = last_value (ls @ [l]) ''ID''"
    "of_id_like (foldl assign_line no_fields (ls @ [l])) =
       (case last_value (ls @ [l]) ''ID_LIKE'' of None \<Rightarrow> [] | Some v \<Rightarrow> raw_split_whitespace v)"
    "of_version_id (foldl assign_line no_fields (ls @ [l])) = last_value (ls @ [l]) ''VERSION_ID''"
    "of_codename (foldl assign_line no_fields (ls @ [l])) = last_value (ls @ [l]) ''VERSION_CODENAME''"
    "of_variant_id (foldl assign_line no_fields (ls @ [l])) = last_value (ls @ [l]) ''VARIANT_ID''"
    "of_pretty_name (foldl assign_line no_fields (ls @ [l])) = last_value (ls @ [l]) ''PRETTY_NAME''"
    by (cases l; simp add: eqs)+
qed

lemma assigned_found: "last_value ls ''ID'' \<noteq> None \<Longrightarrow> of_found_any (foldl assign_line no_fields ls)"
proof (induction ls rule: rev_induct)
  case (snoc l ls)
  then show ?case by (cases l) (auto simp: last_value_snoc set_field_def Let_def)
qed (simp add: last_value_def)

text \<open>The reader of \<^verbatim>\<open>os-release\<close> returns what a file says. A file of at most 10 KiB made of blank
  lines, comments and quoted assignments reads as the last value of each key, whatever the values
  contain, so an embedded \<^verbatim>\<open>=\<close>, quote or \<^verbatim>\<open>#\<close> changes nothing; without an \<^verbatim>\<open>ID\<close> it is refused.\<close>

lemma os_release_roundtrip:
  assumes "list_all os_line_ok ls" "length (render_file ls) \<le> 10240"
  shows "parse_os_release (render_file ls) =
    (case last_value ls ''ID'' of
       None \<Rightarrow> Inl OsEmpty
     | Some name \<Rightarrow> Inr \<lparr>os_id = name,
         os_id_like = (case last_value ls ''ID_LIKE'' of None \<Rightarrow> [] | Some v \<Rightarrow> raw_split_whitespace v),
         os_version_id = last_value ls ''VERSION_ID'', os_codename = last_value ls ''VERSION_CODENAME'',
         os_variant_id = last_value ls ''VARIANT_ID'', os_pretty_name = last_value ls ''PRETTY_NAME''\<rparr>)"
  using assms assigned_found [of ls]
  by (cases "last_value ls ''ID''")
    (auto simp: parse_os_release_def MAX_OS_RELEASE_BYTES_def lines_of_render parse_rendered
      assigned_fields ok_or_def)

section \<open>Eligible hosts\<close>

lemma parse_u32_bound: "parse_u32 s = Some n \<Longrightarrow> n < 2 ^ 32"
  using parse_uint_bound [of "2 ^ 32 - 1" s n] by (simp add: parse_u32_def)

lemma supported_iff:
  "is_supported (detect_distro r) \<longleftrightarrow>
     os_id r = ''fedora'' \<and> os_variant_id r \<in> {Some ''silverblue'', Some ''kinoite'', Some ''sericea''}
       \<and> (\<exists>s v. os_version_id r = Some s \<and> parse_u32 s = Some v \<and> 41 \<le> v)
   \<or> os_id r = ''ubuntu'' \<and> os_variant_id r \<noteq> Some ''core''
       \<and> (\<exists>s major minor. os_version_id r = Some s \<and> parse_ubuntu_version s = Some (major, minor) \<and> 20 \<le> major)
   \<or> os_id r = ''debian'' \<and> (\<exists>s v. os_version_id r = Some s \<and> parse_u32 s = Some v \<and> 12 \<le> v)"
proof -
  have "is_supported (detect_fedora r) \<longleftrightarrow>
      os_variant_id r \<in> {Some ''silverblue'', Some ''kinoite'', Some ''sericea''}
      \<and> (\<exists>s v. os_version_id r = Some s \<and> parse_u32 s = Some v \<and> 41 \<le> v)"
    by (auto simp: detect_fedora_def Let_def other_distro_def OLDEST_ELIGIBLE_FEDORA_ATOMIC_def
        bind_eq_Some_conv split: option.splits)
  moreover have "is_supported (detect_ubuntu r) \<longleftrightarrow> os_variant_id r \<noteq> Some ''core''
      \<and> (\<exists>s major minor. os_version_id r = Some s \<and> parse_ubuntu_version s = Some (major, minor) \<and> 20 \<le> major)"
    by (auto simp: detect_ubuntu_def Let_def other_distro_def OLDEST_SUPPORTED_UBUNTU_MAJOR_def
        bind_eq_Some_conv split: option.splits)
  moreover have "is_supported (detect_debian r) \<longleftrightarrow>
      (\<exists>s v. os_version_id r = Some s \<and> parse_u32 s = Some v \<and> 12 \<le> v)"
    by (auto simp: detect_debian_def OLDEST_SUPPORTED_DEBIAN_def bind_eq_Some_conv split: option.splits)
  ultimately show ?thesis by (auto simp: detect_distro_def other_distro_def)
qed

end
