(* ===== verification/Sk_Platform.thy ===== *)
theory Sk_Platform
  imports Sk_Policy Sk_Argv Sk_Distro
begin

text \<open>
  The platform fence (\<^verbatim>\<open>validate_action_platform\<close> in \<^verbatim>\<open>dispatcher.rs\<close>): which host an action may
  run on. It reads the baseline policy, the action families and the detected distribution.
\<close>

definition validate_action_platform :: "distro_id option \<Rightarrow> string \<Rightarrow> string + unit" where
  "validate_action_platform host_distro action_name =
     (let is_mutating = (case min_role_for_action action_name of Some role \<Rightarrow> role > Observer | None \<Rightarrow> False) in
      if \<not> action_requires_distro action_name \<and> \<not> is_mutating then Inr ()
      else and_then
        (ok_or (''cannot safely run '' @ action_name @ '': host distribution could not be detected'') host_distro)
        (\<lambda>distro.
          if \<not> is_supported distro then
            Inl (''cannot run '' @ action_name @ '' on unsupported host '' @ distro_to_string distro
                 @ ''; see docs/distro-support.md'')
          else if \<not> action_matches_distro action_name distro then
            Inl (''action '' @ action_name @ '' is incompatible with supported host '' @ distro_to_string distro)
          else Inr ()))"

section \<open>What a command drives\<close>

text \<open>The tool of a command: its program, the target of \<^verbatim>\<open>sudo\<close>, or the tool that the helper of
  privileged steps is asked to drive.\<close>

fun sudo_tool :: "string list \<Rightarrow> string" where
  "sudo_tool (w # v # ws) = (if w = ACTION_STEPS then v else w)"
| "sudo_tool [w] = w"
| "sudo_tool [] = []"

fun tool_of :: "action_mechanism \<Rightarrow> string" where
  "tool_of (Command program args) = (if program = ''sudo'' then sudo_tool args else program)"
| "tool_of _ = []"

fun writes_file :: "action_mechanism \<Rightarrow> bool" where
  "writes_file (FileWrite _ _) = True"
| "writes_file (FilePatch _ _ _) = True"
| "writes_file (FileDelete _) = True"
| "writes_file _ = False"

definition fedora_shaped :: "action_mechanism \<Rightarrow> bool" where
  "fedora_shaped mech \<longleftrightarrow> tool_of mech \<in> {''rpm-ostree'', ''ostree''} \<or> writes_file mech"

definition debian_shaped :: "action_mechanism \<Rightarrow> bool" where
  "debian_shaped mech \<longleftrightarrow> tool_of mech \<in> {''apt'', ''apt-cache'', ''dpkg'', ''/usr/lib/sysknife/apt-pin-edit'',
     ''/usr/lib/sysknife/unattended-upgrades-edit'', ''/usr/lib/sysknife/grub-kargs-edit''}"

definition ubuntu_shaped :: "action_mechanism \<Rightarrow> bool" where
  "ubuntu_shaped mech \<longleftrightarrow>
     tool_of mech \<in> {''pro'', ''add-apt-repository'', ''do-release-upgrade'', ''canonical-livepatch''}"

definition fenced :: "string \<Rightarrow> action_mechanism \<Rightarrow> bool" where
  "fenced n mech \<longleftrightarrow> (fedora_shaped mech \<longrightarrow> n \<in> set FEDORA_ONLY_ACTIONS)
     \<and> (debian_shaped mech \<longrightarrow> n \<in> set DEBIAN_ONLY_ACTIONS)
     \<and> (ubuntu_shaped mech \<longrightarrow> n \<in> set UBUNTU_ONLY_ACTIONS)"

definition built_fenced :: "(string \<times> builder) list \<Rightarrow> bool" where
  "built_fenced bs \<longleftrightarrow>
     list_all (\<lambda>(n, build). \<forall>params. yields (\<lambda>spec. fenced n (as_mechanism spec)) (build params)) bs"

lemma fedora_names:
  "''GetSystemState'' \<in> set FEDORA_ONLY_ACTIONS" "''AddLayeredPackage'' \<in> set FEDORA_ONLY_ACTIONS"
  "''RemoveLayeredPackage'' \<in> set FEDORA_ONLY_ACTIONS" "''ReplaceLayeredPackage'' \<in> set FEDORA_ONLY_ACTIONS"
  "''RemoveBasePackage'' \<in> set FEDORA_ONLY_ACTIONS"
  "''ResetLayeredPackageOverride'' \<in> set FEDORA_ONLY_ACTIONS"
  "''GetLayeredPackages'' \<in> set FEDORA_ONLY_ACTIONS" "''GetDeploymentHistory'' \<in> set FEDORA_ONLY_ACTIONS"
  "''ListDeployments'' \<in> set FEDORA_ONLY_ACTIONS" "''CleanupDeployments'' \<in> set FEDORA_ONLY_ACTIONS"
  "''RollbackDeployment'' \<in> set FEDORA_ONLY_ACTIONS" "''PinDeployment'' \<in> set FEDORA_ONLY_ACTIONS"
  "''UnpinDeployment'' \<in> set FEDORA_ONLY_ACTIONS" "''RebaseSystem'' \<in> set FEDORA_ONLY_ACTIONS"
  "''GetKernelArguments'' \<in> set FEDORA_ONLY_ACTIONS" "''SetKernelArguments'' \<in> set FEDORA_ONLY_ACTIONS"
  "''UpdateSystem'' \<in> set FEDORA_ONLY_ACTIONS" "''InstallPackages'' \<in> set FEDORA_ONLY_ACTIONS"
  "''RemovePackages'' \<in> set FEDORA_ONLY_ACTIONS" "''GetPendingUpdates'' \<in> set FEDORA_ONLY_ACTIONS"
  "''ListPackageRepositories'' \<in> set FEDORA_ONLY_ACTIONS"
  "''AddPackageRepository'' \<in> set FEDORA_ONLY_ACTIONS"
  "''RemovePackageRepository'' \<in> set FEDORA_ONLY_ACTIONS"
  "''EnablePackageRepository'' \<in> set FEDORA_ONLY_ACTIONS"
  "''DisablePackageRepository'' \<in> set FEDORA_ONLY_ACTIONS"
  unfolding FEDORA_ONLY_ACTIONS_def by ((rule list.set_intros(1) | rule list.set_intros(2))+)

lemma debian_names:
  "''AptUpdate'' \<in> set DEBIAN_ONLY_ACTIONS" "''AptUpgrade'' \<in> set DEBIAN_ONLY_ACTIONS"
  "''AptInstall'' \<in> set DEBIAN_ONLY_ACTIONS" "''AptRemove'' \<in> set DEBIAN_ONLY_ACTIONS"
  "''AptPurge'' \<in> set DEBIAN_ONLY_ACTIONS" "''AptAutoremove'' \<in> set DEBIAN_ONLY_ACTIONS"
  "''AptHold'' \<in> set DEBIAN_ONLY_ACTIONS" "''AptUnhold'' \<in> set DEBIAN_ONLY_ACTIONS"
  "''AptSearch'' \<in> set DEBIAN_ONLY_ACTIONS" "''AptListInstalled'' \<in> set DEBIAN_ONLY_ACTIONS"
  "''AptShow'' \<in> set DEBIAN_ONLY_ACTIONS" "''AptListUpgradable'' \<in> set DEBIAN_ONLY_ACTIONS"
  "''AptHistoryList'' \<in> set DEBIAN_ONLY_ACTIONS" "''ConfigureUnattendedUpgrades'' \<in> set DEBIAN_ONLY_ACTIONS"
  "''GetAptPins'' \<in> set DEBIAN_ONLY_ACTIONS" "''SetAptPin'' \<in> set DEBIAN_ONLY_ACTIONS"
  "''RemoveAptPin'' \<in> set DEBIAN_ONLY_ACTIONS" "''GrubGetKargs'' \<in> set DEBIAN_ONLY_ACTIONS"
  "''GrubSetKargs'' \<in> set DEBIAN_ONLY_ACTIONS"
  unfolding DEBIAN_ONLY_ACTIONS_def by ((rule list.set_intros(1) | rule list.set_intros(2))+)

lemma ubuntu_names:
  "''AddPpa'' \<in> set UBUNTU_ONLY_ACTIONS" "''RemovePpa'' \<in> set UBUNTU_ONLY_ACTIONS"
  "''CheckPendingReboot'' \<in> set UBUNTU_ONLY_ACTIONS" "''UbuntuReleaseUpgrade'' \<in> set UBUNTU_ONLY_ACTIONS"
  "''ProStatus'' \<in> set UBUNTU_ONLY_ACTIONS" "''ProAttach'' \<in> set UBUNTU_ONLY_ACTIONS"
  "''ProDetach'' \<in> set UBUNTU_ONLY_ACTIONS" "''EnableProService'' \<in> set UBUNTU_ONLY_ACTIONS"
  "''DisableProService'' \<in> set UBUNTU_ONLY_ACTIONS" "''LivepatchStatus'' \<in> set UBUNTU_ONLY_ACTIONS"
  unfolding UBUNTU_ONLY_ACTIONS_def by ((rule list.set_intros(1) | rule list.set_intros(2))+)

lemma sudo_tool_steps:
  "sudo_tool (''/usr/lib/sysknife/action-steps'' # v # ws) = v"
  "w \<noteq> ''/usr/lib/sysknife/action-steps'' \<Longrightarrow> sudo_tool (w # ws) = w"
  by (simp add: ACTION_STEPS_def) (cases ws; simp add: ACTION_STEPS_def)

declare sudo_tool.simps [simp del]

lemma fenced_command:
  "fenced n (Command program args) \<longleftrightarrow>
     (let t = tool_of (Command program args) in
      (t \<in> {''rpm-ostree'', ''ostree''} \<longrightarrow> n \<in> set FEDORA_ONLY_ACTIONS)
      \<and> (t \<in> {''apt'', ''apt-cache'', ''dpkg'', ''/usr/lib/sysknife/apt-pin-edit'',
           ''/usr/lib/sysknife/unattended-upgrades-edit'', ''/usr/lib/sysknife/grub-kargs-edit''}
           \<longrightarrow> n \<in> set DEBIAN_ONLY_ACTIONS)
      \<and> (t \<in> {''pro'', ''add-apt-repository'', ''do-release-upgrade'', ''canonical-livepatch''}
           \<longrightarrow> n \<in> set UBUNTU_ONLY_ACTIONS))"
  by (simp add: fenced_def fedora_shaped_def debian_shaped_def ubuntu_shaped_def Let_def)

lemma fenced_file:
  "fenced n (FileScan path)"
  "n \<in> set FEDORA_ONLY_ACTIONS \<Longrightarrow> fenced n (FileWrite path content)"
  "n \<in> set FEDORA_ONLY_ACTIONS \<Longrightarrow> fenced n (FilePatch path a b)"
  "n \<in> set FEDORA_ONLY_ACTIONS \<Longrightarrow> fenced n (FileDelete path)"
  by (simp_all add: fenced_def fedora_shaped_def debian_shaped_def ubuntu_shaped_def)

lemmas fence_simps = fenced_command fenced_file sudo_tool_steps fedora_names debian_names ubuntu_names
  action_defs Let_def

lemma sections_fenced_1:
  "built_fenced deployment_builders" "built_fenced flatpak_builders"
  "built_fenced containers_builders" "built_fenced layering_builders"
  "built_fenced package_repos_builders" "built_fenced services_builders"
  "built_fenced toolbox_builders" "built_fenced identity_builders"
  "built_fenced filesystem_builders" "built_fenced processes_builders"
  "built_fenced journald_builders"
  unfolding built_fenced_def deployment_builders_def flatpak_builders_def containers_builders_def layering_builders_def
    package_repos_builders_def services_builders_def toolbox_builders_def identity_builders_def
    filesystem_builders_def processes_builders_def journald_builders_def entry_rules
  by (rule conjI allI TrueI | rule yield_rules | (simp add: fence_simps; fail)
      | (auto simp: fence_simps split: option.splits if_splits; fail))+

lemma sections_fenced_2:
  "built_fenced lvm_builders" "built_fenced sysctl_builders" "built_fenced mounts_builders"
  "built_fenced sudoers_builders" "built_fenced apt_preferences_builders"
  "built_fenced logging_builders" "built_fenced pam_builders" "built_fenced system_info_builders"
  "built_fenced network_builders" "built_fenced users_builders" "built_fenced ssh_builders"
  unfolding built_fenced_def lvm_builders_def sysctl_builders_def mounts_builders_def sudoers_builders_def
    apt_preferences_builders_def logging_builders_def pam_builders_def system_info_builders_def
    network_builders_def users_builders_def ssh_builders_def entry_rules
  by (rule conjI allI TrueI | rule yield_rules | (simp add: fence_simps; fail)
      | (auto simp: fence_simps split: option.splits if_splits; fail))+

lemma sections_fenced_3:
  "built_fenced apt_builders" "built_fenced ppa_builders" "built_fenced snap_builders"
  "built_fenced grub_builders" "built_fenced reboot_builders" "built_fenced ufw_builders"
  "built_fenced distrobox_builders" "built_fenced netplan_builders"
  "built_fenced ufw_tier3_builders" "built_fenced ubuntu_pro_builders"
  "built_fenced livepatch_builders"
  unfolding built_fenced_def apt_builders_def ppa_builders_def snap_builders_def grub_builders_def reboot_builders_def
    ufw_builders_def distrobox_builders_def netplan_builders_def ufw_tier3_builders_def
    ubuntu_pro_builders_def livepatch_builders_def entry_rules
  by (rule conjI allI TrueI | rule yield_rules | (simp add: fence_simps; fail)
      | (auto simp: fence_simps split: option.splits if_splits; fail))+

lemma sections_fenced_4:
  "built_fenced multipass_builders" "built_fenced release_upgrade_builders"
  "built_fenced resolvectl_builders" "built_fenced apparmor_builders"
  "built_fenced cloudinit_builders" "built_fenced ubuntu_flatpak_builders"
  "built_fenced fail2ban_builders" "built_fenced auditd_builders" "built_fenced certbot_builders"
  unfolding built_fenced_def multipass_builders_def release_upgrade_builders_def resolvectl_builders_def
    apparmor_builders_def cloudinit_builders_def ubuntu_flatpak_builders_def
    fail2ban_builders_def auditd_builders_def certbot_builders_def entry_rules
  by (rule conjI allI TrueI | rule yield_rules | (simp add: fence_simps; fail)
      | (auto simp: fence_simps split: option.splits if_splits; fail))+


lemma built_fenced_append: "built_fenced bs \<Longrightarrow> built_fenced bs' \<Longrightarrow> built_fenced (bs @ bs')"
  by (simp add: built_fenced_def)

lemma built_fenced_Nil: "built_fenced []"
  by (simp add: built_fenced_def)

lemma action_builders_fenced: "built_fenced action_builders"
  unfolding action_builders_def concat.simps
  by (intro built_fenced_append built_fenced_Nil sections_fenced_1 sections_fenced_2 sections_fenced_3
      sections_fenced_4)

lemma executed_fenced:
  assumes "build_action_spec n params = Inr spec \<or> rollback_spec_for n = Some spec"
  shows "fenced n (as_mechanism spec)"
  using assms
proof
  assume "build_action_spec n params = Inr spec"
  then obtain build where b: "(n, build) \<in> set action_builders" "build params = Inr spec"
    using build_action_spec_entry by blast
  then have "yields (\<lambda>spec. fenced n (as_mechanism spec)) (build params)"
    using action_builders_fenced b(1) unfolding built_fenced_def list_all_iff by blast
  then show ?thesis using b(2) by (simp add: yields_iff)
next
  assume "rollback_spec_for n = Some spec"
  then show ?thesis
    by (auto simp: rollback_spec_for_def fence_simps split: if_splits)
qed

lemma passed_fence:
  assumes "validate_action_platform host n = Inr ()" "action_requires_distro n"
  obtains distro where "host = Some distro" "is_supported distro" "action_matches_distro n distro"
  using assms by (auto simp: validate_action_platform_def Let_def ok_or_def split: option.splits if_splits)

lemma families_disjoint:
  "n \<in> set FEDORA_ONLY_ACTIONS \<Longrightarrow> n \<notin> set DEBIAN_ONLY_ACTIONS \<and> n \<notin> set UBUNTU_ONLY_ACTIONS"
  "n \<in> set DEBIAN_ONLY_ACTIONS \<Longrightarrow> n \<notin> set UBUNTU_ONLY_ACTIONS"
proof -
  have "set FEDORA_ONLY_ACTIONS \<inter> set DEBIAN_ONLY_ACTIONS = {}"
    "set FEDORA_ONLY_ACTIONS \<inter> set UBUNTU_ONLY_ACTIONS = {}"
    "set DEBIAN_ONLY_ACTIONS \<inter> set UBUNTU_ONLY_ACTIONS = {}"
    by code_simp+
  then show "n \<in> set FEDORA_ONLY_ACTIONS \<Longrightarrow> n \<notin> set DEBIAN_ONLY_ACTIONS \<and> n \<notin> set UBUNTU_ONLY_ACTIONS"
    "n \<in> set DEBIAN_ONLY_ACTIONS \<Longrightarrow> n \<notin> set UBUNTU_ONLY_ACTIONS"
    by blast+
qed

lemma requires_distro_iff:
  "action_requires_distro n \<longleftrightarrow> n \<in> set FEDORA_ONLY_ACTIONS \<or> n \<in> set DEBIAN_ONLY_ACTIONS \<or> n \<in> set UBUNTU_ONLY_ACTIONS"
  by (simp add: action_requires_distro_def)

lemma supported_of_family:
  assumes "is_supported distro"
  shows "distro_family_of distro = FamilyFedora \<longleftrightarrow> (\<exists>v. distro = FedoraSilverblue v \<and> 41 \<le> v)"
    and "distro_family_of distro = FamilyDebian \<longleftrightarrow>
      (\<exists>major minor. distro = Ubuntu major minor \<and> 20 \<le> major) \<or> (\<exists>v. distro = Debian (Some v) \<and> 12 \<le> v)"
    and "(case distro of Ubuntu _ _ \<Rightarrow> True | _ \<Rightarrow> False) \<longleftrightarrow>
      (\<exists>major minor. distro = Ubuntu major minor \<and> 20 \<le> major)"
  using assms
  by (cases distro; auto simp: OLDEST_ELIGIBLE_FEDORA_ATOMIC_def OLDEST_SUPPORTED_UBUNTU_MAJOR_def
      OLDEST_SUPPORTED_DEBIAN_def split: option.splits)+

lemma history_not_built: "build_action_spec ''ListJobHistory'' params \<noteq> Inr spec"
  using history_not_catalogued build_action_spec_entry match.built_described(2)
  by (fastforce simp: list_all_iff)

lemma executed_guarded:
  assumes "build_action_spec n params = Inr spec \<or> rollback_spec_for n = Some spec" "as_risk_level spec \<noteq> Low"
  shows "(\<exists>role. min_role_for_action n = Some role \<and> Observer < role) \<or> action_requires_distro n"
  using assms(1)
proof
  assume "build_action_spec n params = Inr spec"
  then have "min_role_for_action n = Some (role_for_risk_level (as_risk_level spec))"
    using executed_role_is_risk_role history_not_built by blast
  then show ?thesis
    using assms(2) by (cases "as_risk_level spec") (simp_all add: less_caller_role_def)
next
  assume "rollback_spec_for n = Some spec"
  then show ?thesis
    by (auto simp: rollback_spec_for_def requires_distro_iff fedora_names split: if_splits)
qed

text \<open>C33: A package manager is driven only where it exists. When an action passes the platform fence,
  whatever its parameters, a command that drives \<^verbatim>\<open>rpm-ostree\<close> or writes a repository file runs on
  Fedora Atomic 41 or later; one that drives \<^verbatim>\<open>apt\<close>, \<^verbatim>\<open>dpkg\<close> or the boot loader of Debian runs on
  Ubuntu 20 or Debian 12 or later; one of Ubuntu's own tools runs on Ubuntu 20 or later. The same
  holds of its automatic rollback, and an action that needs more than the observer role passes
  only on a detected, supported host.\<close>

theorem tool_runs_on_its_family:
  assumes "build_action_spec n params = Inr spec \<or> rollback_spec_for n = Some spec"
    and "validate_action_platform host n = Inr ()"
  shows "(fedora_shaped (as_mechanism spec) \<longrightarrow> (\<exists>v. host = Some (FedoraSilverblue v) \<and> 41 \<le> v))
    \<and> (debian_shaped (as_mechanism spec) \<longrightarrow>
         (\<exists>major minor. host = Some (Ubuntu major minor) \<and> 20 \<le> major)
         \<or> (\<exists>v. host = Some (Debian (Some v)) \<and> 12 \<le> v))
    \<and> (ubuntu_shaped (as_mechanism spec) \<longrightarrow> (\<exists>major minor. host = Some (Ubuntu major minor) \<and> 20 \<le> major))
    \<and> (as_risk_level spec \<noteq> Low \<longrightarrow> (\<exists>distro. host = Some distro \<and> is_supported distro))"
proof (intro conjI impI)
  note fence = executed_fenced [OF assms(1)]
  show "\<exists>v. host = Some (FedoraSilverblue v) \<and> 41 \<le> v" if "fedora_shaped (as_mechanism spec)"
  proof -
    have n: "n \<in> set FEDORA_ONLY_ACTIONS" using fence that by (simp add: fenced_def)
    then obtain distro where "host = Some distro" "is_supported distro" "action_matches_distro n distro"
      using passed_fence [OF assms(2)] by (auto simp: requires_distro_iff)
    then show ?thesis
      using families_disjoint [of n] n supported_of_family by (auto simp: action_matches_distro_def)
  qed
  show "(\<exists>major minor. host = Some (Ubuntu major minor) \<and> 20 \<le> major)
      \<or> (\<exists>v. host = Some (Debian (Some v)) \<and> 12 \<le> v)" if "debian_shaped (as_mechanism spec)"
  proof -
    have n: "n \<in> set DEBIAN_ONLY_ACTIONS" using fence that by (simp add: fenced_def)
    then obtain distro where "host = Some distro" "is_supported distro" "action_matches_distro n distro"
      using passed_fence [OF assms(2)] by (auto simp: requires_distro_iff)
    then show ?thesis
      using families_disjoint(2) [of n] n supported_of_family(2) [of distro] by (auto simp: action_matches_distro_def)
  qed
  show "\<exists>major minor. host = Some (Ubuntu major minor) \<and> 20 \<le> major" if "ubuntu_shaped (as_mechanism spec)"
  proof -
    have n: "n \<in> set UBUNTU_ONLY_ACTIONS" using fence that by (simp add: fenced_def)
    then obtain distro where "host = Some distro" "is_supported distro" "action_matches_distro n distro"
      using passed_fence [OF assms(2)] by (auto simp: requires_distro_iff)
    then show ?thesis
      using n supported_of_family(3) [of distro] by (simp add: action_matches_distro_def)
  qed
  show "\<exists>distro. host = Some distro \<and> is_supported distro" if "as_risk_level spec \<noteq> Low"
  proof -
    have "(\<exists>role. min_role_for_action n = Some role \<and> Observer < role) \<or> action_requires_distro n"
      using assms(1) by (rule executed_guarded) (rule that)
    then show ?thesis
      using assms(2) by (auto simp: validate_action_platform_def Let_def ok_or_def split: option.splits if_splits)
  qed
qed

theorem tool_runs_on_its_family_witness:
  "is_supported (FedoraSilverblue 42)
   \<and> (\<exists>v. Some (FedoraSilverblue 42) = Some (FedoraSilverblue v) \<and> 41 \<le> v)"
proof -
  have name: "''UpdateSystem'' \<notin> set UBUNTU_ONLY_ACTIONS" "''UpdateSystem'' \<notin> set DEBIAN_ONLY_ACTIONS"
    using families_disjoint(1) fedora_names by blast+
  have ok: "validate_action_platform (Some (FedoraSilverblue 42)) ''UpdateSystem'' = Inr ()"
    by (simp add: validate_action_platform_def Let_def ok_or_def OLDEST_ELIGIBLE_FEDORA_ATOMIC_def
        action_matches_distro_def name)
  have "fedora_shaped (as_mechanism update_system)"
    by (simp add: fedora_shaped_def sudo_tool_steps action_defs)
  with tool_runs_on_its_family [OF disjI1 ok, OF build_UpdateSystem] show ?thesis
    by (simp add: OLDEST_ELIGIBLE_FEDORA_ATOMIC_def)
qed

end
