(* ===== verification/Sk_Framing.thy ===== *)
theory Sk_Framing
  imports Sk_Prelude "HOL-Library.Word"
begin

text \<open>
  The framing of the socket (\<^verbatim>\<open>transport/framing.rs\<close>): a message is its length in four bytes, least
  significant first, and its bytes. What the operating system does is part of the state: the bytes
  the peer has sent before it closes, and for every \<^verbatim>\<open>read\<close> how much of them is delivered or that
  it fails; for the writing side, how many bytes are accepted before a write fails.
\<close>

type_synonym bytes = "8 word list"

section \<open>The operating system\<close>

datatype framing_error = MessageTooLarge nat | FramingIo string

datatype read_event = Chunk nat | ReadFail string

record stream =
  in_bytes :: bytes
  in_events :: "read_event list"

record sink =
  out_bytes :: bytes
  out_budget :: "nat option"

definition take_chunk :: "nat \<Rightarrow> stream \<Rightarrow> bytes \<times> stream" where
  "take_chunk n s = (take n (in_bytes s), s\<lparr>in_bytes := drop n (in_bytes s)\<rparr>)"

text \<open>\<^verbatim>\<open>read\<close> of at most \<open>want\<close> bytes: nothing at the end of the stream, at least one byte before it.\<close>

definition read_some :: "nat \<Rightarrow> stream \<Rightarrow> framing_error + (bytes \<times> stream)" where
  "read_some want s =
     (case in_events s of
        [] \<Rightarrow> Inr (take_chunk want s)
      | Chunk k # es \<Rightarrow> Inr (take_chunk (min want (max 1 k)) (s\<lparr>in_events := es\<rparr>))
      | ReadFail e # es \<Rightarrow> Inl (FramingIo e))"

definition write_all :: "bytes \<Rightarrow> sink \<Rightarrow> (framing_error + unit) \<times> sink" where
  "write_all data w =
     (case out_budget w of
        None \<Rightarrow> (Inr (), w\<lparr>out_bytes := out_bytes w @ data\<rparr>)
      | Some k \<Rightarrow>
          if length data \<le> k
          then (Inr (), w\<lparr>out_bytes := out_bytes w @ data, out_budget := Some (k - length data)\<rparr>)
          else (Inl (FramingIo ''write failed''),
                w\<lparr>out_bytes := out_bytes w @ take k data, out_budget := Some 0\<rparr>))"

section \<open>Framing\<close>

definition MAX_MESSAGE_BYTES :: nat where
  "MAX_MESSAGE_BYTES = 4 * 1024 * 1024"

definition READ_CHUNK_BYTES :: nat where
  "READ_CHUNK_BYTES = 64 * 1024"

definition to_le_bytes :: "32 word \<Rightarrow> bytes" where
  "to_le_bytes w = map (\<lambda>i. word_of_nat (unat w div 256 ^ i)) [0, 1, 2, 3]"

definition from_le_bytes :: "bytes \<Rightarrow> 32 word" where
  "from_le_bytes bs = word_of_nat (foldr (\<lambda>b acc. unat b + 256 * acc) bs 0)"

definition send_frame :: "bytes \<Rightarrow> sink \<Rightarrow> (framing_error + unit) \<times> sink" where
  "send_frame data w =
     (if length data > MAX_MESSAGE_BYTES then (Inl (MessageTooLarge (length data)), w)
      else case write_all (to_le_bytes (word_of_nat (length data))) w of
             (Inl e, w) \<Rightarrow> (Inl e, w)
           | (Inr _, w) \<Rightarrow> write_all data w)"

text \<open>The loop of \<^verbatim>\<open>recv\<close> over the body; \<^verbatim>\<open>read_exact\<close> fills the header in the same way, with a buffer
  of the length of the header.\<close>

function fill_loop :: "nat \<Rightarrow> string \<Rightarrow> nat \<Rightarrow> bytes \<Rightarrow> stream \<Rightarrow> framing_error + (bytes \<times> stream)" where
  "fill_loop buf eof len body s =
     (if length body < len then
        (case read_some (min (len - length body) buf) s of
           Inl e \<Rightarrow> Inl e
         | Inr (chunk, s') \<Rightarrow>
             if chunk = [] then Inl (FramingIo eof)
             else fill_loop buf eof len (body @ chunk) s')
      else Inr (body, s))"
  by pat_completeness auto
termination
  by (relation "measure (\<lambda>(buf, eof, len, body, s). len - length body)") (auto intro: diff_less_mono2)

definition read_exact :: "nat \<Rightarrow> stream \<Rightarrow> framing_error + (bytes \<times> stream)" where
  "read_exact n s = fill_loop n ''early eof'' n [] s"

definition recv_frame :: "stream \<Rightarrow> framing_error + (bytes \<times> stream)" where
  "recv_frame s =
     and_then (read_exact 4 s) (\<lambda>(header, s).
       let len = unat (from_le_bytes header) in
       if len > MAX_MESSAGE_BYTES then Inl (MessageTooLarge len)
       else fill_loop READ_CHUNK_BYTES
              ''connection closed before the full frame body arrived'' len [] s)"

declare fill_loop.simps [simp del]

section \<open>Reading\<close>

definition no_failure :: "stream \<Rightarrow> bool" where
  "no_failure s \<longleftrightarrow> list_all (\<lambda>e. case e of Chunk _ \<Rightarrow> True | ReadFail _ \<Rightarrow> False) (in_events s)"

text \<open>A successful read takes between one and \<open>want\<close> bytes off the stream, or none at its end.\<close>

lemma read_some_progress:
  assumes "no_failure s" "0 < want"
  shows "\<exists>n es. read_some want s = Inr (take n (in_bytes s), \<lparr>in_bytes = drop n (in_bytes s), in_events = es\<rparr>)
           \<and> 0 < n \<and> n \<le> want \<and> no_failure \<lparr>in_bytes = drop n (in_bytes s), in_events = es\<rparr>"
proof (cases "in_events s")
  case Nil
  then show ?thesis
    using assms by (intro exI [of _ want] exI [of _ "[]"]) (simp add: read_some_def take_chunk_def no_failure_def)
next
  case (Cons e es)
  then obtain k where "e = Chunk k" using assms(1) by (cases e) (auto simp: no_failure_def)
  then show ?thesis
    using assms Cons
    by (intro exI [of _ "min want (max 1 k)"] exI [of _ es]) (simp add: read_some_def take_chunk_def no_failure_def)
qed

text \<open>With enough bytes in the stream the loop returns exactly the next ones, however they are cut.\<close>

lemma fill_loop_complete:
  assumes "no_failure s" "0 < buf" "length body \<le> len" "len - length body \<le> length (in_bytes s)"
  shows "\<exists>s'. fill_loop buf eof len body s = Inr (body @ take (len - length body) (in_bytes s), s')
           \<and> in_bytes s' = drop (len - length body) (in_bytes s) \<and> no_failure s'"
  using assms
proof (induction buf eof len body s rule: fill_loop.induct)
  case (1 buf eof len body s)
  show ?case
  proof (cases "length body < len")
    case False
    with "1.prems" show ?thesis by (simp add: fill_loop.simps)
  next
    case True
    let ?want = "min (len - length body) buf"
    obtain n es where n: "read_some ?want s = Inr (take n (in_bytes s), \<lparr>in_bytes = drop n (in_bytes s), in_events = es\<rparr>)"
        "0 < n" "n \<le> ?want" "no_failure \<lparr>in_bytes = drop n (in_bytes s), in_events = es\<rparr>"
      using read_some_progress [OF "1.prems"(1), of ?want] True "1.prems"(2) by auto
    have len: "length (take n (in_bytes s)) = n" using n(3) "1.prems"(4) by simp
    then have "take n (in_bytes s) \<noteq> []" using n(2) by auto
    moreover have "take n (in_bytes s) @ take (len - length body - n) (drop n (in_bytes s))
        = take (len - length body) (in_bytes s)"
      using n(3) by (metis add.commute le_add_diff_inverse2 min.bounded_iff take_add)
    ultimately show ?thesis
      using "1.IH" [OF True n(1) refl] n len "1.prems" True
      by (subst fill_loop.simps) (auto simp: add.commute)
  qed
qed

text \<open>When the peer closes too early the loop reports it, however the bytes are cut.\<close>

lemma fill_loop_truncated:
  assumes "no_failure s" "0 < buf" "length body + length (in_bytes s) < len"
  shows "fill_loop buf eof len body s = Inl (FramingIo eof)"
  using assms
proof (induction buf eof len body s rule: fill_loop.induct)
  case (1 buf eof len body s)
  let ?want = "min (len - length body) buf"
  have lt: "length body < len" using "1.prems"(3) by simp
  obtain n es where n: "read_some ?want s = Inr (take n (in_bytes s), \<lparr>in_bytes = drop n (in_bytes s), in_events = es\<rparr>)"
      "0 < n" "n \<le> ?want" "no_failure \<lparr>in_bytes = drop n (in_bytes s), in_events = es\<rparr>"
    using read_some_progress [OF "1.prems"(1), of ?want] lt "1.prems"(2) by auto
  show ?case
  proof (cases "take n (in_bytes s) = []")
    case True
    with n(1) lt show ?thesis by (subst fill_loop.simps) simp
  next
    case False
    with "1.IH" [OF lt n(1) refl] n "1.prems" lt show ?thesis
      by (subst fill_loop.simps) simp
  qed
qed

text \<open>Whatever the peer and the operating system do, the buffer holds only bytes that have arrived.\<close>

lemma fill_loop_bounded:
  assumes "fill_loop buf eof len body s = Inr (r, s')" "length body \<le> len"
  shows "length r = len \<and> r @ in_bytes s' = body @ in_bytes s"
  using assms
proof (induction buf eof len body s rule: fill_loop.induct)
  case (1 buf eof len body s)
  show ?case
  proof (cases "length body < len")
    case False
    with "1.prems" show ?thesis by (simp add: fill_loop.simps)
  next
    case True
    then obtain chunk s1 where c: "read_some (min (len - length body) buf) s = Inr (chunk, s1)" "chunk \<noteq> []"
        "fill_loop buf eof len (body @ chunk) s1 = Inr (r, s')"
      using "1.prems"(1) by (subst (asm) fill_loop.simps) (auto split: sum.splits prod.splits if_splits)
    have chunk: "chunk @ in_bytes s1 = in_bytes s" "length chunk \<le> len - length body"
      using c(1) by (auto simp: read_some_def take_chunk_def split: list.splits read_event.splits)
    with "1.IH" [OF True c(1) refl c(2,3)] True show ?thesis by auto
  qed
qed

section \<open>The header\<close>

lemma le_bytes_roundtrip: "from_le_bytes (to_le_bytes w) = w"
proof -
  let ?n = "unat w"
  have n: "?n < 256 * (256 * (256 * 256))" using unsigned_less [of w] by simp
  have byte: "unat (word_of_nat m :: 8 word) = m mod 256" for m
    by (simp add: unat_of_nat)
  have "foldr (\<lambda>b acc. unat b + 256 * acc) (to_le_bytes w) 0 =
      unat (word_of_nat ?n :: 8 word) + 256 * (unat (word_of_nat (?n div 256) :: 8 word)
        + 256 * (unat (word_of_nat (?n div 65536) :: 8 word) + 256 * unat (word_of_nat (?n div 16777216) :: 8 word)))"
    by (simp add: to_le_bytes_def)
  also have "\<dots> = ?n mod 256 + 256 * (?n div 256 mod 256 + 256 * (?n div 65536 mod 256 + 256 * (?n div 16777216 mod 256)))"
    unfolding byte ..
  also have "\<dots> = ?n"
  proof -
    have d: "?n div 65536 = ?n div 256 div 256" "?n div 16777216 = ?n div 256 div 256 div 256"
      by (simp_all add: div_mult2_eq [symmetric])
    have "?n div 256 div 256 div 256 < 256"
      using n by (intro less_mult_imp_div_less) (simp add: mult.commute)
    then have "?n div 256 div 256 div 256 mod 256 = ?n div 256 div 256 div 256" by simp
    then show ?thesis unfolding d by (simp add: add.commute)
  qed
  finally show ?thesis by (simp add: from_le_bytes_def)
qed

lemma length_to_le_bytes [simp]: "length (to_le_bytes w) = 4"
  by (simp add: to_le_bytes_def)

definition frame_of :: "bytes \<Rightarrow> bytes" where
  "frame_of data = to_le_bytes (word_of_nat (length data)) @ data"

lemma recv_frame_of:
  assumes "no_failure s" "in_bytes s = frame_of data @ rest" "length data \<le> MAX_MESSAGE_BYTES"
  shows "\<exists>s'. recv_frame s = Inr (data, s') \<and> in_bytes s' = rest \<and> no_failure s'"
proof -
  obtain s1 where s1: "read_exact 4 s = Inr (to_le_bytes (word_of_nat (length data)), s1)"
      "in_bytes s1 = data @ rest" "no_failure s1"
    using fill_loop_complete [OF assms(1), of 4 "[]" 4 "''early eof''"] assms(2)
    by (auto simp: read_exact_def frame_of_def)
  have len: "unat (word_of_nat (length data) :: 32 word) = length data"
    using assms(3) by (simp add: unat_of_nat MAX_MESSAGE_BYTES_def)
  show ?thesis
    using fill_loop_complete [OF s1(3), of READ_CHUNK_BYTES "[]" "length data"] s1 len assms(3)
    by (auto simp: recv_frame_def le_bytes_roundtrip READ_CHUNK_BYTES_def)
qed

fun send_all :: "bytes list \<Rightarrow> sink \<Rightarrow> sink" where
  "send_all [] w = w"
| "send_all (d # ds) w = send_all ds (snd (send_frame d w))"

fun recv_all :: "nat \<Rightarrow> stream \<Rightarrow> framing_error + (bytes list \<times> stream)" where
  "recv_all 0 s = Inr ([], s)"
| "recv_all (Suc n) s = and_then (recv_frame s) (\<lambda>(d, s). and_then (recv_all n s) (\<lambda>(ds, s). Inr (d # ds, s)))"

lemma send_all_bytes:
  assumes "list_all (\<lambda>d. length d \<le> MAX_MESSAGE_BYTES) ds" "out_budget w = None"
  shows "out_bytes (send_all ds w) = out_bytes w @ concat (map frame_of ds) \<and> out_budget (send_all ds w) = None"
  using assms by (induction ds arbitrary: w) (auto simp: send_frame_def write_all_def frame_of_def)

lemma recv_all_frames:
  assumes "list_all (\<lambda>d. length d \<le> MAX_MESSAGE_BYTES) ds" "no_failure s"
    and "in_bytes s = concat (map frame_of ds) @ rest"
  shows "\<exists>s'. recv_all (length ds) s = Inr (ds, s') \<and> in_bytes s' = rest"
  using assms
proof (induction ds arbitrary: s)
  case (Cons d ds)
  obtain s1 where "recv_frame s = Inr (d, s1)" "in_bytes s1 = concat (map frame_of ds) @ rest" "no_failure s1"
    using recv_frame_of [of s d] Cons.prems by auto
  with Cons.IH [of s1] Cons.prems(1) show ?case by auto
qed simp

text \<open>C35: Messages cross the socket intact: whatever is written with \<^verbatim>\<open>send\<close> is received message by
  message, in order, however the operating system cuts the stream into reads, and bytes after the
  last message stay unread.\<close>

theorem frames_cross_socket:
  assumes "list_all (\<lambda>d. length d \<le> MAX_MESSAGE_BYTES) ds"
    and "out_budget w = None" "out_bytes w = []"
    and "in_bytes s = out_bytes (send_all ds w) @ rest" "no_failure s"
  shows "\<exists>s'. recv_all (length ds) s = Inr (ds, s') \<and> in_bytes s' = rest"
  using recv_all_frames [OF assms(1,5)] send_all_bytes [OF assms(1,2)] assms(3,4) by simp

theorem frames_cross_socket_witness:
  "\<exists>s'. recv_all 2 \<lparr>in_bytes = out_bytes (send_all [[7, 8], []] \<lparr>out_bytes = [], out_budget = None\<rparr>) @ [9],
                   in_events = [Chunk 3, Chunk 0, Chunk 1]\<rparr> = Inr ([[7, 8], []], s') \<and> in_bytes s' = [9]"
  using frames_cross_socket [of "[[7, 8], []]" "\<lparr>out_bytes = [], out_budget = None\<rparr>"
      "\<lparr>in_bytes = out_bytes (send_all [[7, 8], []] \<lparr>out_bytes = [], out_budget = None\<rparr>) @ [9],
        in_events = [Chunk 3, Chunk 0, Chunk 1]\<rparr>" "[9]"]
  by (simp add: MAX_MESSAGE_BYTES_def no_failure_def numeral_2_eq_2)

text \<open>C36: Frames are bounded whatever the peer sends and however reads fail. A frame that is received has
  the length its header claims, at most 4 MiB, holds exactly the bytes after the header, and what
  follows stays in the stream; a claim above the limit is refused before any byte of the body is
  read, a body that ends early is an error, and an over-long message is not sent at all.\<close>

theorem frames_are_bounded:
  "(\<forall>data s'. recv_frame s = Inr (data, s') \<longrightarrow> length data \<le> MAX_MESSAGE_BYTES
      \<and> (\<exists>header. length header = 4 \<and> in_bytes s = header @ data @ in_bytes s'
          \<and> unat (from_le_bytes header) = length data))
   \<and> (\<forall>header. no_failure s \<and> in_bytes s = header @ body \<and> length header = 4 \<longrightarrow>
        (unat (from_le_bytes header) > MAX_MESSAGE_BYTES \<longrightarrow>
           recv_frame s = Inl (MessageTooLarge (unat (from_le_bytes header))))
        \<and> (unat (from_le_bytes header) \<le> MAX_MESSAGE_BYTES \<and> length body < unat (from_le_bytes header) \<longrightarrow>
           recv_frame s = Inl (FramingIo ''connection closed before the full frame body arrived'')))
   \<and> (length msg > MAX_MESSAGE_BYTES \<longrightarrow> send_frame msg w = (Inl (MessageTooLarge (length msg)), w))"
proof (intro conjI allI impI)
  fix data s' assume "recv_frame s = Inr (data, s')"
  then obtain header s1 where h: "read_exact 4 s = Inr (header, s1)"
      "unat (from_le_bytes header) \<le> MAX_MESSAGE_BYTES"
      "fill_loop READ_CHUNK_BYTES ''connection closed before the full frame body arrived''
         (unat (from_le_bytes header)) [] s1 = Inr (data, s')"
    by (auto simp: recv_frame_def Let_def split: if_splits)
  note header = fill_loop_bounded [OF h(1) [unfolded read_exact_def]]
  note data = fill_loop_bounded [OF h(3)]
  show "length data \<le> MAX_MESSAGE_BYTES" using data h(2) by simp
  show "\<exists>header. length header = 4 \<and> in_bytes s = header @ data @ in_bytes s'
      \<and> unat (from_le_bytes header) = length data"
    using header data by (intro exI [of _ header]) simp
next
  fix header assume s: "no_failure s \<and> in_bytes s = header @ body \<and> length header = 4"
  then obtain s1 where s1: "read_exact 4 s = Inr (header, s1)" "in_bytes s1 = body" "no_failure s1"
    using fill_loop_complete [of s 4 "[]" 4 "''early eof''"] by (auto simp: read_exact_def)
  show "recv_frame s = Inl (MessageTooLarge (unat (from_le_bytes header)))"
    if "unat (from_le_bytes header) > MAX_MESSAGE_BYTES"
    using that by (simp add: recv_frame_def s1(1))
  show "recv_frame s = Inl (FramingIo ''connection closed before the full frame body arrived'')"
    if "unat (from_le_bytes header) \<le> MAX_MESSAGE_BYTES \<and> length body < unat (from_le_bytes header)"
    using that fill_loop_truncated [OF s1(3), of READ_CHUNK_BYTES "[]"] s1
    by (simp add: recv_frame_def READ_CHUNK_BYTES_def)
qed (simp add: send_frame_def)

theorem frames_are_bounded_witness:
  "recv_frame \<lparr>in_bytes = [5, 0, 0, 0] @ [1, 2], in_events = [Chunk 1]\<rparr> =
     Inl (FramingIo ''connection closed before the full frame body arrived'')"
proof -
  have five: "unat (from_le_bytes [5, 0, 0, 0]) = 5" by (simp add: from_le_bytes_def)
  let ?s = "\<lparr>in_bytes = [5, 0, 0, 0] @ [1, 2], in_events = [Chunk 1]\<rparr>"
  from frames_are_bounded [of ?s "[1, 2]", THEN conjunct2, THEN conjunct1, THEN spec, of "[5, 0, 0, 0]"]
  show ?thesis by (simp add: no_failure_def five MAX_MESSAGE_BYTES_def)
qed

end
