(* ===== verification/Sk_Preview.thy ===== *)
theory Sk_Preview
  imports Sk_Catalogue
begin

text \<open>
  What an operator is shown before approving (\<^verbatim>\<open>crates/sysknife-daemon/src/preview.rs\<close>): the
  presentation profile of every action, and the preview envelope, which takes risk, reboot and
  rollback from the action's specification. The arms of \<^verbatim>\<open>preview_profile\<close> are a table, in the
  order of the source; the first arm that names the action counts.
\<close>

named_theorems profile_defs \<open>the arms of the profile table\<close>

record preview_profile =
  pp_expected_side_effects :: "string list"
  pp_warnings :: "string list"

type_synonym profile_arm = "string list \<times> preview_profile"

definition APPROVAL_REQUIRED :: string where
  "APPROVAL_REQUIRED = ''approval required''"

definition EXACT_APPROVAL_REQUIRED :: string where
  "EXACT_APPROVAL_REQUIRED = ''exact approval required''"

definition fallback_risk :: "string \<Rightarrow> risk_level" where
  "fallback_risk action_name = (if action_name = ''ListJobHistory'' then Low else High)"

definition gate_risk :: "string \<Rightarrow> risk_level" where
  "gate_risk action_name =
     (case map_option sm_risk_level (spec_meta_for action_name) of
        Some risk \<Rightarrow> risk | None \<Rightarrow> fallback_risk action_name)"

section \<open>The profile table\<close>

definition profile_arms_1 :: "profile_arm list" where
  [profile_defs]: "profile_arms_1 =
     [([''GetSystemState'', ''GetHostState'', ''CollectDiagnostics'', ''GetDeploymentHistory'',
        ''ListDeployments'', ''GetKernelArguments'', ''GetPendingUpdates'',
        ''SearchFlatpakApps'', ''ListFlatpakRemotes'', ''ListInstalledFlatpaks'',
        ''GetFlatpakAppInfo'', ''ListToolboxes'', ''ListServices'', ''GetServiceLogs'',
        ''GetServiceStatus'', ''GetServiceResourceLimits'', ''ListTimers'', ''GetFirewallState'',
        ''ListUsers'', ''ListGroups'', ''ListPackageRepositories'', ''ListContainers'',
        ''GetContainerInfo'', ''GetLayeredPackages'', ''GetDiskUsage'', ''ListProcesses'',
        ''GetMemoryInfo'', ''GetNetworkStatus'', ''GetListeningPorts'', ''GetNftablesRuleset'',
        ''GetFirewallBackendState'', ''GetJournalLog'', ''GetLvmReport'', ''GetSysctl'',
        ''GetMounts'', ''GetSudoGrants'', ''GetLogrotateStatus'', ''GetPasswordAging'',
        ''GetAuditRules'', ''GetCertificates'', ''GetAuthorizedKeys'', ''GetDateTime'',
        ''ListJobHistory'', ''AptSearch'', ''AptListInstalled'', ''AptShow'', ''GetAptPins'',
        ''SnapList'', ''SnapInfo'', ''UfwStatus'', ''DistroboxList'', ''NetplanGetConfig'',
        ''ProStatus'', ''LivepatchStatus'', ''MultipassList'', ''AptListUpgradable'',
        ''AptHistoryList'', ''GrubGetKargs'', ''CheckPendingReboot'', ''ResolvectlStatus'',
        ''AppArmorStatus'', ''CloudInitStatus'', ''UbuntuListFlatpaks'', ''Fail2banStatus''],
       \<lparr>pp_expected_side_effects =
          [],
        pp_warnings =
          []\<rparr>),
      ([''AptInstall'', ''AptRemove'', ''AptPurge'', ''AptHold'', ''AptUnhold''],
       \<lparr>pp_expected_side_effects =
          [''package state will change'', ''services may be restarted by needrestart''],
        pp_warnings =
          [APPROVAL_REQUIRED]\<rparr>),
      ([''SnapInstall'', ''SnapRemove'', ''SnapRefresh'', ''SnapHold'', ''SnapUnhold''],
       \<lparr>pp_expected_side_effects =
          [''snap state will change''],
        pp_warnings =
          [APPROVAL_REQUIRED, ''snap auto-refresh: install is paired with --hold by default'']\<rparr>),
      ([''DistroboxCreate'', ''DistroboxRemove''],
       \<lparr>pp_expected_side_effects =
          [''container lifecycle will change''],
        pp_warnings =
          [APPROVAL_REQUIRED]\<rparr>),
      ([''AptUpgrade''],
       \<lparr>pp_expected_side_effects =
          [''all packages will be upgraded'',
           ''packages may be removed to resolve dependency conflicts'',
           ''services may be restarted by needrestart''],
        pp_warnings =
          [''dist-upgrade may remove packages'', EXACT_APPROVAL_REQUIRED]\<rparr>),
      ([''UfwEnable'', ''UfwDisable'', ''UfwAllow'', ''UfwDeny'', ''UfwReset''],
       \<lparr>pp_expected_side_effects =
          [''firewall rules will change'', ''network access may be immediately affected''],
        pp_warnings =
          [''misconfigured rules can lock out SSH access'', EXACT_APPROVAL_REQUIRED]\<rparr>),
      ([''NetplanApply''],
       \<lparr>pp_expected_side_effects =
          [''network interfaces will be reconfigured immediately'',
           ''SSH session may be disconnected''],
        pp_warnings =
          [''can disconnect the current SSH session if config is wrong'', EXACT_APPROVAL_REQUIRED]\<rparr>)]"

definition profile_arms_2 :: "profile_arm list" where
  [profile_defs]: "profile_arms_2 =
     [([''NetplanGenerate''],
       \<lparr>pp_expected_side_effects =
          [''backend network config files will be regenerated''],
        pp_warnings =
          [APPROVAL_REQUIRED]\<rparr>),
      ([''NetplanSet''],
       \<lparr>pp_expected_side_effects =
          [''netplan configuration will be modified'',
           ''network may be affected when NetplanApply is run''],
        pp_warnings =
          [''run NetplanApply to activate the change'', EXACT_APPROVAL_REQUIRED]\<rparr>),
      ([''UfwDeleteRule'', ''UfwLimit''],
       \<lparr>pp_expected_side_effects =
          [''firewall rules will change'', ''network access may be immediately affected''],
        pp_warnings =
          [''misconfigured rules can lock out SSH access'', EXACT_APPROVAL_REQUIRED]\<rparr>),
      ([''ProAttach''],
       \<lparr>pp_expected_side_effects =
          [''Ubuntu Pro subscription will be attached'',
           ''Pro services (ESM, Livepatch, FIPS) may be enabled''],
        pp_warnings =
          [EXACT_APPROVAL_REQUIRED,
           ''token is redacted from the preview, audit log, and diagnostic output'']\<rparr>),
      ([''ProDetach''],
       \<lparr>pp_expected_side_effects =
          [''Ubuntu Pro subscription will be released'',
           ''ESM, Livepatch, and FIPS services will be disabled''],
        pp_warnings =
          [EXACT_APPROVAL_REQUIRED,
           ''after detach, this machine no longer receives Pro security patches'']\<rparr>),
      ([''AddAuditRule'', ''RemoveAuditRule''],
       \<lparr>pp_expected_side_effects =
          [''a persistent audit rule will be written/removed and reloaded''],
        pp_warnings =
          [''requires the auditd package installed to take effect'', EXACT_APPROVAL_REQUIRED]\<rparr>),
      ([''ObtainCertificate''],
       \<lparr>pp_expected_side_effects =
          [''certbot will obtain a TLS certificate (ACME challenge)'',
           ''TLS material will be written under /etc/letsencrypt''],
        pp_warnings =
          [''contacts a public ACME CA over the network'',
           ''requires certbot installed + a reachable DNS/HTTP challenge'',
           EXACT_APPROVAL_REQUIRED]\<rparr>),
      ([''RenewCertificates''],
       \<lparr>pp_expected_side_effects =
          [''certbot will renew due certificates''],
        pp_warnings =
          [''contacts a public ACME CA over the network'', EXACT_APPROVAL_REQUIRED]\<rparr>),
      ([''ConfigureFail2banJail''],
       \<lparr>pp_expected_side_effects =
          [''a fail2ban jail override will be written and the daemon reloaded''],
        pp_warnings =
          [''changes who gets banned (too strict can lock out real users)'',
           ''requires the fail2ban package installed to take effect'', EXACT_APPROVAL_REQUIRED]\<rparr>),
      ([''EnableProService'', ''DisableProService''],
       \<lparr>pp_expected_side_effects =
          [''a single Ubuntu Pro service will be enabled/disabled''],
        pp_warnings =
          [EXACT_APPROVAL_REQUIRED,
           ''requires an attached Pro subscription + network to take effect'']\<rparr>),
      ([''UbuntuReleaseUpgrade''],
       \<lparr>pp_expected_side_effects =
          [''entire OS will be upgraded to the next Ubuntu release'',
           ''takes 20'' @ [CHR 0xE2, CHR 0x80, CHR 0x93] @ ''45 minutes; system will be rebooted to complete'',
           ''third-party PPAs may be disabled or break during upgrade''],
        pp_warnings =
          [''reboot required to complete the upgrade'',
           ''long-running operation '' @ [CHR 0xE2, CHR 0x80, CHR 0x94] @ '' configure timeout >= 3600 seconds'',
           EXACT_APPROVAL_REQUIRED]\<rparr>),
      ([''ReloadService''],
       \<lparr>pp_expected_side_effects =
          [''service config will be reloaded''],
        pp_warnings =
          [APPROVAL_REQUIRED,
           ''requires ExecReload= to be defined in the unit file; if not defined, use RestartService instead'']\<rparr>)]"

definition profile_arms_3 :: "profile_arm list" where
  [profile_defs]: "profile_arms_3 =
     [([''RestartService'', ''ReloadDaemon'', ''SetServiceEnabled'', ''StartService'',
        ''StopService'', ''CreateToolbox'', ''RemoveToolbox'', ''InstallFlatpak'',
        ''RemoveFlatpak'', ''UpdateFlatpak'', ''AddFlatpakRemote'', ''RemoveFlatpakRemote'',
        ''UnmaskService'', ''SetHostname'', ''SetTimezone'', ''SetLocale'', ''SetNtp''],
       \<lparr>pp_expected_side_effects =
          [''service interruption''],
        pp_warnings =
          [APPROVAL_REQUIRED]\<rparr>),
      ([''ConfigureWifi''],
       \<lparr>pp_expected_side_effects =
          [''the host'' @ [CHR 0x27] @ ''s Wi-Fi connection will change'',
           ''current network connectivity may be interrupted while reconnecting''],
        pp_warnings =
          [''a wrong SSID or password can disconnect the host from network access'',
           EXACT_APPROVAL_REQUIRED]\<rparr>),
      ([''SetDnsServers'', ''ResolvectlSetDns''],
       \<lparr>pp_expected_side_effects =
          [''DNS servers for the interface will change''],
        pp_warnings =
          [''redirecting DNS can enable interception of name resolution'', EXACT_APPROVAL_REQUIRED]\<rparr>),
      ([''ConfigureFirewall''],
       \<lparr>pp_expected_side_effects =
          [''a firewalld rule will change and reload immediately'',
           ''network access may be immediately affected''],
        pp_warnings =
          [''misconfigured rules can lock out SSH or other remote access'',
           EXACT_APPROVAL_REQUIRED]\<rparr>),
      ([''MaskService''],
       \<lparr>pp_expected_side_effects =
          [''the unit will be masked (symlinked to /dev/null)'',
           ''the unit cannot be started, even manually, until UnmaskService is run''],
        pp_warnings =
          [''masking a unit other services depend on can cascade into unrelated failures'',
           EXACT_APPROVAL_REQUIRED]\<rparr>),
      ([''CreateUser''],
       \<lparr>pp_expected_side_effects =
          [''a new local user account will be created'', ''a home directory may be created''],
        pp_warnings =
          [''grants a new account with login access '' @ [CHR 0xE2, CHR 0x80, CHR 0x94] @ '' review shell/home/group defaults'',
           EXACT_APPROVAL_REQUIRED]\<rparr>),
      ([''VacuumJournal''],
       \<lparr>pp_expected_side_effects =
          [''old journal entries will be permanently deleted'', ''disk space will be reclaimed''],
        pp_warnings =
          [''deleted log history cannot be recovered'']\<rparr>),
      ([''ExtendLogicalVolume''],
       \<lparr>pp_expected_side_effects =
          [''the logical volume and its filesystem will be grown''],
        pp_warnings =
          [''resizes a live filesystem; a wrong volume target risks data'',
           EXACT_APPROVAL_REQUIRED]\<rparr>),
      ([''CreateLogicalVolume'', ''CreateLvSnapshot''],
       \<lparr>pp_expected_side_effects =
          [''volume-group free space will be consumed''],
        pp_warnings =
          [''consumes VG capacity; snapshots fill as the origin changes'', EXACT_APPROVAL_REQUIRED]\<rparr>),
      ([''SetServiceResourceLimits''],
       \<lparr>pp_expected_side_effects =
          [''the service'' @ [CHR 0x27] @ ''s memory/CPU/task limits will change immediately'',
           ''a persistent drop-in will be written (undo: systemctl revert)''],
        pp_warnings =
          [''too tight a MemoryMax can OOM-kill the service'', EXACT_APPROVAL_REQUIRED]\<rparr>),
      ([''ConfigureLogRotation'', ''RemoveLogRotation''],
       \<lparr>pp_expected_side_effects =
          [''a logrotate drop-in will be written/removed''],
        pp_warnings =
          [APPROVAL_REQUIRED]\<rparr>),
      ([''ConfigureRemoteSyslog'', ''RemoveRemoteSyslog''],
       \<lparr>pp_expected_side_effects =
          [''rsyslog will start/stop forwarding all logs to a remote host'',
           ''rsyslog will be restarted''],
        pp_warnings =
          [''forwarding sends log data off-host (exfiltration surface)'', EXACT_APPROVAL_REQUIRED]\<rparr>)]"

definition profile_arms_4 :: "profile_arm list" where
  [profile_defs]: "profile_arms_4 =
     [([''SetPasswordAging''],
       \<lparr>pp_expected_side_effects =
          [''the target account'' @ [CHR 0x27] @ ''s password-aging limits will change''],
        pp_warnings =
          [EXACT_APPROVAL_REQUIRED]\<rparr>),
      ([''SetPasswordPolicy'', ''SetAccountLockout''],
       \<lparr>pp_expected_side_effects =
          [''a system-wide PAM policy file will be written''],
        pp_warnings =
          [''affects password/lockout rules for all accounts'',
           ''takes effect only if the PAM module is enabled in the auth stack'',
           EXACT_APPROVAL_REQUIRED]\<rparr>),
      ([''SetAptPin'', ''RemoveAptPin''],
       \<lparr>pp_expected_side_effects =
          [''apt version/origin preferences will change'',
           ''a /etc/apt/preferences.d drop-in will be written/removed''],
        pp_warnings =
          [APPROVAL_REQUIRED]\<rparr>),
      ([''GrantSudoAccess'', ''RevokeSudoAccess''],
       \<lparr>pp_expected_side_effects =
          [''a sudoers.d drop-in will be created/removed'',
           ''the target user'' @ [CHR 0x27] @ ''s sudo privileges will change''],
        pp_warnings =
          [''this configures privilege escalation '' @ [CHR 0xE2, CHR 0x80, CHR 0x94] @ '' review the rule carefully'',
           EXACT_APPROVAL_REQUIRED]\<rparr>),
      ([''AddMount'', ''RemoveMount''],
       \<lparr>pp_expected_side_effects =
          [''a filesystem will be (un)mounted'',
           ''/etc/fstab will be updated (managed entries carry nofail)''],
        pp_warnings =
          [''a wrong device or mountpoint risks data or availability'', EXACT_APPROVAL_REQUIRED]\<rparr>),
      ([''AddSwap'', ''RemoveSwap''],
       \<lparr>pp_expected_side_effects =
          [''swap will be enabled/disabled'',
           ''a swap file will be created/removed and /etc/fstab updated''],
        pp_warnings =
          [EXACT_APPROVAL_REQUIRED]\<rparr>),
      ([''SetSysctl''],
       \<lparr>pp_expected_side_effects =
          [''a kernel parameter will change immediately'',
           ''the value will persist across reboots (/etc/sysctl.d)''],
        pp_warnings =
          [''a wrong net.*/vm.*/kernel.* value can degrade or lock the host'',
           EXACT_APPROVAL_REQUIRED]\<rparr>),
      ([''SignalProcess''],
       \<lparr>pp_expected_side_effects =
          [''the target process will be terminated''],
        pp_warnings =
          [''the process and its in-flight work will stop'', EXACT_APPROVAL_REQUIRED]\<rparr>),
      ([''ConfigureUnattendedUpgrades''],
       \<lparr>pp_expected_side_effects =
          [''the automatic security-update policy will change''],
        pp_warnings =
          [APPROVAL_REQUIRED]\<rparr>),
      ([''CreateScheduledJob''],
       \<lparr>pp_expected_side_effects =
          [''a systemd timer will run the command on a recurring schedule''],
        pp_warnings =
          [''persistent root-scheduled execution'', EXACT_APPROVAL_REQUIRED]\<rparr>),
      ([''AddUserToGroup'', ''RemoveUserFromGroup'', ''CreateGroup'', ''DeleteGroup'',
        ''LockUserAccount'', ''UnlockUserAccount'', ''SetSshdOption'', ''DeleteUser'',
        ''AddAuthorizedKey'', ''RemoveAuthorizedKey''],
       \<lparr>pp_expected_side_effects =
          [''access control will change''],
        pp_warnings =
          [''privilege change'', EXACT_APPROVAL_REQUIRED]\<rparr>),
      ([''AddPackageRepository'', ''RemovePackageRepository'', ''EnablePackageRepository'',
        ''DisablePackageRepository''],
       \<lparr>pp_expected_side_effects =
          [''package repository configuration will change''],
        pp_warnings =
          [APPROVAL_REQUIRED]\<rparr>),
      ([''CreateContainer'', ''StartContainer'', ''StopContainer'', ''RemoveContainer''],
       \<lparr>pp_expected_side_effects =
          [''container lifecycle will change''],
        pp_warnings =
          [APPROVAL_REQUIRED]\<rparr>),
      ([''UpdateSystem'', ''InstallPackages'', ''RemovePackages'', ''RebaseSystem'',
        ''RollbackDeployment'', ''AddLayeredPackage'', ''RemoveLayeredPackage'',
        ''ReplaceLayeredPackage'', ''ResetLayeredPackageOverride'', ''RemoveBasePackage''],
       \<lparr>pp_expected_side_effects =
          [''system deployment will change'', ''reboot may be required''],
        pp_warnings =
          [''reboot required'', EXACT_APPROVAL_REQUIRED]\<rparr>)]"

definition profile_arms_5 :: "profile_arm list" where
  [profile_defs]: "profile_arms_5 =
     [([''SetKernelArguments''],
       \<lparr>pp_expected_side_effects =
          [''boot arguments will change''],
        pp_warnings =
          [''reboot required'', EXACT_APPROVAL_REQUIRED]\<rparr>),
      ([''RebootSystem''],
       \<lparr>pp_expected_side_effects =
          [''system reboot will interrupt running work''],
        pp_warnings =
          [''reboot required'', EXACT_APPROVAL_REQUIRED]\<rparr>),
      ([''CleanupDeployments''],
       \<lparr>pp_expected_side_effects =
          [''old deployments may be removed''],
        pp_warnings =
          [EXACT_APPROVAL_REQUIRED]\<rparr>),
      ([''PinDeployment'', ''UnpinDeployment''],
       \<lparr>pp_expected_side_effects =
          [''deployment pin state will change''],
        pp_warnings =
          [EXACT_APPROVAL_REQUIRED]\<rparr>),
      ([''AptUpdate''],
       \<lparr>pp_expected_side_effects =
          [''the apt package index will be refreshed''],
        pp_warnings =
          []\<rparr>),
      ([''AptAutoremove''],
       \<lparr>pp_expected_side_effects =
          [''automatically-installed packages no longer needed will be removed''],
        pp_warnings =
          [APPROVAL_REQUIRED]\<rparr>),
      ([''AddPpa''],
       \<lparr>pp_expected_side_effects =
          [''a Launchpad PPA and its signing key will be added'',
           ''the trusted software supply chain will expand''],
        pp_warnings =
          [''a PPA is a third-party package source outside the distro archive'',
           EXACT_APPROVAL_REQUIRED]\<rparr>),
      ([''RemovePpa''],
       \<lparr>pp_expected_side_effects =
          [''a Launchpad PPA will be removed''],
        pp_warnings =
          [APPROVAL_REQUIRED]\<rparr>),
      ([''SnapRevert''],
       \<lparr>pp_expected_side_effects =
          [''the snap will be reverted to its previous revision''],
        pp_warnings =
          [APPROVAL_REQUIRED]\<rparr>),
      ([''SnapClassicInstall''],
       \<lparr>pp_expected_side_effects =
          [''a snap will be installed with classic confinement''],
        pp_warnings =
          [''classic confinement grants the snap full, unsandboxed system access'',
           APPROVAL_REQUIRED]\<rparr>),
      ([''GrubSetKargs''],
       \<lparr>pp_expected_side_effects =
          [''GRUB kernel arguments will change'',
           ''update-grub will regenerate the boot configuration''],
        pp_warnings =
          [''takes effect on the next reboot'',
           ''a bad kernel argument can prevent the system from booting'', EXACT_APPROVAL_REQUIRED]\<rparr>),
      ([''AppArmorEnforce''],
       \<lparr>pp_expected_side_effects =
          [''an AppArmor profile will be switched to enforce mode''],
        pp_warnings =
          [''an over-tight profile can block a legitimate service'', EXACT_APPROVAL_REQUIRED]\<rparr>),
      ([''AppArmorComplain''],
       \<lparr>pp_expected_side_effects =
          [''an AppArmor profile will be switched to complain mode''],
        pp_warnings =
          [''complain mode disables MAC enforcement for the profile'', EXACT_APPROVAL_REQUIRED]\<rparr>),
      ([''Fail2banBanIp''],
       \<lparr>pp_expected_side_effects =
          [''an IP address will be banned in a fail2ban jail''],
        pp_warnings =
          [''banning can lock out legitimate access from that address'', EXACT_APPROVAL_REQUIRED]\<rparr>),
      ([''Fail2banUnbanIp''],
       \<lparr>pp_expected_side_effects =
          [''an IP address will be unbanned in a fail2ban jail''],
        pp_warnings =
          [APPROVAL_REQUIRED]\<rparr>),
      ([''UbuntuInstallFlatpak'', ''UbuntuRemoveFlatpak'', ''UbuntuUpdateFlatpak''],
       \<lparr>pp_expected_side_effects =
          [''a user'' @ [CHR 0x27] @ ''s Flatpak apps will change''],
        pp_warnings =
          [APPROVAL_REQUIRED]\<rparr>)]"

definition profile_arms :: "profile_arm list" where
  "profile_arms = profile_arms_1 @ profile_arms_2 @ profile_arms_3 @ profile_arms_4 @ profile_arms_5"

definition unclassified_profile :: preview_profile where
  "unclassified_profile =
     \<lparr>pp_expected_side_effects = [''unclassified action''],
      pp_warnings = [''action profile not recognized'']\<rparr>"

fun profile_for :: "profile_arm list \<Rightarrow> string \<Rightarrow> preview_profile" where
  "profile_for [] action_name = unclassified_profile"
| "profile_for ((names, profile) # arms) action_name =
     (if action_name \<in> set names then profile else profile_for arms action_name)"

definition preview_profile_of :: "string \<Rightarrow> preview_profile" where
  "preview_profile_of action_name = profile_for profile_arms action_name"

section \<open>The preview\<close>

fun risk_phrase :: "risk_level \<Rightarrow> string" where
  "risk_phrase Low = ''low-risk''"
| "risk_phrase Medium = ''medium-risk''"
| "risk_phrase High = ''high-risk''"

definition preview_summary :: "string \<Rightarrow> risk_level \<Rightarrow> string" where
  "preview_summary action_name risk = action_name @ '' preview ('' @ risk_phrase risk @ '')''"

definition scheduled_job_profile :: "request_envelope \<Rightarrow> preview_profile \<Rightarrow> preview_profile" where
  "scheduled_job_profile request profile =
     (if req_action_name request = ''CreateScheduledJob'' then
        (case Option.bind (get_param (req_params request) ''name'') as_str of
           None \<Rightarrow> profile
         | Some name \<Rightarrow>
             (case scheduled_job_unit_paths name of
                None \<Rightarrow> profile
              | Some (service_path, timer_path) \<Rightarrow>
                  profile\<lparr>pp_expected_side_effects := pp_expected_side_effects profile
                    @ [''unit files '' @ service_path @ '' and '' @ timer_path
                       @ '' will be created; existing paths are refused, not overwritten'']\<rparr>))
      else profile)"

definition sudo_grant_profile :: "request_envelope \<Rightarrow> preview_profile \<Rightarrow> preview_profile" where
  "sudo_grant_profile request profile =
     (if req_action_name request = ''GrantSudoAccess'' then
        (case Option.bind (get_param (req_params request) ''commands'') as_str of
           None \<Rightarrow> profile
         | Some commands \<Rightarrow>
             (case shell_equivalent_sudo_command commands of
                None \<Rightarrow> profile
              | Some offender \<Rightarrow>
                  let user = (case Option.bind (get_param (req_params request) ''user'') as_str of
                                Some u \<Rightarrow> u | None \<Rightarrow> ''the target user'')
                  in profile\<lparr>pp_warnings :=
                       (offender @ '' runs an arbitrary command, so this grant gives '' @ user
                        @ '' the same authority as `commands = '' @ [CHR 0x22] @ ''ALL'' @ [CHR 0x22]
                        @ ''` however narrow the list looks'') # pp_warnings profile\<rparr>))
      else profile)"

definition preview_action :: "request_envelope \<Rightarrow> json \<Rightarrow> json \<Rightarrow> preview_envelope" where
  "preview_action request current_state proposed_change =
     (let n = req_action_name request;
          profile = sudo_grant_profile request (scheduled_job_profile request (preview_profile_of n));
          risk = gate_risk n;
          (reboot, rollback) = (case spec_meta_for n of
             Some m \<Rightarrow> (sm_reboot_required m, sm_rollback_available m) | None \<Rightarrow> (False, False))
      in \<lparr>pv_summary = preview_summary n risk, pv_risk_level = risk, pv_current_state = current_state,
          pv_proposed_change = proposed_change,
          pv_expected_side_effects = pp_expected_side_effects profile,
          pv_reboot_required = reboot, pv_rollback_available = rollback,
          pv_warnings = pp_warnings profile, pv_request_hash = req_request_hash request\<rparr>)"

section \<open>Every action has a profile\<close>

lemma catalogue_risks:
  "map (\<lambda>t. (as_action_name t, sm_risk_level (meta_of t))) all_specs =
     [(''GetSystemState'', Low), (''CollectDiagnostics'', Low), (''GetDeploymentHistory'', Low),
      (''ListDeployments'', Low), (''UpdateSystem'', High), (''PinDeployment'', High),
      (''UnpinDeployment'', High), (''RebaseSystem'', High), (''CleanupDeployments'', High),
      (''RebootSystem'', High), (''RollbackDeployment'', High), (''GetKernelArguments'', Low),
      (''SetKernelArguments'', High), (''InstallPackages'', High), (''RemovePackages'', High),
      (''GetLayeredPackages'', Low), (''AddLayeredPackage'', High),
      (''RemoveLayeredPackage'', High), (''ReplaceLayeredPackage'', High),
      (''ResetLayeredPackageOverride'', High), (''RemoveBasePackage'', High),
      (''GetPendingUpdates'', Low), (''GetDiskUsage'', Low), (''InstallFlatpak'', Medium),
      (''RemoveFlatpak'', Medium), (''SearchFlatpakApps'', Low), (''ListFlatpakRemotes'', Low),
      (''ListInstalledFlatpaks'', Low), (''AddFlatpakRemote'', Medium),
      (''RemoveFlatpakRemote'', Medium), (''GetFlatpakAppInfo'', Low),
      (''UpdateFlatpak'', Medium), (''UbuntuInstallFlatpak'', Medium),
      (''UbuntuRemoveFlatpak'', Medium), (''UbuntuUpdateFlatpak'', Medium),
      (''UbuntuListFlatpaks'', Low), (''ListToolboxes'', Low), (''CreateToolbox'', Medium),
      (''RemoveToolbox'', Medium), (''ListServices'', Low), (''StartService'', Medium),
      (''StopService'', Medium), (''RestartService'', Medium), (''SetServiceEnabled'', Medium),
      (''MaskService'', High), (''UnmaskService'', Medium), (''GetServiceLogs'', Low),
      (''GetServiceStatus'', Low), (''ReloadService'', Medium), (''ListTimers'', Low),
      (''ReloadDaemon'', Medium), (''CreateScheduledJob'', High),
      (''GetServiceResourceLimits'', Low), (''SetServiceResourceLimits'', Medium),
      (''ListProcesses'', Low), (''SignalProcess'', High), (''GetJournalLog'', Low),
      (''VacuumJournal'', High), (''GetLvmReport'', Low), (''ExtendLogicalVolume'', High),
      (''CreateLogicalVolume'', Medium), (''CreateLvSnapshot'', Medium), (''GetSysctl'', Low),
      (''SetSysctl'', High), (''GetMounts'', Low), (''AddMount'', High), (''RemoveMount'', High),
      (''AddSwap'', High), (''RemoveSwap'', High), (''GetLogrotateStatus'', Low),
      (''ConfigureLogRotation'', Medium), (''RemoveLogRotation'', Medium),
      (''ConfigureRemoteSyslog'', High), (''RemoveRemoteSyslog'', High),
      (''GetPasswordAging'', Low), (''SetPasswordAging'', High), (''SetPasswordPolicy'', High),
      (''SetAccountLockout'', High), (''GetAuditRules'', Low), (''AddAuditRule'', Medium),
      (''RemoveAuditRule'', High), (''GetCertificates'', Low), (''ObtainCertificate'', High),
      (''RenewCertificates'', Medium), (''GetSudoGrants'', Low), (''GrantSudoAccess'', High),
      (''RevokeSudoAccess'', High), (''ConfigureWifi'', High), (''SetDnsServers'', High),
      (''ConfigureFirewall'', High), (''GetFirewallState'', Low), (''GetNetworkStatus'', Low),
      (''GetListeningPorts'', Low), (''GetNftablesRuleset'', Low),
      (''GetFirewallBackendState'', Low), (''ResolvectlStatus'', Low),
      (''ResolvectlSetDns'', High), (''GetDateTime'', Low), (''SetHostname'', Medium),
      (''SetTimezone'', Medium), (''SetLocale'', Medium), (''SetNtp'', Medium),
      (''ListUsers'', Low), (''ListGroups'', Low), (''CreateUser'', High),
      (''DeleteUser'', High), (''AddUserToGroup'', High), (''RemoveUserFromGroup'', High),
      (''CreateGroup'', Medium), (''DeleteGroup'', High), (''LockUserAccount'', High),
      (''UnlockUserAccount'', High), (''GetAuthorizedKeys'', Low), (''AddAuthorizedKey'', High),
      (''RemoveAuthorizedKey'', High), (''SetSshdOption'', High),
      (''ListPackageRepositories'', Low), (''AddPackageRepository'', High),
      (''RemovePackageRepository'', Medium), (''EnablePackageRepository'', Medium),
      (''DisablePackageRepository'', Medium), (''GetMemoryInfo'', Low), (''GetHostState'', Low),
      (''ListContainers'', Low), (''CreateContainer'', Medium), (''StartContainer'', Medium),
      (''StopContainer'', Medium), (''RemoveContainer'', Medium), (''GetContainerInfo'', Low),
      (''CheckPendingReboot'', Low), (''AppArmorStatus'', Low), (''AppArmorEnforce'', High),
      (''AppArmorComplain'', High), (''CloudInitStatus'', Low), (''Fail2banStatus'', Low),
      (''Fail2banBanIp'', High), (''Fail2banUnbanIp'', Medium),
      (''ConfigureFail2banJail'', High), (''AptUpdate'', Low), (''AptUpgrade'', High),
      (''AptInstall'', Medium), (''AptRemove'', Medium), (''AptPurge'', Medium),
      (''AptAutoremove'', Medium), (''AptHold'', Medium), (''AptUnhold'', Medium),
      (''AptSearch'', Low), (''AptListInstalled'', Low), (''AptShow'', Low),
      (''AptListUpgradable'', Low), (''AptHistoryList'', Low),
      (''ConfigureUnattendedUpgrades'', High), (''GetAptPins'', Low), (''SetAptPin'', Medium),
      (''RemoveAptPin'', Medium), (''AddPpa'', High), (''RemovePpa'', Medium),
      (''SnapInstall'', Medium), (''SnapRemove'', Medium), (''SnapRefresh'', Medium),
      (''SnapHold'', Medium), (''SnapUnhold'', Medium), (''SnapList'', Low), (''SnapInfo'', Low),
      (''SnapRevert'', Medium), (''SnapClassicInstall'', Medium), (''UfwEnable'', High),
      (''UfwDisable'', High), (''UfwAllow'', High), (''UfwDeny'', High), (''UfwReset'', High),
      (''UfwStatus'', Low), (''UfwDeleteRule'', High), (''UfwLimit'', High),
      (''NetplanGetConfig'', Low), (''NetplanApply'', High), (''NetplanSet'', High),
      (''NetplanGenerate'', Medium), (''DistroboxList'', Low), (''DistroboxCreate'', Medium),
      (''DistroboxRemove'', Medium), (''GrubGetKargs'', Low), (''GrubSetKargs'', High),
      (''UbuntuReleaseUpgrade'', High), (''ProStatus'', Low), (''ProAttach'', High),
      (''ProDetach'', High), (''EnableProService'', High), (''DisableProService'', High),
      (''LivepatchStatus'', Low), (''MultipassList'', Low)]"
  by (simp add: catalogue_entries)

lemma catalogue_names: "map as_action_name all_specs = map fst (map (\<lambda>t. (as_action_name t, sm_risk_level (meta_of t))) all_specs)"
  by simp

lemma list_all_in_Cons:
  "n \<in> set names \<Longrightarrow> list_all (\<lambda>n. n \<in> set names) ns \<Longrightarrow> list_all (\<lambda>n. n \<in> set names) (n # ns)"
  by simp

lemma list_all_in_Nil: "list_all (\<lambda>n. n \<in> set names) []"
  by simp

lemma profiled_names: "list_all (\<lambda>n. n \<in> set (concat (map fst profile_arms))) (map as_action_name all_specs)"
  unfolding catalogue_names catalogue_risks profile_arms_def profile_defs map_append list.map concat_append concat.simps
    fst_conv append.simps append_Nil2
  by (rule list_all_in_Cons list_all_in_Nil | rule list.set_intros(1) | rule list.set_intros(2))+

text \<open>The arms that announce no effect or give no warning name only actions of low risk.\<close>

definition quiet_arm :: "profile_arm \<Rightarrow> bool" where
  "quiet_arm arm \<longleftrightarrow> pp_expected_side_effects (snd arm) = [] \<or> pp_warnings (snd arm) = []"

lemma quiet_names:
  "concat (map fst (filter quiet_arm profile_arms)) =
     [''GetSystemState'', ''GetHostState'', ''CollectDiagnostics'', ''GetDeploymentHistory'',
      ''ListDeployments'', ''GetKernelArguments'', ''GetPendingUpdates'', ''SearchFlatpakApps'',
      ''ListFlatpakRemotes'', ''ListInstalledFlatpaks'', ''GetFlatpakAppInfo'',
      ''ListToolboxes'', ''ListServices'', ''GetServiceLogs'', ''GetServiceStatus'',
      ''GetServiceResourceLimits'', ''ListTimers'', ''GetFirewallState'', ''ListUsers'',
      ''ListGroups'', ''ListPackageRepositories'', ''ListContainers'', ''GetContainerInfo'',
      ''GetLayeredPackages'', ''GetDiskUsage'', ''ListProcesses'', ''GetMemoryInfo'',
      ''GetNetworkStatus'', ''GetListeningPorts'', ''GetNftablesRuleset'',
      ''GetFirewallBackendState'', ''GetJournalLog'', ''GetLvmReport'', ''GetSysctl'',
      ''GetMounts'', ''GetSudoGrants'', ''GetLogrotateStatus'', ''GetPasswordAging'',
      ''GetAuditRules'', ''GetCertificates'', ''GetAuthorizedKeys'', ''GetDateTime'',
      ''ListJobHistory'', ''AptSearch'', ''AptListInstalled'', ''AptShow'', ''GetAptPins'',
      ''SnapList'', ''SnapInfo'', ''UfwStatus'', ''DistroboxList'', ''NetplanGetConfig'',
      ''ProStatus'', ''LivepatchStatus'', ''MultipassList'', ''AptListUpgradable'',
      ''AptHistoryList'', ''GrubGetKargs'', ''CheckPendingReboot'', ''ResolvectlStatus'',
      ''AppArmorStatus'', ''CloudInitStatus'', ''UbuntuListFlatpaks'', ''Fail2banStatus'',
      ''AptUpdate'']"
  by (simp add: profile_arms_def profile_defs quiet_arm_def)

lemma list_all_low_Cons:
  "(n, Low) \<in> set entries \<Longrightarrow> list_all (\<lambda>n. (n, Low) \<in> set entries) ns \<Longrightarrow>
   list_all (\<lambda>n. (n, Low) \<in> set entries) (n # ns)"
  by simp

lemma list_all_low_Nil: "list_all (\<lambda>n. (n, Low) \<in> set entries) []"
  by simp

lemma quiet_names_low:
  "list_all (\<lambda>n. (n, Low) \<in> set ((''ListJobHistory'', Low) # map (\<lambda>t. (as_action_name t, sm_risk_level (meta_of t))) all_specs))
     (concat (map fst (filter quiet_arm profile_arms)))"
  unfolding quiet_names catalogue_risks
  by (rule list_all_low_Cons list_all_low_Nil | rule list.set_intros(1) | rule list.set_intros(2))+

lemma quiet_actions_low:
  assumes "t \<in> set all_specs" "as_action_name t \<in> set (concat (map fst (filter quiet_arm profile_arms)))"
  shows "as_risk_level t = Low"
proof -
  have "as_action_name t \<noteq> ''ListJobHistory''"
    using history_not_catalogued assms(1) by (auto simp: list_all_iff)
  moreover have "(as_action_name t, Low) \<in> set ((''ListJobHistory'', Low) #
      map (\<lambda>t. (as_action_name t, sm_risk_level (meta_of t))) all_specs)"
    using quiet_names_low assms(2) unfolding list_all_iff by blast
  ultimately obtain t' where t': "t' \<in> set all_specs" "sm_risk_level (meta_of t') = Low" "as_action_name t = as_action_name t'"
    by auto
  have "t = t'"
    using all_specs_names_distinct assms(1) t' by (auto simp: distinct_map dest: inj_onD)
  with t' show ?thesis by (simp add: meta_of_def)
qed

lemma profile_for_arm:
  "n \<in> set (concat (map fst arms)) \<Longrightarrow> \<exists>names. (names, profile_for arms n) \<in> set arms \<and> n \<in> set names"
  by (induction arms n rule: profile_for.induct) auto

lemma catalogued_profile:
  assumes "t \<in> set all_specs"
  shows "\<exists>names. (names, preview_profile_of (as_action_name t)) \<in> set profile_arms \<and> as_action_name t \<in> set names"
  unfolding preview_profile_of_def
  by (rule profile_for_arm) (use profiled_names assms in \<open>auto simp: list_all_iff\<close>)

lemma mutating_profile:
  assumes "t \<in> set all_specs" "as_risk_level t \<noteq> Low"
  shows "pp_expected_side_effects (preview_profile_of (as_action_name t)) \<noteq> []
    \<and> pp_warnings (preview_profile_of (as_action_name t)) \<noteq> []"
proof (rule ccontr)
  assume loud: "\<not> ?thesis"
  obtain names where arm: "(names, preview_profile_of (as_action_name t)) \<in> set profile_arms"
      "as_action_name t \<in> set names"
    using catalogued_profile [OF assms(1)] by blast
  with loud have "as_action_name t \<in> set (concat (map fst (filter quiet_arm profile_arms)))"
    by (force simp: quiet_arm_def)
  then show False using quiet_actions_low [OF assms(1)] assms(2) by simp
qed

lemma adjusted_profile:
  "pp_expected_side_effects p \<noteq> [] \<Longrightarrow>
   pp_expected_side_effects (sudo_grant_profile request (scheduled_job_profile request p)) \<noteq> []"
  "pp_warnings p \<noteq> [] \<Longrightarrow> pp_warnings (sudo_grant_profile request (scheduled_job_profile request p)) \<noteq> []"
  by (auto simp: sudo_grant_profile_def scheduled_job_profile_def Let_def split: option.splits prod.splits)

text \<open>C34: The operator approves what will run. The preview of an action that can be built carries the
  risk, the reboot and the rollback of exactly the specification that is executed and the hash of the
  request; an action of medium or high risk always announces an effect and a warning; and a sudo
  grant whose list holds a command that gives a shell says so first.\<close>

theorem preview_discloses_action:
  assumes "build_action_spec (req_action_name request) (req_params request) = Inr spec"
  shows "pv_risk_level (preview_action request cs pc) = as_risk_level spec
    \<and> pv_reboot_required (preview_action request cs pc) = as_reboot_required spec
    \<and> pv_rollback_available (preview_action request cs pc) = as_rollback_available spec
    \<and> pv_proposed_change (preview_action request cs pc) = pc
    \<and> pv_request_hash (preview_action request cs pc) = req_request_hash request
    \<and> (as_risk_level spec \<noteq> Low \<longrightarrow> pv_expected_side_effects (preview_action request cs pc) \<noteq> []
         \<and> pv_warnings (preview_action request cs pc) \<noteq> [])
    \<and> (\<forall>commands offender. req_action_name request = ''GrantSudoAccess''
         \<and> get_param (req_params request) ''commands'' = Some (JStr commands)
         \<and> shell_equivalent_sudo_command commands = Some offender \<longrightarrow>
         starts_with (hd (pv_warnings (preview_action request cs pc))) (offender @ '' runs an arbitrary command''))"
proof -
  let ?n = "req_action_name request" and ?p = "preview_action request cs pc"
  obtain build where "(?n, build) \<in> set action_builders" "build (req_params request) = Inr spec"
    using build_action_spec_entry [OF assms] by blast
  then obtain t where t: "t \<in> set all_specs" "as_action_name t = ?n" "meta_of t = meta_of spec"
    using match.built_described(2) by blast
  have meta: "spec_meta_for ?n = Some (meta_of spec)" using spec_meta_for_entry [OF t(1)] t by simp
  have "pv_risk_level ?p = as_risk_level spec \<and> pv_reboot_required ?p = as_reboot_required spec
      \<and> pv_rollback_available ?p = as_rollback_available spec \<and> pv_proposed_change ?p = pc
      \<and> pv_request_hash ?p = req_request_hash request"
    by (simp add: preview_action_def Let_def meta gate_risk_def meta_of_def)
  moreover have "pv_expected_side_effects ?p \<noteq> [] \<and> pv_warnings ?p \<noteq> []" if "as_risk_level spec \<noteq> Low"
  proof -
    have "as_risk_level t \<noteq> Low" using that t(3) by (simp add: meta_of_def)
    from mutating_profile [OF t(1) this] show ?thesis
      using adjusted_profile by (simp add: t(2) preview_action_def Let_def meta)
  qed
  moreover have "starts_with (hd (pv_warnings ?p)) (offender @ '' runs an arbitrary command'')"
    if "?n = ''GrantSudoAccess''" "get_param (req_params request) ''commands'' = Some (JStr commands)"
      "shell_equivalent_sudo_command commands = Some offender" for commands offender
    using that meta
    by (simp add: preview_action_def Let_def case_prod_beta sudo_grant_profile_def as_str_def starts_with_iff)
  ultimately show ?thesis by blast
qed

theorem preview_discloses_action_witness:
  "pv_risk_level (preview_action \<lparr>req_action_name = ''UpdateSystem'', req_request_id = ''r'', req_params = JObj [],
      req_caller_role = Admin, req_request_hash = ''h''\<rparr> JNull JNull) = High
   \<and> pv_warnings (preview_action \<lparr>req_action_name = ''UpdateSystem'', req_request_id = ''r'', req_params = JObj [],
      req_caller_role = Admin, req_request_hash = ''h''\<rparr> JNull JNull) \<noteq> []"
proof -
  let ?r = "\<lparr>req_action_name = ''UpdateSystem'', req_request_id = ''r'', req_params = JObj [],
      req_caller_role = Admin, req_request_hash = ''h''\<rparr>"
  have "build_action_spec (req_action_name ?r) (req_params ?r) = Inr update_system"
    using build_UpdateSystem by simp
  from preview_discloses_action [OF this, of JNull JNull] show ?thesis
    by (simp add: action_defs)
qed

end
