(* ===== verification/Sk_Redact.thy ===== *)
theory Sk_Redact
  imports Sk_Catalogue
begin

text \<open>
  Credentials in what the daemon shows and stores (\<^verbatim>\<open>dispatcher.rs\<close>, the redaction section and
  \<^verbatim>\<open>handle_describe\<close>): parameters are redacted by key, command lines by position. What is shown is
  then a function of the redacted request, whatever the credentials are.
\<close>

section \<open>Redaction\<close>

definition REDACTED :: string where
  "REDACTED = ''<REDACTED>''"

definition credential_keys_for :: "string \<Rightarrow> string list" where
  "credential_keys_for action_name =
     (if action_name = ''ProAttach'' then [''token'']
      else if action_name = ''ConfigureWifi'' then [''password'']
      else [])"

definition redact_params :: "string \<Rightarrow> json \<Rightarrow> json" where
  "redact_params action_name params =
     (let ks = credential_keys_for action_name in
      if ks = [] then params
      else case params of
             JObj kvs \<Rightarrow> JObj (map (\<lambda>(k, v). if list_ex (\<lambda>ck. ck = k) ks then (k, JStr REDACTED) else (k, v)) kvs)
           | _ \<Rightarrow> params)"

datatype credential_argv_spec = CredLast | CredAfterKeyword string

definition credential_argv_spec_of :: "string \<Rightarrow> credential_argv_spec option" where
  "credential_argv_spec_of action_name =
     (if action_name = ''ProAttach'' then Some CredLast
      else if action_name = ''ConfigureWifi'' then Some (CredAfterKeyword ''password'')
      else None)"

definition credential_index :: "credential_argv_spec \<Rightarrow> string list \<Rightarrow> nat option" where
  "credential_index spec out =
     (case spec of
        CredLast \<Rightarrow> Some (length out - 1)
      | CredAfterKeyword keyword \<Rightarrow>
          map_option (\<lambda>(i, _). i + 1)
            (find (\<lambda>(i, arg). arg = keyword \<and> i + 1 < length out) (rev (enumerate 0 out))))"

definition redact_argv :: "string \<Rightarrow> json \<Rightarrow> string list \<Rightarrow> string list" where
  "redact_argv action_name params args =
     (let ks = credential_keys_for action_name in
      if ks = [] then args
      else
        let secrets = List.map_filter (\<lambda>k. Option.bind (get_param params k) as_str) ks in
        if secrets = [] then args
        else case credential_argv_spec_of action_name of
               Some spec \<Rightarrow>
                 (case option_filter (\<lambda>i. i < length args) (credential_index spec args) of
                    Some idx \<Rightarrow> args[idx := REDACTED]
                  | None \<Rightarrow> args)
             | None \<Rightarrow> map (\<lambda>a. if a \<in> set secrets then REDACTED else a) args)"

text \<open>The command line that \<^verbatim>\<open>handle_describe\<close> renders.\<close>

definition described_command :: "string \<Rightarrow> json \<Rightarrow> action_spec \<Rightarrow> string" where
  "described_command action_name params spec =
     (case as_mechanism spec of
        Command program args \<Rightarrow>
          (let display_args = redact_argv action_name params args in
           if display_args = [] then program else program @ '' '' @ join_with '' '' display_args)
      | FileScan path \<Rightarrow> ''read '' @ path
      | FileWrite path _ \<Rightarrow> ''write '' @ path
      | FilePatch path _ _ \<Rightarrow> ''patch '' @ path
      | FileDelete path \<Rightarrow> ''rm '' @ path)"

section \<open>What is shown does not depend on the credentials\<close>

definition has_secret :: "json \<Rightarrow> string \<Rightarrow> bool" where
  "has_secret params k \<longleftrightarrow> (\<exists>s. get_param params k = Some (JStr s) \<and> s \<noteq> [])"

lemma redact_other:
  "k \<notin> set ks \<Longrightarrow>
   map_of (map (\<lambda>(k, v). if list_ex (\<lambda>ck. ck = k) ks then (k, JStr REDACTED) else (k, v)) kvs) k = map_of kvs k"
  by (induction kvs) (auto simp: list_ex_iff)

lemma redacted_get: "k \<notin> set (credential_keys_for n) \<Longrightarrow> get_param (redact_params n p) k = get_param p k"
  by (cases p) (simp_all add: redact_params_def Let_def get_param_def redact_other)

lemma redacted_lookup:
  "redact_params n p = redact_params n q \<Longrightarrow> k \<notin> set (credential_keys_for n) \<Longrightarrow> get_param p k = get_param q k"
  by (metis redacted_get)

lemma str_arg_Inr:
  "str_arg params key v = Inr x \<Longrightarrow> \<exists>s. get_param params key = Some (JStr s) \<and> v s key = Inr x"
  by (auto simp: str_arg_def require_str_def required_def ok_or_def as_str_def
      split: option.splits json.splits)

lemma wifi_argv:
  assumes "build_action_spec ''ConfigureWifi'' params = Inr spec"
  shows "\<exists>ssid password. spec = configure_wifi ssid password
    \<and> (\<exists>s. get_param params ''ssid'' = Some (JStr s) \<and> validated_safe_arg s ''ssid'' = Inr ssid)
    \<and> (password = None \<longleftrightarrow> \<not> has_secret params ''password'')"
proof -
  have sub: "set network_builders \<subseteq> set action_builders"
    by (simp add: action_builders_def subset_iff)
  have "map_of network_builders ''ConfigureWifi'' = Some (\<lambda>params.
      and_then (str_arg params ''ssid'' validated_safe_arg) (\<lambda>ssid.
      and_then (optional_validated params ''password'' validated_safe_arg) (\<lambda>password.
      Inr (configure_wifi ssid password))))"
    by (simp add: network_builders_def)
  from build_in_section [OF assms sub this]
  obtain ssid password where b: "str_arg params ''ssid'' validated_safe_arg = Inr ssid"
      "optional_validated params ''password'' validated_safe_arg = Inr password"
      "spec = configure_wifi ssid password"
    by auto
  have "password = None \<longleftrightarrow> \<not> has_secret params ''password''"
    using b(2)
    by (auto simp: optional_validated_def optional_str_def optional_def transpose_map_def option_filter_def
        as_str_def has_secret_def split: option.splits json.splits if_splits)
  with b str_arg_Inr [OF b(1)] show ?thesis by blast
qed

lemma pro_attach_argv:
  assumes "build_action_spec ''ProAttach'' params = Inr spec"
  shows "\<exists>token s. spec = pro_attach token \<and> get_param params ''token'' = Some (JStr s)"
proof -
  have sub: "set ubuntu_pro_builders \<subseteq> set action_builders"
    by (simp add: action_builders_def subset_iff)
  have "map_of ubuntu_pro_builders ''ProAttach'' = Some (\<lambda>params.
      and_then (str_arg params ''token'' validated_safe_arg) (\<lambda>token. Inr (pro_attach token)))"
    by (simp add: ubuntu_pro_builders_def)
  from build_in_section [OF assms sub this] show ?thesis using str_arg_Inr by fastforce
qed

lemma redacted_wifi:
  "get_param params ''password'' = Some (JStr s) \<Longrightarrow>
   redact_argv ''ConfigureWifi'' params [''nmcli'', ''device'', ''wifi'', ''connect'', ssid, ''password'', pw]
     = [''nmcli'', ''device'', ''wifi'', ''connect'', ssid, ''password'', REDACTED]"
  by (simp add: redact_argv_def credential_keys_for_def credential_argv_spec_of_def credential_index_def
      option_filter_def List.map_filter_simps as_str_def)

lemma open_wifi:
  "redact_argv ''ConfigureWifi'' params [''nmcli'', ''device'', ''wifi'', ''connect'', ssid]
     = [''nmcli'', ''device'', ''wifi'', ''connect'', ssid]"
  by (simp add: redact_argv_def credential_keys_for_def credential_argv_spec_of_def credential_index_def
      option_filter_def List.map_filter_simps Let_def)

lemma redacted_pro:
  "get_param params ''token'' = Some (JStr s) \<Longrightarrow>
   redact_argv ''ProAttach'' params [''pro'', ''attach'', token] = [''pro'', ''attach'', REDACTED]"
  by (simp add: redact_argv_def credential_keys_for_def credential_argv_spec_of_def credential_index_def
      option_filter_def List.map_filter_simps as_str_def)

lemma describe_wifi:
  assumes "spec = configure_wifi ssid password" "password = None \<longleftrightarrow> \<not> has_secret params ''password''"
  shows "described_command ''ConfigureWifi'' params spec = ''sudo '' @ join_with '' ''
    ([''nmcli'', ''device'', ''wifi'', ''connect'', ssid] @ (if password = None then [] else [''password'', REDACTED]))"
proof (cases password)
  case None
  with assms(1) show ?thesis by (simp add: described_command_def configure_wifi_def open_wifi Let_def)
next
  case (Some pw)
  with assms(2) obtain s where "get_param params ''password'' = Some (JStr s)" by (auto simp: has_secret_def)
  with Some assms(1) show ?thesis by (simp add: described_command_def configure_wifi_def redacted_wifi Let_def)
qed

text \<open>C12: Credentials stay out of what is shown and stored. Two requests for the same action that differ
  only in the values of credential parameters are redacted to the same parameters and described by the
  same command line, whatever the credentials are, even one that equals a word of the command; the
  other parameters are shown unchanged.\<close>

theorem credentials_not_shown:
  assumes "redact_params n p = redact_params n q"
    and "list_all (\<lambda>k. has_secret p k = has_secret q k) (credential_keys_for n)"
    and "build_action_spec n p = Inr spec" "build_action_spec n q = Inr spec'"
  shows "described_command n p spec = described_command n q spec'
    \<and> (\<forall>k. k \<notin> set (credential_keys_for n) \<longrightarrow> get_param (redact_params n p) k = get_param p k)
    \<and> (\<forall>k s. k \<in> set (credential_keys_for n) \<and> get_param (redact_params n p) k = Some s \<longrightarrow> s = JStr REDACTED)"
proof (intro conjI allI impI)
  show "described_command n p spec = described_command n q spec'"
  proof (cases "credential_keys_for n = []")
    case True
    then have "p = q" using assms(1) by (simp add: redact_params_def)
    with assms(3,4) show ?thesis by simp
  next
    case False
    then consider "n = ''ProAttach''" | "n = ''ConfigureWifi''"
      by (auto simp: credential_keys_for_def split: if_splits)
    then show ?thesis
    proof cases
      case 1
      obtain t s t' s' where "spec = pro_attach t" "get_param p ''token'' = Some (JStr s)"
          "spec' = pro_attach t'" "get_param q ''token'' = Some (JStr s')"
        using pro_attach_argv [OF assms(3) [unfolded 1]] pro_attach_argv [OF assms(4) [unfolded 1]] by blast
      then show ?thesis
        using 1 by (simp add: described_command_def pro_attach_def command_mechanism_def redacted_pro)
    next
      case 2
      have same: "get_param p ''ssid'' = get_param q ''ssid''"
        by (rule redacted_lookup [OF assms(1)]) (simp add: 2 credential_keys_for_def)
      obtain ssid pw where P: "spec = configure_wifi ssid pw" "pw = None \<longleftrightarrow> \<not> has_secret p ''password''"
          "\<exists>s. get_param p ''ssid'' = Some (JStr s) \<and> validated_safe_arg s ''ssid'' = Inr ssid"
        using wifi_argv [OF assms(3) [unfolded 2]] by blast
      obtain ssid' pw' where Q: "spec' = configure_wifi ssid' pw'" "pw' = None \<longleftrightarrow> \<not> has_secret q ''password''"
          "\<exists>s. get_param q ''ssid'' = Some (JStr s) \<and> validated_safe_arg s ''ssid'' = Inr ssid'"
        using wifi_argv [OF assms(4) [unfolded 2]] by blast
      have "has_secret p ''password'' = has_secret q ''password''"
        using assms(2) 2 by (simp add: credential_keys_for_def)
      then have none: "pw = None \<longleftrightarrow> pw' = None" using P(2) Q(2) by simp
      have "ssid' = ssid" using P(3) Q(3) same by auto
      then show ?thesis
        unfolding 2 describe_wifi [OF P(1,2)] describe_wifi [OF Q(1,2)] none by (rule ssubst) (rule refl)
    qed
  qed
next
  fix k assume "k \<notin> set (credential_keys_for n)"
  then show "get_param (redact_params n p) k = get_param p k"
    by (rule redacted_get)
next
  fix k s assume "k \<in> set (credential_keys_for n) \<and> get_param (redact_params n p) k = Some s"
  then show "s = JStr REDACTED"
    by (cases p) (auto simp: redact_params_def Let_def get_param_def list_ex_iff
        dest!: map_of_SomeD split: if_splits)
qed

lemma build_pro_attach:
  assumes "t \<in> {''attach'', ''C1s7''}"
  shows "build_action_spec ''ProAttach'' (JObj [(''token'', JStr t)]) = Inr (pro_attach t)"
proof -
  let ?ps = "JObj [(''token'', JStr t)]"
  have sub: "set ubuntu_pro_builders \<subseteq> set action_builders"
    by (simp add: action_builders_def subset_iff)
  have "map_of ubuntu_pro_builders ''ProAttach'' = Some (\<lambda>params.
      and_then (str_arg params ''token'' validated_safe_arg) (\<lambda>token. Inr (pro_attach token)))"
    by (simp add: ubuntu_pro_builders_def)
  then have "(''ProAttach'', \<lambda>params. and_then (str_arg params ''token'' validated_safe_arg) (\<lambda>token. Inr (pro_attach token)))
      \<in> set action_builders"
    using map_of_SomeD sub by fastforce
  then have entry: "map_of action_builders ''ProAttach'' = Some (\<lambda>params.
      and_then (str_arg params ''token'' validated_safe_arg) (\<lambda>token. Inr (pro_attach token)))"
    using action_names_distinct by simp
  have "allowed_action_params ''ProAttach'' = Some [''token'']" by code_simp
  then have valid: "validate_action_params ''ProAttach'' ?ps = Inr ()"
    by (simp add: validate_action_params_def ok_or_def)
  have "validated_safe_arg ''attach'' ''token'' = Inr ''attach''"
    "validated_safe_arg ''C1s7'' ''token'' = Inr ''C1s7''" by code_simp+
  then have "str_arg ?ps ''token'' validated_safe_arg = Inr t"
    using assms by (auto simp: str_arg_def require_str_def required_def get_param_def as_str_def ok_or_def)
  with entry valid show ?thesis by (simp add: build_action_spec_def)
qed

theorem credentials_not_shown_witness:
  "described_command ''ProAttach'' (JObj [(''token'', JStr ''attach'')]) (pro_attach ''attach'') =
   described_command ''ProAttach'' (JObj [(''token'', JStr ''C1s7'')]) (pro_attach ''C1s7'')"
proof -
  have "redact_params ''ProAttach'' (JObj [(''token'', JStr ''attach'')])
      = redact_params ''ProAttach'' (JObj [(''token'', JStr ''C1s7'')])"
    by (simp add: redact_params_def credential_keys_for_def)
  moreover have "list_all (\<lambda>k. has_secret (JObj [(''token'', JStr ''attach'')]) k
      = has_secret (JObj [(''token'', JStr ''C1s7'')]) k) (credential_keys_for ''ProAttach'')"
    by (simp add: credential_keys_for_def has_secret_def get_param_def)
  ultimately show ?thesis
    using credentials_not_shown [OF _ _ build_pro_attach [of "''attach''"] build_pro_attach [of "''C1s7''"]]
    by simp
qed

end
