(* ===== verification/Sk_Request_Hash.thy ===== *)
theory Sk_Request_Hash
  imports Sk_Catalogue Sk_Witness "HOL-Library.List_Lexorder" "HOL-Library.Char_ord"
begin

text \<open>
  The request hash that binds an execution to its preview (\<^verbatim>\<open>compute_request_hash\<close> and
  \<^verbatim>\<open>canonical_json\<close> in \<^verbatim>\<open>dispatcher.rs\<close>). How \<^verbatim>\<open>serde_json\<close> prints strings and floating-point
  numbers is a parameter; \<open>json_laws\<close> states what JSON text guarantees of it. A key of an object
  occurs once (\<open>wf_json\<close>), as in \<^verbatim>\<open>serde_json::Map\<close>.
\<close>

section \<open>Canonical text\<close>

record json_fmt =
  jf_str :: "string \<Rightarrow> string"
  jf_float :: "nat \<Rightarrow> string"

primrec canonical_json :: "json_fmt \<Rightarrow> json \<Rightarrow> string" where
  "canonical_json F JNull = ''null''"
| "canonical_json F (JBool b) = (if b then ''true'' else ''false'')"
| "canonical_json F (JInt i) = dec_int i"
| "canonical_json F (JFloat x) = jf_float F x"
| "canonical_json F (JStr s) = jf_str F s"
| "canonical_json F (JArr xs) = ''['' @ join_with '','' (map (canonical_json F) xs) @ '']''"
| "canonical_json F (JObj kvs) = ''{'' @ join_with '',''
     (map (\<lambda>(k, text). jf_str F k @ '':'' @ text) (sort_key fst (map (map_prod id (canonical_json F)) kvs))) @ ''}''"

definition compute_request_hash ::
    "json_fmt \<Rightarrow> ('sk, 'vk) crypto \<Rightarrow> string \<Rightarrow> string \<Rightarrow> json \<Rightarrow> string" where
  "compute_request_hash F cr key action_name params =
     keyed_request_hash cr key action_name (canonical_json F params)"

text \<open>A string literal ends where its text says; a floating-point number has a fraction or an exponent.\<close>

definition number_char :: "char \<Rightarrow> bool" where
  "number_char c \<longleftrightarrow> is_ascii_digit c \<or> c \<in> set ''+-.eE''"

definition json_laws :: "json_fmt \<Rightarrow> bool" where
  "json_laws F \<longleftrightarrow>
     (\<forall>s. \<exists>t. jf_str F s = CHR 0x22 # t)
     \<and> (\<forall>s t r r'. jf_str F s @ r = jf_str F t @ r' \<longrightarrow> s = t \<and> r = r')
     \<and> (\<forall>x. list_all number_char (jf_float F x) \<and> set (jf_float F x) \<inter> set ''.eE'' \<noteq> {})
     \<and> inj (jf_float F)"

section \<open>Normal form\<close>

primrec normal :: "json \<Rightarrow> json" where
  "normal JNull = JNull"
| "normal (JBool b) = JBool b"
| "normal (JInt i) = JInt i"
| "normal (JFloat x) = JFloat x"
| "normal (JStr s) = JStr s"
| "normal (JArr xs) = JArr (map normal xs)"
| "normal (JObj kvs) = JObj (sort_key fst (map (map_prod id normal) kvs))"

primrec wf_json :: "json \<Rightarrow> bool" where
  "wf_json JNull \<longleftrightarrow> True"
| "wf_json (JBool b) \<longleftrightarrow> True"
| "wf_json (JInt i) \<longleftrightarrow> True"
| "wf_json (JFloat x) \<longleftrightarrow> True"
| "wf_json (JStr s) \<longleftrightarrow> True"
| "wf_json (JArr xs) \<longleftrightarrow> list_all (\<lambda>b. b) (map wf_json xs)"
| "wf_json (JObj kvs) \<longleftrightarrow> distinct (map fst kvs) \<and> list_all snd (map (map_prod id wf_json) kvs)"

text \<open>The text without sorting, which is what the canonical text is of a normal form.\<close>

primrec json_text :: "json_fmt \<Rightarrow> json \<Rightarrow> string" where
  "json_text F JNull = ''null''"
| "json_text F (JBool b) = (if b then ''true'' else ''false'')"
| "json_text F (JInt i) = dec_int i"
| "json_text F (JFloat x) = jf_float F x"
| "json_text F (JStr s) = jf_str F s"
| "json_text F (JArr xs) = ''['' @ join_with '','' (map (json_text F) xs) @ '']''"
| "json_text F (JObj kvs) = ''{'' @ join_with '',''
     (map (\<lambda>(k, text). jf_str F k @ '':'' @ text) (map (map_prod id (json_text F)) kvs)) @ ''}''"

lemma insort_key_map_prod:
  "insort_key fst (map_prod id h x) (map (map_prod id h) xs) = map (map_prod id h) (insort_key fst x xs)"
  by (induction xs) auto

lemma sort_key_map_prod:
  "sort_key fst (map (map_prod id h) xs) = map (map_prod id h) (sort_key fst xs)"
  by (induction xs) (simp_all add: insort_key_map_prod [unfolded id_def] id_def)

lemma canonical_is_normal_text: "canonical_json F j = json_text F (normal j)"
proof (induction j)
  case (JObj kvs)
  have "map (map_prod id (canonical_json F)) kvs = map (map_prod id (json_text F)) (map (map_prod id normal) kvs)"
    using JObj.IH by (auto simp: map_prod_def snds.simps intro!: map_cong)
  then show ?case by (simp only: canonical_json.simps normal.simps json_text.simps sort_key_map_prod)
qed (simp_all add: comp_def cong: map_cong)

section \<open>The text determines the value\<close>

definition delim :: "string \<Rightarrow> bool" where
  "delim r \<longleftrightarrow> r = [] \<or> hd r \<in> set '',]}''"

definition self_delimiting :: "('a \<Rightarrow> string) \<Rightarrow> 'a \<Rightarrow> bool" where
  "self_delimiting R x \<longleftrightarrow>
     (\<forall>y r s. R x @ r = R y @ s \<longrightarrow> delim r \<longrightarrow> delim s \<longrightarrow> x = y \<and> r = s)"

text \<open>A comma-separated list of self-delimiting items that ends with a closing bracket.\<close>

lemma join_inj:
  assumes "\<forall>x \<in> set xs. self_delimiting R x" "c \<in> set '']}''"
    and "\<And>y. R y \<noteq> [] \<and> hd (R y) \<notin> set '',]}''"
    and "join_with '','' (map R xs) @ c # r = join_with '','' (map R ys) @ c # s"
  shows "xs = ys \<and> r = s"
  using assms(1,4)
proof (induction xs arbitrary: ys)
  case Nil
  show ?case
  proof (cases ys)
    case Nil
    then show ?thesis using Nil.prems by simp
  next
    case (Cons y ys')
    have "hd (join_with '','' (map R ys) @ c # s) = hd (R y)"
      using Cons assms(3) [of y] by (cases ys') auto
    moreover have "hd (join_with '','' (map R ys) @ c # s) = c"
      using arg_cong [OF Nil.prems(2), of hd] by simp
    ultimately show ?thesis using assms(2) assms(3) [of y] by auto
  qed
next
  case (Cons x xs)
  obtain y ys' where ys: "ys = y # ys'"
  proof (cases ys)
    case Nil
    have "hd (join_with '','' (map R (x # xs)) @ c # r) = hd (R x)"
      using assms(3) [of x] by (cases xs) auto
    moreover have "hd (join_with '','' (map R (x # xs)) @ c # r) = c"
      using arg_cong [OF Cons.prems(2), of hd] Nil by simp
    ultimately show thesis using assms(2) assms(3) [of x] by auto
  qed
  define tail where "tail zs = (if zs = [] then [] else CHR '','' # join_with '','' (map R zs))" for zs
  have join: "join_with '','' (R z # map R zs) = R z @ tail zs" for z zs
    by (cases zs) (simp_all add: tail_def)
  have delim: "delim (tail zs @ c # t)" for zs t
    using assms(2) by (auto simp: tail_def delim_def)
  have "R x @ (tail xs @ c # r) = R y @ (tail ys' @ c # s)"
    using Cons.prems(2) by (simp add: ys join)
  then have xy: "x = y" and rest: "tail xs @ c # r = tail ys' @ c # s"
    using Cons.prems(1) delim unfolding self_delimiting_def by auto
  have "join_with '','' (map R xs) @ c # r = join_with '','' (map R ys') @ c # s"
    using rest assms(2) by (auto simp: tail_def split: if_splits)
  then show ?case using Cons.IH [of ys'] Cons.prems(1) xy ys by simp
qed

lemma number_inj:
  assumes "list_all number_char a" "list_all number_char b" "a @ r = b @ s" "delim r" "delim s"
  shows "a = b \<and> r = s"
proof -
  have stop: "takeWhile number_char (u @ t) = u" if "list_all number_char u" "delim t" for u t
    using that by (induction u) (cases t; auto simp: delim_def number_char_def is_ascii_digit_def)+
  then have "a = b" using assms by metis
  with assms(3) show ?thesis by simp
qed

lemma dec_number: "list_all number_char (dec_int i)" "set (dec_int i) \<inter> set ''.eE'' = {}"
proof -
  have digits: "is_ascii_digit c" if "c \<in> set (dec n)" for c n using that by (rule dec_digits)
  then show "list_all number_char (dec_int i)"
    by (auto simp: dec_int_def list_all_iff number_char_def)
  show "set (dec_int i) \<inter> set ''.eE'' = {}"
  proof (rule Int_emptyI)
    fix c assume c: "c \<in> set (dec_int i)" "c \<in> set ''.eE''"
    have "is_ascii_digit c \<or> c = CHR ''-''"
      using c(1) digits by (auto simp: dec_int_def split: if_splits)
    then show False using c(2) by (auto simp: is_ascii_digit_def)
  qed
qed

lemma dec_int_inj: "dec_int i = dec_int j \<Longrightarrow> i = j"
proof -
  have nd: "dec n \<noteq> CHR ''-'' # t" for n t
    using dec_digits [of "CHR ''-''" n] by (auto simp: is_ascii_digit_def)
  show "dec_int i = dec_int j \<Longrightarrow> i = j"
    using nd nd [symmetric] by (auto simp: dec_int_def split: if_splits)
qed

lemma dec_int_head: "dec_int i \<noteq> [] \<and> number_char (hd (dec_int i))"
  using dec_number(1) [of i] by (cases "dec_int i") (auto simp: dec_int_def split: if_splits)


lemma json_lawsD:
  assumes "json_laws F"
  shows "\<exists>t. jf_str F s = CHR 0x22 # t" "jf_str F s @ r = jf_str F t @ r' \<Longrightarrow> s = t \<and> r = r'"
    "list_all number_char (jf_float F x)" "set (jf_float F x) \<inter> set ''.eE'' \<noteq> {}"
    "jf_float F x = jf_float F y \<Longrightarrow> x = y"
  using assms unfolding json_laws_def inj_def by blast+

text \<open>The first character of a text tells the constructor.\<close>

fun json_kind :: "json \<Rightarrow> nat" where
  "json_kind JNull = 0" | "json_kind (JBool b) = (if b then 1 else 2)" | "json_kind (JInt _) = 3"
| "json_kind (JFloat _) = 3" | "json_kind (JStr _) = 4" | "json_kind (JArr _) = 5" | "json_kind (JObj _) = 6"

definition kind_of_head :: "char \<Rightarrow> nat" where
  "kind_of_head c =
     (if c = CHR ''n'' then 0 else if c = CHR ''t'' then 1 else if c = CHR ''f'' then 2
      else if c = CHR 0x22 then 4 else if c = CHR ''['' then 5 else if c = CHR ''{'' then 6 else 3)"

lemma number_head:
  assumes "number_char c"
  shows "kind_of_head c = 3 \<and> c \<notin> set '',]}''"
proof (cases "is_ascii_digit c")
  case True
  then have "c \<noteq> d" if "\<not> is_ascii_digit d" for d using that by blast
  then show ?thesis by (simp add: kind_of_head_def is_ascii_digit_def)
next
  case False
  then have "c \<in> set ''+-.eE''" using assms by (simp add: number_char_def)
  then show ?thesis by (auto simp: kind_of_head_def)
qed

lemma json_text_head:
  assumes "json_laws F"
  shows "json_text F j \<noteq> [] \<and> kind_of_head (hd (json_text F j)) = json_kind j \<and> hd (json_text F j) \<notin> set '',]}''"
proof (cases j)
  case (JInt i)
  then show ?thesis using dec_int_head [of i] number_head by simp
next
  case (JFloat x)
  have "jf_float F x \<noteq> []" using json_lawsD(4) [OF assms, of x] by auto
  then have "number_char (hd (jf_float F x))"
    using json_lawsD(3) [OF assms, of x] by (cases "jf_float F x") auto
  with \<open>jf_float F x \<noteq> []\<close> show ?thesis using JFloat number_head by simp
next
  case (JStr s)
  then show ?thesis using json_lawsD(1) [OF assms, of s] by (auto simp: kind_of_head_def)
qed (simp_all add: kind_of_head_def)

lemma same_kind:
  assumes "json_laws F" "json_text F a @ r = json_text F b @ s"
  shows "json_kind a = json_kind b"
  using json_text_head [OF assms(1), of a] json_text_head [OF assms(1), of b] arg_cong [OF assms(2), of hd] by auto

lemma kind_cases:
  "json_kind JNull = json_kind b \<Longrightarrow> b = JNull"
  "json_kind (JBool x) = json_kind b \<Longrightarrow> b = JBool x"
  "json_kind (JInt i) = json_kind b \<Longrightarrow> (\<exists>j. b = JInt j) \<or> (\<exists>y. b = JFloat y)"
  "json_kind (JFloat f) = json_kind b \<Longrightarrow> (\<exists>j. b = JInt j) \<or> (\<exists>y. b = JFloat y)"
  "json_kind (JStr t) = json_kind b \<Longrightarrow> \<exists>u. b = JStr u"
  "json_kind (JArr xs) = json_kind b \<Longrightarrow> \<exists>ys. b = JArr ys"
  "json_kind (JObj kvs) = json_kind b \<Longrightarrow> \<exists>kvs'. b = JObj kvs'"
  by (cases b; auto split: if_splits)+

lemma entry_self_delimiting:
  assumes "json_laws F" "self_delimiting (json_text F) v"
  shows "self_delimiting (\<lambda>(k, v). jf_str F k @ '':'' @ json_text F v) (k, v)"
  unfolding self_delimiting_def
proof (intro allI impI, clarsimp)
  fix k' v' r s
  assume eq: "jf_str F k @ CHR '':'' # json_text F v @ r = jf_str F k' @ CHR '':'' # json_text F v' @ s"
    and d: "delim r" "delim s"
  from json_lawsD(2) [OF assms(1) eq] have "k = k'" "json_text F v @ r = json_text F v' @ s" by auto
  with assms(2) d show "k = k' \<and> v = v' \<and> r = s" unfolding self_delimiting_def by blast
qed

lemma json_text_float_int: "json_laws F \<Longrightarrow> jf_float F x \<noteq> dec_int i"
  using json_lawsD(4) [of F x] dec_number(2) [of i] by metis

lemma number_self_delimiting:
  assumes F: "json_laws F" and "j = JInt i \<or> j = JFloat x"
  shows "self_delimiting (json_text F) j"
  unfolding self_delimiting_def
proof (intro allI impI)
  fix b r s assume eq: "json_text F j @ r = json_text F b @ s" and d: "delim r" "delim s"
  have b: "(\<exists>k. b = JInt k) \<or> (\<exists>y. b = JFloat y)"
    using same_kind [OF F eq] assms(2) kind_cases(3,4) [of _ b] by fastforce
  have "list_all number_char (json_text F j)" "list_all number_char (json_text F b)"
    using assms(2) b dec_number(1) json_lawsD(3) [OF F] by auto
  then have eq': "json_text F j = json_text F b \<and> r = s" using number_inj eq d by blast
  from assms(2) b eq' show "j = b \<and> r = s"
    using dec_int_inj json_lawsD(5) [OF F] json_text_float_int [OF F] json_text_float_int [OF F, symmetric]
    by (elim disjE exE) auto
qed

lemma json_text_self_delimiting:
  assumes F: "json_laws F"
  shows "self_delimiting (json_text F) j"
proof (induction j)
  case (JInt i)
  show ?case by (rule number_self_delimiting [OF F]) simp
next
  case (JFloat x)
  show ?case by (rule number_self_delimiting [OF F]) simp
next
  case JNull
  show ?case unfolding self_delimiting_def
    using kind_cases(1) [OF same_kind [OF F, of JNull]] by (metis same_append_eq)
next
  case (JBool x)
  show ?case unfolding self_delimiting_def
    using kind_cases(2) [OF same_kind [OF F, of "JBool x"]] by (metis same_append_eq)
next
  case (JStr t)
  show ?case unfolding self_delimiting_def
  proof (intro allI impI)
    fix b r s assume eq: "json_text F (JStr t) @ r = json_text F b @ s"
    then obtain u where b: "b = JStr u" using kind_cases(5) [OF same_kind [OF F]] by blast
    show "JStr t = b \<and> r = s" using json_lawsD(2) [OF F, of t r u s] eq by (simp add: b)
  qed
next
  case (JArr xs)
  show ?case unfolding self_delimiting_def
  proof (intro allI impI)
    fix b r s assume eq: "json_text F (JArr xs) @ r = json_text F b @ s"
    then obtain ys where b: "b = JArr ys" using kind_cases(6) [OF same_kind [OF F]] by blast
    have "xs = ys \<and> r = s"
      by (rule join_inj [where R = "json_text F" and c = "CHR '']''"])
        (use JArr.IH json_text_head [OF F] eq b in auto)
    then show "JArr xs = b \<and> r = s" by (simp add: b)
  qed
next
  case (JObj kvs)
  let ?R = "\<lambda>(k, v). jf_str F k @ '':'' @ json_text F v"
  have obj: "json_text F (JObj m) = ''{'' @ join_with '','' (map ?R m) @ ''}''" for m
    by (simp add: comp_def case_prod_unfold)
  have head: "?R y \<noteq> [] \<and> hd (?R y) \<notin> set '',]}''" for y
    using json_lawsD(1) [OF F, of "fst y"] by (auto simp: case_prod_unfold)
  have items: "\<forall>x \<in> set kvs. self_delimiting ?R x"
    using JObj.IH entry_self_delimiting [OF F] by (fastforce simp: snds.simps)
  show ?case unfolding self_delimiting_def
  proof (intro allI impI)
    fix b r s assume eq: "json_text F (JObj kvs) @ r = json_text F b @ s"
    then obtain m where b: "b = JObj m" using kind_cases(7) [OF same_kind [OF F]] by blast
    have "kvs = m \<and> r = s"
      by (rule join_inj [where R = ?R and c = "CHR ''}''", OF items _ head])
        (use eq in \<open>simp_all add: b obj del: json_text.simps\<close>)
    then show "JObj kvs = b \<and> r = s" by (simp add: b)
  qed
qed

section \<open>Equal text, equal normal form\<close>

lemma canonical_json_eq_iff:
  assumes "json_laws F"
  shows "canonical_json F p = canonical_json F q \<longleftrightarrow> normal p = normal q"
proof
  assume "canonical_json F p = canonical_json F q"
  then have "json_text F (normal p) @ [] = json_text F (normal q) @ []"
    by (simp add: canonical_is_normal_text)
  moreover have "delim []" by (simp add: delim_def)
  ultimately show "normal p = normal q"
    using json_text_self_delimiting [OF assms, of "normal p"] unfolding self_delimiting_def by blast
qed (simp add: canonical_is_normal_text)

section \<open>Actions do not see the order of keys\<close>

lemma map_of_sort_key:
  "distinct (map fst kvs) \<Longrightarrow> map_of (sort_key fst kvs) = map_of kvs"
  by (subst map_of_inject_set) (simp_all add: distinct_map)

lemma get_param_normal:
  assumes "wf_json p"
  shows "get_param (normal p) k = map_option normal (get_param p k)"
proof (cases p)
  case (JObj kvs)
  have keys: "map fst (map (map_prod id normal) kvs) = map fst kvs" by (simp add: comp_def)
  have "distinct (map fst kvs)" using assms JObj by simp
  then have "map_of (sort_key fst (map (map_prod id normal) kvs)) k = map_of (map (map_prod id normal) kvs) k"
    using map_of_sort_key [of "map (map_prod id normal) kvs"] unfolding keys by simp
  also have "\<dots> = map_option normal (map_of kvs k)"
    by (induction kvs) auto
  finally show ?thesis by (simp add: JObj get_param_def)
qed (simp_all add: get_param_def)

lemma read_normal [simp]:
  "as_str (normal j) = as_str j" "as_bool (normal j) = as_bool j" "as_u64 (normal j) = as_u64 j"
  "as_i64 (normal j) = as_i64 j" "normal j = JNull \<longleftrightarrow> j = JNull"
  by (cases j; simp add: as_str_def as_bool_def as_u64_def as_i64_def)+

lemma str_elements_normal [simp]: "str_elements key (map normal xs) = str_elements key xs"
  by (simp add: str_elements_def comp_def)

lemma array_normal [simp]:
  "(case normal v of JNull \<Rightarrow> a | JArr arr \<Rightarrow> g (str_elements key arr) | _ \<Rightarrow> e)
   = (case v of JNull \<Rightarrow> a | JArr arr \<Rightarrow> g (str_elements key arr) | _ \<Rightarrow> e)"
  by (cases v) simp_all

lemma required_normal:
  "wf_json p \<Longrightarrow> (\<And>j. read (normal j) = read j) \<Longrightarrow> required read (normal p) k = required read p k"
  by (simp add: required_def get_param_normal split: option.split)

lemma optional_normal:
  assumes "wf_json p" "\<And>j. read (normal j) = read j"
  shows "optional read (normal p) k = optional read p k"
proof (cases "get_param p k")
  case (Some v)
  then show ?thesis
    using assms by (cases v) (simp_all add: optional_def get_param_normal, (metis normal.simps)+)
qed (use assms in \<open>simp add: optional_def get_param_normal\<close>)

lemma resolve_username_normal: "wf_json p \<Longrightarrow> resolve_username (normal p) = resolve_username p"
  by (cases "get_param p ''username''"; cases "get_param p ''user''")
    (simp_all add: resolve_username_def get_param_normal)

lemma base_readers_normal:
  assumes "wf_json p"
  shows "require_str (normal p) k = require_str p k" "optional_str (normal p) k = optional_str p k"
    "require_bool (normal p) k = require_bool p k" "optional_bool (normal p) k = optional_bool p k"
    "optional_u64 (normal p) k = optional_u64 p k" "optional_i64 (normal p) k = optional_i64 p k"
    "require_i64 (normal p) k = require_i64 p k" "require_u32 (normal p) k = require_u32 p k"
    "pid_param (normal p) = pid_param p" "str_array_or_empty (normal p) k = str_array_or_empty p k"
    "optional_str_array (normal p) k = optional_str_array p k"
  using assms
  by (simp_all add: require_str_def optional_str_def require_bool_def optional_bool_def optional_u64_def
      optional_i64_def require_i64_def required_normal optional_normal require_u32_def pid_param_def
      str_array_or_empty_def optional_str_array_def get_param_normal array_normal [where g = "\<lambda>x. x"]
      array_normal [where g = "\<lambda>r. and_then r (\<lambda>xs. Inr (Some xs))"] split: option.split)

lemma readers_normal:
  assumes "wf_json p"
  shows "str_arg (normal p) k v = str_arg p k v" "user_arg (normal p) v = user_arg p v"
    "optional_validated (normal p) k v = optional_validated p k v"
    "require_str (normal p) k = require_str p k" "optional_str (normal p) k = optional_str p k"
    "opt_u64_flag (normal p) k flag l h = opt_u64_flag p k flag l h"
    "opt_i64_flag (normal p) k flag l' h' = opt_i64_flag p k flag l' h'"
    "opt_bool_flag (normal p) k flag = opt_bool_flag p k flag"
    "optional_bool (normal p) k = optional_bool p k" "require_bool (normal p) k = require_bool p k"
    "str_array_or_empty (normal p) k = str_array_or_empty p k"
    "optional_str_array (normal p) k = optional_str_array p k"
    "require_u32 (normal p) k = require_u32 p k" "require_positive_u32 (normal p) k = require_positive_u32 p k"
    "limit_assignment (normal p) k v property = limit_assignment p k v property"
    "validated_repo_id (normal p) = validated_repo_id p" "validated_no_newline (normal p) k = validated_no_newline p k"
    "optional_u64 (normal p) k = optional_u64 p k" "optional_i64 (normal p) k = optional_i64 p k"
    "require_i64 (normal p) k = require_i64 p k" "list_arg (normal p) k v = list_arg p k v"
    "resolve_username (normal p) = resolve_username p" "pid_param (normal p) = pid_param p"
    "(case get_param (normal p) k of None \<Rightarrow> a | Some j \<Rightarrow> ok_or e (as_bool j)) =
     (case get_param p k of None \<Rightarrow> a | Some j \<Rightarrow> ok_or e (as_bool j))"
  using assms
  by (simp_all add: base_readers_normal resolve_username_normal str_arg_def user_arg_def optional_validated_def opt_u64_flag_def
      opt_i64_flag_def opt_bool_flag_def require_positive_u32_def limit_assignment_def validated_repo_id_def
      validated_no_newline_def list_arg_def get_param_normal split: option.split)

definition order_free :: "(string \<times> builder) list \<Rightarrow> json \<Rightarrow> bool" where
  "order_free bs p \<longleftrightarrow> list_all (\<lambda>(n, build). build (normal p) = build p) bs"

lemma sections_order_free_1:
  assumes "wf_json p"
  shows "order_free deployment_builders p" "order_free flatpak_builders p"
    "order_free containers_builders p" "order_free layering_builders p"
    "order_free package_repos_builders p" "order_free services_builders p"
    "order_free toolbox_builders p" "order_free identity_builders p"
    "order_free filesystem_builders p" "order_free processes_builders p"
    "order_free journald_builders p"
  unfolding order_free_def deployment_builders_def flatpak_builders_def containers_builders_def layering_builders_def
    package_repos_builders_def services_builders_def toolbox_builders_def identity_builders_def
    filesystem_builders_def processes_builders_def journald_builders_def list.pred_inject prod.case
  by (simp_all only: readers_normal [OF assms] simp_thms list.pred_inject)

lemma sections_order_free_2:
  assumes "wf_json p"
  shows "order_free lvm_builders p" "order_free sysctl_builders p" "order_free mounts_builders p"
    "order_free sudoers_builders p" "order_free apt_preferences_builders p"
    "order_free logging_builders p" "order_free pam_builders p" "order_free system_info_builders p"
    "order_free network_builders p" "order_free users_builders p" "order_free ssh_builders p"
  unfolding order_free_def lvm_builders_def sysctl_builders_def mounts_builders_def sudoers_builders_def
    apt_preferences_builders_def logging_builders_def pam_builders_def system_info_builders_def
    network_builders_def users_builders_def ssh_builders_def list.pred_inject prod.case
  by (simp_all only: readers_normal [OF assms] simp_thms list.pred_inject)

lemma sections_order_free_3:
  assumes "wf_json p"
  shows "order_free apt_builders p" "order_free ppa_builders p" "order_free snap_builders p"
    "order_free grub_builders p" "order_free reboot_builders p" "order_free ufw_builders p"
    "order_free distrobox_builders p" "order_free netplan_builders p"
    "order_free ufw_tier3_builders p" "order_free ubuntu_pro_builders p"
    "order_free livepatch_builders p"
  unfolding order_free_def apt_builders_def ppa_builders_def snap_builders_def grub_builders_def reboot_builders_def
    ufw_builders_def distrobox_builders_def netplan_builders_def ufw_tier3_builders_def
    ubuntu_pro_builders_def livepatch_builders_def list.pred_inject prod.case
  by (simp_all only: readers_normal [OF assms] simp_thms list.pred_inject)

lemma sections_order_free_4:
  assumes "wf_json p"
  shows "order_free multipass_builders p" "order_free release_upgrade_builders p"
    "order_free resolvectl_builders p" "order_free apparmor_builders p"
    "order_free cloudinit_builders p" "order_free ubuntu_flatpak_builders p"
    "order_free fail2ban_builders p" "order_free auditd_builders p" "order_free certbot_builders p"
  unfolding order_free_def multipass_builders_def release_upgrade_builders_def resolvectl_builders_def
    apparmor_builders_def cloudinit_builders_def ubuntu_flatpak_builders_def
    fail2ban_builders_def auditd_builders_def certbot_builders_def list.pred_inject prod.case
  by (simp_all only: readers_normal [OF assms] simp_thms list.pred_inject)

lemma order_free_append: "order_free bs p \<Longrightarrow> order_free bs' p \<Longrightarrow> order_free (bs @ bs') p"
  by (simp add: order_free_def)

lemma order_free_Nil: "order_free [] p"
  by (simp add: order_free_def)

lemma action_builders_order_free: "wf_json p \<Longrightarrow> order_free action_builders p"
  unfolding action_builders_def concat.simps
  by (intro order_free_append order_free_Nil sections_order_free_1 sections_order_free_2
      sections_order_free_3 sections_order_free_4)

lemma validate_action_params_normal: "validate_action_params n (normal p) = validate_action_params n p"
proof (cases p)
  case (JObj kvs)
  have "set (map fst (sort_key fst (map (map_prod id normal) kvs))) = set (map fst kvs)"
    by (simp add: image_image)
  then have "list_ex f (map fst (sort_key fst (map (map_prod id normal) kvs))) = list_ex f (map fst kvs)" for f
    by (simp only: list_ex_iff)
  then show ?thesis
    by (cases "allowed_action_params n") (simp_all add: JObj validate_action_params_def)
qed (cases "allowed_action_params n"; simp add: validate_action_params_def)+

lemma build_normal:
  assumes "wf_json p"
  shows "build_action_spec n (normal p) = build_action_spec n p"
proof -
  have "build (normal p) = build p" if "map_of action_builders n = Some build" for build
    using map_of_SomeD [OF that] action_builders_order_free [OF assms]
    unfolding order_free_def list_all_iff by blast
  then show ?thesis
    by (cases "map_of action_builders n") (simp_all add: build_action_spec_def validate_action_params_normal)
qed

section \<open>The hash binds the action\<close>

lemma hex_encode_inj: "hex_laws cr \<Longrightarrow> hex_encode cr a = hex_encode cr b \<Longrightarrow> a = b"
  unfolding hex_laws_def by (metis option.inject)

lemma nul_split:
  assumes "CHR 0x00 \<notin> set n" "CHR 0x00 \<notin> set n'" "n @ CHR 0x00 # c = n' @ CHR 0x00 # c'"
  shows "n = n' \<and> c = c'"
proof -
  have "takeWhile (\<lambda>b. b \<noteq> CHR 0x00) (m @ CHR 0x00 # t) = m" if "CHR 0x00 \<notin> set m" for m t
    using that by (induction m) auto
  then have "n = n'" using assms by metis
  with assms(3) show ?thesis by simp
qed

text \<open>C11: The request hash of an execution equals the one stored at preview exactly when the action is
  the same and the parameters are the same up to the order of object keys; and then the executor
  builds the same specification from both, so the effect that runs is the effect that was previewed.
  Assumed: serde_json's string and number syntax, the hexadecimal encoding, and that HMAC-SHA256
  tells the two messages apart.\<close>

theorem request_hash_binds_action:
  assumes "json_laws F" "hex_laws cr" "wf_json p" "wf_json q" "CHR 0x00 \<notin> set n" "CHR 0x00 \<notin> set n'"
    and "inj_on (hmac_sha256 cr key) {n @ [CHR 0x00] @ canonical_json F p, n' @ [CHR 0x00] @ canonical_json F q}"
  shows "(compute_request_hash F cr key n p = compute_request_hash F cr key n' q
            \<longleftrightarrow> n = n' \<and> normal p = normal q)
         \<and> (compute_request_hash F cr key n p = compute_request_hash F cr key n' q
            \<longrightarrow> build_action_spec n p = build_action_spec n' q)"
proof (intro conjI impI)
  show iff: "compute_request_hash F cr key n p = compute_request_hash F cr key n' q
      \<longleftrightarrow> n = n' \<and> normal p = normal q" (is "?eq \<longleftrightarrow> ?same")
  proof
    assume ?eq
    then have "hmac_sha256 cr key (n @ [CHR 0x00] @ canonical_json F p)
               = hmac_sha256 cr key (n' @ [CHR 0x00] @ canonical_json F q)"
      unfolding compute_request_hash_def keyed_request_hash_def by (rule hex_encode_inj [OF assms(2)])
    from inj_onD [OF assms(7) this] have "n @ CHR 0x00 # canonical_json F p = n' @ CHR 0x00 # canonical_json F q"
      by simp
    from nul_split [OF assms(5,6) this] show ?same
      by (simp add: canonical_json_eq_iff [OF assms(1)])
  next
    assume ?same
    then have "canonical_json F p = canonical_json F q" by (simp add: canonical_json_eq_iff [OF assms(1)])
    with \<open>?same\<close> show ?eq by (simp add: compute_request_hash_def)
  qed
  assume ?eq
  with iff have same: "n = n'" "normal p = normal q" by auto
  then show "build_action_spec n p = build_action_spec n' q"
    using build_normal [OF assms(3), of n] build_normal [OF assms(4), of n'] by simp
qed

section \<open>A concrete syntax\<close>

text \<open>
  Strings quoted with backslash escapes and numbers with one decimal, an instance of the laws.
\<close>

definition quote_char :: "char \<Rightarrow> string" where
  "quote_char c = (if c = CHR 0x22 \<or> c = CHR 0x5C then [CHR 0x5C, c] else [c])"

definition quoted :: "string \<Rightarrow> string" where
  "quoted s = CHR 0x22 # concat (map quote_char s) @ [CHR 0x22]"

definition json_fmt_ref :: json_fmt where
  "json_fmt_ref = \<lparr>jf_str = quoted, jf_float = (\<lambda>n. dec n @ ''.0'')\<rparr>"

lemma quoted_prefix_free:
  "concat (map quote_char s) @ CHR 0x22 # r = concat (map quote_char t) @ CHR 0x22 # r' \<Longrightarrow> s = t \<and> r = r'"
proof (induction s arbitrary: t)
  case Nil
  then show ?case by (cases t) (auto simp: quote_char_def split: if_splits)
next
  case (Cons c s)
  then obtain d t' where t: "t = d # t'"
    by (cases t) (auto simp: quote_char_def split: if_splits)
  from Cons.prems have "c = d \<and> concat (map quote_char s) @ CHR 0x22 # r = concat (map quote_char t') @ CHR 0x22 # r'"
    unfolding t quote_char_def by (auto split: if_splits)
  with Cons.IH [of t'] show ?case by (simp add: t)
qed

lemma json_laws_ref: "json_laws json_fmt_ref"
  unfolding json_laws_def
proof (intro conjI allI impI)
  fix s t r r' assume "jf_str json_fmt_ref s @ r = jf_str json_fmt_ref t @ r'"
  then show "s = t" "r = r'" using quoted_prefix_free [of s r t r'] by (simp_all add: json_fmt_ref_def quoted_def)
next
  fix x show "list_all number_char (jf_float json_fmt_ref x)"
    using dec_number(1) [of "int x"] by (simp add: json_fmt_ref_def number_char_def is_ascii_digit_def dec_int_def)
qed (auto simp: json_fmt_ref_def quoted_def inj_def)

lemma request_hash_binds_action_witness:
  "compute_request_hash json_fmt_ref (crypto_ref []) ''k'' ''AddUserToGroup''
     (JObj [(''username'', JStr ''al''), (''group'', JStr ''wheel'')])
   = compute_request_hash json_fmt_ref (crypto_ref []) ''k'' ''AddUserToGroup''
     (JObj [(''group'', JStr ''wheel''), (''username'', JStr ''al'')])
   \<and> build_action_spec ''AddUserToGroup'' (JObj [(''username'', JStr ''al''), (''group'', JStr ''wheel'')])
     = build_action_spec ''AddUserToGroup'' (JObj [(''group'', JStr ''wheel''), (''username'', JStr ''al'')])"
proof -
  let ?p = "JObj [(''username'', JStr ''al''), (''group'', JStr ''wheel'')]"
  let ?q = "JObj [(''group'', JStr ''wheel''), (''username'', JStr ''al'')]"
  have same: "normal ?p = normal ?q" by simp
  then have "inj_on (hmac_sha256 (crypto_ref []) ''k'')
      {''AddUserToGroup'' @ [CHR 0x00] @ canonical_json json_fmt_ref ?p,
       ''AddUserToGroup'' @ [CHR 0x00] @ canonical_json json_fmt_ref ?q}"
    by (simp only: canonical_is_normal_text insert_absorb2 inj_on_def) blast
  from request_hash_binds_action [OF json_laws_ref hex_laws_ref _ _ _ _ this] same show ?thesis by simp
qed

end
