(* ===== verification/Sk_Handler.thy ===== *)
theory Sk_Handler
  imports Sk_History Sk_Platform Sk_Preview Sk_Redact Sk_Request_Hash
begin

text \<open>
  Request handlers as programs, and the daemon that interleaves them
  (\<^verbatim>\<open>crates/sysknife-daemon/src/dispatcher.rs\<close>, \<^verbatim>\<open>state.rs\<close>, \<^verbatim>\<open>main.rs\<close>). A handler is a tree whose nodes
  are the points where it awaits: one call of the store, one section under the mutex of
  \<^verbatim>\<open>running_exclusive\<close>, one frame sent, one command or action run. Between two nodes another
  connection may run. What a node receives (the clock, a fresh identifier, a failure of the
  database, the output of a command, whether the peer got the frame) is its argument.
\<close>

section \<open>Messages\<close>

datatype daemon_request =
    QueryState string
  | Preview string string json bool
  | Approve string string
  | ApprovalDetails string string
  | Execute string string string json string
  | Cancel string string
  | QueryAction string string json
  | QueryHistory string "nat option" "string option" "string option" "nat option" "string option"
  | Describe string string json

record job_result =
  jr_status :: string
  jr_summary :: string
  jr_warnings :: "string list"
  jr_job_id :: string
  jr_needs_reboot :: bool
  jr_rollback_ref :: "string option"
  jr_transaction_id :: string

datatype daemon_response =
    StateResponse string json "distro_id option"
  | PreviewResponse string preview_envelope string
  | ApprovalResponse string string string
  | ApprovalDetailsResponse string string string preview_envelope
  | JobStarted string string string
  | JobProgress string string
  | JobCompleted string job_result
  | QueryActionResponse string string string
  | HistoryResponse string "job_history_entry list"
  | CancelResponse string string
  | DescribeResponse string string string bool
  | ErrorResponse string string string
  | ConflictResponse string string "nat option"

section \<open>Handlers\<close>

record execution_output =
  eo_stdout :: string
  eo_stderr :: string
  eo_exit_code :: int

type_synonym execution = "executor_error + execution_output"

definition is_success :: "execution_output \<Rightarrow> bool" where
  "is_success out \<longleftrightarrow> eo_exit_code out = 0"

definition is_nonzero :: "execution_output \<Rightarrow> bool" where
  "is_nonzero out \<longleftrightarrow> eo_exit_code out \<noteq> 0"

fun not_stopped :: "execution \<Rightarrow> bool" where
  "not_stopped (Inl (ActionNotStopped _ _ _)) = True"
| "not_stopped _ = False"

datatype handler_error = HandlerFraming string | HandlerSerialization string | HandlerInternal string

datatype collected = CollectPanicked string | CollectFailed string | CollectedState json

datatype command_result = CommandPanicked string | CommandFailed string | CommandOutput string

text \<open>What a call of the store reads of its environment: SQLite's clock, the fresh UUID, and whether
  the call fails for a reason outside the database.\<close>

record store_env =
  se_clock :: sql_clock
  se_uuid :: string
  se_failure :: "string option"

type_synonym slots = "exclusive_resource \<Rightarrow> string option"

datatype handler =
    Return "handler_error + unit"
  | Store "store_env \<Rightarrow> db \<Rightarrow> handler \<times> db"
  | Locked "slots \<Rightarrow> handler \<times> slots"
  | Send daemon_response "handler_error + unit \<Rightarrow> handler"
  | Uuid "string \<Rightarrow> handler"
  | Collect "collected \<Rightarrow> handler"
  | RunCommand string "string list" "command_result \<Rightarrow> handler"
  | RunAction action_spec "string list \<times> execution \<Rightarrow> handler"

text \<open>A call of the store that may commit, and one that only reads.\<close>

definition store_call ::
    "(store_env \<Rightarrow> db \<Rightarrow> 'a committed) \<Rightarrow> (store_error + 'a \<Rightarrow> handler) \<Rightarrow> handler" where
  "store_call op k = Store (\<lambda>env db.
     case se_failure env of
       Some e \<Rightarrow> (k (Inl (StoreSqlite e)), db)
     | None \<Rightarrow> (case op env db of (r, db') \<Rightarrow> (k r, db')))"

definition store_read ::
    "(store_env \<Rightarrow> db \<Rightarrow> store_error + 'a) \<Rightarrow> (store_error + 'a \<Rightarrow> handler) \<Rightarrow> handler" where
  "store_read op k = store_call (\<lambda>env db. (op env db, db)) k"

definition send_error :: "string \<Rightarrow> string \<Rightarrow> string \<Rightarrow> handler" where
  "send_error request_id category message = Send (ErrorResponse request_id category message) Return"

definition send_response :: "daemon_response \<Rightarrow> handler" where
  "send_response response = Send response Return"

section \<open>The daemon\<close>

text \<open>\<^verbatim>\<open>DaemonState\<close> without the parts that change, with what the handlers use of \<^verbatim>\<open>serde_json\<close> and
  \<^verbatim>\<open>chrono\<close>: how JSON is printed and read, and how an RFC 3339 instant is.\<close>

record ('sk, 'vk) daemon_state =
  ds_audit :: "('sk, 'vk) store"
  ds_request_hash_key :: string
  ds_policy :: policy_table
  ds_host_distro :: "distro_id option"
  ds_json :: json_fmt
  ds_json_parse :: "string \<Rightarrow> string + json"
  ds_rfc3339_parse :: "string \<Rightarrow> string + int"
  ds_rfc3339 :: "int \<Rightarrow> string"

record shared =
  sh_db :: db
  sh_slots :: slots

datatype effect = Sending daemon_response | RunningAction action_spec

text \<open>One node of a handler; its effect, when it has one, with what came of it. \<open>uuids\<close> holds the
  identifiers that \<^verbatim>\<open>Uuid::new_v4\<close> gives to transactions.\<close>

datatype event =
    Quiet
  | Sent daemon_response "handler_error + unit"
  | Ran action_spec execution

inductive act :: "string set \<Rightarrow> handler \<Rightarrow> shared \<Rightarrow> event \<Rightarrow> handler \<Rightarrow> shared \<Rightarrow> bool"
  for uuids :: "string set" where
  act_store: "se_uuid env \<in> uuids \<Longrightarrow> f env (sh_db s) = (h, d) \<Longrightarrow> act uuids (Store f) s Quiet h (s\<lparr>sh_db := d\<rparr>)"
| act_locked: "f (sh_slots s) = (h, m) \<Longrightarrow> act uuids (Locked f) s Quiet h (s\<lparr>sh_slots := m\<rparr>)"
| act_send: "act uuids (Send r k) s (Sent r x) (k x) s"
| act_uuid: "act uuids (Uuid k) s Quiet (k x) s"
| act_collect: "act uuids (Collect k) s Quiet (k x) s"
| act_run_command: "act uuids (RunCommand p args k) s Quiet (k x) s"
| act_run_action: "act uuids (RunAction spec k) s (Ran spec out) (k (lines, out)) s"

inductive_cases act_cases:
  "act uuids (Return r) s ev h' s'" "act uuids (Store f) s ev h' s'" "act uuids (Locked f) s ev h' s'"
  "act uuids (Send r k) s ev h' s'" "act uuids (Uuid k) s ev h' s'" "act uuids (Collect k) s ev h' s'"
  "act uuids (RunCommand p args k) s ev h' s'" "act uuids (RunAction spec k) s ev h' s'"

text \<open>A connection serves one request at a time; \<open>cn_handler\<close> is the handler it awaits.\<close>

record connection =
  cn_caller :: caller_attribution
  cn_served :: nat
  cn_handler :: "handler option"

record daemon =
  dm_shared :: shared
  dm_conns :: "connection list"
  dm_log :: "(caller_attribution \<times> event) list"

definition MAX_CONNECTIONS :: nat where
  "MAX_CONNECTIONS = 16"

text \<open>The answer to a frame that is JSON but no request, with the error of \<^verbatim>\<open>serde_json\<close>.\<close>

definition unknown_message :: "string \<Rightarrow> handler" where
  "unknown_message e = Send (ErrorResponse [] ''validation_failure'' (''unknown message type: '' @ e)) (\<lambda>_. Return (Inr ()))"

text \<open>Before it accepts a connection, the daemon fails the transactions that a crash left running; a
  call of the store in it may fail.\<close>

definition reconcile_at_start ::
    "('sk, 'vk) daemon_state \<Rightarrow> store_env \<Rightarrow> (nat \<Rightarrow> store_env) \<Rightarrow> nat \<Rightarrow> db
     \<Rightarrow> ((store_error + nat) \<times> db) option" where
  "reconcile_at_start ds env envs fuel db =
     reconcile_interrupted_running
       (\<lambda>db. case se_failure env of Some e \<Rightarrow> Inl (StoreSqlite e)
         | None \<Rightarrow> list_running_ids (ds_audit ds) (ds_rfc3339 ds) (se_clock env) db)
       (\<lambda>i txid db. case se_failure (envs i) of Some e \<Rightarrow> (Inl (StoreSqlite e), db)
         | None \<Rightarrow> update_status (ds_audit ds) (se_clock (envs i)) txid Failed db)
       fuel 0 db"

text \<open>Nobody can name the identifier of a transaction before it exists.\<close>

fun named_transaction :: "daemon_request \<Rightarrow> string option" where
  "named_transaction (Approve _ txid) = Some txid"
| "named_transaction (ApprovalDetails _ txid) = Some txid"
| "named_transaction (Execute _ txid _ _ _) = Some txid"
| "named_transaction (Cancel _ txid) = Some txid"
| "named_transaction _ = None"

definition unguessed :: "string set \<Rightarrow> db \<Rightarrow> daemon_request \<Rightarrow> bool" where
  "unguessed uuids db req \<longleftrightarrow>
     (case named_transaction req of
        Some txid \<Rightarrow> txid \<in> uuids \<longrightarrow> find_tx txid db \<noteq> None
      | None \<Rightarrow> True)"

text \<open>\<open>serve\<close> is the match of \<^verbatim>\<open>dispatch_loop\<close>. A connection closes when it is idle: the peer closed it, the
  frame is too large or not JSON, or the deadline passed. A restart forgets the connections and the slots.\<close>

inductive daemon_step ::
    "('sk, 'vk) daemon_state \<Rightarrow> string set \<Rightarrow> (caller_attribution \<Rightarrow> daemon_request \<Rightarrow> handler) \<Rightarrow> daemon \<Rightarrow> daemon \<Rightarrow> bool"
  for ds :: "('sk, 'vk) daemon_state" and uuids :: "string set" and serve :: "caller_attribution \<Rightarrow> daemon_request \<Rightarrow> handler" where
  ds_accept:
    "attribution a \<Longrightarrow> length (dm_conns d) < MAX_CONNECTIONS \<Longrightarrow>
     daemon_step ds uuids serve d (d\<lparr>dm_conns := dm_conns d @ [\<lparr>cn_caller = a, cn_served = 0, cn_handler = None\<rparr>]\<rparr>)"
| ds_close:
    "dm_conns d = xs @ c # ys \<Longrightarrow> cn_handler c = None \<Longrightarrow>
     daemon_step ds uuids serve d (d\<lparr>dm_conns := xs @ ys\<rparr>)"
| ds_request:
    "dm_conns d = xs @ c # ys \<Longrightarrow> cn_handler c = None \<Longrightarrow> unguessed uuids (sh_db (dm_shared d)) req \<Longrightarrow>
     daemon_step ds uuids serve d (d\<lparr>dm_conns := xs @ c\<lparr>cn_served := cn_served c + 1,
       cn_handler := Some (serve (cn_caller c) req)\<rparr> # ys\<rparr>)"
| ds_unknown:
    "dm_conns d = xs @ c # ys \<Longrightarrow> cn_handler c = None \<Longrightarrow>
     daemon_step ds uuids serve d (d\<lparr>dm_conns := xs @ c\<lparr>cn_served := cn_served c + 1,
       cn_handler := Some (unknown_message e)\<rparr> # ys\<rparr>)"
| ds_act:
    "dm_conns d = xs @ c # ys \<Longrightarrow> cn_handler c = Some h \<Longrightarrow> act uuids h (dm_shared d) ev h' s' \<Longrightarrow>
     daemon_step ds uuids serve d (d\<lparr>dm_shared := s', dm_conns := xs @ c\<lparr>cn_handler := Some h'\<rparr> # ys,
       dm_log := dm_log d @ [(cn_caller c, ev)]\<rparr>)"
| ds_return:
    "dm_conns d = xs @ c # ys \<Longrightarrow> cn_handler c = Some (Return r) \<Longrightarrow>
     daemon_step ds uuids serve d (d\<lparr>dm_conns := xs @ c\<lparr>cn_handler := None\<rparr> # ys\<rparr>)"
| ds_sweep:
    "daemon_step ds uuids serve d (d\<lparr>dm_shared := (dm_shared d)\<lparr>sh_db :=
       snd (cleanup_stale_queued (ds_audit ds) ck (sh_db (dm_shared d)))\<rparr>\<rparr>)"
| ds_restart:
    "reconcile_at_start ds env envs fuel (sh_db (dm_shared d)) = Some (r, db') \<Longrightarrow>
     daemon_step ds uuids serve d (d\<lparr>dm_shared := \<lparr>sh_db = db', sh_slots = Map.empty\<rparr>, dm_conns := []\<rparr>)"

definition daemon_init :: daemon where
  "daemon_init = \<lparr>dm_shared = \<lparr>sh_db = empty_db, sh_slots = Map.empty\<rparr>, dm_conns = [], dm_log = []\<rparr>"

definition daemon_reach ::
    "('sk, 'vk) daemon_state \<Rightarrow> string set \<Rightarrow> (caller_attribution \<Rightarrow> daemon_request \<Rightarrow> handler) \<Rightarrow> daemon \<Rightarrow> bool" where
  "daemon_reach ds uuids serve d \<longleftrightarrow> (daemon_step ds uuids serve)\<^sup>*\<^sup>* daemon_init d"

end
