(* ===== verification/Sk_Rely.thy ===== *)
theory Sk_Rely
  imports Sk_Handler "HOL-Library.Multiset"
begin

text \<open>
  Rely-guarantee reasoning about the daemon's handlers. A handler relies on the others only
  appending to the audit log and leaving alone the slots it holds; it guarantees the same to
  them. \<open>safe\<close> is what that means for one handler, and \<open>daemon_contract\<close> shows that handlers which
  are safe alone make a daemon whose every reachable state is consistent, however they interleave.
\<close>

section \<open>What a handler relies on and guarantees\<close>

definition rely :: "exclusive_resource set \<Rightarrow> shared \<Rightarrow> shared \<Rightarrow> bool" where
  "rely hold s s' \<longleftrightarrow> grows (sh_db s) (sh_db s') \<and> (\<forall>r \<in> hold. sh_slots s' r = sh_slots s r)"

text \<open>A section under the mutex takes free slots, gives back held ones, and touches no others.\<close>

definition lock_change :: "exclusive_resource set \<Rightarrow> exclusive_resource set \<Rightarrow> slots \<Rightarrow> slots \<Rightarrow> bool" where
  "lock_change hold hold' m m' \<longleftrightarrow>
     (\<forall>r. r \<notin> hold \<union> hold' \<longrightarrow> m' r = m r)
     \<and> (\<forall>r \<in> hold' - hold. m r = None) \<and> hold' \<subseteq> dom m' \<and> (\<forall>r \<in> hold - hold'. m' r = None)"

lemma rely_refl [simp]: "rely hold s s"
  by (simp add: rely_def)

lemma rely_trans: "rely hold a b \<Longrightarrow> rely hold b c \<Longrightarrow> rely hold a c"
  by (auto simp: rely_def intro: grows_trans)

text \<open>\<open>keeps\<close> is the invariant of the database, \<open>ob hold db eff\<close> what must be true when the effect starts;
  \<open>stuck\<close> says that an action of this handler could not be stopped, and then it may end holding slots.\<close>

primrec safe ::
    "string set \<Rightarrow> (db \<Rightarrow> bool) \<Rightarrow> (exclusive_resource set \<Rightarrow> db \<Rightarrow> effect \<Rightarrow> bool) \<Rightarrow> handler
     \<Rightarrow> exclusive_resource set \<Rightarrow> bool \<Rightarrow> shared \<Rightarrow> bool" where
  "safe uuids keeps ob (Return r) = (\<lambda>hold stuck s. hold = {} \<or> stuck)"
| "safe uuids keeps ob (Store f) = (\<lambda>hold stuck s. \<forall>s' env. rely hold s s' \<longrightarrow> keeps (sh_db s') \<longrightarrow> se_uuid env \<in> uuids \<longrightarrow>
     grows (sh_db s') (snd (f env (sh_db s'))) \<and> keeps (snd (f env (sh_db s')))
     \<and> fst (map_prod (safe uuids keeps ob) id (f env (sh_db s'))) hold stuck (s'\<lparr>sh_db := snd (f env (sh_db s'))\<rparr>))"
| "safe uuids keeps ob (Locked f) = (\<lambda>hold stuck s. \<forall>s'. rely hold s s' \<longrightarrow> keeps (sh_db s') \<longrightarrow>
     (\<exists>hold'. lock_change hold hold' (sh_slots s') (snd (f (sh_slots s')))
       \<and> fst (map_prod (safe uuids keeps ob) id (f (sh_slots s'))) hold' stuck (s'\<lparr>sh_slots := snd (f (sh_slots s'))\<rparr>)))"
| "safe uuids keeps ob (Send r k) = (\<lambda>hold stuck s. \<forall>s'. rely hold s s' \<longrightarrow> keeps (sh_db s') \<longrightarrow>
     ob hold (sh_db s') (Sending r) \<and> (\<forall>x. safe uuids keeps ob (k x) hold stuck s'))"
| "safe uuids keeps ob (Uuid k) = (\<lambda>hold stuck s. \<forall>s' x. rely hold s s' \<longrightarrow> keeps (sh_db s') \<longrightarrow> safe uuids keeps ob (k x) hold stuck s')"
| "safe uuids keeps ob (Collect k) = (\<lambda>hold stuck s. \<forall>s' x. rely hold s s' \<longrightarrow> keeps (sh_db s') \<longrightarrow> safe uuids keeps ob (k x) hold stuck s')"
| "safe uuids keeps ob (RunCommand p args k) = (\<lambda>hold stuck s. \<forall>s' x. rely hold s s' \<longrightarrow> keeps (sh_db s') \<longrightarrow>
     safe uuids keeps ob (k x) hold stuck s')"
| "safe uuids keeps ob (RunAction spec k) = (\<lambda>hold stuck s. \<forall>s'. rely hold s s' \<longrightarrow> keeps (sh_db s') \<longrightarrow>
     ob hold (sh_db s') (RunningAction spec)
     \<and> (\<forall>lines out. safe uuids keeps ob (k (lines, out)) hold (stuck \<or> not_stopped out) s'))"

lemma safe_mono:
  assumes "safe uuids keeps ob h hold stuck s" "rely hold s s'"
  shows "safe uuids keeps ob h hold stuck s'"
  using assms by (cases h) (auto simp del: map_prod_simp fst_map_prod dest: rely_trans [OF assms(2)])

text \<open>One node of a safe handler.\<close>

definition fulfilled ::
    "(exclusive_resource set \<Rightarrow> db \<Rightarrow> effect \<Rightarrow> bool) \<Rightarrow> exclusive_resource set \<Rightarrow> db \<Rightarrow> event \<Rightarrow> bool" where
  "fulfilled ob hold db ev =
     (case ev of Quiet \<Rightarrow> True | Sent r _ \<Rightarrow> ob hold db (Sending r) | Ran spec _ \<Rightarrow> ob hold db (RunningAction spec))"

fun unstopped :: "event \<Rightarrow> bool" where
  "unstopped (Ran spec out) = not_stopped out"
| "unstopped _ = False"

lemma lock_change_refl: "hold \<subseteq> dom m \<Longrightarrow> lock_change hold hold m m"
  by (auto simp: lock_change_def)

lemma safe_act:
  assumes act: "act uuids h s ev h' s'" and safe: "safe uuids keeps ob h hold stuck s"
    and keeps: "keeps (sh_db s)" and hold: "hold \<subseteq> dom (sh_slots s)"
  shows "\<exists>hold'. safe uuids keeps ob h' hold' (stuck \<or> unstopped ev) s' \<and> keeps (sh_db s') \<and> grows (sh_db s) (sh_db s')
    \<and> lock_change hold hold' (sh_slots s) (sh_slots s') \<and> fulfilled ob hold (sh_db s) ev"
proof (cases rule: act.cases [OF act])
  case (1 env f)
  with safe keeps have "grows (sh_db s) (sh_db s') \<and> keeps (sh_db s') \<and> safe uuids keeps ob h' hold stuck s'"
    by (auto dest!: spec [of _ s] spec [of _ env])
  with 1 lock_change_refl [OF hold] show ?thesis by (auto simp: fulfilled_def)
next
  case (2 f)
  with safe keeps obtain hold' where
    "lock_change hold hold' (sh_slots s) (sh_slots s')" "safe uuids keeps ob h' hold' stuck s'"
    by (auto dest!: spec [of _ s])
  with 2 keeps show ?thesis by (auto simp: fulfilled_def)
next
  case (3 r k x)
  with safe keeps have "ob hold (sh_db s) (Sending r) \<and> safe uuids keeps ob h' hold stuck s"
    by (auto dest!: spec [of _ s])
  with 3 keeps lock_change_refl [OF hold] show ?thesis by (auto simp: fulfilled_def)
next
  case (7 spec k s0 out lines)
  with safe keeps have "ob hold (sh_db s) (RunningAction spec) \<and> safe uuids keeps ob h' hold (stuck \<or> not_stopped out) s"
    by (auto dest!: spec [of _ s])
  with 7 keeps lock_change_refl [OF hold] show ?thesis by (auto simp: fulfilled_def)
qed (use safe keeps lock_change_refl [OF hold] in \<open>auto simp: fulfilled_def dest!: spec [of _ s]\<close>)

section \<open>The pool\<close>

fun disjoint_all :: "'a set list \<Rightarrow> bool" where
  "disjoint_all [] \<longleftrightarrow> True"
| "disjoint_all (A # As) \<longleftrightarrow> A \<inter> \<Union>(set As) = {} \<and> disjoint_all As"

lemma disjoint_all_middle:
  "disjoint_all (As @ A # Bs) \<longleftrightarrow> disjoint_all (As @ Bs) \<and> A \<inter> \<Union>(set (As @ Bs)) = {}"
  by (induction As) auto

lemma disjoint_all_nth:
  "disjoint_all As \<Longrightarrow> i < length As \<Longrightarrow> j < length As \<Longrightarrow> i \<noteq> j \<Longrightarrow> As ! i \<inter> As ! j = {}"
proof (induction As arbitrary: i j)
  case (Cons A As)
  have apart: "A \<inter> As ! k = {}" if "k < length As" for k
    using Cons.prems(1) nth_mem [OF that] by auto
  show ?case
  proof (cases i)
    case 0
    then obtain k where "j = Suc k" using Cons.prems(4) by (cases j) auto
    with 0 Cons.prems(3) apart [of k] show ?thesis by simp
  next
    case (Suc k)
    show ?thesis
    proof (cases j)
      case 0
      with Suc Cons.prems(2) apart [of k] show ?thesis by (simp add: Int_commute)
    next
      case (Suc l)
      with \<open>i = Suc k\<close> Cons.prems Cons.IH [of k l] show ?thesis by simp
    qed
  qed
qed simp

text \<open>What each connection holds, and whether it is stuck.\<close>

type_synonym ghost = "exclusive_resource set \<times> bool"

definition conn_ok ::
    "string set \<Rightarrow> (db \<Rightarrow> bool) \<Rightarrow> (caller_attribution \<Rightarrow> exclusive_resource set \<Rightarrow> db \<Rightarrow> effect \<Rightarrow> bool) \<Rightarrow> shared
     \<Rightarrow> connection \<Rightarrow> ghost \<Rightarrow> bool" where
  "conn_ok uuids keeps ob s c g \<longleftrightarrow> attribution (cn_caller c) \<and>
     (case cn_handler c of
        None \<Rightarrow> fst g = {}
      | Some h \<Rightarrow> safe uuids keeps (ob (cn_caller c)) h (fst g) (snd g) s)"

definition unstopped_in :: "(caller_attribution \<times> event) list \<Rightarrow> bool" where
  "unstopped_in log \<longleftrightarrow> (\<exists>(c, ev) \<in> set log. unstopped ev)"

text \<open>\<open>left\<close> are the slots that an action which could not be stopped keeps.\<close>

definition pool_ok ::
    "string set \<Rightarrow> (db \<Rightarrow> bool) \<Rightarrow> (caller_attribution \<Rightarrow> exclusive_resource set \<Rightarrow> db \<Rightarrow> effect \<Rightarrow> bool) \<Rightarrow> daemon
     \<Rightarrow> ghost list \<Rightarrow> exclusive_resource set \<Rightarrow> bool" where
  "pool_ok uuids keeps ob d gs left \<longleftrightarrow>
     list_all2 (conn_ok uuids keeps ob (dm_shared d)) (dm_conns d) gs
     \<and> disjoint_all (map fst gs) \<and> left \<inter> \<Union>(set (map fst gs)) = {}
     \<and> dom (sh_slots (dm_shared d)) = left \<union> \<Union>(set (map fst gs))
     \<and> (left \<noteq> {} \<or> (\<exists>g \<in> set gs. snd g) \<longrightarrow> unstopped_in (dm_log d))"

definition daemon_ok ::
    "string set \<Rightarrow> (db \<Rightarrow> bool) \<Rightarrow> (caller_attribution \<Rightarrow> exclusive_resource set \<Rightarrow> db \<Rightarrow> effect \<Rightarrow> bool) \<Rightarrow> daemon \<Rightarrow> bool" where
  "daemon_ok uuids keeps ob d \<longleftrightarrow>
     keeps (sh_db (dm_shared d)) \<and> (\<exists>gs left. pool_ok uuids keeps ob d gs left)
     \<and> (\<forall>(c, ev) \<in> set (dm_log d). \<exists>hold. fulfilled (ob c) hold (sh_db (dm_shared d)) ev)"

lemma conn_ok_mono: "conn_ok uuids keeps ob s c g \<Longrightarrow> rely (fst g) s s' \<Longrightarrow> conn_ok uuids keeps ob s' c g"
  by (auto simp: conn_ok_def intro: safe_mono split: option.splits)

lemma conns_mono:
  "list_all2 (conn_ok uuids keeps ob s) cs gs \<Longrightarrow> \<forall>g \<in> set gs. rely (fst g) s s' \<Longrightarrow>
   list_all2 (conn_ok uuids keeps ob s') cs gs"
  by (induction rule: list_all2_induct) (simp_all add: conn_ok_mono)

lemma lock_change_others:
  assumes "lock_change hold hold' m m'" "other \<inter> hold = {}" "other \<subseteq> dom m"
  shows "other \<inter> hold' = {}"
proof (rule Int_emptyI)
  fix r assume r: "r \<in> other" "r \<in> hold'"
  then have "r \<in> hold' - hold" "m r \<noteq> None" using assms(2,3) by auto
  then show False using assms(1) by (auto simp: lock_change_def)
qed

lemma rely_others:
  assumes change: "lock_change hold hold' (sh_slots s) (sh_slots s')" and "grows (sh_db s) (sh_db s')"
    and other: "other \<inter> hold = {}" "other \<subseteq> dom (sh_slots s)"
  shows "rely other s s'"
proof -
  have "r \<notin> hold \<union> hold'" if "r \<in> other" for r
    using lock_change_others [OF change other] other(1) that by auto
  then show ?thesis using assms(1,2) by (auto simp: rely_def lock_change_def)
qed

text \<open>A step of one connection, seen from the pool.\<close>

lemma pool_replace:
  assumes ok: "pool_ok uuids keeps ob d (gs1 @ g # gs2) left" and conns: "dm_conns d = xs @ c # ys"
    and len: "length xs = length gs1"
    and change: "lock_change (fst g) (fst g') (sh_slots (dm_shared d)) (sh_slots s')"
    and grow: "grows (sh_db (dm_shared d)) (sh_db s')"
    and c': "conn_ok uuids keeps ob s' c' g'"
    and log: "unstopped_in (dm_log d) \<or> snd g' \<longrightarrow> unstopped_in log"
  shows "pool_ok uuids keeps ob (d\<lparr>dm_shared := s', dm_conns := xs @ c' # ys, dm_log := log\<rparr>) (gs1 @ g' # gs2) left"
proof -
  let ?s = "dm_shared d" and ?others = "\<Union>(set (map fst (gs1 @ gs2)))"
  have conn: "list_all2 (conn_ok uuids keeps ob ?s) (xs @ c # ys) (gs1 @ g # gs2)"
    and dis: "disjoint_all (map fst (gs1 @ g # gs2))" and left: "left \<inter> \<Union>(set (map fst (gs1 @ g # gs2))) = {}"
    and dom: "dom (sh_slots ?s) = left \<union> \<Union>(set (map fst (gs1 @ g # gs2)))"
    and stop: "left \<noteq> {} \<or> (\<exists>g \<in> set (gs1 @ g # gs2). snd g) \<longrightarrow> unstopped_in (dm_log d)"
    using ok by (simp_all add: pool_ok_def conns)
  have apart: "disjoint_all (map fst (gs1 @ gs2))" "fst g \<inter> ?others = {}"
    using dis by (simp_all add: disjoint_all_middle)
  have fresh: "fst g' \<inter> (left \<union> ?others) = {}"
  proof -
    have "(left \<union> ?others) \<inter> fst g = {}" "left \<union> ?others \<subseteq> dom (sh_slots ?s)"
      using dom apart(2) left by auto
    from lock_change_others [OF change this] show ?thesis by (simp add: Int_commute)
  qed
  have rely: "rely (fst o') ?s s'" if "o' \<in> set (gs1 @ gs2)" for o'
  proof (rule rely_others [OF change grow])
    show "fst o' \<inter> fst g = {}" "fst o' \<subseteq> dom (sh_slots ?s)" using that apart(2) dom by auto
  qed
  have split: "list_all2 (conn_ok uuids keeps ob ?s) xs gs1" "list_all2 (conn_ok uuids keeps ob ?s) ys gs2"
    using conn len by (auto simp: list_all2_append)
  have "list_all2 (conn_ok uuids keeps ob s') xs gs1" "list_all2 (conn_ok uuids keeps ob s') ys gs2"
    using conns_mono [OF split(1)] conns_mono [OF split(2)] rely by auto
  then have "list_all2 (conn_ok uuids keeps ob s') (xs @ c' # ys) (gs1 @ g' # gs2)"
    using c' len by (simp add: list_all2_append)
  moreover have "disjoint_all (map fst (gs1 @ g' # gs2))"
    using apart(1) fresh by (auto simp: disjoint_all_middle)
  moreover have "dom (sh_slots s') = left \<union> \<Union>(set (map fst (gs1 @ g' # gs2)))"
  proof -
    have "dom (sh_slots s') = (dom (sh_slots ?s) - fst g) \<union> fst g'"
      using change by (force simp: lock_change_def dom_def)
    moreover have "dom (sh_slots ?s) - fst g = left \<union> ?others"
      using dom left apart(2) by auto
    ultimately show ?thesis by auto
  qed
  moreover have "left \<inter> \<Union>(set (map fst (gs1 @ g' # gs2))) = {}" using left fresh by auto
  ultimately show ?thesis using stop log by (auto simp: pool_ok_def)
qed

section \<open>Safe handlers make a safe daemon\<close>

locale daemon_contract =
  fixes ds :: "('sk, 'vk) daemon_state" and uuids :: "string set"
    and serve :: "caller_attribution \<Rightarrow> daemon_request \<Rightarrow> handler"
    and keeps :: "db \<Rightarrow> bool" and ob :: "caller_attribution \<Rightarrow> exclusive_resource set \<Rightarrow> db \<Rightarrow> effect \<Rightarrow> bool"
    and sound :: bool
  assumes keeps_init: "keeps empty_db"
    and keeps_sweep: "sound \<Longrightarrow> keeps db \<Longrightarrow> keeps (snd (cleanup_stale_queued (ds_audit ds) ck db))"
    and keeps_restart: "sound \<Longrightarrow> keeps db \<Longrightarrow> reconcile_at_start ds env envs fuel db = Some (r, db') \<Longrightarrow> keeps db' \<and> grows db db'"
    and ob_stable: "ob c hold db eff \<Longrightarrow> grows db db' \<Longrightarrow> ob c hold db' eff"
    and serve_safe: "sound \<Longrightarrow> keeps (sh_db s) \<Longrightarrow> unguessed uuids (sh_db s) req \<Longrightarrow> attribution c \<Longrightarrow>
      safe uuids keeps (ob c) (serve c req) {} False s"
    and unknown_safe: "safe uuids keeps (ob c) (unknown_message e) {} False s"
begin

lemma fulfilled_stable: "fulfilled (ob c) hold db ev \<Longrightarrow> grows db db' \<Longrightarrow> fulfilled (ob c) hold db' ev"
  by (auto simp: fulfilled_def intro: ob_stable split: event.splits)

lemma log_stable:
  "(\<forall>(c, ev) \<in> set log. \<exists>hold. fulfilled (ob c) hold db ev) \<Longrightarrow> grows db db' \<Longrightarrow>
   (\<forall>(c, ev) \<in> set log. \<exists>hold. fulfilled (ob c) hold db' ev)"
  using fulfilled_stable by blast

lemma log_ok:
  "daemon_ok uuids keeps ob d \<Longrightarrow> grows (sh_db (dm_shared d)) db' \<Longrightarrow>
   \<forall>(c, ev) \<in> set (dm_log d). \<exists>hold. fulfilled (ob c) hold db' ev"
  by (rule log_stable) (simp_all add: daemon_ok_def)

lemma split_ghosts:
  assumes "pool_ok uuids keeps ob d gs left" "dm_conns d = xs @ c # ys"
  obtains gs1 g gs2 where "gs = gs1 @ g # gs2" "length xs = length gs1" "conn_ok uuids keeps ob (dm_shared d) c g"
    "fst g \<subseteq> dom (sh_slots (dm_shared d))" "snd g \<Longrightarrow> unstopped_in (dm_log d)"
proof -
  have "list_all2 (conn_ok uuids keeps ob (dm_shared d)) (xs @ c # ys) gs" using assms by (simp add: pool_ok_def)
  then obtain gs1 g gs2 where "gs = gs1 @ g # gs2" "length xs = length gs1" "conn_ok uuids keeps ob (dm_shared d) c g"
    by (auto simp: list_all2_append1 list_all2_Cons1 dest: list_all2_lengthD)
  moreover from this assms(1) have "fst g \<subseteq> dom (sh_slots (dm_shared d))" "snd g \<Longrightarrow> unstopped_in (dm_log d)"
    by (auto simp: pool_ok_def)
  ultimately show thesis by (rule that)
qed

lemma serving_ok:
  assumes ok: "daemon_ok uuids keeps ob d" and conns: "dm_conns d = xs @ c # ys"
    and h: "cn_handler c = None" "\<And>s. s = dm_shared d \<Longrightarrow> attribution (cn_caller c) \<Longrightarrow> safe uuids keeps (ob (cn_caller c)) h {} False s"
  shows "daemon_ok uuids keeps ob (d\<lparr>dm_conns := xs @ c\<lparr>cn_served := n, cn_handler := Some h\<rparr> # ys\<rparr>)"
proof -
  from ok obtain gs left where pool: "pool_ok uuids keeps ob d gs left" by (auto simp: daemon_ok_def)
  from split_ghosts [OF pool conns] obtain gs1 g gs2 where
    g: "gs = gs1 @ g # gs2" "length xs = length gs1" "conn_ok uuids keeps ob (dm_shared d) c g" by metis
  have g0: "fst g = {}" "attribution (cn_caller c)" using g(3) h(1) by (auto simp: conn_ok_def)
  have "pool_ok uuids keeps ob (d\<lparr>dm_shared := dm_shared d, dm_conns := xs @ c\<lparr>cn_served := n, cn_handler := Some h\<rparr> # ys,
      dm_log := dm_log d\<rparr>) (gs1 @ ({}, False) # gs2) left"
    by (rule pool_replace [OF pool [unfolded g(1)] conns g(2)])
      (use g0 h(2) in \<open>auto simp: lock_change_def conn_ok_def\<close>)
  then show ?thesis using ok by (auto simp: daemon_ok_def)
qed

lemma acting_ok:
  assumes ok: "daemon_ok uuids keeps ob d" and conns: "dm_conns d = xs @ c # ys"
    and h: "cn_handler c = Some h" "act uuids h (dm_shared d) ev h' s'"
  shows "daemon_ok uuids keeps ob (d\<lparr>dm_shared := s', dm_conns := xs @ c\<lparr>cn_handler := Some h'\<rparr> # ys,
    dm_log := dm_log d @ [(cn_caller c, ev)]\<rparr>)"
proof -
  from ok obtain gs left where pool: "pool_ok uuids keeps ob d gs left" and keeps: "keeps (sh_db (dm_shared d))"
    by (auto simp: daemon_ok_def)
  from split_ghosts [OF pool conns] obtain gs1 g gs2 where
    g: "gs = gs1 @ g # gs2" "length xs = length gs1" "conn_ok uuids keeps ob (dm_shared d) c g"
      "fst g \<subseteq> dom (sh_slots (dm_shared d))" "snd g \<Longrightarrow> unstopped_in (dm_log d)" by metis
  from g(3) h(1) have c: "attribution (cn_caller c)"
    "safe uuids keeps (ob (cn_caller c)) h (fst g) (snd g) (dm_shared d)" by (auto simp: conn_ok_def)
  from safe_act [OF h(2) c(2) keeps g(4)] obtain hold' where
    s': "safe uuids keeps (ob (cn_caller c)) h' hold' (snd g \<or> unstopped ev) s'" "keeps (sh_db s')"
      "grows (sh_db (dm_shared d)) (sh_db s')" "lock_change (fst g) hold' (sh_slots (dm_shared d)) (sh_slots s')"
      "fulfilled (ob (cn_caller c)) (fst g) (sh_db (dm_shared d)) ev" by metis
  have "pool_ok uuids keeps ob (d\<lparr>dm_shared := s', dm_conns := xs @ c\<lparr>cn_handler := Some h'\<rparr> # ys,
      dm_log := dm_log d @ [(cn_caller c, ev)]\<rparr>) (gs1 @ (hold', snd g \<or> unstopped ev) # gs2) left"
    by (rule pool_replace [OF pool [unfolded g(1)] conns g(2)])
      (use s' c(1) g(5) in \<open>auto simp: conn_ok_def unstopped_in_def\<close>)
  moreover have "\<forall>(c, ev) \<in> set (dm_log d). \<exists>hold. fulfilled (ob c) hold (sh_db s') ev"
    by (rule log_ok [OF ok s'(3)])
  ultimately show ?thesis
    using s'(2) fulfilled_stable [OF s'(5,3)] by (auto simp: daemon_ok_def)
qed

lemma returning_ok:
  assumes ok: "daemon_ok uuids keeps ob d" and conns: "dm_conns d = xs @ c # ys"
    and h: "cn_handler c = Some (Return r)"
  shows "daemon_ok uuids keeps ob (d\<lparr>dm_conns := xs @ c\<lparr>cn_handler := None\<rparr> # ys\<rparr>)"
proof -
  from ok obtain gs left where pool: "pool_ok uuids keeps ob d gs left" by (auto simp: daemon_ok_def)
  from split_ghosts [OF pool conns] obtain gs1 g gs2 where
    g: "gs = gs1 @ g # gs2" "length xs = length gs1" "conn_ok uuids keeps ob (dm_shared d) c g"
      "snd g \<Longrightarrow> unstopped_in (dm_log d)" by metis
  from g(3) h have c: "attribution (cn_caller c)" "fst g = {} \<or> snd g" by (auto simp: conn_ok_def)
  have "pool_ok uuids keeps ob (d\<lparr>dm_conns := xs @ c\<lparr>cn_handler := None\<rparr> # ys\<rparr>) (gs1 @ ({}, False) # gs2) (left \<union> fst g)"
    using pool c g(2) unfolding pool_ok_def conns g(1)
    by (auto simp: list_all2_append conn_ok_def disjoint_all_middle)
  then show ?thesis using ok by (auto simp: daemon_ok_def)
qed

lemma closing_ok:
  assumes ok: "daemon_ok uuids keeps ob d" and conns: "dm_conns d = xs @ c # ys" and h: "cn_handler c = None"
  shows "daemon_ok uuids keeps ob (d\<lparr>dm_conns := xs @ ys\<rparr>)"
proof -
  from ok obtain gs left where pool: "pool_ok uuids keeps ob d gs left" by (auto simp: daemon_ok_def)
  from split_ghosts [OF pool conns] obtain gs1 g gs2 where
    g: "gs = gs1 @ g # gs2" "length xs = length gs1" "conn_ok uuids keeps ob (dm_shared d) c g" by metis
  from g(3) h have "fst g = {}" by (auto simp: conn_ok_def)
  then have "pool_ok uuids keeps ob (d\<lparr>dm_conns := xs @ ys\<rparr>) (gs1 @ gs2) left"
    using pool g(2) unfolding pool_ok_def conns g(1)
    by (auto simp: list_all2_append disjoint_all_middle)
  then show ?thesis using ok by (auto simp: daemon_ok_def)
qed

lemma sweeping_ok:
  assumes ok: "daemon_ok uuids keeps ob d" and g: "grows (sh_db (dm_shared d)) db'" "keeps db'"
  shows "daemon_ok uuids keeps ob (d\<lparr>dm_shared := (dm_shared d)\<lparr>sh_db := db'\<rparr>\<rparr>)"
proof -
  from ok obtain gs left where pool: "pool_ok uuids keeps ob d gs left" by (auto simp: daemon_ok_def)
  have "rely hold (dm_shared d) ((dm_shared d)\<lparr>sh_db := db'\<rparr>)" for hold using g by (simp add: rely_def)
  then have "list_all2 (conn_ok uuids keeps ob ((dm_shared d)\<lparr>sh_db := db'\<rparr>)) (dm_conns d) gs"
    using pool by (auto simp: pool_ok_def elim!: list_all2_mono intro: conn_ok_mono)
  then have "pool_ok uuids keeps ob (d\<lparr>dm_shared := (dm_shared d)\<lparr>sh_db := db'\<rparr>\<rparr>) gs left"
    using pool by (simp add: pool_ok_def)
  then show ?thesis using g log_ok [OF ok g(1)] by (auto simp: daemon_ok_def)
qed

lemma step_ok:
  assumes sound: sound and "daemon_step ds uuids serve d d'" "daemon_ok uuids keeps ob d"
  shows "daemon_ok uuids keeps ob d'"
  using assms(2,3)
proof (induction rule: daemon_step.induct)
  case (ds_accept a d)
  then obtain gs left where "pool_ok uuids keeps ob d gs left" by (auto simp: daemon_ok_def)
  then have "pool_ok uuids keeps ob (d\<lparr>dm_conns := dm_conns d @ [\<lparr>cn_caller = a, cn_served = 0, cn_handler = None\<rparr>]\<rparr>)
      (gs @ [({}, False)]) left"
    using ds_accept(1) disjoint_all_middle [of "map fst gs" "{}" "[]"]
    by (auto simp: pool_ok_def conn_ok_def intro!: list_all2_appendI)
  with ds_accept show ?case by (auto simp: daemon_ok_def)
next
  case (ds_close d xs c ys)
  then show ?case by (intro closing_ok)
next
  case (ds_request d xs c ys req)
  then have "keeps (sh_db (dm_shared d))" by (simp add: daemon_ok_def)
  with ds_request show ?case by (intro serving_ok) (auto intro: serve_safe [OF sound])
next
  case (ds_unknown d xs c ys e)
  then show ?case by (intro serving_ok) (auto intro: unknown_safe)
next
  case (ds_act d xs c ys h ev h' s')
  then show ?case by (intro acting_ok)
next
  case (ds_return d xs c ys r)
  then show ?case by (intro returning_ok)
next
  case (ds_sweep d ck)
  then show ?case by (intro sweeping_ok grows_cleanup_stale_queued keeps_sweep [OF sound]) (auto simp: daemon_ok_def)
next
  case (ds_restart env envs fuel d r db')
  then have g: "keeps db'" "grows (sh_db (dm_shared d)) db'"
    using keeps_restart [OF sound _ ds_restart(1)] by (auto simp: daemon_ok_def)
  have "pool_ok uuids keeps ob (d\<lparr>dm_shared := \<lparr>sh_db = db', sh_slots = Map.empty\<rparr>, dm_conns := []\<rparr>) [] {}"
    by (simp add: pool_ok_def)
  then show ?case using g log_ok [OF ds_restart.prems g(2)] by (auto simp: daemon_ok_def)
qed

theorem reachable_ok:
  assumes sound: sound and "daemon_reach ds uuids serve d"
  shows "daemon_ok uuids keeps ob d"
  using assms(2) unfolding daemon_reach_def
proof (induction rule: rtranclp_induct)
  case base
  show ?case by (simp add: daemon_ok_def daemon_init_def pool_ok_def keeps_init)
next
  case (step d d')
  show ?case by (rule step_ok [OF sound step(2) step(3)])
qed

end

section \<open>Every handler ends\<close>

text \<open>The steps that serve the requests already received: no new connection, request, sweep or restart.\<close>

inductive work :: "string set \<Rightarrow> daemon \<Rightarrow> daemon \<Rightarrow> bool" for uuids :: "string set" where
  work_act:
    "dm_conns d = xs @ c # ys \<Longrightarrow> cn_handler c = Some h \<Longrightarrow> act uuids h (dm_shared d) ev h' s' \<Longrightarrow>
     work uuids d (d\<lparr>dm_shared := s', dm_conns := xs @ c\<lparr>cn_handler := Some h'\<rparr> # ys,
       dm_log := dm_log d @ [(cn_caller c, ev)]\<rparr>)"
| work_return:
    "dm_conns d = xs @ c # ys \<Longrightarrow> cn_handler c = Some (Return r) \<Longrightarrow>
     work uuids d (d\<lparr>dm_conns := xs @ c\<lparr>cn_handler := None\<rparr> # ys\<rparr>)"

lemma work_is_step: "work uuids d d' \<Longrightarrow> daemon_step ds uuids serve d d'"
  by (induction rule: work.induct) (auto intro: daemon_step.intros)

lemma work_reach: "(work uuids)\<^sup>*\<^sup>* d d' \<Longrightarrow> daemon_reach ds uuids serve d \<Longrightarrow> daemon_reach ds uuids serve d'"
  unfolding daemon_reach_def
  by (induction rule: rtranclp_induct) (auto intro: rtranclp.rtrancl_into_rtrancl work_is_step)

definition next_node :: "string set \<Rightarrow> (handler \<times> handler) set" where
  "next_node uuids = {(h', h). \<exists>s ev s'. act uuids h s ev h' s'}"

lemma acc_node:
  "(\<And>s ev h' s'. act uuids h s ev h' s' \<Longrightarrow> h' \<in> Wellfounded.acc (next_node uuids)) \<Longrightarrow>
   h \<in> Wellfounded.acc (next_node uuids)"
  by (rule acc.accI) (auto simp: next_node_def)

lemma handler_acc: "h \<in> Wellfounded.acc (next_node uuids)"
proof (induction h)
  case (Store f)
  have sub: "h' \<in> Wellfounded.acc (next_node uuids)" if "f env db = (h', d)" for env db h' d
    by (rule Store [of "f env" "f env db"]) (use that in \<open>simp_all add: range_eqI [of _ _ db]\<close>)
  show ?case by (rule acc_node, erule act_cases) (blast intro: sub)
next
  case (Locked f)
  have sub: "h' \<in> Wellfounded.acc (next_node uuids)" if "f m = (h', m')" for m h' m'
    by (rule Locked [of "f m"]) (use that in \<open>simp_all add: range_eqI [of _ _ m]\<close>)
  show ?case by (rule acc_node, erule act_cases) (blast intro: sub)
qed ((rule acc_node, erule act_cases, simp)+)

lemma next_node_wf: "wf (next_node uuids)"
  using handler_acc by (auto simp: wf_iff_acc)

definition in_flight :: "daemon \<Rightarrow> handler multiset" where
  "in_flight d = mset (List.map_filter cn_handler (dm_conns d))"

lemma work_decreases:
  assumes "work uuids d d'"
  shows "(in_flight d', in_flight d) \<in> mult (next_node uuids)"
  using assms
proof (induction rule: work.induct)
  case (work_act d xs c ys h ev h' s')
  let ?M = "mset (List.map_filter cn_handler (xs @ ys))"
  have "in_flight (d\<lparr>dm_shared := s', dm_conns := xs @ c\<lparr>cn_handler := Some h'\<rparr> # ys,
      dm_log := dm_log d @ [(cn_caller c, ev)]\<rparr>) = ?M + {#h'#}" "in_flight d = ?M + {#h#}"
    using work_act(1,2) by (simp_all add: in_flight_def map_filter_def)
  moreover have "(?M + {#h'#}, ?M + {#h#}) \<in> mult (next_node uuids)"
    using work_act(3) by (intro one_step_implies_mult) (auto simp: next_node_def)
  ultimately show ?case by simp
next
  case (work_return d xs c ys r)
  let ?M = "mset (List.map_filter cn_handler (xs @ ys))"
  have "in_flight (d\<lparr>dm_conns := xs @ c\<lparr>cn_handler := None\<rparr> # ys\<rparr>) = ?M + {#}" "in_flight d = ?M + {#Return r#}"
    using work_return(1,2) by (simp_all add: in_flight_def map_filter_def)
  moreover have "(?M + {#}, ?M + {#Return r#}) \<in> mult (next_node uuids)"
    by (intro one_step_implies_mult) auto
  ultimately show ?case by simp
qed

lemma work_ends: "\<not> (\<forall>i. work uuids (f i) (f (Suc i)))"
proof
  assume "\<forall>i. work uuids (f i) (f (Suc i))"
  then have "\<forall>i. (in_flight (f (Suc i)), in_flight (f i)) \<in> mult (next_node uuids)"
    using work_decreases by blast
  then show False
    using wf_mult [OF next_node_wf, of uuids] by (auto simp: wf_iff_no_infinite_down_chain)
qed

lemma act_total:
  assumes "uuid \<in> uuids" "\<nexists>r. h = Return r"
  shows "\<exists>ev h' s'. act uuids h s ev h' s'"
proof (cases h)
  case (Store f)
  define env :: store_env where "env = undefined\<lparr>se_uuid := uuid\<rparr>"
  have "act uuids (Store f) s Quiet (fst (f env (sh_db s))) (s\<lparr>sh_db := snd (f env (sh_db s))\<rparr>)"
    by (rule act_store [of env]) (simp_all add: env_def assms(1))
  then show ?thesis using Store by blast
next
  case (Locked f)
  then show ?thesis using act_locked [of f s "fst (f (sh_slots s))" "snd (f (sh_slots s))"] by fastforce
qed (use assms in \<open>blast intro: act.intros\<close>)+

lemma work_stops_idle:
  assumes "uuid \<in> uuids" "\<nexists>d'. work uuids d d'" "c \<in> set (dm_conns d)"
  shows "cn_handler c = None"
proof (rule ccontr)
  assume "cn_handler c \<noteq> None"
  then obtain h where h: "cn_handler c = Some h" by auto
  from split_list [OF assms(3)] obtain xs ys where split: "dm_conns d = xs @ c # ys" by blast
  show False
  proof (cases "\<exists>r. h = Return r")
    case True
    then show False using assms(2) h work_return [OF split] by blast
  next
    case False
    then show False using assms(2) h act_total [OF assms(1), of h "dm_shared d"] work_act [OF split h] by blast
  qed
qed

context daemon_contract
begin

text \<open>Once everything received is served, the slots are free again.\<close>

lemma idle_slots_free:
  assumes sound "daemon_reach ds uuids serve d" "\<forall>c \<in> set (dm_conns d). cn_handler c = None" "\<not> unstopped_in (dm_log d)"
  shows "sh_slots (dm_shared d) = Map.empty"
proof -
  from reachable_ok [OF assms(1,2)] obtain gs left where pool: "pool_ok uuids keeps ob d gs left"
    by (auto simp: daemon_ok_def)
  then have "left = {}" using assms(4) by (auto simp: pool_ok_def)
  moreover have "fst g = {}" if g: "g \<in> set gs" for g
  proof -
    obtain i where i: "i < length gs" "g = gs ! i" using g by (auto simp: in_set_conv_nth)
    have l: "list_all2 (conn_ok uuids keeps ob (dm_shared d)) (dm_conns d) gs" using pool by (simp add: pool_ok_def)
    have "conn_ok uuids keeps ob (dm_shared d) (dm_conns d ! i) g"
      using list_all2_nthD2 [OF l i(1)] i(2) by simp
    moreover have "cn_handler (dm_conns d ! i) = None"
      using assms(3) list_all2_lengthD [OF l] i(1) by simp
    ultimately show ?thesis by (simp add: conn_ok_def)
  qed
  ultimately have "dom (sh_slots (dm_shared d)) = {}" using pool by (auto simp: pool_ok_def)
  then show ?thesis by simp
qed

lemma reachable_event:
  assumes sound "daemon_reach ds uuids serve d" "(c, ev) \<in> set (dm_log d)"
  shows "\<exists>hold. fulfilled (ob c) hold (sh_db (dm_shared d)) ev"
  using reachable_ok [OF assms(1,2)] assms(3) by (fastforce simp: daemon_ok_def)

text \<open>Two connections at an action hold different slots.\<close>

lemma running_apart:
  assumes sound: sound and reach: "daemon_reach ds uuids serve d" and ij: "i < length (dm_conns d)" "j < length (dm_conns d)" "i \<noteq> j"
    and run: "cn_handler (dm_conns d ! i) = Some (RunAction a k)" "cn_handler (dm_conns d ! j) = Some (RunAction b l)"
  shows "\<exists>A B. A \<inter> B = {} \<and> A \<union> B \<subseteq> dom (sh_slots (dm_shared d))
    \<and> ob (cn_caller (dm_conns d ! i)) A (sh_db (dm_shared d)) (RunningAction a)
    \<and> ob (cn_caller (dm_conns d ! j)) B (sh_db (dm_shared d)) (RunningAction b)"
proof -
  from reachable_ok [OF sound reach] obtain gs left where pool: "pool_ok uuids keeps ob d gs left"
    and keeps: "keeps (sh_db (dm_shared d))" by (auto simp: daemon_ok_def)
  have l: "list_all2 (conn_ok uuids keeps ob (dm_shared d)) (dm_conns d) gs" using pool by (simp add: pool_ok_def)
  have len: "length (dm_conns d) = length gs" using list_all2_lengthD [OF l] .
  have ob: "ob (cn_caller (dm_conns d ! n)) (fst (gs ! n)) (sh_db (dm_shared d)) (RunningAction x)"
    if "n < length gs" "cn_handler (dm_conns d ! n) = Some (RunAction x m)" for n x m
    using list_all2_nthD2 [OF l that(1)] that(2) keeps rely_refl by (fastforce simp: conn_ok_def)
  have "disjoint_all (map fst gs)" using pool by (simp add: pool_ok_def)
  from disjoint_all_nth [OF this, of i j] ij len have "fst (gs ! i) \<inter> fst (gs ! j) = {}" by simp
  moreover have "fst (gs ! n) \<subseteq> dom (sh_slots (dm_shared d))" if "n < length gs" for n
    using pool nth_mem [OF that] by (auto simp: pool_ok_def)
  ultimately show ?thesis using ob [OF _ run(1)] ob [OF _ run(2)] ij len by (intro exI [of _ "fst (gs ! i)"] exI [of _ "fst (gs ! j)"]) auto
qed

end

end
