(* ===== verification/Sk_Linear.thy ===== *)
theory Sk_Linear
  imports Sk_Handler
begin

text \<open>
  The calls of the store that the handlers make, against the runs of \<open>Sk_Store_Runs\<close>. Two of them read
  before the transaction they commit; each is shown to take effect as if it had read at its commit,
  so that the database of the daemon is at every moment one that a run of whole operations reaches.
\<close>

section \<open>The invariant of the database\<close>

text \<open>The statuses that a handler, or the reconciliation at start, asks for.\<close>

definition job_targets :: "job_state set" where
  "job_targets = {Succeeded, Failed, RolledBack, NeedsReboot}"

text \<open>One operation of the store, run from its first read to its commit with nothing in between and
  applied to the database alone: no pending read, no half of an operation, no crash.\<close>

inductive whole_step :: "('sk, 'vk) store \<Rightarrow> job_state set \<Rightarrow> db \<Rightarrow> db \<Rightarrow> bool"
  for st :: "('sk, 'vk) store" and targets :: "job_state set" where
  whole_record: "whole_step st targets db (snd (record_previewed st ck txid t p db))"
| whole_update: "new \<in> targets \<Longrightarrow> whole_step st targets db (snd (update_status st ck txid new db))"
| whole_approve: "whole_step st targets db (snd (approve_transaction st ck txid approver db))"
| whole_revoke: "whole_step st targets db (snd (revoke_unconsumed_approval st ck txid revoker db))"
| whole_claim: "whole_step st targets db (snd (claim_approved_for_execution st ck txid digest executor db))"
| whole_cleanup: "whole_step st targets db (snd (cleanup_stale_queued st ck db))"
| whole_cancel: "whole_step st targets db (snd (cancel_queued st ck txid canceller db))"

definition whole_reach :: "('sk, 'vk) store \<Rightarrow> job_state set \<Rightarrow> db \<Rightarrow> bool" where
  "whole_reach st targets = (whole_step st targets)\<^sup>*\<^sup>* empty_db"

definition kept :: "('sk, 'vk) daemon_state \<Rightarrow> string set \<Rightarrow> db \<Rightarrow> bool" where
  "kept ds uuids db \<longleftrightarrow>
     whole_reach (ds_audit ds) job_targets db \<and> tx_id ` set (db_transactions db) \<subseteq> uuids"

definition sound_daemon :: "('sk, 'vk) daemon_state \<Rightarrow> 'sk audit_key \<Rightarrow> bool" where
  "sound_daemon ds key \<longleftrightarrow> st_audit_key (ds_audit ds) = Some key \<and> sig_nonempty (st_crypto (ds_audit ds))"

abbreviation quiescent :: "db \<Rightarrow> sys" where
  "quiescent db \<equiv> \<lparr>sys_db = db, sys_pending = []\<rparr>"

lemma kept_empty: "kept ds uuids empty_db"
  by (simp add: kept_def whole_reach_def empty_db_def)

text \<open>An operation that reads first is a read and its commit of \<open>Sk_Store_Runs\<close>, one after the other.\<close>

lemma update_status_steps:
  assumes "new \<in> targets"
  shows "(store_step st targets)\<^sup>*\<^sup>* (quiescent db) (quiescent (snd (update_status st ck txid new db)))"
proof (cases "update_status_read txid new db")
  case (Inl e)
  then show ?thesis by (simp add: update_status_def)
next
  case (Inr observed)
  let ?pend = "\<lparr>sys_db = db, sys_pending = [PendingStatus txid new observed]\<rparr>"
  have "store_step st targets (quiescent db) ?pend"
    using step_update_status_read [of new targets txid "quiescent db" observed] Inr assms by simp
  moreover have "store_step st targets ?pend (quiescent (snd (update_status st ck txid new db)))"
    using step_update_status_commit [of txid new observed ?pend st targets ck] Inr by (simp add: update_status_def)
  ultimately show ?thesis by simp
qed

lemma approve_transaction_steps:
  "(store_step st targets)\<^sup>*\<^sup>* (quiescent db) (quiescent (snd (approve_transaction st ck txid approver db)))"
proof (cases "st_audit_key st")
  case None
  then show ?thesis by (simp add: approve_transaction_def)
next
  case (Some key)
  show ?thesis
  proof (cases "\<exists>receipt digest. approve_read st txid db = Inr (Some (receipt, digest))")
    case False
    then show ?thesis using Some by (auto simp: approve_transaction_def split: sum.split option.split)
  next
    case True
    then obtain receipt digest where read: "approve_read st txid db = Inr (Some (receipt, digest))" by blast
    let ?pend = "\<lparr>sys_db = db, sys_pending = [PendingApproval txid approver receipt digest]\<rparr>"
    have "store_step st targets (quiescent db) ?pend"
      using step_approve_read [of st txid "quiescent db" receipt digest targets approver] read by simp
    moreover have "store_step st targets ?pend (quiescent (snd (approve_transaction st ck txid approver db)))"
      using step_approve_commit [of txid approver receipt digest ?pend st key targets ck] Some read
      by (simp add: approve_transaction_def)
    ultimately show ?thesis by simp
  qed
qed

lemma whole_step_steps:
  assumes "whole_step st targets db db'"
  shows "(store_step st targets)\<^sup>*\<^sup>* (quiescent db) (quiescent db')"
  using assms
proof cases
  case (whole_record ck txid t p)
  then show ?thesis using step_record_previewed [of st targets "quiescent db"] by (simp add: r_into_rtranclp)
next
  case (whole_update new ck txid)
  then show ?thesis using update_status_steps by blast
next
  case (whole_approve ck txid approver)
  then show ?thesis using approve_transaction_steps by blast
next
  case (whole_revoke ck txid revoker)
  then show ?thesis using step_revoke [of st targets "quiescent db"] by (simp add: r_into_rtranclp)
next
  case (whole_claim ck txid digest executor)
  then show ?thesis using step_claim [of st targets "quiescent db"] by (simp add: r_into_rtranclp)
next
  case (whole_cleanup ck)
  then show ?thesis using step_cleanup [of st targets "quiescent db"] by (simp add: r_into_rtranclp)
next
  case (whole_cancel ck txid canceller)
  then show ?thesis using step_cancel [of st targets "quiescent db"] by (simp add: r_into_rtranclp)
qed

lemma whole_reach_store:
  assumes "whole_reach st targets db"
  shows "store_reach st targets (quiescent db)"
  using assms unfolding whole_reach_def
proof (induction rule: rtranclp_induct)
  case base
  then show ?case by (simp add: store_reach_def initial_sys_def)
next
  case (step db db')
  then show ?case
    using whole_step_steps [OF step.hyps(2)] unfolding store_reach_def by (blast intro: rtranclp_trans)
qed

lemma kept_inv:
  assumes "kept ds uuids db" "sound_daemon ds key"
  shows "store_inv True (ds_audit ds) key db"
  using store_reach_store_inv [OF whole_reach_store, of "ds_audit ds" job_targets db key True] assms
  by (simp add: kept_def sound_daemon_def job_targets_def)

lemma kept_find_tx:
  "kept ds uuids db \<Longrightarrow> sound_daemon ds key \<Longrightarrow> r \<in> set (db_transactions db) \<Longrightarrow> find_tx (tx_id r) db = Some r"
  by (rule store_inv_find_tx [OF kept_inv])

text \<open>Every operation but recording leaves the signed part of the rows alone.\<close>

definition same_rows :: "db \<Rightarrow> db \<Rightarrow> bool" where
  "same_rows db db' \<longleftrightarrow> map tx_chain (db_transactions db') = map tx_chain (db_transactions db)"

lemma same_rows_ids: "same_rows db db' \<Longrightarrow> tx_id ` set (db_transactions db') = tx_id ` set (db_transactions db)"
  unfolding same_rows_def by (metis image_image list.set_map)

lemma same_rows_refl [simp]: "same_rows db db"
  by (simp add: same_rows_def)

lemma same_rows_trans: "same_rows a b \<Longrightarrow> same_rows b c \<Longrightarrow> same_rows a c"
  by (simp add: same_rows_def)

lemma same_rows_tables [simp]:
  "same_rows db (append_event st key at k txid g i d) = same_rows db d"
  "same_rows db (d\<lparr>db_approvals := aps\<rparr>) = same_rows db d"
  "same_rows db (consume_approvals txid at d) = same_rows db d"
  by (simp_all add: same_rows_def)

lemma same_rows_update [simp]: "same_rows db (snd (update_status_where P new d)) = same_rows db d"
  by (simp add: same_rows_def)

lemma same_rows_revoke_in_tx [simp]:
  "same_rows db (snd (revoke_unconsumed_approval_in_tx st key at txid p d)) = same_rows db d"
  by (auto simp: revoke_unconsumed_approval_in_tx_def Let_def split: option.splits)

lemma same_rows_operations:
  "same_rows db (snd (update_status_commit st ck txid new observed db))"
  "same_rows db (snd (approve_commit st key ck txid approver receipt digest db))"
  "same_rows db (snd (revoke_unconsumed_approval st ck txid revoker db))"
  "same_rows db (snd (claim_approved_for_execution st ck txid digest executor db))"
  "same_rows db (snd (cancel_one st key at0 at1 txid p db))"
  by (auto simp: update_status_commit_def approve_commit_def revoke_unconsumed_approval_def
      claim_approved_for_execution_def cancel_one_def case_prod_beta Let_def split: option.splits)

lemma same_rows_cleanup_loop: "same_rows db (snd (cleanup_loop st key ck i ids n db))"
proof (induction ids arbitrary: i n db)
  case (Cons txid ids)
  show ?case using same_rows_trans [OF same_rows_operations(5) Cons.IH] by (simp add: case_prod_beta)
qed simp

lemma same_rows_cancel:
  "same_rows db (snd (cancel_queued st ck txid canceller db))"
  "same_rows db (snd (cleanup_stale_queued st ck db))"
  using same_rows_operations(5) same_rows_cleanup_loop
  by (auto simp: cancel_queued_def cleanup_stale_queued_def case_prod_beta Let_def split: option.splits)

lemma kept_step:
  assumes "kept ds uuids db" "whole_step (ds_audit ds) job_targets db db'" "same_rows db db'"
  shows "kept ds uuids db'"
  using assms(1,2) same_rows_ids [OF assms(3)]
  by (auto simp: kept_def whole_reach_def intro: rtranclp.rtrancl_into_rtrancl)

section \<open>Whole operations\<close>

lemma kept_revoke: "kept ds uuids db \<Longrightarrow> kept ds uuids (snd (revoke_unconsumed_approval (ds_audit ds) ck txid p db))"
  by (rule kept_step [OF _ whole_revoke same_rows_operations(3)])

lemma kept_claim: "kept ds uuids db \<Longrightarrow> kept ds uuids (snd (claim_approved_for_execution (ds_audit ds) ck txid digest p db))"
  by (rule kept_step [OF _ whole_claim same_rows_operations(4)])

lemma kept_cancel: "kept ds uuids db \<Longrightarrow> kept ds uuids (snd (cancel_queued (ds_audit ds) ck txid p db))"
  by (rule kept_step [OF _ whole_cancel same_rows_cancel(1)])

lemma kept_cleanup: "kept ds uuids db \<Longrightarrow> kept ds uuids (snd (cleanup_stale_queued (ds_audit ds) ck db))"
  by (rule kept_step [OF _ whole_cleanup same_rows_cancel(2)])

lemma record_previewed_rows:
  "tx_id ` set (db_transactions (snd (record_previewed st ck txid t p db)))
     \<subseteq> insert txid (tx_id ` set (db_transactions db))"
proof -
  have "tx_id ` set (db_transactions d') \<subseteq> insert txid (tx_id ` set (db_transactions db))"
    if "insert_transaction st key at txid t db = Inr (i, d')" for key at i d'
    using that by (elim insert_transaction_Inr) auto
  then show ?thesis
    by (auto simp: record_previewed_def record_with_def insert_preview_def split: option.splits sum.splits prod.splits if_splits)
qed

lemma kept_record:
  assumes "kept ds uuids db" "txid \<in> uuids"
  shows "kept ds uuids (snd (record_previewed (ds_audit ds) ck txid t p db))"
proof -
  have "tx_id ` set (db_transactions (snd (record_previewed (ds_audit ds) ck txid t p db))) \<subseteq> uuids"
    using record_previewed_rows [of "ds_audit ds" ck txid t p db] assms by (auto simp: kept_def)
  moreover have "whole_reach (ds_audit ds) job_targets (snd (record_previewed (ds_audit ds) ck txid t p db))"
    using assms(1) whole_record unfolding kept_def whole_reach_def by (meson rtranclp.rtrancl_into_rtrancl)
  ultimately show ?thesis by (simp add: kept_def)
qed

section \<open>Operations that read first\<close>

text \<open>A status that an earlier read saw is either still there at the commit, and the commit is then the
  whole update at that moment; or nothing is written.\<close>

lemma kept_update_status_commit:
  assumes kept: "kept ds uuids db" and sound: "sound_daemon ds key"
    and new: "allowed_transition observed new" "new \<in> job_targets"
  shows "kept ds uuids (snd (update_status_commit (ds_audit ds) ck txid new observed db))"
proof (cases "\<exists>r \<in> set (db_transactions db). tx_id r = txid \<and> tx_status r = observed")
  case True
  then obtain r where r: "r \<in> set (db_transactions db)" "tx_id r = txid" "tx_status r = observed" by blast
  then have "find_tx txid db = Some r" using kept_find_tx [OF kept sound] by blast
  then have "update_status_commit (ds_audit ds) ck txid new observed db = update_status (ds_audit ds) ck txid new db"
    using r new by (simp add: update_status_def update_status_read_def)
  with whole_update [OF new(2)] show ?thesis
    by (intro kept_step [OF kept _ same_rows_operations(1)]) simp
next
  case False
  then have "snd (update_status_commit (ds_audit ds) ck txid new observed db) = db"
    using update_status_where_count(2) by (auto simp: update_status_commit_def case_prod_beta Let_def)
  with kept show ?thesis by simp
qed

lemma kept_update_status:
  assumes "kept ds uuids db" "sound_daemon ds key" "new \<in> job_targets"
  shows "kept ds uuids (snd (update_status (ds_audit ds) ck txid new db))"
  using assms kept_update_status_commit [OF assms(1,2)]
  by (auto simp: update_status_def update_status_read_def split: option.splits if_splits)

text \<open>The receipt of an approval is a function of the row, which never changes.\<close>

lemma find_map_tx: "map_option f (find (\<lambda>x. P (f x)) xs) = find P (map f xs)"
  by (induction xs) auto

lemma find_tx_grows:
  assumes "find_tx txid db = Some r" "grows db db'"
  shows "\<exists>r'. find_tx txid db' = Some r' \<and> tx_chain r' = tx_chain r"
proof -
  have by_chain: "map_option tx_chain (find_tx txid d) = find (\<lambda>c. cr_transaction_id c = txid) (map tx_chain (db_transactions d))" for d
    unfolding find_tx_def by (rule find_map_tx)
  obtain ys where "map tx_chain (db_transactions db') = map tx_chain (db_transactions db) @ ys"
    using assms(2) by (auto simp: grows_def prefix_def)
  moreover have "find (\<lambda>c. cr_transaction_id c = txid) (map tx_chain (db_transactions db)) = Some (tx_chain r)"
    using by_chain [of db] assms(1) by simp
  ultimately have "map_option tx_chain (find_tx txid db') = Some (tx_chain r)"
    unfolding by_chain by (simp only: find_append option.case)
  then show ?thesis by auto
qed

lemma row_to_record_chain:
  assumes "tx_chain r' = tx_chain r" "row_to_record st r = Inr t"
  shows "\<exists>t'. row_to_record st r' = Inr t' \<and> tr_request_hash t' = tr_request_hash t
    \<and> tr_approval_id t' = tr_approval_id t \<and> tr_action_name t' = tr_action_name t"
  using assms by (auto simp: row_to_record_def Let_def)

lemma approve_read_stable:
  assumes "approve_read st txid db = Inr (Some (receipt, digest))" "grows db db'"
  shows "approve_read st txid db' = Inr (Some (receipt, digest))"
proof -
  obtain key where key: "st_audit_key st = Some key"
    using assms(1) by (cases "st_audit_key st") (auto simp: approve_read_def)
  with assms(1) obtain found where found: "get st txid db = Inr found"
    and case_found: "(case found of None \<Rightarrow> Inr None | Some record \<Rightarrow>
      let receipt = approval_receipt (st_crypto st) key txid (tr_request_hash record);
          digest = approval_receipt_digest (st_crypto st) receipt
      in (case tr_approval_id record of
           None \<Rightarrow> Inl (DatabaseInvariant (''transaction '' @ txid @ '' has no signed approval commitment''))
         | Some committed \<Rightarrow> if digest \<noteq> committed
             then Inl (DatabaseInvariant (''transaction '' @ txid @ '' approval commitment does not match its signed preview''))
             else Inr (Some (receipt, digest)))) = Inr (Some (receipt, digest))"
    by (auto simp: approve_read_def)
  obtain t where t: "found = Some t" using case_found by (cases found) auto
  have get: "get st txid db = Inr (Some t)" using found t by simp
  have rest: "receipt = approval_receipt (st_crypto st) key txid (tr_request_hash t)"
      "digest = approval_receipt_digest (st_crypto st) receipt" "tr_approval_id t = Some digest"
    using case_found by (cases "tr_approval_id t"; simp add: t Let_def split: if_splits)+
  from get obtain r where r: "find_tx txid db = Some r" "row_to_record st r = Inr t"
    by (auto simp: get_def split: option.splits)
  from find_tx_grows [OF r(1) assms(2)] obtain r' where
    r': "find_tx txid db' = Some r'" "tx_chain r' = tx_chain r" by blast
  from row_to_record_chain [OF r'(2) r(2)] r'(1) obtain t' where
    "get st txid db' = Inr (Some t')" "tr_request_hash t' = tr_request_hash t" "tr_approval_id t' = tr_approval_id t"
    by (auto simp: get_def)
  then show ?thesis using key rest by (simp add: approve_read_def Let_def)
qed

text \<open>The read of an approval gives the same answer at the commit, so the commit is the whole approval.\<close>

lemma kept_approve_commit:
  assumes kept: "kept ds uuids db" and key: "st_audit_key (ds_audit ds) = Some key"
    and read: "approve_read (ds_audit ds) txid db = Inr (Some (receipt, digest))"
  shows "kept ds uuids (snd (approve_commit (ds_audit ds) key ck txid approver receipt digest db))"
proof -
  have "approve_commit (ds_audit ds) key ck txid approver receipt digest db
      = approve_transaction (ds_audit ds) ck txid approver db"
    using key read by (simp add: approve_transaction_def)
  with whole_approve show ?thesis by (intro kept_step [OF kept _ same_rows_operations(2)]) simp
qed

section \<open>Reconciling at start\<close>

lemma grows_update_status: "grows db (snd (update_status st ck txid new db))"
  using grows_update_status_commit by (auto simp: update_status_def split: sum.splits)

lemma reconcile_batch_invariant:
  assumes "\<And>i txid s. I s \<Longrightarrow> I (snd (set_failed i txid s))" "I s"
  shows "I (snd (reconcile_batch set_failed i ids s))"
  using assms(2)
proof (induction ids arbitrary: i s)
  case (Cons txid ids)
  obtain r s' where step: "set_failed i txid s = (r, s')" by force
  then have "I s'" using assms(1) [OF Cons.prems, of i txid] by simp
  then show ?case using Cons.IH step by (cases r) simp_all
qed simp

lemma reconcile_invariant:
  assumes "\<And>i txid s. I s \<Longrightarrow> I (snd (set_failed i txid s))" "I s"
    and "reconcile_interrupted_running list_running set_failed fuel n s = Some (r, s')"
  shows "I s'"
  using assms(2,3)
proof (induction fuel arbitrary: n s)
  case (Suc fuel)
  have batch: "I (snd (reconcile_batch set_failed i ids s))" for i ids
    by (rule reconcile_batch_invariant [OF assms(1) Suc.prems(1)])
  show ?case
  proof (cases "list_running s")
    case (Inl e)
    then show ?thesis using Suc.prems by simp
  next
    case (Inr running)
    obtain q s1 where b: "reconcile_batch set_failed n running s = (q, s1)" by force
    then have "I s1" using batch [of n running] by simp
    then show ?thesis
      using Suc.IH Suc.prems Inr b by (cases q) (auto split: if_splits)
  qed
qed simp

lemma kept_restart:
  assumes "kept ds uuids db" "sound_daemon ds key" "reconcile_at_start ds env envs fuel db = Some (r, db')"
  shows "kept ds uuids db' \<and> grows db db'"
proof (rule reconcile_invariant [OF _ _ assms(3) [unfolded reconcile_at_start_def]])
  fix i txid d assume d: "kept ds uuids d \<and> grows db d"
  have "Failed \<in> job_targets" by (simp add: job_targets_def)
  then have "kept ds uuids (snd (update_status (ds_audit ds) (se_clock (envs i)) txid Failed d))"
    using kept_update_status d assms(2) by blast
  moreover have "grows db (snd (update_status (ds_audit ds) (se_clock (envs i)) txid Failed d))"
    using d grows_update_status grows_trans by blast
  ultimately show "kept ds uuids (snd (case se_failure (envs i) of Some e \<Rightarrow> (Inl (StoreSqlite e), d)
         | None \<Rightarrow> update_status (ds_audit ds) (se_clock (envs i)) txid Failed d))
     \<and> grows db (snd (case se_failure (envs i) of Some e \<Rightarrow> (Inl (StoreSqlite e), d)
         | None \<Rightarrow> update_status (ds_audit ds) (se_clock (envs i)) txid Failed d))"
    using d by (simp split: option.split)
qed (use assms(1) in simp)

end
