(* ===== verification/Sk_Dispatch.thy ===== *)
theory Sk_Dispatch
  imports Sk_Handler
begin

text \<open>
  The request handlers of \<^verbatim>\<open>crates/sysknife-daemon/src/dispatcher.rs\<close> apart from execution: the
  messages, ownership and authorization of a transaction, and one handler per request.
\<close>

named_theorems handler_defs \<open>the handlers\<close>

section \<open>Texts\<close>

definition DEFAULT_HISTORY_LIMIT :: nat where
  "DEFAULT_HISTORY_LIMIT = 20"

definition TRANSACTION_ID_DISPLAY_PREFIX_LEN :: nat where
  "TRANSACTION_ID_DISPLAY_PREFIX_LEN = 8"

fun role_debug :: "caller_role \<Rightarrow> string" where
  "role_debug Observer = ''Observer''" | "role_debug Dev = ''Dev''"
| "role_debug Admin = ''Admin''" | "role_debug Boot = ''Boot''"

fun job_state_debug :: "job_state \<Rightarrow> string" where
  "job_state_debug Queued = ''Queued''" | "job_state_debug Running = ''Running''"
| "job_state_debug Succeeded = ''Succeeded''" | "job_state_debug Failed = ''Failed''"
| "job_state_debug Canceled = ''Canceled''" | "job_state_debug RolledBack = ''RolledBack''"
| "job_state_debug NeedsReboot = ''NeedsReboot''"

fun risk_debug :: "risk_level \<Rightarrow> string" where
  "risk_debug Low = ''Low''" | "risk_debug Medium = ''Medium''" | "risk_debug High = ''High''"

fun job_state_str :: "job_state \<Rightarrow> string" where
  "job_state_str Queued = ''queued''" | "job_state_str Running = ''running''"
| "job_state_str Succeeded = ''succeeded''" | "job_state_str Failed = ''failed''"
| "job_state_str Canceled = ''canceled''" | "job_state_str RolledBack = ''rolled_back''"
| "job_state_str NeedsReboot = ''needs_reboot''"

fun store_error_to_string :: "store_error \<Rightarrow> string" where
  "store_error_to_string (StoreSqlite e) = ''sqlite error: '' @ e"
| "store_error_to_string (StoreJson e) = ''json error: '' @ e"
| "store_error_to_string (DatabaseInvariant e) = ''database invariant violation: '' @ e"
| "store_error_to_string (NotFound txid) = ''transaction not found: '' @ txid"
| "store_error_to_string (InvalidTransition a b) =
     ''invalid transition from '' @ job_state_debug a @ '' to '' @ job_state_debug b"
| "store_error_to_string (AuditChainMissing e) = ''audit chain misconfiguration: '' @ e"
| "store_error_to_string (ConcurrentStatusChange txid) =
     ''transaction '' @ txid @ '' status changed concurrently; retry''"

fun executor_error_to_string :: "executor_error \<Rightarrow> string" where
  "executor_error_to_string (UnknownAction n) = ''unknown action: '' @ n"
| "executor_error_to_string (MissingParam k) = ''missing required param: '' @ k"
| "executor_error_to_string (InvalidParam k) = ''invalid param type for: '' @ k"
| "executor_error_to_string (InvalidIpAddress param v) =
     ''invalid IP address for param '' @ [CHR 0x27] @ param @ [CHR 0x27] @ '': '' @ [CHR 0x27] @ v @ [CHR 0x27]"
| "executor_error_to_string (Io e) = ''io error: '' @ e"
| "executor_error_to_string (ActionNotStopped program pgid timeout_secs) =
     program @ '' exceeded the '' @ dec timeout_secs @ ''s action timeout and could not be confirmed stopped: ''
     @ ''process group '' @ dec_int pgid @ '' still has members. Automatic rollback was skipped because the ''
     @ ''original action may still be running; inspect the host before retrying''"

text \<open>\<^verbatim>\<open>{:?}\<close> of a \<^verbatim>\<open>str\<close>, and \<^verbatim>\<open>char\<close>s of a \<^verbatim>\<open>str\<close>: a byte that is not a continuation byte starts one.\<close>

definition debug_char :: "char \<Rightarrow> string" where
  "debug_char c =
     (if c = CHR 0x22 \<or> c = CHR 0x5C then [CHR 0x5C, c]
      else if c = CHR 0x0A then [CHR 0x5C, CHR ''n'']
      else if c = CHR 0x0D then [CHR 0x5C, CHR ''r'']
      else if c = CHR 0x09 then [CHR 0x5C, CHR ''t'']
      else if c = CHR 0x00 then [CHR 0x5C, CHR ''0'']
      else if byte c < 16 then CHR 0x5C # ''u{'' @ [hex_digit (byte c)] @ ''}''
      else if byte c < 32 \<or> byte c = 127
           then CHR 0x5C # ''u{'' @ [hex_digit (byte c div 16), hex_digit (byte c mod 16)] @ ''}''
      else [c])"

definition debug_str :: "string \<Rightarrow> string" where
  "debug_str s = CHR 0x22 # concat (map debug_char s) @ [CHR 0x22]"

definition is_char_start :: "char \<Rightarrow> bool" where
  "is_char_start c \<longleftrightarrow> byte c < 128 \<or> 192 \<le> byte c"

fun take_chars :: "nat \<Rightarrow> string \<Rightarrow> string" where
  "take_chars n [] = []"
| "take_chars n (c # s) =
     (if is_char_start c then (case n of 0 \<Rightarrow> [] | Suc m \<Rightarrow> c # take_chars m s) else c # take_chars n s)"

definition pad_right :: "nat \<Rightarrow> string \<Rightarrow> string" where
  "pad_right width s = s @ replicate (width - length (filter is_char_start s)) (CHR '' '')"

definition format_job_history :: "transaction_record list \<Rightarrow> string" where
  "format_job_history records =
     (if records = [] then ''No transactions found.''
      else ''Transaction history ('' @ dec (length records) @ '' entries):'' @ [CHR 0x0A, CHR 0x0A]
        @ concat (map (\<lambda>r. ''  '' @ take_chars TRANSACTION_ID_DISPLAY_PREFIX_LEN (tr_transaction_id r)
            @ ''  '' @ pad_right 30 (tr_action_name r)
            @ ''  '' @ pad_right 12 (to_ascii_lowercase (job_state_debug (tr_status r)))
            @ ''  '' @ tr_summary r @ [CHR 0x0A]) records))"

section \<open>Authorization\<close>

definition authorize_action :: "policy_table \<Rightarrow> caller_role \<Rightarrow> string \<Rightarrow> bool" where
  "authorize_action policy caller action_name = action_allowed policy caller action_name"

definition denial_message :: "string \<Rightarrow> caller_role \<Rightarrow> caller_role \<Rightarrow> string" where
  "denial_message action caller needed =
     ''action '' @ [CHR 0x27] @ action @ [CHR 0x27] @ '' requires the '' @ role_debug needed
     @ '' role, but you have '' @ role_debug caller @ ''. Join the group that grants it: sudo usermod -aG ''
     @ group_for_role needed @ '' $USER, then log out and back in (group membership only applies to a new login).''"

definition authorization_failure_message :: "policy_table \<Rightarrow> caller_role \<Rightarrow> string \<Rightarrow> string" where
  "authorization_failure_message policy caller action_name =
     (case policy_min_role policy action_name of
        Some needed \<Rightarrow> denial_message action_name caller needed
      | None \<Rightarrow> ''action '' @ [CHR 0x27] @ action_name @ [CHR 0x27] @ '' is not allowed for ''
                 @ role_debug caller @ '' role'')"

datatype ownership = Owned | NotOwned | NoSuchTransaction | CannotEstablish string

definition caller_owns_transaction ::
    "caller_attribution \<Rightarrow> string \<Rightarrow> (ownership \<Rightarrow> handler) \<Rightarrow> handler" where
  "caller_owns_transaction caller txid k =
     (if ca_principal caller = Unattributed then
        k (CannotEstablish (''this connection could not be attributed to an account, so it cannot approve, ''
          @ ''cancel, inspect or execute a transaction. The daemon reports the peer as unattributed when ''
          @ ''SO_PEERCRED fails or when the peer is not representable in this daemon'' @ [CHR 0x27] @ ''s user namespace.''))
      else store_read (\<lambda>_ db. Inr (fetch_chain_row txid db)) (\<lambda>r.
        case r of
          Inl e \<Rightarrow> k (CannotEstablish (''failed to load transaction ownership: '' @ store_error_to_string e))
        | Inr None \<Rightarrow> k NoSuchTransaction
        | Inr (Some row) \<Rightarrow>
            (case cr_caller_principal row of
               None \<Rightarrow> k (CannotEstablish (''transaction '' @ txid
                 @ '' records no owning account, so ownership cannot be established''))
             | Some owner \<Rightarrow> k (if owner = as_signed_str (ca_principal caller) then Owned else NotOwned))))"

definition not_your_transaction_message :: "string \<Rightarrow> string" where
  "not_your_transaction_message txid =
     ''transaction '' @ txid @ '' was created by a different account. An approval receipt is proof that a specific ''
     @ ''account confirmed a specific preview, so only the account that previewed an action can approve, cancel, ''
     @ ''inspect or execute it.''"

text \<open>The prologue of three handlers: an owner, or nobody's transaction, goes on.\<close>

definition require_ownership :: "caller_attribution \<Rightarrow> string \<Rightarrow> string \<Rightarrow> handler \<Rightarrow> handler" where
  "require_ownership caller request_id txid k =
     caller_owns_transaction caller txid (\<lambda>ownership.
       case ownership of
         Owned \<Rightarrow> k
       | NoSuchTransaction \<Rightarrow> k
       | NotOwned \<Rightarrow> send_error request_id ''authorization_failure'' (not_your_transaction_message txid)
       | CannotEstablish message \<Rightarrow> send_error request_id ''authorization_failure'' message)"

text \<open>\<open>k\<close> is what the caller does on \<^verbatim>\<open>Ok(true)\<close>; after \<^verbatim>\<open>Ok(false)\<close> it returns.\<close>

definition authorize_for_transaction ::
    "('sk, 'vk) daemon_state \<Rightarrow> caller_attribution \<Rightarrow> string \<Rightarrow> string \<Rightarrow> string \<Rightarrow> string \<Rightarrow> handler \<Rightarrow> handler" where
  "authorize_for_transaction ds caller request_id txid missing_category missing_message k =
     store_read (\<lambda>_. get (ds_audit ds) txid) (\<lambda>r.
       case r of
         Inr (Some transaction) \<Rightarrow>
           require_ownership caller request_id txid
             (if authorize_action (ds_policy ds) (ca_role caller) (tr_action_name transaction) then k
              else send_error request_id ''authorization_failure''
                     (authorization_failure_message (ds_policy ds) (ca_role caller) (tr_action_name transaction)))
       | Inr None \<Rightarrow> send_error request_id missing_category missing_message
       | Inl e \<Rightarrow> send_error request_id ''transient_infrastructure_failure''
                    (''failed to load transaction: '' @ store_error_to_string e))"

section \<open>Approving, inspecting, cancelling\<close>

text \<open>\<open>approve_transaction\<close> reads before the transaction it commits.\<close>

definition approve_transaction_call ::
    "('sk, 'vk) daemon_state \<Rightarrow> string \<Rightarrow> caller_principal \<Rightarrow> (store_error + string option \<Rightarrow> handler) \<Rightarrow> handler" where
  "approve_transaction_call ds txid approver k =
     store_read (\<lambda>_. approve_read (ds_audit ds) txid) (\<lambda>r.
       case (r, st_audit_key (ds_audit ds)) of
         (Inl e, _) \<Rightarrow> k (Inl e)
       | (Inr (Some (receipt, digest)), Some key) \<Rightarrow>
           store_call (\<lambda>env. approve_commit (ds_audit ds) key (se_clock env) txid approver receipt digest) k
       | (Inr _, _) \<Rightarrow> k (Inr None))"

definition STALE_APPROVAL_MESSAGE :: string where
  "STALE_APPROVAL_MESSAGE = ''transaction is missing, expired, already approved, or no longer queued''"

definition handle_approve ::
    "('sk, 'vk) daemon_state \<Rightarrow> caller_attribution \<Rightarrow> string \<Rightarrow> string \<Rightarrow> handler" where
  "handle_approve ds caller request_id txid =
     authorize_for_transaction ds caller request_id txid ''stale_approval'' STALE_APPROVAL_MESSAGE
       (approve_transaction_call ds txid (ca_principal caller) (\<lambda>r.
          case r of
            Inl (DatabaseInvariant m) \<Rightarrow> send_error request_id ''integrity_failure''
              (''approval rejected by an integrity check: '' @ store_error_to_string (DatabaseInvariant m))
          | Inl e \<Rightarrow> send_error request_id ''transient_infrastructure_failure''
              (''failed to persist approval: '' @ store_error_to_string e)
          | Inr None \<Rightarrow> send_error request_id ''stale_approval'' STALE_APPROVAL_MESSAGE
          | Inr (Some receipt) \<Rightarrow>
              Send (ApprovalResponse request_id txid receipt) (\<lambda>response.
                if is_ok response then Return response
                else store_call (\<lambda>env. revoke_unconsumed_approval (ds_audit ds) (se_clock env) txid (ca_principal caller))
                       (\<lambda>_. Return response))))"

definition handle_approval_details ::
    "('sk, 'vk) daemon_state \<Rightarrow> caller_attribution \<Rightarrow> string \<Rightarrow> string \<Rightarrow> handler" where
  "handle_approval_details ds caller request_id txid =
     require_ownership caller request_id txid
       (store_read (\<lambda>_. get (ds_audit ds) txid) (\<lambda>r.
          case r of
            Inl e \<Rightarrow> send_error request_id ''transient_infrastructure_failure''
              (''failed to load transaction: '' @ store_error_to_string e)
          | Inr None \<Rightarrow> send_error request_id ''stale_approval'' ''transaction is missing or no longer queued''
          | Inr (Some transaction) \<Rightarrow>
              if tr_status transaction \<noteq> Queued then
                send_error request_id ''stale_approval'' ''transaction is missing or no longer queued''
              else if \<not> authorize_action (ds_policy ds) (ca_role caller) (tr_action_name transaction) then
                send_error request_id ''authorization_failure''
                  (authorization_failure_message (ds_policy ds) (ca_role caller) (tr_action_name transaction))
              else store_read (\<lambda>_. get_preview (ds_audit ds) txid) (\<lambda>r.
                case r of
                  Inr (Some preview) \<Rightarrow> send_response
                    (ApprovalDetailsResponse request_id txid (tr_action_name transaction) preview)
                | Inr None \<Rightarrow> send_error request_id ''stale_approval'' ''transaction has no persisted preview''
                | Inl e \<Rightarrow> send_error request_id ''transient_infrastructure_failure''
                    (''failed to load preview: '' @ store_error_to_string e))))"

definition NOT_CANCELABLE_MESSAGE :: string where
  "NOT_CANCELABLE_MESSAGE = ''transaction cannot be canceled: it is missing, already executing, or finished''"

definition handle_cancel ::
    "('sk, 'vk) daemon_state \<Rightarrow> caller_attribution \<Rightarrow> string \<Rightarrow> string \<Rightarrow> handler" where
  "handle_cancel ds caller request_id txid =
     authorize_for_transaction ds caller request_id txid ''not_cancelable'' NOT_CANCELABLE_MESSAGE
       (store_call (\<lambda>env. cancel_queued (ds_audit ds) (se_clock env) txid (ca_principal caller)) (\<lambda>r.
          case r of
            Inr True \<Rightarrow> send_response (CancelResponse request_id txid)
          | Inr False \<Rightarrow> send_error request_id ''not_cancelable'' NOT_CANCELABLE_MESSAGE
          | Inl e \<Rightarrow> send_error request_id ''transient_infrastructure_failure''
              (''failed to cancel transaction: '' @ store_error_to_string e)))"

section \<open>Reading\<close>

definition handle_query_state :: "('sk, 'vk) daemon_state \<Rightarrow> string \<Rightarrow> handler" where
  "handle_query_state ds request_id =
     Collect (\<lambda>c. case c of
       CollectPanicked e \<Rightarrow> Return (Inl (HandlerInternal (''collect_state task failed: '' @ e)))
     | CollectFailed e \<Rightarrow> send_error request_id ''state_collection_failed'' e
     | CollectedState state \<Rightarrow> send_response (StateResponse request_id state (ds_host_distro ds)))"

definition resolve_history_since ::
    "(string \<Rightarrow> string + int) \<Rightarrow> nat option \<Rightarrow> string option \<Rightarrow> string + history_since option" where
  "resolve_history_since parse_from_rfc3339 since_hours since =
     (case (since_hours, since) of
        (Some _, Some _) \<Rightarrow> Inl ([CHR 0x27] @ ''since'' @ [CHR 0x27] @ '' and '' @ [CHR 0x27] @ ''since_hours''
          @ [CHR 0x27] @ '' are mutually exclusive'')
      | (Some hours, None) \<Rightarrow> Inr (Some (Hours hours))
      | (None, Some raw) \<Rightarrow>
          (case parse_from_rfc3339 raw of
             Inr at \<Rightarrow> Inr (Some (Cutoff at))
           | Inl e \<Rightarrow> Inl ([CHR 0x27] @ ''since'' @ [CHR 0x27] @ '' must be an RFC 3339 datetime, got ''
               @ debug_str raw @ '': '' @ e))
      | (None, None) \<Rightarrow> Inr None)"

definition handle_query_history ::
    "('sk, 'vk) daemon_state \<Rightarrow> string \<Rightarrow> nat option \<Rightarrow> string option \<Rightarrow> string option \<Rightarrow> nat option
     \<Rightarrow> string option \<Rightarrow> handler" where
  "handle_query_history ds request_id limit status_filter action_filter since_hours since =
     (case policy_min_role (ds_policy ds) ''ListJobHistory'' of
        None \<Rightarrow> send_error request_id ''validation_failure'' ''ListJobHistory action is not registered''
      | Some role \<Rightarrow>
          if role \<noteq> Observer then
            send_error request_id ''authorization_failure''
              (''history has been restricted above read-only by policy; it is not available over the ''
               @ ''structured query path'')
          else case resolve_history_since (ds_rfc3339_parse ds) since_hours since of
            Inl message \<Rightarrow> send_error request_id ''validation_failure'' message
          | Inr since \<Rightarrow>
              store_read (\<lambda>env. list_history (ds_audit ds) (ds_rfc3339 ds) (se_clock env)
                  (case limit of Some n \<Rightarrow> n | None \<Rightarrow> DEFAULT_HISTORY_LIMIT) status_filter action_filter since)
                (\<lambda>r. case r of
                   Inl e \<Rightarrow> send_error request_id ''execution_failure''
                     (''failed to query transaction history: '' @ store_error_to_string e)
                 | Inr entries \<Rightarrow> send_response (HistoryResponse request_id entries)))"

text \<open>The parameters of \<open>ListJobHistory\<close>: \<^verbatim>\<open>n as u32\<close> keeps the low 32 bits.\<close>

definition quoted_key :: "string \<Rightarrow> string" where
  "quoted_key key = [CHR 0x27] @ key @ [CHR 0x27]"

definition history_number :: "json_fmt \<Rightarrow> json \<Rightarrow> string \<Rightarrow> string + nat option" where
  "history_number F params key =
     (case get_param params key of
        None \<Rightarrow> Inr None
      | Some v \<Rightarrow> (case as_u64 v of
          Some n \<Rightarrow> Inr (Some (n mod 2 ^ 32))
        | None \<Rightarrow> Inl (quoted_key key @ '' must be an integer, got: '' @ canonical_json F v)))"

definition history_cutoff :: "json_fmt \<Rightarrow> json \<Rightarrow> string + string option" where
  "history_cutoff F params =
     (case get_param params ''since'' of
        None \<Rightarrow> Inr None
      | Some v \<Rightarrow> (case as_str v of
          Some s \<Rightarrow> Inr (Some s)
        | None \<Rightarrow> Inl (quoted_key ''since'' @ '' must be an RFC 3339 datetime string, got: '' @ canonical_json F v)))"

definition no_transactions_message ::
    "string option \<Rightarrow> string option \<Rightarrow> nat option \<Rightarrow> string option \<Rightarrow> string" where
  "no_transactions_message status_filter action_filter since_hours since_cutoff =
     (let filters = (case status_filter of Some s \<Rightarrow> [''status='' @ s] | None \<Rightarrow> [])
            @ (case action_filter of Some a \<Rightarrow> [''action='' @ a] | None \<Rightarrow> [])
            @ (case since_hours of Some h \<Rightarrow> [''since_hours='' @ dec h] | None \<Rightarrow> [])
            @ (case since_cutoff of Some c \<Rightarrow> [''since='' @ c] | None \<Rightarrow> [])
      in ''No transactions found''
         @ (if filters = [] then [] else '' (filters: '' @ join_with '', '' filters @ '')'') @ ''.'')"

definition list_job_history ::
    "('sk, 'vk) daemon_state \<Rightarrow> string \<Rightarrow> string \<Rightarrow> json \<Rightarrow> handler" where
  "list_job_history ds request_id action_name params =
     (let F = ds_json ds;
          refuse = send_error request_id ''validation_failure'';
          status_filter = Option.bind (get_param params ''status_filter'') as_str;
          action_filter = Option.bind (get_param params ''action_filter'') as_str
      in case validate_action_params action_name params of
           Inl e \<Rightarrow> refuse (executor_error_to_string e)
         | Inr _ \<Rightarrow> (case history_number F params ''limit'' of
             Inl m \<Rightarrow> refuse m
           | Inr limit \<Rightarrow> (case history_number F params ''since_hours'' of
               Inl m \<Rightarrow> refuse m
             | Inr since_hours \<Rightarrow> (case history_cutoff F params of
                 Inl m \<Rightarrow> refuse m
               | Inr since_cutoff \<Rightarrow>
                   (case resolve_history_since (ds_rfc3339_parse ds) since_hours since_cutoff of
                      Inl m \<Rightarrow> refuse m
                    | Inr since \<Rightarrow>
                        store_read (\<lambda>env. list_transactions (ds_audit ds) (ds_rfc3339 ds) (se_clock env)
                            (case limit of Some n \<Rightarrow> n | None \<Rightarrow> DEFAULT_HISTORY_LIMIT)
                            status_filter action_filter since)
                          (\<lambda>r. case r of
                             Inl e \<Rightarrow> send_error request_id ''execution_failure''
                               (''failed to query transaction log: '' @ store_error_to_string e)
                           | Inr records \<Rightarrow> send_response (QueryActionResponse request_id action_name
                               (if records = []
                                then no_transactions_message status_filter action_filter since_hours since_cutoff
                                else format_job_history records))))))))"

definition is_informational_exit :: "string \<Rightarrow> int \<Rightarrow> bool" where
  "is_informational_exit action_name code \<longleftrightarrow> action_name = ''GetServiceStatus'' \<and> 1 \<le> code \<and> code \<le> 4"

definition handle_query_action ::
    "('sk, 'vk) daemon_state \<Rightarrow> string \<Rightarrow> string \<Rightarrow> json \<Rightarrow> handler" where
  "handle_query_action ds request_id action_name params =
     (case policy_min_role (ds_policy ds) action_name of
        None \<Rightarrow> send_error request_id ''validation_failure'' (''unknown action: '' @ action_name)
      | Some min_role \<Rightarrow>
          if min_role \<noteq> Observer then
            send_error request_id ''authorization_failure''
              (action_name @ '' is not a read-only action; use preview+execute instead'')
          else if action_name \<in> set OBSERVER_MUTATING_ACTIONS then
            send_error request_id ''authorization_failure''
              (action_name @ '' mutates the host and is not available through query_action; ''
               @ ''use preview+execute instead'')
          else case validate_action_platform (ds_host_distro ds) action_name of
            Inl message \<Rightarrow> send_error request_id ''unsupported_platform'' message
          | Inr _ \<Rightarrow>
              if action_name = ''ListJobHistory'' then list_job_history ds request_id action_name params
              else case build_action_spec action_name params of
                Inl e \<Rightarrow> send_error request_id ''validation_failure'' (executor_error_to_string e)
              | Inr spec \<Rightarrow>
                  RunAction spec (\<lambda>(_, result). case result of
                    Inl e \<Rightarrow> send_error request_id ''execution_failure'' (executor_error_to_string e)
                  | Inr output \<Rightarrow>
                      if is_nonzero output \<and> \<not> is_informational_exit action_name (eo_exit_code output) then
                        send_error request_id ''execution_failure''
                          (action_name @ '' failed with exit code '' @ dec_int (eo_exit_code output)
                           @ (if trim (eo_stderr output) = [] then [] else '': '' @ trim (eo_stderr output)))
                      else send_response (QueryActionResponse request_id action_name
                        (if eo_stderr output = [] then eo_stdout output
                         else eo_stdout output @ [CHR 0x0A] @ ''[stderr]'' @ [CHR 0x0A] @ eo_stderr output))))"

definition handle_describe ::
    "('sk, 'vk) daemon_state \<Rightarrow> caller_attribution \<Rightarrow> string \<Rightarrow> string \<Rightarrow> json \<Rightarrow> handler" where
  "handle_describe ds caller request_id action_name params =
     (if policy_min_role (ds_policy ds) action_name = None then
        send_error request_id ''validation_failure'' (''unknown action: '' @ action_name)
      else if \<not> authorize_action (ds_policy ds) (ca_role caller) action_name then
        send_error request_id ''authorization_failure''
          (authorization_failure_message (ds_policy ds) (ca_role caller) action_name)
      else case validate_action_platform (ds_host_distro ds) action_name of
        Inl message \<Rightarrow> send_error request_id ''unsupported_platform'' message
      | Inr _ \<Rightarrow>
          if action_name = ''ListJobHistory'' then
            send_response (DescribeResponse request_id ''query daemon job history (SQLite)'' ''low'' False)
          else case build_action_spec action_name params of
            Inl e \<Rightarrow> send_error request_id ''validation_failure''
              (''unknown action: '' @ action_name @ '' ('' @ executor_error_to_string e @ '')'')
          | Inr spec \<Rightarrow> send_response (DescribeResponse request_id (described_command action_name params spec)
              (to_ascii_lowercase (risk_debug (as_risk_level spec))) (as_reboot_required spec)))"

section \<open>What a preview captures\<close>

definition AUTOREMOVE_REMOVALS_KEY :: string where
  "AUTOREMOVE_REMOVALS_KEY = ''autoremove_removals''"

definition DEPLOYMENT_IDENTITY_KEY :: string where
  "DEPLOYMENT_IDENTITY_KEY = ''deployment_identity''"

text \<open>A \<^verbatim>\<open>BTreeSet<String>\<close> is its sorted list; a \<^verbatim>\<open>serde_json::Map\<close> keeps its keys sorted.\<close>

definition btree_set :: "string list \<Rightarrow> string list" where
  "btree_set xs = sort (remdups xs)"

fun map_insert :: "string \<Rightarrow> json \<Rightarrow> (string \<times> json) list \<Rightarrow> (string \<times> json) list" where
  "map_insert k v [] = [(k, v)]"
| "map_insert k v ((k', v') # m) =
     (if k < k' then (k, v) # (k', v') # m else if k = k' then (k, v) # m else (k', v') # map_insert k v m)"

fun until_whitespace :: "string \<Rightarrow> string" where
  "until_whitespace [] = []"
| "until_whitespace (c # s) = (if ws_len (c # s) > 0 then [] else c # until_whitespace s)"

definition first_word :: "string \<Rightarrow> string option" where
  "first_word s = (let t = trim_start_by ws_len s in if t = [] then None else Some (until_whitespace t))"

definition parse_autoremove_removals :: "string \<Rightarrow> string list" where
  "parse_autoremove_removals simulate_stdout =
     btree_set (List.map_filter (\<lambda>line. Option.bind (strip_prefix (trim_start_by ws_len line) ''Remv '') first_word)
       (lines_of simulate_stdout))"

definition simulate_autoremove_set :: "(string + string list \<Rightarrow> handler) \<Rightarrow> handler" where
  "simulate_autoremove_set k =
     RunCommand ''apt-get'' [''-s'', ''autoremove''] (\<lambda>r. case r of
       CommandOutput out \<Rightarrow> k (Inr (parse_autoremove_removals out))
     | CommandFailed e \<Rightarrow> k (Inl (''apt-get -s autoremove failed: '' @ e))
     | CommandPanicked e \<Rightarrow> k (Inl (''autoremove simulate task panicked: '' @ e)))"

definition risky_package :: "string \<Rightarrow> bool" where
  "risky_package n =
     (let base = hd (split_char (CHR '':'') n)
      in starts_with base ''linux-image'' \<or> starts_with base ''linux-modules''
         \<or> starts_with base ''linux-headers'' \<or> starts_with base ''grub''
         \<or> contains_str base ''nvidia'' \<or> ends_with base ''-dkms'')"

definition autoremove_kernel_warning :: "string list \<Rightarrow> string option" where
  "autoremove_kernel_warning removals =
     (let flagged = filter risky_package removals
      in if flagged = [] then None
         else Some (''autoremove would delete kernel/driver/bootloader packages: ''
                @ join_with '', '' flagged @ ''. Review carefully.''))"

text \<open>\<^verbatim>\<open>serde_json::from_value::<BTreeSet<String>>\<close>\<close>

definition string_set_of_json :: "json \<Rightarrow> string list option" where
  "string_set_of_json v =
     (case v of
        JArr xs \<Rightarrow> if list_all (\<lambda>x. as_str x \<noteq> None) xs then Some (btree_set (map (\<lambda>x. the (as_str x)) xs)) else None
      | _ \<Rightarrow> None)"

definition verify_autoremove_binding :: "json \<Rightarrow> string list \<Rightarrow> string + unit" where
  "verify_autoremove_binding approved_proposed_change live =
     (case get_param approved_proposed_change AUTOREMOVE_REMOVALS_KEY of
        None \<Rightarrow> Inl ''the approved preview did not capture the autoremove deletion set; preview again''
      | Some captured \<Rightarrow>
          (case string_set_of_json captured of
             None \<Rightarrow> Inl (''the approved preview'' @ [CHR 0x27] @ ''s autoremove set is malformed; preview again'')
           | Some approved \<Rightarrow>
               if approved = live then Inr ()
               else Inl (''the set of packages autoremove would delete changed since you approved it ''
                 @ ''(now also removes: ['' @ join_with '', '' (filter (\<lambda>p. p \<notin> set approved) live)
                 @ '']; no longer removes: ['' @ join_with '', '' (filter (\<lambda>p. p \<notin> set live) approved)
                 @ '']); preview again'')))"

definition parse_deployment_identity :: "(string \<Rightarrow> string + json) \<Rightarrow> string \<Rightarrow> nat \<Rightarrow> string + string" where
  "parse_deployment_identity from_str status_json index =
     (case from_str status_json of
        Inl e \<Rightarrow> Inl (''rpm-ostree status --json did not parse: '' @ e)
      | Inr doc \<Rightarrow>
          (case get_param doc ''deployments'' of
             Some (JArr deployments) \<Rightarrow>
               if index < length deployments then
                 (case option_filter (\<lambda>c. c \<noteq> []) (Option.bind (get_param (deployments ! index) ''checksum'') as_str) of
                    Some checksum \<Rightarrow> Inr checksum
                  | None \<Rightarrow> Inl (''the deployment at index '' @ dec index @ '' carries no checksum''))
               else Inl (''there is no deployment at index '' @ dec index @ ''; rpm-ostree lists ''
                 @ dec (length deployments))
           | _ \<Rightarrow> Inl ''rpm-ostree status --json has no deployments array''))"

definition resolve_deployment_identity ::
    "('sk, 'vk) daemon_state \<Rightarrow> nat \<Rightarrow> (string + string \<Rightarrow> handler) \<Rightarrow> handler" where
  "resolve_deployment_identity ds index k =
     RunCommand ''rpm-ostree'' [''status'', ''--json''] (\<lambda>r. case r of
       CommandOutput out \<Rightarrow> k (parse_deployment_identity (ds_json_parse ds) out index)
     | CommandFailed e \<Rightarrow> k (Inl (''rpm-ostree status --json failed: '' @ e))
     | CommandPanicked e \<Rightarrow> k (Inl (''deployment status task panicked: '' @ e)))"

text \<open>The literals of the two messages are broken across source lines without a backslash, which keeps
  the indentation.\<close>

definition verify_deployment_binding :: "json \<Rightarrow> string \<Rightarrow> string + unit" where
  "verify_deployment_binding approved_proposed_change live_identity =
     (case Option.bind (get_param approved_proposed_change DEPLOYMENT_IDENTITY_KEY) as_str of
        None \<Rightarrow> Inl (''the approved preview did not capture which deployment sat at that index;''
                  @ replicate 14 (CHR '' '') @ ''preview again'')
      | Some captured \<Rightarrow>
          if captured = live_identity then Inr ()
          else Inl (''the deployment at that index changed since you approved it (approved '' @ captured @ '',''
                 @ replicate 10 (CHR '' '') @ ''now '' @ live_identity @ ''); preview again''))"

end
