(* ===== verification/Sk_Execute.thy ===== *)
theory Sk_Execute
  imports Sk_Dispatch
begin

text \<open>
  Previewing and executing (\<^verbatim>\<open>handle_preview\<close>, \<^verbatim>\<open>handle_execute\<close> and their helpers in
  \<^verbatim>\<open>crates/sysknife-daemon/src/dispatcher.rs\<close>), and the match of \<^verbatim>\<open>dispatch_loop\<close>. Forwarding a copy of
  the rows to a SIEM and the lines the daemon writes to its own log are left out: neither changes the
  daemon's state.
\<close>

section \<open>Preview\<close>

definition UNATTENDED_WARNING :: string where
  "UNATTENDED_WARNING =
     ''Approved without a human: this step was previewed by a client running with ''
     @ ''--dangerously-skip-approval, so no operator confirmed it.''"

definition set_field_of :: "json \<Rightarrow> string \<Rightarrow> json \<Rightarrow> json" where
  "set_field_of j k v = (case j of JObj m \<Rightarrow> JObj (map_insert k v m) | _ \<Rightarrow> j)"

definition proposed_change_of :: "string \<Rightarrow> json \<Rightarrow> json" where
  "proposed_change_of action_name params =
     JObj [(''action'', JStr action_name), (''params'', redact_params action_name params)]"

text \<open>The change with the set that \<^verbatim>\<open>apt-get autoremove\<close> would delete, and the warning about it.\<close>

definition capture_autoremove ::
    "string \<Rightarrow> json \<Rightarrow> (json \<Rightarrow> string option \<Rightarrow> handler) \<Rightarrow> handler" where
  "capture_autoremove action_name proposed_change k =
     (if action_name = ''AptAutoremove'' then
        simulate_autoremove_set (\<lambda>r. case r of
          Inr removals \<Rightarrow> k (set_field_of proposed_change AUTOREMOVE_REMOVALS_KEY (JArr (map JStr removals)))
            (autoremove_kernel_warning removals)
        | Inl _ \<Rightarrow> k proposed_change
            (Some (''Could not compute which packages autoremove would delete; approving this preview ''
              @ ''will not let it run until a preview captures the set.'')))
      else k proposed_change None)"

definition is_deployment_slot_action :: "string \<Rightarrow> bool" where
  "is_deployment_slot_action action_name \<longleftrightarrow> action_name = ''PinDeployment'' \<or> action_name = ''UnpinDeployment''"

definition capture_deployment ::
    "('sk, 'vk) daemon_state \<Rightarrow> string \<Rightarrow> json \<Rightarrow> json \<Rightarrow> (json \<Rightarrow> string option \<Rightarrow> handler) \<Rightarrow> handler" where
  "capture_deployment ds action_name params proposed_change k =
     (if is_deployment_slot_action action_name then
        (case Option.bind (get_param params ''index'') as_u64 of
           Some index \<Rightarrow> resolve_deployment_identity ds (index mod 2 ^ 32) (\<lambda>r. case r of
             Inr identity \<Rightarrow> k (set_field_of proposed_change DEPLOYMENT_IDENTITY_KEY (JStr identity)) None
           | Inl _ \<Rightarrow> k proposed_change
               (Some (''Could not read which deployment sits at that index; approving this preview will not ''
                 @ ''let it run until a preview captures one.'')))
         | None \<Rightarrow> k proposed_change (Some ''No deployment index was supplied, so nothing could be bound.''))
      else k proposed_change None)"

definition STATE_UNAVAILABLE_WARNING :: string where
  "STATE_UNAVAILABLE_WARNING =
     ''System state could not be collected; this preview was generated without it. ''
     @ ''Review the action carefully before approving.''"

definition opt_list :: "'a option \<Rightarrow> 'a list" where
  "opt_list v = (case v of None \<Rightarrow> [] | Some x \<Rightarrow> [x])"

definition assemble_preview ::
    "request_envelope \<Rightarrow> json \<Rightarrow> json \<Rightarrow> string option \<Rightarrow> string option \<Rightarrow> bool \<Rightarrow> preview_envelope" where
  "assemble_preview envelope current_state proposed_change autoremove_warning deployment_warning unattended =
     (let preview = preview_action envelope current_state proposed_change
      in preview\<lparr>pv_warnings := pv_warnings preview @ opt_list autoremove_warning @ opt_list deployment_warning
           @ (if current_state = JNull then [STATE_UNAVAILABLE_WARNING] else [])
           @ (if unattended then [UNATTENDED_WARNING] else [])\<rparr>)"

definition record_preview ::
    "('sk, 'vk) daemon_state \<Rightarrow> caller_attribution \<Rightarrow> string \<Rightarrow> string \<Rightarrow> string \<Rightarrow> action_spec \<Rightarrow> preview_envelope
     \<Rightarrow> handler" where
  "record_preview ds caller request_id action_name request_hash spec preview =
     store_call (\<lambda>env. record_previewed (ds_audit ds) (se_clock env) (se_uuid env)
         \<lparr>nt_request_id = request_id, nt_request_hash = request_hash, nt_action_name = action_name,
          nt_risk_level = as_risk_level spec, nt_summary = pv_summary preview, nt_warnings = pv_warnings preview,
          nt_caller_role = ca_role caller, nt_caller_principal = ca_principal caller\<rparr> preview)
       (\<lambda>r. case r of
          Inl e \<Rightarrow> send_error request_id ''transient_infrastructure_failure''
            (''failed to record preview transaction: '' @ store_error_to_string e)
        | Inr recorded \<Rightarrow> send_response
            (PreviewResponse request_id preview (tr_transaction_id (rp_transaction recorded))))"

definition handle_preview ::
    "('sk, 'vk) daemon_state \<Rightarrow> caller_attribution \<Rightarrow> string \<Rightarrow> string \<Rightarrow> json \<Rightarrow> bool \<Rightarrow> handler" where
  "handle_preview ds caller request_id action_name params unattended =
     (case build_action_spec action_name params of
        Inl e \<Rightarrow> send_error request_id ''validation_failure'' (executor_error_to_string e)
      | Inr spec \<Rightarrow>
          if \<not> authorize_action (ds_policy ds) (ca_role caller) action_name then
            send_error request_id ''authorization_failure''
              (authorization_failure_message (ds_policy ds) (ca_role caller) action_name)
          else case validate_action_platform (ds_host_distro ds) action_name of
            Inl message \<Rightarrow> send_error request_id ''unsupported_platform'' message
          | Inr _ \<Rightarrow>
              (let request_hash = compute_request_hash (ds_json ds) (st_crypto (ds_audit ds))
                     (ds_request_hash_key ds) action_name params
               in Collect (\<lambda>c.
                 let current_state = (case c of CollectedState state \<Rightarrow> state | _ \<Rightarrow> JNull) in
                 capture_autoremove action_name (proposed_change_of action_name params)
                   (\<lambda>change autoremove_warning.
                 capture_deployment ds action_name params change (\<lambda>change deployment_warning.
                 record_preview ds caller request_id action_name request_hash spec
                   (assemble_preview
                     \<lparr>req_action_name = action_name, req_request_id = request_id, req_params = params,
                      req_caller_role = ca_role caller, req_request_hash = request_hash\<rparr>
                     current_state change autoremove_warning deployment_warning unattended))))))"

section \<open>The gate\<close>

fun label :: "exclusive_resource \<Rightarrow> string" where
  "label System = ''the system (a reboot-required action)''"
| "label Dpkg = ''the dpkg/apt lock''"
| "label Snap = ''the snapd change queue''"
| "label RpmOstree = ''the rpm-ostree transaction lock''"
| "label Flatpak = ''the flatpak installation lock''"

definition is_high_risk_reboot :: "action_spec \<Rightarrow> bool" where
  "is_high_risk_reboot spec \<longleftrightarrow> as_risk_level spec = High \<and> as_reboot_required spec"

definition is_mutating :: "policy_table \<Rightarrow> string \<Rightarrow> action_spec \<Rightarrow> bool" where
  "is_mutating policy action_name spec \<longleftrightarrow>
     (case policy_min_role policy action_name of Some r \<Rightarrow> r > Observer | None \<Rightarrow> True)
     \<or> is_high_risk_reboot spec"

definition to_claim :: "policy_table \<Rightarrow> string \<Rightarrow> action_spec \<Rightarrow> exclusive_resource list" where
  "to_claim policy action_name spec =
     (let sys = (if is_high_risk_reboot spec then [System] else []);
          own = (case exclusive_resource_of spec of Some r \<Rightarrow> if r \<in> set sys then [] else [r] | None \<Rightarrow> [])
      in if is_mutating policy action_name spec then sys @ own else [])"

definition blocking :: "action_spec \<Rightarrow> slots \<Rightarrow> (exclusive_resource \<times> string) option" where
  "blocking spec slots =
     (case slots System of
        Some h \<Rightarrow> Some (System, h)
      | None \<Rightarrow> Option.bind (exclusive_resource_of spec) (\<lambda>r. map_option (\<lambda>h. (r, h)) (slots r)))"

definition claim_slots :: "exclusive_resource list \<Rightarrow> string \<Rightarrow> slots \<Rightarrow> slots" where
  "claim_slots claims hash slots = fold (\<lambda>resource m. m(resource \<mapsto> hash)) claims slots"

definition release_slots :: "exclusive_resource list \<Rightarrow> string \<Rightarrow> slots \<Rightarrow> slots" where
  "release_slots claims hash slots =
     fold (\<lambda>resource m. if m resource = Some hash then m(resource := None) else m) claims slots"

definition release_exclusive_slots :: "exclusive_resource list \<Rightarrow> string \<Rightarrow> handler \<Rightarrow> handler" where
  "release_exclusive_slots claimed request_hash k =
     (if claimed = [] then k else Locked (\<lambda>slots. (k, release_slots claimed request_hash slots)))"

definition conflict_message :: "exclusive_resource \<Rightarrow> string \<Rightarrow> string" where
  "conflict_message held running_hash =
     ''another mutating action is already executing and holds '' @ label held @ '' (request_hash '' @ running_hash
     @ ''); retry after the current job completes. This approval expires '' @ dec APPROVAL_RECEIPT_TTL_MINUTES
     @ '' minutes after it was issued, and that window is anchored to when the preview was created ''
     @ [CHR 0xE2, CHR 0x80, CHR 0x94] @ '' re-running `sysknife approve` on this same transaction will not renew ''
     @ ''it. If the running job is still going once the window has passed, re-run the preview (which mints a ''
     @ ''fresh transaction) and approve that new transaction instead''"

definition exclusion_gate ::
    "('sk, 'vk) daemon_state \<Rightarrow> string \<Rightarrow> string \<Rightarrow> action_spec \<Rightarrow> string \<Rightarrow> handler \<Rightarrow> handler" where
  "exclusion_gate ds request_id action_name spec stored_hash k =
     (if is_mutating (ds_policy ds) action_name spec then
        Locked (\<lambda>slots. case blocking spec slots of
          Some (blocking_resource, running_hash) \<Rightarrow>
            (send_response (ConflictResponse request_id (conflict_message blocking_resource running_hash) None), slots)
        | None \<Rightarrow> (k, claim_slots (to_claim (ds_policy ds) action_name spec) stored_hash slots))
      else k)"

section \<open>The checks after the claim\<close>

text \<open>\<open>refuse\<close> releases the slots and sends the error.\<close>

definition refuse :: "exclusive_resource list \<Rightarrow> string \<Rightarrow> string \<Rightarrow> string \<Rightarrow> string \<Rightarrow> handler" where
  "refuse claims stored_hash request_id category message =
     release_exclusive_slots claims stored_hash (send_error request_id category message)"

definition approved_preview ::
    "('sk, 'vk) daemon_state \<Rightarrow> string \<Rightarrow> (string \<Rightarrow> string \<Rightarrow> handler) \<Rightarrow> (preview_envelope \<Rightarrow> handler) \<Rightarrow> handler" where
  "approved_preview ds txid refusal k =
     store_read (\<lambda>_. get_preview (ds_audit ds) txid) (\<lambda>r.
       case r of
         Inr (Some p) \<Rightarrow> k p
       | Inr None \<Rightarrow> refusal ''stale_approval'' ''no persisted preview for this transaction; preview before executing''
       | Inl e \<Rightarrow> refusal ''transient_infrastructure_failure'' (''preview lookup failed: '' @ store_error_to_string e))"

definition bind_autoremove ::
    "('sk, 'vk) daemon_state \<Rightarrow> string \<Rightarrow> string \<Rightarrow> (string \<Rightarrow> string \<Rightarrow> handler) \<Rightarrow> handler \<Rightarrow> handler" where
  "bind_autoremove ds txid action_name refusal k =
     (if action_name = ''AptAutoremove'' then
        approved_preview ds txid refusal (\<lambda>preview.
        simulate_autoremove_set (\<lambda>r. case r of
          Inl e \<Rightarrow> refusal ''execution_failure'' (''could not confirm the autoremove set before executing: '' @ e)
        | Inr live \<Rightarrow> (case verify_autoremove_binding (pv_proposed_change preview) live of
            Inl reason \<Rightarrow> refusal ''stale_approval'' reason
          | Inr _ \<Rightarrow> k)))
      else k)"

definition bind_deployment ::
    "('sk, 'vk) daemon_state \<Rightarrow> string \<Rightarrow> string \<Rightarrow> json \<Rightarrow> (string \<Rightarrow> string \<Rightarrow> handler) \<Rightarrow> handler \<Rightarrow> handler" where
  "bind_deployment ds txid action_name params refusal k =
     (if is_deployment_slot_action action_name then
        approved_preview ds txid refusal (\<lambda>preview.
        case Option.bind (get_param params ''index'') as_u64 of
          None \<Rightarrow> refusal ''validation_failure''
            ''no deployment index was supplied, so the approval cannot be bound to one''
        | Some index \<Rightarrow>
            resolve_deployment_identity ds (index mod 2 ^ 32) (\<lambda>r. case r of
              Inl e \<Rightarrow> refusal ''execution_failure'' (''could not confirm which deployment is at that index: '' @ e)
            | Inr live \<Rightarrow> (case verify_deployment_binding (pv_proposed_change preview) live of
                Inl reason \<Rightarrow> refusal ''stale_approval'' reason
              | Inr _ \<Rightarrow> k)))
      else k)"

section \<open>The terminal status\<close>

definition TERMINAL_STATUS_RETRY_ATTEMPTS :: nat where
  "TERMINAL_STATUS_RETRY_ATTEMPTS = 3"

definition update_status_call ::
    "('sk, 'vk) daemon_state \<Rightarrow> string \<Rightarrow> job_state \<Rightarrow> (store_error + unit \<Rightarrow> handler) \<Rightarrow> handler" where
  "update_status_call ds txid target k =
     store_read (\<lambda>_. update_status_read txid target) (\<lambda>r.
       case r of
         Inl e \<Rightarrow> k (Inl e)
       | Inr observed \<Rightarrow> store_call (\<lambda>env. update_status_commit (ds_audit ds) (se_clock env) txid target observed) k)"

text \<open>The loop, with the number of attempts left; the backoff between two attempts is time only.\<close>

fun terminal_status_attempts ::
    "('sk, 'vk) daemon_state \<Rightarrow> string \<Rightarrow> job_state \<Rightarrow> nat \<Rightarrow> (store_error + unit \<Rightarrow> handler) \<Rightarrow> handler" where
  "terminal_status_attempts ds txid target 0 k = k (Inr ())"
| "terminal_status_attempts ds txid target (Suc n) k =
     update_status_call ds txid target (\<lambda>r.
       case r of
         Inr _ \<Rightarrow> k (Inr ())
       | Inl error \<Rightarrow>
           store_read (\<lambda>_. get (ds_audit ds) txid) (\<lambda>g.
             case g of
               Inr (Some record) \<Rightarrow>
                 if tr_status record = target then k (Inr ())
                 else if n = 0 then k (Inl error) else terminal_status_attempts ds txid target n k
             | _ \<Rightarrow> if n = 0 then k (Inl error) else terminal_status_attempts ds txid target n k))"

definition update_terminal_status ::
    "('sk, 'vk) daemon_state \<Rightarrow> string \<Rightarrow> job_state \<Rightarrow> (store_error + unit \<Rightarrow> handler) \<Rightarrow> handler" where
  "update_terminal_status ds txid target k =
     terminal_status_attempts ds txid target TERMINAL_STATUS_RETRY_ATTEMPTS k"

section \<open>Running and rolling back\<close>

text \<open>Frames whose delivery the handler ignores.\<close>

definition progress :: "string \<Rightarrow> string \<Rightarrow> handler \<Rightarrow> handler" where
  "progress job_id line k = Send (JobProgress job_id line) (\<lambda>_. k)"

fun progress_all :: "string \<Rightarrow> string list \<Rightarrow> handler \<Rightarrow> handler" where
  "progress_all job_id [] k = k"
| "progress_all job_id (line # rest) k = progress job_id line (progress_all job_id rest k)"

definition EM_DASH :: string where
  "EM_DASH = [CHR 0xE2, CHR 0x80, CHR 0x94]"

definition attempt_rollback_if_needed ::
    "string \<Rightarrow> string \<Rightarrow> action_spec \<Rightarrow> job_state \<Rightarrow> string \<Rightarrow> bool
     \<Rightarrow> (job_state \<Rightarrow> string \<Rightarrow> string option \<Rightarrow> handler) \<Rightarrow> handler" where
  "attempt_rollback_if_needed job_id action_name spec status summary action_may_still_be_running k =
     (if status \<noteq> Failed \<or> \<not> as_rollback_available spec then k status summary None
      else if action_may_still_be_running then
        progress job_id (action_name @ '' could not be confirmed stopped, so automatic rollback was skipped: ''
            @ ''rolling back over a running transaction would be worse than leaving it. ''
            @ ''Inspect the host before retrying.'')
          (k status (summary @ '' (automatic rollback skipped)'') None)
      else case rollback_spec_for action_name of
        None \<Rightarrow> k status summary None
      | Some rb_spec \<Rightarrow>
          progress job_id (action_name @ '' failed '' @ EM_DASH
              @ '' attempting automatic rollback via rpm-ostree rollback'')
            (RunAction rb_spec (\<lambda>(_, result).
               if (case result of Inr rb_out \<Rightarrow> is_success rb_out | Inl _ \<Rightarrow> False) then
                 progress job_id (''Rollback succeeded '' @ EM_DASH @ '' previous deployment restored'')
                   (k RolledBack (action_name @ '' failed and was automatically rolled back to the previous deployment'')
                      (Some ''rpm-ostree rollback''))
               else
                 progress job_id (''Rollback also failed (''
                     @ (case result of Inr o' \<Rightarrow> ''exit code '' @ dec_int (eo_exit_code o')
                                     | Inl e \<Rightarrow> executor_error_to_string e)
                     @ '') '' @ EM_DASH @ '' system may need manual intervention'')
                   (k status summary None))))"

definition initial_outcome :: "string \<Rightarrow> action_spec \<Rightarrow> execution \<Rightarrow> job_state \<times> string" where
  "initial_outcome action_name spec output =
     (case output of
        Inr out \<Rightarrow>
          if is_success out then
            (if as_reboot_required spec then (NeedsReboot, action_name @ '' completed; reboot required'')
             else (Succeeded, action_name @ '' completed successfully''))
          else (Failed, action_name @ '' failed with exit code '' @ dec_int (eo_exit_code out))
      | Inl e \<Rightarrow> (Failed, action_name @ '' failed: '' @ executor_error_to_string e))"

definition completion_line :: "string \<Rightarrow> execution \<Rightarrow> string" where
  "completion_line action_name output =
     (case output of
        Inr out \<Rightarrow> action_name @ '' completed with exit code '' @ dec_int (eo_exit_code out)
      | Inl e \<Rightarrow> action_name @ '' completed with error: '' @ executor_error_to_string e)"

text \<open>After the action: roll back, release, record the outcome, report it.\<close>

definition finish_job ::
    "('sk, 'vk) daemon_state \<Rightarrow> string \<Rightarrow> string \<Rightarrow> string \<Rightarrow> action_spec \<Rightarrow> exclusive_resource list \<Rightarrow> string
     \<Rightarrow> execution \<Rightarrow> handler" where
  "finish_job ds txid job_id action_name spec claims stored_hash output =
     (let (initial_status, initial_summary) = initial_outcome action_name spec output;
          may_run = not_stopped output
      in progress job_id (completion_line action_name output)
        (attempt_rollback_if_needed job_id action_name spec initial_status initial_summary may_run
          (\<lambda>final_status summary rollback_ref.
            let finish =
              update_terminal_status ds txid final_status (\<lambda>r.
                let warnings = (case r of Inr _ \<Rightarrow> []
                      | Inl e \<Rightarrow> [''audit trail update failed: '' @ store_error_to_string e])
                in send_response (JobCompleted job_id
                  \<lparr>jr_status = job_state_str final_status, jr_summary = summary, jr_warnings = warnings,
                   jr_job_id = job_id, jr_needs_reboot = (final_status = NeedsReboot),
                   jr_rollback_ref = rollback_ref, jr_transaction_id = txid\<rparr>))
            in if may_run then finish else release_exclusive_slots claims stored_hash finish)))"

definition run_job ::
    "('sk, 'vk) daemon_state \<Rightarrow> string \<Rightarrow> string \<Rightarrow> string \<Rightarrow> action_spec \<Rightarrow> exclusive_resource list \<Rightarrow> string
     \<Rightarrow> handler" where
  "run_job ds request_id txid action_name spec claims stored_hash =
     Uuid (\<lambda>job_id.
       Send (JobStarted request_id job_id txid) (\<lambda>started.
         case started of
           Inl e \<Rightarrow> release_exclusive_slots claims stored_hash
             (update_terminal_status ds txid Failed (\<lambda>_. Return (Inl e)))
         | Inr _ \<Rightarrow>
             progress job_id (''Authorization passed for '' @ action_name)
               (progress job_id (''Executing '' @ action_name @ ''...'')
                 (RunAction spec (\<lambda>(lines, output).
                   progress_all job_id lines (finish_job ds txid job_id action_name spec claims stored_hash output))))))"

section \<open>Execution\<close>

text \<open>From the spent receipt on.\<close>

definition execute_claimed ::
    "('sk, 'vk) daemon_state \<Rightarrow> caller_attribution \<Rightarrow> string \<Rightarrow> string \<Rightarrow> string \<Rightarrow> json \<Rightarrow> action_spec
     \<Rightarrow> exclusive_resource list \<Rightarrow> string \<Rightarrow> string \<Rightarrow> handler" where
  "execute_claimed ds caller request_id txid action_name params spec claims stored_hash receipt =
     (let refusal = refuse claims stored_hash request_id in
      store_call (\<lambda>env. claim_approved_for_execution (ds_audit ds) (se_clock env) txid
          (approval_receipt_digest (st_crypto (ds_audit ds)) receipt) (ca_principal caller)) (\<lambda>r.
        case r of
          Inl e \<Rightarrow> refusal ''transient_infrastructure_failure''
            (''failed to claim transaction: '' @ store_error_to_string e)
        | Inr False \<Rightarrow> refusal ''stale_approval''
            ''transaction is not approved for this receipt, expired, or already consumed''
        | Inr True \<Rightarrow>
            bind_autoremove ds txid action_name refusal
              (bind_deployment ds txid action_name params refusal
                (run_job ds request_id txid action_name spec claims stored_hash))))"

definition handle_execute ::
    "('sk, 'vk) daemon_state \<Rightarrow> caller_attribution \<Rightarrow> string \<Rightarrow> string \<Rightarrow> string \<Rightarrow> json \<Rightarrow> string \<Rightarrow> handler" where
  "handle_execute ds caller request_id txid action_name params receipt =
     (case build_action_spec action_name params of
        Inl e \<Rightarrow> send_error request_id ''validation_failure'' (executor_error_to_string e)
      | Inr spec \<Rightarrow>
          require_ownership caller request_id txid
            (if \<not> authorize_action (ds_policy ds) (ca_role caller) action_name then
               send_error request_id ''authorization_failure''
                 (authorization_failure_message (ds_policy ds) (ca_role caller) action_name)
             else case validate_action_platform (ds_host_distro ds) action_name of
               Inl message \<Rightarrow> send_error request_id ''unsupported_platform'' message
             | Inr _ \<Rightarrow>
                 (let submitted_hash = compute_request_hash (ds_json ds) (st_crypto (ds_audit ds))
                        (ds_request_hash_key ds) action_name params
                  in store_read (\<lambda>_. get (ds_audit ds) txid) (\<lambda>r.
                    case r of
                      Inl e \<Rightarrow> send_error request_id ''transient_infrastructure_failure''
                        (''transaction lookup failed: '' @ store_error_to_string e)
                    | Inr None \<Rightarrow> send_error request_id ''stale_approval''
                        ''no prior preview found for this transaction; preview before executing''
                    | Inr (Some prior_tx) \<Rightarrow>
                        if tr_action_name prior_tx \<noteq> action_name \<or> tr_request_hash prior_tx \<noteq> submitted_hash then
                          send_error request_id ''stale_approval''
                            ''action or parameters differ from the approved preview''
                        else
                          exclusion_gate ds request_id action_name spec (tr_request_hash prior_tx)
                            (execute_claimed ds caller request_id txid action_name params spec
                              (to_claim (ds_policy ds) action_name spec) (tr_request_hash prior_tx) receipt)))))"

section \<open>The match of the dispatch loop\<close>

fun serve :: "('sk, 'vk) daemon_state \<Rightarrow> caller_attribution \<Rightarrow> daemon_request \<Rightarrow> handler" where
  "serve ds caller (QueryState request_id) = handle_query_state ds request_id"
| "serve ds caller (Preview request_id action_name params unattended) =
     handle_preview ds caller request_id action_name params unattended"
| "serve ds caller (Execute request_id txid action_name params receipt) =
     handle_execute ds caller request_id txid action_name params receipt"
| "serve ds caller (Approve request_id txid) = handle_approve ds caller request_id txid"
| "serve ds caller (ApprovalDetails request_id txid) = handle_approval_details ds caller request_id txid"
| "serve ds caller (QueryAction request_id action_name params) = handle_query_action ds request_id action_name params"
| "serve ds caller (QueryHistory request_id limit status_filter action_filter since_hours since) =
     handle_query_history ds request_id limit status_filter action_filter since_hours since"
| "serve ds caller (Describe request_id action_name params) = handle_describe ds caller request_id action_name params"
| "serve ds caller (Cancel request_id txid) = handle_cancel ds caller request_id txid"

end
