(* ===== verification/Sk_Logic.thy ===== *)
theory Sk_Logic
  imports Sk_Rely Sk_Linear Sk_Execute
begin

text \<open>
  Proof rules for the handlers. \<open>triple hash hold stuck F h\<close> says that the handler \<open>h\<close> is safe from every state
  in which the fact \<open>F\<close> and the invariant hold of the database and the held slots carry \<open>hash\<close>. Facts about an
  append-only log stay true whatever the other connections do.
\<close>

definition lasting :: "(db \<Rightarrow> bool) \<Rightarrow> bool" where
  "lasting F \<longleftrightarrow> (\<forall>db db'. grows db db' \<longrightarrow> F db \<longrightarrow> F db')"

named_theorems lasting_facts \<open>facts that the growth of the log keeps\<close>

lemma lasting_const [lasting_facts, simp]: "lasting (\<lambda>_. A)"
  by (simp add: lasting_def)

lemma lasting_conj [lasting_facts]: "lasting F \<Longrightarrow> lasting G \<Longrightarrow> lasting (\<lambda>db. F db \<and> G db)"
  by (auto simp: lasting_def)

lemma lasting_disj [lasting_facts]: "lasting F \<Longrightarrow> lasting G \<Longrightarrow> lasting (\<lambda>db. F db \<or> G db)"
  by (auto simp: lasting_def)

lemma lasting_imp [lasting_facts]: "lasting G \<Longrightarrow> lasting (\<lambda>db. A \<longrightarrow> G db)"
  by (auto simp: lasting_def)

lemma lasting_ex [lasting_facts]: "(\<And>x. lasting (F x)) \<Longrightarrow> lasting (\<lambda>db. \<exists>x. F x db)"
  by (auto simp: lasting_def)

section \<open>Rules\<close>

locale handler_logic =
  fixes uuids :: "string set" and keeps :: "db \<Rightarrow> bool"
    and ob :: "exclusive_resource set \<Rightarrow> db \<Rightarrow> effect \<Rightarrow> bool"
begin

definition triple :: "string \<Rightarrow> exclusive_resource set \<Rightarrow> bool \<Rightarrow> (db \<Rightarrow> bool) \<Rightarrow> handler \<Rightarrow> bool" where
  "triple hash hold stuck F h \<longleftrightarrow>
     (\<forall>s :: shared. F (sh_db s) \<longrightarrow> keeps (sh_db s) \<longrightarrow> (\<forall>r \<in> hold. sh_slots s r = Some hash) \<longrightarrow> safe uuids keeps ob h hold stuck s)"

lemma weaken: "triple hash hold stuck F' h \<Longrightarrow> (\<And>db. F db \<Longrightarrow> keeps db \<Longrightarrow> F' db) \<Longrightarrow> triple hash hold stuck F h"
  by (simp add: triple_def)

lemma pure: "(A \<Longrightarrow> triple hash hold stuck F h) \<Longrightarrow> triple hash hold stuck (\<lambda>db. A \<and> F db) h"
  by (auto simp: triple_def)

lemma return: "hold = {} \<or> stuck \<Longrightarrow> triple hash hold stuck F (Return r)"
  by (simp add: triple_def)

lemma rely_facts:
  "rely hold s s' \<Longrightarrow> lasting F \<Longrightarrow> F (sh_db s) \<Longrightarrow> \<forall>r \<in> hold. sh_slots s r = Some hash \<Longrightarrow>
   F (sh_db s') \<and> (\<forall>r \<in> hold. sh_slots s' r = Some hash)"
  by (auto simp: rely_def lasting_def)

lemma send:
  assumes "lasting F" "\<And>db. F db \<Longrightarrow> keeps db \<Longrightarrow> ob hold db (Sending r)" "\<And>x. triple hash hold stuck F (k x)"
  shows "triple hash hold stuck F (Send r k)"
proof (unfold triple_def safe.simps, intro allI impI)
  fix s s' :: shared
  assume s: "F (sh_db s)" "\<forall>r \<in> hold. sh_slots s r = Some hash" and "keeps (sh_db s)" and s': "rely hold s s'" "keeps (sh_db s')"
  from rely_facts [OF s'(1) assms(1) s] assms(2) s'(2) assms(3) show "ob hold (sh_db s') (Sending r) \<and> (\<forall>x. safe uuids keeps ob (k x) hold stuck s')"
    by (simp add: triple_def)
qed

lemma answer:
  assumes "lasting F" "\<And>db. F db \<Longrightarrow> keeps db \<Longrightarrow> ob hold db (Sending r)" "hold = {} \<or> stuck"
  shows "triple hash hold stuck F (send_response r)"
  unfolding send_response_def by (rule send [OF assms(1,2) return [OF assms(3)]])

lemma uuid: "lasting F \<Longrightarrow> (\<And>x. triple hash hold stuck F (k x)) \<Longrightarrow> triple hash hold stuck F (Uuid k)"
  unfolding triple_def safe.simps using rely_facts by blast

lemma collect: "lasting F \<Longrightarrow> (\<And>x. triple hash hold stuck F (k x)) \<Longrightarrow> triple hash hold stuck F (Collect k)"
  unfolding triple_def safe.simps using rely_facts by blast

lemma run_command:
  "lasting F \<Longrightarrow> (\<And>x. triple hash hold stuck F (k x)) \<Longrightarrow> triple hash hold stuck F (RunCommand p args k)"
  unfolding triple_def safe.simps using rely_facts by blast

lemma run_action:
  assumes "lasting F" "\<And>db. F db \<Longrightarrow> keeps db \<Longrightarrow> ob hold db (RunningAction spec)"
    "\<And>lines out. triple hash hold (stuck \<or> not_stopped out) F (k (lines, out))"
  shows "triple hash hold stuck F (RunAction spec k)"
proof (unfold triple_def safe.simps, intro allI impI)
  fix s s' :: shared
  assume s: "F (sh_db s)" "\<forall>r \<in> hold. sh_slots s r = Some hash" and "keeps (sh_db s)" and s': "rely hold s s'" "keeps (sh_db s')"
  from rely_facts [OF s'(1) assms(1) s] assms(2) s'(2) assms(3) show "ob hold (sh_db s') (RunningAction spec)
      \<and> (\<forall>lines out. safe uuids keeps ob (k (lines, out)) hold (stuck \<or> not_stopped out) s')"
    by (simp add: triple_def)
qed

text \<open>A call of the store: \<open>G r\<close> is what its result \<open>r\<close> says of the database.\<close>

lemma store_node:
  assumes F: "lasting F"
    and op: "\<And>env db. F db \<Longrightarrow> keeps db \<Longrightarrow> se_uuid env \<in> uuids \<Longrightarrow>
      grows db (snd (f env db)) \<and> keeps (snd (f env db)) \<and> G (fst (f env db)) (snd (f env db))"
    and k: "\<And>h. triple hash hold stuck (G h) h"
  shows "triple hash hold stuck F (Store f)"
proof (unfold triple_def, intro allI impI)
  fix s :: shared assume "keeps (sh_db s)" and s: "F (sh_db s)" "\<forall>r \<in> hold. sh_slots s r = Some hash"
  have "grows (sh_db s') (snd (f env (sh_db s'))) \<and> keeps (snd (f env (sh_db s')))
      \<and> safe uuids keeps ob (fst (f env (sh_db s'))) hold stuck (s'\<lparr>sh_db := snd (f env (sh_db s'))\<rparr>)"
    if s': "rely hold s s'" "keeps (sh_db s')" "se_uuid env \<in> uuids" for s' env
  proof -
    have facts: "F (sh_db s')" "\<forall>r \<in> hold. sh_slots s' r = Some hash"
      using rely_facts [OF s'(1) F s] by auto
    from op [OF facts(1) s'(2,3)] k [of "fst (f env (sh_db s'))"] facts(2) show ?thesis
      by (simp add: triple_def)
  qed
  then show "safe uuids keeps ob (Store f) hold stuck s" by simp
qed

lemma store_call:
  assumes F: "lasting F"
    and op: "\<And>env db. F db \<Longrightarrow> keeps db \<Longrightarrow> se_uuid env \<in> uuids \<Longrightarrow>
      grows db (snd (op env db)) \<and> keeps (snd (op env db)) \<and> G (fst (op env db)) (snd (op env db))"
    and fail: "\<And>e db. F db \<Longrightarrow> G (Inl (StoreSqlite e)) db"
    and k: "\<And>r. triple hash hold stuck (G r) (k r)"
  shows "triple hash hold stuck F (store_call op k)"
  unfolding store_call_def
proof (rule store_node [OF F, where G = "\<lambda>h db. \<exists>r. h = k r \<and> G r db"])
  fix env :: store_env and db :: db assume db: "F db" "keeps db" "se_uuid env \<in> uuids"
  let ?f = "case se_failure env of Some e \<Rightarrow> (k (Inl (StoreSqlite e)), db)
     | None \<Rightarrow> (case op env db of (r, db') \<Rightarrow> (k r, db'))"
  show "grows db (snd ?f) \<and> keeps (snd ?f) \<and> (\<exists>r. fst ?f = k r \<and> G r (snd ?f))"
    using op [OF db] fail [OF db(1)] db(2) by (cases "op env db") (auto split: option.split)
next
  fix h show "triple hash hold stuck (\<lambda>db. \<exists>r. h = k r \<and> G r db) h"
    using k by (auto simp: triple_def)
qed

lemma store_read:
  assumes "lasting F" "\<And>env db. F db \<Longrightarrow> keeps db \<Longrightarrow> G (op env db) db"
    and "\<And>e db. F db \<Longrightarrow> G (Inl (StoreSqlite e)) db" "\<And>r. triple hash hold stuck (G r) (k r)"
  shows "triple hash hold stuck F (store_read op k)"
  unfolding store_read_def by (rule store_call [where G = G]) (use assms in auto)

text \<open>Reading and keeping nothing of it but the facts that were known.\<close>

lemma store_peek:
  "lasting F \<Longrightarrow> (\<And>r. triple hash hold stuck F (k r)) \<Longrightarrow> triple hash hold stuck F (store_read op k)"
  by (rule store_read [where G = "\<lambda>_. F"]) auto

section \<open>The slots\<close>

lemma locked:
  assumes F: "lasting F"
    and op: "\<And>m. \<forall>r \<in> hold. m r = Some hash \<Longrightarrow> \<exists>hold'. lock_change hold hold' m (snd (f m))
      \<and> (\<forall>r \<in> hold'. snd (f m) r = Some hash) \<and> triple hash hold' stuck F (fst (f m))"
  shows "triple hash hold stuck F (Locked f)"
proof (unfold triple_def, intro allI impI)
  fix s :: shared assume "keeps (sh_db s)" and s: "F (sh_db s)" "\<forall>r \<in> hold. sh_slots s r = Some hash"
  have "\<exists>hold'. lock_change hold hold' (sh_slots s') (snd (f (sh_slots s')))
      \<and> safe uuids keeps ob (fst (f (sh_slots s'))) hold' stuck (s'\<lparr>sh_slots := snd (f (sh_slots s'))\<rparr>)"
    if s': "rely hold s s'" "keeps (sh_db s')" for s'
  proof -
    have facts: "F (sh_db s')" "\<forall>r \<in> hold. sh_slots s' r = Some hash"
      using rely_facts [OF s'(1) F s] by auto
    from op [OF facts(2)] facts(1) s'(2) show ?thesis by (auto simp: triple_def)
  qed
  then show "safe uuids keeps ob (Locked f) hold stuck s" by simp
qed

lemma release:
  assumes F: "lasting F" and k: "triple hash {} stuck F k"
  shows "triple hash (set claims) stuck F (release_exclusive_slots claims hash k)"
proof (cases "claims = []")
  case True
  with k show ?thesis by (simp add: release_exclusive_slots_def)
next
  case False
  have "release_slots claims hash m r = (if r \<in> set claims \<and> m r = Some hash then None else m r)" for m r
    unfolding release_slots_def by (induction claims arbitrary: m) auto
  then have "lock_change (set claims) {} m (release_slots claims hash m)" if "\<forall>r \<in> set claims. m r = Some hash" for m
    using that by (auto simp: lock_change_def)
  with False k show ?thesis
    unfolding release_exclusive_slots_def by (auto intro!: locked [OF F] exI [of _ "{}"])
qed

lemma claim_slots_eq: "claim_slots claims hash m r = (if r \<in> set claims then Some hash else m r)"
  unfolding claim_slots_def by (induction claims arbitrary: m) auto

lemma gate:
  assumes F: "lasting F"
    and conflict: "\<And>db msg. ob {} db (Sending (ConflictResponse request_id msg None))"
    and k: "triple hash (set (to_claim (ds_policy ds) n spec)) False F k"
  shows "triple hash {} False F (exclusion_gate ds request_id n spec hash k)"
proof (cases "is_mutating (ds_policy ds) n spec")
  case True
  have free: "m r = None" if "blocking spec m = None" "r \<in> set (to_claim (ds_policy ds) n spec)" for m r
    using that by (cases "exclusive_resource_of spec")
      (auto simp: blocking_def to_claim_def Let_def split: option.splits if_splits)
  have "triple hash {} False F (send_response (ConflictResponse request_id msg None))" for msg
    by (rule answer [OF F]) (simp_all add: conflict)
  then have refused: "\<exists>hold'. lock_change {} hold' m m \<and> (\<forall>r \<in> hold'. m r = Some hash)
      \<and> triple hash hold' False F (send_response (ConflictResponse request_id msg None))" for m msg
    by (intro exI [of _ "{}"]) (simp add: lock_change_def)
  have granted: "\<exists>hold'. lock_change {} hold' m (claim_slots (to_claim (ds_policy ds) n spec) hash m)
      \<and> (\<forall>r \<in> hold'. claim_slots (to_claim (ds_policy ds) n spec) hash m r = Some hash) \<and> triple hash hold' False F k"
    if "blocking spec m = None" for m
    using free [OF that] k
    by (intro exI [of _ "set (to_claim (ds_policy ds) n spec)"]) (auto simp: lock_change_def claim_slots_eq)
  show ?thesis
    unfolding exclusion_gate_def using True refused granted
    by (auto intro!: locked [OF F] split: option.split)
next
  case False
  with k show ?thesis by (simp add: exclusion_gate_def to_claim_def Let_def)
qed

end

end
