(* ===== verification/Sk_Daemon.thy ===== *)
theory Sk_Daemon
  imports Sk_Logic Sk_Limits
begin

text \<open>
  The handlers meet their obligations: what must be true of the audit log when an action runs and
  when a response is sent (\<open>obligation\<close>), for every handler of \<^verbatim>\<open>dispatcher.rs\<close>, whatever the other
  connections do meanwhile.
\<close>

section \<open>Obligations\<close>

definition owned_row :: "caller_attribution \<Rightarrow> string \<Rightarrow> (chain_row \<Rightarrow> bool) \<Rightarrow> db \<Rightarrow> bool" where
  "owned_row c txid Q db \<longleftrightarrow>
     (\<exists>row \<in> set (map tx_chain (db_transactions db)). cr_transaction_id row = txid
        \<and> cr_caller_principal row = Some (as_signed_str (ca_principal c)) \<and> Q row)"

text \<open>An event of the chain that names the caller, and one that names nobody.\<close>

definition attested :: "audit_event_kind \<Rightarrow> string \<Rightarrow> caller_attribution \<Rightarrow> db \<Rightarrow> bool" where
  "attested kind txid c db \<longleftrightarrow>
     (\<exists>e \<in> set (db_events db). er_kind e = kind_as_str kind \<and> er_transaction_id e = txid
        \<and> er_caller_principal e = Some (as_signed_str (ca_principal c)))"

definition noted :: "audit_event_kind \<Rightarrow> string \<Rightarrow> db \<Rightarrow> bool" where
  "noted kind txid db \<longleftrightarrow> (\<exists>e \<in> set (db_events db). er_kind e = kind_as_str kind \<and> er_transaction_id e = txid)"

definition request_hash_of :: "('sk, 'vk) daemon_state \<Rightarrow> string \<Rightarrow> json \<Rightarrow> string" where
  "request_hash_of ds n params =
     compute_request_hash (ds_json ds) (st_crypto (ds_audit ds)) (ds_request_hash_key ds) n params"

text \<open>An action that a query may run: read-only under the policy in force.\<close>

definition queried :: "('sk, 'vk) daemon_state \<Rightarrow> action_spec \<Rightarrow> bool" where
  "queried ds spec \<longleftrightarrow>
     (\<exists>n params. build_action_spec n params = Inr spec \<and> policy_min_role (ds_policy ds) n = Some Observer
        \<and> n \<notin> set OBSERVER_MUTATING_ACTIONS \<and> validate_action_platform (ds_host_distro ds) n = Inr ())"

text \<open>An action that an execution may run, or its rollback: the caller may run it, on this host; the caller's own
  transaction previewed this very request; its receipt was spent by the caller.\<close>

definition approved_execution ::
    "('sk, 'vk) daemon_state \<Rightarrow> caller_attribution \<Rightarrow> string \<Rightarrow> string \<Rightarrow> json \<Rightarrow> db \<Rightarrow> bool" where
  "approved_execution ds c txid n params db \<longleftrightarrow>
     action_allowed (ds_policy ds) (ca_role c) n
     \<and> validate_action_platform (ds_host_distro ds) n = Inr ()
     \<and> owned_row c txid (\<lambda>row. cr_action_name row = n \<and> cr_request_hash row = request_hash_of ds n params) db
     \<and> attested ApprovalConsumed txid c db"

definition executed ::
    "('sk, 'vk) daemon_state \<Rightarrow> caller_attribution \<Rightarrow> exclusive_resource set \<Rightarrow> db \<Rightarrow> action_spec \<Rightarrow> bool" where
  "executed ds c hold db spec \<longleftrightarrow>
     (\<exists>n params txid base. build_action_spec n params = Inr base
        \<and> (spec = base \<or> rollback_spec_for n = Some spec)
        \<and> approved_execution ds c txid n params db
        \<and> hold = set (to_claim (ds_policy ds) n base))"

definition ERROR_CATEGORIES :: "string list" where
  "ERROR_CATEGORIES =
     [''validation_failure'', ''authorization_failure'', ''transient_infrastructure_failure'', ''stale_approval'',
      ''integrity_failure'', ''not_cancelable'', ''state_collection_failed'', ''execution_failure'',
      ''unsupported_platform'']"

lemma error_categories [simp]:
  "''validation_failure'' \<in> set ERROR_CATEGORIES" "''authorization_failure'' \<in> set ERROR_CATEGORIES"
  "''transient_infrastructure_failure'' \<in> set ERROR_CATEGORIES" "''stale_approval'' \<in> set ERROR_CATEGORIES"
  "''integrity_failure'' \<in> set ERROR_CATEGORIES" "''not_cancelable'' \<in> set ERROR_CATEGORIES"
  "''state_collection_failed'' \<in> set ERROR_CATEGORIES" "''execution_failure'' \<in> set ERROR_CATEGORIES"
  "''unsupported_platform'' \<in> set ERROR_CATEGORIES"
  by (simp_all add: ERROR_CATEGORIES_def)

definition terminal_states :: "job_state list" where
  "terminal_states = [Succeeded, Failed, RolledBack, NeedsReboot]"

definition job_result_ok :: "string \<Rightarrow> job_result \<Rightarrow> bool" where
  "job_result_ok job_id res \<longleftrightarrow>
     jr_job_id res = job_id \<and> jr_status res \<in> set (map job_state_str terminal_states)
     \<and> (jr_needs_reboot res \<longleftrightarrow> jr_status res = ''needs_reboot'')
     \<and> (jr_rollback_ref res \<noteq> None \<longleftrightarrow> jr_status res = ''rolled_back'')"

fun response_ok :: "('sk, 'vk) daemon_state \<Rightarrow> caller_attribution \<Rightarrow> db \<Rightarrow> daemon_response \<Rightarrow> bool" where
  "response_ok ds c db (PreviewResponse _ preview txid) \<longleftrightarrow>
     owned_row c txid (\<lambda>row. cr_request_hash row = pv_request_hash preview \<and> cr_summary row = pv_summary preview
       \<and> cr_warnings_json row = st_warnings_to_json (ds_audit ds) (pv_warnings preview)
       \<and> action_allowed (ds_policy ds) (ca_role c) (cr_action_name row)) db"
| "response_ok ds c db (ApprovalResponse _ txid receipt) \<longleftrightarrow>
     owned_row c txid (\<lambda>row. action_allowed (ds_policy ds) (ca_role c) (cr_action_name row)) db
     \<and> attested ApprovalGranted txid c db"
| "response_ok ds c db (ApprovalDetailsResponse _ txid n preview) \<longleftrightarrow>
     owned_row c txid (\<lambda>row. cr_action_name row = n \<and> action_allowed (ds_policy ds) (ca_role c) n) db"
| "response_ok ds c db (CancelResponse _ txid) \<longleftrightarrow>
     owned_row c txid (\<lambda>row. action_allowed (ds_policy ds) (ca_role c) (cr_action_name row)) db
     \<and> noted StatusCanceled txid db"
| "response_ok ds c db (JobStarted _ job_id txid) \<longleftrightarrow> (\<exists>n params. approved_execution ds c txid n params db)"
| "response_ok ds c db (JobCompleted job_id res) \<longleftrightarrow>
     job_result_ok job_id res \<and> (\<exists>n params. approved_execution ds c (jr_transaction_id res) n params db)"
| "response_ok ds c db (DescribeResponse _ command risk reboot) \<longleftrightarrow> risk \<in> set [''low'', ''medium'', ''high'']"
| "response_ok ds c db (ErrorResponse _ category _) \<longleftrightarrow> category \<in> set ERROR_CATEGORIES"
| "response_ok ds c db _ \<longleftrightarrow> True"

fun obligation ::
    "('sk, 'vk) daemon_state \<Rightarrow> caller_attribution \<Rightarrow> exclusive_resource set \<Rightarrow> db \<Rightarrow> effect \<Rightarrow> bool" where
  "obligation ds c hold db (RunningAction spec) \<longleftrightarrow> queried ds spec \<or> executed ds c hold db spec"
| "obligation ds c hold db (Sending r) \<longleftrightarrow> response_ok ds c db r"

section \<open>Facts last\<close>

lemma lasting_owned_row [lasting_facts, simp]: "lasting (owned_row c txid Q)"
  unfolding lasting_def owned_row_def grows_def by (meson set_mono_prefix subsetD)

lemma lasting_attested [lasting_facts, simp]: "lasting (attested kind txid c)"
  unfolding lasting_def attested_def grows_def by (meson set_mono_prefix subsetD)

lemma lasting_noted [lasting_facts, simp]: "lasting (noted kind txid)"
  unfolding lasting_def noted_def grows_def by (meson set_mono_prefix subsetD)

lemma lasting_approved [lasting_facts, simp]: "lasting (approved_execution ds c txid n params)"
  unfolding approved_execution_def by (intro lasting_facts)

lemma lastingD: "lasting F \<Longrightarrow> grows db db' \<Longrightarrow> F db \<Longrightarrow> F db'"
  by (auto simp: lasting_def)

lemma response_ok_lasting: "lasting (\<lambda>db. response_ok ds c db r)"
  by (cases r) (simp_all only: response_ok.simps, (intro lasting_facts)+)

lemma executed_lasting: "lasting (\<lambda>db. executed ds c hold db spec)"
  unfolding executed_def by (intro lasting_facts)

lemma obligation_stable:
  assumes "obligation ds c hold db eff" "grows db db'"
  shows "obligation ds c hold db' eff"
proof (cases eff)
  case (Sending r)
  with lastingD [OF response_ok_lasting assms(2), of ds c r] assms(1) show ?thesis by simp
next
  case (RunningAction spec)
  with lastingD [OF executed_lasting assms(2), of ds c hold spec] assms(1) show ?thesis by auto
qed

section \<open>Small steps of the handlers\<close>

interpretation hl: handler_logic uuids "kept ds uuids" "obligation ds c"
  for ds :: "('sk, 'vk) daemon_state" and uuids :: "string set" and c :: caller_attribution .

abbreviation ok ::
    "('sk, 'vk) daemon_state \<Rightarrow> string set \<Rightarrow> caller_attribution \<Rightarrow> string \<Rightarrow> exclusive_resource set \<Rightarrow> bool
     \<Rightarrow> (db \<Rightarrow> bool) \<Rightarrow> handler \<Rightarrow> bool" where
  "ok ds uuids c \<equiv> handler_logic.triple uuids (kept ds uuids) (obligation ds c)"

lemma ok_error:
  assumes "category \<in> set ERROR_CATEGORIES" "hold = {} \<or> stuck"
  shows "ok ds uuids c hash hold stuck F (send_error request_id category message)"
proof (rule hl.weaken [of _ _ _ _ _ _ "\<lambda>_. True"])
  show "ok ds uuids c hash hold stuck (\<lambda>_. True) (send_error request_id category message)"
    unfolding send_error_def by (rule hl.send [OF lasting_const _ hl.return [OF assms(2)]]) (simp add: assms(1))
qed simp

lemma ok_err [simp]:
  "category \<in> set ERROR_CATEGORIES \<Longrightarrow> ok ds uuids c hash {} stuck F (send_error request_id category message)"
  by (rule ok_error) simp_all

lemma ok_progress:
  "lasting F \<Longrightarrow> ok ds uuids c hash hold stuck F k \<Longrightarrow> ok ds uuids c hash hold stuck F (progress job_id line k)"
  unfolding progress_def by (rule hl.send) simp_all

lemma ok_progress_all:
  assumes "lasting F" "ok ds uuids c hash hold stuck F k"
  shows "ok ds uuids c hash hold stuck F (progress_all job_id lines k)"
  by (induction lines) (simp_all add: assms ok_progress)

section \<open>Ownership\<close>

text \<open>A transaction that the caller named: it is the caller's, unless there is none and never will be.\<close>

abbreviation named :: "string set \<Rightarrow> string \<Rightarrow> db \<Rightarrow> bool" where
  "named uuids txid db \<equiv> (txid \<in> uuids \<longrightarrow> find_tx txid db \<noteq> None)"

abbreviation mine :: "string set \<Rightarrow> caller_attribution \<Rightarrow> string \<Rightarrow> db \<Rightarrow> bool" where
  "mine uuids c txid db \<equiv> (txid \<in> uuids \<longrightarrow> owned_row c txid (\<lambda>_. True) db)"

lemma lasting_named [lasting_facts, simp]: "lasting (named uuids txid)"
proof (intro lasting_imp)
  show "lasting (\<lambda>db. find_tx txid db \<noteq> None)"
    unfolding lasting_def using find_tx_grows by (metis option.distinct(1) not_Some_eq)
qed

lemma ok_caller_owns:
  assumes F: "lasting F" and named: "\<And>db. F db \<Longrightarrow> named uuids txid db"
    and owned: "ok ds uuids c hash {} False (\<lambda>db. F db \<and> owned_row c txid (\<lambda>_. True) db) (k Owned)"
    and nobody: "txid \<notin> uuids \<Longrightarrow> ok ds uuids c hash {} False F (k NoSuchTransaction)"
    and refused: "ok ds uuids c hash {} False F (k NotOwned)" "\<And>m. ok ds uuids c hash {} False F (k (CannotEstablish m))"
  shows "ok ds uuids c hash {} False F (caller_owns_transaction c txid k)"
proof (cases "ca_principal c = Unattributed")
  case True
  then show ?thesis by (simp add: caller_owns_transaction_def refused)
next
  case False
  let ?G = "\<lambda>r db. F db \<and> (case r of
      Inr None \<Rightarrow> txid \<notin> uuids
    | Inr (Some row) \<Rightarrow> cr_transaction_id row = txid \<and> row \<in> set (map tx_chain (db_transactions db))
    | Inl _ \<Rightarrow> True)"
  have no_row: "ok ds uuids c hash {} False (\<lambda>db. F db \<and> txid \<notin> uuids) (k NoSuchTransaction)"
    by (rule hl.weaken [OF hl.pure [OF nobody]]) blast+
  show ?thesis
    unfolding caller_owns_transaction_def if_not_P [OF False]
    apply (rule hl.store_read [OF F, where G = ?G])
    subgoal for env db
      using named [of db] find_tx_Some [of txid db] by (auto simp: fetch_chain_row_def split: option.splits)
    subgoal by simp
    subgoal for r
      by (auto split: sum.split option.split
          intro!: no_row hl.weaken [OF owned] hl.weaken [OF refused(1)] hl.weaken [OF refused(2)])
        (auto simp: owned_row_def)
    done
qed

text \<open>The prologue of the handlers that take a transaction.\<close>

lemma ok_ownership:
  assumes F: "lasting F" and named: "\<And>db. F db \<Longrightarrow> named uuids txid db"
    and k: "ok ds uuids c hash {} False (\<lambda>db. F db \<and> mine uuids c txid db) k"
  shows "ok ds uuids c hash {} False F (require_ownership c request_id txid k)"
proof -
  show ?thesis
    unfolding require_ownership_def
    by (rule ok_caller_owns [OF F named]) (auto intro: hl.weaken [OF k])
qed

text \<open>What \<open>get\<close> says of the row it read.\<close>

definition previewed_row :: "string \<Rightarrow> string \<Rightarrow> string \<Rightarrow> db \<Rightarrow> bool" where
  "previewed_row txid n hash db \<longleftrightarrow>
     (\<exists>row \<in> set (map tx_chain (db_transactions db)). cr_transaction_id row = txid
        \<and> cr_action_name row = n \<and> cr_request_hash row = hash)"

lemma lasting_previewed_row [lasting_facts, simp]: "lasting (previewed_row txid n hash)"
  unfolding lasting_def previewed_row_def grows_def by (meson set_mono_prefix subsetD)

lemma get_previewed:
  assumes "get st txid db = Inr (Some t)"
  shows "previewed_row txid (tr_action_name t) (tr_request_hash t) db"
proof -
  from assms obtain r where r: "find_tx txid db = Some r" "row_to_record st r = Inr t"
    by (auto simp: get_def split: option.splits)
  from find_tx_Some [OF r(1)] r(2) show ?thesis
    by (auto simp: previewed_row_def row_to_record_def Let_def intro!: bexI [of _ r])
qed

lemma result_cases:
  obtains (Err) e where "r = Inl e" | (Absent) "r = Inr None" | (Present) x where "r = Inr (Some x)"
  by (metis not_Some_eq sumE)

lemma ok_get:
  assumes F: "lasting F" and none: "ok ds uuids c hash hold stuck F (k (Inr None))"
    and err: "\<And>e. ok ds uuids c hash hold stuck F (k (Inl e))"
    and some: "\<And>t. ok ds uuids c hash hold stuck (\<lambda>db. F db \<and> previewed_row txid (tr_action_name t) (tr_request_hash t) db)
      (k (Inr (Some t)))"
  shows "ok ds uuids c hash hold stuck F (store_read (\<lambda>_. get (ds_audit ds) txid) k)"
proof (rule hl.store_read [OF F, where G = "\<lambda>r db. F db \<and> (case r of
    Inr (Some t) \<Rightarrow> previewed_row txid (tr_action_name t) (tr_request_hash t) db | _ \<Rightarrow> True)"])
  fix r :: "store_error + transaction_record option"
  show "ok ds uuids c hash hold stuck (\<lambda>db. F db \<and> (case r of
      Inr (Some t) \<Rightarrow> previewed_row txid (tr_action_name t) (tr_request_hash t) db | _ \<Rightarrow> True)) (k r)"
    using none err some by (cases r rule: result_cases) simp_all
qed (auto dest: get_previewed split: sum.splits option.splits)

lemma owned_previewed:
  assumes kept: "kept ds uuids db" and sound: "sound_daemon ds key"
    and mine: "mine uuids c txid db" and row: "previewed_row txid n hash db"
  shows "owned_row c txid (\<lambda>row. cr_action_name row = n \<and> cr_request_hash row = hash) db"
proof -
  from row obtain r where r: "r \<in> set (db_transactions db)" "tx_id r = txid"
      "cr_action_name (tx_chain r) = n" "cr_request_hash (tx_chain r) = hash"
    by (auto simp: previewed_row_def)
  then have "txid \<in> uuids" using kept by (auto simp: kept_def)
  with mine obtain r' where r': "r' \<in> set (db_transactions db)" "tx_id r' = txid"
      "cr_caller_principal (tx_chain r') = Some (as_signed_str (ca_principal c))"
    by (auto simp: owned_row_def)
  have "r' = r" using kept_find_tx [OF kept sound r(1)] kept_find_tx [OF kept sound r'(1)] r(2) r'(2) by simp
  with r r' show ?thesis by (auto simp: owned_row_def)
qed

lemma owned_row_mono: "owned_row c txid Q db \<Longrightarrow> (\<And>row. Q row \<Longrightarrow> Q' row) \<Longrightarrow> owned_row c txid Q' db"
  by (auto simp: owned_row_def)

section \<open>Approving, inspecting, cancelling\<close>

lemma ok_authorize:
  assumes sound: "sound_daemon ds key" and F: "lasting F" and named: "\<And>db. F db \<Longrightarrow> named uuids txid db"
    and cat: "category \<in> set ERROR_CATEGORIES"
    and k: "ok ds uuids c hash {} False (\<lambda>db. F db
      \<and> owned_row c txid (\<lambda>row. action_allowed (ds_policy ds) (ca_role c) (cr_action_name row)) db) k"
  shows "ok ds uuids c hash {} False F (authorize_for_transaction ds c request_id txid category message k)"
proof -
  have found: "ok ds uuids c hash {} False (\<lambda>db. F db \<and> previewed_row txid n h db)
      (require_ownership c request_id txid (if authorize_action (ds_policy ds) (ca_role c) n then k
        else send_error request_id ''authorization_failure'' m))" for n h m
  proof (rule ok_ownership)
    show "lasting (\<lambda>db. F db \<and> previewed_row txid n h db)" by (intro lasting_facts F)
    show "ok ds uuids c hash {} False (\<lambda>db. (F db \<and> previewed_row txid n h db) \<and> mine uuids c txid db)
        (if authorize_action (ds_policy ds) (ca_role c) n then k else send_error request_id ''authorization_failure'' m)"
    proof (cases "authorize_action (ds_policy ds) (ca_role c) n")
      case True
      then have "ok ds uuids c hash {} False (\<lambda>db. (F db \<and> previewed_row txid n h db) \<and> mine uuids c txid db) k"
        by (intro hl.weaken [OF k] conjI owned_row_mono [OF owned_previewed [OF _ sound]])
          (auto simp: authorize_action_def)
      with True show ?thesis by simp
    qed simp
  qed (use named in blast)
  show ?thesis
    unfolding authorize_for_transaction_def
    by (rule ok_get [OF F]) (simp_all add: cat found)
qed

lemma approve_commit_event:
  assumes "approve_commit st key ck txid p receipt digest db = (Inr (Some r), db')" "ca_principal c = p"
  shows "attested ApprovalGranted txid c db'"
  using assms by (auto simp: approve_commit_def attested_def append_event_def new_event_def Let_def split: if_splits)

lemma ok_approve_call:
  assumes sound: "sound_daemon ds key" and F: "lasting F"
    and err: "\<And>e. ok ds uuids c hash {} False F (k (Inl e))" and none: "ok ds uuids c hash {} False F (k (Inr None))"
    and some: "\<And>receipt. ok ds uuids c hash {} False (\<lambda>db. F db \<and> attested ApprovalGranted txid c db) (k (Inr (Some receipt)))"
  shows "ok ds uuids c hash {} False F (approve_transaction_call ds txid (ca_principal c) k)"
proof -
  let ?read = "\<lambda>receipt digest db. approve_read (ds_audit ds) txid db = Inr (Some (receipt, digest))"
  have key: "st_audit_key (ds_audit ds) = Some key" using sound by (simp add: sound_daemon_def)
  have lasting_read: "lasting (?read receipt digest)" for receipt digest
    using approve_read_stable by (auto simp: lasting_def)
  have commit: "ok ds uuids c hash {} False (\<lambda>db. F db \<and> ?read receipt digest db)
      (store_call (\<lambda>env. approve_commit (ds_audit ds) key (se_clock env) txid (ca_principal c) receipt digest) k)"
    for receipt digest
  proof (rule hl.store_call [where G = "\<lambda>r db. F db \<and> (case r of Inr (Some _) \<Rightarrow> attested ApprovalGranted txid c db | _ \<Rightarrow> True)"])
    show "lasting (\<lambda>db. F db \<and> ?read receipt digest db)" by (intro lasting_facts F lasting_read)
    fix env :: store_env and db assume db: "F db \<and> ?read receipt digest db" "kept ds uuids db"
    let ?r = "approve_commit (ds_audit ds) key (se_clock env) txid (ca_principal c) receipt digest db"
    have "grows db (snd ?r)" by (rule grows_approve_commit)
    with db show "grows db (snd ?r) \<and> kept ds uuids (snd ?r)
        \<and> F (snd ?r) \<and> (case fst ?r of Inr (Some _) \<Rightarrow> attested ApprovalGranted txid c (snd ?r) | _ \<Rightarrow> True)"
      using kept_approve_commit [OF db(2) key, of txid receipt digest "se_clock env" "ca_principal c"]
        lastingD [OF F, of db "snd ?r"] approve_commit_event [of "ds_audit ds" key "se_clock env" txid "ca_principal c" receipt digest db]
      by (cases "fst ?r" rule: result_cases; cases ?r) auto
  next
    fix r :: "store_error + string option"
    show "ok ds uuids c hash {} False (\<lambda>db. F db \<and> (case r of Inr (Some _) \<Rightarrow> attested ApprovalGranted txid c db | _ \<Rightarrow> True)) (k r)"
      using err none some by (cases r rule: result_cases) simp_all
  qed simp
  show ?thesis
    unfolding approve_transaction_call_def
    apply (rule hl.store_read [OF F, where G = "\<lambda>r db. F db \<and> (case r of Inr (Some (receipt, digest)) \<Rightarrow> ?read receipt digest db | _ \<Rightarrow> True)"])
    subgoal by (auto split: sum.split option.split)
    subgoal by simp
    subgoal for r using err none commit by (cases r rule: result_cases) (auto simp: key)
    done
qed

lemma ok_revoke:
  assumes F: "lasting F" and k: "\<And>r. ok ds uuids c hash {} False F (k r)"
  shows "ok ds uuids c hash {} False F (store_call (\<lambda>env. revoke_unconsumed_approval (ds_audit ds) (se_clock env) txid p) k)"
  by (rule hl.store_call [OF F, where G = "\<lambda>_. F"])
    (auto simp: k grows_revoke_unconsumed_approval kept_revoke intro: lastingD [OF F grows_revoke_unconsumed_approval])

lemma ok_approve:
  assumes sound: "sound_daemon ds key" and F: "lasting F" and named: "\<And>db. F db \<Longrightarrow> named uuids txid db"
  shows "ok ds uuids c hash {} False F (handle_approve ds c request_id txid)"
proof -
  let ?own = "owned_row c txid (\<lambda>row. action_allowed (ds_policy ds) (ca_role c) (cr_action_name row))"
  have granted: "ok ds uuids c hash {} False (\<lambda>db. F db \<and> ?own db \<and> attested ApprovalGranted txid c db)
      (Send (ApprovalResponse request_id txid receipt) (\<lambda>response. if is_ok response then Return response
        else store_call (\<lambda>env. revoke_unconsumed_approval (ds_audit ds) (se_clock env) txid (ca_principal c))
               (\<lambda>_. Return response)))" for receipt
    by (rule hl.send) (auto intro!: lasting_facts F ok_revoke hl.return)
  have lasting: "lasting (\<lambda>db. F db \<and> ?own db)" by (intro lasting_facts F)
  show ?thesis
    unfolding handle_approve_def
    by (rule ok_authorize [OF sound F named], blast, simp,
        rule ok_approve_call [OF sound lasting])
      (auto intro!: granted split: store_error.split)
qed

lemma ok_approval_details:
  assumes sound: "sound_daemon ds key" and F: "lasting F" and named: "\<And>db. F db \<Longrightarrow> named uuids txid db"
  shows "ok ds uuids c hash {} False F (handle_approval_details ds c request_id txid)"
proof -
  let ?own = "\<lambda>n. owned_row c txid (\<lambda>row. cr_action_name row = n \<and> action_allowed (ds_policy ds) (ca_role c) n)"
  let ?M = "\<lambda>db. F db \<and> mine uuids c txid db"
  have M: "lasting ?M" by (intro lasting_facts F)
  have details: "ok ds uuids c hash {} False (?own n) (store_read (\<lambda>_. get_preview (ds_audit ds) txid) (\<lambda>r.
      case r of
        Inr (Some preview) \<Rightarrow> send_response (ApprovalDetailsResponse request_id txid n preview)
      | Inr None \<Rightarrow> send_error request_id ''stale_approval'' ''transaction has no persisted preview''
      | Inl e \<Rightarrow> send_error request_id ''transient_infrastructure_failure''
          (''failed to load preview: '' @ store_error_to_string e)))" for n
    by (rule hl.store_peek) (auto intro!: hl.answer split: sum.split option.split)
  have found: "ok ds uuids c hash {} False (\<lambda>db. ?M db \<and> previewed_row txid n h db) (if s \<noteq> Queued then
        send_error request_id ''stale_approval'' ''transaction is missing or no longer queued''
      else if \<not> authorize_action (ds_policy ds) (ca_role c) n then
        send_error request_id ''authorization_failure'' m
      else D)" if D: "ok ds uuids c hash {} False (?own n) D" for n h s m D
    by (auto simp: authorize_action_def intro!: hl.weaken [OF D] elim!: owned_row_mono [OF owned_previewed [OF _ sound]])
  show ?thesis
    unfolding handle_approval_details_def
    by (rule ok_ownership [OF F named], blast, rule ok_get [OF M]) (simp_all only: sum.case option.case ok_err error_categories found [OF details])
qed

lemma cancel_queued_event:
  assumes "cancel_queued st ck txid p db = (Inr True, db')"
  shows "noted StatusCanceled txid db'"
  using assms
  by (auto simp: cancel_queued_def cancel_one_def noted_def append_event_def new_event_def Let_def case_prod_beta
      split: option.splits if_splits)

lemma ok_cancel:
  assumes sound: "sound_daemon ds key" and F: "lasting F" and named: "\<And>db. F db \<Longrightarrow> named uuids txid db"
  shows "ok ds uuids c hash {} False F (handle_cancel ds c request_id txid)"
proof -
  let ?F = "\<lambda>db. F db \<and> owned_row c txid (\<lambda>row. action_allowed (ds_policy ds) (ca_role c) (cr_action_name row)) db"
  have F': "lasting ?F" by (intro lasting_facts F)
  have "ok ds uuids c hash {} False ?F
      (store_call (\<lambda>env. cancel_queued (ds_audit ds) (se_clock env) txid (ca_principal c)) (\<lambda>r. case r of
            Inr True \<Rightarrow> send_response (CancelResponse request_id txid)
          | Inr False \<Rightarrow> send_error request_id ''not_cancelable'' NOT_CANCELABLE_MESSAGE
          | Inl e \<Rightarrow> send_error request_id ''transient_infrastructure_failure''
              (''failed to cancel transaction: '' @ store_error_to_string e)))"
  proof (rule hl.store_call [OF F', where G = "\<lambda>r db. ?F db \<and> (r = Inr True \<longrightarrow> noted StatusCanceled txid db)"])
    fix env :: store_env and db assume db: "?F db" "kept ds uuids db"
    let ?r = "cancel_queued (ds_audit ds) (se_clock env) txid (ca_principal c) db"
    have g: "grows db (snd ?r)" by (rule grows_cancel_queued)
    show "grows db (snd ?r) \<and> kept ds uuids (snd ?r) \<and> ?F (snd ?r) \<and> (fst ?r = Inr True \<longrightarrow> noted StatusCanceled txid (snd ?r))"
      using g kept_cancel [OF db(2), of "se_clock env" txid "ca_principal c"] lastingD [OF F' g db(1)]
        cancel_queued_event [of "ds_audit ds" "se_clock env" txid "ca_principal c" db "snd ?r"]
      by (cases ?r) auto
  next
    fix r :: "store_error + bool"
    have answered: "ok ds uuids c hash {} False (\<lambda>db. ?F db \<and> noted StatusCanceled txid db) (send_response (CancelResponse request_id txid))"
      by (rule hl.answer) (auto intro!: lasting_facts F)
    show "ok ds uuids c hash {} False (\<lambda>db. ?F db \<and> (r = Inr True \<longrightarrow> noted StatusCanceled txid db)) (case r of
            Inr True \<Rightarrow> send_response (CancelResponse request_id txid)
          | Inr False \<Rightarrow> send_error request_id ''not_cancelable'' NOT_CANCELABLE_MESSAGE
          | Inl e \<Rightarrow> send_error request_id ''transient_infrastructure_failure''
              (''failed to cancel transaction: '' @ store_error_to_string e))"
      using answered by (cases "r = Inr True") (auto split: sum.split bool.split)
  qed simp
  then show ?thesis
    unfolding handle_cancel_def by (intro ok_authorize [OF sound F named error_categories(6)])
qed

section \<open>Reading\<close>

lemma ok_query_state: "ok ds uuids c hash {} False (\<lambda>_. True) (handle_query_state ds request_id)"
  unfolding handle_query_state_def
  by (rule hl.collect) (auto intro: hl.return hl.answer split: collected.split)

lemma ok_query_history:
  "ok ds uuids c hash {} False (\<lambda>_. True) (handle_query_history ds request_id limit status action hours since)"
  unfolding handle_query_history_def
  by (auto intro!: hl.store_peek hl.answer split: option.split sum.split)

lemma ok_list_job_history:
  "ok ds uuids c hash {} False (\<lambda>_. True) (list_job_history ds request_id n params)"
  unfolding list_job_history_def Let_def
  by (auto intro!: hl.store_peek hl.answer split: sum.split)

lemma ok_run_query:
  "queried ds spec \<Longrightarrow> (\<And>lines out stuck. ok ds uuids c hash {} stuck (\<lambda>_. True) (k (lines, out))) \<Longrightarrow>
   ok ds uuids c hash {} False (\<lambda>_. True) (RunAction spec k)"
  by (rule hl.run_action) simp_all

lemma queriedI:
  "build_action_spec n params = Inr spec \<Longrightarrow> policy_min_role (ds_policy ds) n = Some Observer \<Longrightarrow>
   n \<notin> set OBSERVER_MUTATING_ACTIONS \<Longrightarrow> validate_action_platform (ds_host_distro ds) n = Inr () \<Longrightarrow> queried ds spec"
  unfolding queried_def by blast

lemma ok_query_action: "ok ds uuids c hash {} False (\<lambda>_. True) (handle_query_action ds request_id n params)"
  unfolding handle_query_action_def
  by (auto simp: ok_list_job_history intro!: hl.answer ok_run_query intro: queriedI split: option.split sum.split)

lemma risk_strings: "to_ascii_lowercase (risk_debug r) \<in> set [''low'', ''medium'', ''high'']"
  by (cases r; hypsubst; code_simp)

lemma ok_describe: "ok ds uuids c hash {} False (\<lambda>_. True) (handle_describe ds c request_id n params)"
proof -
  have "ok ds uuids c hash {} False (\<lambda>_. True) (send_response (DescribeResponse request_id command risk reboot))"
    if "risk \<in> set [''low'', ''medium'', ''high'']" for command risk reboot
    by (rule hl.answer) (use that in simp_all)
  with risk_strings show ?thesis
    unfolding handle_describe_def by (auto split: sum.split)
qed

section \<open>Preview\<close>

lemma record_previewed_row:
  assumes "record_previewed st ck txid t p db = (Inr recorded, db')"
  shows "tr_transaction_id (rp_transaction recorded) = txid
    \<and> (\<exists>row \<in> set (map tx_chain (db_transactions db')). cr_transaction_id row = txid
        \<and> cr_caller_principal row = Some (as_signed_str (nt_caller_principal t))
        \<and> cr_request_hash row = nt_request_hash t \<and> cr_summary row = nt_summary t
        \<and> cr_warnings_json row = st_warnings_to_json st (nt_warnings t) \<and> cr_action_name row = nt_action_name t)"
  using assms
  by (auto simp: record_previewed_def record_with_def insert_transaction_def insert_preview_def Let_def case_prod_beta
      split: option.splits sum.splits if_splits prod.splits)

lemma ok_record_preview:
  assumes allowed: "action_allowed (ds_policy ds) (ca_role c) n" and hash: "pv_request_hash preview = h"
  shows "ok ds uuids c hash' {} False (\<lambda>_. True) (record_preview ds c request_id n h spec preview)"
proof -
  let ?t = "\<lparr>nt_request_id = request_id, nt_request_hash = h, nt_action_name = n,
      nt_risk_level = as_risk_level spec, nt_summary = pv_summary preview, nt_warnings = pv_warnings preview,
      nt_caller_role = ca_role c, nt_caller_principal = ca_principal c\<rparr>"
  let ?G = "\<lambda>r db. case r of Inr recorded \<Rightarrow>
      response_ok ds c db (PreviewResponse request_id preview (tr_transaction_id (rp_transaction recorded))) | Inl _ \<Rightarrow> True"
  show ?thesis
    unfolding record_preview_def
    apply (rule hl.store_call [OF lasting_const, where G = ?G])
    subgoal for env db
      using record_previewed_row [of "ds_audit ds" "se_clock env" "se_uuid env" ?t preview db]
        grows_record_previewed [of db "ds_audit ds" "se_clock env" "se_uuid env" ?t preview]
        kept_record [of ds uuids db "se_uuid env" "se_clock env" ?t preview] allowed hash
      by (cases "record_previewed (ds_audit ds) (se_clock env) (se_uuid env) ?t preview db")
        (auto simp: owned_row_def split: sum.split)
    subgoal by simp
    subgoal for r
      by (cases r) (auto intro!: hl.answer response_ok_lasting simp del: response_ok.simps)
    done
qed

lemma ok_preview: "ok ds uuids c hash {} False (\<lambda>_. True) (handle_preview ds c request_id n params unattended)"
proof -
  have hash: "pv_request_hash (assemble_preview e s ch a w u) = req_request_hash e" for e s ch a w u
    by (simp add: assemble_preview_def preview_action_def Let_def case_prod_beta)
  have autoremove: "ok ds uuids c hash {} False (\<lambda>_. True) (capture_autoremove n change k)"
    if "\<And>ch w. ok ds uuids c hash {} False (\<lambda>_. True) (k ch w)" for change k
    unfolding capture_autoremove_def simulate_autoremove_set_def
    using that by (auto intro!: hl.run_command split: command_result.split)
  have deployment: "ok ds uuids c hash {} False (\<lambda>_. True) (capture_deployment ds n params change k)"
    if "\<And>ch w. ok ds uuids c hash {} False (\<lambda>_. True) (k ch w)" for change k
    unfolding capture_deployment_def resolve_deployment_identity_def
    using that by (auto intro!: hl.run_command split: command_result.split option.split sum.split)
  show ?thesis
    unfolding handle_preview_def Let_def authorize_action_def
    by (auto intro!: hl.collect autoremove deployment ok_record_preview simp: hash split: sum.split)
qed

section \<open>The terminal status\<close>

lemma ok_update_status_call:
  assumes sound: "sound_daemon ds key" and F: "lasting F" and target: "target \<in> job_targets"
    and k: "\<And>r. ok ds uuids c hash hold stuck F (k r)"
  shows "ok ds uuids c hash hold stuck F (update_status_call ds txid target k)"
proof -
  have commit: "ok ds uuids c hash hold stuck F
      (store_call (\<lambda>env. update_status_commit (ds_audit ds) (se_clock env) txid target observed) k)"
    if "allowed_transition observed target" for observed
    by (rule hl.store_call [OF F, where G = "\<lambda>_. F"])
      (auto simp: k grows_update_status_commit kept_update_status_commit [OF _ sound that target]
        intro: lastingD [OF F grows_update_status_commit])
  show ?thesis
    unfolding update_status_call_def
    apply (rule hl.store_read [OF F, where G = "\<lambda>r db. (case r of Inr observed \<Rightarrow> allowed_transition observed target | _ \<Rightarrow> True) \<and> F db"])
    subgoal by (auto simp: update_status_read_def split: option.split)
    subgoal by simp
    subgoal for r using k commit by (cases r) (auto intro!: hl.pure)
    done
qed

lemma ok_terminal_status:
  assumes sound: "sound_daemon ds key" and F: "lasting F" and target: "target \<in> job_targets"
    and k: "\<And>r. ok ds uuids c hash hold stuck F (k r)"
  shows "ok ds uuids c hash hold stuck F (update_terminal_status ds txid target k)"
proof -
  have "ok ds uuids c hash hold stuck F (terminal_status_attempts ds txid target n k)" for n
    by (induction n) (auto intro!: ok_update_status_call [OF sound F target] hl.store_peek [OF F] k split: sum.split option.split)
  then show ?thesis by (simp add: update_terminal_status_def)
qed

section \<open>Execution\<close>

lemma ok_refuse:
  "lasting F \<Longrightarrow> category \<in> set ERROR_CATEGORIES \<Longrightarrow>
   ok ds uuids c hash (set claims) stuck F (refuse claims hash request_id category message)"
  unfolding refuse_def by (rule hl.release) simp_all

lemma ok_approved_preview:
  assumes "lasting F" "\<And>p. ok ds uuids c hash (set claims) stuck F (k p)"
  shows "ok ds uuids c hash (set claims) stuck F (approved_preview ds txid (refuse claims hash request_id) k)"
  unfolding approved_preview_def using assms
  by (auto intro!: hl.store_peek ok_refuse split: sum.split option.split)

lemma ok_bind:
  assumes F: "lasting F" and k: "ok ds uuids c hash (set claims) stuck F k"
  shows "ok ds uuids c hash (set claims) stuck F (bind_autoremove ds txid n (refuse claims hash request_id) k)"
    "ok ds uuids c hash (set claims) stuck F (bind_deployment ds txid n params (refuse claims hash request_id) k)"
  unfolding bind_autoremove_def simulate_autoremove_set_def bind_deployment_def resolve_deployment_identity_def using F k
  by (auto intro!: ok_approved_preview hl.run_command ok_refuse split: command_result.split option.split sum.split)

text \<open>A rollback runs under the same slots as the action it undoes.\<close>

lemma ok_rollback:
  assumes F: "lasting F" and rb: "\<And>db rb. F db \<Longrightarrow> rollback_spec_for n = Some rb \<Longrightarrow> obligation ds c hold db (RunningAction rb)"
    and status: "status \<in> set terminal_states"
    and k: "\<And>final summary ref stuck'. final \<in> set terminal_states \<Longrightarrow> (ref \<noteq> None \<longleftrightarrow> final = RolledBack) \<Longrightarrow>
      (stuck \<Longrightarrow> stuck') \<Longrightarrow> ok ds uuids c hash hold stuck' F (k final summary ref)"
    and plain: "status \<noteq> RolledBack"
  shows "ok ds uuids c hash hold stuck F (attempt_rollback_if_needed job_id n spec status summary may_run k)"
proof -
  have stays: "ok ds uuids c hash hold stuck' F (k status summary' None)" if "stuck \<Longrightarrow> stuck'" for summary' stuck'
    using k [OF status] plain that by simp
  have failed: "ok ds uuids c hash hold stuck' F (k Failed summary' None)" if "stuck \<Longrightarrow> stuck'" for summary' stuck'
    using k [of Failed None] that by (simp add: terminal_states_def)
  have undone: "ok ds uuids c hash hold stuck' F (k RolledBack summary' (Some ref))" if "stuck \<Longrightarrow> stuck'" for summary' ref stuck'
    using k [of RolledBack "Some ref"] that by (simp add: terminal_states_def)
  show ?thesis
    unfolding attempt_rollback_if_needed_def
    by (auto intro!: ok_progress [OF F] hl.run_action [OF F] rb stays failed undone split: option.split)
qed

lemma initial_outcome_states:
  "fst (initial_outcome n spec output) \<in> set terminal_states" "fst (initial_outcome n spec output) \<noteq> RolledBack"
  by (auto simp: initial_outcome_def terminal_states_def split: sum.split)

lemma terminal_targets: "set terminal_states = job_targets"
  by (auto simp: terminal_states_def job_targets_def)

lemma job_state_str_inject [simp]: "job_state_str a = job_state_str b \<longleftrightarrow> a = b"
  by (cases a; cases b) simp_all

lemma completed_ok:
  assumes "final \<in> set terminal_states" "ref \<noteq> None \<longleftrightarrow> final = RolledBack"
  shows "job_result_ok job_id \<lparr>jr_status = job_state_str final, jr_summary = summary, jr_warnings = warnings,
     jr_job_id = job_id, jr_needs_reboot = (final = NeedsReboot), jr_rollback_ref = ref, jr_transaction_id = txid\<rparr>"
  using assms job_state_str_inject [of final NeedsReboot] job_state_str_inject [of final RolledBack]
  by (auto simp: job_result_ok_def simp del: job_state_str_inject)

lemma ok_finish_job:
  assumes sound: "sound_daemon ds key"
    and build: "build_action_spec n params = Inr spec"
  shows "ok ds uuids c hash (set (to_claim (ds_policy ds) n spec)) (not_stopped output) (approved_execution ds c txid n params)
    (finish_job ds txid job_id n spec (to_claim (ds_policy ds) n spec) hash output)"
proof -
  let ?A = "approved_execution ds c txid n params" and ?claims = "to_claim (ds_policy ds) n spec"
  have A: "lasting ?A" by simp
  let ?finish = "\<lambda>final summary ref. update_terminal_status ds txid final (\<lambda>r.
      let warnings = (case r of Inr _ \<Rightarrow> [] | Inl e \<Rightarrow> [''audit trail update failed: '' @ store_error_to_string e])
      in send_response (JobCompleted job_id
        \<lparr>jr_status = job_state_str final, jr_summary = summary, jr_warnings = warnings, jr_job_id = job_id,
         jr_needs_reboot = (final = NeedsReboot), jr_rollback_ref = ref, jr_transaction_id = txid\<rparr>))"
  have finish: "ok ds uuids c hash hold stuck ?A (?finish final summary ref)"
    if "final \<in> set terminal_states" "ref \<noteq> None \<longleftrightarrow> final = RolledBack" "hold = {} \<or> stuck" for hold stuck final summary ref
    using that completed_ok [OF that(1,2)]
    by (intro ok_terminal_status [OF sound A]) (auto simp: Let_def terminal_targets intro!: hl.answer, blast+)
  have after: "ok ds uuids c hash (set ?claims) stuck ?A
      (let finish = ?finish final summary ref in
        if not_stopped output then finish else release_exclusive_slots ?claims hash finish)"
    if "final \<in> set terminal_states" "ref \<noteq> None \<longleftrightarrow> final = RolledBack" "not_stopped output \<Longrightarrow> stuck" for stuck final summary ref
    using finish [OF that(1,2)] that(3) by (auto simp only: Let_def intro!: hl.release [OF A] split: if_split)
  have rb: "obligation ds c (set ?claims) db (RunningAction rb)" if "?A db" "rollback_spec_for n = Some rb" for db rb
    using that build by (auto simp: executed_def)
  show ?thesis
    unfolding finish_job_def
    apply (cases "initial_outcome n spec output")
    using initial_outcome_states [of n spec "output"]
    by (auto simp only: Let_def prod.case fst_conv intro!: ok_progress [OF A] ok_rollback [OF A rb] after [unfolded Let_def])
qed

lemma ok_run_job:
  assumes sound: "sound_daemon ds key" and build: "build_action_spec n params = Inr spec"
  shows "ok ds uuids c hash (set (to_claim (ds_policy ds) n spec)) False (approved_execution ds c txid n params)
    (run_job ds request_id txid n spec (to_claim (ds_policy ds) n spec) hash)"
proof -
  let ?A = "approved_execution ds c txid n params" and ?claims = "to_claim (ds_policy ds) n spec"
  have A: "lasting ?A" by simp
  have failed: "ok ds uuids c hash (set ?claims) False ?A
      (release_exclusive_slots ?claims hash (update_terminal_status ds txid Failed (\<lambda>_. Return (Inl e))))" for e
    by (rule hl.release [OF A], rule ok_terminal_status [OF sound A]) (auto simp: job_targets_def intro: hl.return)
  have run: "ok ds uuids c hash (set ?claims) False ?A (RunAction spec (\<lambda>(lines, output).
      progress_all job_id lines (finish_job ds txid job_id n spec ?claims hash output)))" for job_id
    by (rule hl.run_action [OF A])
      (use build in \<open>auto simp: executed_def intro!: ok_progress_all [OF A] ok_finish_job [OF sound build]\<close>)
  show ?thesis
    unfolding run_job_def
    by (auto intro!: hl.uuid [OF A] hl.send [OF A] ok_progress [OF A] run failed split: sum.split) blast
qed

lemma claim_event:
  assumes "claim_approved_for_execution st ck txid digest (ca_principal c) db = (Inr True, db')"
  shows "attested ApprovalConsumed txid c db'"
  using assms
  by (auto simp: claim_approved_for_execution_def attested_def append_event_def new_event_def Let_def case_prod_beta
      split: option.splits if_splits)

lemma ok_execute_claimed:
  assumes sound: "sound_daemon ds key" and build: "build_action_spec n params = Inr spec"
    and allowed: "action_allowed (ds_policy ds) (ca_role c) n" "validate_action_platform (ds_host_distro ds) n = Inr ()"
  shows "ok ds uuids c hash (set (to_claim (ds_policy ds) n spec)) False
      (owned_row c txid (\<lambda>row. cr_action_name row = n \<and> cr_request_hash row = request_hash_of ds n params))
    (execute_claimed ds c request_id txid n params spec (to_claim (ds_policy ds) n spec) hash receipt)"
proof -
  let ?own = "owned_row c txid (\<lambda>row. cr_action_name row = n \<and> cr_request_hash row = request_hash_of ds n params)"
    and ?A = "approved_execution ds c txid n params" and ?claims = "to_claim (ds_policy ds) n spec"
    and ?digest = "approval_receipt_digest (st_crypto (ds_audit ds)) receipt"
  let ?G = "\<lambda>r db. ?own db \<and> (r = Inr True \<longrightarrow> attested ApprovalConsumed txid c db)"
  have A: "?A db \<longleftrightarrow> ?own db \<and> attested ApprovalConsumed txid c db" for db
    using allowed by (simp add: approved_execution_def)
  have claimed: "ok ds uuids c hash (set ?claims) False (\<lambda>db. ?own db \<and> attested ApprovalConsumed txid c db)
      (bind_autoremove ds txid n (refuse ?claims hash request_id)
        (bind_deployment ds txid n params (refuse ?claims hash request_id)
          (run_job ds request_id txid n spec ?claims hash)))"
    unfolding A [symmetric] by (intro ok_bind ok_run_job [OF sound build] lasting_approved)
  have refused: "ok ds uuids c hash (set ?claims) False (?G r) (refuse ?claims hash request_id category m)"
    if "category \<in> set ERROR_CATEGORIES" for r category m
    using that by (intro ok_refuse lasting_facts)
  show ?thesis
    unfolding execute_claimed_def Let_def
    apply (rule hl.store_call [OF lasting_owned_row, where G = ?G])
    subgoal for env db
      using claim_event [of "ds_audit ds" "se_clock env" txid ?digest c db]
        grows_claim [of db "ds_audit ds" "se_clock env" txid ?digest "ca_principal c"]
        kept_claim [of ds uuids db "se_clock env" txid ?digest "ca_principal c"]
        lastingD [OF lasting_owned_row, of db _ c txid "\<lambda>row. cr_action_name row = n \<and> cr_request_hash row = request_hash_of ds n params"]
      by (cases "claim_approved_for_execution (ds_audit ds) (se_clock env) txid ?digest (ca_principal c) db") auto
    subgoal by simp
    subgoal for r
      using claimed refused [of _ r] by (cases "r = Inr True") (auto split: sum.split bool.split)
    done
qed

lemma ok_execute:
  assumes sound: "sound_daemon ds key" and F: "lasting F" and named: "\<And>db. F db \<Longrightarrow> named uuids txid db"
  shows "ok ds uuids c hash {} False F (handle_execute ds c request_id txid n params receipt)"
proof (cases "build_action_spec n params")
  case (Inl e)
  then show ?thesis by (simp add: handle_execute_def)
next
  case (Inr spec)
  let ?M = "\<lambda>db. F db \<and> mine uuids c txid db"
  have M: "lasting ?M" by (intro lasting_facts F)
  let ?gate = "\<lambda>h. exclusion_gate ds request_id n spec h
      (execute_claimed ds c request_id txid n params spec (to_claim (ds_policy ds) n spec) h receipt)"
  have gate: "ok ds uuids c hash {} False (\<lambda>db. ?M db \<and> previewed_row txid n (request_hash_of ds n params) db) (?gate h)"
    if "action_allowed (ds_policy ds) (ca_role c) n" "validate_action_platform (ds_host_distro ds) n = Inr ()" for h
  proof -
    have "ok ds uuids c h {} False (owned_row c txid (\<lambda>row. cr_action_name row = n \<and> cr_request_hash row = request_hash_of ds n params)) (?gate h)"
      by (rule hl.gate [OF lasting_owned_row _ ok_execute_claimed [OF sound Inr that]]) simp
    then have "ok ds uuids c hash {} False (owned_row c txid (\<lambda>row. cr_action_name row = n \<and> cr_request_hash row = request_hash_of ds n params)) (?gate h)"
      by (simp add: handler_logic.triple_def)
    then show ?thesis by (rule hl.weaken) (use owned_previewed [OF _ sound] in blast)
  qed
  have found: "ok ds uuids c hash {} False (\<lambda>db. ?M db \<and> previewed_row txid (tr_action_name t) (tr_request_hash t) db)
      (if tr_action_name t \<noteq> n \<or> tr_request_hash t \<noteq> request_hash_of ds n params then
         send_error request_id ''stale_approval'' ''action or parameters differ from the approved preview''
       else ?gate (tr_request_hash t))"
    if "action_allowed (ds_policy ds) (ca_role c) n" "validate_action_platform (ds_host_distro ds) n = Inr ()" for t
    using gate [OF that] by auto
  have lookup: "ok ds uuids c hash {} False ?M (store_read (\<lambda>_. get (ds_audit ds) txid) (\<lambda>r. case r of
        Inl e \<Rightarrow> send_error request_id ''transient_infrastructure_failure''
          (''transaction lookup failed: '' @ store_error_to_string e)
      | Inr None \<Rightarrow> send_error request_id ''stale_approval''
          ''no prior preview found for this transaction; preview before executing''
      | Inr (Some t) \<Rightarrow>
          if tr_action_name t \<noteq> n \<or> tr_request_hash t \<noteq> request_hash_of ds n params then
            send_error request_id ''stale_approval'' ''action or parameters differ from the approved preview''
          else ?gate (tr_request_hash t)))"
    if "action_allowed (ds_policy ds) (ca_role c) n" "validate_action_platform (ds_host_distro ds) n = Inr ()"
    by (rule ok_get [OF M]) (simp_all only: sum.case option.case ok_err error_categories found [OF that])
  show ?thesis
    unfolding handle_execute_def Inr sum.case authorize_action_def Let_def request_hash_of_def [symmetric]
  proof (rule ok_ownership [OF F named], blast)
    show "ok ds uuids c hash {} False ?M
       (if \<not> action_allowed (ds_policy ds) (ca_role c) n then send_error request_id ''authorization_failure''
           (authorization_failure_message (ds_policy ds) (ca_role c) n)
        else case validate_action_platform (ds_host_distro ds) n of
          Inl message \<Rightarrow> send_error request_id ''unsupported_platform'' message
        | Inr _ \<Rightarrow> store_read (\<lambda>_. get (ds_audit ds) txid) (\<lambda>r. case r of
            Inl e \<Rightarrow> send_error request_id ''transient_infrastructure_failure''
              (''transaction lookup failed: '' @ store_error_to_string e)
          | Inr None \<Rightarrow> send_error request_id ''stale_approval''
              ''no prior preview found for this transaction; preview before executing''
          | Inr (Some t) \<Rightarrow>
              if tr_action_name t \<noteq> n \<or> tr_request_hash t \<noteq> request_hash_of ds n params then
                send_error request_id ''stale_approval'' ''action or parameters differ from the approved preview''
              else ?gate (tr_request_hash t)))"
      (is "ok _ _ _ _ _ _ _ (if _ then ?denied else case _ of Inl m \<Rightarrow> ?fenced m | Inr _ \<Rightarrow> ?lookup)")
    proof (cases "action_allowed (ds_policy ds) (ca_role c) n")
      case True
      show ?thesis
      proof (cases "validate_action_platform (ds_host_distro ds) n")
        case (Inr u)
        then have "validate_action_platform (ds_host_distro ds) n = Inr ()" by simp
        from lookup [OF True this] show ?thesis by (simp only: True Inr sum.case not_True_eq_False if_False)
      qed (simp add: True)
    qed simp
  qed
qed

end
