(* ===== verification/Sk_Service.thy ===== *)
theory Sk_Service
  imports Sk_Rely Sk_Daemon
begin

text \<open>
  The daemon as a whole: its handlers meet the contract of \<open>Sk_Rely\<close>, and what follows for every state that
  any interleaving of connections, sweeps and restarts reaches.
\<close>

section \<open>The handlers meet the contract\<close>

lemma ok_safe:
  assumes "ok ds uuids c [] {} False F h" "F (sh_db s)" "kept ds uuids (sh_db s)"
  shows "safe uuids (kept ds uuids) (obligation ds c) h {} False s"
  using assms by (simp add: handler_logic.triple_def)

lemma serve_ok:
  assumes sound: "sound_daemon ds key" and kept: "kept ds uuids (sh_db s)" and u: "unguessed uuids (sh_db s) req"
  shows "safe uuids (kept ds uuids) (obligation ds c) (serve ds c req) {} False s"
proof (cases req)
  case (QueryState i)
  then show ?thesis using ok_safe [OF ok_query_state _ kept] by simp
next
  case (Preview i n p a)
  then show ?thesis using ok_safe [OF ok_preview _ kept] by simp
next
  case (Approve i txid)
  with u show ?thesis
    using ok_safe [OF ok_approve [OF sound lasting_named] _ kept] by (simp add: unguessed_def)
next
  case (ApprovalDetails i txid)
  with u show ?thesis
    using ok_safe [OF ok_approval_details [OF sound lasting_named] _ kept] by (simp add: unguessed_def)
next
  case (Execute i txid n p r)
  with u show ?thesis
    using ok_safe [OF ok_execute [OF sound lasting_named] _ kept] by (simp add: unguessed_def)
next
  case (Cancel i txid)
  with u show ?thesis
    using ok_safe [OF ok_cancel [OF sound lasting_named] _ kept] by (simp add: unguessed_def)
next
  case (QueryAction i n p)
  then show ?thesis using ok_safe [OF ok_query_action _ kept] by simp
next
  case (QueryHistory i l s a h t)
  then show ?thesis using ok_safe [OF ok_query_history _ kept] by simp
next
  case (Describe i n p)
  then show ?thesis using ok_safe [OF ok_describe _ kept] by simp
qed

interpretation dc: daemon_contract ds uuids "serve ds" "kept ds uuids" "obligation ds" "sound_daemon ds key"
  for ds :: "('sk, 'vk) daemon_state" and uuids :: "string set" and key :: "'sk audit_key"
proof unfold_locales
  show "kept ds uuids empty_db" by (rule kept_empty)
  show "kept ds uuids (snd (cleanup_stale_queued (ds_audit ds) ck db))" if "sound_daemon ds key" "kept ds uuids db" for ck db
    using that(2) by (rule kept_cleanup)
  show "kept ds uuids db' \<and> grows db db'"
    if "sound_daemon ds key" "kept ds uuids db" "reconcile_at_start ds env envs fuel db = Some (r, db')"
    for db env envs fuel r db'
    using kept_restart that by blast
  show "obligation ds c hold db' eff" if "obligation ds c hold db eff" "grows db db'" for c hold db eff db'
    using that by (rule obligation_stable)
  show "safe uuids (kept ds uuids) (obligation ds c) (serve ds c req) {} False s"
    if "sound_daemon ds key" "kept ds uuids (sh_db s)" "unguessed uuids (sh_db s) req" for s req c
    using that by (rule serve_ok)
  show "safe uuids (kept ds uuids) (obligation ds c) (unknown_message e) {} False s" for c e s
    by (simp add: unknown_message_def)
qed

section \<open>What runs\<close>

text \<open>C5: Nothing runs unasked. Whatever the clients send and however the connections interleave, an action that
  the daemon ran for a caller is either a read-only query under the policy in force, or an execution
  (or its automatic rollback) that the caller's role allows on this host, for a transaction of the caller
  that previewed the very same request and whose one-time approval the caller spent.\<close>

theorem executions_are_authorised:
  assumes "sound_daemon ds key" "daemon_reach ds uuids (serve ds) d" "(c, Ran spec outcome) \<in> set (dm_log d)"
  shows "(\<exists>n params. build_action_spec n params = Inr spec \<and> policy_min_role (ds_policy ds) n = Some Observer
      \<and> n \<notin> set OBSERVER_MUTATING_ACTIONS \<and> validate_action_platform (ds_host_distro ds) n = Inr ())
    \<or> (\<exists>n params txid base. build_action_spec n params = Inr base
      \<and> (spec = base \<or> rollback_spec_for n = Some spec)
      \<and> action_allowed (ds_policy ds) (ca_role c) n
      \<and> validate_action_platform (ds_host_distro ds) n = Inr ()
      \<and> owned_row c txid (\<lambda>row. cr_action_name row = n \<and> cr_request_hash row = request_hash_of ds n params)
          (sh_db (dm_shared d))
      \<and> attested ApprovalConsumed txid c (sh_db (dm_shared d)))"
  using dc.reachable_event [OF assms] unfolding fulfilled_def event.case obligation.simps
    queried_def executed_def approved_execution_def by blast

section \<open>Mutual exclusion\<close>

lemma spec_of_name:
  assumes "build_action_spec n params = Inr base"
  shows "as_action_name base = n" "\<exists>t \<in> set all_specs. as_action_name t = n \<and> meta_of t = meta_of base"
  using build_action_spec_entry [OF assms] match.built_described by blast+

lemma rollback_meta:
  "list_all (\<lambda>t. rollback_spec_for (as_action_name t) \<noteq> None \<longrightarrow>
     sm_risk_level (meta_of t) = High \<and> sm_reboot_required (meta_of t)) all_specs"
  by (simp add: catalogue_entries rollback_spec_for_def)

lemma rollback_names:
  "rollback_spec_for n \<noteq> None \<Longrightarrow>
   n \<in> set OSTREE_ACTIONS \<and> n \<in> set (map fst deployment_builders) \<or> n \<in> set (map fst layering_builders)"
  by (auto simp: rollback_spec_for_def OSTREE_ACTIONS_def deployment_builders_def layering_builders_def split: if_splits)

lemma rollback_base:
  assumes "build_action_spec n params = Inr base" "rollback_spec_for n = Some rb"
  shows "exclusive_resource_of base = Some RpmOstree \<and> is_high_risk_reboot base
    \<and> exclusive_resource_of rb = Some RpmOstree"
proof -
  have sub: "set deployment_builders \<subseteq> set action_builders" "set layering_builders \<subseteq> set action_builders"
    by (simp_all add: action_builders_def subset_iff)
  have "exclusive_resource_of base = Some RpmOstree"
    using rollback_names [of n] assms(2) locked_spec [OF deployment_locked sub(1) _ _ assms(1)]
      locked_spec [OF layering_locked [of "[n]"] sub(2) _ _ assms(1)] by auto
  moreover have "is_high_risk_reboot base"
    using spec_of_name(2) [OF assms(1)] rollback_meta assms(2)
    by (auto simp: list_all_iff meta_of_def is_high_risk_reboot_def)
  moreover have "exclusive_resource_of rb = Some RpmOstree"
    using assms(2) by (auto simp: rollback_spec_for_def lock_of_command lock_words split: if_splits)
  ultimately show ?thesis by blast
qed

text \<open>An action with more than the lowest risk, or one that the operator keeps from observers. The risk is the one
  the specification was built with, whatever the policy says. \<^verbatim>\<open>AptUpdate\<close> has the lowest risk.\<close>

definition above_observer :: "('sk, 'vk) daemon_state \<Rightarrow> action_spec \<Rightarrow> bool" where
  "above_observer ds spec \<longleftrightarrow>
     as_risk_level spec \<noteq> Low \<or> policy_min_role (ds_policy ds) (as_action_name spec) \<noteq> Some Observer"

lemma above_observer_role:
  assumes "from_overrides raw = Inr (ds_policy ds)" "build_action_spec n params = Inr spec" "above_observer ds spec"
  shows "policy_min_role (ds_policy ds) n \<noteq> Some Observer"
proof (cases "as_risk_level spec = Low")
  case True
  with assms(3) spec_of_name(1) [OF assms(2)] show ?thesis by (simp add: above_observer_def)
next
  case False
  obtain role where role: "min_role_for_action n = Some role" "role \<noteq> Observer"
    using executed_role_is_risk_role [OF assms(2)] history_not_built assms(2) False
    by (cases "as_risk_level spec") auto
  have "r \<noteq> Observer" if "role \<le> r" for r
    using that role(2) by (cases r; cases role) (simp_all add: less_eq_caller_role_def)
  with from_overrides_only_raises [OF assms(1)] role show ?thesis
    by (auto simp: policy_min_role_def only_raises_def split: option.splits)
qed

lemma mutatingI: "policy_min_role policy n \<noteq> Some Observer \<Longrightarrow> is_mutating policy n spec"
proof -
  have "r > Observer" if "r \<noteq> Observer" for r
    using that by (cases r) (simp_all add: less_caller_role_def)
  then show "policy_min_role policy n \<noteq> Some Observer \<Longrightarrow> is_mutating policy n spec"
    by (auto simp: is_mutating_def split: option.splits)
qed

lemma claim_covers:
  "is_mutating policy n base \<Longrightarrow> set_option (exclusive_resource_of base) \<subseteq> set (to_claim policy n base)
     \<and> (is_high_risk_reboot base \<longrightarrow> System \<in> set (to_claim policy n base))"
  by (cases "exclusive_resource_of base") (simp_all add: to_claim_def Let_def)

lemma claims_of_change:
  assumes policy: "from_overrides raw = Inr (ds_policy ds)"
    and ob: "obligation ds c hold db (RunningAction spec)" and change: "above_observer ds spec"
  shows "set_option (exclusive_resource_of spec) \<subseteq> hold" "is_high_risk_reboot spec \<Longrightarrow> System \<in> hold"
proof -
  have "\<not> queried ds spec" using above_observer_role [OF policy _ change] by (auto simp: queried_def)
  then obtain n params base where e: "build_action_spec n params = Inr base"
      "spec = base \<or> rollback_spec_for n = Some spec" "hold = set (to_claim (ds_policy ds) n base)"
    using ob by (auto simp: executed_def)
  have "set_option (exclusive_resource_of spec) \<subseteq> hold \<and> (is_high_risk_reboot spec \<longrightarrow> System \<in> hold)"
  proof (cases "spec = base")
    case True
    then have "is_mutating (ds_policy ds) n base"
      using above_observer_role [OF policy e(1)] change by (auto intro: mutatingI)
    from claim_covers [OF this] True e(3) show ?thesis by simp
  next
    case False
    with e(2) rollback_base [OF e(1)] have "is_high_risk_reboot base" "exclusive_resource_of base = Some RpmOstree"
      "exclusive_resource_of spec = Some RpmOstree" by blast+
    with e(3) claim_covers [of "ds_policy ds" n base] show ?thesis by (simp add: is_mutating_def)
  qed
  then show "set_option (exclusive_resource_of spec) \<subseteq> hold" "is_high_risk_reboot spec \<Longrightarrow> System \<in> hold" by simp_all
qed


section \<open>What is answered\<close>

text \<open>The shape of a response: a category that clients know, a job's outcome whose flags agree with its
  status, one of the three risks.\<close>

fun well_formed_response :: "daemon_response \<Rightarrow> bool" where
  "well_formed_response (ErrorResponse _ category _) \<longleftrightarrow>
     category \<in> set [''validation_failure'', ''authorization_failure'', ''transient_infrastructure_failure'',
       ''stale_approval'', ''integrity_failure'', ''not_cancelable'', ''state_collection_failed'',
       ''execution_failure'', ''unsupported_platform'']"
| "well_formed_response (JobCompleted job_id res) \<longleftrightarrow>
     jr_job_id res = job_id
     \<and> jr_status res \<in> set [''succeeded'', ''failed'', ''rolled_back'', ''needs_reboot'']
     \<and> (jr_needs_reboot res \<longleftrightarrow> jr_status res = ''needs_reboot'')
     \<and> (jr_rollback_ref res \<noteq> None \<longleftrightarrow> jr_status res = ''rolled_back'')"
| "well_formed_response (DescribeResponse _ _ risk _) \<longleftrightarrow> risk \<in> set [''low'', ''medium'', ''high'']"
| "well_formed_response _ \<longleftrightarrow> True"

lemma response_well_formed: "response_ok ds c db r \<Longrightarrow> well_formed_response r"
  by (cases r) (auto simp: ERROR_CATEGORIES_def job_result_ok_def terminal_states_def)

text \<open>C10: Every frame the daemon sends is well formed: an error carries one of the nine categories that clients
  match on; a completed job carries the job it was started for, a terminal status, \<^verbatim>\<open>needs_reboot\<close> exactly when
  the status says so and a rollback reference exactly when the job was rolled back; a description
  carries one of the three risk levels.\<close>

theorem responses_are_well_formed:
  assumes "sound_daemon ds key" "daemon_reach ds uuids (serve ds) d" "(c, Sent r sent) \<in> set (dm_log d)"
  shows "well_formed_response r"
  using dc.reachable_event [OF assms] response_well_formed by (auto simp: fulfilled_def)

text \<open>C9: A transaction answers to the one who previewed it. Whoever gets the receipt of an approval, the details
  of a preview, the confirmation of a cancellation or the start of a job, has the transaction signed in
  its own name and the role its action needs; and the approval or the cancellation is on the audit log by
  the time the answer is sent.\<close>

theorem answers_go_to_the_owner:
  assumes "sound_daemon ds key" "daemon_reach ds uuids (serve ds) d"
    and "(c, Sent r sent) \<in> set (dm_log d)"
    and "r = ApprovalResponse i txid receipt \<or> r = ApprovalDetailsResponse i txid n preview
      \<or> r = CancelResponse i txid \<or> r = JobStarted i job txid"
  shows "owned_row c txid (\<lambda>row. action_allowed (ds_policy ds) (ca_role c) (cr_action_name row)) (sh_db (dm_shared d))
    \<and> (r = ApprovalResponse i txid receipt \<longrightarrow> attested ApprovalGranted txid c (sh_db (dm_shared d)))
    \<and> (r = CancelResponse i txid \<longrightarrow> noted StatusCanceled txid (sh_db (dm_shared d)))
    \<and> (r = JobStarted i job txid \<longrightarrow> attested ApprovalConsumed txid c (sh_db (dm_shared d)))"
proof -
  have "response_ok ds c (sh_db (dm_shared d)) r"
    using dc.reachable_event [OF assms(1-3)] by (auto simp: fulfilled_def)
  with assms(4) show ?thesis
    by (elim disjE) (auto simp: approved_execution_def elim: owned_row_mono)
qed

section \<open>The store under the daemon\<close>

text \<open>C8: The daemon only ever runs whole store operations: whatever its handlers interleave, and although an
  approval and a status change read before the transaction that commits them, the database of every state the
  daemon reaches is one that a sequence of undivided operations (record, update, approve, revoke, claim,
  clean up, cancel: each from its first read to its commit, with nothing between) reaches from the empty
  database, with no other targets than the four final statuses of a job; and every transaction in it has
  an identifier that the daemon drew.\<close>

theorem daemon_refines_store:
  assumes "sound_daemon ds key" "daemon_reach ds uuids (serve ds) d"
  shows "whole_reach (ds_audit ds) {Succeeded, Failed, RolledBack, NeedsReboot} (sh_db (dm_shared d))
    \<and> tx_id ` set (db_transactions (sh_db (dm_shared d))) \<subseteq> uuids"
  using dc.reachable_ok [OF assms] by (simp add: daemon_ok_def kept_def job_targets_def)

section \<open>Every request is served\<close>

lemma work_finishes: "\<exists>d'. (work uuids)\<^sup>*\<^sup>* d d' \<and> (\<nexists>d''. work uuids d' d'')"
proof (rule ccontr)
  assume never: "\<nexists>d'. (work uuids)\<^sup>*\<^sup>* d d' \<and> (\<nexists>d''. work uuids d' d'')"
  define next_of where "next_of e = (SOME e'. work uuids e e')" for e
  let ?f = "\<lambda>i. (next_of ^^ i) d"
  have "(work uuids)\<^sup>*\<^sup>* d (?f i) \<and> work uuids (?f i) (?f (Suc i))" for i
  proof (induction i)
    case 0
    then show ?case using never by (auto simp: next_of_def intro: someI)
  next
    case (Suc i)
    then have "(work uuids)\<^sup>*\<^sup>* d (?f (Suc i))" by (meson rtranclp.rtrancl_into_rtrancl)
    moreover from this never have "work uuids (?f (Suc i)) (next_of (?f (Suc i)))"
      unfolding next_of_def by (meson someI)
    ultimately show ?case by simp
  qed
  then show False using work_ends [of uuids ?f] by blast
qed

text \<open>C7: Every request is served and gives back what it took. From any state the daemon reaches, serving what
  was received cannot go on forever, whatever the environment answers; when nothing is left to do, every
  connection is idle again and, unless an action could not be stopped, every exclusive resource is free.\<close>

theorem requests_are_served:
  assumes "sound_daemon ds key" "daemon_reach ds uuids (serve ds) d" "uuids \<noteq> {}"
  shows "(\<nexists>f. f 0 = d \<and> (\<forall>i. work uuids (f i) (f (Suc i))))
    \<and> (\<exists>d'. (work uuids)\<^sup>*\<^sup>* d d' \<and> (\<nexists>d''. work uuids d' d''))
    \<and> (\<forall>d'. (work uuids)\<^sup>*\<^sup>* d d' \<and> (\<nexists>d''. work uuids d' d'') \<longrightarrow>
         (\<forall>c \<in> set (dm_conns d'). cn_handler c = None)
         \<and> (unstopped_in (dm_log d') \<or> sh_slots (dm_shared d') = Map.empty))"
proof (intro conjI allI impI)
  show "\<nexists>f. f 0 = d \<and> (\<forall>i. work uuids (f i) (f (Suc i)))" using work_ends by blast
  show "\<exists>d'. (work uuids)\<^sup>*\<^sup>* d d' \<and> (\<nexists>d''. work uuids d' d'')" by (rule work_finishes)
  fix d' assume d': "(work uuids)\<^sup>*\<^sup>* d d' \<and> (\<nexists>d''. work uuids d' d'')"
  then show idle: "\<forall>c \<in> set (dm_conns d'). cn_handler c = None" using work_stops_idle assms(3) by blast
  have "daemon_reach ds uuids (serve ds) d'" using d' work_reach assms(2) by blast
  from dc.idle_slots_free [OF assms(1) this idle]
  show "unstopped_in (dm_log d') \<or> sh_slots (dm_shared d') = Map.empty" by blast
qed

end
