(* ===== verification/Sk_Scenario.thy ===== *)
theory Sk_Scenario
  imports Sk_Service
begin

text \<open>
  Runs of the daemon from a script: the environment's answers to one handler, one after the other, and the
  steps of \<open>daemon_step\<close> they make. A client that previews, approves and executes an action
  reaches a daemon that runs it.
\<close>

section \<open>Scripts\<close>

datatype reply =
    Stores string
  | Locks
  | Delivers
  | Names string
  | Collects collected
  | Answers command_result
  | Runs execution

definition store_env_ref :: "string \<Rightarrow> store_env" where
  "store_env_ref uuid = \<lparr>se_clock = clock_ref, se_uuid = uuid, se_failure = None\<rparr>"

definition act_by :: "string set \<Rightarrow> reply \<Rightarrow> handler \<Rightarrow> shared \<Rightarrow> (event \<times> handler \<times> shared) option" where
  "act_by uuids m h s =
     (case h of
        Store f \<Rightarrow> (case m of Stores uuid \<Rightarrow>
          (if uuid \<in> uuids
           then (case f (store_env_ref uuid) (sh_db s) of (h', db) \<Rightarrow> Some (Quiet, h', s\<lparr>sh_db := db\<rparr>))
           else None) | _ \<Rightarrow> None)
      | Locked f \<Rightarrow> (case m of Locks \<Rightarrow>
          (case f (sh_slots s) of (h', slots) \<Rightarrow> Some (Quiet, h', s\<lparr>sh_slots := slots\<rparr>)) | _ \<Rightarrow> None)
      | Send r k \<Rightarrow> (case m of Delivers \<Rightarrow> Some (Sent r (Inr ()), k (Inr ()), s) | _ \<Rightarrow> None)
      | Uuid k \<Rightarrow> (case m of Names x \<Rightarrow> Some (Quiet, k x, s) | _ \<Rightarrow> None)
      | Collect k \<Rightarrow> (case m of Collects x \<Rightarrow> Some (Quiet, k x, s) | _ \<Rightarrow> None)
      | RunCommand p args k \<Rightarrow> (case m of Answers x \<Rightarrow> Some (Quiet, k x, s) | _ \<Rightarrow> None)
      | RunAction spec k \<Rightarrow> (case m of Runs x \<Rightarrow> Some (Ran spec x, k ([], x), s) | _ \<Rightarrow> None)
      | Return _ \<Rightarrow> None)"

fun solo :: "string set \<Rightarrow> reply list \<Rightarrow> handler \<Rightarrow> shared \<Rightarrow> (event list \<times> handler \<times> shared) option" where
  "solo uuids [] h s = Some ([], h, s)"
| "solo uuids (m # ms) h s =
     (case act_by uuids m h s of
        Some (ev, h', s') \<Rightarrow> map_option (\<lambda>(evs, r). (ev # evs, r)) (solo uuids ms h' s')
      | None \<Rightarrow> None)"

lemma act_store_ref:
  "uuid \<in> uuids \<Longrightarrow> f (store_env_ref uuid) (sh_db s) = (h, d) \<Longrightarrow> act uuids (Store f) s Quiet h (s\<lparr>sh_db := d\<rparr>)"
  by (rule act_store [of "store_env_ref uuid"]) (simp_all add: store_env_ref_def)

lemma act_by_act: "act_by uuids m h s = Some (ev, h', s') \<Longrightarrow> act uuids h s ev h' s'"
  by (cases h; cases m) (auto simp: act_by_def intro: act.intros(2-) act_store_ref split: if_splits prod.splits)

lemma solo_steps:
  assumes "solo uuids ms h s = Some (evs, h', s')" "dm_shared d = s" "dm_conns d = xs @ c # ys" "cn_handler c = Some h"
  shows "(daemon_step ds uuids srv)\<^sup>*\<^sup>* d (d\<lparr>dm_shared := s', dm_conns := xs @ c\<lparr>cn_handler := Some h'\<rparr> # ys,
    dm_log := dm_log d @ map (Pair (cn_caller c)) evs\<rparr>)"
  using assms
proof (induction ms arbitrary: h s evs d c)
  case Nil
  then have "d = d\<lparr>dm_shared := s', dm_conns := xs @ c\<lparr>cn_handler := Some h'\<rparr> # ys,
      dm_log := dm_log d @ map (Pair (cn_caller c)) evs\<rparr>" by (cases d; cases c) auto
  then show ?case by simp
next
  case (Cons m ms)
  from Cons.prems(1) obtain ev h1 s1 es where step: "act_by uuids m h s = Some (ev, h1, s1)"
      "solo uuids ms h1 s1 = Some (es, h', s')" "evs = ev # es"
    by (auto split: option.splits)
  let ?c = "c\<lparr>cn_handler := Some h1\<rparr>"
  let ?d = "d\<lparr>dm_shared := s1, dm_conns := xs @ ?c # ys, dm_log := dm_log d @ [(cn_caller c, ev)]\<rparr>"
  have "daemon_step ds uuids srv d ?d"
    using act_by_act [OF step(1)] Cons.prems(2-4) by (intro ds_act) simp_all
  also have "(daemon_step ds uuids srv)\<^sup>*\<^sup>* ?d (?d\<lparr>dm_shared := s', dm_conns := xs @ ?c\<lparr>cn_handler := Some h'\<rparr> # ys,
      dm_log := dm_log ?d @ map (Pair (cn_caller ?c)) es\<rparr>)"
    by (rule Cons.IH [OF step(2)]) simp_all
  finally show ?case by (simp add: step(3))
qed

text \<open>A request from the idle connection in the middle, and its handler's answers so far.\<close>

lemma request_steps:
  assumes "solo uuids ms (srv (cn_caller c) req) (dm_shared d) = Some (evs, h', s')"
    and "dm_conns d = xs @ c # ys" "cn_handler c = None" "unguessed uuids (sh_db (dm_shared d)) req"
  shows "(daemon_step ds uuids srv)\<^sup>*\<^sup>* d (d\<lparr>dm_shared := s',
    dm_conns := xs @ c\<lparr>cn_served := cn_served c + 1, cn_handler := Some h'\<rparr> # ys,
    dm_log := dm_log d @ map (Pair (cn_caller c)) evs\<rparr>)"
proof -
  let ?c = "c\<lparr>cn_served := cn_served c + 1, cn_handler := Some (srv (cn_caller c) req)\<rparr>"
  let ?d = "d\<lparr>dm_conns := xs @ ?c # ys\<rparr>"
  have "daemon_step ds uuids srv d ?d" using ds_request [OF assms(2-4)] by simp
  also have "(daemon_step ds uuids srv)\<^sup>*\<^sup>* ?d (?d\<lparr>dm_shared := s', dm_conns := xs @ ?c\<lparr>cn_handler := Some h'\<rparr> # ys,
      dm_log := dm_log ?d @ map (Pair (cn_caller ?c)) evs\<rparr>)"
    by (rule solo_steps [OF assms(1)]) simp_all
  finally show ?thesis by simp
qed

text \<open>A request that is served to its end.\<close>

lemma served_steps:
  assumes "solo uuids ms (srv (cn_caller c) req) (dm_shared d) = Some (evs, Return r, s')"
    and "dm_conns d = xs @ c # ys" "cn_handler c = None" "unguessed uuids (sh_db (dm_shared d)) req"
  shows "(daemon_step ds uuids srv)\<^sup>*\<^sup>* d (d\<lparr>dm_shared := s',
    dm_conns := xs @ c\<lparr>cn_served := cn_served c + 1\<rparr> # ys,
    dm_log := dm_log d @ map (Pair (cn_caller c)) evs\<rparr>)"
proof -
  let ?c = "c\<lparr>cn_served := cn_served c + 1, cn_handler := Some (Return r)\<rparr>"
  let ?d = "d\<lparr>dm_shared := s', dm_conns := xs @ ?c # ys, dm_log := dm_log d @ map (Pair (cn_caller c)) evs\<rparr>"
  have "(daemon_step ds uuids srv)\<^sup>*\<^sup>* d ?d" using request_steps [where srv = srv and req = req, OF assms] .
  moreover have "daemon_step ds uuids srv ?d (?d\<lparr>dm_conns := xs @ ?c\<lparr>cn_handler := None\<rparr> # ys\<rparr>)"
    by (rule ds_return) simp_all
  moreover have "?d\<lparr>dm_conns := xs @ ?c\<lparr>cn_handler := None\<rparr> # ys\<rparr> = d\<lparr>dm_shared := s',
      dm_conns := xs @ c\<lparr>cn_served := cn_served c + 1\<rparr> # ys, dm_log := dm_log d @ map (Pair (cn_caller c)) evs\<rparr>"
    using assms(3) by (cases d; cases c) simp
  ultimately show ?thesis by (metis rtranclp.rtrancl_into_rtrancl)
qed

section \<open>A host\<close>

definition daemon_ref :: "(unit, unit) daemon_state" where
  "daemon_ref = \<lparr>ds_audit = store_ref [], ds_request_hash_key = ''k'', ds_policy = \<lparr>pt_overrides = Map.empty\<rparr>,
     ds_host_distro = Some (Ubuntu 24 4), ds_json = json_fmt_ref, ds_json_parse = (\<lambda>_. Inl []),
     ds_rfc3339_parse = (\<lambda>_. Inl []), ds_rfc3339 = (\<lambda>_. [])\<rparr>"

lemma sound_ref: "sound_daemon daemon_ref key_ref"
  by (simp add: sound_daemon_def daemon_ref_def store_ref_def key_ref_def sig_nonempty_def hex_encode_ref.simps sign_ref_def)

text \<open>An action that \<open>c\<close> may run there.\<close>

definition runnable :: "caller_attribution \<Rightarrow> string \<Rightarrow> json \<Rightarrow> action_spec \<Rightarrow> bool" where
  "runnable c n params spec \<longleftrightarrow>
     build_action_spec n params = Inr spec \<and> action_allowed (ds_policy daemon_ref) (ca_role c) n
     \<and> validate_action_platform (ds_host_distro daemon_ref) n = Inr ()
     \<and> n \<noteq> ''AptAutoremove'' \<and> \<not> is_deployment_slot_action n \<and> ca_principal c \<noteq> Unattributed"

definition names_in :: "db \<Rightarrow> string set" where
  "names_in db = tx_id ` set (db_transactions db) \<union> fst ` set (db_previews db) \<union> ap_transaction_id ` set (db_approvals db)"

definition queued_row :: "caller_attribution \<Rightarrow> string \<Rightarrow> string \<Rightarrow> string \<Rightarrow> tx_row \<Rightarrow> bool" where
  "queued_row c txid n hash row \<longleftrightarrow>
     tx_id row = txid \<and> cr_action_name (tx_chain row) = n \<and> cr_request_hash (tx_chain row) = hash
     \<and> cr_caller_principal (tx_chain row) = Some (as_signed_str (ca_principal c))
     \<and> cr_approval_id (tx_chain row) = Some (approval_commitment (crypto_ref []) key_ref txid hash)
     \<and> cr_created_at (tx_chain row) = ck_text clock_ref 0 \<and> tx_status row = Queued"

abbreviation hash_ref :: "string \<Rightarrow> json \<Rightarrow> string" where
  "hash_ref n params \<equiv> request_hash_of daemon_ref n params"

lemma host_ref [simp]:
  "st_audit_key (ds_audit daemon_ref) = Some key_ref" "st_crypto (ds_audit daemon_ref) = crypto_ref []"
  "st_warnings_of_json (ds_audit daemon_ref) w = Some (split_char (CHR ''|'') w)"
  "compute_request_hash (ds_json daemon_ref) (crypto_ref []) (ds_request_hash_key daemon_ref) n params = hash_ref n params"
  by (simp_all add: daemon_ref_def store_ref_def key_ref_def request_hash_of_def)

lemma store_env_ref_simps [simp]:
  "se_clock (store_env_ref u) = clock_ref" "se_uuid (store_env_ref u) = u" "se_failure (store_env_ref u) = None"
  by (simp_all add: store_env_ref_def)

lemmas run_defs = act_by_def store_call_def store_read_def send_response_def

lemma find_appended: "txid \<notin> tx_id ` set (db_transactions db) \<Longrightarrow> tx_id row = txid \<Longrightarrow>
   find (\<lambda>r. tx_id r = txid) (db_transactions db @ [row]) = Some row"
proof -
  assume "txid \<notin> tx_id ` set (db_transactions db)" "tx_id row = txid"
  moreover from this have "find (\<lambda>r. tx_id r = txid) (db_transactions db) = None" by (auto simp: find_None_iff image_iff)
  ultimately show ?thesis by (simp add: find_append)
qed

lemma preview_run:
  assumes "runnable c n params spec" "txid \<in> uuids" "txid \<notin> names_in (sh_db s)"
  shows "\<exists>evs s' row. solo uuids [Collects (CollectedState JNull), Stores txid, Delivers]
        (handle_preview daemon_ref c ''p'' n params False) s = Some (evs, Return (Inr ()), s')
    \<and> sh_slots s' = sh_slots s \<and> names_in (sh_db s') \<subseteq> insert txid (names_in (sh_db s))
    \<and> find_tx txid (sh_db s') = Some row \<and> queued_row c txid n (hash_ref n params) row
    \<and> txid \<notin> ap_transaction_id ` set (db_approvals (sh_db s'))"
  using assms
  by (simp add: runnable_def handle_preview_def authorize_action_def capture_autoremove_def capture_deployment_def
      record_preview_def run_defs record_previewed_def record_with_def insert_transaction_def insert_preview_def
      names_in_def Let_def split: prod.split)
    (auto simp: find_tx_def find_appended queued_row_def)

lemma queued_row_alive: "queued_row c txid n hash row \<Longrightarrow> within_ttl (ds_audit daemon_ref) clock_ref row"
  by (simp add: queued_row_def within_ttl_def daemon_ref_def store_ref_def clock_ref_def)

lemma queued_read:
  assumes "find_tx txid db = Some row" "queued_row c txid n hash row"
  shows "get (ds_audit daemon_ref) txid db = Inr (Some \<lparr>tr_transaction_id = txid, tr_request_id = cr_request_id (tx_chain row),
      tr_request_hash = hash, tr_action_name = n, tr_risk_level = cr_risk_level (tx_chain row), tr_status = Queued,
      tr_approval_id = Some (approval_commitment (crypto_ref []) key_ref txid hash), tr_summary = cr_summary (tx_chain row),
      tr_warnings = split_char (CHR ''|'') (cr_warnings_json (tx_chain row))\<rparr>)"
    and "fetch_chain_row txid db = Some (tx_chain row)"
  using assms by (simp_all add: get_def row_to_record_def queued_row_def fetch_chain_row_def Let_def)

definition approved_in :: "string \<Rightarrow> string \<Rightarrow> db \<Rightarrow> bool" where
  "approved_in txid hash db \<longleftrightarrow>
     (\<exists>a \<in> set (db_approvals db). ap_transaction_id a = txid \<and> ap_consumed_at a = None
        \<and> ap_receipt_digest a = approval_receipt_digest (crypto_ref []) (approval_receipt (crypto_ref []) key_ref txid hash))"

lemma approve_commits:
  assumes "find_tx txid db = Some row" "queued_row c txid n hash row" "txid \<notin> ap_transaction_id ` set (db_approvals db)"
    and "digest = approval_receipt_digest (crypto_ref []) (approval_receipt (crypto_ref []) key_ref txid hash)"
  obtains db' where "approve_commit (ds_audit daemon_ref) key_ref clock_ref txid p receipt digest db = (Inr (Some receipt), db')"
    "db_transactions db' = db_transactions db" "names_in db' \<subseteq> insert txid (names_in db)" "approved_in txid hash db'"
proof -
  let ?P = "\<lambda>r. tx_id r = txid \<and> tx_status r = Queued \<and> within_ttl (ds_audit daemon_ref) clock_ref r
      \<and> (\<forall>a \<in> set (db_approvals db). ap_transaction_id a \<noteq> txid)"
  have "row \<in> set (filter ?P (db_transactions db))"
    using queued_row_alive [OF assms(2)] assms(2,3) find_tx_Some [OF assms(1)] by (auto simp: queued_row_def image_iff)
  then have selected: "filter ?P (db_transactions db) \<noteq> []" by force
  let ?aps = "map (\<lambda>r. \<lparr>ap_transaction_id = tx_id r, ap_receipt_digest = digest, ap_approved_at = ck_datetime clock_ref,
      ap_consumed_at = None\<rparr>) (filter ?P (db_transactions db))"
  let ?db = "db\<lparr>db_approvals := db_approvals db @ ?aps\<rparr>"
  let ?new = "\<lparr>ap_transaction_id = txid, ap_receipt_digest = digest, ap_approved_at = ck_datetime clock_ref, ap_consumed_at = None\<rparr>"
  have "?new \<in> set ?aps"
    unfolding set_map by (rule rev_image_eqI [OF \<open>row \<in> _\<close>]) (use assms(2) in \<open>simp add: queued_row_def\<close>)
  then have "?new \<in> set (db_approvals ?db)" by (simp del: set_map set_filter)
  then have "approved_in txid hash ?db" unfolding approved_in_def by (rule bexI [rotated]) (simp add: assms(4))
  moreover have "names_in ?db \<subseteq> insert txid (names_in db)" unfolding names_in_def by auto
  ultimately show ?thesis using selected that
    unfolding approve_commit_def Let_def if_not_P [OF selected] by (simp add: names_in_def approved_in_def)
qed

lemma approve_run:
  assumes "runnable c n params spec" "txid \<in> uuids" "find_tx txid (sh_db s) = Some row"
    and "queued_row c txid n hash row" "txid \<notin> ap_transaction_id ` set (db_approvals (sh_db s))"
  shows "\<exists>evs s'. solo uuids [Stores txid, Stores txid, Stores txid, Stores txid, Delivers]
        (handle_approve daemon_ref c ''a'' txid) s = Some (evs, Return (Inr ()), s')
    \<and> Sent (ApprovalResponse ''a'' txid (approval_receipt (crypto_ref []) key_ref txid hash)) (Inr ()) \<in> set evs
    \<and> sh_slots s' = sh_slots s \<and> names_in (sh_db s') \<subseteq> insert txid (names_in (sh_db s))
    \<and> find_tx txid (sh_db s') = Some row \<and> approved_in txid hash (sh_db s')"
proof -
  let ?receipt = "approval_receipt (crypto_ref []) key_ref txid hash"
  obtain db' where db': "approve_commit (ds_audit daemon_ref) key_ref clock_ref txid (ca_principal c) ?receipt
        (approval_receipt_digest (crypto_ref []) ?receipt) (sh_db s) = (Inr (Some ?receipt), db')"
      "db_transactions db' = db_transactions (sh_db s)" "names_in db' \<subseteq> insert txid (names_in (sh_db s))" "approved_in txid hash db'"
    by (rule approve_commits [OF assms(3-5) refl])
  have owner: "cr_caller_principal (tx_chain row) = Some (as_signed_str (ca_principal c))"
    using assms(4) by (simp add: queued_row_def)
  have "find_tx txid db' = Some row" using assms(3) db'(2) by (simp add: find_tx_def)
  with assms(1,2) queued_read [OF assms(3,4)] owner db'(1,3,4) show ?thesis
    by (simp add: runnable_def handle_approve_def authorize_for_transaction_def require_ownership_def
        caller_owns_transaction_def approve_transaction_call_def approve_read_def
        authorize_action_def run_defs approval_commitment_def Let_def)
qed

lemma claim_commits:
  assumes "find_tx txid db = Some row" "queued_row c txid n hash row" "approved_in txid hash db"
    and "digest = approval_receipt_digest (crypto_ref []) (approval_receipt (crypto_ref []) key_ref txid hash)"
  obtains db' where "claim_approved_for_execution (ds_audit daemon_ref) clock_ref txid digest p db = (Inr True, db')"
    "names_in db' \<subseteq> names_in db"
proof -
  let ?P = "\<lambda>r. tx_id r = txid \<and> tx_status r = Queued \<and> within_ttl (ds_audit daemon_ref) clock_ref r
      \<and> (\<exists>a \<in> set (db_approvals db). ap_transaction_id a = txid \<and> ap_receipt_digest a = digest \<and> ap_consumed_at a = None)"
  have "row \<in> set (filter ?P (db_transactions db))"
    using queued_row_alive [OF assms(2)] assms(2-4) find_tx_Some [OF assms(1)]
    by (auto simp: queued_row_def approved_in_def)
  then have "length (filter ?P (db_transactions db)) > 0" by force
  moreover have "names_in (snd (update_status_where ?P Running db)) = names_in db"
    unfolding names_in_def update_status_where_def by (force simp: image_iff)
  ultimately show ?thesis
    by (intro that [of "snd (claim_approved_for_execution (ds_audit daemon_ref) clock_ref txid digest p db)"])
      (auto simp: claim_approved_for_execution_def update_status_where_def consume_approvals_def names_in_def Let_def)
qed

lemma execute_run:
  assumes "runnable c n params spec" "txid \<in> uuids" "find_tx txid (sh_db s) = Some row"
    and "queued_row c txid n (hash_ref n params) row" "approved_in txid (hash_ref n params) (sh_db s)"
    and "is_mutating (ds_policy daemon_ref) n spec" "blocking spec (sh_slots s) = None"
    and "receipt = approval_receipt (crypto_ref []) key_ref txid (hash_ref n params)"
  shows "\<exists>evs s' k. solo uuids [Stores txid, Stores txid, Locks, Stores txid, Names job_id, Delivers, Delivers, Delivers]
        (handle_execute daemon_ref c ''e'' txid n params receipt) s = Some (evs, RunAction spec k, s')
    \<and> Sent (JobStarted ''e'' job_id txid) (Inr ()) \<in> set evs
    \<and> k = (\<lambda>(lines, outcome). progress_all job_id lines (finish_job daemon_ref txid job_id n spec
        (to_claim (ds_policy daemon_ref) n spec) (hash_ref n params) outcome))
    \<and> sh_slots s' = claim_slots (to_claim (ds_policy daemon_ref) n spec) (hash_ref n params) (sh_slots s)
    \<and> names_in (sh_db s') \<subseteq> names_in (sh_db s)"
proof -
  obtain db' where db': "claim_approved_for_execution (ds_audit daemon_ref) clock_ref txid
        (approval_receipt_digest (crypto_ref []) receipt) (ca_principal c) (sh_db s) = (Inr True, db')"
      "names_in db' \<subseteq> names_in (sh_db s)"
    by (rule claim_commits [OF assms(3-5)]) (simp_all add: assms(8))
  have owner: "cr_caller_principal (tx_chain row) = Some (as_signed_str (ca_principal c))"
    using assms(4) by (simp add: queued_row_def)
  from assms(1,2,6,7) queued_read [OF assms(3,4)] owner db' show ?thesis
    by (simp add: runnable_def handle_execute_def require_ownership_def caller_owns_transaction_def exclusion_gate_def
        execute_claimed_def bind_autoremove_def bind_deployment_def run_job_def progress_def
        authorize_action_def run_defs Let_def)
qed

section \<open>From preview to running\<close>

lemma job_starts:
  fixes d :: daemon
  assumes conns: "dm_conns d = xs @ conn # ys" "cn_handler conn = None" and run: "runnable (cn_caller conn) n params spec"
    and txid: "txid \<in> uuids" "txid \<notin> names_in (sh_db (dm_shared d))"
    and free: "is_mutating (ds_policy daemon_ref) n spec" "blocking spec (sh_slots (dm_shared d)) = None"
  obtains d' k receipt where "(daemon_step daemon_ref uuids (serve daemon_ref))\<^sup>*\<^sup>* d d'"
    "dm_conns d' = xs @ conn\<lparr>cn_served := cn_served conn + 3, cn_handler := Some (RunAction spec k)\<rparr> # ys"
    "(cn_caller conn, Sent (ApprovalResponse ''a'' txid receipt) (Inr ())) \<in> set (dm_log d')"
    "set (dm_log d) \<subseteq> set (dm_log d')"
    "sh_slots (dm_shared d') = claim_slots (to_claim (ds_policy daemon_ref) n spec) (hash_ref n params) (sh_slots (dm_shared d))"
    "names_in (sh_db (dm_shared d')) \<subseteq> insert txid (names_in (sh_db (dm_shared d)))"
proof -
  let ?c = "cn_caller conn" and ?step = "daemon_step daemon_ref uuids (serve daemon_ref)"
  let ?receipt = "approval_receipt (crypto_ref []) key_ref txid (hash_ref n params)"
  obtain evs1 s1 row where p: "solo uuids [Collects (CollectedState JNull), Stores txid, Delivers]
        (serve daemon_ref ?c (Preview ''p'' n params False)) (dm_shared d) = Some (evs1, Return (Inr ()), s1)"
      "sh_slots s1 = sh_slots (dm_shared d)" "names_in (sh_db s1) \<subseteq> insert txid (names_in (sh_db (dm_shared d)))"
      "find_tx txid (sh_db s1) = Some row" "queued_row ?c txid n (hash_ref n params) row"
      "txid \<notin> ap_transaction_id ` set (db_approvals (sh_db s1))"
    unfolding serve.simps using preview_run [OF run txid] by blast
  obtain evs2 s2 where a: "solo uuids [Stores txid, Stores txid, Stores txid, Stores txid, Delivers]
        (serve daemon_ref ?c (Approve ''a'' txid)) s1 = Some (evs2, Return (Inr ()), s2)"
      "Sent (ApprovalResponse ''a'' txid ?receipt) (Inr ()) \<in> set evs2" "sh_slots s2 = sh_slots s1"
      "names_in (sh_db s2) \<subseteq> insert txid (names_in (sh_db s1))" "find_tx txid (sh_db s2) = Some row"
      "approved_in txid (hash_ref n params) (sh_db s2)"
    unfolding serve.simps using approve_run [OF run txid(1) p(4-6)] by blast
  obtain evs3 s3 k where e: "solo uuids [Stores txid, Stores txid, Locks, Stores txid, Names ''j'', Delivers, Delivers, Delivers]
        (serve daemon_ref ?c (Execute ''e'' txid n params ?receipt)) s2 = Some (evs3, RunAction spec k, s3)"
      "sh_slots s3 = claim_slots (to_claim (ds_policy daemon_ref) n spec) (hash_ref n params) (sh_slots s2)"
      "names_in (sh_db s3) \<subseteq> names_in (sh_db s2)"
    unfolding serve.simps using execute_run [OF run txid(1) a(5) p(5) a(6) free(1) _ refl, of "''j''"] free(2) a(3) p(2) by auto
  let ?at = "\<lambda>served h. xs @ conn\<lparr>cn_served := served, cn_handler := h\<rparr> # ys"
  let ?d1 = "\<lparr>dm_shared = s1, dm_conns = ?at (cn_served conn + 1) None, dm_log = dm_log d @ map (Pair ?c) evs1\<rparr>"
  let ?d2 = "\<lparr>dm_shared = s2, dm_conns = ?at (cn_served conn + 2) None, dm_log = dm_log ?d1 @ map (Pair ?c) evs2\<rparr>"
  let ?d3 = "\<lparr>dm_shared = s3, dm_conns = ?at (cn_served conn + 3) (Some (RunAction spec k)), dm_log = dm_log ?d2 @ map (Pair ?c) evs3\<rparr>"
  have same: "conn\<lparr>cn_served := m, cn_handler := None\<rparr> = conn\<lparr>cn_served := m\<rparr>" for m using conns(2) by (cases conn) simp
  have "?step\<^sup>*\<^sup>* d ?d1"
    using served_steps [where srv = "serve daemon_ref" and req = "Preview ''p'' n params False" and ds = daemon_ref, OF p(1) conns]
    by (cases d) (simp add: unguessed_def same)
  moreover have "?step\<^sup>*\<^sup>* ?d1 ?d2"
    using served_steps [where srv = "serve daemon_ref" and req = "Approve ''a'' txid" and ds = daemon_ref and d = ?d1
      and c = "conn\<lparr>cn_served := cn_served conn + 1\<rparr>" and xs = xs and ys = ys, of uuids] a(1) p(4) conns(2)
    by (simp add: same unguessed_def del: solo.simps serve.simps)
  moreover have "?step\<^sup>*\<^sup>* ?d2 ?d3"
    using request_steps [where srv = "serve daemon_ref" and req = "Execute ''e'' txid n params ?receipt" and ds = daemon_ref and d = ?d2
      and c = "conn\<lparr>cn_served := cn_served conn + 2\<rparr>" and xs = xs and ys = ys, of uuids] e(1) a(5) conns(2)
    by (simp add: same unguessed_def numeral_3_eq_3 del: solo.simps serve.simps)
  ultimately have "?step\<^sup>*\<^sup>* d ?d3" by (meson rtranclp_trans)
  then show ?thesis
    by (rule that [of ?d3 k ?receipt]) (use p(2,3) a(2-4) e(2,3) in auto)
qed

end
