(* ===== verification/Sk_Day.thy ===== *)
theory Sk_Day
  imports Sk_Scenario
begin

text \<open>
  The daemon's theorems on a day of one host: two administrators, two package managers. Each of them
  previews, approves and executes an upgrade, so that both actions run at once, on different exclusive resources.
\<close>

lemma build_listed:
  "(n, build) \<in> set action_builders \<Longrightarrow> validate_action_params n params = Inr () \<Longrightarrow> build params = Inr spec \<Longrightarrow>
   build_action_spec n params = Inr spec"
  using action_names_distinct by (simp add: build_action_spec_def)

lemma build_upgrade: "build_action_spec ''AptUpgrade'' (JObj []) = Inr apt_upgrade"
  by (rule build_listed [of _ "\<lambda>params. Inr apt_upgrade"])
    (simp_all add: action_builders_def apt_builders_def validate_action_params_def allowed_action_params_def ACTION_PARAMS_def)

lemma build_refresh: "build_action_spec ''SnapRefresh'' (JObj []) = Inr (snap_refresh None)"
  by (rule build_listed [of _ "\<lambda>params. and_then (optional_validated params ''name'' validated_safe_arg) (\<lambda>name. Inr (snap_refresh name))"])
    (simp_all add: action_builders_def snap_builders_def validate_action_params_def allowed_action_params_def ACTION_PARAMS_def
      param_defs get_param_def)

lemma upgrade_platform: "validate_action_platform (Some (Ubuntu 24 4)) ''AptUpgrade'' = Inr ()"
  by code_simp

lemma refresh_platform: "validate_action_platform (Some (Ubuntu 24 4)) ''SnapRefresh'' = Inr ()"
  by code_simp

lemma policy_ref: "ds_policy daemon_ref = \<lparr>pt_overrides = Map.empty\<rparr>"
  by (simp add: daemon_ref_def)

lemma upgrade_role: "policy_min_role (ds_policy daemon_ref) ''AptUpgrade'' = Some Admin"
  using executed_role_is_risk_role [OF build_upgrade] by (auto simp: policy_min_role_def policy_ref apt_upgrade_def)

lemma refresh_role: "policy_min_role (ds_policy daemon_ref) ''SnapRefresh'' = Some Dev"
  using executed_role_is_risk_role [OF build_refresh] by (auto simp: policy_min_role_def policy_ref snap_refresh_def)

definition alice :: caller_attribution where
  "alice = from_peer_uid 1000 Admin"

definition bob :: caller_attribution where
  "bob = from_peer_uid 1001 Admin"

lemma upgrade_runs: "runnable alice ''AptUpgrade'' (JObj []) apt_upgrade"
  using upgrade_platform upgrade_role build_upgrade
  by (simp add: runnable_def action_allowed_def alice_def from_peer_uid_def is_deployment_slot_action_def daemon_ref_def)

lemma refresh_runs: "runnable bob ''SnapRefresh'' (JObj []) (snap_refresh None)"
  using refresh_platform refresh_role build_refresh
  by (simp add: runnable_def action_allowed_def bob_def from_peer_uid_def is_deployment_slot_action_def daemon_ref_def less_eq_caller_role_def)

lemma day_locks: "exclusive_resource_of apt_upgrade = Some Dpkg" "exclusive_resource_of (snap_refresh None) = Some Snap"
  by code_simp+

lemma day_changes: "above_observer daemon_ref apt_upgrade" "above_observer daemon_ref (snap_refresh None)"
  by (simp_all add: above_observer_def apt_upgrade_def snap_refresh_def)

lemma policy_loaded: "from_overrides [] = Inr (ds_policy daemon_ref)"
  by (simp add: from_overrides_def policy_ref)

lemma day_mutating:
  "is_mutating (ds_policy daemon_ref) ''AptUpgrade'' apt_upgrade"
  "is_mutating (ds_policy daemon_ref) ''SnapRefresh'' (snap_refresh None)"
  using upgrade_role refresh_role by (auto intro!: mutatingI)

lemma upgrade_claims: "to_claim (ds_policy daemon_ref) ''AptUpgrade'' apt_upgrade = [Dpkg]"
proof -
  have "\<not> is_high_risk_reboot apt_upgrade" by (simp add: is_high_risk_reboot_def apt_upgrade_def)
  then show ?thesis using day_mutating(1) day_locks(1) by (simp add: to_claim_def)
qed

text \<open>Both upgrades are running.\<close>

lemma busy_day:
  obtains d k l receipt where "daemon_reach daemon_ref {''t0'', ''t1''} (serve daemon_ref) d"
    "dm_conns d = [\<lparr>cn_caller = alice, cn_served = 3, cn_handler = Some (RunAction apt_upgrade k)\<rparr>,
       \<lparr>cn_caller = bob, cn_served = 3, cn_handler = Some (RunAction (snap_refresh None) l)\<rparr>]"
    "(alice, Sent (ApprovalResponse ''a'' ''t0'' receipt) (Inr ())) \<in> set (dm_log d)"
proof -
  let ?step = "daemon_step daemon_ref {''t0'', ''t1''} (serve daemon_ref)"
  let ?d1 = "daemon_init\<lparr>dm_conns := [\<lparr>cn_caller = alice, cn_served = 0, cn_handler = None\<rparr>]\<rparr>"
  let ?d2 = "daemon_init\<lparr>dm_conns := [\<lparr>cn_caller = alice, cn_served = 0, cn_handler = None\<rparr>,
      \<lparr>cn_caller = bob, cn_served = 0, cn_handler = None\<rparr>]\<rparr>"
  have att: "attribution alice" "attribution bob" by (auto simp: alice_def bob_def intro: attribution.intros)
  have "?step\<^sup>*\<^sup>* daemon_init ?d1"
    using ds_accept [OF att(1), of daemon_init daemon_ref "{''t0'', ''t1''}" "serve daemon_ref"]
    by (intro r_into_rtranclp) (simp add: daemon_init_def MAX_CONNECTIONS_def)
  moreover have "?step ?d1 ?d2"
    using ds_accept [OF att(2), of ?d1 daemon_ref "{''t0'', ''t1''}" "serve daemon_ref"]
    by (simp add: daemon_init_def MAX_CONNECTIONS_def)
  ultimately have start: "?step\<^sup>*\<^sup>* daemon_init ?d2" by (rule rtranclp.rtrancl_into_rtrancl)
  have init: "names_in (sh_db (dm_shared ?d2)) = {}" "sh_slots (dm_shared ?d2) = Map.empty"
    by (simp_all add: daemon_init_def empty_db_def names_in_def)
  have free: "blocking apt_upgrade (sh_slots (dm_shared ?d2)) = None" by (simp add: blocking_def daemon_init_def day_locks)
  obtain d3 k receipt where d3: "?step\<^sup>*\<^sup>* ?d2 d3"
      "dm_conns d3 = [] @ (\<lparr>cn_caller = alice, cn_served = 0, cn_handler = None\<rparr> :: connection)\<lparr>
         cn_served := cn_served (\<lparr>cn_caller = alice, cn_served = 0, cn_handler = None\<rparr> :: connection) + 3,
         cn_handler := Some (RunAction apt_upgrade k)\<rparr> # [\<lparr>cn_caller = bob, cn_served = 0, cn_handler = None\<rparr>]"
      "(alice, Sent (ApprovalResponse ''a'' ''t0'' receipt) (Inr ())) \<in> set (dm_log d3)"
      "sh_slots (dm_shared d3) = claim_slots (to_claim (ds_policy daemon_ref) ''AptUpgrade'' apt_upgrade)
         (hash_ref ''AptUpgrade'' (JObj [])) (sh_slots (dm_shared ?d2))"
      "names_in (sh_db (dm_shared d3)) \<subseteq> insert ''t0'' (names_in (sh_db (dm_shared ?d2)))"
    by (rule job_starts [where d = ?d2 and txid = "''t0''" and uuids = "{''t0'', ''t1''}" and xs = "[]" and
        conn = "\<lparr>cn_caller = alice, cn_served = 0, cn_handler = None\<rparr>", OF _ _ _ _ _ day_mutating(1) free])
      (use upgrade_runs init(1) in simp_all)
  have slots: "blocking (snap_refresh None) (sh_slots (dm_shared d3)) = None" "''t1'' \<notin> names_in (sh_db (dm_shared d3))"
    using d3(4,5) init by (auto simp: blocking_def day_locks upgrade_claims claim_slots_def)
  obtain d4 l where d4: "?step\<^sup>*\<^sup>* d3 d4"
      "dm_conns d4 = [\<lparr>cn_caller = alice, cn_served = 3, cn_handler = Some (RunAction apt_upgrade k)\<rparr>] @
         (\<lparr>cn_caller = bob, cn_served = 0, cn_handler = None\<rparr> :: connection)\<lparr>
         cn_served := cn_served (\<lparr>cn_caller = bob, cn_served = 0, cn_handler = None\<rparr> :: connection) + 3,
         cn_handler := Some (RunAction (snap_refresh None) l)\<rparr> # []"
      "set (dm_log d3) \<subseteq> set (dm_log d4)"
    by (rule job_starts [where d = d3 and txid = "''t1''" and uuids = "{''t0'', ''t1''}" and
        xs = "[\<lparr>cn_caller = alice, cn_served = 3, cn_handler = Some (RunAction apt_upgrade k)\<rparr>]" and
        conn = "\<lparr>cn_caller = bob, cn_served = 0, cn_handler = None\<rparr>", OF _ _ _ _ slots(2) day_mutating(2) slots(1)])
      (use refresh_runs d3(2) in simp_all)
  show ?thesis
    by (rule that [of d4 k l receipt]) (use start d3 d4 in \<open>auto simp: daemon_reach_def\<close>)
qed

section \<open>Witnesses\<close>

abbreviation reached :: "daemon \<Rightarrow> bool" where
  "reached d \<equiv> daemon_reach daemon_ref {''t0'', ''t1''} (serve daemon_ref) d"

definition outcome_ref :: execution where
  "outcome_ref = Inr \<lparr>eo_stdout = [], eo_stderr = [], eo_exit_code = 0\<rparr>"

lemma ran_day: "\<exists>d. reached d \<and> (alice, Ran apt_upgrade outcome_ref) \<in> set (dm_log d)"
proof -
  obtain d k l receipt where d: "reached d"
    "dm_conns d = [] @ \<lparr>cn_caller = alice, cn_served = 3, cn_handler = Some (RunAction apt_upgrade k)\<rparr>
       # [\<lparr>cn_caller = bob, cn_served = 3, cn_handler = Some (RunAction (snap_refresh None) l)\<rparr>]"
    by (rule busy_day) simp
  from ds_act [OF this(2) _ act_run_action [of _ apt_upgrade k _ outcome_ref "[]"], where ds = daemon_ref and serve = "serve daemon_ref"]
  obtain d' where "daemon_step daemon_ref {''t0'', ''t1''} (serve daemon_ref) d d'"
      "(alice, Ran apt_upgrade outcome_ref) \<in> set (dm_log d')" by fastforce
  then show ?thesis using d(1) unfolding daemon_reach_def by (meson rtranclp.rtrancl_into_rtrancl)
qed

theorem executions_are_authorised_witness:
  "\<exists>d. reached d \<and> (alice, Ran apt_upgrade outcome_ref) \<in> set (dm_log d)
    \<and> ((\<exists>n params. build_action_spec n params = Inr apt_upgrade \<and> policy_min_role (ds_policy daemon_ref) n = Some Observer)
      \<or> (\<exists>n params txid. action_allowed (ds_policy daemon_ref) (ca_role alice) n
          \<and> owned_row alice txid (\<lambda>row. cr_action_name row = n \<and> cr_request_hash row = request_hash_of daemon_ref n params)
              (sh_db (dm_shared d))
          \<and> attested ApprovalConsumed txid alice (sh_db (dm_shared d))))"
proof -
  obtain d where "reached d" "(alice, Ran apt_upgrade outcome_ref) \<in> set (dm_log d)" using ran_day by blast
  with executions_are_authorised [OF sound_ref this] show ?thesis by (intro exI [of _ d]) blast
qed


theorem responses_are_well_formed_witness:
  "\<exists>d receipt. reached d \<and> (alice, Sent (ApprovalResponse ''a'' ''t0'' receipt) (Inr ())) \<in> set (dm_log d)
    \<and> well_formed_response (ApprovalResponse ''a'' ''t0'' receipt)"
  by (rule busy_day) (use responses_are_well_formed [OF sound_ref] in blast)

theorem answers_go_to_the_owner_witness:
  "\<exists>d receipt. reached d \<and> (alice, Sent (ApprovalResponse ''a'' ''t0'' receipt) (Inr ())) \<in> set (dm_log d)
    \<and> owned_row alice ''t0'' (\<lambda>row. action_allowed (ds_policy daemon_ref) (ca_role alice) (cr_action_name row)) (sh_db (dm_shared d))
    \<and> attested ApprovalGranted ''t0'' alice (sh_db (dm_shared d))"
  by (rule busy_day) (use answers_go_to_the_owner [OF sound_ref _ _ disjI1 [OF refl]] in blast)

theorem daemon_refines_store_witness:
  "\<exists>d. reached d \<and> length (dm_conns d) = 2
    \<and> whole_reach (ds_audit daemon_ref) {Succeeded, Failed, RolledBack, NeedsReboot} (sh_db (dm_shared d))
    \<and> tx_id ` set (db_transactions (sh_db (dm_shared d))) \<subseteq> {''t0'', ''t1''}"
  by (rule busy_day) (use daemon_refines_store [OF sound_ref] in fastforce)

theorem requests_are_served_witness:
  "\<exists>d d'. reached d \<and> map cn_served (dm_conns d) = [3, 3] \<and> (work {''t0'', ''t1''})\<^sup>*\<^sup>* d d'
    \<and> (unstopped_in (dm_log d') \<or> sh_slots (dm_shared d') = Map.empty)"
proof -
  obtain d k l receipt where d: "reached d"
    "dm_conns d = [\<lparr>cn_caller = alice, cn_served = 3, cn_handler = Some (RunAction apt_upgrade k)\<rparr>,
       \<lparr>cn_caller = bob, cn_served = 3, cn_handler = Some (RunAction (snap_refresh None) l)\<rparr>]" by (rule busy_day)
  from requests_are_served [OF sound_ref this(1)]
  obtain d' where "(work {''t0'', ''t1''})\<^sup>*\<^sup>* d d'" "unstopped_in (dm_log d') \<or> sh_slots (dm_shared d') = Map.empty" by blast
  with d show ?thesis by (intro exI [of _ d] exI [of _ d']) simp
qed

end
