(* ===== verification/Sk_Operator_Text.thy ===== *)
theory Sk_Operator_Text
  imports Sk_Prelude
begin

text \<open>
  Untrusted text on the operator's terminal (\<^verbatim>\<open>src/apps/sysknife-cli/src/operator_text.rs\<close>). Here
  a Rust \<^verbatim>\<open>&str\<close> is the list of its Unicode scalar values (\<open>utext\<close>), since the classes are classes of
  \<^verbatim>\<open>char\<close>s. What the lemmas show: a rendered line has no character that could redraw the prompt, is bounded, and
  shows every visible character unless it says that it was cut; a block that counts as complete shows all of its text.
\<close>

named_theorems char_class_defs \<open>the classes of Unicode scalar values\<close>

type_synonym utext = "nat list"

definition ascii_text :: "string \<Rightarrow> utext" where
  "ascii_text s = map of_char s"

section \<open>Classes of characters\<close>

definition in_range :: "nat \<Rightarrow> nat \<Rightarrow> nat \<Rightarrow> bool" where
  [char_class_defs]: "in_range lo hi c \<longleftrightarrow> lo \<le> c \<and> c \<le> hi"

text \<open>\<^verbatim>\<open>char::is_whitespace\<close>: the property \<open>White_Space\<close>.\<close>

definition is_whitespace_char :: "nat \<Rightarrow> bool" where
  [char_class_defs]: "is_whitespace_char c \<longleftrightarrow> in_range 0x09 0x0D c \<or> c \<in> {0x20, 0x85, 0xA0, 0x1680}
     \<or> in_range 0x2000 0x200A c \<or> c \<in> {0x2028, 0x2029, 0x202F, 0x205F, 0x3000}"

definition is_blank_char :: "nat \<Rightarrow> bool" where
  [char_class_defs]: "is_blank_char c \<longleftrightarrow> c \<in> {0x09, 0x0A, 0x0D, 0x20}"

text \<open>The arms of \<^verbatim>\<open>operator_safe_chars\<close> that drop a character, in order.\<close>

definition is_dropped_char :: "nat \<Rightarrow> bool" where
  [char_class_defs]: "is_dropped_char c \<longleftrightarrow> c < 0x20 \<or> c = 0x7F \<or> in_range 0x80 0x9F c
     \<or> in_range 0x2028 0x202E c \<or> in_range 0x2066 0x2069 c
     \<or> in_range 0x200B 0x200F c \<or> c = 0xFEFF \<or> c = 0x061C
     \<or> c = 0xAD \<or> c = 0x034F \<or> in_range 0x180B 0x180E c \<or> in_range 0x2060 0x2064 c
     \<or> in_range 0x206A 0x206F c \<or> in_range 0xFFF9 0xFFFB c \<or> in_range 0xE0000 0xE007F c"

section \<open>One line\<close>

definition MAX_RENDERED_LEN :: nat where
  "MAX_RENDERED_LEN = 512"

definition TRUNCATION_MARKER :: utext where
  "TRUNCATION_MARKER = 0x2026 # ascii_text '' [truncated]''"

definition MAX_RENDERED_LINES :: nat where
  "MAX_RENDERED_LINES = 40"

definition LINE_TRUNCATION_MARKER :: utext where
  "LINE_TRUNCATION_MARKER = 0x2026 # ascii_text '' [truncated: block too long to display]''"

text \<open>The loop, with its variables \<open>pending_space\<close> and \<open>out\<close>.\<close>

fun safe_chars_loop :: "utext \<Rightarrow> bool \<Rightarrow> utext \<Rightarrow> utext" where
  "safe_chars_loop out pending_space [] = out"
| "safe_chars_loop out pending_space (ch # chs) =
     (if is_blank_char ch then safe_chars_loop out True chs
      else if is_dropped_char ch then safe_chars_loop out pending_space chs
      else safe_chars_loop (out @ (if pending_space \<and> out \<noteq> [] then [0x20] else []) @ [ch]) False chs)"

definition operator_safe_chars :: "utext \<Rightarrow> utext" where
  "operator_safe_chars s = safe_chars_loop [] False s"

definition operator_safe :: "utext \<Rightarrow> utext" where
  "operator_safe s = (let out = operator_safe_chars s in
     if length out > MAX_RENDERED_LEN then take MAX_RENDERED_LEN out @ TRUNCATION_MARKER else out)"

definition operator_safe_unbounded :: "utext \<Rightarrow> utext" where
  "operator_safe_unbounded s = operator_safe_chars s"

section \<open>Blocks\<close>

text \<open>\<^verbatim>\<open>str::lines\<close> and \<^verbatim>\<open>str::trim_start\<close>.\<close>

fun split_newlines :: "utext \<Rightarrow> utext list" where
  "split_newlines [] = [[]]"
| "split_newlines (c # cs) =
     (if c = 0x0A then [] # split_newlines cs
      else case split_newlines cs of [] \<Rightarrow> [[c]] | l # ls \<Rightarrow> (c # l) # ls)"

definition strip_carriage_return :: "utext \<Rightarrow> utext" where
  "strip_carriage_return l = (if l \<noteq> [] \<and> last l = 0x0D then butlast l else l)"

definition text_lines :: "utext \<Rightarrow> utext list" where
  "text_lines s = (let pieces = split_newlines s in
     map strip_carriage_return (butlast pieces) @ (if last pieces = [] then [] else [last pieces]))"

fun join_lines :: "utext list \<Rightarrow> utext" where
  "join_lines [] = []"
| "join_lines [l] = l"
| "join_lines (l # ls) = l @ 0x0A # join_lines ls"

record operator_block =
  ob_text :: utext
  ob_withheld_lines :: nat
  ob_shortened_lines :: nat

definition is_complete :: "operator_block \<Rightarrow> bool" where
  "is_complete b \<longleftrightarrow> ob_withheld_lines b = 0 \<and> ob_shortened_lines b = 0"

definition indent_of :: "utext \<Rightarrow> utext" where
  "indent_of line = takeWhile is_whitespace_char line"

definition text_ends_with :: "utext \<Rightarrow> utext \<Rightarrow> bool" where
  "text_ends_with s p \<longleftrightarrow> suffix p s"

definition dec_text :: "nat \<Rightarrow> utext" where
  "dec_text n = ascii_text (dec n)"

definition operator_safe_block :: "utext \<Rightarrow> operator_block" where
  "operator_safe_block s =
     (let total = length (text_lines s);
          shown = map (\<lambda>line. (indent_of line, operator_safe line)) (take MAX_RENDERED_LINES (text_lines s));
          shortened = length (filter (\<lambda>(_, rendered). text_ends_with rendered TRUNCATION_MARKER) shown);
          withheld = total - MAX_RENDERED_LINES;
          lines = map (\<lambda>(indent, rendered). indent @ rendered) shown
            @ (if withheld > 0
               then [LINE_TRUNCATION_MARKER @ ascii_text '' ('' @ dec_text withheld @ ascii_text '' more)''] else [])
      in \<lparr>ob_text = join_lines lines, ob_withheld_lines = withheld, ob_shortened_lines = shortened\<rparr>)"

definition operator_safe_block_full :: "utext \<Rightarrow> operator_block" where
  "operator_safe_block_full s =
     \<lparr>ob_text = join_lines (map (\<lambda>line. indent_of line @ operator_safe_unbounded line) (text_lines s)),
      ob_withheld_lines = 0, ob_shortened_lines = 0\<rparr>"

section \<open>What a rendered line is\<close>

text \<open>A character that the operator can see, and the text as far as it can be seen.\<close>

definition is_visible_char :: "nat \<Rightarrow> bool" where
  "is_visible_char c \<longleftrightarrow> \<not> is_whitespace_char c \<and> \<not> is_dropped_char c"

definition visible :: "utext \<Rightarrow> utext" where
  "visible s = filter is_visible_char s"

text \<open>No character of the text moves the cursor, reorders the text or hides in it.\<close>

definition terminal_safe :: "utext \<Rightarrow> bool" where
  "terminal_safe s \<longleftrightarrow> list_all (\<lambda>c. \<not> is_dropped_char c) s"

lemma visible_append [simp]: "visible (a @ b) = visible a @ visible b"
  by (simp add: visible_def)

lemma visible_Nil [simp]: "visible [] = []"
  by (simp add: visible_def)

lemma visible_Cons: "visible (c # s) = (if is_visible_char c then c # visible s else visible s)"
  by (simp add: visible_def)

lemma blank_not_visible: "is_blank_char c \<Longrightarrow> \<not> is_visible_char c"
  unfolding is_blank_char_def by (elim insertE emptyE) (simp_all add: is_visible_char_def is_whitespace_char_def in_range_def)

lemma space_not_visible [simp]: "\<not> is_visible_char 32" "\<not> is_visible_char 10"
  by (simp_all add: is_visible_char_def char_class_defs)

lemma visible_safe_chars_loop: "visible (safe_chars_loop out p s) = visible out @ visible s"
proof (induction out p s rule: safe_chars_loop.induct)
  case (2 out p ch chs)
  show ?case
  proof (cases "is_blank_char ch")
    case True
    then show ?thesis using 2(1) by (simp add: visible_Cons blank_not_visible)
  next
    case nb: False
    show ?thesis
    proof (cases "is_dropped_char ch")
      case True
      then show ?thesis using 2(2) nb by (simp add: visible_Cons is_visible_char_def)
    next
      case False
      then show ?thesis using 2(3) nb by (simp add: visible_Cons)
    qed
  qed
qed simp

lemma visible_operator_safe_chars: "visible (operator_safe_chars s) = visible s"
  by (simp add: operator_safe_chars_def visible_safe_chars_loop)

lemma terminal_safe_append [simp]: "terminal_safe (a @ b) \<longleftrightarrow> terminal_safe a \<and> terminal_safe b"
  by (simp add: terminal_safe_def)

lemma terminal_safe_Nil [simp]: "terminal_safe []"
  by (simp add: terminal_safe_def)

lemma terminal_safe_Cons: "terminal_safe (c # s) \<longleftrightarrow> \<not> is_dropped_char c \<and> terminal_safe s"
  by (simp add: terminal_safe_def)

lemma space_not_dropped [simp]: "\<not> is_dropped_char 32"
  by (simp add: char_class_defs)

lemma terminal_safe_loop: "terminal_safe out \<Longrightarrow> terminal_safe (safe_chars_loop out p s)"
  by (induction out p s rule: safe_chars_loop.induct) (auto simp: terminal_safe_Cons)

lemma terminal_safe_chars: "terminal_safe (operator_safe_chars s)"
  by (simp add: operator_safe_chars_def terminal_safe_loop)

lemma terminal_safe_take: "terminal_safe s \<Longrightarrow> terminal_safe (take n s)"
  by (auto simp: terminal_safe_def list_all_iff dest: in_set_takeD)

lemma printable_not_dropped: "32 \<le> c \<Longrightarrow> c < 127 \<Longrightarrow> \<not> is_dropped_char c"
  by (simp add: is_dropped_char_def in_range_def)

lemma terminal_safe_ascii:
  "list_all (\<lambda>b. 32 \<le> (of_char b :: nat) \<and> (of_char b :: nat) < 127) s \<Longrightarrow> terminal_safe (ascii_text s)"
  using printable_not_dropped by (fastforce simp: terminal_safe_def ascii_text_def list_all_iff)

lemma ellipsis_not_dropped: "\<not> is_dropped_char 0x2026"
  by (simp add: is_dropped_char_def in_range_def)

lemma terminal_safe_marker [simp]: "terminal_safe TRUNCATION_MARKER" "terminal_safe LINE_TRUNCATION_MARKER"
  unfolding TRUNCATION_MARKER_def LINE_TRUNCATION_MARKER_def terminal_safe_Cons
  by (simp_all add: ellipsis_not_dropped terminal_safe_ascii)

lemma terminal_safe_operator_safe: "terminal_safe (operator_safe s)"
  by (simp add: operator_safe_def Let_def terminal_safe_chars terminal_safe_take)

lemma length_operator_safe: "length (operator_safe s) \<le> MAX_RENDERED_LEN + length TRUNCATION_MARKER"
  by (simp add: operator_safe_def Let_def min_def)

lemma operator_safe_short:
  "\<not> text_ends_with (operator_safe s) TRUNCATION_MARKER \<Longrightarrow> operator_safe s = operator_safe_chars s"
  by (auto simp: operator_safe_def Let_def text_ends_with_def suffix_def split: if_splits)

text \<open>The reference: drop what is dropped, then the words between blanks, with one space between them.\<close>

fun words_of :: "utext \<Rightarrow> utext list" where
  "words_of [] = [[]]"
| "words_of (c # cs) =
     (if is_blank_char c then [] # words_of cs
      else case words_of cs of [] \<Rightarrow> [[c]] | w # ws \<Rightarrow> (c # w) # ws)"

fun join_words :: "utext list \<Rightarrow> utext" where
  "join_words [] = []"
| "join_words [w] = w"
| "join_words (w # ws) = w @ 0x20 # join_words ws"

definition one_line :: "utext \<Rightarrow> utext" where
  "one_line s = join_words (filter (\<lambda>w. w \<noteq> []) (words_of (filter (\<lambda>c. is_blank_char c \<or> \<not> is_dropped_char c) s)))"

lemma join_words_Cons2 [simp]: "join_words (w # v # ws) = w @ 0x20 # join_words (v # ws)"
  by simp

lemma join_words_prepend [simp]: "join_words ((a @ w) # ws) = a @ join_words (w # ws)"
  by (cases ws) simp_all

lemma join_words_first [simp]: "join_words ((c # w) # ws) = c # join_words (w # ws)"
  by (cases ws) simp_all

lemma words_of_not_Nil [simp]: "words_of s \<noteq> []"
  by (cases s) (auto split: list.splits)

lemma words_of_letter:
  "\<not> is_blank_char c \<Longrightarrow> words_of (c # cs) = (c # hd (words_of cs)) # tl (words_of cs)"
  by (cases "words_of cs") simp_all

definition non_empty_words :: "utext list \<Rightarrow> utext list" where
  "non_empty_words ws = filter (\<lambda>w. w \<noteq> []) ws"

lemma non_empty_simps [simp]: "non_empty_words ([] # ws) = non_empty_words ws" "non_empty_words ((c # w) # ws) = (c # w) # non_empty_words ws"
  "non_empty_words [] = []"
  by (simp_all add: non_empty_words_def)

definition kept_chars :: "utext \<Rightarrow> utext" where
  "kept_chars s = filter (\<lambda>c. is_blank_char c \<or> \<not> is_dropped_char c) s"

lemma safe_chars_loop_kept: "safe_chars_loop out p s = safe_chars_loop out p (kept_chars s)"
  by (induction out p s rule: safe_chars_loop.induct) (simp_all add: kept_chars_def)

text \<open>What is already on the line counts as one word.\<close>

lemma safe_chars_loop_words:
  assumes "list_all (\<lambda>c. is_blank_char c \<or> \<not> is_dropped_char c) s"
  shows "safe_chars_loop out p s =
    (if out = [] then join_words (non_empty_words (words_of s))
     else if p then join_words (out # non_empty_words (words_of s))
     else join_words ((out @ hd (words_of s)) # non_empty_words (tl (words_of s))))"
  using assms
proof (induction out p s rule: safe_chars_loop.induct)
  case (1 out p)
  then show ?case by simp
next
  case (2 out p ch chs)
  show ?case
  proof (cases "is_blank_char ch")
    case True
    then show ?thesis using 2(1,4) by simp
  next
    case nb: False
    then have nd: "\<not> is_dropped_char ch" using 2(4) by simp
    define w where "w = hd (words_of chs)"
    define ws where "ws = tl (words_of chs)"
    have words: "words_of (ch # chs) = (ch # w) # ws"
      using nb by (simp only: words_of_letter w_def ws_def not_False_eq_True)
    have IH: "safe_chars_loop (out @ (if p \<and> out \<noteq> [] then [0x20] else []) @ [ch]) False chs
        = join_words ((out @ (if p \<and> out \<noteq> [] then [0x20] else []) @ ch # w) # non_empty_words ws)"
      using 2(3)[OF nb nd] 2(4) by (simp add: w_def ws_def)
    have step: "safe_chars_loop out p (ch # chs)
        = join_words ((out @ (if p \<and> out \<noteq> [] then [0x20] else []) @ ch # w) # non_empty_words ws)"
      using nb nd IH by simp
    show ?thesis unfolding step words
      by (cases "out = []"; cases p) simp_all
  qed
qed

theorem operator_safe_chars_one_line: "operator_safe_chars s = one_line s"
proof -
  have "operator_safe_chars s = safe_chars_loop [] False (kept_chars s)"
    unfolding operator_safe_chars_def by (rule safe_chars_loop_kept)
  also have "\<dots> = join_words (non_empty_words (words_of (kept_chars s)))"
    by (subst safe_chars_loop_words) (simp_all add: kept_chars_def list_all_iff)
  finally show ?thesis by (simp add: one_line_def non_empty_words_def kept_chars_def)
qed

section \<open>What a block is\<close>

lemma visible_join_lines: "visible (join_lines ls) = concat (map visible ls)"
  by (induction ls rule: join_lines.induct) (simp_all add: visible_Cons)

lemma split_newlines_not_Nil [simp]: "split_newlines s \<noteq> []"
  by (cases s) (auto split: list.splits)

lemma visible_split_newlines: "concat (map visible (split_newlines s)) = visible s"
proof (induction s)
  case (Cons c s)
  then show ?case by (cases "split_newlines s") (auto simp: visible_Cons)
qed simp

lemma carriage_return_not_visible [simp]: "\<not> is_visible_char 13"
  by (simp add: is_visible_char_def is_dropped_char_def)

lemma visible_strip_carriage_return [simp]: "visible (strip_carriage_return l) = visible l"
proof (cases l rule: rev_cases)
  case (snoc ys y)
  then show ?thesis by (simp add: strip_carriage_return_def visible_Cons)
qed (simp add: strip_carriage_return_def)

lemma visible_text_lines: "concat (map visible (text_lines s)) = visible s"
proof (cases "split_newlines s" rule: rev_cases)
  case (snoc ls l)
  then show ?thesis using visible_split_newlines [of s] by (auto simp: text_lines_def Let_def comp_def)
qed simp

lemma visible_indent [simp]: "visible (indent_of line) = []"
  by (auto simp: visible_def indent_of_def is_visible_char_def filter_empty_conv dest: set_takeWhileD)

theorem complete_block_shows_all:
  assumes "is_complete (operator_safe_block s)"
  shows "visible (ob_text (operator_safe_block s)) = visible s"
proof -
  have lines: "length (text_lines s) \<le> MAX_RENDERED_LINES"
    and short: "\<And>l. l \<in> set (text_lines s) \<Longrightarrow> \<not> text_ends_with (operator_safe l) TRUNCATION_MARKER"
    using assms by (auto simp: is_complete_def operator_safe_block_def Let_def filter_empty_conv)
  have "ob_text (operator_safe_block s) = join_lines (map (\<lambda>l. indent_of l @ operator_safe l) (text_lines s))"
    using lines by (simp add: operator_safe_block_def Let_def comp_def)
  then have "visible (ob_text (operator_safe_block s)) = concat (map (\<lambda>l. visible (operator_safe l)) (text_lines s))"
    by (simp add: visible_join_lines comp_def)
  also have "map (\<lambda>l. visible (operator_safe l)) (text_lines s) = map visible (text_lines s)"
    using short by (auto simp: operator_safe_short visible_operator_safe_chars)
  finally show ?thesis by (simp add: visible_text_lines)
qed

theorem full_block_shows_all: "visible (ob_text (operator_safe_block_full s)) = visible s"
  by (simp add: operator_safe_block_full_def visible_join_lines comp_def operator_safe_unbounded_def
      visible_operator_safe_chars visible_text_lines)

text \<open>A block of printed JSON is indented with spaces, and then nothing in it can redraw the prompt.\<close>

definition plain_indents :: "utext \<Rightarrow> bool" where
  "plain_indents s \<longleftrightarrow> list_all (\<lambda>l. list_all (\<lambda>c. c = 0x20) (indent_of l)) (text_lines s)"

definition block_safe :: "utext \<Rightarrow> bool" where
  "block_safe s \<longleftrightarrow> list_all (\<lambda>c. c = 0x0A \<or> \<not> is_dropped_char c) s"

lemma block_safe_simps [simp]:
  "block_safe []" "block_safe (a @ b) \<longleftrightarrow> block_safe a \<and> block_safe b"
  "block_safe (0x0A # a) \<longleftrightarrow> block_safe a"
  by (simp_all add: block_safe_def)

lemma terminal_safe_block_safe: "terminal_safe s \<Longrightarrow> block_safe s"
  by (auto simp: terminal_safe_def block_safe_def list_all_iff)

lemma block_safe_join_lines: "block_safe (join_lines ls) \<longleftrightarrow> list_all block_safe ls"
  by (induction ls rule: join_lines.induct) simp_all

lemma plain_indent_safe: "list_all (\<lambda>c. c = 0x20) s \<Longrightarrow> block_safe s"
  by (auto simp: block_safe_def list_all_iff)

lemma terminal_safe_dec: "terminal_safe (dec_text n)"
  unfolding dec_text_def
  by (rule terminal_safe_ascii) (use dec_digits [where n = n] in \<open>fastforce simp: list_all_iff is_ascii_digit_def\<close>)

theorem plain_block_safe:
  assumes "plain_indents s"
  shows "block_safe (ob_text (operator_safe_block s)) \<and> block_safe (ob_text (operator_safe_block_full s))"
proof
  have line: "block_safe (indent_of l @ r)" if "l \<in> set (text_lines s)" "terminal_safe r" for l r
    using assms that by (simp add: plain_indents_def list_all_iff terminal_safe_block_safe plain_indent_safe)
  have marker: "block_safe (LINE_TRUNCATION_MARKER @ ascii_text '' ('' @ dec_text n @ ascii_text '' more)'')" for n
    by (intro terminal_safe_block_safe) (simp add: terminal_safe_dec terminal_safe_ascii)
  show "block_safe (ob_text (operator_safe_block s))"
    using line [OF in_set_takeD terminal_safe_operator_safe] marker
    by (auto simp: operator_safe_block_def Let_def block_safe_join_lines list_all_iff simp del: block_safe_simps)
  show "block_safe (ob_text (operator_safe_block_full s))"
    using line [OF _ terminal_safe_chars]
    by (auto simp: operator_safe_block_full_def operator_safe_unbounded_def block_safe_join_lines list_all_iff
        simp del: block_safe_simps)
qed

text \<open>The indentation itself is copied as it is: a line of vertical tabs is shown as one and counts as complete.\<close>

lemma text_lines_one: "list_all (\<lambda>c. c \<noteq> 0x0A) s \<Longrightarrow> s \<noteq> [] \<Longrightarrow> text_lines s = [s]"
proof -
  assume nn: "list_all (\<lambda>c. c \<noteq> 0x0A) s" and ne: "s \<noteq> []"
  have "split_newlines s = [s]" using nn by (induction s) simp_all
  then show ?thesis using ne by (simp add: text_lines_def Let_def)
qed

lemma safe_chars_of_dropped: "operator_safe_chars (replicate n 0x0B) = []"
proof -
  have "safe_chars_loop [] False (replicate n 0x0B) = []"
    by (induction n) (simp_all add: is_blank_char_def is_dropped_char_def)
  then show ?thesis by (simp add: operator_safe_chars_def)
qed

lemma indentation_is_not_screened:
  "operator_safe_block (replicate (Suc n) 0x0B)
     = \<lparr>ob_text = replicate (Suc n) 0x0B, ob_withheld_lines = 0, ob_shortened_lines = 0\<rparr>"
proof -
  have one: "text_lines (replicate (Suc n) 0x0B) = [replicate (Suc n) 0x0B]"
    by (rule text_lines_one) (simp_all add: list_all_iff)
  have indent: "indent_of (replicate (Suc n) 0x0B) = replicate (Suc n) 0x0B"
    unfolding indent_of_def by (rule takeWhile_eq_all_conv [THEN iffD2]) (simp add: is_whitespace_char_def in_range_def)
  have none: "operator_safe (replicate (Suc n) 0x0B) = []"
    unfolding operator_safe_def Let_def safe_chars_of_dropped by simp
  show ?thesis
    unfolding operator_safe_block_def Let_def one
    by (simp add: indent none MAX_RENDERED_LINES_def text_ends_with_def TRUNCATION_MARKER_def del: replicate_Suc)
qed


end
