(* ===== verification/Sk_Tool_Secrets.thy ===== *)
theory Sk_Tool_Secrets
  imports Sk_Operator_Text
begin

text \<open>
  Credentials in what a host prints (\<^verbatim>\<open>crates/sysknife-brain/src/tool_secrets.rs\<close>). An offset \<^verbatim>\<open>i\<close> into the
  text is the pair of what is before it (reversed) and what is from it on; \<^verbatim>\<open>raw[copied..start]\<close> is copied
  as the loop goes. The cache of a token's end is left out, since it does not change what is found.
\<close>

definition lit :: "string \<Rightarrow> utext" where
  "lit s = ascii_text s"

definition lower_alpha :: "nat \<Rightarrow> bool" where
  [char_class_defs]: "lower_alpha c \<longleftrightarrow> 97 \<le> c \<and> c \<le> 122"

definition upper_alpha :: "nat \<Rightarrow> bool" where
  [char_class_defs]: "upper_alpha c \<longleftrightarrow> 65 \<le> c \<and> c \<le> 90"

definition alpha_char :: "nat \<Rightarrow> bool" where
  [char_class_defs]: "alpha_char c \<longleftrightarrow> lower_alpha c \<or> upper_alpha c"

definition alnum_char :: "nat \<Rightarrow> bool" where
  [char_class_defs]: "alnum_char c \<longleftrightarrow> alpha_char c \<or> (48 \<le> c \<and> c \<le> 57)"

definition lower_char :: "nat \<Rightarrow> nat" where
  "lower_char c = (if upper_alpha c then c + 32 else c)"

definition upper_char :: "nat \<Rightarrow> nat" where
  "upper_char c = (if lower_alpha c then c - 32 else c)"

definition lower_text :: "utext \<Rightarrow> utext" where
  "lower_text s = map lower_char s"

definition upper_text :: "utext \<Rightarrow> utext" where
  "upper_text s = map upper_char s"

definition text_starts_with :: "utext \<Rightarrow> utext \<Rightarrow> bool" where
  "text_starts_with s p \<longleftrightarrow> take (length p) s = p"

definition first_in :: "nat list \<Rightarrow> utext \<Rightarrow> bool" where
  "first_in cs s \<longleftrightarrow> (case s of [] \<Rightarrow> False | c # _ \<Rightarrow> c \<in> set cs)"

definition TOOL_REDACTED :: utext where
  "TOOL_REDACTED = lit ''<redacted>''"

definition KEY_PREFIXES :: "string list" where
  "KEY_PREFIXES =
     [''sk-'', ''gsk_'', ''xai-'', ''ghp_'', ''github_pat_'', ''gho_'', ''ghu_'', ''ghs_'', ''ghr_'',
      ''glpat-'', ''xoxb-'', ''xoxp-'', ''xoxa-'', ''xoxr-'', ''sg.'', ''key_live_'', ''key_test_'',
      ''sk_live_'', ''sk_test_'', ''rk_live_'', ''rk_test_'', ''hvs.'', ''hvb.'', ''npm_'', ''pypi-'', ''hf_'']"

definition SENSITIVE_NAMES :: "string list" where
  "SENSITIVE_NAMES =
     [''password'', ''passwd'', ''pwd'', ''secret'', ''token'', ''key'', ''api_key'', ''apikey'',
      ''private_key'', ''access_key'', ''access_key_id'', ''credential'', ''credentials'']"

definition sensitive_assignment_key :: "utext \<Rightarrow> bool" where
  "sensitive_assignment_key key0 =
     (let key = map (\<lambda>c. if c = 0x2D then 0x5F else c) key0 in
        list_ex (\<lambda>name. text_ends_with key (lit name)
           \<and> (let p = take (length key - length (lit name)) key in p = [] \<or> last p = 0x5F)) SENSITIVE_NAMES
        \<or> text_ends_with key (lit ''password'') \<or> text_ends_with key (lit ''apikey''))"

definition skip_space :: "utext \<Rightarrow> nat" where
  "skip_space s = length (takeWhile (\<lambda>c. c = 0x20 \<or> c = 0x09) s)"

text \<open>A value, as the number of characters before it and its length.\<close>

fun quoted_length :: "nat \<Rightarrow> bool \<Rightarrow> utext \<Rightarrow> nat" where
  "quoted_length q escaped [] = 0"
| "quoted_length q escaped (c # cs) =
     (if c = 0x0D \<or> c = 0x0A then 0
      else if escaped then Suc (quoted_length q False cs)
      else if c = 0x5C then Suc (quoted_length q True cs)
      else if c = q then 0
      else Suc (quoted_length q False cs))"

definition value_stop :: "nat \<Rightarrow> bool" where
  "value_stop c \<longleftrightarrow> is_whitespace_char c \<or> c \<in> set (lit '',;'') \<or> c = 0x27 \<or> c = 0x22 \<or> c \<in> set (lit ''&<>}])'')"

definition value_range :: "utext \<Rightarrow> (nat \<times> nat) option" where
  "value_range s =
     (case s of
        [] \<Rightarrow> None
      | first # rest \<Rightarrow>
          if first = 0x27 \<or> first = 0x22 then
            (let n = quoted_length first False rest in if n > 0 then Some (1, n) else None)
          else (let n = length (takeWhile (\<lambda>c. \<not> value_stop c) s) in if n > 0 then Some (0, n) else None))"

definition shift_range :: "nat \<Rightarrow> (nat \<times> nat) option \<Rightarrow> (nat \<times> nat) option" where
  "shift_range k r = map_option (\<lambda>(skip, n). (k + skip, n)) r"

definition base64url :: "utext \<Rightarrow> bool" where
  "base64url s = list_all (\<lambda>b. alnum_char b \<or> b = 0x5F \<or> b = 0x2D) s"

fun split_dots :: "utext \<Rightarrow> utext list" where
  "split_dots [] = [[]]"
| "split_dots (c # cs) =
     (if c = 0x2E then [] # split_dots cs
      else case split_dots cs of [] \<Rightarrow> [[c]] | l # ls \<Rightarrow> (c # l) # ls)"

definition recognizable_key :: "utext \<Rightarrow> utext \<Rightarrow> bool" where
  "recognizable_key token lower =
     (if lower = lit ''sk-ssh-ed25519'' \<or> lower = lit ''sk-ecdsa-sha2-nistp256'' then False
      else if text_starts_with token (lit ''SG.'') then
        (let body = drop 3 token; key_id = takeWhile (\<lambda>c. c \<noteq> 0x2E) body; rest = drop (length key_id) body
         in rest \<noteq> [] \<and> length key_id = 22 \<and> length (tl rest) = 43 \<and> base64url key_id \<and> base64url (tl rest))
      else if text_starts_with token (lit ''hf_'') then
        length (drop 3 token) = 34 \<and> list_all alnum_char (drop 3 token)
      else if text_starts_with token (lit ''npm_'') then
        length (drop 4 token) = 36 \<and> list_all alnum_char (drop 4 token)
      else if list_ex (\<lambda>p. text_starts_with lower (lit p) \<and> length token \<ge> length p + 8)
            (filter (\<lambda>p. p \<notin> set [''sg.'', ''hf_'', ''npm_'']) KEY_PREFIXES) then True
      else if (text_starts_with token (lit ''AKIA'') \<or> text_starts_with token (lit ''ASIA''))
            \<and> length token = 20 \<and> list_all alnum_char token then True
      else if text_starts_with token (lit ''AIza'') \<and> length token = 39 then True
      else if \<not> text_starts_with token (lit ''eyJ'') then False
      else (let parts = split_dots token in
              length parts = 3 \<and> list_all (\<lambda>p. length p \<ge> 8 \<and> base64url p) parts))"

definition is_key_char :: "nat \<Rightarrow> bool" where
  "is_key_char c \<longleftrightarrow> alnum_char c \<or> c = 0x5F \<or> c = 0x2D"

definition is_token_char :: "nat \<Rightarrow> bool" where
  "is_token_char c \<longleftrightarrow> alnum_char c \<or> c \<in> set (lit ''_-./+='')"

definition assigned_range :: "utext \<Rightarrow> utext \<Rightarrow> (nat \<times> nat) option" where
  "assigned_range before after =
     (let quote = (if first_in [0x27, 0x22] after then 1 else 0);
          pos = quote + skip_space (drop quote after)
      in if first_in (lit ''=:'') (drop pos after) then
           (let start = pos + 1 + skip_space (drop (pos + 1) after) in shift_range start (value_range (drop start after)))
         else if take 2 before = lit ''--'' \<and> first_in [0x20, 0x09] after then
           shift_range (skip_space after) (value_range (drop (skip_space after) after))
         else None)"

definition is_path :: "utext \<Rightarrow> bool" where
  "is_path s \<longleftrightarrow> first_in (lit ''/~'') s \<or> text_starts_with s (lit ''./'') \<or> text_starts_with s (lit ''../'')"

definition keyed_range :: "utext \<Rightarrow> utext \<Rightarrow> (nat \<times> nat) option" where
  "keyed_range before s =
     (let n = length (takeWhile is_key_char s); key = lower_text (take n s); after = drop n s in
      if key = lit ''bearer'' \<and> first_in [0x20, 0x09] after then
        shift_range (n + skip_space after) (value_range (drop (skip_space after) after))
      else if sensitive_assignment_key key then
        (let r = shift_range n (assigned_range before after) in
         if key = lit ''key'' \<and> (case r of Some (start, _) \<Rightarrow> is_path (drop start s) | None \<Rightarrow> False) then None else r)
      else None)"

definition credential_range :: "utext \<Rightarrow> utext \<Rightarrow> (nat \<times> nat) option" where
  "credential_range before s =
     (case keyed_range before s of
        Some r \<Rightarrow> Some r
      | None \<Rightarrow>
          (let lower = lower_text s in
           if list_ex (\<lambda>p. text_starts_with lower (lit p)) KEY_PREFIXES
             \<or> list_ex (\<lambda>p. text_starts_with lower (lit p)) [''akia'', ''asia'', ''aiza'', ''eyj''] then
             (let token = rev (dropWhile (\<lambda>c. c = 0x2E) (rev (takeWhile is_token_char s))) in
              if recognizable_key token (lower_text token) then Some (0, length token) else None)
           else None))"

lemma value_range_pos: "value_range s = Some (skip, n) \<Longrightarrow> n > 0"
  by (auto simp: value_range_def Let_def split: list.splits if_splits)

lemma shift_range_pos: "(\<And>skip n. r = Some (skip, n) \<Longrightarrow> n > 0) \<Longrightarrow> shift_range k r = Some (skip, n) \<Longrightarrow> n > 0"
  by (auto simp: shift_range_def)

lemma assigned_range_pos: "assigned_range before after = Some (skip, n) \<Longrightarrow> n > 0"
  by (auto simp: assigned_range_def Let_def shift_range_def dest: value_range_pos split: if_splits)

lemma keyed_range_pos: "keyed_range before s = Some (skip, n) \<Longrightarrow> n > 0"
  by (auto simp: keyed_range_def Let_def shift_range_def dest: value_range_pos assigned_range_pos split: if_splits)

lemma recognizable_key_Nil: "\<not> recognizable_key [] x"
  by (simp add: recognizable_key_def text_starts_with_def lit_def ascii_text_def KEY_PREFIXES_def)

lemma credential_range_pos: "credential_range before s = Some (skip, n) \<Longrightarrow> n > 0"
  by (auto simp: credential_range_def Let_def recognizable_key_Nil dest: keyed_range_pos split: option.splits if_splits)

function secrets_loop :: "utext \<Rightarrow> utext \<Rightarrow> utext" where
  "secrets_loop before s =
     (case s of
        [] \<Rightarrow> []
      | c # cs \<Rightarrow>
          if \<not> alpha_char c \<or> (before \<noteq> [] \<and> (alnum_char (hd before) \<or> hd before = 0x5F)) then
            c # secrets_loop (c # before) cs
          else (case credential_range before s of
            Some (skip, n) \<Rightarrow>
              take skip s @ TOOL_REDACTED @ secrets_loop (rev (take (skip + n) s) @ before) (drop (skip + n) s)
          | None \<Rightarrow>
              (let key = takeWhile is_key_char s in key @ secrets_loop (rev key @ before) (drop (length key) s))))"
  by pat_completeness auto

termination
  by (relation "measure (\<lambda>(before, s). length s)")
    (auto dest: credential_range_pos simp: is_key_char_def alnum_char_def)

declare secrets_loop.simps [simp del]

section \<open>Private keys\<close>

definition PEM_BEGIN :: utext where
  "PEM_BEGIN = lit ''-----BEGIN ''"

definition PEM_DASHES :: utext where
  "PEM_DASHES = lit ''-----''"

text \<open>\<^verbatim>\<open>s.find(p)\<close>.\<close>

fun find_text :: "utext \<Rightarrow> utext \<Rightarrow> nat option" where
  "find_text p [] = (if p = [] then Some 0 else None)"
| "find_text p (c # s) = (if text_starts_with (c # s) p then Some 0 else map_option Suc (find_text p s))"

definition is_key_label :: "utext \<Rightarrow> bool" where
  "is_key_label label \<longleftrightarrow> text_ends_with label (lit ''PRIVATE KEY'') \<and> list_all (\<lambda>b. upper_alpha b \<or> b = 0x20) label"

text \<open>Where the block that starts here ends; \<open>None\<close> when no block starts here.\<close>

definition pem_end :: "utext \<Rightarrow> nat option" where
  "pem_end s =
     (let upper = upper_text s; label_start = length PEM_BEGIN in
      case find_text PEM_DASHES (drop label_start upper) of
        None \<Rightarrow> None
      | Some n \<Rightarrow>
          (let label = take n (drop label_start upper); body_start = label_start + n + 5;
               end_marker = lit ''-----END '' @ label @ PEM_DASHES
           in if \<not> is_key_label label then None
              else Some (case find_text end_marker (drop body_start upper) of
                None \<Rightarrow> length s | Some m \<Rightarrow> body_start + m + length end_marker)))"

lemma pem_end_pos: "pem_end (c # cs) = Some n \<Longrightarrow> 0 < n"
  by (auto simp: pem_end_def Let_def split: option.splits if_splits)

text \<open>A header that never ends its label stops the search.\<close>

function pem_loop :: "utext \<Rightarrow> utext" where
  "pem_loop s =
     (case s of
        [] \<Rightarrow> []
      | c # cs \<Rightarrow>
          if text_starts_with (upper_text s) PEM_BEGIN then
            (if find_text PEM_DASHES (drop (length PEM_BEGIN) (upper_text s)) = None then s
             else case pem_end s of
                 None \<Rightarrow> c # pem_loop cs
               | Some n \<Rightarrow> TOOL_REDACTED @ pem_loop (drop n s))
          else c # pem_loop cs)"
  by pat_completeness auto

termination
  by (relation "measure length") (auto dest: pem_end_pos)

declare pem_loop.simps [simp del]

definition redact_private_keys :: "utext \<Rightarrow> utext" where
  "redact_private_keys raw = pem_loop raw"

definition redact_tool_secrets :: "utext \<Rightarrow> utext" where
  "redact_tool_secrets raw = secrets_loop [] (redact_private_keys raw)"

section \<open>What redaction can write\<close>

text \<open>A text that copies another but for parts of it, in whose place it has one of the given texts.\<close>

inductive copies_but :: "utext list \<Rightarrow> utext \<Rightarrow> utext \<Rightarrow> bool" for puts :: "utext list" where
  rw_nil: "copies_but puts [] []"
| rw_keep: "copies_but puts s t \<Longrightarrow> copies_but puts (c # s) (c # t)"
| rw_put: "copies_but puts s t \<Longrightarrow> p \<in> set puts \<Longrightarrow> copies_but puts (seg @ s) (p @ t)"

abbreviation redacts_to :: "utext \<Rightarrow> utext \<Rightarrow> bool" where
  "redacts_to s t \<equiv> copies_but [TOOL_REDACTED] s t"

lemma rt_put: "redacts_to s t \<Longrightarrow> redacts_to (seg @ s) (TOOL_REDACTED @ t)"
  by (rule rw_put) simp_all

lemma redacts_to_same: "redacts_to s s"
  by (induction s) (auto intro: rw_nil rw_keep)

lemma redacts_to_prefix: "redacts_to s t \<Longrightarrow> redacts_to (p @ s) (p @ t)"
  by (induction p) (auto intro: rw_nil rw_keep)

lemma redacts_to_skip: "redacts_to (drop (k + n) s) t \<Longrightarrow> redacts_to s (take k s @ TOOL_REDACTED @ t)"
proof -
  assume "redacts_to (drop (k + n) s) t"
  then have "redacts_to (take k s @ take n (drop k s) @ drop n (drop k s)) (take k s @ TOOL_REDACTED @ t)"
    by (intro redacts_to_prefix rt_put) (simp add: add.commute)
  then show ?thesis by (simp only: append_take_drop_id)
qed

lemma redacts_to_copy: "redacts_to (drop (length (takeWhile P s)) s) t \<Longrightarrow> redacts_to s (takeWhile P s @ t)"
  using redacts_to_prefix [of "dropWhile P s" t "takeWhile P s"] by (simp flip: dropWhile_eq_drop)

lemma secrets_loop_redacts: "redacts_to s (secrets_loop before s)"
proof (induction before s rule: secrets_loop.induct)
  case (1 before s)
  show ?case
  proof (cases s)
    case Nil
    then show ?thesis by (simp add: secrets_loop.simps rw_nil)
  next
    case (Cons c cs)
    show ?thesis
    proof (cases "\<not> alpha_char c \<or> (before \<noteq> [] \<and> (alnum_char (hd before) \<or> hd before = 0x5F))")
      case True
      then show ?thesis using 1(1)[OF Cons True] unfolding Cons by (subst secrets_loop.simps) (simp add: rw_keep)
    next
      case False
      show ?thesis
      proof (cases "credential_range before s")
        case None
        have "redacts_to s (takeWhile is_key_char s
            @ secrets_loop (rev (takeWhile is_key_char s) @ before) (drop (length (takeWhile is_key_char s)) s))"
          by (rule redacts_to_copy) (rule 1(2)[OF Cons False None refl])
        then show ?thesis using False None Cons by (subst secrets_loop.simps) (auto simp: Let_def)
      next
        case (Some r)
        obtain skip n where r: "r = (skip, n)" by (cases r)
        have "redacts_to s (take skip s @ TOOL_REDACTED @ secrets_loop (rev (take (skip + n) s) @ before) (drop (skip + n) s))"
          by (rule redacts_to_skip) (rule 1(3)[OF Cons False Some r [symmetric]])
        then show ?thesis using False Some r Cons by (subst secrets_loop.simps) auto
      qed
    qed
  qed
qed

lemma pem_loop_redacts: "redacts_to s (pem_loop s)"
proof (induction s rule: pem_loop.induct)
  case (1 s)
  show ?case
  proof (cases s)
    case Nil
    then show ?thesis by (simp add: pem_loop.simps rw_nil)
  next
    case (Cons c cs)
    consider (other) "\<not> text_starts_with (upper_text s) PEM_BEGIN"
      | (open_end) "text_starts_with (upper_text s) PEM_BEGIN"
          "find_text PEM_DASHES (drop (length PEM_BEGIN) (upper_text s)) = None"
      | (bad) "text_starts_with (upper_text s) PEM_BEGIN"
          "find_text PEM_DASHES (drop (length PEM_BEGIN) (upper_text s)) \<noteq> None" "pem_end s = None"
      | (block) n where "text_starts_with (upper_text s) PEM_BEGIN"
          "find_text PEM_DASHES (drop (length PEM_BEGIN) (upper_text s)) \<noteq> None" "pem_end s = Some n"
      by fastforce
    then show ?thesis
    proof cases
      case other
      then show ?thesis using 1(3)[OF Cons] Cons by (subst pem_loop.simps) (simp add: rw_keep)
    next
      case open_end
      then show ?thesis using Cons redacts_to_same [of s] by (subst pem_loop.simps) simp
    next
      case bad
      then show ?thesis using 1(1)[OF Cons bad] Cons by (subst pem_loop.simps) (auto intro: rw_keep)
    next
      case block
      have "redacts_to (take n s @ drop n s) (TOOL_REDACTED @ pem_loop (drop n s))"
        by (rule rt_put) (rule 1(2)[OF Cons block])
      then show ?thesis using block Cons by (subst pem_loop.simps) auto
    qed
  qed
qed

end
