(* ===== verification/Sk_Sanitize.thy ===== *)
theory Sk_Sanitize
  imports Sk_Tool_Secrets
begin

text \<open>
  What a host prints, on its way to a language model (\<^verbatim>\<open>crates/sysknife-brain/src/sanitize.rs\<close>):
  normalised, screened for credentials, capped, and put into an envelope that says who wrote it. NFC
  normalisation is a third-party crate and a parameter. A function that slices a \<^verbatim>\<open>str\<close> inside a character panics,
  which is the value \<open>None\<close>. What the lemmas show: nothing in the body can open or close an envelope.
\<close>

definition MAX_OUTPUT_BYTES :: nat where
  "MAX_OUTPUT_BYTES = 8 * 1024"

definition MCP_MAX_OUTPUT_BYTES :: nat where
  "MCP_MAX_OUTPUT_BYTES = 64 * 1024"

definition PROMPT_ENVELOPE_NAMES :: "string list" where
  "PROMPT_ENVELOPE_NAMES = [''untrusted_tool_output'', ''user_preferences'']"

section \<open>The passes\<close>

definition is_tool_name_char :: "nat \<Rightarrow> bool" where
  "is_tool_name_char c \<longleftrightarrow> alnum_char c \<or> c = 0x5F \<or> c = 0x2D"

definition sanitise_tool_name :: "utext \<Rightarrow> utext" where
  "sanitise_tool_name name =
     (if list_all is_tool_name_char name \<and> name \<noteq> [] then name
      else (let cleaned = map (\<lambda>c. if is_tool_name_char c then c else 0x5F) name
            in if cleaned = [] then lit ''unknown'' else cleaned))"

fun after_csi :: "utext \<Rightarrow> utext" where
  "after_csi [] = []"
| "after_csi (c # cs) = (if in_range 0x40 0x7E c then cs else after_csi cs)"

fun after_osc :: "utext \<Rightarrow> utext" where
  "after_osc [] = []"
| "after_osc [c] = []"
| "after_osc (c # d # ds) =
     (if c = 0x07 then d # ds else if c = 0x1B \<and> d = 0x5C then ds else after_osc (d # ds))"

lemma length_after_csi: "length (after_csi s) \<le> length s"
  by (induction s) auto

lemma length_after_osc: "length (after_osc s) \<le> length s"
  by (induction s rule: after_osc.induct) auto

text \<open>The source counts bytes: the two bytes it drops after an escape, and the third of a charset
  designator, are whole characters only when these are ASCII. Otherwise the next character is sliced from within.\<close>

function strip_ansi :: "utext \<Rightarrow> utext option" where
  "strip_ansi s =
     (case s of
        [] \<Rightarrow> Some []
      | c # cs \<Rightarrow>
          if c \<noteq> 0x1B then map_option (\<lambda>t. c # t) (strip_ansi cs)
          else case cs of
            [] \<Rightarrow> Some []
          | d # ds \<Rightarrow>
              if d = 0x5B then strip_ansi (after_csi ds)
              else if d = 0x5D then strip_ansi (after_osc ds)
              else if d \<in> {0x28, 0x29, 0x2A, 0x2B} then
                (case ds of [] \<Rightarrow> Some [] | e # es \<Rightarrow> if e < 0x80 then strip_ansi es else None)
              else if d < 0x80 then strip_ansi ds else None)"
  by pat_completeness auto

termination
  by (relation "measure length") (auto simp: less_Suc_eq_le le_SucI length_after_csi length_after_osc)

declare strip_ansi.simps [simp del]

definition is_dangerous_char :: "nat \<Rightarrow> bool" where
  [char_class_defs]: "is_dangerous_char c \<longleftrightarrow>
     in_range 0x00 0x08 c \<or> c = 0x0B \<or> c = 0x0C \<or> in_range 0x0E 0x1F c
     \<or> in_range 0x7F 0x9F c
     \<or> c = 0xAD \<or> c = 0x034F \<or> c = 0x180E
     \<or> in_range 0x200B 0x200F c \<or> in_range 0x2028 0x202E c \<or> in_range 0x2066 0x2069 c \<or> c = 0xFEFF
     \<or> in_range 0x2060 0x2064 c
     \<or> in_range 0xE0000 0xE007F c
     \<or> in_range 0xE000 0xF8FF c \<or> in_range 0xF0000 0xFFFFD c \<or> in_range 0x100000 0x10FFFD c"

definition strip_dangerous_unicode :: "utext \<Rightarrow> utext" where
  "strip_dangerous_unicode s = filter (\<lambda>c. \<not> is_dangerous_char c) s"

text \<open>\<^verbatim>\<open>str::replace\<close>, for a pattern that is not empty.\<close>

function replace_text :: "utext \<Rightarrow> utext \<Rightarrow> utext \<Rightarrow> utext" where
  "replace_text pat rep [] = []"
| "replace_text pat rep (c # cs) =
     (if text_starts_with (c # cs) pat then rep @ replace_text pat rep (drop (length pat - 1) cs)
      else c # replace_text pat rep cs)"
  by pat_completeness auto

termination
  by (relation "measure (\<lambda>(_, _, s). length s)") auto

definition neutralise_name :: "string \<Rightarrow> utext \<Rightarrow> utext" where
  "neutralise_name name s =
     replace_text (lit (''<'' @ name)) (lit (''<BLOCKED_'' @ name))
       (replace_text (lit (''</'' @ name)) (lit (''</BLOCKED_'' @ name)) s)"

definition neutralise_envelope_tags :: "utext \<Rightarrow> utext" where
  "neutralise_envelope_tags s = fold neutralise_name PROMPT_ENVELOPE_NAMES s"

fun collapse_loop :: "nat \<Rightarrow> utext \<Rightarrow> utext" where
  "collapse_loop consecutive_newlines [] = []"
| "collapse_loop consecutive_newlines (c # cs) =
     (if c = 0x0A then
        (if consecutive_newlines + 1 \<le> 2 then c # collapse_loop (consecutive_newlines + 1) cs
         else collapse_loop (consecutive_newlines + 1) cs)
      else c # collapse_loop 0 cs)"

definition collapse_blank_runs :: "utext \<Rightarrow> utext" where
  "collapse_blank_runs s = collapse_loop 0 s"

definition len_utf8 :: "nat \<Rightarrow> nat" where
  "len_utf8 c = (if c < 0x80 then 1 else if c < 0x800 then 2 else if c < 0x10000 then 3 else 4)"

definition byte_len :: "utext \<Rightarrow> nat" where
  "byte_len s = sum_list (map len_utf8 s)"

definition TRUNCATED :: utext where
  "TRUNCATED = 0x0A # lit ''[...truncated]''"

text \<open>The longest part from the start that ends at a character and has at most so many bytes.\<close>

fun take_bytes :: "nat \<Rightarrow> utext \<Rightarrow> utext" where
  "take_bytes n [] = []"
| "take_bytes n (c # cs) = (if len_utf8 c \<le> n then c # take_bytes (n - len_utf8 c) cs else [])"

definition truncate_with_marker :: "utext \<Rightarrow> nat \<Rightarrow> utext" where
  "truncate_with_marker s max_bytes =
     (if byte_len s \<le> max_bytes then s
      else take_bytes (max_bytes - byte_len TRUNCATED) s @ TRUNCATED)"

definition normalise_unbounded_text :: "(utext \<Rightarrow> utext) \<Rightarrow> utext \<Rightarrow> utext option" where
  "normalise_unbounded_text nfc raw =
     map_option (\<lambda>s. collapse_blank_runs (neutralise_envelope_tags (nfc (strip_dangerous_unicode s)))) (strip_ansi raw)"

definition normalise_free_text_capped :: "(utext \<Rightarrow> utext) \<Rightarrow> utext \<Rightarrow> nat \<Rightarrow> utext option" where
  "normalise_free_text_capped nfc raw max_bytes =
     map_option (\<lambda>s. truncate_with_marker s max_bytes) (normalise_unbounded_text nfc raw)"

definition normalise_free_text :: "(utext \<Rightarrow> utext) \<Rightarrow> utext \<Rightarrow> utext option" where
  "normalise_free_text nfc raw = normalise_free_text_capped nfc raw MAX_OUTPUT_BYTES"

definition normalise_preferences :: "(utext \<Rightarrow> utext) \<Rightarrow> utext \<Rightarrow> utext option" where
  "normalise_preferences nfc raw = normalise_unbounded_text nfc raw"

definition tool_body :: "(utext \<Rightarrow> utext) \<Rightarrow> utext \<Rightarrow> nat \<Rightarrow> utext option" where
  "tool_body nfc raw max_bytes =
     map_option (\<lambda>normalised. truncate_with_marker (redact_tool_secrets normalised) max_bytes)
       (normalise_unbounded_text nfc (redact_tool_secrets raw))"

definition sanitize_tool_output_capped :: "(utext \<Rightarrow> utext) \<Rightarrow> utext \<Rightarrow> utext \<Rightarrow> nat \<Rightarrow> utext option" where
  "sanitize_tool_output_capped nfc tool_name raw max_bytes =
     map_option (\<lambda>normalised. lit ''<untrusted_tool_output source='' @ [0x22] @ sanitise_tool_name tool_name
         @ [0x22] @ lit ''>'' @ [0x0A] @ normalised @ [0x0A] @ lit ''</untrusted_tool_output>'')
       (tool_body nfc raw max_bytes)"

definition sanitize_tool_output :: "(utext \<Rightarrow> utext) \<Rightarrow> utext \<Rightarrow> utext \<Rightarrow> utext option" where
  "sanitize_tool_output nfc tool_name raw = sanitize_tool_output_capped nfc tool_name raw MAX_OUTPUT_BYTES"

section \<open>Tags\<close>

fun occurs :: "utext \<Rightarrow> utext \<Rightarrow> bool" where
  "occurs p [] \<longleftrightarrow> p = []"
| "occurs p (c # s) \<longleftrightarrow> text_starts_with (c # s) p \<or> occurs p s"

definition envelope_tags :: "utext list" where
  "envelope_tags = concat (map (\<lambda>name. [lit (''<'' @ name), lit (''</'' @ name)]) PROMPT_ENVELOPE_NAMES)"

lemma text_starts_with_simps [simp]:
  "text_starts_with s []" "text_starts_with [] (p # ps) = False"
  "text_starts_with (c # s) (p # ps) \<longleftrightarrow> c = p \<and> text_starts_with s ps"
  by (auto simp: text_starts_with_def)

text \<open>Two texts that differ before either ends.\<close>

fun clash :: "utext \<Rightarrow> utext \<Rightarrow> bool" where
  "clash (a # r) (b # w) \<longleftrightarrow> a \<noteq> b \<or> clash r w"
| "clash _ _ \<longleftrightarrow> False"

lemma clash_not_prefix: "clash r w \<Longrightarrow> \<not> text_starts_with (r @ t) w"
  by (induction r w rule: clash.induct) auto

text \<open>A tag is \<open><\<close> and a text that has no \<open><\<close> and no line feed; what replaces a part of the text is \<open><\<close> and a text
  that differs from the tag.\<close>

definition is_tag_tail :: "utext \<Rightarrow> bool" where
  "is_tag_tail w \<longleftrightarrow> 0x3C \<notin> set w \<and> 0x0A \<notin> set w \<and> w \<noteq> []"

definition differs_from_tag :: "utext \<Rightarrow> utext \<Rightarrow> bool" where
  "differs_from_tag p w \<longleftrightarrow> (case p of [] \<Rightarrow> False | c # r \<Rightarrow> c = 0x3C \<and> 0x3C \<notin> set r \<and> clash r w)"

lemma copies_starts:
  "copies_but puts s t \<Longrightarrow> \<forall>p\<in>set puts. differs_from_tag p w' \<Longrightarrow> 0x3C \<notin> set w \<Longrightarrow> text_starts_with t w \<Longrightarrow> text_starts_with s w"
proof (induction arbitrary: w rule: copies_but.induct)
  case (rw_keep s t c)
  then show ?case by (cases w) auto
next
  case (rw_put s t p seg)
  have "differs_from_tag p w'" using rw_put.hyps rw_put.prems by blast
  then obtain r where "p = 0x3C # r" by (cases p) (auto simp: differs_from_tag_def)
  then show ?case using rw_put.prems by (cases w) auto
qed simp

lemma occurs_append_plain: "0x3C \<notin> set r \<Longrightarrow> occurs (0x3C # w) (r @ t) = occurs (0x3C # w) t"
  by (induction r) auto

lemma occurs_drop_front: "occurs (0x3C # w) s \<Longrightarrow> occurs (0x3C # w) (seg @ s)"
  by (induction seg) auto

lemma copies_tag_free:
  "copies_but puts s t \<Longrightarrow> \<forall>p\<in>set puts. differs_from_tag p w \<Longrightarrow> is_tag_tail w
    \<Longrightarrow> occurs (0x3C # w) t \<Longrightarrow> occurs (0x3C # w) s"
proof (induction rule: copies_but.induct)
  case (rw_keep s t c)
  show ?case
  proof (cases "occurs (0x3C # w) t")
    case True
    then show ?thesis using rw_keep by simp
  next
    case False
    then have "c = 0x3C" "text_starts_with t w" using rw_keep.prems by auto
    moreover have "text_starts_with s w"
      using copies_starts [OF rw_keep.hyps rw_keep.prems(1)] \<open>text_starts_with t w\<close> rw_keep.prems(2)
      by (simp add: is_tag_tail_def)
    ultimately show ?thesis by simp
  qed
next
  case (rw_put s t p seg)
  then have "differs_from_tag p w" by blast
  then obtain r where p: "p = 0x3C # r" "0x3C \<notin> set r" "clash r w" by (auto simp: differs_from_tag_def split: list.splits)
  then have "occurs (0x3C # w) t"
    using rw_put.prems(3) clash_not_prefix [OF p(3)] by (simp add: occurs_append_plain)
  then show ?case using rw_put by (simp add: occurs_drop_front)
qed simp

section \<open>Every pass keeps tags out\<close>

lemma replace_text_copies: "pat \<noteq> [] \<Longrightarrow> copies_but [rep] s (replace_text pat rep s)"
proof (induction pat rep s rule: replace_text.induct)
  case (2 pat rep c cs)
  show ?case
  proof (cases "text_starts_with (c # cs) pat")
    case True
    have "copies_but [rep] ((c # take (length pat - 1) cs) @ drop (length pat - 1) cs)
        (rep @ replace_text pat rep (drop (length pat - 1) cs))"
      by (rule rw_put) (use 2(1)[OF True] 2(3) in simp_all)
    then show ?thesis using True by simp
  next
    case False
    then show ?thesis using 2 by (simp add: rw_keep)
  qed
qed (simp add: rw_nil)

lemma replace_text_removes:
  "pat = 0x3C # w \<Longrightarrow> differs_from_tag rep w \<Longrightarrow> is_tag_tail w \<Longrightarrow> \<not> occurs (0x3C # w) (replace_text pat rep s)"
proof (induction pat rep s rule: replace_text.induct)
  case (2 pat rep c cs)
  show ?case
  proof (cases "text_starts_with (c # cs) pat")
    case True
    obtain r where r: "rep = 0x3C # r" "0x3C \<notin> set r" "clash r w"
      using 2(4) by (auto simp: differs_from_tag_def split: list.splits)
    have "\<not> occurs (0x3C # w) (replace_text pat rep (drop (length pat - 1) cs))"
      using 2(1)[OF True] 2(3-5) by simp
    then show ?thesis using True r clash_not_prefix [OF r(3)] by (simp add: occurs_append_plain)
  next
    case False
    have "\<not> text_starts_with (c # replace_text pat rep cs) (0x3C # w)"
    proof
      assume "text_starts_with (c # replace_text pat rep cs) (0x3C # w)"
      then have "c = 0x3C" and t: "text_starts_with (replace_text pat rep cs) w" by simp_all
      have "copies_but [rep] cs (replace_text pat rep cs)" by (rule replace_text_copies) (simp add: 2(3))
      from copies_starts [OF this _ _ t] have "text_starts_with cs w"
        using 2(4,5) by (auto simp: is_tag_tail_def)
      then show False using False \<open>c = 0x3C\<close> 2(3) by simp
    qed
    then show ?thesis using False 2(2)[OF False 2(3-5)] 2(3) by auto
  qed
qed simp

lemma replace_text_keeps_out:
  "pat \<noteq> [] \<Longrightarrow> differs_from_tag rep w \<Longrightarrow> is_tag_tail w \<Longrightarrow> \<not> occurs (0x3C # w) s
    \<Longrightarrow> \<not> occurs (0x3C # w) (replace_text pat rep s)"
  using copies_tag_free [OF replace_text_copies] by fastforce

definition tag_free :: "utext \<Rightarrow> bool" where
  "tag_free s \<longleftrightarrow> list_all (\<lambda>tag. \<not> occurs tag s) envelope_tags"

definition tag_tails :: "utext list" where
  "tag_tails = [lit ''untrusted_tool_output'', lit ''/untrusted_tool_output'', lit ''user_preferences'',
     lit ''/user_preferences'']"

lemma lit_Cons: "lit (c # s) = of_char c # lit s"
  by (simp add: lit_def ascii_text_def)

lemma lit_Nil [simp]: "lit [] = []"
  by (simp add: lit_def ascii_text_def)

lemma envelope_tags_tails: "envelope_tags = map (\<lambda>w. 0x3C # w) tag_tails"
  by (simp add: envelope_tags_def tag_tails_def PROMPT_ENVELOPE_NAMES_def lit_Cons)

lemma tag_free_tails: "tag_free s \<longleftrightarrow> (\<forall>w\<in>set tag_tails. \<not> occurs (0x3C # w) s)"
  by (simp add: tag_free_def envelope_tags_tails list_all_iff)

lemma tag_tails_are_tails: "w \<in> set tag_tails \<Longrightarrow> is_tag_tail w"
  by (auto simp: tag_tails_def lit_Cons is_tag_tail_def)

lemma blocked_texts:
  "w \<in> set tag_tails \<Longrightarrow> differs_from_tag (lit ''<BLOCKED_untrusted_tool_output'') w"
  "w \<in> set tag_tails \<Longrightarrow> differs_from_tag (lit ''</BLOCKED_untrusted_tool_output'') w"
  "w \<in> set tag_tails \<Longrightarrow> differs_from_tag (lit ''<BLOCKED_user_preferences'') w"
  "w \<in> set tag_tails \<Longrightarrow> differs_from_tag (lit ''</BLOCKED_user_preferences'') w"
  "w \<in> set tag_tails \<Longrightarrow> differs_from_tag TOOL_REDACTED w"
  by (auto simp: tag_tails_def lit_Cons differs_from_tag_def TOOL_REDACTED_def)

lemma neutralised_tag_free: "tag_free (neutralise_envelope_tags s)"
proof -
  have w1: "lit ''untrusted_tool_output'' \<in> set tag_tails" and w2: "lit ''/untrusted_tool_output'' \<in> set tag_tails"
    and w3: "lit ''user_preferences'' \<in> set tag_tails" and w4: "lit ''/user_preferences'' \<in> set tag_tails"
    by (simp_all add: tag_tails_def)
  have pats: "lit ''<untrusted_tool_output'' = 0x3C # lit ''untrusted_tool_output''"
    "lit ''</untrusted_tool_output'' = 0x3C # lit ''/untrusted_tool_output''"
    "lit ''<user_preferences'' = 0x3C # lit ''user_preferences''"
    "lit ''</user_preferences'' = 0x3C # lit ''/user_preferences''"
    by (simp_all add: lit_Cons)
  note removes = replace_text_removes [OF refl _ tag_tails_are_tails] and keeps = replace_text_keeps_out [OF _ _ tag_tails_are_tails]
  define s1 where "s1 = replace_text (0x3C # lit ''/untrusted_tool_output'') (lit ''</BLOCKED_untrusted_tool_output'') s"
  define s2 where "s2 = replace_text (0x3C # lit ''untrusted_tool_output'') (lit ''<BLOCKED_untrusted_tool_output'') s1"
  define s3 where "s3 = replace_text (0x3C # lit ''/user_preferences'') (lit ''</BLOCKED_user_preferences'') s2"
  define s4 where "s4 = replace_text (0x3C # lit ''user_preferences'') (lit ''<BLOCKED_user_preferences'') s3"
  have "neutralise_envelope_tags s = s4"
    by (simp add: neutralise_envelope_tags_def PROMPT_ENVELOPE_NAMES_def neutralise_name_def pats s1_def s2_def s3_def s4_def)
  moreover have "\<not> occurs (0x3C # lit ''/untrusted_tool_output'') s4"
    unfolding s4_def s3_def s2_def s1_def
    by (intro keeps removes blocked_texts w2 list.simps(3))
  moreover have "\<not> occurs (0x3C # lit ''untrusted_tool_output'') s4"
    unfolding s4_def s3_def s2_def
    by (intro keeps removes blocked_texts w1 list.simps(3))
  moreover have "\<not> occurs (0x3C # lit ''/user_preferences'') s4"
    unfolding s4_def s3_def
    by (intro keeps removes blocked_texts w4 list.simps(3))
  moreover have "\<not> occurs (0x3C # lit ''user_preferences'') s4"
    unfolding s4_def by (intro removes blocked_texts w3)
  ultimately show ?thesis by (simp add: tag_free_tails tag_tails_def)
qed

lemma copies_keep_tag_free: "copies_but [TOOL_REDACTED] s t \<Longrightarrow> tag_free s \<Longrightarrow> tag_free t"
  using copies_tag_free [OF _ _ tag_tails_are_tails] blocked_texts(5) unfolding tag_free_tails by fastforce

lemma redact_private_keys_redacts: "redacts_to s (redact_private_keys s)"
  by (simp add: redact_private_keys_def pem_loop_redacts)

lemma redacted_tag_free: "tag_free s \<Longrightarrow> tag_free (redact_tool_secrets s)"
  unfolding redact_tool_secrets_def
  by (intro copies_keep_tag_free [OF secrets_loop_redacts] copies_keep_tag_free [OF redact_private_keys_redacts])

lemma collapse_loop_starts:
  "0x0A \<notin> set w \<Longrightarrow> n < 2 \<Longrightarrow> text_starts_with (collapse_loop n s) w \<Longrightarrow> text_starts_with s w"
proof (induction w arbitrary: n s)
  case (Cons a w)
  show ?case
  proof (cases s)
    case Nil
    then show ?thesis using Cons.prems by simp
  next
    case s: (Cons c cs)
    then have "c = a \<and> text_starts_with (collapse_loop 0 cs) w"
      using Cons.prems by (cases "c = 0x0A") simp_all
    then show ?thesis using Cons.IH [of 0 cs] Cons.prems(1) s by simp
  qed
qed simp

lemma collapse_loop_tag_free: "0x0A \<notin> set w \<Longrightarrow> occurs (0x3C # w) (collapse_loop n s) \<Longrightarrow> occurs (0x3C # w) s"
proof (induction n s rule: collapse_loop.induct)
  case (2 n c cs)
  then show ?case using collapse_loop_starts [of w 0 cs] by (auto split: if_splits)
qed simp

lemma collapsed_tag_free: "tag_free s \<Longrightarrow> tag_free (collapse_blank_runs s)"
  using tag_tails_are_tails
  by (auto simp: tag_free_tails collapse_blank_runs_def is_tag_tail_def dest: collapse_loop_tag_free)

lemma take_bytes_prefix: "prefix (take_bytes n s) s"
  by (induction n s rule: take_bytes.induct) auto

lemma starts_append: "text_starts_with s w \<Longrightarrow> text_starts_with (s @ r) w"
proof (induction w arbitrary: s)
  case (Cons a w)
  then show ?case by (cases s) auto
qed simp

lemma starts_before_newline: "0x0A \<notin> set w \<Longrightarrow> text_starts_with (s @ 0x0A # m) w \<Longrightarrow> text_starts_with s w"
proof (induction w arbitrary: s)
  case (Cons a w)
  then show ?case by (cases s) auto
qed simp

lemma occurs_append: "occurs p s \<Longrightarrow> occurs p (s @ r)"
proof (induction s)
  case Nil
  then show ?case by (cases r) simp_all
next
  case (Cons c s)
  then show ?case using starts_append [of "c # s" p r] by auto
qed

lemma occurs_before_newline:
  "0x0A \<notin> set w \<Longrightarrow> 0x3C \<notin> set m \<Longrightarrow> occurs (0x3C # w) (s @ 0x0A # m) \<Longrightarrow> occurs (0x3C # w) s"
proof (induction s)
  case Nil
  then show ?case using occurs_append_plain [of m w "[]"] by simp
next
  case (Cons c s)
  then show ?case using starts_before_newline [of w s m] by auto
qed

lemma truncated_tag_free: "tag_free s \<Longrightarrow> tag_free (truncate_with_marker s n)"
proof -
  assume free: "tag_free s"
  obtain r where r: "s = take_bytes (n - byte_len TRUNCATED) s @ r"
    using take_bytes_prefix [of "n - byte_len TRUNCATED" s] by (auto simp: prefix_def)
  have "\<not> occurs (0x3C # w) (take_bytes (n - byte_len TRUNCATED) s @ 0x0A # lit ''[...truncated]'')"
    if "w \<in> set tag_tails" for w
  proof
    assume "occurs (0x3C # w) (take_bytes (n - byte_len TRUNCATED) s @ 0x0A # lit ''[...truncated]'')"
    then have "occurs (0x3C # w) (take_bytes (n - byte_len TRUNCATED) s)"
      using tag_tails_are_tails [OF that] by (elim occurs_before_newline [rotated 2]) (auto simp: is_tag_tail_def lit_Cons)
    then have "occurs (0x3C # w) s" by (subst r) (rule occurs_append)
    then show False using free that by (simp add: tag_free_tails)
  qed
  then show ?thesis using free by (simp add: truncate_with_marker_def tag_free_tails TRUNCATED_def)
qed

lemma normalised_tag_free: "normalise_unbounded_text nfc raw = Some s \<Longrightarrow> tag_free s"
  by (auto simp: normalise_unbounded_text_def intro: collapsed_tag_free neutralised_tag_free)

lemma tool_body_tag_free: "tool_body nfc raw n = Some s \<Longrightarrow> tag_free s"
  by (auto simp: tool_body_def intro!: truncated_tag_free redacted_tag_free dest: normalised_tag_free)

lemma byte_len_take_bytes: "byte_len (take_bytes n s) \<le> n"
  by (induction n s rule: take_bytes.induct) (auto simp: byte_len_def)

lemma byte_len_append [simp]: "byte_len (a @ b) = byte_len a + byte_len b"
  by (simp add: byte_len_def)

lemma byte_len_TRUNCATED [simp]: "byte_len TRUNCATED = 15"
  by (simp add: byte_len_def TRUNCATED_def lit_Cons len_utf8_def)

lemma byte_len_truncated: "15 \<le> n \<Longrightarrow> byte_len (truncate_with_marker s n) \<le> n"
  using byte_len_take_bytes [of "n - 15" s] by (auto simp: truncate_with_marker_def)

lemma sanitised_tool_name: "list_all is_tool_name_char (sanitise_tool_name name) \<and> sanitise_tool_name name \<noteq> []"
  by (auto simp: sanitise_tool_name_def Let_def list_all_iff is_tool_name_char_def lit_Cons char_class_defs)

text \<open>The passes return unless an escape is followed by a character that is not ASCII.\<close>

fun plain_escapes :: "utext \<Rightarrow> bool" where
  "plain_escapes [] = True"
| "plain_escapes (c # cs) \<longleftrightarrow> (c = 0x1B \<longrightarrow> list_all (\<lambda>d. d < 0x80) (take 2 cs)) \<and> plain_escapes cs"

lemma plain_escapes_after_csi: "plain_escapes s \<Longrightarrow> plain_escapes (after_csi s)"
  by (induction s) auto

lemma plain_escapes_after_osc: "plain_escapes s \<Longrightarrow> plain_escapes (after_osc s)"
  by (induction s rule: after_osc.induct) auto

lemma strip_ansi_returns: "plain_escapes s \<Longrightarrow> strip_ansi s \<noteq> None"
proof (induction s rule: length_induct)
  case (1 s)
  note IH = 1(1) [rule_format]
  show ?case
  proof (cases s)
    case Nil
    then show ?thesis by (simp add: strip_ansi.simps)
  next
    case (Cons c cs)
    have rest: "strip_ansi cs \<noteq> None" using IH [of cs] 1(2) Cons by simp
    show ?thesis
    proof (cases "c = 0x1B")
      case False
      then show ?thesis using rest Cons by (subst strip_ansi.simps) simp
    next
      case esc: True
      show ?thesis
      proof (cases cs)
        case Nil
        then show ?thesis using Cons esc by (subst strip_ansi.simps) simp
      next
        case ds: (Cons d ds)
        have small: "d < 0x80" "list_all (\<lambda>e. e < 0x80) (take 1 ds)" and plain: "plain_escapes ds"
          using 1(2) Cons esc ds by (auto simp: numeral_2_eq_2)
        have "strip_ansi (after_csi ds) \<noteq> None" "strip_ansi (after_osc ds) \<noteq> None" "strip_ansi ds \<noteq> None"
          using IH plain Cons ds length_after_csi [of ds] length_after_osc [of ds]
          by (simp_all add: plain_escapes_after_csi plain_escapes_after_osc)
        moreover have "strip_ansi es \<noteq> None" if "ds = e # es" for e es
          using IH [of es] plain Cons ds that by simp
        ultimately show ?thesis
          using small Cons esc ds by (subst strip_ansi.simps) (cases ds; simp)
      qed
    qed
  qed
qed

lemma strip_ansi_panics: "strip_ansi (0x1B # 0xE9 # s) = None"
  by (subst strip_ansi.simps) simp

end
