(* ===== verification/Sk_Unicode.thy ===== *)
theory Sk_Unicode
  imports Sk_Sanitize
begin

text \<open>
  UTF-8. Most of the development has a Rust \<^verbatim>\<open>str\<close> as its bytes (\<open>string\<close>), the theories on text have it as its
  scalar values (\<open>utext\<close>); \<open>to_utf8\<close> and \<open>from_utf8\<close> go between the two, and lose nothing.
\<close>

definition utf8_byte :: "nat \<Rightarrow> char" where
  "utf8_byte n = char_of n"

definition utf8_char :: "nat \<Rightarrow> string" where
  "utf8_char c =
     (if c < 0x80 then [utf8_byte c]
      else if c < 0x800 then [utf8_byte (0xC0 + c div 64), utf8_byte (0x80 + c mod 64)]
      else if c < 0x10000 then
        [utf8_byte (0xE0 + c div 4096), utf8_byte (0x80 + c div 64 mod 64), utf8_byte (0x80 + c mod 64)]
      else [utf8_byte (0xF0 + c div 262144), utf8_byte (0x80 + c div 4096 mod 64),
            utf8_byte (0x80 + c div 64 mod 64), utf8_byte (0x80 + c mod 64)])"

definition to_utf8 :: "utext \<Rightarrow> string" where
  "to_utf8 cs = concat (map utf8_char cs)"

fun utf8_decode :: "nat list \<Rightarrow> utext" where
  "utf8_decode [] = []"
| "utf8_decode (b # bs) =
     (if b < 0xE0 then
        (if b < 0xC0 then b # utf8_decode bs
         else case bs of b1 # r \<Rightarrow> ((b - 0xC0) * 64 + (b1 - 0x80)) # utf8_decode r | [] \<Rightarrow> [])
      else if b < 0xF0 then
        (case bs of b1 # b2 # r \<Rightarrow> ((b - 0xE0) * 4096 + (b1 - 0x80) * 64 + (b2 - 0x80)) # utf8_decode r | _ \<Rightarrow> [])
      else (case bs of b1 # b2 # b3 # r \<Rightarrow>
             ((b - 0xF0) * 262144 + (b1 - 0x80) * 4096 + (b2 - 0x80) * 64 + (b3 - 0x80)) # utf8_decode r
           | _ \<Rightarrow> []))"

definition from_utf8 :: "string \<Rightarrow> utext" where
  "from_utf8 s = utf8_decode (map of_char s)"

definition is_scalar :: "nat \<Rightarrow> bool" where
  "is_scalar c \<longleftrightarrow> c < 0x110000"

lemma utf8_byte_value: "n < 256 \<Longrightarrow> (of_char (utf8_byte n) :: nat) = n"
  by (simp add: utf8_byte_def of_char_of)

lemma utf8_decode_char:
  assumes "is_scalar c"
  shows "utf8_decode (map of_char (utf8_char c) @ r) = c # utf8_decode r"
proof -
  consider "c < 0x80" | "0x80 \<le> c" "c < 0x800" | "0x800 \<le> c" "c < 0x10000" | "0x10000 \<le> c" "c < 0x110000"
    using assms unfolding is_scalar_def by linarith
  then show ?thesis
  proof cases
    case 1
    then show ?thesis by (simp add: utf8_char_def utf8_byte_value)
  next
    case 2
    define q m where "q = c div 64" and "m = c mod 64"
    have "q < 32" "m < 64" "q * 64 + m = c" using 2 by (simp_all add: q_def m_def)
    then show ?thesis using 2 by (simp add: utf8_char_def utf8_byte_value flip: q_def m_def)
  next
    case 3
    define q p m where "q = c div 4096" and "p = c div 64 mod 64" and "m = c mod 64"
    have "c div 4096 = c div 64 div 64" by (simp add: div_mult2_eq [symmetric])
    then have "q * 4096 + p * 64 + m = c"
      unfolding q_def p_def m_def using div_mult_mod_eq [of "c div 64" 64] div_mult_mod_eq [of c 64] by linarith
    moreover have "q < 16" "p < 64" "m < 64" using 3 by (simp_all add: q_def p_def m_def)
    ultimately show ?thesis using 3 by (simp add: utf8_char_def utf8_byte_value flip: q_def p_def m_def)
  next
    case 4
    define q o' p m where "q = c div 262144" and "o' = c div 4096 mod 64" and "p = c div 64 mod 64" and "m = c mod 64"
    have "c div 4096 = c div 64 div 64" "c div 262144 = c div 4096 div 64" by (simp_all add: div_mult2_eq [symmetric])
    then have "q * 262144 + o' * 4096 + p * 64 + m = c"
      unfolding q_def o'_def p_def m_def
      using div_mult_mod_eq [of "c div 4096" 64] div_mult_mod_eq [of "c div 64" 64] div_mult_mod_eq [of c 64]
      by linarith
    moreover have "q < 16" "o' < 64" "p < 64" "m < 64" using 4 by (simp_all add: q_def o'_def p_def m_def)
    ultimately show ?thesis using 4 by (simp add: utf8_char_def utf8_byte_value flip: q_def o'_def p_def m_def)
  qed
qed

lemma from_utf8_to_utf8: "list_all is_scalar cs \<Longrightarrow> from_utf8 (to_utf8 cs) = cs"
proof (induction cs)
  case (Cons c cs)
  then show ?case
    using utf8_decode_char [of c "map of_char (to_utf8 cs)"] by (simp add: from_utf8_def to_utf8_def)
qed (simp add: from_utf8_def to_utf8_def)

lemma length_utf8_char: "length (utf8_char c) = len_utf8 c"
  by (simp add: utf8_char_def len_utf8_def)

lemma length_to_utf8: "length (to_utf8 cs) = byte_len cs"
  by (induction cs) (simp_all add: to_utf8_def byte_len_def length_utf8_char)

end
