(* ===== verification/Sk_Plan.thy ===== *)
theory Sk_Plan
  imports Sk_Platform Sk_Preview Sk_Unicode
begin

text \<open>
  Plans: what a language model may propose and what the clients accept of it
  (\<^verbatim>\<open>crates/sysknife-brain/src/planner.rs\<close>, \<^verbatim>\<open>planning_tools/propose_plan.rs\<close>, \<^verbatim>\<open>planning_tools/refuse.rs\<close>;
  \<^verbatim>\<open>apps/sysknife-cli/src/distro_routing.rs\<close> and the checks of \<^verbatim>\<open>runner.rs\<close> before a plan is shown). What the
  lemmas show: an accepted plan has only catalogued actions with commands the daemon can build, at the
  daemon's own risk; and the routing guard of the clients agrees with the fence of the daemon.
\<close>

section \<open>Risk levels\<close>

datatype plan_risk_level = PlanLow | PlanMedium | PlanHigh

fun plan_rank :: "plan_risk_level \<Rightarrow> nat" where
  "plan_rank PlanLow = 0"
| "plan_rank PlanMedium = 1"
| "plan_rank PlanHigh = 2"

lemma plan_rank_inject [simp]: "plan_rank a = plan_rank b \<longleftrightarrow> a = b"
  by (cases a; cases b) simp_all

instantiation plan_risk_level :: linorder
begin

definition less_eq_plan_risk_level :: "plan_risk_level \<Rightarrow> plan_risk_level \<Rightarrow> bool" where
  "a \<le> b \<longleftrightarrow> plan_rank a \<le> plan_rank b"

definition less_plan_risk_level :: "plan_risk_level \<Rightarrow> plan_risk_level \<Rightarrow> bool" where
  "a < b \<longleftrightarrow> plan_rank a < plan_rank b"

instance
  by standard (auto simp: less_eq_plan_risk_level_def less_plan_risk_level_def)

end

lemmas plan_order_defs = less_eq_plan_risk_level_def less_plan_risk_level_def

lemma plan_risk_extremes [simp]: "PlanLow \<le> r" "r \<le> PlanHigh"
  by (cases r; simp add: plan_order_defs)+

fun plan_risk_as_str :: "plan_risk_level \<Rightarrow> string" where
  "plan_risk_as_str PlanLow = ''low''"
| "plan_risk_as_str PlanMedium = ''medium''"
| "plan_risk_as_str PlanHigh = ''high''"

definition requires_approval :: "plan_risk_level \<Rightarrow> bool" where
  "requires_approval risk \<longleftrightarrow> risk \<noteq> PlanLow"

fun plan_risk_of :: "risk_level \<Rightarrow> plan_risk_level" where
  "plan_risk_of Low = PlanLow"
| "plan_risk_of Medium = PlanMedium"
| "plan_risk_of High = PlanHigh"

section \<open>Plans\<close>

record plan_step =
  ps_action_name :: string
  ps_summary :: string
  ps_risk_level :: plan_risk_level
  ps_params :: json

datatype pref_change_kind = Remember | Forget

record pref_change =
  pc_kind :: pref_change_kind
  pc_fact :: string

record plan =
  pl_intent :: string
  pl_summary :: string
  pl_explanation :: string
  pl_steps :: "plan_step list"
  pl_pref_changes :: "pref_change list"

text \<open>\<open>Panicked\<close>: the planner was unwound by a panic.\<close>

datatype planning_error =
    EmptyIntent
  | IntentTooLong nat nat
  | IntentContainsSensitiveData
  | RateLimitExceeded nat
  | StateUnavailable string
  | PlannerStuck
  | NoPlanProposed
  | Refused string "string option"
  | Provider string
  | InvalidPlanOutput string
  | Panicked

definition plan_step_new :: "string \<Rightarrow> string \<Rightarrow> plan_risk_level \<Rightarrow> json \<Rightarrow> planning_error + plan_step" where
  "plan_step_new action_name summary risk_level params =
     (if summary = [] then Inl (InvalidPlanOutput ''PlanStep summary must not be empty'')
      else Inr \<lparr>ps_action_name = action_name, ps_summary = summary, ps_risk_level = risk_level, ps_params = params\<rparr>)"

definition plan_new :: "string \<Rightarrow> string \<Rightarrow> string \<Rightarrow> plan_step list \<Rightarrow> planning_error + plan" where
  "plan_new intent summary explanation steps =
     (if intent = [] then Inl (InvalidPlanOutput ''Plan intent must not be empty'')
      else if summary = [] then Inl (InvalidPlanOutput ''Plan summary must not be empty'')
      else if explanation = [] then Inl (InvalidPlanOutput ''Plan explanation must not be empty'')
      else if steps = [] then Inl (InvalidPlanOutput ''Plan must have at least one step'')
      else Inr \<lparr>pl_intent = intent, pl_summary = summary, pl_explanation = explanation, pl_steps = steps,
                pl_pref_changes = []\<rparr>)"

definition with_pref_changes :: "pref_change list \<Rightarrow> plan \<Rightarrow> plan" where
  "with_pref_changes changes p = p\<lparr>pl_pref_changes := changes\<rparr>"

text \<open>An \<^verbatim>\<open>AuthorizedPlan\<close> is made of a plan in one way only.\<close>

datatype authorized_plan = AuthorizedPlan (authorized: plan)

definition into_authorized :: "(string \<Rightarrow> plan_risk_level) \<Rightarrow> plan \<Rightarrow> authorized_plan" where
  "into_authorized risk_for p =
     AuthorizedPlan (p\<lparr>pl_steps := map (\<lambda>s. s\<lparr>ps_risk_level := risk_for (ps_action_name s)\<rparr>) (pl_steps p)\<rparr>)"

definition authorized_steps :: "authorized_plan \<Rightarrow> plan_step list" where
  "authorized_steps p = pl_steps (authorized p)"

definition highest_risk :: "authorized_plan \<Rightarrow> plan_risk_level option" where
  "highest_risk p = (case map ps_risk_level (authorized_steps p) of [] \<Rightarrow> None | r # rs \<Rightarrow> Some (fold max rs r))"

definition authoritative_plan_risk :: "string \<Rightarrow> plan_risk_level" where
  "authoritative_plan_risk action_name = plan_risk_of (gate_risk action_name)"

section \<open>The proposal of a model\<close>

definition CREDENTIAL_ACTIONS_WITHOUT_ENTRY :: "string list" where
  "CREDENTIAL_ACTIONS_WITHOUT_ENTRY = [''ProAttach'']"

definition CREDENTIAL_PARAMS_WITHOUT_ENTRY :: "(string \<times> string) list" where
  "CREDENTIAL_PARAMS_WITHOUT_ENTRY = [(''ConfigureWifi'', ''password'')]"

definition requires_unavailable_credential_entry :: "string \<Rightarrow> bool" where
  "requires_unavailable_credential_entry action \<longleftrightarrow> action \<in> set CREDENTIAL_ACTIONS_WITHOUT_ENTRY"

definition forbidden_credential_param :: "string \<Rightarrow> json \<Rightarrow> string option" where
  "forbidden_credential_param action params =
     map_option snd (find (\<lambda>(a, p). a = action \<and> get_param params p \<noteq> None) CREDENTIAL_PARAMS_WITHOUT_ENTRY)"

text \<open>What the parser uses of other code: \<^verbatim>\<open>serde_json::from_str\<close>, NFC normalisation, and how \<^verbatim>\<open>{:?}\<close> writes a string.\<close>

record plan_env =
  pe_debug_str :: "string \<Rightarrow> string"
  pe_json_parse :: "string \<Rightarrow> json option"
  pe_nfc :: "utext \<Rightarrow> utext"

definition normalise_operator_text :: "plan_env \<Rightarrow> string \<Rightarrow> planning_error + string" where
  "normalise_operator_text env raw =
     (case normalise_free_text (pe_nfc env) (from_utf8 raw) of
        None \<Rightarrow> Inl Panicked | Some s \<Rightarrow> Inr (to_utf8 s))"

definition text_field :: "json \<Rightarrow> string \<Rightarrow> string option" where
  "text_field j key = option_filter (\<lambda>s. s \<noteq> []) (Option.bind (get_param j key) as_str)"

definition step_error :: "nat \<Rightarrow> string \<Rightarrow> planning_error" where
  "step_error i message = InvalidPlanOutput (''step '' @ dec i @ '': '' @ message)"

definition in_quotes :: "string \<Rightarrow> string" where
  "in_quotes s = CHR 0x27 # s @ [CHR 0x27]"

definition parse_step_risk_level :: "nat \<Rightarrow> string \<Rightarrow> planning_error + plan_risk_level" where
  "parse_step_risk_level i risk_str =
     (if risk_str = ''low'' then Inr PlanLow
      else if risk_str = ''medium'' then Inr PlanMedium
      else if risk_str = ''high'' then Inr PlanHigh
      else Inl (step_error i (''invalid risk_level '' @ in_quotes risk_str)))"

definition parse_step_params :: "plan_env \<Rightarrow> nat \<Rightarrow> json \<Rightarrow> planning_error + json" where
  "parse_step_params env i step_val =
     and_then
       (case get_param step_val ''params'' of
          Some (JStr s) \<Rightarrow>
            if s = [] then Inr (JObj [])
            else ok_or (step_error i (in_quotes ''params'' @ '' is not valid JSON: '' @ pe_debug_str env s)) (pe_json_parse env s)
        | Some v \<Rightarrow> Inr v
        | None \<Rightarrow> Inr (JObj []))
       (\<lambda>params. case params of
          JObj _ \<Rightarrow> Inr params
        | _ \<Rightarrow> Inl (step_error i (in_quotes ''params'' @ '' must be an object'')))"

definition parse_step :: "plan_env \<Rightarrow> nat \<Rightarrow> json \<Rightarrow> planning_error + plan_step" where
  "parse_step env i step_val =
     and_then (ok_or (step_error i (''missing '' @ in_quotes ''action_name'')) (text_field step_val ''action_name''))
       (\<lambda>action_name.
     if requires_unavailable_credential_entry action_name then
       Inl (step_error i (''action '' @ in_quotes action_name @ '' requires credential entry unavailable to the planner''))
     else
     and_then (case action_name_parse action_name of
         Inl _ \<Rightarrow> Inl (step_error i (''unknown action_name '' @ in_quotes action_name)) | Inr n \<Rightarrow> Inr n) (\<lambda>name.
     and_then (ok_or (step_error i (''missing '' @ in_quotes ''summary'')) (text_field step_val ''summary'')) (\<lambda>step_summary.
     and_then (ok_or (step_error i (''missing '' @ in_quotes ''risk_level'')) (Option.bind (get_param step_val ''risk_level'') as_str))
       (\<lambda>risk_str.
     and_then (parse_step_risk_level i risk_str) (\<lambda>risk_level.
     and_then (parse_step_params env i step_val) (\<lambda>params.
     (case forbidden_credential_param action_name params of
        Some param \<Rightarrow> Inl (step_error i (in_quotes action_name @ '' param '' @ in_quotes param
          @ '' is a credential, and the planner has no entry channel for one''))
      | None \<Rightarrow>
          and_then (normalise_operator_text env step_summary) (\<lambda>summary.
            plan_step_new name summary risk_level params))))))))"

fun parse_steps :: "plan_env \<Rightarrow> nat \<Rightarrow> json list \<Rightarrow> planning_error + plan_step list" where
  "parse_steps env i [] = Inr []"
| "parse_steps env i (v # vs) =
     and_then (parse_step env i v) (\<lambda>s. and_then (parse_steps env (Suc i) vs) (\<lambda>ss. Inr (s # ss)))"

definition as_array :: "json \<Rightarrow> json list option" where
  "as_array j = (case j of JArr vs \<Rightarrow> Some vs | _ \<Rightarrow> None)"

definition parse_proposed_plan :: "plan_env \<Rightarrow> string \<Rightarrow> json \<Rightarrow> planning_error + plan" where
  "parse_proposed_plan env intent input =
     and_then (ok_or (InvalidPlanOutput (''missing or empty '' @ in_quotes ''summary'')) (text_field input ''summary'')) (\<lambda>summary.
     and_then (ok_or (InvalidPlanOutput (''missing or empty '' @ in_quotes ''explanation'')) (text_field input ''explanation''))
       (\<lambda>explanation.
     and_then (ok_or (InvalidPlanOutput (in_quotes ''steps'' @ '' must be an array'')) (Option.bind (get_param input ''steps'') as_array))
       (\<lambda>steps_value.
     if steps_value = [] then Inl (InvalidPlanOutput (in_quotes ''steps'' @ '' must not be empty''))
     else
     and_then (parse_steps env 0 steps_value) (\<lambda>steps.
     and_then (normalise_operator_text env summary) (\<lambda>s.
     and_then (normalise_operator_text env explanation) (\<lambda>e. plan_new intent s e steps))))))"

text \<open>A refusal has to say why.\<close>

record refusal =
  rf_reason :: string
  rf_suggestion :: "string option"

definition parse_refusal :: "plan_env \<Rightarrow> json \<Rightarrow> planning_error + (string + refusal)" where
  "parse_refusal env input =
     (let reason = (case Option.bind (get_param input ''reason'') as_str of Some s \<Rightarrow> trim s | None \<Rightarrow> []) in
      if reason = [] then Inr (Inl (in_quotes ''reason'' @ '' is required and must not be empty: a refusal has to say why''))
      else
        (let suggestion = option_filter (\<lambda>s. s \<noteq> [])
           (map_option trim (Option.bind (get_param input ''suggestion'') as_str)) in
         and_then (normalise_operator_text env reason) (\<lambda>r.
         and_then (transpose_map (normalise_operator_text env) suggestion) (\<lambda>s.
           Inr (Inr \<lparr>rf_reason = r, rf_suggestion = s\<rparr>)))))"

section \<open>Which actions are offered\<close>

datatype hint_family = HintFedora | HintDebian | HintOther

record distro_hint =
  dh_id :: string
  dh_family :: hint_family
  dh_version :: "string option"

fun distro_id_to_hint :: "distro_id \<Rightarrow> distro_hint" where
  "distro_id_to_hint d =
     \<lparr>dh_id = (case d of
        Ubuntu _ _ \<Rightarrow> ''ubuntu'' | UbuntuCore _ _ \<Rightarrow> ''ubuntu-core'' | Debian _ \<Rightarrow> ''debian''
      | Fedora _ \<Rightarrow> ''fedora'' | FedoraSilverblue _ \<Rightarrow> ''fedora'' | OtherDistro name _ _ \<Rightarrow> name),
      dh_family = (case distro_family_of d of
        FamilyFedora \<Rightarrow> HintFedora | FamilyDebian \<Rightarrow> HintDebian | FamilyOther \<Rightarrow> HintOther),
      dh_version = Some (distro_to_string d)\<rparr>"

definition available_on :: "string \<Rightarrow> distro_hint option \<Rightarrow> bool" where
  "available_on action hint =
     (if requires_unavailable_credential_entry action then False
      else case hint of
        None \<Rightarrow> True
      | Some h \<Rightarrow>
          if dh_id h = ''ubuntu-core'' then \<not> action_requires_supported_host action
          else if dh_id h \<noteq> ''ubuntu'' \<and> action \<in> set UBUNTU_ONLY_ACTIONS then False
          else if dh_family h = HintDebian \<and> dh_id h \<noteq> ''ubuntu'' \<and> action \<in> set NON_CANONICAL_ON_DEBIAN_HOST then False
          else (case dh_family h of
            HintDebian \<Rightarrow> action \<notin> set FEDORA_ONLY_ACTIONS \<and> action \<notin> set NON_CANONICAL_ON_DEBIAN
          | HintFedora \<Rightarrow> action \<notin> set DEBIAN_ONLY_ACTIONS \<and> action \<notin> set UBUNTU_ONLY_ACTIONS
              \<and> action \<notin> set NON_CANONICAL_ON_FEDORA
          | HintOther \<Rightarrow> \<not> action_requires_supported_host action))"

section \<open>The checks of the clients\<close>

fun family_label :: "distro_family \<Rightarrow> string" where
  "family_label FamilyFedora = ''Fedora family''"
| "family_label FamilyDebian = ''Debian family''"
| "family_label FamilyOther = ''unknown family''"

definition check_action_distro :: "string \<Rightarrow> distro_id option \<Rightarrow> string + unit" where
  "check_action_distro action_name host =
     (case host of
        None \<Rightarrow> Inr ()
      | Some distro \<Rightarrow>
          (let family = distro_family_of distro in
           if action_name \<in> set UBUNTU_ONLY_ACTIONS \<and> \<not> action_matches_distro action_name distro then
             Inl (action_name @ '' requires Ubuntu itself; current distro is '' @ distro_to_string distro)
           else if action_name \<in> set DEBIAN_ONLY_ACTIONS \<and> family \<noteq> FamilyDebian then
             Inl (action_name @ '' is only valid on Debian-family distros (apt/dpkg/GRUB); current distro is ''
               @ distro_to_string distro @ '' ('' @ family_label family @ '')'')
           else if action_name \<in> set FEDORA_ONLY_ACTIONS \<and> family \<noteq> FamilyFedora then
             Inl (action_name @ '' is only valid on Fedora-family distros (rpm-ostree/dnf); current distro is ''
               @ distro_to_string distro @ '' ('' @ family_label family @ '')'')
           else if action_requires_supported_host action_name \<and> \<not> is_supported distro then
             Inl (action_name @ '' is disabled on unsupported distro '' @ distro_to_string distro
               @ ''; see docs/distro-support.md'')
           else Inr ()))"

fun check_plan_steps_distro :: "string list \<Rightarrow> distro_id option \<Rightarrow> string + unit" where
  "check_plan_steps_distro [] host = Inr ()"
| "check_plan_steps_distro (n # ns) host =
     and_then (check_action_distro n host) (\<lambda>_. check_plan_steps_distro ns host)"

definition action_is_available_on_distro :: "string \<Rightarrow> distro_id option \<Rightarrow> bool" where
  "action_is_available_on_distro action_name host =
     (case host of
        Some distro \<Rightarrow> is_ok (check_action_distro action_name (Some distro))
      | None \<Rightarrow> \<not> action_requires_distro action_name)"

section \<open>Accepted plans\<close>

text \<open>What a step of an accepted plan is.\<close>

definition plan_step_ok :: "plan_step \<Rightarrow> bool" where
  "plan_step_ok s \<longleftrightarrow> ps_action_name s \<in> set KNOWN_ACTION_NAMES
     \<and> ps_action_name s \<notin> set CREDENTIAL_ACTIONS_WITHOUT_ENTRY
     \<and> ps_summary s \<noteq> [] \<and> (\<exists>entries. ps_params s = JObj entries)
     \<and> list_all (\<lambda>(a, p). a = ps_action_name s \<longrightarrow> get_param (ps_params s) p = None) CREDENTIAL_PARAMS_WITHOUT_ENTRY"

lemma plan_step_new_Inr [simp]:
  "plan_step_new n sm r ps = Inr s \<longleftrightarrow> sm \<noteq> [] \<and>
     s = \<lparr>ps_action_name = n, ps_summary = sm, ps_risk_level = r, ps_params = ps\<rparr>"
  by (auto simp: plan_step_new_def)

lemma only_objects: "(case j of JObj _ \<Rightarrow> Inr j | _ \<Rightarrow> Inl e) = Inr p \<Longrightarrow> \<exists>entries. p = JObj entries"
  by (cases j) auto

lemma parse_step_params_Inr: "parse_step_params env i v = Inr p \<Longrightarrow> \<exists>entries. p = JObj entries"
  unfolding parse_step_params_def and_then_eq_Inr by (elim exE conjE) (rule only_objects)

lemma forbidden_credential_param_None:
  "forbidden_credential_param n ps = None \<Longrightarrow>
     list_all (\<lambda>(a, p). a = n \<longrightarrow> get_param ps p = None) CREDENTIAL_PARAMS_WITHOUT_ENTRY"
  by (auto simp: forbidden_credential_param_def find_None_iff list_all_iff)

lemma parse_step_ok:
  assumes "parse_step env i v = Inr s"
  shows "plan_step_ok s \<and> text_field v ''action_name'' = Some (ps_action_name s)"
proof -
  obtain n where n: "text_field v ''action_name'' = Some n" "\<not> requires_unavailable_credential_entry n"
    using assms by (auto simp: parse_step_def split: if_splits)
  obtain name sm r rl ps summary where rest: "action_name_parse n = Inr name" "parse_step_params env i v = Inr ps"
    "forbidden_credential_param n ps = None" "plan_step_new name summary rl ps = Inr s"
    using assms n by (auto simp: parse_step_def split: option.splits sum.splits)
  then show ?thesis
    using n parse_step_params_Inr [OF rest(2)] forbidden_credential_param_None [OF rest(3)]
    by (auto simp: plan_step_ok_def requires_unavailable_credential_entry_def)
qed

lemma parse_steps_ok:
  "parse_steps env i vs = Inr ss \<Longrightarrow> list_all plan_step_ok ss \<and> length ss = length vs
     \<and> map Some (map ps_action_name ss) = map (\<lambda>v. text_field v ''action_name'') vs"
  by (induction env i vs arbitrary: ss rule: parse_steps.induct) (auto dest: parse_step_ok)

lemma plan_new_Inr:
  "plan_new intent sm ex ss = Inr p \<longleftrightarrow> intent \<noteq> [] \<and> sm \<noteq> [] \<and> ex \<noteq> [] \<and> ss \<noteq> [] \<and>
     p = \<lparr>pl_intent = intent, pl_summary = sm, pl_explanation = ex, pl_steps = ss, pl_pref_changes = []\<rparr>"
  by (auto simp: plan_new_def)

lemma parse_proposed_plan_ok:
  assumes "parse_proposed_plan env intent input = Inr p"
  shows "pl_steps p \<noteq> [] \<and> list_all plan_step_ok (pl_steps p) \<and> pl_intent p = intent
    \<and> pl_summary p \<noteq> [] \<and> pl_explanation p \<noteq> [] \<and> pl_pref_changes p = []"
  using assms
  by (auto simp: parse_proposed_plan_def plan_new_Inr dest!: parse_steps_ok split: if_splits)

section \<open>The routing guard\<close>

lemma family_lists_disjoint:
  "n \<in> set UBUNTU_ONLY_ACTIONS \<Longrightarrow> n \<notin> set DEBIAN_ONLY_ACTIONS \<and> n \<notin> set FEDORA_ONLY_ACTIONS"
  "n \<in> set DEBIAN_ONLY_ACTIONS \<Longrightarrow> n \<notin> set FEDORA_ONLY_ACTIONS"
  by (auto simp: family_lists)

lemma check_action_distro_supported:
  assumes "is_supported d"
  shows "is_ok (check_action_distro n (Some d)) \<longleftrightarrow> action_matches_distro n d"
  using assms family_lists_disjoint [of n]
  by (auto simp: check_action_distro_def Let_def action_matches_distro_def)

lemma validate_action_platform_supported:
  assumes "is_supported d"
  shows "is_ok (validate_action_platform (Some d) n) \<longleftrightarrow> action_matches_distro n d
    \<or> (\<not> action_requires_distro n \<and> \<not> (case min_role_for_action n of Some r \<Rightarrow> r > Observer | None \<Rightarrow> False))"
  using assms by (auto simp: validate_action_platform_def Let_def)

lemma unfenced_matches: "\<not> action_requires_distro n \<Longrightarrow> action_matches_distro n d"
  by (auto simp: action_requires_distro_def action_matches_distro_def)

theorem guard_agrees_with_fence:
  assumes "is_supported d"
  shows "is_ok (check_action_distro n (Some d)) \<longleftrightarrow> is_ok (validate_action_platform (Some d) n)"
  using assms by (auto simp: check_action_distro_supported validate_action_platform_supported unfenced_matches)

theorem guard_on_unsupported_host:
  assumes "\<not> is_supported d"
  shows "is_ok (check_action_distro n (Some d)) \<longleftrightarrow> \<not> action_requires_supported_host n"
  using assms family_lists_disjoint [of n]
  by (auto simp: check_action_distro_def Let_def action_requires_supported_host_def action_requires_distro_def)

theorem offered_passes_guard:
  assumes "is_supported d" "available_on n (Some (distro_id_to_hint d))"
  shows "is_ok (check_action_distro n (Some d))"
  using assms family_lists_disjoint [of n]
  by (cases d) (auto simp: check_action_distro_supported available_on_def action_matches_distro_def split: if_splits)

end
