(* ===== verification/Sk_Client.thy ===== *)
theory Sk_Client
  imports Sk_Execute Sk_Plan
begin

text \<open>
  What the clients know of the daemon: the errors of the command line and their exit codes
  (\<^verbatim>\<open>apps/sysknife-cli/src/error.rs\<close>), the approval policy (\<^verbatim>\<open>approval.rs\<close>), the consent to unattended runs
  (\<^verbatim>\<open>cli.rs\<close>) and the client of the socket (\<^verbatim>\<open>client.rs\<close>). One connection is an \<open>exchange\<close>: whether it
  connects and takes the request, and the frames that come back; after the listed frames nothing arrives. The
  decoders that \<^verbatim>\<open>serde\<close> derives and the removal of escapes (a third-party crate) are parameters.
\<close>

section \<open>Errors\<close>

datatype max_risk = MaxLow | MaxMedium | MaxHigh

fun max_risk_rank :: "max_risk \<Rightarrow> nat" where
  "max_risk_rank MaxLow = 0"
| "max_risk_rank MaxMedium = 1"
| "max_risk_rank MaxHigh = 2"

fun max_risk_as_str :: "max_risk \<Rightarrow> string" where
  "max_risk_as_str MaxLow = ''low''"
| "max_risk_as_str MaxMedium = ''medium''"
| "max_risk_as_str MaxHigh = ''high''"

fun risk_includes :: "max_risk \<Rightarrow> plan_risk_level \<Rightarrow> bool" where
  "risk_includes MaxLow risk \<longleftrightarrow> risk = PlanLow"
| "risk_includes MaxMedium risk \<longleftrightarrow> risk = PlanLow \<or> risk = PlanMedium"
| "risk_includes MaxHigh risk \<longleftrightarrow> True"

datatype cli_error =
    Rejected
  | ExecutionFailed string
  | CliTimedOut nat
  | CliNeedsReboot string
  | PlanningFailed string
  | CliRefused string "string option"
  | ConfigOrDaemon string
  | RiskCeilingExceeded plan_risk_level max_risk
  | NonInteractive
  | UnattendedConsentMissing string
  | ApprovalNeedsTerminal
  | ApprovalViewIncomplete string nat string
  | RunViewIncomplete string nat string
  | Exit int

fun cli_exit_code :: "cli_error \<Rightarrow> int" where
  "cli_exit_code Rejected = 1"
| "cli_exit_code (CliRefused _ _) = 1"
| "cli_exit_code (RiskCeilingExceeded _ _) = 1"
| "cli_exit_code NonInteractive = 1"
| "cli_exit_code (UnattendedConsentMissing _) = 1"
| "cli_exit_code ApprovalNeedsTerminal = 1"
| "cli_exit_code (ApprovalViewIncomplete _ _ _) = 1"
| "cli_exit_code (RunViewIncomplete _ _ _) = 1"
| "cli_exit_code (ExecutionFailed _) = 2"
| "cli_exit_code (CliTimedOut _) = 2"
| "cli_exit_code (PlanningFailed _) = 3"
| "cli_exit_code (ConfigOrDaemon _) = 4"
| "cli_exit_code (CliNeedsReboot _) = 5"
| "cli_exit_code (Exit code) = code"

fun cli_error_to_string :: "cli_error \<Rightarrow> string" where
  "cli_error_to_string Rejected = ''plan rejected by user''"
| "cli_error_to_string (ExecutionFailed m) = ''execution failed: '' @ m"
| "cli_error_to_string (CliTimedOut n) = ''operation timed out after '' @ dec n @ ''s''"
| "cli_error_to_string (CliNeedsReboot m) = ''execution paused: '' @ m"
| "cli_error_to_string (PlanningFailed m) = ''planning failed: '' @ m"
| "cli_error_to_string (CliRefused reason _) = ''cannot satisfy that request: '' @ reason"
| "cli_error_to_string (ConfigOrDaemon m) = ''config/daemon error: '' @ m"
| "cli_error_to_string (RiskCeilingExceeded highest ceiling) =
     ''plan contains a '' @ plan_risk_as_str highest @ '' step, but --max-risk ceiling is '' @ max_risk_as_str ceiling"
| "cli_error_to_string NonInteractive = ''plan requires interactive approval but --non-interactive was set''"
| "cli_error_to_string (UnattendedConsentMissing m) = m"
| "cli_error_to_string ApprovalNeedsTerminal =
     ''sysknife approve needs a terminal to confirm on, and stdin is not one ''
     @ ''(it is a pipe, a redirect, or a non-interactive ssh command). Run it directly in a shell.''"
| "cli_error_to_string (ApprovalViewIncomplete transaction_id withheld shortened_note) =
     ''the proposed change does not fit the approval view: '' @ dec withheld @ '' line(s) were not shown''
     @ shortened_note @ ''. Approving would mean consenting to text you were not shown. ''
     @ ''Re-run with --full to see all of it: sysknife approve '' @ transaction_id @ '' --full''"
| "cli_error_to_string (RunViewIncomplete what withheld shortened_note) =
     what @ '' does not fit on screen: '' @ dec withheld @ '' line(s) were not shown'' @ shortened_note
     @ ''. Approving would mean consenting to text you were not shown. Re-run with --json to see all of it ''
     @ ''before you answer''"
| "cli_error_to_string (Exit code) = ''subcommand exit code '' @ dec_int code"

section \<open>The approval policy\<close>

definition HARDCODED_MAX_AUTO_APPROVE :: max_risk where
  "HARDCODED_MAX_AUTO_APPROVE = MaxMedium"

definition UNATTENDED_MAX_AUTO_APPROVE :: max_risk where
  "UNATTENDED_MAX_AUTO_APPROVE = MaxHigh"

record approval_policy =
  ap_yes :: bool
  ap_max_risk :: "max_risk option"
  ap_non_interactive :: bool
  ap_dry_run :: bool
  ap_skip_approval :: bool

datatype approval_decision = AutoApproved | RequiresPrompt | RequiresInteraction | ExceedsCeiling max_risk

definition approval_policy_new :: "bool \<Rightarrow> max_risk option \<Rightarrow> bool \<Rightarrow> bool \<Rightarrow> bool \<Rightarrow> approval_policy" where
  "approval_policy_new yes max_risk non_interactive dry_run skip_approval =
     \<lparr>ap_yes = yes, ap_max_risk = max_risk, ap_non_interactive = non_interactive, ap_dry_run = dry_run,
      ap_skip_approval = skip_approval\<rparr>"

definition min_risk :: "max_risk \<Rightarrow> max_risk \<Rightarrow> max_risk" where
  "min_risk a b = (if max_risk_rank a \<le> max_risk_rank b then a else b)"

definition effective_auto_ceiling :: "approval_policy \<Rightarrow> max_risk option" where
  "effective_auto_ceiling p =
     (if \<not> ap_yes p then None
      else
        (let requested = (case ap_max_risk p of Some r \<Rightarrow> r | None \<Rightarrow> MaxLow);
             cap = (if ap_skip_approval p then UNATTENDED_MAX_AUTO_APPROVE else HARDCODED_MAX_AUTO_APPROVE)
         in Some (min_risk requested cap)))"

definition decide_step :: "approval_policy \<Rightarrow> plan_risk_level \<Rightarrow> approval_decision" where
  "decide_step p risk =
     (if ap_dry_run p then AutoApproved
      else case ap_max_risk p of
        Some ceiling \<Rightarrow>
          if \<not> risk_includes ceiling risk then ExceedsCeiling ceiling
          else (case effective_auto_ceiling p of
              Some auto_ceiling \<Rightarrow>
                if risk_includes auto_ceiling risk then AutoApproved
                else if ap_non_interactive p then RequiresInteraction else RequiresPrompt
            | None \<Rightarrow> if ap_non_interactive p then RequiresInteraction else RequiresPrompt)
      | None \<Rightarrow> (case effective_auto_ceiling p of
            Some auto_ceiling \<Rightarrow>
              if risk_includes auto_ceiling risk then AutoApproved
              else if ap_non_interactive p then RequiresInteraction else RequiresPrompt
          | None \<Rightarrow> if ap_non_interactive p then RequiresInteraction else RequiresPrompt))"

fun decide_loop :: "approval_policy \<Rightarrow> approval_decision \<Rightarrow> plan_step list \<Rightarrow> approval_decision" where
  "decide_loop p worst [] = worst"
| "decide_loop p worst (s # ss) =
     (case decide_step p (ps_risk_level s) of
        ExceedsCeiling c \<Rightarrow> ExceedsCeiling c
      | RequiresInteraction \<Rightarrow> RequiresInteraction
      | RequiresPrompt \<Rightarrow> decide_loop p RequiresPrompt ss
      | AutoApproved \<Rightarrow> decide_loop p worst ss)"

definition decide_plan :: "approval_policy \<Rightarrow> authorized_plan \<Rightarrow> approval_decision" where
  "decide_plan p plan = decide_loop p AutoApproved (authorized_steps plan)"

definition UNATTENDED_CONSENT_VALUE :: string where
  "UNATTENDED_CONSENT_VALUE = ''1''"

datatype unattended_consent = NotRequested | Granted | FlagWithoutEnv | EnvWithoutFlag

definition unattended_resolve :: "bool \<Rightarrow> string option \<Rightarrow> unattended_consent" where
  "unattended_resolve flag env_value =
     (let env_ok = (env_value = Some UNATTENDED_CONSENT_VALUE) in
      if flag \<and> env_ok then Granted
      else if flag then FlagWithoutEnv
      else if env_ok then EnvWithoutFlag
      else NotRequested)"

definition is_granted :: "unattended_consent \<Rightarrow> bool" where
  "is_granted c \<longleftrightarrow> c = Granted"

datatype gate_action = Proceed | AskOperator | Refuse cli_error

definition gate_action_of :: "approval_decision \<Rightarrow> plan_risk_level \<Rightarrow> gate_action" where
  "gate_action_of decision highest =
     (case decision of
        AutoApproved \<Rightarrow> Proceed
      | RequiresPrompt \<Rightarrow> AskOperator
      | RequiresInteraction \<Rightarrow> Refuse NonInteractive
      | ExceedsCeiling ceiling \<Rightarrow> Refuse (RiskCeilingExceeded highest ceiling))"

section \<open>The socket\<close>

datatype sent = WriteOk | WriteTimedOut | WriteFailed string

datatype frame = FrameTimedOut | FrameFailed string | Frame string

record exchange =
  ex_connect :: "cli_error option"
  ex_write :: sent
  ex_frames :: "frame list"

record client_env =
  ce_json_parse :: "string \<Rightarrow> string + json"
  ce_json_debug :: "json \<Rightarrow> string"
  ce_preview :: "json \<Rightarrow> string + preview_envelope"
  ce_result :: "json \<Rightarrow> string + result_envelope"
  ce_strip_ansi :: "string \<Rightarrow> string"
  ce_pretty :: "json \<Rightarrow> string"

definition next_frame :: "frame list \<Rightarrow> frame" where
  "next_frame fs = (case fs of [] \<Rightarrow> FrameTimedOut | f # _ \<Rightarrow> f)"

definition SEND_TIMED_OUT :: string where
  "SEND_TIMED_OUT = ''timed out after 10s sending the request to the daemon''"

definition frame_timed_out :: "string \<Rightarrow> string" where
  "frame_timed_out secs = ''timed out after '' @ secs @ ''s waiting for the next frame from the daemon; ''
     @ ''the job may still be running server-side''"

text \<open>The steps that \<^verbatim>\<open>preview\<close>, \<^verbatim>\<open>approval_details\<close>, \<^verbatim>\<open>approve\<close> and \<^verbatim>\<open>describe\<close> share: connect, write, read one frame.\<close>

definition read_reply :: "client_env \<Rightarrow> exchange \<Rightarrow> cli_error + json" where
  "read_reply env x =
     (case ex_connect x of Some e \<Rightarrow> Inl e
      | None \<Rightarrow> (case ex_write x of
          WriteTimedOut \<Rightarrow> Inl (ConfigOrDaemon SEND_TIMED_OUT)
        | WriteFailed e \<Rightarrow> Inl (ConfigOrDaemon (''send: '' @ e))
        | WriteOk \<Rightarrow> (case next_frame (ex_frames x) of
            FrameTimedOut \<Rightarrow> Inl (ConfigOrDaemon (frame_timed_out ''10''))
          | FrameFailed e \<Rightarrow> Inl (ConfigOrDaemon (''recv: '' @ e))
          | Frame raw \<Rightarrow> (case ce_json_parse env raw of
              Inl e \<Rightarrow> Inl (ConfigOrDaemon (''parse response: '' @ e)) | Inr j \<Rightarrow> Inr j))))"

definition index_json :: "json \<Rightarrow> string \<Rightarrow> json" where
  "index_json j key = (case get_param j key of Some v \<Rightarrow> v | None \<Rightarrow> JNull)"

definition str_at :: "json \<Rightarrow> string \<Rightarrow> string option" where
  "str_at j key = as_str (index_json j key)"

definition unwrap_or :: "'a \<Rightarrow> 'a option \<Rightarrow> 'a" where
  "unwrap_or d v = (case v of Some x \<Rightarrow> x | None \<Rightarrow> d)"

definition error_text :: "json \<Rightarrow> string" where
  "error_text resp = unwrap_or ''error'' (str_at resp ''category'') @ '': '' @ unwrap_or ''unknown'' (str_at resp ''message'')"

definition unexpected_response :: "client_env \<Rightarrow> json \<Rightarrow> cli_error" where
  "unexpected_response env resp =
     ConfigOrDaemon (''unexpected response type: '' @ ce_json_debug env (index_json resp ''type''))"

definition non_empty_str :: "json \<Rightarrow> string \<Rightarrow> string option" where
  "non_empty_str resp key = option_filter (\<lambda>s. s \<noteq> []) (str_at resp key)"

record prepared_preview =
  pp_transaction_id :: string
  pp_preview :: preview_envelope

definition client_preview :: "client_env \<Rightarrow> exchange \<Rightarrow> cli_error + prepared_preview" where
  "client_preview env x =
     and_then (read_reply env x) (\<lambda>resp.
       if str_at resp ''type'' = Some ''preview_response'' then
         (case ce_preview env (index_json resp ''preview'') of
            Inl e \<Rightarrow> Inl (ConfigOrDaemon (''parse preview envelope: '' @ e))
          | Inr envelope \<Rightarrow>
              and_then (ok_or (ConfigOrDaemon ''preview_response missing transaction_id'')
                  (non_empty_str resp ''transaction_id''))
                (\<lambda>transaction_id. Inr \<lparr>pp_transaction_id = transaction_id, pp_preview = envelope\<rparr>))
       else if str_at resp ''type'' = Some ''error_response'' then Inl (PlanningFailed (error_text resp))
       else Inl (unexpected_response env resp))"

record approval_details =
  ad_transaction_id :: string
  ad_action_name :: string
  ad_preview :: preview_envelope

definition client_approval_details :: "client_env \<Rightarrow> exchange \<Rightarrow> cli_error + approval_details" where
  "client_approval_details env x =
     and_then (read_reply env x) (\<lambda>resp.
       if str_at resp ''type'' = Some ''approval_details_response'' then
         (let required_field = (\<lambda>field. ok_or (ConfigOrDaemon (''approval_details_response missing '' @ field))
                (non_empty_str resp field)) in
          and_then (required_field ''transaction_id'') (\<lambda>transaction_id.
          and_then (required_field ''action_name'') (\<lambda>action_name.
          (case ce_preview env (index_json resp ''preview'') of
             Inl e \<Rightarrow> Inl (ConfigOrDaemon (''parse approval preview: '' @ e))
           | Inr preview \<Rightarrow> Inr \<lparr>ad_transaction_id = transaction_id, ad_action_name = action_name,
               ad_preview = preview\<rparr>))))
       else if str_at resp ''type'' = Some ''error_response'' then
         Inl (ConfigOrDaemon (''approval lookup failed ('' @ unwrap_or ''error'' (str_at resp ''category'') @ ''): ''
           @ unwrap_or ''unknown'' (str_at resp ''message'')))
       else Inl (unexpected_response env resp))"

definition client_approve :: "client_env \<Rightarrow> exchange \<Rightarrow> cli_error + string" where
  "client_approve env x =
     and_then (read_reply env x) (\<lambda>resp.
       if str_at resp ''type'' = Some ''approval_response'' then
         ok_or (ConfigOrDaemon ''approval_response missing approval_receipt'') (non_empty_str resp ''approval_receipt'')
       else if str_at resp ''type'' = Some ''error_response'' then
         Inl (ConfigOrDaemon (''approval rejected ('' @ unwrap_or ''error'' (str_at resp ''category'') @ ''): ''
           @ unwrap_or ''unknown'' (str_at resp ''message'')))
       else Inl (unexpected_response env resp))"

definition client_describe :: "client_env \<Rightarrow> (json \<Rightarrow> string) \<Rightarrow> exchange \<Rightarrow> cli_error + string" where
  "client_describe env display x =
     and_then (read_reply env x) (\<lambda>resp.
       if str_at resp ''type'' = Some ''describe_response'' then Inr (unwrap_or [] (str_at resp ''command''))
       else if str_at resp ''type'' = Some ''error_response'' then Inl (PlanningFailed (error_text resp))
       else Inl (ConfigOrDaemon (''unexpected response type: '' @ display (index_json resp ''type''))))"

record execute_failure =
  ef_error :: cli_error
  ef_outcome_unknown :: bool

definition execute_failed :: "cli_error \<Rightarrow> execute_failure" where
  "execute_failed e = \<lparr>ef_error = e, ef_outcome_unknown = False\<rparr>"

definition execute_unknown :: "cli_error \<Rightarrow> execute_failure" where
  "execute_unknown e = \<lparr>ef_error = e, ef_outcome_unknown = True\<rparr>"

text \<open>The loop over the frames of a running job, with the lines it has handed on.\<close>

fun execute_loop :: "client_env \<Rightarrow> string list \<Rightarrow> frame list \<Rightarrow> string list \<times> (execute_failure + result_envelope)" where
  "execute_loop env lines [] = (lines, Inl (execute_unknown (ExecutionFailed (frame_timed_out ''7500''))))"
| "execute_loop env lines (FrameTimedOut # fs) = (lines, Inl (execute_unknown (ExecutionFailed (frame_timed_out ''7500''))))"
| "execute_loop env lines (FrameFailed e # fs) = (lines, Inl (execute_unknown (ExecutionFailed (''recv: '' @ e))))"
| "execute_loop env lines (Frame raw # fs) =
     (case ce_json_parse env raw of
        Inl e \<Rightarrow> (lines, Inl (execute_unknown (ExecutionFailed (''parse: '' @ e))))
      | Inr resp \<Rightarrow>
          if str_at resp ''type'' = Some ''job_started'' then execute_loop env lines fs
          else if str_at resp ''type'' = Some ''job_progress'' then
            (case str_at resp ''line'' of
               None \<Rightarrow> (lines, Inl (execute_unknown (ExecutionFailed (''job_progress message missing '' @ in_quotes ''line''
                 @ '' string field''))))
             | Some line \<Rightarrow> execute_loop env (lines @ [ce_strip_ansi env line]) fs)
          else if str_at resp ''type'' = Some ''job_completed'' then
            (case ce_result env (index_json resp ''result'') of
               Inl e \<Rightarrow> (lines, Inl (execute_unknown (ExecutionFailed (''parse result: '' @ e))))
             | Inr envelope \<Rightarrow> (lines, Inr envelope))
          else if str_at resp ''type'' = Some ''error_response'' then
            (lines, Inl (execute_failed (ExecutionFailed (error_text resp))))
          else if str_at resp ''type'' = Some ''conflict_response'' then
            (case str_at resp ''message'' of
               None \<Rightarrow> (lines, Inl (execute_unknown (ExecutionFailed (''conflict_response message missing '' @ in_quotes ''message''
                 @ '' string field''))))
             | Some message \<Rightarrow> (lines, Inl (execute_failed (ExecutionFailed (''conflict: '' @ message)))))
          else (lines, Inl (execute_unknown (ExecutionFailed (''unexpected response type: ''
            @ ce_json_debug env (index_json resp ''type''))))))"

definition execute_with_outcome :: "client_env \<Rightarrow> exchange \<Rightarrow> string list \<times> (execute_failure + result_envelope)" where
  "execute_with_outcome env x =
     (case ex_connect x of Some e \<Rightarrow> ([], Inl (execute_failed e))
      | None \<Rightarrow> (case ex_write x of
          WriteTimedOut \<Rightarrow> ([], Inl (execute_unknown (ConfigOrDaemon SEND_TIMED_OUT)))
        | WriteFailed e \<Rightarrow> ([], Inl (execute_unknown (ConfigOrDaemon (''send: '' @ e))))
        | WriteOk \<Rightarrow> execute_loop env [] (ex_frames x)))"

definition client_execute :: "client_env \<Rightarrow> exchange \<Rightarrow> string list \<times> (cli_error + result_envelope)" where
  "client_execute env x =
     (case execute_with_outcome env x of
        (lines, Inl failure) \<Rightarrow> (lines, Inl (ef_error failure)) | (lines, Inr result) \<Rightarrow> (lines, Inr result))"

text \<open>Which frame decided: the first that is neither the start of a job nor a line of it.\<close>

definition is_job_chatter :: "client_env \<Rightarrow> frame \<Rightarrow> bool" where
  "is_job_chatter env f \<longleftrightarrow> (case f of
     Frame raw \<Rightarrow> (case ce_json_parse env raw of
         Inr resp \<Rightarrow> str_at resp ''type'' = Some ''job_started''
           \<or> (str_at resp ''type'' = Some ''job_progress'' \<and> str_at resp ''line'' \<noteq> None)
       | Inl _ \<Rightarrow> False)
   | _ \<Rightarrow> False)"

definition is_refusal_frame :: "client_env \<Rightarrow> frame \<Rightarrow> bool" where
  "is_refusal_frame env f \<longleftrightarrow> (case f of
     Frame raw \<Rightarrow> (case ce_json_parse env raw of
         Inr resp \<Rightarrow> str_at resp ''type'' = Some ''error_response''
           \<or> (str_at resp ''type'' = Some ''conflict_response'' \<and> str_at resp ''message'' \<noteq> None)
       | Inl _ \<Rightarrow> False)
   | _ \<Rightarrow> False)"

text \<open>The daemon refused: after the start of the job and lines of it, if any, it sent an error or a conflict.\<close>

fun refused_by :: "client_env \<Rightarrow> frame list \<Rightarrow> bool" where
  "refused_by env [] = False"
| "refused_by env (f # fs) \<longleftrightarrow> is_refusal_frame env f \<or> (is_job_chatter env f \<and> refused_by env fs)"

lemma execute_loop_known:
  "execute_loop env lines fs = (out, Inl f) \<Longrightarrow> \<not> ef_outcome_unknown f \<Longrightarrow> refused_by env fs"
proof (induction env lines fs rule: execute_loop.induct)
  case (4 env lines raw fs)
  show ?case
  proof (cases "ce_json_parse env raw")
    case (Inl e)
    then show ?thesis using 4(3,4) by (auto simp: execute_unknown_def)
  next
    case resp: (Inr resp)
    consider "str_at resp ''type'' = Some ''job_started''"
      | line where "str_at resp ''type'' = Some ''job_progress''" "str_at resp ''line'' = Some line"
      | "is_refusal_frame env (Frame raw)"
      using 4(3,4) resp
      by (fastforce simp: is_refusal_frame_def execute_unknown_def split: option.splits if_splits sum.splits)
    then show ?thesis
    proof cases
      case 1
      then show ?thesis using 4(1)[OF resp] 4(3,4) resp by (simp add: is_job_chatter_def)
    next
      case 2
      then show ?thesis using 4(2)[OF resp] 4(3,4) resp by (simp add: is_job_chatter_def)
    next
      case 3
      then show ?thesis by simp
    qed
  qed
qed (auto simp: execute_unknown_def)

end
