(* ===== verification/Sk_Cli.thy ===== *)
theory Sk_Cli
  imports Sk_Client
begin

text \<open>
  The command line as a client of the daemon (\<^verbatim>\<open>apps/sysknife-cli/src/runner.rs\<close>, \<^verbatim>\<open>render.rs\<close>): running an
  authorized plan, and approving one transaction. A run is a tree of what it shows, asks and requests; an
  answer is the line that the operator types (\<open>None\<close> at the end of the input), and \<open>cli_run\<close> gives what is left of a
  run after a sequence of events. Spinners, colours and the output of finished steps are left out.
\<close>

section \<open>Runs\<close>

datatype question =
    ExecutePlan nat plan_risk_level
  | SavePreferences nat
  | ApplyStep string plan_risk_level
  | ExecuteStep string utext
  | ApproveTransaction string
  | TypeActionName string

datatype shown = ShownPlan "operator_block list" | ShownPreview string "operator_block list" | ShownText string
  | ShownView string utext

datatype cli =
    CliDone "cli_error + unit"
  | Show shown cli
  | Ask question "string option \<Rightarrow> cli"
  | Request daemon_request "exchange \<Rightarrow> cli"
  | SavePref pref_change "string + bool \<Rightarrow> cli"

datatype cli_event =
    Showed shown
  | Asked question "string option"
  | Exchanged daemon_request exchange
  | Saved pref_change "string + bool"

fun cli_next :: "cli \<Rightarrow> cli_event \<Rightarrow> cli option" where
  "cli_next (Show s k) (Showed s') = (if s = s' then Some k else None)"
| "cli_next (Ask q k) (Asked q' answer) = (if q = q' then Some (k answer) else None)"
| "cli_next (Request r k) (Exchanged r' x) = (if r = r' then Some (k x) else None)"
| "cli_next (SavePref c k) (Saved c' outcome) = (if c = c' then Some (k outcome) else None)"
| "cli_next _ _ = None"

fun cli_run :: "cli \<Rightarrow> cli_event list \<Rightarrow> cli option" where
  "cli_run p [] = Some p"
| "cli_run p (ev # evs) = Option.bind (cli_next p ev) (\<lambda>p'. cli_run p' evs)"

text \<open>\<^verbatim>\<open>prompt_confirm\<close> and \<^verbatim>\<open>prompt_exact\<close>.\<close>

definition confirms :: "string option \<Rightarrow> bool" where
  "confirms answer \<longleftrightarrow> (case answer of
     None \<Rightarrow> False | Some line \<Rightarrow> to_ascii_lowercase (trim line) \<in> {''y'', ''yes''})"

definition types_exactly :: "string \<Rightarrow> string option \<Rightarrow> bool" where
  "types_exactly expected answer \<longleftrightarrow> (case answer of None \<Rightarrow> False | Some line \<Rightarrow> trim line = expected)"

section \<open>What is shown\<close>

record omissions =
  om_withheld_lines :: nat
  om_shortened_lines :: nat

definition is_none :: "omissions \<Rightarrow> bool" where
  "is_none om \<longleftrightarrow> om_withheld_lines om = 0 \<and> om_shortened_lines om = 0"

definition omissions_of :: "operator_block list \<Rightarrow> omissions" where
  "omissions_of blocks = \<lparr>om_withheld_lines = sum_list (map ob_withheld_lines blocks),
     om_shortened_lines = sum_list (map ob_shortened_lines blocks)\<rparr>"

definition json_block :: "client_env \<Rightarrow> json \<Rightarrow> operator_block option" where
  "json_block env v =
     (let nothing = (case v of JNull \<Rightarrow> True | JObj m \<Rightarrow> m = [] | JArr vs \<Rightarrow> vs = [] | _ \<Rightarrow> False)
      in if nothing then None else Some (operator_safe_block (from_utf8 (ce_pretty env v))))"

definition without_line_breaks :: "utext \<Rightarrow> utext" where
  "without_line_breaks s = map (\<lambda>c. if c = 0x0A \<or> c = 0x0D then 0x20 else c) s"

definition plan_blocks :: "client_env \<Rightarrow> authorized_plan \<Rightarrow> operator_block list" where
  "plan_blocks env plan =
     concat (map (\<lambda>s. opt_list (json_block env (ps_params s))) (authorized_steps plan))
     @ map (\<lambda>c. operator_safe_block (without_line_breaks (from_utf8 (pc_fact c)))) (pl_pref_changes (authorized plan))"

definition preview_blocks :: "client_env \<Rightarrow> preview_envelope \<Rightarrow> operator_block list" where
  "preview_blocks env preview =
     opt_list (json_block env (pv_proposed_change preview))
     @ (if pv_expected_side_effects preview = [] then []
        else [operator_safe_block (join_lines
          (map (\<lambda>e. lit ''- '' @ without_line_breaks (from_utf8 e)) (pv_expected_side_effects preview)))])"

definition shortened_note :: "nat \<Rightarrow> string" where
  "shortened_note shortened =
     (if shortened = 0 then [] else '', and '' @ dec shortened @ '' shown line(s) were cut short'')"

definition require_complete_view :: "omissions \<Rightarrow> string \<Rightarrow> cli_error + unit" where
  "require_complete_view view what =
     (if is_none view then Inr ()
      else Inl (RunViewIncomplete what (om_withheld_lines view) (shortened_note (om_shortened_lines view))))"

section \<open>Running a plan\<close>

record run_opts =
  ro_yes :: bool
  ro_max_risk :: "max_risk option"
  ro_non_interactive :: bool
  ro_dry_run :: bool
  ro_json :: bool
  ro_step_by_step :: bool
  ro_skip_approval :: bool

definition approval_policy_of :: "run_opts \<Rightarrow> approval_policy" where
  "approval_policy_of opts =
     approval_policy_new (ro_yes opts) (ro_max_risk opts) (ro_non_interactive opts) (ro_dry_run opts) (ro_skip_approval opts)"

definition post_preview_confirmation_required :: "bool \<Rightarrow> plan_risk_level \<Rightarrow> bool" where
  "post_preview_confirmation_required step_by_step risk \<longleftrightarrow> step_by_step \<or> risk \<ge> PlanMedium"

definition unattended_marker_present :: "string list \<Rightarrow> bool" where
  "unattended_marker_present warnings \<longleftrightarrow> list_ex (\<lambda>w. w = UNATTENDED_WARNING) warnings"

definition daemon_risk_within_approved :: "plan_risk_level \<Rightarrow> plan_risk_level \<Rightarrow> bool" where
  "daemon_risk_within_approved approved daemon \<longleftrightarrow> daemon \<le> approved"

definition step_completion_verdict :: "string \<Rightarrow> job_state \<Rightarrow> string \<Rightarrow> cli_error + unit" where
  "step_completion_verdict action_name status summary =
     (case status of
        Succeeded \<Rightarrow> Inr ()
      | NeedsReboot \<Rightarrow> Inl (CliNeedsReboot (''step '' @ action_name
          @ '' needs a reboot before subsequent steps can run: '' @ summary))
      | other \<Rightarrow> Inl (ExecutionFailed (''step '' @ action_name @ '' ended in '' @ job_state_debug other @ '': '' @ summary)))"

definition preview_error :: "nat \<Rightarrow> string \<Rightarrow> cli_error \<Rightarrow> cli_error" where
  "preview_error executed_steps action_name err =
     (if executed_steps = 0 then err
      else ExecutionFailed (action_name @ '' preview failed after '' @ dec executed_steps @ '' executed step(s): ''
        @ (case err of PlanningFailed message \<Rightarrow> message | other \<Rightarrow> cli_error_to_string other)))"

definition unrecorded_error :: "string \<Rightarrow> cli_error" where
  "unrecorded_error action_name = ConfigOrDaemon (action_name
     @ '': this run has the approval gate lifted, but the daemon did not record it in ''
     @ ''the preview warnings, so the audit row would not show that no human approved. ''
     @ ''The daemon is older than this CLI. Upgrade it, or drop --dangerously-skip-approval.'')"

definition risk_skew_error :: "string \<Rightarrow> plan_risk_level \<Rightarrow> plan_risk_level \<Rightarrow> cli_error" where
  "risk_skew_error action_name daemon approved = ConfigOrDaemon (action_name @ '': the running daemon rates this ''
     @ plan_risk_as_str daemon @ '' risk, above the '' @ plan_risk_as_str approved @ '' the CLI approved ''
     @ [CHR 0xE2, CHR 0x80, CHR 0x94] @ '' the CLI and daemon builds may differ. ''
     @ ''Aborting without executing; upgrade the CLI (or re-run with a matching --max-risk) so risk gating agrees.'')"

text \<open>The requests of \<^verbatim>\<open>preview_declaring\<close>, \<^verbatim>\<open>approve\<close> and \<^verbatim>\<open>execute\<close>.\<close>

definition preview_request :: "run_opts \<Rightarrow> plan_step \<Rightarrow> daemon_request" where
  "preview_request opts s =
     Preview (''cli-preview-'' @ ps_action_name s) (ps_action_name s) (ps_params s) (ro_skip_approval opts)"

definition approve_request :: "string \<Rightarrow> daemon_request" where
  "approve_request transaction_id = Approve (''cli-approve-'' @ transaction_id) transaction_id"

definition execute_request :: "string \<Rightarrow> plan_step \<Rightarrow> string \<Rightarrow> daemon_request" where
  "execute_request transaction_id s receipt =
     Execute (''cli-exec-'' @ ps_action_name s) transaction_id (ps_action_name s) (ps_params s) receipt"

text \<open>\<^verbatim>\<open>execute_step_checked\<close>, after the receipt.\<close>

definition execute_step_checked :: "client_env \<Rightarrow> string \<Rightarrow> plan_step \<Rightarrow> string \<Rightarrow> (unit \<Rightarrow> cli) \<Rightarrow> cli" where
  "execute_step_checked env transaction_id s receipt continue =
     Request (execute_request transaction_id s receipt)
       (\<lambda>x. case snd (client_execute env x) of
          Inl e \<Rightarrow> CliDone (Inl e)
        | Inr result \<Rightarrow> (case step_completion_verdict (ps_action_name s) (res_status result) (res_summary result) of
            Inl e \<Rightarrow> CliDone (Inl e) | Inr _ \<Rightarrow> continue ()))"

definition approve_and_execute :: "client_env \<Rightarrow> string \<Rightarrow> plan_step \<Rightarrow> (unit \<Rightarrow> cli) \<Rightarrow> cli" where
  "approve_and_execute env transaction_id s continue =
     Request (approve_request transaction_id)
       (\<lambda>x. case client_approve env x of
          Inl e \<Rightarrow> CliDone (Inl e)
        | Inr receipt \<Rightarrow> execute_step_checked env transaction_id s receipt continue)"

definition confirm_or_reject :: "question \<Rightarrow> cli \<Rightarrow> cli" where
  "confirm_or_reject q continue = Ask q (\<lambda>answer. if confirms answer then continue else CliDone (Inl Rejected))"

text \<open>The decision on a step once its preview is on screen.\<close>

definition step_gate :: "client_env \<Rightarrow> run_opts \<Rightarrow> plan_step \<Rightarrow> omissions \<Rightarrow> cli \<Rightarrow> cli" where
  "step_gate env opts s step_view continue =
     (if post_preview_confirmation_required (ro_step_by_step opts) (ps_risk_level s) then
        (case gate_action_of (decide_step (approval_policy_of opts) (ps_risk_level s)) (ps_risk_level s) of
           Proceed \<Rightarrow> continue
         | Refuse e \<Rightarrow> CliDone (Inl e)
         | AskOperator \<Rightarrow>
             (case require_complete_view step_view (''the '' @ ps_action_name s @ '' preview'') of
                Inl e \<Rightarrow> CliDone (Inl e)
              | Inr _ \<Rightarrow> confirm_or_reject
                  (if ro_json opts then ExecuteStep (ps_action_name s) (operator_safe (from_utf8 (ps_summary s)))
                   else ApplyStep (ps_action_name s) (ps_risk_level s)) continue))
      else continue)"

definition previewed_step ::
    "client_env \<Rightarrow> run_opts \<Rightarrow> plan_step \<Rightarrow> prepared_preview \<Rightarrow> (unit \<Rightarrow> cli) \<Rightarrow> cli" where
  "previewed_step env opts s prepared continue =
     (let preview = pp_preview prepared; daemon_risk = plan_risk_of (pv_risk_level preview);
          blocks = (if ro_json opts then [] else preview_blocks env preview) in
      if ro_skip_approval opts \<and> \<not> unattended_marker_present (pv_warnings preview) then
        CliDone (Inl (unrecorded_error (ps_action_name s)))
      else if \<not> daemon_risk_within_approved (ps_risk_level s) daemon_risk then
        CliDone (Inl (risk_skew_error (ps_action_name s) daemon_risk (ps_risk_level s)))
      else Show (ShownPreview (ps_action_name s) blocks)
        (step_gate env opts s (omissions_of blocks)
          (approve_and_execute env (pp_transaction_id prepared) s continue)))"

fun execute_steps :: "client_env \<Rightarrow> run_opts \<Rightarrow> nat \<Rightarrow> plan_step list \<Rightarrow> cli" where
  "execute_steps env opts executed_steps [] = CliDone (Inr ())"
| "execute_steps env opts executed_steps (s # ss) =
     Request (preview_request opts s)
       (\<lambda>x. case client_preview env x of
          Inl err \<Rightarrow> CliDone (Inl (preview_error executed_steps (ps_action_name s) err))
        | Inr prepared \<Rightarrow> previewed_step env opts s prepared (\<lambda>_. execute_steps env opts (Suc executed_steps) ss))"

fun save_changes :: "pref_change list \<Rightarrow> cli \<Rightarrow> cli" where
  "save_changes [] continue = continue"
| "save_changes (c # cs) continue = SavePref c (\<lambda>outcome. save_changes cs continue)"

definition preference_changes :: "run_opts \<Rightarrow> pref_change list \<Rightarrow> omissions \<Rightarrow> cli \<Rightarrow> cli" where
  "preference_changes opts changes plan_view continue =
     (if changes = [] then continue
      else if ro_yes opts \<or> ro_non_interactive opts then continue
      else (case require_complete_view plan_view ''the plan'' of
          Inl e \<Rightarrow> CliDone (Inl e)
        | Inr _ \<Rightarrow> Ask (SavePreferences (length changes)) (\<lambda>answer.
            if confirms answer then save_changes changes continue else continue)))"

text \<open>\<^verbatim>\<open>expect\<close> on a plan without steps is a panic, whose exit code is 101.\<close>

definition execute_plan :: "client_env \<Rightarrow> run_opts \<Rightarrow> authorized_plan \<Rightarrow> cli" where
  "execute_plan env opts plan =
     (let blocks = (if ro_json opts then [] else plan_blocks env plan);
          plan_view = omissions_of blocks;
          go_on = preference_changes opts (pl_pref_changes (authorized plan)) plan_view
            (execute_steps env opts 0 (authorized_steps plan)) in
      Show (ShownPlan blocks)
        (if ro_dry_run opts then CliDone (Inr ())
         else case highest_risk plan of
           None \<Rightarrow> CliDone (Inl (Exit 101))
         | Some highest \<Rightarrow>
             (case gate_action_of (decide_plan (approval_policy_of opts) plan) highest of
                Proceed \<Rightarrow> go_on
              | Refuse e \<Rightarrow> CliDone (Inl e)
              | AskOperator \<Rightarrow>
                  if ro_step_by_step opts then go_on
                  else (case require_complete_view plan_view ''the plan'' of
                      Inl e \<Rightarrow> CliDone (Inl e)
                    | Inr _ \<Rightarrow> confirm_or_reject (ExecutePlan (length (authorized_steps plan)) highest) go_on))))"

text \<open>Refusing a plan whose parameters the daemon would refuse, and what \<^verbatim>\<open>run_intent\<close> does with the plan that
  the planner returns.\<close>

fun reject_unrunnable_params :: "plan_step list \<Rightarrow> cli_error + unit" where
  "reject_unrunnable_params [] = Inr ()"
| "reject_unrunnable_params (s # ss) =
     (case build_action_spec (ps_action_name s) (ps_params s) of
        Inl e \<Rightarrow> Inl (PlanningFailed (''step '' @ ps_action_name s
          @ '' has parameters the daemon cannot run: '' @ executor_error_to_string e))
      | Inr _ \<Rightarrow> reject_unrunnable_params ss)"

text \<open>One chance for the model to correct parameters; what the planner returns is an argument.\<close>

definition param_feedback :: "cli_error \<Rightarrow> string" where
  "param_feedback error =
     ''The daemon rejected your previous plan with this exact error: '' @ [CHR 0x22] @ cli_error_to_string error
     @ [CHR 0x22] @ ''. Correct the plan parameters and call `propose_plan` again. ''
     @ ''Preserve the requested action and intent.''"

definition plan_intent_with_param_correction ::
    "cli_error + plan \<Rightarrow> (string \<Rightarrow> cli_error + plan) \<Rightarrow> cli_error + plan" where
  "plan_intent_with_param_correction planned planned_with_feedback =
     and_then planned (\<lambda>p.
       case reject_unrunnable_params (pl_steps p) of
         Inl error \<Rightarrow> and_then (planned_with_feedback (param_feedback error)) (\<lambda>corrected.
           and_then (reject_unrunnable_params (pl_steps corrected)) (\<lambda>_. Inr corrected))
       | Inr _ \<Rightarrow> Inr p)"

definition run_planned :: "client_env \<Rightarrow> run_opts \<Rightarrow> distro_id option \<Rightarrow> plan \<Rightarrow> cli" where
  "run_planned env opts distro p =
     (let routed = (if ro_dry_run opts then Inr ()
        else check_plan_steps_distro (map ps_action_name (pl_steps p)) distro) in
      case routed of
        Inl msg \<Rightarrow> CliDone (Inl (ConfigOrDaemon msg))
      | Inr _ \<Rightarrow> execute_plan env opts (into_authorized authoritative_plan_risk p))"

section \<open>Approving one transaction\<close>

definition approval_context :: "approval_details \<Rightarrow> string" where
  "approval_context details =
     ''Action:  '' @ ad_action_name details @ [CHR 0x0A] @ ''Risk:    ''
     @ (case pv_risk_level (ad_preview details) of Low \<Rightarrow> ''Low'' | Medium \<Rightarrow> ''Medium'' | High \<Rightarrow> ''High'') @ [CHR 0x0A]
     @ ''Summary: '' @ to_utf8 (operator_safe (from_utf8 (pv_summary (ad_preview details))))"

text \<open>The view: the block and, for the complete one, the context after it.\<close>

definition approval_view :: "string \<Rightarrow> utext \<Rightarrow> bool \<Rightarrow> cli_error + utext" where
  "approval_view transaction_id pretty full =
     (if full then Inr (ob_text (operator_safe_block_full pretty))
      else
        (let block = operator_safe_block pretty in
         if \<not> is_complete block then
           Inl (ApprovalViewIncomplete transaction_id (ob_withheld_lines block) (shortened_note (ob_shortened_lines block)))
         else Inr (ob_text block)))"

definition approve_with_confirmation :: "client_env \<Rightarrow> string \<Rightarrow> run_opts \<Rightarrow> bool \<Rightarrow> bool \<Rightarrow> cli" where
  "approve_with_confirmation env transaction_id opts full terminal =
     (if ro_non_interactive opts \<and> \<not> ro_dry_run opts then CliDone (Inl NonInteractive)
      else if \<not> terminal \<and> \<not> ro_dry_run opts then CliDone (Inl ApprovalNeedsTerminal)
      else Request (ApprovalDetails (''cli-approval-details-'' @ transaction_id) transaction_id) (\<lambda>x.
        case client_approval_details env x of
          Inl e \<Rightarrow> CliDone (Inl e)
        | Inr details \<Rightarrow>
            (let pretty = from_utf8 (ce_pretty env (pv_proposed_change (ad_preview details)));
                 risk = plan_risk_of (pv_risk_level (ad_preview details));
                 policy = approval_policy_new False (ro_max_risk opts) (ro_non_interactive opts) False False in
             if ro_dry_run opts then
               Show (ShownView (approval_context details)
                 (ob_text (if full then operator_safe_block_full pretty else operator_safe_block pretty))) (CliDone (Inr ()))
             else case gate_action_of (decide_step policy risk) risk of
               Refuse e \<Rightarrow> CliDone (Inl e)
             | _ \<Rightarrow>
                 (case approval_view transaction_id pretty full of
                    Inl e \<Rightarrow> CliDone (Inl e)
                  | Inr view \<Rightarrow> Show (ShownView (approval_context details) view)
                      (let approve = Request (approve_request transaction_id) (\<lambda>y.
                         case client_approve env y of
                           Inl e \<Rightarrow> CliDone (Inl e)
                         | Inr receipt \<Rightarrow> Show (ShownText receipt) (CliDone (Inr ())))
                       in if pv_risk_level (ad_preview details) = High then
                            Ask (TypeActionName (ad_action_name details)) (\<lambda>answer.
                              if types_exactly (ad_action_name details) answer then approve else CliDone (Inl Rejected))
                          else confirm_or_reject (ApproveTransaction (ad_transaction_id details)) approve)))))"

end
