(* ===== verification/Sk_Mcp.thy ===== *)
theory Sk_Mcp
  imports Sk_Cli
begin

text \<open>
  The server of the Model Context Protocol (\<^verbatim>\<open>apps/sysknife-cli/src/mcp_server.rs\<close>): which actions an assistant
  may call without an approval, the execution of steps with receipts, the preview that is copied onto a plan, and the
  screen that every reply passes. The exchanges with the daemon are arguments, one for each connection in the order
  of the calls; the router of the protocol and the registration of the tools are third-party code.
\<close>

section \<open>Tools without approval\<close>

definition MCP_READ_ONLY_ACTIONS :: "string list" where
  "MCP_READ_ONLY_ACTIONS =
    [''GetSystemState'', ''CollectDiagnostics'', ''GetDeploymentHistory'', ''ListDeployments'',
    ''GetKernelArguments'', ''GetLayeredPackages'', ''GetPendingUpdates'', ''GetDiskUsage'',
    ''SearchFlatpakApps'', ''ListFlatpakRemotes'', ''ListInstalledFlatpaks'', ''GetFlatpakAppInfo'',
    ''UbuntuListFlatpaks'', ''ListToolboxes'', ''ListServices'', ''GetServiceLogs'',
    ''GetServiceStatus'', ''ListTimers'', ''GetServiceResourceLimits'', ''ListProcesses'',
    ''GetJournalLog'', ''GetLvmReport'', ''GetSysctl'', ''GetMounts'', ''GetLogrotateStatus'',
    ''GetPasswordAging'', ''GetAuditRules'', ''GetCertificates'', ''GetSudoGrants'',
    ''GetFirewallState'', ''GetNetworkStatus'', ''GetListeningPorts'', ''GetNftablesRuleset'',
    ''GetFirewallBackendState'', ''ResolvectlStatus'', ''GetDateTime'', ''ListUsers'', ''ListGroups'',
    ''GetAuthorizedKeys'', ''ListPackageRepositories'', ''GetMemoryInfo'', ''GetHostState'',
    ''ListContainers'', ''GetContainerInfo'', ''CheckPendingReboot'', ''AppArmorStatus'',
    ''CloudInitStatus'', ''Fail2banStatus'', ''AptSearch'', ''AptListInstalled'', ''AptShow'',
    ''AptListUpgradable'', ''AptHistoryList'', ''GetAptPins'', ''SnapList'', ''SnapInfo'', ''UfwStatus'',
    ''NetplanGetConfig'', ''DistroboxList'', ''GrubGetKargs'', ''ProStatus'', ''LivepatchStatus'',
    ''MultipassList'', ''ListJobHistory'']"

fun tool_name_loop :: "nat \<Rightarrow> string \<Rightarrow> string" where
  "tool_name_loop index [] = []"
| "tool_name_loop index (ch # cs) =
     (if index > 0 \<and> is_ascii_uppercase ch then [CHR 0x5F] else [])
     @ to_ascii_lowercase [ch] @ tool_name_loop (index + 1) cs"

definition direct_action_tool_name :: "string \<Rightarrow> string" where
  "direct_action_tool_name action_name = ''sysknife_'' @ tool_name_loop 0 action_name"

definition is_direct_read_only :: "distro_id option \<Rightarrow> action_spec \<Rightarrow> bool" where
  "is_direct_read_only distro spec \<longleftrightarrow>
     \<not> (as_risk_level spec \<noteq> Low \<or> as_action_name spec \<notin> set MCP_READ_ONLY_ACTIONS)
     \<and> as_action_name spec \<notin> set OBSERVER_MUTATING_ACTIONS
     \<and> action_is_available_on_distro (as_action_name spec) distro"

definition direct_read_only_tools :: "distro_id option \<Rightarrow> (string \<times> string) list" where
  "direct_read_only_tools distro =
     map (\<lambda>spec. (direct_action_tool_name (as_action_name spec), as_action_name spec))
       (filter (is_direct_read_only distro) all_specs)"

section \<open>The screen of the replies\<close>

definition VERBATIM_KEYS :: "string list" where
  "VERBATIM_KEYS = [''params'', ''transaction_id'', ''approval_receipt'']"

datatype screen_error = ScreenPanicked | ScreenRefused string

definition screen_string :: "plan_env \<Rightarrow> string \<Rightarrow> screen_error + string" where
  "screen_string env s =
     (case normalise_free_text_capped (pe_nfc env) (from_utf8 s) MCP_MAX_OUTPUT_BYTES of
        None \<Rightarrow> Inl ScreenPanicked | Some t \<Rightarrow> Inr (to_utf8 t))"

text \<open>\<^verbatim>\<open>serde_json::Map\<close> is ordered by its keys: \<open>insert\<close> replaces what the key had.\<close>

fun entry_insert :: "string \<Rightarrow> json \<Rightarrow> (string \<times> json) list \<Rightarrow> (string \<times> json) list" where
  "entry_insert k v [] = [(k, v)]"
| "entry_insert k v ((k', v') # m) =
     (if k = k' then (k, v) # m
      else if k < k' then (k, v) # (k', v') # m
      else (k', v') # entry_insert k v m)"

definition same_keys_message :: "plan_env \<Rightarrow> string \<Rightarrow> string" where
  "same_keys_message env safe_key =
     ''two keys in the daemon'' @ [CHR 0x27] @ ''s reply normalise to '' @ pe_debug_str env safe_key
     @ ''; refusing to drop one of them''"

fun sanitise_result_json :: "plan_env \<Rightarrow> json \<Rightarrow> screen_error + json"
and sanitise_items :: "plan_env \<Rightarrow> json list \<Rightarrow> screen_error + json list"
and sanitise_entries :: "plan_env \<Rightarrow> (string \<times> json) list \<Rightarrow> (string \<times> json) list \<Rightarrow> screen_error + (string \<times> json) list"
where
  "sanitise_result_json env (JStr s) = and_then (screen_string env s) (\<lambda>t. Inr (JStr t))"
| "sanitise_result_json env (JArr vs) = and_then (sanitise_items env vs) (\<lambda>ws. Inr (JArr ws))"
| "sanitise_result_json env (JObj kvs) = and_then (sanitise_entries env [] kvs) (\<lambda>m. Inr (JObj m))"
| "sanitise_result_json env JNull = Inr JNull"
| "sanitise_result_json env (JBool b) = Inr (JBool b)"
| "sanitise_result_json env (JInt i) = Inr (JInt i)"
| "sanitise_result_json env (JFloat x) = Inr (JFloat x)"
| "sanitise_items env [] = Inr []"
| "sanitise_items env (v # vs) =
     and_then (sanitise_result_json env v) (\<lambda>w. and_then (sanitise_items env vs) (\<lambda>ws. Inr (w # ws)))"
| "sanitise_entries env rebuilt [] = Inr rebuilt"
| "sanitise_entries env rebuilt ((key, child) # kvs) =
     (if key \<in> set VERBATIM_KEYS then sanitise_entries env (entry_insert key child rebuilt) kvs
      else
        and_then (sanitise_result_json env child) (\<lambda>safe_child.
        and_then (screen_string env key) (\<lambda>safe_key.
          if map_of rebuilt safe_key \<noteq> None then Inl (ScreenRefused (same_keys_message env safe_key))
          else sanitise_entries env (entry_insert safe_key safe_child rebuilt) kvs)))"

definition tool_error :: "plan_env \<Rightarrow> string \<Rightarrow> utext option" where
  "tool_error env e = sanitize_tool_output_capped (pe_nfc env) (lit ''sysknife_error'') (from_utf8 e) MAX_OUTPUT_BYTES"

text \<open>What a tool returns: a reply or an error, or nothing when it panics. Parsing a screened reply back into its own
  type is left out: the keys of the types pass the screen as they are.\<close>

definition reply_or_error :: "plan_env \<Rightarrow> json \<Rightarrow> (utext + json) option" where
  "reply_or_error env value =
     (case sanitise_result_json env value of
        Inr j \<Rightarrow> Some (Inr j)
      | Inl (ScreenRefused e) \<Rightarrow> map_option Inl (tool_error env e)
      | Inl ScreenPanicked \<Rightarrow> None)"

section \<open>Direct queries\<close>

text \<open>\<^verbatim>\<open>DaemonClient::query_action\<close>. The transport gives a frame, or says why it does not.\<close>

definition client_query_action :: "client_env \<Rightarrow> string + string \<Rightarrow> string + string" where
  "client_query_action env transport =
     and_then transport (\<lambda>raw.
       case ce_json_parse env raw of
         Inl e \<Rightarrow> Inl (''parse: '' @ e)
       | Inr resp \<Rightarrow>
           if str_at resp ''type'' = Some ''query_action_response'' then
             (case str_at resp ''output'' of
                None \<Rightarrow> Inl (''query_action_response missing '' @ in_quotes ''output'' @ '' string field'')
              | Some output \<Rightarrow> Inr (ce_strip_ansi env output))
           else if str_at resp ''type'' = Some ''error_response'' then
             Inl (''daemon error: '' @ unwrap_or ''unknown'' (str_at resp ''message''))
           else Inl ''unexpected response type'')"

definition direct_query_with_client :: "client_env \<Rightarrow> plan_env \<Rightarrow> string \<Rightarrow> string + string \<Rightarrow> (utext + utext) option" where
  "direct_query_with_client env penv action_name transport =
     (case client_query_action env transport of
        Inl e \<Rightarrow> map_option Inl (tool_error penv (''query failed: state unavailable: '' @ e))
      | Inr raw \<Rightarrow> map_option Inr
          (sanitize_tool_output_capped (pe_nfc penv) (from_utf8 action_name) (from_utf8 raw) MCP_MAX_OUTPUT_BYTES))"

section \<open>Plans\<close>

record plan_step_output =
  po_action_name :: string
  po_summary :: string
  po_risk_level :: string
  po_params :: json
  po_command :: string
  po_transaction_id :: string
  po_warnings :: "string list"
  po_current_state :: json
  po_proposed_change :: json
  po_expected_side_effects :: "string list"
  po_reboot_required :: bool
  po_rollback_available :: bool

record plan_output =
  plo_intent :: string
  plo_summary :: string
  plo_explanation :: string
  plo_steps :: "plan_step_output list"

definition merge_preview_into_step :: "plan_step_output \<Rightarrow> preview_envelope \<Rightarrow> plan_step_output" where
  "merge_preview_into_step step preview = step\<lparr>
     po_risk_level := (case pv_risk_level preview of Low \<Rightarrow> ''low'' | Medium \<Rightarrow> ''medium'' | High \<Rightarrow> ''high''),
     po_warnings := pv_warnings preview,
     po_current_state := pv_current_state preview,
     po_proposed_change := pv_proposed_change preview,
     po_expected_side_effects := pv_expected_side_effects preview,
     po_reboot_required := pv_reboot_required preview,
     po_rollback_available := pv_rollback_available preview\<rparr>"

text \<open>A description and a preview from the daemon for each step. The requests are those that were sent.\<close>

definition describe_request :: "plan_step_output \<Rightarrow> daemon_request" where
  "describe_request step = Describe (''cli-describe-'' @ po_action_name step) (po_action_name step) (po_params step)"

definition mcp_preview_request :: "plan_step_output \<Rightarrow> daemon_request" where
  "mcp_preview_request step =
     Preview (''cli-preview-'' @ po_action_name step) (po_action_name step) (po_params step) False"

fun enrich_with_commands :: "client_env \<Rightarrow> (json \<Rightarrow> string) \<Rightarrow> (plan_step_output \<times> exchange \<times> exchange) list
    \<Rightarrow> daemon_request list \<times> (string + plan_step_output list)" where
  "enrich_with_commands env display [] = ([], Inr [])"
| "enrich_with_commands env display ((step, xd, xp) # later) =
     (case client_describe env display xd of
        Inl e \<Rightarrow> ([describe_request step],
          Inl (''describe failed for '' @ po_action_name step @ '': '' @ cli_error_to_string e))
      | Inr command \<Rightarrow>
          (case client_preview env xp of
             Inl e \<Rightarrow> ([describe_request step, mcp_preview_request step],
               Inl (''preview failed for '' @ po_action_name step @ '': '' @ cli_error_to_string e))
           | Inr prepared \<Rightarrow>
               (let (requests, rest) = enrich_with_commands env display later in
                (describe_request step # mcp_preview_request step # requests,
                 and_then rest (\<lambda>steps. Inr (merge_preview_into_step
                   (step\<lparr>po_command := command, po_transaction_id := pp_transaction_id prepared\<rparr>)
                   (pp_preview prepared) # steps))))))"

definition plan_step_output_json :: "plan_step_output \<Rightarrow> json" where
  "plan_step_output_json s = JObj
     [(''action_name'', JStr (po_action_name s)), (''command'', JStr (po_command s)),
      (''current_state'', po_current_state s),
      (''expected_side_effects'', JArr (map JStr (po_expected_side_effects s))),
      (''params'', po_params s), (''proposed_change'', po_proposed_change s),
      (''reboot_required'', JBool (po_reboot_required s)), (''risk_level'', JStr (po_risk_level s)),
      (''rollback_available'', JBool (po_rollback_available s)), (''summary'', JStr (po_summary s)),
      (''transaction_id'', JStr (po_transaction_id s)), (''warnings'', JArr (map JStr (po_warnings s)))]"

definition plan_output_json :: "plan_output \<Rightarrow> json" where
  "plan_output_json p = JObj
     [(''explanation'', JStr (plo_explanation p)), (''intent'', JStr (plo_intent p)),
      (''steps'', JArr (map plan_step_output_json (plo_steps p))), (''summary'', JStr (plo_summary p))]"

text \<open>The exchanges of the \<open>i\<close>-th step are \<open>xs i\<close>.\<close>

definition sysknife_plan :: "client_env \<Rightarrow> plan_env \<Rightarrow> (json \<Rightarrow> string) \<Rightarrow> plan_output \<Rightarrow> (nat \<Rightarrow> exchange \<times> exchange)
    \<Rightarrow> daemon_request list \<times> (utext + json) option" where
  "sysknife_plan env penv display planned xs =
     (case enrich_with_commands env display (zip (plo_steps planned) (map xs [0..<length (plo_steps planned)])) of
        (requests, Inl e) \<Rightarrow> (requests, map_option Inl (tool_error penv e))
      | (requests, Inr steps) \<Rightarrow> (requests, reply_or_error penv (plan_output_json (planned\<lparr>plo_steps := steps\<rparr>))))"

section \<open>Executions\<close>

record step_to_execute =
  se_transaction_id :: string
  se_action_name :: string
  se_params :: json
  se_approval_receipt :: string

record step_result =
  sr_action_name :: string
  sr_status :: string
  sr_summary :: string
  sr_output :: "string list"
  sr_warnings :: "string list"
  sr_needs_reboot :: bool
  sr_transaction_id :: string
  sr_rollback_ref :: "string option"

record execute_output =
  xo_steps :: "step_result list"
  xo_needs_reboot :: bool

definition OUTPUT_LINE_LIMIT :: nat where
  "OUTPUT_LINE_LIMIT = 500"

definition truncate_output :: "string list \<Rightarrow> string list" where
  "truncate_output lines =
     (if length lines > OUTPUT_LINE_LIMIT then
        (let dropped = length lines - OUTPUT_LINE_LIMIT in
         take OUTPUT_LINE_LIMIT lines @ [''[truncated: '' @ dec dropped @ '' more lines omitted]''])
      else lines)"

definition UNKNOWN_OUTCOME_WARNING :: string where
  "UNKNOWN_OUTCOME_WARNING =
     ''The daemon may have applied this action or may still be running it. Check transaction history and host ''
     @ ''state before retrying; do not automatically replay the plan.''"

definition mcp_execute_request :: "step_to_execute \<Rightarrow> daemon_request" where
  "mcp_execute_request step = Execute (''cli-exec-'' @ se_action_name step) (se_transaction_id step)
     (se_action_name step) (se_params step) (se_approval_receipt step)"

definition interrupted_result :: "step_to_execute \<Rightarrow> string list \<Rightarrow> execute_failure \<Rightarrow> step_result" where
  "interrupted_result step lines failure =
     \<lparr>sr_action_name = se_action_name step,
      sr_status = (if ef_outcome_unknown failure then ''unknown'' else ''failed''),
      sr_summary = ''execute error for '' @ se_action_name step @ '': '' @ cli_error_to_string (ef_error failure),
      sr_output = truncate_output lines,
      sr_warnings = (if ef_outcome_unknown failure then [UNKNOWN_OUTCOME_WARNING] else []),
      sr_needs_reboot = False, sr_transaction_id = se_transaction_id step, sr_rollback_ref = None\<rparr>"

definition completed_result :: "step_to_execute \<Rightarrow> string list \<Rightarrow> result_envelope \<Rightarrow> step_result" where
  "completed_result step lines result =
     \<lparr>sr_action_name = se_action_name step, sr_status = job_state_str (res_status result),
      sr_summary = res_summary result, sr_output = truncate_output lines, sr_warnings = res_warnings result,
      sr_needs_reboot = res_needs_reboot result, sr_transaction_id = res_transaction_id result,
      sr_rollback_ref = res_rollback_ref result\<rparr>"

text \<open>The loop over the steps; it halts at the first that did not succeed.\<close>

fun execute_steps_loop :: "client_env \<Rightarrow> step_result list \<Rightarrow> bool \<Rightarrow> (step_to_execute \<times> exchange) list
    \<Rightarrow> daemon_request list \<times> execute_output" where
  "execute_steps_loop env results plan_needs_reboot [] =
     ([], \<lparr>xo_steps = results, xo_needs_reboot = plan_needs_reboot\<rparr>)"
| "execute_steps_loop env results plan_needs_reboot ((step, x) # later) =
     (case execute_with_outcome env x of
        (lines, Inl failure) \<Rightarrow>
          ([mcp_execute_request step],
           \<lparr>xo_steps = results @ [interrupted_result step lines failure], xo_needs_reboot = plan_needs_reboot\<rparr>)
      | (lines, Inr result) \<Rightarrow>
          (let plan_needs_reboot' = (if res_needs_reboot result then True else plan_needs_reboot);
               results' = results @ [completed_result step lines result] in
           if res_status result \<noteq> Succeeded then
             ([mcp_execute_request step], \<lparr>xo_steps = results', xo_needs_reboot = plan_needs_reboot'\<rparr>)
           else
             (let (requests, out) = execute_steps_loop env results' plan_needs_reboot' later
              in (mcp_execute_request step # requests, out))))"

definition execute_steps_with_client ::
    "client_env \<Rightarrow> (step_to_execute \<times> exchange) list \<Rightarrow> daemon_request list \<times> execute_output" where
  "execute_steps_with_client env sxs = execute_steps_loop env [] False sxs"

definition opt_json :: "string option \<Rightarrow> json" where
  "opt_json v = (case v of None \<Rightarrow> JNull | Some s \<Rightarrow> JStr s)"

definition step_result_json :: "step_result \<Rightarrow> json" where
  "step_result_json r = JObj
     [(''action_name'', JStr (sr_action_name r)), (''needs_reboot'', JBool (sr_needs_reboot r)),
      (''output'', JArr (map JStr (sr_output r))), (''rollback_ref'', opt_json (sr_rollback_ref r)),
      (''status'', JStr (sr_status r)), (''summary'', JStr (sr_summary r)),
      (''transaction_id'', JStr (sr_transaction_id r)), (''warnings'', JArr (map JStr (sr_warnings r)))]"

definition execute_output_json :: "execute_output \<Rightarrow> json" where
  "execute_output_json out =
     JObj [(''needs_reboot'', JBool (xo_needs_reboot out)), (''steps'', JArr (map step_result_json (xo_steps out)))]"

definition sysknife_execute :: "client_env \<Rightarrow> plan_env \<Rightarrow> (step_to_execute \<times> exchange) list
    \<Rightarrow> daemon_request list \<times> (utext + json) option" where
  "sysknife_execute env penv sxs =
     (let (requests, out) = execute_steps_with_client env sxs
      in (requests, reply_or_error penv (execute_output_json out)))"

end
