(* ===== verification/Sk_Consent.thy ===== *)
theory Sk_Consent
  imports Sk_Cli
begin

text \<open>
  What the command line does to the daemon, in whatever order the operator and the daemon answer: a run is a
  header, then one segment per executed step. A segment previews the step, shows it, asks when the policy says
  so, approves and executes; the run goes on only after a step that succeeded.
\<close>

section \<open>Traces\<close>

lemma cli_run_CliDone: "cli_run (CliDone r) evs = Some p \<longleftrightarrow> evs = [] \<and> p = CliDone r"
  by (cases evs) auto

lemma cli_run_Show: "cli_run (Show s k) evs = Some p \<longleftrightarrow>
    (evs = [] \<and> p = Show s k) \<or> (\<exists>evs'. evs = Showed s # evs' \<and> cli_run k evs' = Some p)"
proof (cases evs)
  case (Cons ev evs')
  then show ?thesis by (cases ev) auto
qed auto

lemma cli_run_Ask: "cli_run (Ask q k) evs = Some p \<longleftrightarrow>
    (evs = [] \<and> p = Ask q k) \<or> (\<exists>answer evs'. evs = Asked q answer # evs' \<and> cli_run (k answer) evs' = Some p)"
proof (cases evs)
  case (Cons ev evs')
  then show ?thesis by (cases ev) auto
qed auto

lemma cli_run_Request: "cli_run (Request r k) evs = Some p \<longleftrightarrow>
    (evs = [] \<and> p = Request r k) \<or> (\<exists>x evs'. evs = Exchanged r x # evs' \<and> cli_run (k x) evs' = Some p)"
proof (cases evs)
  case (Cons ev evs')
  then show ?thesis by (cases ev) auto
qed auto

lemma cli_run_SavePref: "cli_run (SavePref c k) evs = Some p \<longleftrightarrow>
    (evs = [] \<and> p = SavePref c k) \<or> (\<exists>outcome evs'. evs = Saved c outcome # evs' \<and> cli_run (k outcome) evs' = Some p)"
proof (cases evs)
  case (Cons ev evs')
  then show ?thesis by (cases ev) auto
qed auto

lemmas cli_run_iffs = cli_run_CliDone cli_run_Show cli_run_Ask cli_run_Request cli_run_SavePref

fun is_execute :: "cli_event \<Rightarrow> bool" where
  "is_execute (Exchanged (Execute _ _ _ _ _) _) = True"
| "is_execute _ = False"

definition no_execute :: "cli_event list \<Rightarrow> bool" where
  "no_execute evs \<longleftrightarrow> list_all (\<lambda>ev. \<not> is_execute ev) evs"

lemma no_execute_simps [simp]:
  "no_execute []" "no_execute (ev # evs) \<longleftrightarrow> \<not> is_execute ev \<and> no_execute evs"
  "no_execute (a @ b) \<longleftrightarrow> no_execute a \<and> no_execute b"
  by (simp_all add: no_execute_def)

text \<open>A run that stopped, or waits, without having executed anything.\<close>

definition halted :: "cli_event list \<Rightarrow> cli \<Rightarrow> bool" where
  "halted evs p \<longleftrightarrow> no_execute evs \<and> p \<noteq> CliDone (Inr ())"

lemma haltedI: "no_execute evs \<Longrightarrow> p \<noteq> CliDone (Inr ()) \<Longrightarrow> halted evs p"
  by (simp add: halted_def)

section \<open>One step\<close>

lemma is_execute_requests [simp]:
  "\<not> is_execute (Exchanged (preview_request opts s) x)" "\<not> is_execute (Exchanged (approve_request t) x)"
  "is_execute (Exchanged (execute_request t s receipt) x)"
  by (simp_all add: preview_request_def approve_request_def execute_request_def)

lemma step_completion_verdict_Inr: "step_completion_verdict n st sm = Inr u \<longleftrightarrow> st = Succeeded"
  by (cases st) (simp_all add: step_completion_verdict_def)

definition step_succeeded :: "client_env \<Rightarrow> exchange \<Rightarrow> bool" where
  "step_succeeded env x \<longleftrightarrow>
     (case snd (client_execute env x) of Inr result \<Rightarrow> res_status result = Succeeded | Inl _ \<Rightarrow> False)"

definition asks_before :: "run_opts \<Rightarrow> plan_step \<Rightarrow> bool" where
  "asks_before opts s \<longleftrightarrow> post_preview_confirmation_required (ro_step_by_step opts) (ps_risk_level s)
     \<and> decide_step (approval_policy_of opts) (ps_risk_level s) \<noteq> AutoApproved"

definition step_question :: "run_opts \<Rightarrow> plan_step \<Rightarrow> question" where
  "step_question opts s = (if ro_json opts then ExecuteStep (ps_action_name s) (operator_safe (from_utf8 (ps_summary s)))
     else ApplyStep (ps_action_name s) (ps_risk_level s))"

definition step_answers :: "run_opts \<Rightarrow> plan_step \<Rightarrow> operator_block list \<Rightarrow> cli_event list \<Rightarrow> bool" where
  "step_answers opts s blocks asks \<longleftrightarrow>
     (if asks_before opts s then is_none (omissions_of blocks)
        \<and> (\<exists>answer. asks = [Asked (step_question opts s) answer] \<and> confirms answer)
      else asks = [])"

lemma gate_action_of_simps [simp]:
  "gate_action_of d r = Proceed \<longleftrightarrow> d = AutoApproved" "gate_action_of d r = AskOperator \<longleftrightarrow> d = RequiresPrompt"
  by (cases d; simp add: gate_action_of_def)+

lemma confirm_or_reject_run:
  "cli_run (confirm_or_reject q k) evs = Some p \<Longrightarrow>
     halted evs p \<or> (\<exists>answer evs'. evs = Asked q answer # evs' \<and> confirms answer \<and> cli_run k evs' = Some p)"
  by (auto simp: confirm_or_reject_def cli_run_iffs halted_def split: if_splits)

lemma step_gate_run:
  assumes "cli_run (step_gate env opts s (omissions_of blocks) k) evs = Some p"
  shows "halted evs p \<or> (\<exists>asks evs'. evs = asks @ evs' \<and> step_answers opts s blocks asks \<and> cli_run k evs' = Some p)"
proof (cases "asks_before opts s")
  case False
  then have "step_gate env opts s (omissions_of blocks) k = k"
    by (auto simp: step_gate_def asks_before_def gate_action_of_def)
  then show ?thesis using False assms by (auto simp: step_answers_def)
next
  case asks: True
  then have post: "post_preview_confirmation_required (ro_step_by_step opts) (ps_risk_level s)"
    and not_auto: "decide_step (approval_policy_of opts) (ps_risk_level s) \<noteq> AutoApproved"
    by (simp_all add: asks_before_def)
  show ?thesis
  proof (cases "gate_action_of (decide_step (approval_policy_of opts) (ps_risk_level s)) (ps_risk_level s)")
    case Proceed
    then show ?thesis using not_auto by simp
  next
    case (Refuse e)
    then show ?thesis using assms post by (simp add: step_gate_def cli_run_iffs halted_def)
  next
    case AskOperator
    show ?thesis
    proof (cases "is_none (omissions_of blocks)")
      case False
      then show ?thesis using assms post AskOperator
        by (simp add: step_gate_def require_complete_view_def cli_run_iffs halted_def del: gate_action_of_simps)
    next
      case True
      then have "cli_run (confirm_or_reject (step_question opts s) k) evs = Some p"
        using assms post AskOperator
        by (simp add: step_gate_def require_complete_view_def step_question_def del: gate_action_of_simps)
      from confirm_or_reject_run [OF this] show ?thesis
      proof
        assume "\<exists>answer evs'. evs = Asked (step_question opts s) answer # evs' \<and> confirms answer \<and> cli_run k evs' = Some p"
        then obtain answer evs' where "evs = [Asked (step_question opts s) answer] @ evs'"
          "step_answers opts s blocks [Asked (step_question opts s) answer]" "cli_run k evs' = Some p"
          using asks True by (auto simp: step_answers_def)
        then show ?thesis by blast
      qed blast
    qed
  qed
qed

lemma execute_step_checked_run:
  assumes "cli_run (execute_step_checked env t s receipt continue) evs = Some p"
  shows "halted evs p \<or> (\<exists>x evs'. evs = Exchanged (execute_request t s receipt) x # evs' \<and>
      ((evs' = [] \<and> p \<noteq> CliDone (Inr ())) \<or> (step_succeeded env x \<and> cli_run (continue ()) evs' = Some p)))"
proof -
  from assms consider (wait) "halted evs p"
    | (executed) x evs' where "evs = Exchanged (execute_request t s receipt) x # evs'"
      "cli_run (case snd (client_execute env x) of Inl e \<Rightarrow> CliDone (Inl e)
        | Inr result \<Rightarrow> (case step_completion_verdict (ps_action_name s) (res_status result) (res_summary result) of
            Inl e \<Rightarrow> CliDone (Inl e) | Inr _ \<Rightarrow> continue ())) evs' = Some p"
    by (auto simp: execute_step_checked_def cli_run_iffs halted_def)
  then show ?thesis
  proof cases
    case executed
    have "(evs' = [] \<and> p \<noteq> CliDone (Inr ())) \<or> (step_succeeded env x \<and> cli_run (continue ()) evs' = Some p)"
    proof (cases "snd (client_execute env x)")
      case (Inl e)
      then show ?thesis using executed by (simp add: cli_run_iffs)
    next
      case result: (Inr result)
      show ?thesis
      proof (cases "step_completion_verdict (ps_action_name s) (res_status result) (res_summary result)")
        case (Inl e)
        then show ?thesis using executed result by (simp add: cli_run_iffs)
      next
        case (Inr u)
        then have "res_status result = Succeeded" using step_completion_verdict_Inr by blast
        then show ?thesis using executed result Inr by (simp add: step_succeeded_def)
      qed
    qed
    then show ?thesis using executed by blast
  qed blast
qed

lemma approve_and_execute_run:
  assumes "cli_run (approve_and_execute env t s continue) evs = Some p"
  shows "halted evs p \<or> (\<exists>xa receipt x evs'. client_approve env xa = Inr receipt
    \<and> evs = Exchanged (approve_request t) xa # Exchanged (execute_request t s receipt) x # evs' \<and>
      ((evs' = [] \<and> p \<noteq> CliDone (Inr ())) \<or> (step_succeeded env x \<and> cli_run (continue ()) evs' = Some p)))"
proof -
  from assms consider (wait) "halted evs p"
    | (approved) xa evs' where "evs = Exchanged (approve_request t) xa # evs'"
      "cli_run (case client_approve env xa of Inl e \<Rightarrow> CliDone (Inl e)
        | Inr receipt \<Rightarrow> execute_step_checked env t s receipt continue) evs' = Some p"
    by (auto simp: approve_and_execute_def cli_run_iffs halted_def)
  then show ?thesis
  proof cases
    case wait
    then show ?thesis by blast
  next
    case approved
    show ?thesis
    proof (cases "client_approve env xa")
      case (Inl e)
      then show ?thesis using approved by (simp add: cli_run_iffs halted_def)
    next
      case (Inr receipt)
      then show ?thesis using approved execute_step_checked_run [of env t s receipt continue evs' p]
        by (auto simp: halted_def)
    qed
  qed
qed

text \<open>What the operator has consented to, and what the daemon was told, when a step executes.\<close>

definition shown_blocks :: "client_env \<Rightarrow> run_opts \<Rightarrow> preview_envelope \<Rightarrow> operator_block list" where
  "shown_blocks env opts preview = (if ro_json opts then [] else preview_blocks env preview)"

definition preview_accepted :: "run_opts \<Rightarrow> plan_step \<Rightarrow> preview_envelope \<Rightarrow> bool" where
  "preview_accepted opts s preview \<longleftrightarrow> plan_risk_of (pv_risk_level preview) \<le> ps_risk_level s
     \<and> (\<not> ro_skip_approval opts \<or> UNATTENDED_WARNING \<in> set (pv_warnings preview))"

definition consented_segment :: "client_env \<Rightarrow> run_opts \<Rightarrow> plan_step \<Rightarrow> cli_event list \<Rightarrow> exchange \<Rightarrow> bool" where
  "consented_segment env opts s seg x \<longleftrightarrow>
     (\<exists>xp prepared asks xa receipt.
        client_preview env xp = Inr prepared \<and> preview_accepted opts s (pp_preview prepared)
      \<and> step_answers opts s (shown_blocks env opts (pp_preview prepared)) asks
      \<and> client_approve env xa = Inr receipt
      \<and> seg = Exchanged (preview_request opts s) xp
          # Showed (ShownPreview (ps_action_name s) (shown_blocks env opts (pp_preview prepared)))
          # asks @ [Exchanged (approve_request (pp_transaction_id prepared)) xa,
                    Exchanged (execute_request (pp_transaction_id prepared) s receipt) x])"

lemma step_run:
  assumes "cli_run (Request (preview_request opts s) (\<lambda>x. case client_preview env x of
      Inl err \<Rightarrow> CliDone (Inl (preview_error n (ps_action_name s) err))
    | Inr prepared \<Rightarrow> previewed_step env opts s prepared continue)) evs = Some p"
  shows "halted evs p \<or> (\<exists>seg x evs'. evs = seg @ evs' \<and> consented_segment env opts s seg x \<and>
      ((evs' = [] \<and> p \<noteq> CliDone (Inr ())) \<or> (step_succeeded env x \<and> cli_run (continue ()) evs' = Some p)))"
proof -
  from assms consider (wait) "halted evs p"
    | (previewed) xp evs1 where "evs = Exchanged (preview_request opts s) xp # evs1"
      "cli_run (case client_preview env xp of Inl err \<Rightarrow> CliDone (Inl (preview_error n (ps_action_name s) err))
        | Inr prepared \<Rightarrow> previewed_step env opts s prepared continue) evs1 = Some p"
    by (auto simp: cli_run_iffs halted_def)
  then show ?thesis
  proof cases
    case wait
    then show ?thesis by blast
  next
    case previewed
    have quiet: "\<not> is_execute (Exchanged (preview_request opts s) xp)" by (simp add: preview_request_def)
    show ?thesis
    proof (cases "client_preview env xp")
      case (Inl e)
      then show ?thesis using previewed quiet by (simp add: cli_run_iffs halted_def)
    next
      case prepared: (Inr prepared)
      let ?blocks = "shown_blocks env opts (pp_preview prepared)"
      show ?thesis
      proof (cases "preview_accepted opts s (pp_preview prepared)")
        case False
        then show ?thesis using previewed quiet prepared
          by (auto simp: previewed_step_def Let_def preview_accepted_def daemon_risk_within_approved_def
              unattended_marker_present_def list_ex_iff cli_run_iffs halted_def split: if_splits)
      next
        case accepted: True
        then have "cli_run (Show (ShownPreview (ps_action_name s) ?blocks)
            (step_gate env opts s (omissions_of ?blocks)
              (approve_and_execute env (pp_transaction_id prepared) s continue))) evs1 = Some p"
          using previewed prepared
          by (auto simp: previewed_step_def Let_def preview_accepted_def daemon_risk_within_approved_def
              unattended_marker_present_def list_ex_iff shown_blocks_def split: if_splits)
        then consider (wait) "halted evs1 p"
          | (gate) evs2 where "evs1 = Showed (ShownPreview (ps_action_name s) ?blocks) # evs2"
            "cli_run (step_gate env opts s (omissions_of ?blocks)
              (approve_and_execute env (pp_transaction_id prepared) s continue)) evs2 = Some p"
          by (auto simp: cli_run_iffs halted_def)
        then show ?thesis
        proof cases
          case wait
          then show ?thesis using previewed quiet by (simp add: halted_def)
        next
          case gate
          from step_gate_run [OF gate(2)] show ?thesis
          proof
            assume "halted evs2 p"
            then show ?thesis using previewed gate quiet by (simp add: halted_def)
          next
            assume "\<exists>asks evs'. evs2 = asks @ evs' \<and> step_answers opts s ?blocks asks
              \<and> cli_run (approve_and_execute env (pp_transaction_id prepared) s continue) evs' = Some p"
            then obtain asks evs3 where evs2: "evs2 = asks @ evs3" and asks: "step_answers opts s ?blocks asks"
              and run: "cli_run (approve_and_execute env (pp_transaction_id prepared) s continue) evs3 = Some p"
              by blast
            have quiet_asks: "no_execute asks" using asks by (auto simp: step_answers_def split: if_splits)
            from approve_and_execute_run [OF run] show ?thesis
            proof
              assume "halted evs3 p"
              then show ?thesis using previewed gate quiet evs2 quiet_asks by (simp add: halted_def)
            next
              assume "\<exists>xa receipt x evs'. client_approve env xa = Inr receipt
                \<and> evs3 = Exchanged (approve_request (pp_transaction_id prepared)) xa
                    # Exchanged (execute_request (pp_transaction_id prepared) s receipt) x # evs'
                \<and> ((evs' = [] \<and> p \<noteq> CliDone (Inr ())) \<or> (step_succeeded env x \<and> cli_run (continue ()) evs' = Some p))"
              then obtain xa receipt x evs' where approved: "client_approve env xa = Inr receipt"
                and evs3: "evs3 = Exchanged (approve_request (pp_transaction_id prepared)) xa # Exchanged (execute_request (pp_transaction_id prepared) s receipt) x # evs'"
                and after: "(evs' = [] \<and> p \<noteq> CliDone (Inr ())) \<or> (step_succeeded env x \<and> cli_run (continue ()) evs' = Some p)"
                by blast
              let ?seg = "Exchanged (preview_request opts s) xp # Showed (ShownPreview (ps_action_name s) ?blocks)
                # asks @ [Exchanged (approve_request (pp_transaction_id prepared)) xa,
                    Exchanged (execute_request (pp_transaction_id prepared) s receipt) x]"
              have "consented_segment env opts s ?seg x"
                unfolding consented_segment_def using prepared accepted asks approved by blast
              moreover have "evs = ?seg @ evs'" using previewed gate evs2 evs3 by simp
              ultimately show ?thesis using after by blast
            qed
          qed
        qed
      qed
    qed
  qed
qed

section \<open>All steps\<close>

text \<open>The segments of a run, each with what came of its execution; all but the last succeeded.\<close>

definition step_segments ::
    "client_env \<Rightarrow> run_opts \<Rightarrow> plan_step list \<Rightarrow> (cli_event list \<times> exchange) list \<Rightarrow> bool" where
  "step_segments env opts ss segs \<longleftrightarrow> length segs \<le> length ss
     \<and> list_all2 (\<lambda>s (seg, x). consented_segment env opts s seg x) (take (length segs) ss) segs
     \<and> list_all (\<lambda>(seg, x). step_succeeded env x) (butlast segs)"

definition all_succeeded :: "client_env \<Rightarrow> plan_step list \<Rightarrow> (cli_event list \<times> exchange) list \<Rightarrow> bool" where
  "all_succeeded env ss segs \<longleftrightarrow> length segs = length ss \<and> list_all (\<lambda>(seg, x). step_succeeded env x) segs"

lemma step_segments_Nil [simp]: "step_segments env opts ss []"
  by (simp add: step_segments_def)

lemma step_segments_Cons:
  "consented_segment env opts s seg x \<Longrightarrow> step_segments env opts ss segs \<Longrightarrow> segs \<noteq> [] \<longrightarrow> step_succeeded env x
     \<Longrightarrow> step_segments env opts (s # ss) ((seg, x) # segs)"
  by (auto simp: step_segments_def)

lemma execute_steps_run:
  "cli_run (execute_steps env opts n ss) evs = Some p \<Longrightarrow>
     \<exists>segs rest. evs = concat (map fst segs) @ rest \<and> no_execute rest \<and> step_segments env opts ss segs
       \<and> (p = CliDone (Inr ()) \<longrightarrow> all_succeeded env ss segs)"
proof (induction ss arbitrary: n evs)
  case Nil
  then show ?case by (auto simp: cli_run_iffs all_succeeded_def intro!: exI [of _ "[]"])
next
  case (Cons s ss)
  have "cli_run (Request (preview_request opts s) (\<lambda>x. case client_preview env x of
      Inl err \<Rightarrow> CliDone (Inl (preview_error n (ps_action_name s) err))
    | Inr prepared \<Rightarrow> previewed_step env opts s prepared (\<lambda>_. execute_steps env opts (Suc n) ss))) evs = Some p"
    using Cons.prems by simp
  from step_run [OF this] consider (halt) "halted evs p"
    | (last) seg x where "evs = seg" "consented_segment env opts s seg x" "p \<noteq> CliDone (Inr ())"
    | (next_step) seg x evs' where "evs = seg @ evs'" "consented_segment env opts s seg x" "step_succeeded env x"
        "cli_run (execute_steps env opts (Suc n) ss) evs' = Some p"
    by auto
  then show ?case
  proof cases
    case halt
    then have "evs = concat (map fst []) @ evs \<and> no_execute evs \<and> step_segments env opts (s # ss) []
      \<and> (p = CliDone (Inr ()) \<longrightarrow> all_succeeded env (s # ss) [])"
      by (simp add: halted_def)
    then show ?thesis by blast
  next
    case last
    then have "evs = concat (map fst [(seg, x)]) @ [] \<and> no_execute [] \<and> step_segments env opts (s # ss) [(seg, x)]
      \<and> (p = CliDone (Inr ()) \<longrightarrow> all_succeeded env (s # ss) [(seg, x)])"
      by (simp add: step_segments_Cons)
    then show ?thesis by blast
  next
    case next_step
    obtain segs rest where IH: "evs' = concat (map fst segs) @ rest" "no_execute rest" "step_segments env opts ss segs"
      "p = CliDone (Inr ()) \<longrightarrow> all_succeeded env ss segs"
      using Cons.IH [OF next_step(4)] by blast
    then have "evs = concat (map fst ((seg, x) # segs)) @ rest \<and> no_execute rest
      \<and> step_segments env opts (s # ss) ((seg, x) # segs)
      \<and> (p = CliDone (Inr ()) \<longrightarrow> all_succeeded env (s # ss) ((seg, x) # segs))"
      using next_step by (simp add: step_segments_Cons all_succeeded_def)
    then show ?thesis by blast
  qed
qed

section \<open>Plans\<close>

lemma save_changes_run:
  "cli_run (save_changes cs k) evs = Some p \<Longrightarrow>
     halted evs p \<or> (\<exists>h evs'. evs = h @ evs' \<and> no_execute h \<and> cli_run k evs' = Some p)"
proof (induction cs arbitrary: evs)
  case Nil
  then have "evs = [] @ evs \<and> no_execute [] \<and> cli_run k evs = Some p" by simp
  then show ?case by blast
next
  case (Cons c cs)
  from Cons.prems consider "halted evs p"
    | outcome evs1 where "evs = Saved c outcome # evs1" "cli_run (save_changes cs k) evs1 = Some p"
    by (auto simp: cli_run_iffs halted_def)
  then show ?case
  proof cases
    case 2
    from Cons.IH [OF 2(2)] show ?thesis
    proof
      assume "\<exists>h evs'. evs1 = h @ evs' \<and> no_execute h \<and> cli_run k evs' = Some p"
      then obtain h evs' where "evs = (Saved c outcome # h) @ evs'" "no_execute (Saved c outcome # h)" "cli_run k evs' = Some p"
        using 2 by auto
      then show ?thesis by blast
    qed (use 2 in \<open>simp add: halted_def\<close>)
  qed blast
qed

lemma header_step:
  assumes "\<not> is_execute ev" and "halted evs p \<or> (\<exists>h evs'. evs = h @ evs' \<and> no_execute h \<and> cli_run k evs' = Some p)"
  shows "halted (ev # evs) p \<or> (\<exists>h evs'. ev # evs = h @ evs' \<and> no_execute h \<and> cli_run k evs' = Some p)"
  using assms(2)
proof
  assume "\<exists>h evs'. evs = h @ evs' \<and> no_execute h \<and> cli_run k evs' = Some p"
  then obtain h evs' where "ev # evs = (ev # h) @ evs'" "no_execute (ev # h)" "cli_run k evs' = Some p"
    using assms(1) by auto
  then show ?thesis by blast
qed (use assms(1) in \<open>simp add: halted_def\<close>)

lemma header_none: "cli_run k evs = Some p \<Longrightarrow> \<exists>h evs'. evs = h @ evs' \<and> no_execute h \<and> cli_run k evs' = Some p"
  by (rule exI [of _ "[]"]) simp

lemma preference_changes_run:
  assumes "cli_run (preference_changes opts changes view k) evs = Some p"
  shows "halted evs p \<or> (\<exists>h evs'. evs = h @ evs' \<and> no_execute h \<and> cli_run k evs' = Some p)"
proof (cases "changes = [] \<or> ro_yes opts \<or> ro_non_interactive opts")
  case True
  then show ?thesis using assms header_none by (auto simp: preference_changes_def split: if_splits)
next
  case ask: False
  show ?thesis
  proof (cases "require_complete_view view ''the plan''")
    case (Inl e)
    then show ?thesis using assms ask by (simp add: preference_changes_def cli_run_iffs halted_def)
  next
    case (Inr u)
    then consider "halted evs p"
      | answer evs1 where "evs = Asked (SavePreferences (length changes)) answer # evs1"
          "cli_run (if confirms answer then save_changes changes k else k) evs1 = Some p"
      using assms ask by (auto simp: preference_changes_def cli_run_iffs halted_def)
    then show ?thesis
    proof cases
      case 2
      have "halted evs1 p \<or> (\<exists>h evs'. evs1 = h @ evs' \<and> no_execute h \<and> cli_run k evs' = Some p)"
        using 2(2) save_changes_run header_none by (cases "confirms answer") simp_all
      from header_step [OF _ this, of "Asked (SavePreferences (length changes)) answer"] show ?thesis using 2(1) by simp
    qed blast
  qed
qed

lemma execute_plan_run:
  assumes "cli_run (execute_plan env opts plan) evs = Some p" "\<not> ro_dry_run opts"
  shows "halted evs p \<or> (\<exists>h evs'. evs = h @ evs' \<and> no_execute h
    \<and> cli_run (execute_steps env opts 0 (authorized_steps plan)) evs' = Some p)"
proof -
  define plan_shown where "plan_shown = (if ro_json opts then [] else plan_blocks env plan)"
  define go_on where "go_on = preference_changes opts (pl_pref_changes (authorized plan)) (omissions_of plan_shown)
    (execute_steps env opts 0 (authorized_steps plan))"
  define gated where "gated = (case highest_risk plan of
      None \<Rightarrow> CliDone (Inl (Exit 101))
    | Some highest \<Rightarrow>
        (case gate_action_of (decide_plan (approval_policy_of opts) plan) highest of
           Proceed \<Rightarrow> go_on
         | Refuse e \<Rightarrow> CliDone (Inl e)
         | AskOperator \<Rightarrow>
             if ro_step_by_step opts then go_on
             else (case require_complete_view (omissions_of plan_shown) ''the plan'' of
                 Inl e \<Rightarrow> CliDone (Inl e)
               | Inr _ \<Rightarrow> confirm_or_reject (ExecutePlan (length (authorized_steps plan)) highest) go_on)))"
  let ?reach = "\<lambda>evs. halted evs p \<or> (\<exists>h evs'. evs = h @ evs' \<and> no_execute h
    \<and> cli_run (execute_steps env opts 0 (authorized_steps plan)) evs' = Some p)"
  have go: "?reach evs'" if "cli_run go_on evs' = Some p" for evs'
    using that preference_changes_run unfolding go_on_def by blast
  have plan_run: "cli_run (Show (ShownPlan plan_shown) gated) evs = Some p"
    using assms(1) assms(2) unfolding execute_plan_def Let_def gated_def go_on_def plan_shown_def
    by (simp only: if_False)
  have gate: "?reach evs'" if run: "cli_run gated evs' = Some p" for evs'
  proof -
    consider (stop) e where "gated = CliDone (Inl e)" | (proceed) "gated = go_on"
      | (ask) q where "gated = confirm_or_reject q go_on"
    proof (cases "highest_risk plan")
      case None
      then show thesis using that(1) by (simp add: gated_def)
    next
      case highest: (Some highest)
      show thesis
      proof (cases "gate_action_of (decide_plan (approval_policy_of opts) plan) highest")
        case Proceed
        then show thesis using that(2) highest by (simp add: gated_def del: gate_action_of_simps)
      next
        case (Refuse e)
        then show thesis using that(1) highest by (simp add: gated_def)
      next
        case AskOperator
        show thesis
        proof (cases "ro_step_by_step opts")
          case True
          then show thesis using that(2) highest AskOperator by (simp add: gated_def del: gate_action_of_simps)
        next
          case False
          then show thesis using that(1,3) highest AskOperator
            by (cases "require_complete_view (omissions_of plan_shown) ''the plan''")
              (simp_all add: gated_def del: gate_action_of_simps)
        qed
      qed
    qed
    then show ?thesis
    proof cases
      case stop
      then show ?thesis using run by (simp add: cli_run_iffs halted_def)
    next
      case proceed
      then show ?thesis using run go by simp
    next
      case ask
      then have "cli_run (confirm_or_reject q go_on) evs' = Some p" using run by simp
      from confirm_or_reject_run [OF this] show ?thesis
      proof
        assume "\<exists>answer evs''. evs' = Asked q answer # evs'' \<and> confirms answer \<and> cli_run go_on evs'' = Some p"
        then obtain answer evs'' where evs': "evs' = Asked q answer # evs''" and "cli_run go_on evs'' = Some p" by blast
        from header_step [OF _ go [OF this(2)], of "Asked q answer"] show ?thesis unfolding evs' by simp
      qed blast
    qed
  qed
  from plan_run consider "halted evs p" | evs1 where "evs = Showed (ShownPlan plan_shown) # evs1" "cli_run gated evs1 = Some p"
    by (auto simp: cli_run_iffs halted_def)
  then show ?thesis
  proof cases
    case 2
    from header_step [OF _ gate [OF 2(2)], of "Showed (ShownPlan plan_shown)"] show ?thesis using 2(1) by simp
  qed blast
qed

theorem execute_plan_segments:
  assumes "cli_run (execute_plan env opts plan) evs = Some p" "\<not> ro_dry_run opts"
  shows "\<exists>header segs rest. evs = header @ concat (map fst segs) @ rest \<and> no_execute header \<and> no_execute rest
    \<and> step_segments env opts (authorized_steps plan) segs
    \<and> (p = CliDone (Inr ()) \<longrightarrow> all_succeeded env (authorized_steps plan) segs)"
proof -
  from execute_plan_run [OF assms] show ?thesis
  proof
    assume "halted evs p"
    then have "evs = evs @ concat (map fst []) @ [] \<and> no_execute evs \<and> no_execute []
      \<and> step_segments env opts (authorized_steps plan) []
      \<and> (p = CliDone (Inr ()) \<longrightarrow> all_succeeded env (authorized_steps plan) [])"
      by (simp add: halted_def)
    then show ?thesis by blast
  next
    assume "\<exists>h evs'. evs = h @ evs' \<and> no_execute h
      \<and> cli_run (execute_steps env opts 0 (authorized_steps plan)) evs' = Some p"
    then obtain h evs' where h: "evs = h @ evs'" "no_execute h"
      and run: "cli_run (execute_steps env opts 0 (authorized_steps plan)) evs' = Some p" by blast
    from execute_steps_run [OF run] obtain segs rest where "evs' = concat (map fst segs) @ rest" "no_execute rest"
      "step_segments env opts (authorized_steps plan) segs"
      "p = CliDone (Inr ()) \<longrightarrow> all_succeeded env (authorized_steps plan) segs" by blast
    then show ?thesis using h by blast
  qed
qed

lemma dry_run_executes_nothing:
  "cli_run (execute_plan env opts plan) evs = Some p \<Longrightarrow> ro_dry_run opts \<Longrightarrow>
     evs = [] \<or> (\<exists>blocks. evs = [Showed (ShownPlan blocks)] \<and> p = CliDone (Inr ()))"
  by (auto simp: execute_plan_def Let_def cli_run_iffs)

section \<open>Who consents\<close>

lemma into_authorized_steps:
  "s \<in> set (authorized_steps (into_authorized risk_for p)) \<Longrightarrow> ps_risk_level s = risk_for (ps_action_name s)"
  by (auto simp: authorized_steps_def into_authorized_def)

lemma risk_includes_high: "risk_includes c PlanHigh \<longleftrightarrow> c = MaxHigh"
  by (cases c) simp_all

lemma decide_step_high:
  "decide_step (approval_policy_of opts) PlanHigh = AutoApproved \<Longrightarrow> ro_dry_run opts \<or> ro_skip_approval opts"
  by (auto simp: decide_step_def approval_policy_of_def approval_policy_new_def effective_auto_ceiling_def Let_def
      min_risk_def HARDCODED_MAX_AUTO_APPROVE_def risk_includes_high split: option.splits if_splits)

lemma concat_last_event:
  assumes "pre @ [ev] = header @ concat (map fst segs) @ rest" "is_execute ev" "no_execute header" "no_execute rest"
    and "\<And>seg x. (seg, x) \<in> set segs \<Longrightarrow> seg \<noteq> []"
  shows "\<exists>segs' seg x. segs = segs' @ [(seg, x)] \<and> last seg = ev \<and> pre = header @ concat (map fst segs') @ butlast seg"
proof -
  have rest: "rest = []"
  proof (cases rest rule: rev_cases)
    case (snoc rs r)
    then have "ev = r" using assms(1) by simp
    then show ?thesis using assms(2,4) snoc by simp
  qed
  show ?thesis
  proof (cases segs rule: rev_cases)
    case Nil
    then have "is_execute (last header) \<and> header \<noteq> []" using assms(1,2) rest by (metis append.right_neutral append_is_Nil_conv concat.simps(1) last_snoc list.map(1) not_Cons_self2)
    then show ?thesis using assms(3) by (cases header rule: rev_cases) simp_all
  next
    case (snoc segs' y)
    obtain seg x where y: "y = (seg, x)" by (cases y)
    have ne: "seg \<noteq> []" using assms(5) snoc y by auto
    then have "pre @ [ev] = (header @ concat (map fst segs') @ butlast seg) @ [last seg]"
      using assms(1) rest snoc y by simp
    then show ?thesis using snoc y by simp
  qed
qed

lemma consented_segment_ends:
  "consented_segment env opts s seg x \<Longrightarrow>
     \<exists>xp prepared asks xa receipt.
        client_preview env xp = Inr prepared \<and> preview_accepted opts s (pp_preview prepared)
      \<and> step_answers opts s (shown_blocks env opts (pp_preview prepared)) asks
      \<and> client_approve env xa = Inr receipt
      \<and> butlast seg = Exchanged (preview_request opts s) xp
          # Showed (ShownPreview (ps_action_name s) (shown_blocks env opts (pp_preview prepared)))
          # asks @ [Exchanged (approve_request (pp_transaction_id prepared)) xa]
      \<and> last seg = Exchanged (execute_request (pp_transaction_id prepared) s receipt) x"
  unfolding consented_segment_def by (elim exE conjE) (intro exI conjI, assumption+, simp_all add: butlast_append)

lemma consented_segment_ne: "consented_segment env opts s seg x \<Longrightarrow> seg \<noteq> []"
  by (auto simp: consented_segment_def)

lemma execute_has_consent:
  assumes run: "cli_run (execute_plan env opts plan) (pre @ [Exchanged (Execute rid t n ps receipt) x]) = Some p"
    and dry: "\<not> ro_dry_run opts"
  shows "\<exists>s pre' xp prepared asks xa. s \<in> set (authorized_steps plan) \<and> ps_action_name s = n \<and> ps_params s = ps
    \<and> pp_transaction_id prepared = t
    \<and> client_preview env xp = Inr prepared \<and> preview_accepted opts s (pp_preview prepared)
    \<and> step_answers opts s (shown_blocks env opts (pp_preview prepared)) asks
    \<and> client_approve env xa = Inr receipt
    \<and> pre = pre' @ Exchanged (preview_request opts s) xp
          # Showed (ShownPreview n (shown_blocks env opts (pp_preview prepared)))
          # asks @ [Exchanged (approve_request t) xa]"
proof -
  obtain header segs rest where split: "pre @ [Exchanged (Execute rid t n ps receipt) x]
      = header @ concat (map fst segs) @ rest" and quiet: "no_execute header" "no_execute rest"
    and segs: "step_segments env opts (authorized_steps plan) segs"
    using execute_plan_segments [OF run dry] by blast
  have each: "\<exists>s\<in>set (authorized_steps plan). consented_segment env opts s seg y" if "(seg, y) \<in> set segs" for seg y
  proof -
    obtain i where i: "i < length segs" "segs ! i = (seg, y)" using \<open>(seg, y) \<in> set segs\<close> by (auto simp: in_set_conv_nth)
    have len: "i < length (authorized_steps plan)" using segs i(1) by (simp add: step_segments_def)
    have "list_all2 (\<lambda>s (seg, x). consented_segment env opts s seg x) (take (length segs) (authorized_steps plan)) segs"
      using segs by (simp add: step_segments_def)
    from list_all2_nthD2 [OF this i(1)] have "consented_segment env opts (authorized_steps plan ! i) seg y"
      using i by simp
    then show ?thesis using len by auto
  qed
  have "\<exists>segs' seg y. segs = segs' @ [(seg, y)] \<and> last seg = Exchanged (Execute rid t n ps receipt) x
      \<and> pre = header @ concat (map fst segs') @ butlast seg"
    using each consented_segment_ne by (intro concat_last_event [OF split _ quiet]) fastforce+
  then obtain segs' seg y where last: "segs = segs' @ [(seg, y)]" "last seg = Exchanged (Execute rid t n ps receipt) x"
    "pre = header @ concat (map fst segs') @ butlast seg" by blast
  obtain s where s: "s \<in> set (authorized_steps plan)" "consented_segment env opts s seg y"
    using each [of seg y] last(1) by auto
  obtain xp prepared asks xa r where c: "client_preview env xp = Inr prepared" "preview_accepted opts s (pp_preview prepared)"
      "step_answers opts s (shown_blocks env opts (pp_preview prepared)) asks" "client_approve env xa = Inr r"
      "butlast seg = Exchanged (preview_request opts s) xp
          # Showed (ShownPreview (ps_action_name s) (shown_blocks env opts (pp_preview prepared)))
          # asks @ [Exchanged (approve_request (pp_transaction_id prepared)) xa]"
      "last seg = Exchanged (execute_request (pp_transaction_id prepared) s r) y"
    using consented_segment_ends [OF s(2)] by blast
  have same: "ps_action_name s = n" "ps_params s = ps" "pp_transaction_id prepared = t" "r = receipt"
    using c(6) last(2) by (simp_all add: execute_request_def)
  show ?thesis
    by (rule exI [of _ s], rule exI [of _ "header @ concat (map fst segs')"], rule exI [of _ xp], rule exI [of _ prepared],
        rule exI [of _ asks], rule exI [of _ xa]) (use s(1) c same last(3) in simp)
qed

section \<open>What was on the screen\<close>

lemma omissions_none: "is_none (omissions_of blocks) \<longleftrightarrow> list_all is_complete blocks"
  by (induction blocks) (auto simp: is_none_def omissions_of_def is_complete_def)

lemma shown_change:
  assumes "is_none (omissions_of (preview_blocks env preview))" "json_block env (pv_proposed_change preview) = Some b"
  shows "visible (ob_text b) = visible (from_utf8 (ce_pretty env (pv_proposed_change preview)))"
proof -
  have "is_complete b" using assms by (auto simp: omissions_none preview_blocks_def opt_list_def)
  moreover have "b = operator_safe_block (from_utf8 (ce_pretty env (pv_proposed_change preview)))"
    using assms(2) by (auto simp: json_block_def Let_def split: if_splits)
  ultimately show ?thesis using complete_block_shows_all by simp
qed

end
