(* ===== verification/Sk_Client_Guarantees.thy ===== *)
theory Sk_Client_Guarantees
  imports Sk_Consent
begin

text \<open>
  What the clients guarantee, and scripted runs of them as witnesses. The daemon of the scripts answers
  with a preview (\<open>P\<close>), a description (\<open>C\<close>), the details of a transaction (\<open>D\<close>), an approval (\<open>A\<close>), the result of a
  job (\<open>R\<close>) or an error (\<open>E\<close>).
\<close>

section \<open>A script\<close>

definition demo_preview :: preview_envelope where
  "demo_preview = \<lparr>pv_summary = ''UpdateSystem'', pv_risk_level = High, pv_current_state = JNull,
     pv_proposed_change = JNull, pv_expected_side_effects = [], pv_reboot_required = True,
     pv_rollback_available = True, pv_warnings = [], pv_request_hash = ''h''\<rparr>"

definition demo_result :: result_envelope where
  "demo_result = \<lparr>res_status = Succeeded, res_summary = ''done'', res_warnings = [], res_job_id = None,
     res_needs_reboot = False, res_rollback_ref = None, res_transaction_id = ''t''\<rparr>"

definition demo_json :: "string \<Rightarrow> string + json" where
  "demo_json raw =
     (if raw = ''P'' then Inr (JObj [(''type'', JStr ''preview_response''), (''transaction_id'', JStr ''t'')])
      else if raw = ''A'' then Inr (JObj [(''type'', JStr ''approval_response''), (''approval_receipt'', JStr ''r'')])
      else if raw = ''R'' then Inr (JObj [(''type'', JStr ''job_completed'')])
      else if raw = ''D'' then Inr (JObj [(''type'', JStr ''approval_details_response''), (''transaction_id'', JStr ''t''),
        (''action_name'', JStr ''UpdateSystem'')])
      else if raw = ''C'' then Inr (JObj [(''type'', JStr ''describe_response''), (''command'', JStr ''update'')])
      else if raw = ''E'' then Inr (JObj [(''type'', JStr ''error_response'')])
      else Inl ''no JSON'')"

definition demo_env :: client_env where
  "demo_env = \<lparr>ce_json_parse = demo_json, ce_json_debug = (\<lambda>_. []), ce_preview = (\<lambda>_. Inr demo_preview),
     ce_result = (\<lambda>_. Inr demo_result), ce_strip_ansi = (\<lambda>s. s), ce_pretty = (\<lambda>_. ''null'')\<rparr>"

definition demo_opts :: run_opts where
  "demo_opts = \<lparr>ro_yes = False, ro_max_risk = None, ro_non_interactive = False, ro_dry_run = False, ro_json = False,
     ro_step_by_step = False, ro_skip_approval = False\<rparr>"

definition demo_step :: plan_step where
  "demo_step = \<lparr>ps_action_name = ''UpdateSystem'', ps_summary = ''update'', ps_risk_level = PlanLow, ps_params = JObj []\<rparr>"

definition demo_plan :: plan where
  "demo_plan = \<lparr>pl_intent = ''update'', pl_summary = ''update'', pl_explanation = ''update'', pl_steps = [demo_step],
     pl_pref_changes = []\<rparr>"

definition replies :: "string \<Rightarrow> exchange" where
  "replies raw = \<lparr>ex_connect = None, ex_write = WriteOk, ex_frames = [Frame raw]\<rparr>"

definition demo_events :: "cli_event list" where
  "demo_events =
     [Showed (ShownPlan []), Asked (ExecutePlan 1 PlanHigh) (Some ''y''),
      Exchanged (Preview (''cli-preview-'' @ ''UpdateSystem'') ''UpdateSystem'' (JObj []) False) (replies ''P''),
      Showed (ShownPreview ''UpdateSystem'' []), Asked (ApplyStep ''UpdateSystem'' PlanHigh) (Some ''yes''),
      Exchanged (Approve (''cli-approve-'' @ ''t'') ''t'') (replies ''A'')]"

definition demo_execute :: cli_event where
  "demo_execute =
     Exchanged (Execute (''cli-exec-'' @ ''UpdateSystem'') ''t'' ''UpdateSystem'' (JObj []) ''r'') (replies ''R'')"

lemma gate_risk_built:
  assumes "build_action_spec n ps = Inr spec"
  shows "gate_risk n = as_risk_level spec"
proof -
  obtain build where "(n, build) \<in> set action_builders" "build ps = Inr spec"
    using build_action_spec_entry [OF assms] by blast
  then obtain t where t: "t \<in> set all_specs" "as_action_name t = n" "meta_of t = meta_of spec"
    using match.built_described(2) by blast
  then show ?thesis using spec_meta_for_entry [OF t(1)] by (simp add: gate_risk_def meta_of_def)
qed

lemma gate_risk_UpdateSystem: "gate_risk ''UpdateSystem'' = High"
  using gate_risk_built [OF build_UpdateSystem] by (simp add: update_system_def)

lemma demo_confirms: "confirms (Some ''y'')" "confirms (Some ''yes'')"
  by code_simp+

lemma demo_exact: "types_exactly ''UpdateSystem'' (Some ''UpdateSystem'')"
  by code_simp

lemma demo_replies:
  "client_preview demo_env (replies ''P'') = Inr \<lparr>pp_transaction_id = ''t'', pp_preview = demo_preview\<rparr>"
  "client_approve demo_env (replies ''A'') = Inr ''r''"
  "client_execute demo_env (replies ''R'') = ([], Inr demo_result)"
  "client_approval_details demo_env (replies ''D'') = Inr \<lparr>ad_transaction_id = ''t'', ad_action_name = ''UpdateSystem'',
     ad_preview = demo_preview\<rparr>"
  by code_simp+

lemma demo_fields: "ce_pretty demo_env j = ''null''" "pv_risk_level demo_preview = High"
  by (simp_all add: demo_env_def demo_preview_def)

lemma demo_run:
  "cli_run (execute_plan demo_env demo_opts (into_authorized authoritative_plan_risk demo_plan)) (demo_events @ [demo_execute])
     = Some (CliDone (Inr ()))"
  by (simp add: demo_events_def demo_execute_def execute_plan_def Let_def into_authorized_def authorized_steps_def demo_plan_def
      demo_step_def demo_opts_def plan_blocks_def json_block_def opt_list_def highest_risk_def authoritative_plan_risk_def
      gate_risk_UpdateSystem decide_plan_def decide_step_def approval_policy_of_def approval_policy_new_def
      effective_auto_ceiling_def gate_action_of_def require_complete_view_def is_none_def omissions_of_def
      confirm_or_reject_def demo_confirms preference_changes_def preview_request_def demo_replies previewed_step_def
      demo_preview_def daemon_risk_within_approved_def preview_blocks_def step_gate_def
      post_preview_confirmation_required_def plan_order_defs approve_and_execute_def approve_request_def
      execute_step_checked_def execute_request_def step_completion_verdict_def demo_result_def)

section \<open>Running plans\<close>

text \<open>C14: The command line executes only what it has previewed, shown, asked about and had approved. However the
  operator and the daemon answer, a run of a plan is a header without executions and then one segment per
  executed step, in the order of the plan: the preview of exactly that step, which the daemon rates no higher than
  the plan and, when the gate is lifted, has recorded as unattended; the preview on screen; a question that was
  answered with yes on a complete view whenever the policy does not approve the step by itself; the approval of that
  transaction, and the execution with its receipt. A step runs only after the one before it succeeded, and the run
  reports success only when all steps did.\<close>

theorem runs_are_consented_step_by_step:
  assumes "cli_run (execute_plan env opts plan) evs = Some p" "\<not> ro_dry_run opts"
  shows "\<exists>header segs rest. evs = header @ concat (map fst segs) @ rest \<and> no_execute header \<and> no_execute rest
    \<and> step_segments env opts (authorized_steps plan) segs
    \<and> (p = CliDone (Inr ()) \<longrightarrow> all_succeeded env (authorized_steps plan) segs)"
  using assms by (rule execute_plan_segments)

theorem runs_are_consented_step_by_step_witness:
  "\<exists>segs. step_segments demo_env demo_opts (authorized_steps (into_authorized authoritative_plan_risk demo_plan)) segs
     \<and> length segs = 1"
proof -
  obtain segs where "step_segments demo_env demo_opts (authorized_steps (into_authorized authoritative_plan_risk demo_plan)) segs"
    "all_succeeded demo_env (authorized_steps (into_authorized authoritative_plan_risk demo_plan)) segs"
    using runs_are_consented_step_by_step [OF demo_run] by (auto simp: demo_opts_def)
  then show ?thesis by (auto simp: all_succeeded_def authorized_steps_def into_authorized_def demo_plan_def)
qed



section \<open>Approving a transaction\<close>

definition approve_then_print :: "client_env \<Rightarrow> string \<Rightarrow> cli" where
  "approve_then_print env t = Request (approve_request t) (\<lambda>y. case client_approve env y of
     Inl e \<Rightarrow> CliDone (Inl e) | Inr receipt \<Rightarrow> Show (ShownText receipt) (CliDone (Inr ())))"

lemma approve_then_print_run:
  "cli_run (approve_then_print env t) evs = Some p \<Longrightarrow> Exchanged (Approve rid t') y \<in> set evs \<Longrightarrow>
     t' = t \<and> (\<exists>rest. evs = Exchanged (Approve rid t') y # rest)"
proof -
  assume run: "cli_run (approve_then_print env t) evs = Some p" and said: "Exchanged (Approve rid t') y \<in> set evs"
  obtain z evs' where evs: "evs = Exchanged (approve_request t) z # evs'"
    and rest: "cli_run (case client_approve env z of
      Inl e \<Rightarrow> CliDone (Inl e) | Inr receipt \<Rightarrow> Show (ShownText receipt) (CliDone (Inr ()))) evs' = Some p"
    using run said by (auto simp: approve_then_print_def cli_run_Request)
  have "Exchanged (Approve rid t') y \<notin> set evs'"
    using rest by (cases "client_approve env z") (auto simp: cli_run_iffs)
  then have "Exchanged (Approve rid t') y = Exchanged (approve_request t) z" using said evs by simp
  then show ?thesis using evs by (simp add: approve_request_def)
qed

lemma approval_view_shows_all: "approval_view t pretty full = Inr view \<Longrightarrow> visible view = visible pretty"
  by (auto simp: approval_view_def Let_def complete_block_shows_all full_block_shows_all split: if_splits)

lemma decide_step_within_ceiling:
  "gate_action_of (decide_step policy risk) risk \<noteq> Refuse (RiskCeilingExceeded risk c) \<Longrightarrow> \<not> ap_dry_run policy \<Longrightarrow>
     ap_max_risk policy = Some c \<Longrightarrow> risk_includes c risk"
  by (rule ccontr) (simp add: decide_step_def gate_action_of_def)

definition approve_asked :: "client_env \<Rightarrow> string \<Rightarrow> approval_details \<Rightarrow> cli" where
  "approve_asked env t details =
     (if pv_risk_level (ad_preview details) = High then
        Ask (TypeActionName (ad_action_name details)) (\<lambda>answer.
          if types_exactly (ad_action_name details) answer then approve_then_print env t else CliDone (Inl Rejected))
      else confirm_or_reject (ApproveTransaction (ad_transaction_id details)) (approve_then_print env t))"

definition pretty_change :: "client_env \<Rightarrow> approval_details \<Rightarrow> utext" where
  "pretty_change env details = from_utf8 (ce_pretty env (pv_proposed_change (ad_preview details)))"

definition receipt_policy :: "run_opts \<Rightarrow> approval_policy" where
  "receipt_policy opts = approval_policy_new False (ro_max_risk opts) (ro_non_interactive opts) False False"

definition approve_viewed :: "client_env \<Rightarrow> string \<Rightarrow> run_opts \<Rightarrow> bool \<Rightarrow> approval_details \<Rightarrow> cli" where
  "approve_viewed env t opts full details =
     (let risk = plan_risk_of (pv_risk_level (ad_preview details)) in
      case gate_action_of (decide_step (receipt_policy opts) risk) risk of
        Refuse e \<Rightarrow> CliDone (Inl e)
      | _ \<Rightarrow> (case approval_view t (pretty_change env details) full of
            Inl e \<Rightarrow> CliDone (Inl e)
          | Inr view \<Rightarrow> Show (ShownView (approval_context details) view) (approve_asked env t details)))"

lemma approve_program:
  "\<not> ro_dry_run opts \<Longrightarrow> \<not> ro_non_interactive opts \<Longrightarrow> terminal \<Longrightarrow> approve_with_confirmation env t opts full terminal =
     Request (ApprovalDetails (''cli-approval-details-'' @ t) t) (\<lambda>x. case client_approval_details env x of
       Inl e \<Rightarrow> CliDone (Inl e) | Inr details \<Rightarrow> approve_viewed env t opts full details)"
  unfolding approve_with_confirmation_def approve_viewed_def approve_asked_def approve_then_print_def Let_def
    pretty_change_def receipt_policy_def
  by (simp cong: sum.case_cong)

lemma dry_approval:
  assumes "ro_dry_run opts" "cli_run (approve_with_confirmation env t opts full terminal) evs = Some p"
  shows "Exchanged (Approve rid t') y \<notin> set evs"
proof
  assume said: "Exchanged (Approve rid t') y \<in> set evs"
  define shown where "shown = (\<lambda>details. ShownView (approval_context details)
    (ob_text (if full then operator_safe_block_full (pretty_change env details)
      else operator_safe_block (pretty_change env details))))"
  have "approve_with_confirmation env t opts full terminal =
    Request (ApprovalDetails (''cli-approval-details-'' @ t) t) (\<lambda>x. case client_approval_details env x of
      Inl e \<Rightarrow> CliDone (Inl e) | Inr details \<Rightarrow> Show (shown details) (CliDone (Inr ())))"
    using assms(1) unfolding approve_with_confirmation_def Let_def shown_def pretty_change_def
    by (simp cong: sum.case_cong)
  then obtain x evs1 where "evs = Exchanged (ApprovalDetails (''cli-approval-details-'' @ t) t) x # evs1"
    "cli_run (case client_approval_details env x of
      Inl e \<Rightarrow> CliDone (Inl e) | Inr details \<Rightarrow> Show (shown details) (CliDone (Inr ()))) evs1 = Some p"
    using assms(2) said by (auto simp: cli_run_Request)
  then show False using said by (cases "client_approval_details env x") (auto simp: cli_run_iffs)
qed

lemma approval_conditions:
  assumes "cli_run (approve_with_confirmation env t opts full terminal) evs = Some p"
    and "Exchanged (Approve rid t') y \<in> set evs"
  shows "\<not> ro_dry_run opts" and "\<not> ro_non_interactive opts" and "terminal"
proof -
  show live: "\<not> ro_dry_run opts" using dry_approval [OF _ assms(1)] assms(2) by blast
  show inter: "\<not> ro_non_interactive opts"
    using assms live by (auto simp: approve_with_confirmation_def cli_run_iffs)
  show "terminal"
  proof (rule ccontr)
    assume "\<not> terminal"
    then have "approve_with_confirmation env t opts full terminal = CliDone (Inl ApprovalNeedsTerminal)"
      using live inter by (simp add: approve_with_confirmation_def)
    then show False using assms by (simp add: cli_run_CliDone)
  qed
qed

lemma approve_asked_run:
  assumes "cli_run (approve_asked env t details) evs = Some p" "Exchanged (Approve rid t') y \<in> set evs"
  shows "\<exists>q answer rest. evs = Asked q answer # Exchanged (Approve rid t') y # rest \<and> t' = t
    \<and> (if pv_risk_level (ad_preview details) = High then types_exactly (ad_action_name details) answer else confirms answer)"
proof -
  have "\<exists>q answer evs'. evs = Asked q answer # evs' \<and> cli_run (approve_then_print env t) evs' = Some p
    \<and> (if pv_risk_level (ad_preview details) = High then types_exactly (ad_action_name details) answer else confirms answer)"
    using assms
    by (auto simp: approve_asked_def confirm_or_reject_def cli_run_Ask cli_run_CliDone split: if_splits)
  then show ?thesis using approve_then_print_run assms(2) by fastforce
qed

lemma approve_viewed_run:
  assumes "cli_run (approve_viewed env t opts full details) evs = Some p" "Exchanged (Approve rid t') y \<in> set evs"
  shows "\<exists>view rest. evs = Showed (ShownView (approval_context details) view) # rest
    \<and> approval_view t (pretty_change env details) full = Inr view \<and> cli_run (approve_asked env t details) rest = Some p
    \<and> (\<forall>c. ro_max_risk opts = Some c \<longrightarrow> risk_includes c (plan_risk_of (pv_risk_level (ad_preview details))))"
proof -
  let ?risk = "plan_risk_of (pv_risk_level (ad_preview details))"
  have gate: "gate_action_of (decide_step (receipt_policy opts) ?risk) ?risk \<noteq> Refuse e" for e
    using assms by (auto simp: approve_viewed_def cli_run_CliDone)
  have viewed: "cli_run (case approval_view t (pretty_change env details) full of
      Inl e \<Rightarrow> CliDone (Inl e)
    | Inr view \<Rightarrow> Show (ShownView (approval_context details) view) (approve_asked env t details)) evs = Some p"
  proof (cases "gate_action_of (decide_step (receipt_policy opts) ?risk) ?risk")
    case (Refuse e)
    then show ?thesis using gate [of e] by simp
  qed (use assms(1) in \<open>simp_all add: approve_viewed_def del: gate_action_of_simps\<close>)
  obtain view where view: "approval_view t (pretty_change env details) full = Inr view"
    using viewed assms(2) by (cases "approval_view t (pretty_change env details) full") (auto simp: cli_run_CliDone)
  have "risk_includes c ?risk" if "ro_max_risk opts = Some c" for c
    using decide_step_within_ceiling [of "receipt_policy opts" ?risk c] gate that
    by (simp add: receipt_policy_def approval_policy_new_def)
  then show ?thesis using viewed view assms(2) by (auto simp: cli_run_Show)
qed

text \<open>C15: A receipt that the command line prints was approved by a person at a terminal. \<^verbatim>\<open>sysknife approve\<close> asks
  the daemon to approve only the transaction it was given, at a terminal, with neither the interaction switched off nor
  the risk above the ceiling, after it has shown the daemon's preview of it with every visible character of
  the proposed change, and after the operator typed the exact name of a high-risk action or confirmed another.\<close>

theorem receipts_need_a_person:
  assumes "cli_run (approve_with_confirmation env t opts full terminal) evs = Some p"
    and "Exchanged (Approve rid t') y \<in> set evs"
  shows "t' = t \<and> terminal \<and> \<not> ro_non_interactive opts \<and> \<not> ro_dry_run opts
    \<and> (\<exists>x details view q answer. take 4 evs =
         [Exchanged (ApprovalDetails (''cli-approval-details-'' @ t) t) x, Showed (ShownView (approval_context details) view),
          Asked q answer, Exchanged (Approve rid t) y]
       \<and> client_approval_details env x = Inr details
       \<and> visible view = visible (from_utf8 (ce_pretty env (pv_proposed_change (ad_preview details))))
       \<and> (if pv_risk_level (ad_preview details) = High then types_exactly (ad_action_name details) answer
          else confirms answer)
       \<and> (\<forall>c. ro_max_risk opts = Some c \<longrightarrow> risk_includes c (plan_risk_of (pv_risk_level (ad_preview details)))))"
proof -
  note flags = approval_conditions [OF assms]
  obtain x evs1 where evs: "evs = Exchanged (ApprovalDetails (''cli-approval-details-'' @ t) t) x # evs1"
    and run1: "cli_run (case client_approval_details env x of
        Inl e \<Rightarrow> CliDone (Inl e) | Inr details \<Rightarrow> approve_viewed env t opts full details) evs1 = Some p"
    using assms unfolding approve_program [OF flags] by (auto simp: cli_run_Request)
  have in1: "Exchanged (Approve rid t') y \<in> set evs1" using assms(2) evs by simp
  obtain details where details: "client_approval_details env x = Inr details"
    using run1 in1 by (cases "client_approval_details env x") (auto simp: cli_run_CliDone)
  then have "cli_run (approve_viewed env t opts full details) evs1 = Some p" using run1 by simp
  from approve_viewed_run [OF this in1] obtain view evs2 where
    evs1: "evs1 = Showed (ShownView (approval_context details) view) # evs2"
    and view: "approval_view t (pretty_change env details) full = Inr view"
    and run2: "cli_run (approve_asked env t details) evs2 = Some p"
    and ceiling: "\<forall>c. ro_max_risk opts = Some c \<longrightarrow> risk_includes c (plan_risk_of (pv_risk_level (ad_preview details)))"
    by blast
  have "Exchanged (Approve rid t') y \<in> set evs2" using in1 evs1 by simp
  from approve_asked_run [OF run2 this] obtain q answer rest where
    evs2: "evs2 = Asked q answer # Exchanged (Approve rid t') y # rest" and same: "t' = t"
    and said: "if pv_risk_level (ad_preview details) = High then types_exactly (ad_action_name details) answer
      else confirms answer" by blast
  have four: "take 4 evs = [Exchanged (ApprovalDetails (''cli-approval-details-'' @ t) t) x,
      Showed (ShownView (approval_context details) view), Asked q answer, Exchanged (Approve rid t) y]"
    unfolding evs evs1 evs2 same by simp
  show ?thesis
    using flags same details said approval_view_shows_all [OF view] ceiling four unfolding pretty_change_def by blast
qed

theorem receipts_need_a_person_witness:
  "\<exists>view answer. types_exactly ''UpdateSystem'' answer \<and> visible view = visible (from_utf8 ''null'')"
proof -
  let ?details = "\<lparr>ad_transaction_id = ''t'', ad_action_name = ''UpdateSystem'', ad_preview = demo_preview\<rparr>"
  have view: "approval_view ''t'' (from_utf8 ''null'') True = Inr (ob_text (operator_safe_block_full (from_utf8 ''null'')))"
    by (simp add: approval_view_def)
  have "cli_run (approve_with_confirmation demo_env ''t'' demo_opts True True)
      [Exchanged (ApprovalDetails (''cli-approval-details-'' @ ''t'') ''t'') (replies ''D''),
       Showed (ShownView (approval_context ?details) (ob_text (operator_safe_block_full (from_utf8 ''null'')))),
       Asked (TypeActionName ''UpdateSystem'') (Some ''UpdateSystem''),
       Exchanged (Approve (''cli-approve-'' @ ''t'') ''t'') (replies ''A'')] = Some (Show (ShownText ''r'') (CliDone (Inr ())))"
    by (simp add: approve_with_confirmation_def Let_def demo_opts_def demo_replies demo_fields
        approval_policy_new_def decide_step_def effective_auto_ceiling_def gate_action_of_def view
        approve_request_def demo_exact)
  from receipts_need_a_person [OF this, where rid = "''cli-approve-'' @ ''t''" and t' = "''t''" and y = "replies ''A''"]
  show ?thesis by (auto simp: demo_replies demo_fields)
qed

section \<open>Plans and the daemon\<close>

lemma reject_unrunnable_params_Inr:
  "reject_unrunnable_params ss = Inr () \<Longrightarrow> s \<in> set ss \<Longrightarrow> \<exists>spec. build_action_spec (ps_action_name s) (ps_params s) = Inr spec"
  by (induction ss) (auto split: sum.splits)

text \<open>C20: A plan that the command line accepts is one that the daemon can run, at the risk that the operator sees.
  Every step of a plan that passes the parameter check, the first or the corrected one, builds a command in the daemon; the
  risk that the approval gate reads is the risk of that command, and of every preview that the same build of the
  daemon makes of it, so that the check against a daemon of another build never refuses a daemon of the same.\<close>

theorem accepted_plans_fit_the_daemon:
  assumes "plan_intent_with_param_correction planned feedback = Inr p"
    and "s \<in> set (authorized_steps (into_authorized authoritative_plan_risk p))"
  shows "\<exists>spec. build_action_spec (ps_action_name s) (ps_params s) = Inr spec
    \<and> ps_risk_level s = plan_risk_of (as_risk_level spec)
    \<and> (\<forall>request state change. req_action_name request = ps_action_name s \<longrightarrow>
         daemon_risk_within_approved (ps_risk_level s) (plan_risk_of (pv_risk_level (preview_action request state change))))"
proof -
  have "reject_unrunnable_params (pl_steps p) = Inr ()"
  proof -
    obtain p0 where p0: "planned = Inr p0" using assms(1) by (auto simp: plan_intent_with_param_correction_def)
    show ?thesis
      using assms(1) p0
      by (cases "reject_unrunnable_params (pl_steps p0)") (auto simp: plan_intent_with_param_correction_def)
  qed
  moreover obtain s0 where s0: "s0 \<in> set (pl_steps p)" "ps_action_name s = ps_action_name s0" "ps_params s = ps_params s0"
    using assms(2) by (auto simp: authorized_steps_def into_authorized_def)
  ultimately obtain spec where spec: "build_action_spec (ps_action_name s) (ps_params s) = Inr spec"
    using reject_unrunnable_params_Inr by metis
  have "ps_risk_level s = plan_risk_of (gate_risk (ps_action_name s))"
    using into_authorized_steps [OF assms(2)] by (simp add: authoritative_plan_risk_def)
  then show ?thesis
    using spec gate_risk_built [OF spec]
    by (simp add: daemon_risk_within_approved_def preview_action_def Let_def case_prod_beta)
qed

theorem accepted_plans_fit_the_daemon_witness:
  "\<exists>spec. build_action_spec ''UpdateSystem'' (JObj []) = Inr spec \<and> PlanHigh = plan_risk_of (as_risk_level spec)"
proof -
  have plan: "plan_intent_with_param_correction (Inr demo_plan) (\<lambda>_. Inl Rejected) = Inr demo_plan"
    by (simp add: plan_intent_with_param_correction_def demo_plan_def demo_step_def build_UpdateSystem)
  have step: "demo_step\<lparr>ps_risk_level := PlanHigh\<rparr> \<in> set (authorized_steps (into_authorized authoritative_plan_risk demo_plan))"
    by (simp add: authorized_steps_def into_authorized_def demo_plan_def demo_step_def authoritative_plan_risk_def
        gate_risk_UpdateSystem)
  from accepted_plans_fit_the_daemon [OF plan step] show ?thesis by (auto simp: demo_step_def)
qed

text \<open>C21: The routing guard of the clients is the fence of the daemon. On every host that is supported, an action passes
  the guard exactly when the daemon lets it run there; on any other host it passes exactly when no distribution has a
  say in it. Every action that the planner offers a model for a supported host passes.\<close>

theorem guard_is_the_fence:
  "(if is_supported d then is_ok (check_action_distro n (Some d)) = is_ok (validate_action_platform (Some d) n)
    else is_ok (check_action_distro n (Some d)) = (\<not> action_requires_supported_host n))
   \<and> (is_supported d \<and> available_on n (Some (distro_id_to_hint d)) \<longrightarrow> is_ok (check_action_distro n (Some d)))"
  using offered_passes_guard [of d n] guard_agrees_with_fence [of d n] guard_on_unsupported_host [of d n]
  by (simp del: distro_id_to_hint.simps)

theorem guard_is_the_fence_witness:
  "is_ok (check_action_distro ''AptInstall'' (Some (Ubuntu 24 4)))"
proof -
  have "is_supported (Ubuntu 24 4) \<and> available_on ''AptInstall'' (Some (distro_id_to_hint (Ubuntu 24 4)))"
    by (simp add: available_on_def requires_unavailable_credential_entry_def CREDENTIAL_ACTIONS_WITHOUT_ENTRY_def
        family_lists OLDEST_SUPPORTED_UBUNTU_MAJOR_def)
  then show ?thesis using guard_is_the_fence [of "Ubuntu 24 4" "''AptInstall''"] by blast
qed

text \<open>C22: What the planner accepts of a model is a plan. It has steps; every step names an action of the catalogue
  that does not need a credential, has a summary and an object of parameters without a credential in it, however
  the provider encoded it; and the plan carries the operator's intent and no change of preferences.\<close>

theorem accepted_proposals_are_plans:
  assumes "parse_proposed_plan env intent input = Inr p"
  shows "pl_steps p \<noteq> [] \<and> list_all plan_step_ok (pl_steps p) \<and> pl_intent p = intent
    \<and> pl_summary p \<noteq> [] \<and> pl_explanation p \<noteq> [] \<and> pl_pref_changes p = []"
  using assms by (rule parse_proposed_plan_ok)

text \<open>A failure that is reported as certain is a refusal. When the client of the socket says that an execution
  failed, and not that its outcome is unknown, then it never reached the daemon, or the daemon answered with an
  error or a conflict, after nothing but the start of the job and lines of it.\<close>

lemma certain_failures_are_refusals:
  assumes "execute_with_outcome env x = (lines, Inl f)" "\<not> ef_outcome_unknown f"
  shows "ex_connect x \<noteq> None \<or> (ex_write x = WriteOk \<and> refused_by env (ex_frames x))"
  using assms
  by (auto simp: execute_with_outcome_def execute_unknown_def split: option.splits sent.splits dest: execute_loop_known)

end
