(* ===== verification/Sk_Mcp_Guarantees.thy ===== *)
theory Sk_Mcp_Guarantees
  imports Sk_Mcp Sk_Client_Guarantees
begin

text \<open>
  What an assistant can do and read through the server of the Model Context Protocol. Of NFC normalisation the
  screen relies on two documented facts (\<open>nfc_laws\<close>): it makes no control or format character out of others, and it
  leaves ASCII text as it is.
\<close>

section \<open>Screened text\<close>

definition harmless :: "utext \<Rightarrow> bool" where
  "harmless s \<longleftrightarrow> list_all (\<lambda>c. \<not> is_dangerous_char c) s"

definition nfc_laws :: "(utext \<Rightarrow> utext) \<Rightarrow> bool" where
  "nfc_laws nfc \<longleftrightarrow> (\<forall>s. harmless s \<longrightarrow> harmless (nfc s)) \<and> (\<forall>s. list_all (\<lambda>c. c < 0x80) s \<longrightarrow> nfc s = s)"

definition screened_text :: "utext \<Rightarrow> bool" where
  "screened_text t \<longleftrightarrow> harmless t \<and> tag_free t \<and> byte_len t \<le> MCP_MAX_OUTPUT_BYTES"

definition screened_str :: "string \<Rightarrow> bool" where
  "screened_str s \<longleftrightarrow> (\<exists>t. s = to_utf8 t \<and> screened_text t)"

fun screened_json :: "json \<Rightarrow> bool"
and screened_items :: "json list \<Rightarrow> bool"
and screened_entries :: "(string \<times> json) list \<Rightarrow> bool"
where
  "screened_json (JStr s) = screened_str s"
| "screened_json (JArr vs) = screened_items vs"
| "screened_json (JObj kvs) = screened_entries kvs"
| "screened_json JNull = True"
| "screened_json (JBool b) = True"
| "screened_json (JInt i) = True"
| "screened_json (JFloat x) = True"
| "screened_items [] = True"
| "screened_items (v # vs) \<longleftrightarrow> screened_json v \<and> screened_items vs"
| "screened_entries [] = True"
| "screened_entries ((k, v) # kvs) \<longleftrightarrow> (k \<in> set VERBATIM_KEYS \<or> (screened_str k \<and> screened_json v)) \<and> screened_entries kvs"

text \<open>An envelope: a tag that names the tool, a body without tags of envelopes, and the closing tag.\<close>

definition in_envelope :: "utext \<Rightarrow> bool" where
  "in_envelope t \<longleftrightarrow> (\<exists>name body. t = lit ''<untrusted_tool_output source='' @ [0x22] @ name @ [0x22] @ lit ''>'' @ [0x0A]
       @ body @ [0x0A] @ lit ''</untrusted_tool_output>''
     \<and> name \<noteq> [] \<and> list_all is_tool_name_char name \<and> tag_free body \<and> byte_len body \<le> MCP_MAX_OUTPUT_BYTES)"

section \<open>The passes keep text harmless\<close>

lemma harmless_append [simp]: "harmless (a @ b) \<longleftrightarrow> harmless a \<and> harmless b"
  by (simp add: harmless_def)

lemma harmless_lits:
  "harmless (lit ''<BLOCKED_untrusted_tool_output'')" "harmless (lit ''</BLOCKED_untrusted_tool_output'')"
  "harmless (lit ''<BLOCKED_user_preferences'')" "harmless (lit ''</BLOCKED_user_preferences'')"
  by (simp_all add: harmless_def lit_Cons is_dangerous_char_def in_range_def)

lemma harmless_drop: "harmless s \<Longrightarrow> harmless (drop n s)"
  by (auto simp: harmless_def list_all_iff dest: in_set_dropD)

lemma harmless_replace_text: "harmless rep \<Longrightarrow> harmless s \<Longrightarrow> harmless (replace_text pat rep s)"
proof (induction pat rep s rule: replace_text.induct)
  case (2 pat rep c cs)
  then show ?case using harmless_drop [of cs "length pat - 1"] by (auto simp: harmless_def)
qed (simp add: harmless_def)

lemma harmless_neutralised: "harmless s \<Longrightarrow> harmless (neutralise_envelope_tags s)"
  by (simp add: neutralise_envelope_tags_def neutralise_name_def PROMPT_ENVELOPE_NAMES_def harmless_replace_text
      harmless_lits)

lemma harmless_collapse_loop: "harmless s \<Longrightarrow> harmless (collapse_loop n s)"
  by (induction n s rule: collapse_loop.induct) (auto simp: harmless_def)

lemma harmless_take_bytes: "harmless s \<Longrightarrow> harmless (take_bytes n s)"
  by (induction n s rule: take_bytes.induct) (auto simp: harmless_def)

lemma harmless_TRUNCATED: "harmless TRUNCATED"
  by (simp add: harmless_def TRUNCATED_def lit_Cons is_dangerous_char_def in_range_def)

lemma harmless_truncated: "harmless s \<Longrightarrow> harmless (truncate_with_marker s n)"
  by (simp add: truncate_with_marker_def harmless_take_bytes harmless_TRUNCATED)

lemma harmless_stripped: "harmless (strip_dangerous_unicode s)"
  by (simp add: harmless_def strip_dangerous_unicode_def list_all_iff)

lemma harmless_normalised:
  "nfc_laws nfc \<Longrightarrow> normalise_free_text_capped nfc raw n = Some t \<Longrightarrow> harmless t"
  by (auto simp: normalise_free_text_capped_def normalise_unbounded_text_def collapse_blank_runs_def nfc_laws_def
      intro!: harmless_truncated harmless_collapse_loop harmless_neutralised harmless_stripped)

lemma screen_string_screened:
  assumes "nfc_laws (pe_nfc env)" "screen_string env s = Inr u"
  shows "screened_str u"
proof -
  obtain t where t: "normalise_free_text_capped (pe_nfc env) (from_utf8 s) MCP_MAX_OUTPUT_BYTES = Some t" "u = to_utf8 t"
    using assms(2) by (auto simp: screen_string_def split: option.splits)
  moreover have "tag_free t"
    using t(1) by (auto simp: normalise_free_text_capped_def intro!: truncated_tag_free dest: normalised_tag_free)
  moreover have "byte_len t \<le> MCP_MAX_OUTPUT_BYTES"
    using t(1) by (auto simp: normalise_free_text_capped_def MCP_MAX_OUTPUT_BYTES_def byte_len_truncated)
  ultimately show ?thesis
    using harmless_normalised [OF assms(1) t(1)] by (auto simp: screened_str_def screened_text_def)
qed

lemma screened_map_insert:
  "k \<in> set VERBATIM_KEYS \<or> (screened_str k \<and> screened_json v) \<Longrightarrow> screened_entries m \<Longrightarrow> screened_entries (entry_insert k v m)"
  by (induction k v m rule: entry_insert.induct) auto

lemma sanitised_screened:
  "sanitise_result_json env j = Inr j' \<Longrightarrow> nfc_laws (pe_nfc env) \<Longrightarrow> screened_json j'"
  "sanitise_items env vs = Inr ws \<Longrightarrow> nfc_laws (pe_nfc env) \<Longrightarrow> screened_items ws"
  "sanitise_entries env rebuilt kvs = Inr m \<Longrightarrow> nfc_laws (pe_nfc env) \<Longrightarrow> screened_entries rebuilt \<Longrightarrow> screened_entries m"
  by (induction env j and env vs and env rebuilt kvs arbitrary: j' and ws and m
      rule: sanitise_result_json_sanitise_items_sanitise_entries.induct)
    (auto simp: screen_string_screened screened_map_insert split: if_splits)

lemma sanitized_in_envelope:
  "sanitize_tool_output_capped nfc name raw n = Some t \<Longrightarrow> 15 \<le> n \<Longrightarrow> n \<le> MCP_MAX_OUTPUT_BYTES \<Longrightarrow> in_envelope t"
proof -
  assume t: "sanitize_tool_output_capped nfc name raw n = Some t" and n: "15 \<le> n" "n \<le> MCP_MAX_OUTPUT_BYTES"
  obtain body where body: "tool_body nfc raw n = Some body"
    and eq: "t = lit ''<untrusted_tool_output source='' @ [0x22] @ sanitise_tool_name name @ [0x22] @ lit ''>'' @ [0x0A]
       @ body @ [0x0A] @ lit ''</untrusted_tool_output>''"
    using t by (auto simp: sanitize_tool_output_capped_def)
  have "byte_len body \<le> MCP_MAX_OUTPUT_BYTES"
    using body n by (auto simp: tool_body_def intro: order_trans [OF byte_len_truncated])
  then show ?thesis
    unfolding in_envelope_def using eq tool_body_tag_free [OF body] sanitised_tool_name [of name] by blast
qed

lemma tool_error_in_envelope: "tool_error env e = Some t \<Longrightarrow> in_envelope t"
  unfolding tool_error_def
  by (erule sanitized_in_envelope) (simp_all add: MAX_OUTPUT_BYTES_def MCP_MAX_OUTPUT_BYTES_def)

definition returned_ok :: "utext + json \<Rightarrow> bool" where
  "returned_ok r \<longleftrightarrow> (case r of Inl e \<Rightarrow> in_envelope e | Inr j \<Rightarrow> screened_json j)"

lemma reply_or_error_ok: "reply_or_error env v = Some r \<Longrightarrow> nfc_laws (pe_nfc env) \<Longrightarrow> returned_ok r"
  by (auto simp: reply_or_error_def returned_ok_def tool_error_in_envelope sanitised_screened(1)
      split: sum.splits screen_error.splits)

lemma direct_query_in_envelope:
  "direct_query_with_client env penv n transport = Some q \<Longrightarrow> case q of Inl t \<Rightarrow> in_envelope t | Inr t \<Rightarrow> in_envelope t"
  using sanitized_in_envelope [of "pe_nfc penv" _ _ MCP_MAX_OUTPUT_BYTES]
  by (fastforce simp: direct_query_with_client_def tool_error_in_envelope MCP_MAX_OUTPUT_BYTES_def split: sum.splits)

section \<open>Plans that can be executed\<close>

text \<open>A key of the replies, of letters and underscores, passes the screen as it is.\<close>

definition key_byte :: "char \<Rightarrow> bool" where
  "key_byte b \<longleftrightarrow> (97 \<le> (of_char b :: nat) \<and> (of_char b :: nat) \<le> 122)
     \<or> (65 \<le> (of_char b :: nat) \<and> (of_char b :: nat) \<le> 90) \<or> (of_char b :: nat) = 95"

definition key_char :: "nat \<Rightarrow> bool" where
  "key_char c \<longleftrightarrow> (97 \<le> c \<and> c \<le> 122) \<or> (65 \<le> c \<and> c \<le> 90) \<or> c = 95"

lemma from_utf8_key: "list_all key_byte s \<Longrightarrow> from_utf8 s = lit s"
  unfolding from_utf8_def lit_def ascii_text_def by (induction s) (auto simp: key_byte_def)

lemma to_utf8_key: "list_all key_byte s \<Longrightarrow> to_utf8 (lit s) = s"
  unfolding to_utf8_def lit_def ascii_text_def
  by (induction s) (auto simp: key_byte_def utf8_char_def utf8_byte_def)

lemma key_chars_lit: "list_all key_byte s \<Longrightarrow> list_all key_char (lit s)"
  by (simp add: lit_def ascii_text_def list_all_iff key_byte_def key_char_def)

lemma strip_ansi_key: "list_all key_char t \<Longrightarrow> strip_ansi t = Some t"
  by (induction t) (auto simp: strip_ansi.simps key_char_def)

lemma strip_dangerous_key: "list_all key_char t \<Longrightarrow> strip_dangerous_unicode t = t"
  unfolding strip_dangerous_unicode_def filter_id_conv list_all_iff key_char_def is_dangerous_char_def in_range_def
  by fastforce

lemma replace_text_key: "list_all key_char t \<Longrightarrow> replace_text (0x3C # p) rep t = t"
  by (induction t) (auto simp: key_char_def)

lemma neutralise_key: "list_all key_char t \<Longrightarrow> neutralise_envelope_tags t = t"
  by (simp add: neutralise_envelope_tags_def neutralise_name_def PROMPT_ENVELOPE_NAMES_def lit_Cons replace_text_key)

lemma collapse_key: "list_all key_char t \<Longrightarrow> collapse_loop n t = t"
  by (induction t arbitrary: n) (auto simp: key_char_def)

lemma byte_len_key: "list_all key_char t \<Longrightarrow> byte_len t = length t"
  by (induction t) (auto simp: byte_len_def key_char_def len_utf8_def)

lemma normalise_key:
  assumes "nfc_laws nfc" "list_all key_byte s" "length s \<le> n"
  shows "normalise_free_text_capped nfc (from_utf8 s) n = Some (lit s)"
proof -
  have chars: "list_all key_char (lit s)" by (rule key_chars_lit [OF assms(2)])
  have "list_all (\<lambda>c. c < 0x80) (lit s)"
    by (rule list.pred_mono_strong [OF chars]) (auto simp: key_char_def)
  then have "nfc (lit s) = lit s" using assms(1) by (simp add: nfc_laws_def)
  moreover have "byte_len (lit s) \<le> n"
    unfolding byte_len_key [OF chars] using assms(3) by (simp add: lit_def ascii_text_def)
  ultimately show ?thesis
    by (simp add: from_utf8_key [OF assms(2)] normalise_free_text_capped_def
        normalise_unbounded_text_def strip_ansi_key chars strip_dangerous_key neutralise_key collapse_blank_runs_def
        collapse_key truncate_with_marker_def)
qed

lemma screen_key:
  "nfc_laws (pe_nfc env) \<Longrightarrow> list_all key_byte s \<Longrightarrow> length s \<le> 100 \<Longrightarrow> screen_string env s = Inr s"
  by (simp add: screen_string_def normalise_key to_utf8_key MCP_MAX_OUTPUT_BYTES_def)

lemma operator_text_key:
  "nfc_laws (pe_nfc env) \<Longrightarrow> list_all key_byte s \<Longrightarrow> length s \<le> 100 \<Longrightarrow> normalise_operator_text env s = Inr s"
  by (simp add: normalise_operator_text_def normalise_free_text_def normalise_key to_utf8_key MAX_OUTPUT_BYTES_def)

lemma map_of_map_insert [simp]: "map_of (entry_insert k v m) k' = (if k' = k then Some v else map_of m k')"
  by (induction k v m rule: entry_insert.induct) auto

definition screens_to :: "plan_env \<Rightarrow> string \<Rightarrow> json \<Rightarrow> json \<Rightarrow> bool" where
  "screens_to env k v w \<longleftrightarrow> (if k \<in> set VERBATIM_KEYS then w = v else sanitise_result_json env v = Inr w)"

lemma sanitised_entries:
  "sanitise_entries env rebuilt kvs = Inr m \<Longrightarrow> distinct (map fst kvs) \<Longrightarrow>
   list_all (\<lambda>(k, _). k \<in> set VERBATIM_KEYS \<or> screen_string env k = Inr k) kvs \<Longrightarrow>
     (\<forall>k v. map_of kvs k = Some v \<longrightarrow> (\<exists>w. map_of m k = Some w \<and> screens_to env k v w))
     \<and> (\<forall>k. map_of kvs k = None \<longrightarrow> map_of m k = map_of rebuilt k)"
proof (induction kvs arbitrary: rebuilt)
  case (Cons e kvs)
  obtain key child where e: "e = (key, child)" by force
  have fresh: "map_of kvs key = None" using Cons.prems(2) e by (simp add: map_of_eq_None_iff)
  show ?case
  proof (cases "key \<in> set VERBATIM_KEYS")
    case True
    then have "sanitise_entries env (entry_insert key child rebuilt) kvs = Inr m" using Cons.prems(1) e by simp
    from Cons.IH [OF this] Cons.prems(2,3) e have IH:
      "(\<forall>k v. map_of kvs k = Some v \<longrightarrow> (\<exists>w. map_of m k = Some w \<and> screens_to env k v w))
       \<and> (\<forall>k. map_of kvs k = None \<longrightarrow> map_of m k = map_of (entry_insert key child rebuilt) k)" by simp
    then show ?thesis using True fresh e by (simp add: screens_to_def)
  next
    case False
    then obtain safe where safe: "sanitise_result_json env child = Inr safe"
      and rest: "sanitise_entries env (entry_insert key safe rebuilt) kvs = Inr m"
      using Cons.prems(1,3) e by (auto split: if_splits)
    from Cons.IH [OF rest] Cons.prems(2,3) e have IH:
      "(\<forall>k v. map_of kvs k = Some v \<longrightarrow> (\<exists>w. map_of m k = Some w \<and> screens_to env k v w))
       \<and> (\<forall>k. map_of kvs k = None \<longrightarrow> map_of m k = map_of (entry_insert key safe rebuilt) k)" by simp
    then show ?thesis using False fresh e safe by (simp add: screens_to_def)
  qed
qed simp

lemma sanitised_items: "sanitise_items env vs = Inr ws \<Longrightarrow> list_all2 (\<lambda>v w. sanitise_result_json env v = Inr w) vs ws"
  by (induction vs arbitrary: ws) auto

lemma sanitised_object:
  assumes "sanitise_result_json env (JObj kvs) = Inr j" "nfc_laws (pe_nfc env)" "distinct (map fst kvs)"
    and "list_all (\<lambda>k. list_all key_byte k \<and> length k \<le> 100) (map fst kvs)"
    and "map_of kvs k = Some v"
  shows "\<exists>w. get_param j k = Some w \<and> screens_to env k v w"
proof -
  obtain m where "sanitise_entries env [] kvs = Inr m" "j = JObj m" using assms(1) by auto
  moreover have "list_all (\<lambda>(k, _). k \<in> set VERBATIM_KEYS \<or> screen_string env k = Inr k) kvs"
    using assms(4) screen_key [OF assms(2)] by (auto simp: list_all_iff)
  ultimately show ?thesis using sanitised_entries assms(3,5) by (fastforce simp: get_param_def)
qed

lemma enriched:
  "enrich_with_commands env display sxs = (requests, Inr steps) \<Longrightarrow>
     requests = concat (map (\<lambda>(s, _). [describe_request s, mcp_preview_request s]) sxs)
   \<and> list_all2 (\<lambda>(s, xd, xp) s'. \<exists>command prepared. client_describe env display xd = Inr command
        \<and> client_preview env xp = Inr prepared
        \<and> s' = merge_preview_into_step (s\<lparr>po_command := command, po_transaction_id := pp_transaction_id prepared\<rparr>)
            (pp_preview prepared)) sxs steps"
proof (induction sxs arbitrary: requests steps)
  case (Cons a sxs)
  obtain s xd xp where a: "a = (s, xd, xp)" by (cases a)
  obtain command where c: "client_describe env display xd = Inr command"
    using Cons.prems a by (cases "client_describe env display xd") auto
  obtain prepared where p: "client_preview env xp = Inr prepared"
    using Cons.prems a c by (cases "client_preview env xp") auto
  obtain requests' rest where rec: "enrich_with_commands env display sxs = (requests', rest)" by force
  then obtain steps' where "rest = Inr steps'" using Cons.prems a c p by (cases rest) auto
  with Cons.IH [of requests' steps'] Cons.prems a c p rec show ?case by auto
qed simp

lemma plan_step_keys:
  "list_all (\<lambda>k. list_all key_byte k \<and> length k \<le> 100)
    [''action_name'', ''command'', ''current_state'', ''expected_side_effects'', ''params'', ''proposed_change'',
     ''reboot_required'', ''risk_level'', ''rollback_available'', ''summary'', ''transaction_id'', ''warnings'',
     ''explanation'', ''intent'', ''steps'', ''low'', ''medium'', ''high'']"
  by (simp add: key_byte_def)


definition demo_plan_env :: plan_env where
  "demo_plan_env = \<lparr>pe_debug_str = (\<lambda>s. s), pe_json_parse = (\<lambda>_. None), pe_nfc = (\<lambda>s. s)\<rparr>"

lemma demo_nfc: "nfc_laws (pe_nfc demo_plan_env)"
  by (simp add: demo_plan_env_def nfc_laws_def)


lemma sanitised_step:
  assumes "sanitise_result_json env (plan_step_output_json s) = Inr j" "nfc_laws (pe_nfc env)"
  shows "get_param j ''params'' = Some (po_params s)"
    and "get_param j ''transaction_id'' = Some (JStr (po_transaction_id s))"
    and "\<exists>w. get_param j ''proposed_change'' = Some w \<and> sanitise_result_json env (po_proposed_change s) = Inr w"
    and "po_risk_level s \<in> {''low'', ''medium'', ''high''} \<Longrightarrow> get_param j ''risk_level'' = Some (JStr (po_risk_level s))"
proof -
  note field = sanitised_object [OF assms(1) [unfolded plan_step_output_json_def] assms(2)]
  have keys: "list_all (\<lambda>k. list_all key_byte k \<and> length k \<le> 100)
    [''action_name'', ''command'', ''current_state'', ''expected_side_effects'', ''params'', ''proposed_change'',
     ''reboot_required'', ''risk_level'', ''rollback_available'', ''summary'', ''transaction_id'', ''warnings'']"
    using plan_step_keys unfolding list.pred_inject by (elim conjE, intro conjI) assumption+
  show "get_param j ''params'' = Some (po_params s)"
    using field [of "''params''" "po_params s"] keys by (simp add: screens_to_def VERBATIM_KEYS_def)
  show "get_param j ''transaction_id'' = Some (JStr (po_transaction_id s))"
    using field [of "''transaction_id''"] keys by (simp add: screens_to_def VERBATIM_KEYS_def)
  show "\<exists>w. get_param j ''proposed_change'' = Some w \<and> sanitise_result_json env (po_proposed_change s) = Inr w"
    using field [of "''proposed_change''"] keys by (simp add: screens_to_def VERBATIM_KEYS_def)
  assume "po_risk_level s \<in> {''low'', ''medium'', ''high''}"
  then have "screen_string env (po_risk_level s) = Inr (po_risk_level s)"
    using screen_key [OF assms(2)] plan_step_keys by auto
  then show "get_param j ''risk_level'' = Some (JStr (po_risk_level s))"
    using field [of "''risk_level''"] keys by (simp add: screens_to_def VERBATIM_KEYS_def)
qed

lemma reply_steps:
  assumes "sanitise_result_json penv (plan_output_json p) = Inr reply" "nfc_laws (pe_nfc penv)"
  shows "\<exists>ss. get_param reply ''steps'' = Some (JArr ss)
    \<and> list_all2 (\<lambda>s j. sanitise_result_json penv (plan_step_output_json s) = Inr j) (plo_steps p) ss"
proof -
  have keys: "list_all (\<lambda>k. list_all key_byte k \<and> length k \<le> 100) [''explanation'', ''intent'', ''steps'', ''summary'']"
    using plan_step_keys unfolding list.pred_inject by (elim conjE, intro conjI) assumption+
  obtain w where w: "get_param reply ''steps'' = Some w"
      "screens_to penv ''steps'' (JArr (map plan_step_output_json (plo_steps p))) w"
    using sanitised_object [OF assms(1) [unfolded plan_output_json_def] assms(2), of "''steps''"] keys by auto
  then obtain ss where "w = JArr ss" "sanitise_items penv (map plan_step_output_json (plo_steps p)) = Inr ss"
    by (auto simp: screens_to_def VERBATIM_KEYS_def)
  then show ?thesis using w(1) sanitised_items by (fastforce simp: list_all2_map1)
qed

lemma enriched_requests:
  "concat (map (\<lambda>(s, _). [describe_request s, mcp_preview_request s]) sxs)
     = concat (map (\<lambda>s. [describe_request s, mcp_preview_request s]) (map fst sxs))"
  by (induction sxs) auto

text \<open>C19: The plan that an assistant receives can be executed as it stands. When the planning tool returns a plan,
  every step was described and previewed by the daemon, in order; its parameters and its transaction are, byte by
  byte, those of the preview, so that the hash which an approval is bound to can be met; its risk is the daemon's,
  and the change it proposes is the daemon's after the screen.\<close>

theorem plan_replies_keep_what_is_hashed:
  assumes "sysknife_plan env penv display planned xs = (requests, Some (Inr reply))" "nfc_laws (pe_nfc penv)"
  shows "requests = concat (map (\<lambda>s. [describe_request s, mcp_preview_request s]) (plo_steps planned))
    \<and> (\<exists>ss. get_param reply ''steps'' = Some (JArr ss) \<and> length ss = length (plo_steps planned)
      \<and> (\<forall>i<length ss. \<exists>prepared w. client_preview env (snd (xs i)) = Inr prepared
           \<and> get_param (ss ! i) ''params'' = Some (po_params (plo_steps planned ! i))
           \<and> get_param (ss ! i) ''transaction_id'' = Some (JStr (pp_transaction_id prepared))
           \<and> get_param (ss ! i) ''risk_level'' = Some (JStr (max_risk_as_str
                (case pv_risk_level (pp_preview prepared) of Low \<Rightarrow> MaxLow | Medium \<Rightarrow> MaxMedium | High \<Rightarrow> MaxHigh)))
           \<and> get_param (ss ! i) ''proposed_change'' = Some w
           \<and> sanitise_result_json penv (pv_proposed_change (pp_preview prepared)) = Inr w))"
proof -
  let ?steps = "plo_steps planned"
  let ?sxs = "zip ?steps (map xs [0..<length ?steps])"
  obtain steps where steps: "enrich_with_commands env display ?sxs = (requests, Inr steps)"
    and reply: "reply_or_error penv (plan_output_json (planned\<lparr>plo_steps := steps\<rparr>)) = Some (Inr reply)"
    using assms(1) by (auto simp: sysknife_plan_def split: prod.splits sum.splits)
  note enriched = enriched [OF steps]
  have screen: "sanitise_result_json penv (plan_output_json (planned\<lparr>plo_steps := steps\<rparr>)) = Inr reply"
    using reply by (auto simp: reply_or_error_def split: sum.splits screen_error.splits)
  obtain ss where ss: "get_param reply ''steps'' = Some (JArr ss)"
    and each: "list_all2 (\<lambda>s j. sanitise_result_json penv (plan_step_output_json s) = Inr j) steps ss"
    using reply_steps [OF screen assms(2)] by auto
  have len: "length ss = length ?steps" "length steps = length ?steps"
    using list_all2_lengthD [OF each] list_all2_lengthD [OF enriched [THEN conjunct2]] by simp_all
  have "\<exists>prepared w. client_preview env (snd (xs i)) = Inr prepared
           \<and> get_param (ss ! i) ''params'' = Some (po_params (?steps ! i))
           \<and> get_param (ss ! i) ''transaction_id'' = Some (JStr (pp_transaction_id prepared))
           \<and> get_param (ss ! i) ''risk_level'' = Some (JStr (max_risk_as_str
                (case pv_risk_level (pp_preview prepared) of Low \<Rightarrow> MaxLow | Medium \<Rightarrow> MaxMedium | High \<Rightarrow> MaxHigh)))
           \<and> get_param (ss ! i) ''proposed_change'' = Some w
           \<and> sanitise_result_json penv (pv_proposed_change (pp_preview prepared)) = Inr w" if i: "i < length ss" for i
  proof -
    have at: "?sxs ! i = (?steps ! i, xs i)" using i len by simp
    obtain command prepared where p: "client_preview env (snd (xs i)) = Inr prepared"
      and s: "steps ! i = merge_preview_into_step
        ((?steps ! i)\<lparr>po_command := command, po_transaction_id := pp_transaction_id prepared\<rparr>) (pp_preview prepared)"
      using list_all2_nthD [OF enriched [THEN conjunct2], of i] i len at by (auto simp: case_prod_beta)
    have j: "sanitise_result_json penv (plan_step_output_json (steps ! i)) = Inr (ss ! i)"
      using list_all2_nthD2 [OF each i] .
    have "po_risk_level (steps ! i) \<in> {''low'', ''medium'', ''high''}"
      unfolding s by (simp add: merge_preview_into_step_def split: risk_level.split)
    note fields = sanitised_step(1-3) [OF j assms(2)] sanitised_step(4) [OF j assms(2) this]
    show ?thesis
      using fields p unfolding s by (cases "pv_risk_level (pp_preview prepared)") (auto simp: merge_preview_into_step_def)
  qed
  moreover have "requests = concat (map (\<lambda>s. [describe_request s, mcp_preview_request s]) ?steps)"
    using enriched [THEN conjunct1] unfolding enriched_requests by simp
  ultimately show ?thesis using ss len(1) by blast
qed

definition demo_planned :: plan_output where
  "demo_planned = \<lparr>plo_intent = ''update'', plo_summary = ''update'', plo_explanation = ''update'', plo_steps =
     [\<lparr>po_action_name = ''UpdateSystem'', po_summary = ''update'', po_risk_level = ''low'', po_params = JObj [],
       po_command = [], po_transaction_id = [], po_warnings = [], po_current_state = JNull, po_proposed_change = JNull,
       po_expected_side_effects = [], po_reboot_required = False, po_rollback_available = False\<rparr>]\<rparr>"

lemma demo_words: "list_all key_byte s \<and> length s \<le> 100 \<Longrightarrow> screen_string demo_plan_env s = Inr s"
  using screen_key [OF demo_nfc] by blast

lemma demo_described: "client_describe demo_env display (replies ''C'') = Inr ''update''"
  by code_simp

theorem plan_replies_keep_what_is_hashed_witness:
  "\<exists>reply ss. snd (sysknife_plan demo_env demo_plan_env (\<lambda>_. []) demo_planned (\<lambda>_. (replies ''C'', replies ''P'')))
       = Some (Inr reply)
     \<and> get_param reply ''steps'' = Some (JArr ss) \<and> length ss = 1 \<and> get_param (ss ! 0) ''params'' = Some (JObj [])
     \<and> get_param (ss ! 0) ''risk_level'' = Some (JStr ''high'')"
proof -
  obtain requests reply where reply: "sysknife_plan demo_env demo_plan_env (\<lambda>_. []) demo_planned
      (\<lambda>_. (replies ''C'', replies ''P'')) = (requests, Some (Inr reply))"
    by (simp add: sysknife_plan_def demo_planned_def demo_described demo_replies Let_def merge_preview_into_step_def
        demo_preview_def reply_or_error_def plan_output_json_def plan_step_output_json_def VERBATIM_KEYS_def
        demo_words key_byte_def)
  from plan_replies_keep_what_is_hashed [OF this demo_nfc]
  show ?thesis using reply
    by (auto simp: demo_planned_def demo_replies demo_preview_def)
qed

text \<open>A key below which nothing is screened replaces an entry whose key was screened to the same text: the
  check that two keys do not collapse is made in the other branch only.\<close>

lemma screen_string_strip:
  "strip_ansi (from_utf8 s) = strip_ansi (from_utf8 k) \<Longrightarrow> screen_string env s = screen_string env k"
  by (simp add: screen_string_def normalise_free_text_capped_def normalise_unbounded_text_def)

lemma verbatim_key_replaces:
  "sanitise_result_json demo_plan_env (JObj [(CHR 0x1B # ''[0mparams'', JNull), (''params'', JBool True)])
     = Inr (JObj [(''params'', JBool True)])"
proof -
  have "strip_ansi (from_utf8 (CHR 0x1B # ''[0mparams'')) = strip_ansi (from_utf8 ''params'')"
    by (simp add: from_utf8_def strip_ansi.simps in_range_def)
  from screen_string_strip [OF this] demo_words [of "''params''"]
  have "screen_string demo_plan_env (CHR 0x1B # ''[0mparams'') = Inr ''params''" by (simp add: key_byte_def)
  then show ?thesis by (simp add: VERBATIM_KEYS_def)
qed

section \<open>A proposal\<close>

definition demo_proposal :: json where
  "demo_proposal = JObj [(''summary'', JStr ''update''), (''explanation'', JStr ''update''), (''steps'', JArr
     [JObj [(''action_name'', JStr ''UpdateSystem''), (''summary'', JStr ''update''), (''risk_level'', JStr ''low'')]])]"

theorem accepted_proposals_are_plans_witness:
  "list_all plan_step_ok [demo_step]"
proof -
  have "normalise_operator_text demo_plan_env ''update'' = Inr ''update''"
    by (rule operator_text_key [OF demo_nfc]) (simp_all add: key_byte_def)
  then have "parse_proposed_plan demo_plan_env ''update'' demo_proposal = Inr demo_plan"
    by (simp add: parse_proposed_plan_def demo_proposal_def text_field_def get_param_def as_str_def option_filter_def
        ok_or_def as_array_def parse_step_def requires_unavailable_credential_entry_def CREDENTIAL_ACTIONS_WITHOUT_ENTRY_def
        action_name_parse_def KNOWN_ACTION_NAMES_def parse_step_risk_level_def parse_step_params_def
        forbidden_credential_param_def CREDENTIAL_PARAMS_WITHOUT_ENTRY_def plan_step_new_def plan_new_def
        demo_plan_def demo_step_def)
  from accepted_proposals_are_plans [OF this] show ?thesis by (simp add: demo_plan_def)
qed

section \<open>Executions\<close>

lemma job_state_str_succeeded: "job_state_str s = ''succeeded'' \<longleftrightarrow> s = Succeeded"
  by (cases s) simp_all

text \<open>What the result of a step says about its exchange with the daemon.\<close>

definition reports :: "client_env \<Rightarrow> step_to_execute \<times> exchange \<Rightarrow> step_result \<Rightarrow> bool" where
  "reports env sx r \<longleftrightarrow>
     sr_action_name r = se_action_name (fst sx) \<and> length (sr_output r) \<le> OUTPUT_LINE_LIMIT + 1
   \<and> (case snd (execute_with_outcome env (snd sx)) of
        Inr result \<Rightarrow> sr_status r = job_state_str (res_status result) \<and> sr_warnings r = res_warnings result
          \<and> sr_needs_reboot r = res_needs_reboot result \<and> sr_rollback_ref r = res_rollback_ref result
      | Inl failure \<Rightarrow> sr_transaction_id r = se_transaction_id (fst sx) \<and> sr_rollback_ref r = None
          \<and> (if ef_outcome_unknown failure then sr_status r = ''unknown'' \<and> sr_warnings r = [UNKNOWN_OUTCOME_WARNING]
             else sr_status r = ''failed''
               \<and> (ex_connect (snd sx) \<noteq> None \<or> (ex_write (snd sx) = WriteOk \<and> refused_by env (ex_frames (snd sx))))))"

lemma truncate_output_bound: "length (truncate_output lines) \<le> OUTPUT_LINE_LIMIT + 1"
  by (simp add: truncate_output_def Let_def)

lemma interrupted_reports:
  "execute_with_outcome env x = (lines, Inl f) \<Longrightarrow> reports env (step, x) (interrupted_result step lines f)"
  using certain_failures_are_refusals [of env x lines f] truncate_output_bound [of lines]
  by (auto simp: reports_def interrupted_result_def)

lemma interrupted_fields:
  "sr_status (interrupted_result step lines f) \<noteq> ''succeeded''" "\<not> sr_needs_reboot (interrupted_result step lines f)"
  by (simp_all add: interrupted_result_def)

lemma completed_reports:
  "execute_with_outcome env x = (lines, Inr result) \<Longrightarrow> reports env (step, x) (completed_result step lines result)"
  using truncate_output_bound [of lines] by (simp add: reports_def completed_result_def)

definition halted_run :: "client_env \<Rightarrow> (step_to_execute \<times> exchange) list \<Rightarrow> daemon_request list \<Rightarrow> step_result list \<Rightarrow> bool" where
  "halted_run env sxs requests results \<longleftrightarrow>
     length results \<le> length sxs \<and> requests = map (mcp_execute_request \<circ> fst) (take (length results) sxs)
   \<and> list_all2 (reports env) (take (length results) sxs) results
   \<and> list_all (\<lambda>r. sr_status r = ''succeeded'') (butlast results)
   \<and> (length results < length sxs \<longrightarrow> results \<noteq> [] \<and> sr_status (last results) \<noteq> ''succeeded'')"

lemma halted_run_last:
  "reports env (step, x) r \<Longrightarrow> sr_status r \<noteq> ''succeeded'' \<Longrightarrow>
     halted_run env ((step, x) # sxs) [mcp_execute_request step] [r]"
  by (simp add: halted_run_def)

lemma halted_run_next:
  "reports env (step, x) r \<Longrightarrow> sr_status r = ''succeeded'' \<Longrightarrow> halted_run env sxs requests results \<Longrightarrow>
     halted_run env ((step, x) # sxs) (mcp_execute_request step # requests) (r # results)"
  by (cases results) (auto simp: halted_run_def)

lemma execute_steps_loop_run:
  "execute_steps_loop env results nr sxs = (requests, out) \<Longrightarrow>
     \<exists>added. xo_steps out = results @ added \<and> halted_run env sxs requests added
       \<and> (xo_needs_reboot out \<longleftrightarrow> nr \<or> (\<exists>r \<in> set added. sr_needs_reboot r))"
proof (induction env results nr sxs arbitrary: requests out rule: execute_steps_loop.induct)
  case (2 env results nr step x sxs)
  obtain lines outcome where x: "execute_with_outcome env x = (lines, outcome)" by force
  show ?case
  proof (cases outcome)
    case (Inl f)
    then have "halted_run env ((step, x) # sxs) requests [interrupted_result step lines f]"
      using 2(2) x by (auto intro!: halted_run_last interrupted_reports simp: interrupted_fields)
    then show ?thesis using 2(2) x Inl by (auto simp: interrupted_fields)
  next
    case (Inr result)
    let ?r = "completed_result step lines result"
    have r: "reports env (step, x) ?r" using completed_reports x Inr by simp
    have status: "sr_status ?r = ''succeeded'' \<longleftrightarrow> res_status result = Succeeded"
      by (simp add: completed_result_def job_state_str_succeeded)
    show ?thesis
    proof (cases "res_status result = Succeeded")
      case False
      then have "halted_run env ((step, x) # sxs) requests [?r]"
        using 2(2) x Inr r status by (auto simp: Let_def intro!: halted_run_last)
      then show ?thesis using 2(2) x Inr False by (auto simp: Let_def completed_result_def)
    next
      case True
      let ?nr = "if res_needs_reboot result then True else nr"
      obtain requests' where loop: "execute_steps_loop env (results @ [?r]) ?nr sxs = (requests', out)"
        and req: "requests = mcp_execute_request step # requests'"
        using 2(2) x Inr True by (auto simp: Let_def split: prod.splits)
      have "\<not> res_status result \<noteq> Succeeded" using True by simp
      from 2(1) [OF x [unfolded Inr, symmetric] refl refl refl this loop]
      obtain added where added: "xo_steps out = results @ [?r] @ added" "halted_run env sxs requests' added"
        "xo_needs_reboot out \<longleftrightarrow> ?nr \<or> (\<exists>r \<in> set added. sr_needs_reboot r)" by auto
      have "halted_run env ((step, x) # sxs) requests (?r # added)"
        unfolding req using r status True added(2) by (intro halted_run_next) simp_all
      then show ?thesis using added by (intro exI [of _ "?r # added"]) (auto simp: completed_result_def)
    qed
  qed
qed (simp add: halted_run_def)

text \<open>C18: The MCP server executes a plan in order, with the receipts it was given, and halts at the first step that did
  not succeed. It sends nothing but executions, one for each step that it reports; all but the last of these
  succeeded, and a step is left out only after one that did not. A step is reported as unknown, with the warning not to
  replay it, exactly when its outcome is unknown; as failed only when the daemon said so, refused it or was
  never reached. The plan needs a reboot when one of its steps does.\<close>

theorem mcp_halts_at_the_first_failure:
  assumes "execute_steps_with_client env sxs = (requests, out)"
  shows "halted_run env sxs requests (xo_steps out)
    \<and> (xo_needs_reboot out \<longleftrightarrow> (\<exists>r \<in> set (xo_steps out). sr_needs_reboot r))"
  using execute_steps_loop_run [OF assms [unfolded execute_steps_with_client_def]] by auto

definition demo_receipt_step :: step_to_execute where
  "demo_receipt_step = \<lparr>se_transaction_id = ''t'', se_action_name = ''UpdateSystem'', se_params = JObj [],
     se_approval_receipt = ''r''\<rparr>"

theorem mcp_halts_at_the_first_failure_witness:
  "halted_run demo_env [(demo_receipt_step, replies ''E''), (demo_receipt_step, replies ''R'')]
     [mcp_execute_request demo_receipt_step]
     [interrupted_result demo_receipt_step [] (execute_failed (ExecutionFailed ''error: unknown''))]"
proof -
  have "execute_with_outcome demo_env (replies ''E'') = ([], Inl (execute_failed (ExecutionFailed ''error: unknown'')))"
    by code_simp
  then have "execute_steps_with_client demo_env [(demo_receipt_step, replies ''E''), (demo_receipt_step, replies ''R'')]
    = ([mcp_execute_request demo_receipt_step],
       \<lparr>xo_steps = [interrupted_result demo_receipt_step [] (execute_failed (ExecutionFailed ''error: unknown''))],
        xo_needs_reboot = False\<rparr>)"
    by (simp add: execute_steps_with_client_def)
  from mcp_halts_at_the_first_failure [OF this] show ?thesis by simp
qed

section \<open>Tools without approval\<close>

lemma lower_injective:
  assumes "is_ascii_uppercase c" "is_ascii_uppercase d" "ascii_lower c = ascii_lower d"
  shows "c = d"
proof -
  have shift: "of_char (char_of (n + 32) :: char) = n + 32" if "n \<le> 90" for n :: nat
    using that by (simp only: of_char_of) simp
  have "(of_char (ascii_lower e) :: nat) = of_char e + 32" if "is_ascii_uppercase e" for e
    unfolding ascii_lower_def if_P [OF that]
    by (rule shift, rule conjunct2, rule that [unfolded is_ascii_uppercase_def])
  from this [OF assms(1)] this [OF assms(2)]
  have "(of_char c :: nat) + 32 = of_char d + 32" unfolding assms(3) by (rule subst)
  then have "(of_char c :: nat) = of_char d" by (rule add_right_imp_eq)
  then show ?thesis by (rule of_char_eq_iff [THEN iffD1])
qed

lemma underscore_no_letter: "is_ascii_alphanumeric c \<Longrightarrow> \<not> is_ascii_uppercase c \<Longrightarrow> c \<noteq> CHR 0x5F"
  by (auto simp: byte_class_defs)

lemma tool_tail_injective:
  "list_all is_ascii_alphanumeric a \<Longrightarrow> list_all is_ascii_alphanumeric b \<Longrightarrow>
     tool_name_loop (Suc i) a = tool_name_loop (Suc j) b \<Longrightarrow> a = b"
proof (induction a arbitrary: b i j)
  case Nil
  then show ?case by (cases b) (simp_all add: to_ascii_lowercase_def)
next
  case (Cons c a)
  then obtain d b' where b: "b = d # b'" by (cases b) (simp_all add: to_ascii_lowercase_def)
  have letters: "is_ascii_alphanumeric c" "is_ascii_alphanumeric d" "list_all is_ascii_alphanumeric a"
      "list_all is_ascii_alphanumeric b'"
    and eq: "tool_name_loop (Suc i) (c # a) = tool_name_loop (Suc j) (d # b')"
    using Cons.prems b by simp_all
  have "c = d \<and> tool_name_loop (Suc (Suc i)) a = tool_name_loop (Suc (Suc j)) b'"
  proof (cases "is_ascii_uppercase c"; cases "is_ascii_uppercase d")
    assume "is_ascii_uppercase c" "is_ascii_uppercase d"
    then show ?thesis using eq lower_injective [of c d] by (simp add: to_ascii_lowercase_def)
  next
    assume "is_ascii_uppercase c" "\<not> is_ascii_uppercase d"
    then show ?thesis using eq underscore_no_letter [OF letters(2)] by (simp add: to_ascii_lowercase_def ascii_lower_id)
  next
    assume "\<not> is_ascii_uppercase c" "is_ascii_uppercase d"
    then show ?thesis using eq underscore_no_letter [OF letters(1)] by (simp add: to_ascii_lowercase_def ascii_lower_id)
  next
    assume "\<not> is_ascii_uppercase c" "\<not> is_ascii_uppercase d"
    then show ?thesis using eq by (simp add: to_ascii_lowercase_def ascii_lower_id)
  qed
  then show ?case using Cons.IH [OF letters(3,4)] b by blast
qed

definition camel_case :: "string \<Rightarrow> bool" where
  "camel_case n \<longleftrightarrow> n \<noteq> [] \<and> is_ascii_uppercase (hd n) \<and> list_all is_ascii_alphanumeric n"

lemma tool_name_injective:
  assumes "camel_case a" "camel_case b" "direct_action_tool_name a = direct_action_tool_name b"
  shows "a = b"
proof -
  obtain c a' d b' where a: "a = c # a'" and b: "b = d # b'"
    using assms(1,2) by (cases a; cases b) (auto simp: camel_case_def)
  then have "c = d" "tool_name_loop (Suc 0) a' = tool_name_loop (Suc 0) b'"
    using assms lower_injective [of c d] by (auto simp: camel_case_def direct_action_tool_name_def to_ascii_lowercase_def)
  then show ?thesis using tool_tail_injective [of a' b'] assms(1,2) a b by (simp add: camel_case_def)
qed

lemma camel_case_bytes:
  "n \<noteq> [] \<and> 65 \<le> byte (hd n) \<and> byte (hd n) \<le> 90 \<and> list_all (\<lambda>c. (65 \<le> byte c \<and> byte c \<le> 90) \<or> (97 \<le> byte c \<and> byte c \<le> 122) \<or> byte c = 50) n \<Longrightarrow> camel_case n"
  unfolding camel_case_def by (auto simp: byte_class_defs byte_def elim!: list.pred_mono_strong)

lemma byte_two: "byte CHR ''2'' = 50"
  by (simp add: byte_def)

lemma read_only_names: "n \<in> set MCP_READ_ONLY_ACTIONS \<Longrightarrow> camel_case n"
proof -
  have "list_all (\<lambda>n. n \<noteq> [] \<and> 65 \<le> byte (hd n) \<and> byte (hd n) \<le> 90
      \<and> list_all (\<lambda>c. (65 \<le> byte c \<and> byte c \<le> 90) \<or> (97 \<le> byte c \<and> byte c \<le> 122) \<or> byte c = 50) n) MCP_READ_ONLY_ACTIONS"
    by (simp add: MCP_READ_ONLY_ACTIONS_def byte_letters byte_two)
  then show "n \<in> set MCP_READ_ONLY_ACTIONS \<Longrightarrow> camel_case n" by (simp add: list_all_iff camel_case_bytes)
qed

lemma direct_read_only_toolsE:
  assumes "(tool, n) \<in> set (direct_read_only_tools distro)"
  obtains spec where "spec \<in> set all_specs" "as_action_name spec = n" "as_risk_level spec = Low"
    "n \<in> set MCP_READ_ONLY_ACTIONS" "n \<notin> set OBSERVER_MUTATING_ACTIONS" "action_is_available_on_distro n distro"
    "tool = direct_action_tool_name n"
  using assms by (auto simp: direct_read_only_tools_def is_direct_read_only_def)



end
