(* ===== verification/Spec2Isabelle.thy ===== *)
theory Spec2Isabelle
  imports Sk_Guarantee_Witnesses Sk_Screen_Guarantees Sk_Limits Sk_Policy Sk_Distro Sk_Platform Sk_Framing Sk_Preview Sk_Day Sk_Mcp_Guarantees
begin

text \<open>
  A verification of sysknife: a daemon that runs administration actions for clients (\<^verbatim>\<open>sysknife-daemon\<close>), where
  an action that changes the host first has to be previewed, then approved, then executed with a
  one-time receipt, and every step of that is signed into an append-only log; and the clients that a person or
  an assistant uses it through. Paths are under \<^verbatim>\<open>src/crates\<close> and \<^verbatim>\<open>src/apps\<close>.

  \<^bold>\<open>How the parts interact.\<close> A client sends JSON in length-prefixed frames (\<^verbatim>\<open>transport/framing.rs\<close>). The
  dispatcher (\<^verbatim>\<open>dispatcher.rs\<close>) resolves who the client is (\<^verbatim>\<open>auth.rs\<close>), asks the policy whether its
  role may run the action (\<^verbatim>\<open>policy.rs\<close>) and the platform fence whether this host may
  (\<^verbatim>\<open>sysknife-core\<close>), turns name and parameters into a command (\<^verbatim>\<open>executor.rs\<close>, \<^verbatim>\<open>actions\<close>) after screening every
  argument (\<^verbatim>\<open>actions/validate.rs\<close>), shows what it would do (\<^verbatim>\<open>preview.rs\<close>), records the preview, the approval,
  the claim and the outcome in the store (\<^verbatim>\<open>transactions.rs\<close>), which signs them into two hash chains
  (\<^verbatim>\<open>audit_chain.rs\<close>), and holds the exclusive resources of an action while it runs (\<^verbatim>\<open>state.rs\<close>).

  On the other side of the socket, the planner (\<^verbatim>\<open>sysknife-brain\<close>) turns a person's request into a plan that a language model
  proposes, and the command line (\<^verbatim>\<open>sysknife-cli\<close>) previews each step, shows it, asks, has it approved and executes it; the
  MCP server (\<^verbatim>\<open>mcp_server.rs\<close>) gives an assistant the queries, the plans and, with receipts that a person obtained, the executions.
  Neither is trusted by the daemon; what they add is that a person sees and decides.

  \<^bold>\<open>Conventions.\<close> Strings are byte strings (\<open>char list\<close>), as \<^verbatim>\<open>str\<close> is in Rust; what the source does to
  \<^verbatim>\<open>char\<close>s is done to bytes where the characters involved are ASCII. \<^verbatim>\<open>Result<T, E>\<close> is \<open>E + T\<close>, structs are
  records, enums are datatypes with the source's variants. Integers of a fixed width are naturals or integers with the
  bound of the type checked where it is parsed (\<open>parse_uint\<close>, \<open>require_u32\<close>) and the cast written out where the source
  casts (\<open>index mod 2 ^ 32\<close>), or words where the source works on bits. JSON is the datatype \<open>json\<close>; an object
  is its list of entries in the order of \<^verbatim>\<open>serde_json::Map\<close>.

  \<^bold>\<open>Theories.\<close>
  \<^item> \<open>Sk_Prelude\<close>: results, \<^verbatim>\<open>str\<close> operations, the collections \<open>byte_class_defs\<close>, \<open>param_defs\<close> and
    others that drive the automation. \<open>Sk_Types\<close>: the types of \<^verbatim>\<open>sysknife-types/src/lib.rs\<close> and their protobuf bridge.
  \<^item> Audit log. \<open>Sk_Encoding\<close>: the signed messages of rows, events and checkpoints, which determine
    what they encode. \<open>Sk_Audit_Chain\<close>: keys, receipts, the walk that verifies a chain. \<open>Sk_Tamper\<close>: the locale
    \<open>signed_chain\<close>, interpreted for both chains, from which tamper evidence follows. \<open>Sk_Audit_Report\<close>: the status
    cross-check, checkpoints, attribution, export, exit codes. \<open>Sk_Jobs\<close>: the status table (\<^verbatim>\<open>jobs.rs\<close>).
  \<^item> Store. \<open>Sk_Store\<close>: the tables as lists of rows and one definition per operation, each SQL statement written
    out; operations that read before their transaction are split where another may come between.
    \<open>Sk_Ledger\<close>: the abstract machine of a transaction's status and receipt. \<open>Sk_Store_Inv\<close>: the
    invariant and its preservation. \<open>Sk_Store_Runs\<close>: \<open>store_step\<close>, every interleaving of operations and crashes.
    \<open>Sk_History\<close>: listings, and the recovery loop at start, whose fuel is one pass per batch of running transactions.
    \<open>Sk_Guarantees\<close> and \<open>Sk_Guarantee_Witnesses\<close>: what follows for every reachable database.
  \<^item> Access. \<open>Sk_Auth\<close>: roles, principals, tokens. \<open>Sk_Policy\<close>: roles of actions and the operator's overrides.
    \<open>Sk_Distro\<close>: \<^verbatim>\<open>os-release\<close>. \<open>Sk_Platform\<close>: the platform fence against the tools that actions drive.
  \<^item> Actions. \<open>Sk_Validate\<close>: all argument screens; \<open>Sk_Screens\<close> (the locale \<open>screen\<close>, interpreted
    for each), \<open>Sk_Screen_Guarantees\<close>, \<open>Sk_Kernel_Args\<close>, \<open>Sk_Ip\<close>: what accepted values can do. \<open>Sk_Params\<close>: parameter
    readers. \<open>Sk_Actions\<close>, \<open>Sk_Actions_Host\<close>, \<open>Sk_Actions_Admin\<close>: the constructors of all actions. \<open>Sk_Build\<close>: all arms
    of \<^verbatim>\<open>build_action_spec\<close>. \<open>Sk_Catalogue\<close>, \<open>Sk_Argv\<close>, \<open>Sk_Limits\<close>: what every built command looks like, each by a
    locale or contract checked entry by entry. \<open>Sk_Preview\<close>: the preview table.
  \<^item> Dispatcher. \<open>Sk_Framing\<close>: frames over a stream that delivers as it likes. \<open>Sk_Redact\<close>: credentials
    in what is shown. \<open>Sk_Request_Hash\<close>: the hash that binds an execution to its preview. \<open>Sk_Handler\<close>: a handler is a
    tree of the points where it awaits, the daemon is \<open>daemon_step\<close> over connections, the database and the slots.
    \<open>Sk_Dispatch\<close>, \<open>Sk_Execute\<close>: every handler and the match of \<^verbatim>\<open>dispatch_loop\<close>.
  \<^item> Proofs about the daemon. \<open>Sk_Rely\<close>: the locale \<open>daemon_contract\<close>, which lifts handlers that are safe alone to
    every interleaving, and the termination of the handlers by a multiset order. \<open>Sk_Logic\<close>: the locale
    \<open>handler_logic\<close>, proof rules for handlers. \<open>Sk_Linear\<close>: the split operations take effect as if
    they had read at their commit. \<open>Sk_Daemon\<close>: each handler meets its obligations. \<open>Sk_Service\<close>: \<open>daemon_contract\<close> is
    interpreted on the handlers, and the properties of the daemon follow. \<open>Sk_Scenario\<close>, \<open>Sk_Day\<close>: scripted runs as witnesses.
  \<^item> Text that was written by somebody else, as lists of scalar values (\<open>Sk_Unicode\<close>: UTF-8). \<open>Sk_Operator_Text\<close>: what is printed above a
    question (\<^verbatim>\<open>operator_text.rs\<close>). \<open>Sk_Tool_Secrets\<close>, \<open>Sk_Sanitize\<close>: what a host prints, on its way to a model
    (\<^verbatim>\<open>tool_secrets.rs\<close>, \<^verbatim>\<open>sanitize.rs\<close>); a slice inside a character is a panic, the value \<open>None\<close>.
  \<^item> Clients. \<open>Sk_Plan\<close>: plans, what is accepted of a model, the routing guard (\<^verbatim>\<open>planner.rs\<close>, \<^verbatim>\<open>propose_plan.rs\<close>,
    \<^verbatim>\<open>refuse.rs\<close>, \<^verbatim>\<open>distro_routing.rs\<close>). \<open>Sk_Client\<close>: errors, the approval policy, the exchanges with the daemon (\<^verbatim>\<open>error.rs\<close>,
    \<^verbatim>\<open>approval.rs\<close>, \<^verbatim>\<open>client.rs\<close>). \<open>Sk_Cli\<close>: running a plan and approving a transaction (\<^verbatim>\<open>runner.rs\<close>, \<^verbatim>\<open>render.rs\<close>) as a tree of
    what is shown, asked and requested, which any answers of operator and daemon unfold. \<open>Sk_Consent\<close>,
    \<open>Sk_Client_Guarantees\<close>: every run is a sequence of consented steps. \<open>Sk_Mcp\<close>, \<open>Sk_Mcp_Guarantees\<close>: the MCP server.

  \<^bold>\<open>What is shown.\<close> The log: rows and events that verify are a prefix of what was stored; every reachable
    database reports clean; statuses follow the table; a receipt is spent once and only with an approval.
    The actions: every command is the daemon's own, on fixed programs, with screened arguments, on the right host,
    under the right lock, priced as the catalogue says. The daemon: nothing runs but what its owner
    approved and its role allows; jobs on one package database exclude each other; every request ends and frees what it
    held; every response is well formed and goes to the owner; the database only sees whole store operations. The clients:
    nothing of high risk runs without a person who saw all of it, unless the gate was lifted with both keys; a receipt needs a
    terminal; risks and platforms are judged as the daemon judges them; an assistant reads only screened text, calls
    without approval only what an observer may query, and stops at the first step that did not succeed.

  \<^bold>\<open>Parameters and assumptions.\<close> Third-party code is a parameter: \<open>crypto\<close> (Ed25519, SHA-256, HKDF, HMAC, hex), with
  \<open>sig_correct\<close>, \<open>hex_laws\<close>, \<open>sig_nonempty\<close> as documented behaviour and \<open>unforgeable\<close> as the assumption under which tampering is
  noticed; the JSON printer (\<open>json_laws\<close>); SQLite's clock and \<^verbatim>\<open>julianday\<close>; \<^verbatim>\<open>chrono\<close>; in the clients the JSON reader and the decoders of
  envelopes (\<open>client_env\<close>, \<open>plan_env\<close>), the removal of escapes, and NFC normalisation, of which \<open>nfc_laws\<close> states what is documented. \<open>Sk_Witness\<close> gives concrete
  instances. A client does not name the identifier of a transaction before the daemon has generated it (\<open>unguessed\<close>: version-4 UUIDs).

  \<^bold>\<open>Not modelled.\<close> Process execution (\<open>execute_spec\<close>: process groups, pipes and deadlines of the operating system; its
  answer is an argument), the collection of the host's state, listening sockets, TLS and peer
  credentials, forwarding to a SIEM and checkpoint sinks (copies of the log; no effect on the daemon's state), the
  PostgreSQL store (a second implementation of the same operations), configuration files. Of the
  planner the prompts, the turns with the model and the providers; of the command line the shell, the diagnosis, the history
  and audit subcommands, and how lines are laid out and coloured; of the MCP server its reports of history, diagnosis and audit,
  its resources, and the protocol.
\<close>

end
